(* ===== verification/Py_Prelude.thy ===== *)
theory Py_Prelude
  imports Complex_Main "HOL-Library.AList" "HOL-Library.Char_ord" "HOL-Library.List_Lexorder"
    "HOL-Library.Sublist"
begin

text \<open>
  Values and library functions of Python that every component of the agent and of the
  server uses: JSON-like values, floats with their special values, dictionaries in
  insertion order, truthiness, the string methods, the conversions \<open>float\<close>, \<open>int\<close>
  and \<open>str\<close>, and exceptions as values of a sum type.

  A character is a code point below 256; a float is an exact rational or one of the three
  special values, so rounding is not modelled.
\<close>

section \<open>Lemma collections\<close>

named_theorems dict_simps \<open>lookups in updated dictionaries\<close>
named_theorems inv_intros \<open>preservation of component invariants\<close>
named_theorems py_defs \<open>definitions of the small Python conversions\<close>

section \<open>Exceptions and results\<close>

datatype py_exc =
    TypeError | ValueError | OverflowError | KeyError | IndexError | AttributeError | OSError
  | RuntimeError | TimeoutError | HTTPException int

type_synonym 'a res = "py_exc + 'a"

definition res_bind :: "'a res \<Rightarrow> ('a \<Rightarrow> 'b res) \<Rightarrow> 'b res" where
  "res_bind r f = (case r of Inl e \<Rightarrow> Inl e | Inr x \<Rightarrow> f x)"

lemma res_bind_simps [simp]:
  "res_bind (Inl e) f = Inl e"
  "res_bind (Inr x) f = f x"
  by (simp_all add: res_bind_def)

lemma res_bind_eq_Inr:
  "res_bind r f = Inr y \<longleftrightarrow> (\<exists>x. r = Inr x \<and> f x = Inr y)"
  by (cases r) auto

primrec all_res :: "'a res list \<Rightarrow> 'a list res" where
  \<comment> \<open>the values of a list of steps, or the first exception\<close>
  "all_res [] = Inr []"
| "all_res (r # rs) = res_bind r (\<lambda>x. res_bind (all_res rs) (\<lambda>xs. Inr (x # xs)))"

section \<open>Values\<close>

datatype pyfloat = Fin rat | PInf | NInf | NaN

text \<open>Python's \<open><\<close> on floats: every comparison with NaN is false.\<close>

fun flt :: "pyfloat \<Rightarrow> pyfloat \<Rightarrow> bool" where
  "flt NaN _ = False"
| "flt _ NaN = False"
| "flt (Fin a) (Fin b) = (a < b)"
| "flt NInf NInf = False"
| "flt NInf _ = True"
| "flt _ PInf = True"
| "flt _ _ = False"

definition fle :: "pyfloat \<Rightarrow> pyfloat \<Rightarrow> bool" where
  "fle a b \<longleftrightarrow> a \<noteq> NaN \<and> b \<noteq> NaN \<and> (flt a b \<or> a = b)"

definition feq :: "pyfloat \<Rightarrow> pyfloat \<Rightarrow> bool" where
  "feq a b \<longleftrightarrow> a \<noteq> NaN \<and> a = b"

text \<open>
  \<open>max(a, b)\<close> and \<open>min(a, b)\<close> of the builtins return the first argument unless the
  second one is strictly larger (smaller), so NaN in first place survives.
\<close>

definition fmax :: "pyfloat \<Rightarrow> pyfloat \<Rightarrow> pyfloat" where
  "fmax a b = (if flt a b then b else a)"

definition fmin :: "pyfloat \<Rightarrow> pyfloat \<Rightarrow> pyfloat" where
  "fmin a b = (if flt b a then b else a)"

definition clampf :: "pyfloat \<Rightarrow> pyfloat \<Rightarrow> pyfloat \<Rightarrow> pyfloat" where
  "clampf lo hi t = fmin (fmax t lo) hi"

fun fscale :: "rat \<Rightarrow> pyfloat \<Rightarrow> pyfloat" where
  "fscale k (Fin a) = Fin (k * a)"
| "fscale k NaN = NaN"
| "fscale k PInf = (if k > 0 then PInf else if k < 0 then NInf else NaN)"
| "fscale k NInf = (if k > 0 then NInf else if k < 0 then PInf else NaN)"

datatype json =
    JNull
  | JBool bool
  | JInt int
  | JFloat pyfloat
  | JStr string
  | JList "json list"
  | JObj "(string \<times> json) list"

type_synonym dict = "(string \<times> json) list"

fun is_str :: "json \<Rightarrow> bool" where "is_str (JStr _) = True" | "is_str _ = False"
fun is_obj :: "json \<Rightarrow> bool" where "is_obj (JObj _) = True" | "is_obj _ = False"
fun is_list :: "json \<Rightarrow> bool" where "is_list (JList _) = True" | "is_list _ = False"
fun is_bool :: "json \<Rightarrow> bool" where "is_bool (JBool _) = True" | "is_bool _ = False"

text \<open>\<open>isinstance(x, (int, float)) and not isinstance(x, bool)\<close>\<close>

fun is_num :: "json \<Rightarrow> bool" where
  "is_num (JInt _) = True"
| "is_num (JFloat _) = True"
| "is_num _ = False"

fun obj_of :: "json \<Rightarrow> dict" where
  "obj_of (JObj d) = d"
| "obj_of _ = []"

fun truthy :: "json \<Rightarrow> bool" where
  "truthy JNull = False"
| "truthy (JBool b) = b"
| "truthy (JInt i) = (i \<noteq> 0)"
| "truthy (JFloat f) = (f \<noteq> Fin 0)"
| "truthy (JStr s) = (s \<noteq> [])"
| "truthy (JList xs) = (xs \<noteq> [])"
| "truthy (JObj d) = (d \<noteq> [])"

definition py_or :: "json \<Rightarrow> json \<Rightarrow> json" where
  "py_or a b = (if truthy a then a else b)"

lemma py_or_simps [simp]:
  "truthy a \<Longrightarrow> py_or a b = a"
  "\<not> truthy a \<Longrightarrow> py_or a b = b"
  by (simp_all add: py_or_def)

section \<open>Dictionaries in insertion order\<close>

definition getv :: "dict \<Rightarrow> string \<Rightarrow> json" where
  \<comment> \<open>\<open>d.get(k)\<close>\<close>
  "getv d k = (case map_of d k of None \<Rightarrow> JNull | Some v \<Rightarrow> v)"

definition getd :: "dict \<Rightarrow> string \<Rightarrow> json \<Rightarrow> json" where
  \<comment> \<open>\<open>d.get(k, v)\<close>\<close>
  "getd d k v = (case map_of d k of None \<Rightarrow> v | Some w \<Rightarrow> w)"

definition has :: "'k \<Rightarrow> ('k \<times> 'b) list \<Rightarrow> bool" where
  \<comment> \<open>\<open>k in d\<close>\<close>
  "has k d \<longleftrightarrow> k \<in> fst ` set d"

definition dset :: "'k \<Rightarrow> 'v \<Rightarrow> ('k \<times> 'v) list \<Rightarrow> ('k \<times> 'v) list" where
  \<comment> \<open>\<open>d[k] = v\<close>: in place, or at the end\<close>
  "dset k v d = AList.update k v d"

definition dpop :: "'k \<Rightarrow> ('k \<times> 'v) list \<Rightarrow> ('k \<times> 'v) list" where
  "dpop k d = AList.delete k d"

definition setdefault :: "'k \<Rightarrow> 'v \<Rightarrow> ('k \<times> 'v) list \<Rightarrow> ('k \<times> 'v) list" where
  "setdefault k v d = (if has k d then d else dset k v d)"

definition dupdate :: "('k \<times> 'v) list \<Rightarrow> ('k \<times> 'v) list \<Rightarrow> ('k \<times> 'v) list" where
  \<comment> \<open>\<open>d.update(e)\<close>, entry by entry\<close>
  "dupdate d e = fold (\<lambda>(k, v) m. dset k v m) e d"

definition dput_if :: "bool \<Rightarrow> string \<Rightarrow> json \<Rightarrow> dict \<Rightarrow> dict" where
  "dput_if c k v d = (if c then dset k v d else d)"

lemma map_of_dset [simp, dict_simps]:
  "map_of (dset k v d) = (map_of d)(k \<mapsto> v)"
  by (simp add: dset_def update_conv')

lemma map_of_dpop [simp, dict_simps]:
  "map_of (dpop k d) = (map_of d)(k := None)"
  by (simp add: dpop_def delete_conv')

lemma map_of_setdefault [dict_simps]:
  "map_of (setdefault k v d) x =
     (if x = k \<and> map_of d k = None then Some v else map_of d x)"
  by (auto simp: setdefault_def has_def map_of_eq_None_iff)

lemma getv_dset [simp, dict_simps]:
  "getv (dset k v d) k' = (if k' = k then v else getv d k')"
  by (simp add: getv_def)

lemma getv_Cons [simp]: "getv ((a, v) # d) k = (if k = a then v else getv d k)"
  by (simp add: getv_def)

lemma getv_Nil [simp]: "getv [] k = JNull"
  by (simp add: getv_def)

lemma getv_dput_if [dict_simps]:
  "getv (dput_if c k v d) k' = (if c \<and> k' = k then v else getv d k')"
  by (simp add: dput_if_def)

lemma map_of_dput_if [dict_simps]:
  "map_of (dput_if c k v d) k' = (if c \<and> k' = k then Some v else map_of d k')"
  by (simp add: dput_if_def)

lemma getv_setdefault [dict_simps]:
  "getv (setdefault k v d) x = (if x = k \<and> map_of d k = None then v else getv d x)"
  by (simp add: getv_def map_of_setdefault)

lemma has_map_of: "has k d \<longleftrightarrow> map_of d k \<noteq> None"
  by (simp add: has_def map_of_eq_None_iff)

lemma has_dset [simp]: "has x (dset k v d) \<longleftrightarrow> x = k \<or> has x d"
  by (simp add: has_map_of)

lemma keys_dset: "fst ` set (dset k v d) = insert k (fst ` set d)"
  by (simp add: dset_def dom_update)

lemma distinct_dset [intro]: "distinct (map fst d) \<Longrightarrow> distinct (map fst (dset k v d))"
  by (simp add: dset_def distinct_update)

lemma distinct_dpop [intro]: "distinct (map fst d) \<Longrightarrow> distinct (map fst (dpop k d))"
  by (simp add: dpop_def distinct_delete)

lemma map_of_dupdate:
  "map_of (dupdate d e) k = (case map_of (rev e) k of None \<Rightarrow> map_of d k | Some v \<Rightarrow> Some v)"
proof (induction e arbitrary: d)
  case Nil
  then show ?case by (simp add: dupdate_def)
next
  case (Cons p e)
  obtain a v where p: "p = (a, v)" by (cases p)
  have "map_of (dupdate d (p # e)) k = map_of (dupdate (dset a v d) e) k"
    by (simp add: dupdate_def p)
  also have "\<dots> = (case map_of (rev e) k of None \<Rightarrow> map_of (dset a v d) k | Some w \<Rightarrow> Some w)"
    by (rule Cons.IH)
  finally show ?case by (auto simp: p map_add_def split: option.splits)
qed

end
