(* ===== verification/Py_Text.thy ===== *)
theory Py_Text
  imports Py_Prelude
begin

text \<open>
  Python's text functions as far as the program uses them: the string methods
  (\<open>strip\<close>, \<open>lower\<close>, \<open>startswith\<close>, \<open>endswith\<close>, \<open>split\<close>, \<open>join\<close>,
  \<open>replace\<close>, \<open>in\<close>), the conversions \<open>str\<close>, \<open>repr\<close>, \<open>int\<close> and
  \<open>float\<close>, and \<open>json.dumps\<close> with and without sorted keys.
\<close>

section \<open>String methods\<close>

definition code_point :: "char \<Rightarrow> nat" where
  "code_point c = of_char c"

definition is_space :: "char \<Rightarrow> bool" where
  "is_space c = (let n = code_point c in
     (9 \<le> n \<and> n \<le> 13) \<or> (28 \<le> n \<and> n \<le> 32) \<or> n = 133 \<or> n = 160)"

definition lstrip :: "string \<Rightarrow> string" where
  "lstrip s = dropWhile is_space s"

definition rstrip :: "string \<Rightarrow> string" where
  "rstrip s = rev (dropWhile is_space (rev s))"

definition strip :: "string \<Rightarrow> string" where
  "strip s = rstrip (lstrip s)"

definition lower_char :: "char \<Rightarrow> char" where
  "lower_char c = (let n = code_point c in
     if (65 \<le> n \<and> n \<le> 90) \<or> (192 \<le> n \<and> n \<le> 222 \<and> n \<noteq> 215) then char_of (n + 32) else c)"

definition lower :: "string \<Rightarrow> string" where
  "lower s = map lower_char s"

definition upper_char :: "char \<Rightarrow> char" where
  "upper_char c = (if 97 \<le> code_point c \<and> code_point c \<le> 122 then char_of (code_point c - 32) else c)"

definition startswith :: "string \<Rightarrow> string \<Rightarrow> bool" where
  "startswith s p = (take (length p) s = p)"

definition endswith :: "string \<Rightarrow> string \<Rightarrow> bool" where
  "endswith s p = startswith (rev s) (rev p)"

fun contains :: "string \<Rightarrow> string \<Rightarrow> bool" where
  \<comment> \<open>\<open>p in s\<close>\<close>
  "contains [] p = (p = [])"
| "contains (c # s) p = (startswith (c # s) p \<or> contains s p)"

fun join :: "string \<Rightarrow> string list \<Rightarrow> string" where
  "join sep [] = []"
| "join sep [x] = x"
| "join sep (x # y # xs) = x @ sep @ join sep (y # xs)"

fun split_char :: "char \<Rightarrow> string \<Rightarrow> string list" where
  \<comment> \<open>\<open>s.split(c)\<close> for a one-character separator\<close>
  "split_char c [] = [[]]"
| "split_char c (x # s) =
     (if x = c then [] # split_char c s
      else (case split_char c s of [] \<Rightarrow> [[x]] | w # ws \<Rightarrow> (x # w) # ws))"

definition split_words :: "string \<Rightarrow> string list" where
  \<comment> \<open>\<open>s.split()\<close>\<close>
  "split_words s = filter (\<lambda>w. w \<noteq> [])
     (split_char (CHR '' '') (map (\<lambda>c. if is_space c then CHR '' '' else c) s))"

fun replace_char :: "char \<Rightarrow> string \<Rightarrow> string \<Rightarrow> string" where
  \<comment> \<open>\<open>s.replace(c, t)\<close> for a one-character pattern\<close>
  "replace_char c t [] = []"
| "replace_char c t (x # s) = (if x = c then t else [x]) @ replace_char c t s"

lemma strip_Nil [simp]: "strip [] = []"
  by (simp add: strip_def rstrip_def lstrip_def)

text \<open>Stripping twice is stripping once.\<close>

lemma lstrip_nonspace: "s = [] \<or> \<not> is_space (hd s) \<Longrightarrow> lstrip s = s"
  by (cases s) (auto simp: lstrip_def)

lemma rstrip_split: "\<exists>t. s = rstrip s @ t \<and> (\<forall>c \<in> set t. is_space c)"
proof -
  have "s = rev (dropWhile is_space (rev s)) @ rev (takeWhile is_space (rev s))"
    by (metis rev_append rev_rev_ident takeWhile_dropWhile_id)
  then show ?thesis
    unfolding rstrip_def by (intro exI [of _ "rev (takeWhile is_space (rev s))"]) (auto dest: set_takeWhileD)
qed

lemma strip_no_space:
  assumes "\<forall>c \<in> set s. \<not> is_space c"
  shows "strip s = s"
proof -
  have "dropWhile is_space t = t" if "\<forall>c \<in> set t. \<not> is_space c" for t using that by (cases t) auto
  from this [of s] this [of "rev s"] assms show ?thesis by (simp add: strip_def lstrip_def rstrip_def)
qed

lemma strip_strip [simp]: "strip (strip s) = strip s"
proof -
  let ?l = "lstrip s"
  have "rstrip (rstrip ?l) = rstrip ?l" by (simp add: rstrip_def)
  moreover have "lstrip (rstrip ?l) = rstrip ?l"
  proof (rule lstrip_nonspace)
    obtain t where t: "?l = rstrip ?l @ t" using rstrip_split by blast
    have "?l = [] \<or> \<not> is_space (hd ?l)"
      unfolding lstrip_def by (metis hd_dropWhile)
    moreover have "hd ?l = hd (rstrip ?l)" if "rstrip ?l \<noteq> []"
      by (subst t) (rule hd_append2 [OF that])
    ultimately show "rstrip ?l = [] \<or> \<not> is_space (hd (rstrip ?l))"
      by (metis rstrip_def dropWhile.simps(1) rev.simps(1))
  qed
  ultimately show ?thesis by (simp add: strip_def)
qed

lemma startswith_append [simp]: "startswith (p @ s) p"
  by (simp add: startswith_def)

lemma startswith_iff: "startswith s p \<longleftrightarrow> (\<exists>r. s = p @ r)"
  unfolding startswith_def by (metis append_eq_conv_conj append_take_drop_id)

lemma contains_append: "contains (a @ p @ b) p"
proof (induction a)
  case Nil
  show ?case
  proof (cases "p @ b")
    case (Cons c s)
    then have "startswith (c # s) p" by (metis startswith_append)
    with Cons show ?thesis by simp
  qed simp
next
  case (Cons x a)
  then show ?case by simp
qed

lemma split_char_nonempty [simp]: "split_char c s \<noteq> []"
  by (induction s) (auto split: list.splits)

text \<open>Splitting at a separator undoes joining pieces that do not hold it.\<close>

lemma split_char_no: "c \<notin> set s \<Longrightarrow> split_char c s = [s]"
  by (induction s) auto

lemma split_char_append:
  "c \<notin> set x \<Longrightarrow> split_char c (x @ c # s) = x # split_char c s"
  by (induction x) auto

lemma split_char_join:
  "xs \<noteq> [] \<Longrightarrow> \<forall>x \<in> set xs. c \<notin> set x \<Longrightarrow> split_char c (join [c] xs) = xs"
proof (induction "[c]" xs rule: join.induct)
  case (3 x y xs)
  then show ?case by (simp add: split_char_append)
qed (simp_all add: split_char_no)

lemma join_inj:
  assumes "join [c] xs = join [c] ys" "xs \<noteq> []" "ys \<noteq> []"
    and "\<forall>x \<in> set xs. c \<notin> set x" "\<forall>y \<in> set ys. c \<notin> set y"
  shows "xs = ys"
  using assms split_char_join by metis

section \<open>Evaluating lookups of string keys\<close>

text \<open>
  Equality of strings that stops at the first difference, and membership and lookup on top
  of it: the evaluator unfolds these instead of the general functions.
\<close>

fun streq :: "string \<Rightarrow> string \<Rightarrow> bool" where
  "streq [] [] = True"
| "streq (x # xs) (y # ys) = (if x = y then streq xs ys else False)"
| "streq _ _ = False"

fun mem_s :: "string \<Rightarrow> string list \<Rightarrow> bool" where
  "mem_s k [] = False"
| "mem_s k (x # xs) = (if streq x k then True else mem_s k xs)"

fun assoc_s :: "(string \<times> 'v) list \<Rightarrow> string \<Rightarrow> 'v option" where
  "assoc_s [] k = None"
| "assoc_s ((a, v) # d) k = (if streq a k then Some v else assoc_s d k)"

lemma streq_iff [simp]: "streq a b \<longleftrightarrow> a = b"
  by (induction a b rule: streq.induct) auto

lemma mem_s_code [code_unfold]: "k \<in> set xs \<longleftrightarrow> mem_s k xs"
  by (induction xs) auto

lemma assoc_s_code [code_unfold]: "map_of d = assoc_s (d :: (string \<times> 'v) list)"
proof
  fix k show "map_of d k = assoc_s d k" by (induction d) auto
qed

lemma string_eq_code [code_unfold]: "(a = b) = streq a b"
  by simp

fun distinct_s :: "string list \<Rightarrow> bool" where
  "distinct_s [] = True"
| "distinct_s (x # xs) = (if mem_s x xs then False else distinct_s xs)"

lemma distinct_s_code [code_unfold]: "distinct xs = distinct_s xs"
  by (induction xs) (auto simp: mem_s_code)

section \<open>Decimal numerals\<close>

definition digit_char :: "nat \<Rightarrow> char" where
  "digit_char d = char_of (48 + d)"

fun nat_digits :: "nat \<Rightarrow> string" where
  "nat_digits n =
     (if n < 10 then [digit_char n] else nat_digits (n div 10) @ [digit_char (n mod 10)])"

declare nat_digits.simps [simp del]

definition int_str :: "int \<Rightarrow> string" where
  "int_str i = (if i < 0 then CHR ''-'' # nat_digits (nat (- i)) else nat_digits (nat i))"

definition is_digit :: "char \<Rightarrow> bool" where
  "is_digit c = (48 \<le> code_point c \<and> code_point c \<le> 57)"

definition digit_val :: "char \<Rightarrow> nat" where
  "digit_val c = code_point c - 48"

definition digits_val :: "string \<Rightarrow> nat" where
  "digits_val s = foldl (\<lambda>n c. 10 * n + digit_val c) 0 s"

lemma ord_digit_char: "d < 10 \<Longrightarrow> code_point (digit_char d) = 48 + d"
  by (simp add: code_point_def digit_char_def)

lemma is_digit_digit_char [simp]: "d < 10 \<Longrightarrow> is_digit (digit_char d)"
  by (simp add: is_digit_def ord_digit_char)

lemma digit_val_digit_char [simp]: "d < 10 \<Longrightarrow> digit_val (digit_char d) = d"
  by (simp add: digit_val_def ord_digit_char)

lemma nat_digits_all_digits: "\<forall>c \<in> set (nat_digits n). is_digit c"
proof (induction n rule: nat_digits.induct)
  case (1 n)
  then show ?case by (subst nat_digits.simps) auto
qed

lemma nat_digits_nonempty [simp]: "nat_digits n \<noteq> []"
  by (subst nat_digits.simps) simp

lemma digits_val_nat_digits [simp]: "digits_val (nat_digits n) = n"
proof (induction n rule: nat_digits.induct)
  case (1 n)
  show ?case
  proof (cases "n < 10")
    case True
    then show ?thesis by (subst nat_digits.simps) (simp add: digits_val_def)
  next
    case False
    with 1 have "digits_val (nat_digits (n div 10)) = n div 10" by simp
    with False show ?thesis by (subst nat_digits.simps) (simp add: digits_val_def)
  qed
qed

text \<open>Numerals read by \<open>int\<close> and \<open>float\<close>: single underscores between digits.\<close>

fun take_digits :: "bool \<Rightarrow> string \<Rightarrow> string \<times> string" where
  \<comment> \<open>the flag says that the previous character was a digit\<close>
  "take_digits p [] = ([], [])"
| "take_digits p (c # s) =
     (if is_digit c then (let (ds, r) = take_digits True s in (c # ds, r))
      else if c = CHR ''_'' \<and> p \<and> s \<noteq> [] \<and> is_digit (hd s) then take_digits False s
      else ([], c # s))"

definition take_sign :: "string \<Rightarrow> int \<times> string" where
  "take_sign s = (case s of
      c # r \<Rightarrow> if c = CHR ''-'' then (- 1, r) else if c = CHR ''+'' then (1, r) else (1, s)
    | [] \<Rightarrow> (1, []))"

definition parse_int :: "string \<Rightarrow> int option" where
  "parse_int s = (let (sg, r) = take_sign (strip s); (ds, rest) = take_digits False r
     in if ds \<noteq> [] \<and> rest = [] then Some (sg * int (digits_val ds)) else None)"

definition frac_val :: "string \<Rightarrow> rat" where
  "frac_val ds = rat_of_nat (digits_val ds) / 10 ^ length ds"

definition parse_exp :: "string \<Rightarrow> int option" where
  \<comment> \<open>the optional exponent, to the end of the text\<close>
  "parse_exp s = (case s of
      [] \<Rightarrow> Some 0
    | c # r \<Rightarrow>
       if c = CHR ''e'' \<or> c = CHR ''E'' then
         (let (sg, r') = take_sign r; (ds, rest) = take_digits False r'
          in if ds \<noteq> [] \<and> rest = [] then Some (sg * int (digits_val ds)) else None)
       else None)"

definition pow10 :: "int \<Rightarrow> rat" where
  "pow10 e = (if e < 0 then 1 / 10 ^ nat (- e) else 10 ^ nat e)"

definition max_double :: rat where
  \<comment> \<open>from here on a rational rounds to infinity as a binary64 float\<close>
  "max_double = 2 ^ 1024 - 2 ^ 970"

definition fin :: "rat \<Rightarrow> pyfloat" where
  "fin q = (if q \<ge> max_double then PInf else if q \<le> - max_double then NInf else Fin q)"

definition parse_float :: "string \<Rightarrow> pyfloat option" where
  "parse_float s =
     (let (sg, r) = take_sign (strip s); w = lower r in
      if w = ''nan'' then Some NaN
      else if w = ''inf'' \<or> w = ''infinity'' then Some (if sg < 0 then NInf else PInf)
      else
        (let (ds, r1) = take_digits False r;
             (fs, r2) = (case r1 of
                 c # t \<Rightarrow> if c = CHR ''.'' then take_digits False t else ([], r1)
               | [] \<Rightarrow> ([], []))
         in if ds = [] \<and> fs = [] then None
            else (case parse_exp r2 of
                None \<Rightarrow> None
              | Some e \<Rightarrow> Some (fin (of_int sg
                  * (rat_of_nat (digits_val ds) + frac_val fs) * pow10 e)))))"

section \<open>Conversions\<close>

fun py_float :: "json \<Rightarrow> pyfloat res" where
  "py_float (JBool b) = Inr (Fin (if b then 1 else 0))"
| "py_float (JInt i) = (if \<bar>of_int i\<bar> < max_double then Inr (Fin (of_int i)) else Inl OverflowError)"
| "py_float (JFloat f) = Inr f"
| "py_float (JStr s) = (case parse_float s of None \<Rightarrow> Inl ValueError | Some f \<Rightarrow> Inr f)"
| "py_float _ = Inl TypeError"

definition truncate :: "rat \<Rightarrow> int" where
  "truncate q = (if q < 0 then - \<lfloor>- q\<rfloor> else \<lfloor>q\<rfloor>)"

fun int_of_float :: "pyfloat \<Rightarrow> int res" where
  "int_of_float (Fin q) = Inr (truncate q)"
| "int_of_float NaN = Inl ValueError"
| "int_of_float _ = Inl OverflowError"

fun py_int :: "json \<Rightarrow> int res" where
  "py_int (JBool b) = Inr (if b then 1 else 0)"
| "py_int (JInt i) = Inr i"
| "py_int (JFloat f) = int_of_float f"
| "py_int (JStr s) = (case parse_int s of None \<Rightarrow> Inl ValueError | Some i \<Rightarrow> Inr i)"
| "py_int _ = Inl TypeError"

fun py_iter :: "json \<Rightarrow> json list res" where
  \<comment> \<open>the elements a \<open>for\<close> loop sees\<close>
  "py_iter (JList xs) = Inr xs"
| "py_iter (JStr s) = Inr (map (\<lambda>c. JStr [c]) s)"
| "py_iter (JObj d) = Inr (map (\<lambda>p. JStr (fst p)) d)"
| "py_iter _ = Inl TypeError"

definition py_get :: "json \<Rightarrow> string \<Rightarrow> json res" where
  \<comment> \<open>\<open>x.get(k)\<close>: only dictionaries have the method\<close>
  "py_get v k = (case v of JObj d \<Rightarrow> Inr (getv d k) | _ \<Rightarrow> Inl AttributeError)"

lemma py_float_small [simp]: "\<bar>i\<bar> \<le> 1000000000 \<Longrightarrow> py_float (JInt i) = Inr (Fin (of_int i))"
proof -
  assume i: "\<bar>i\<bar> \<le> 1000000000"
  have "(of_int \<bar>i\<bar> :: rat) \<le> of_int 1000000000" using i by (simp only: of_int_le_iff)
  also have "\<dots> < max_double" by (simp add: max_double_def)
  finally show ?thesis by simp
qed

text \<open>The shortest positional decimal of a float, cut at 17 fractional digits.\<close>

fun frac_digits :: "nat \<Rightarrow> rat \<Rightarrow> string" where
  "frac_digits 0 q = []"
| "frac_digits (Suc n) q =
     (if q = 0 then [] else (let d = \<lfloor>10 * q\<rfloor> in
        digit_char (nat d) # frac_digits n (10 * q - of_int d)))"

definition rat_str :: "rat \<Rightarrow> string" where
  "rat_str q = (let a = \<bar>q\<bar>; i = \<lfloor>a\<rfloor>; f = frac_digits 17 (a - of_int i)
     in (if q < 0 then ''-'' else []) @ nat_digits (nat i) @ ''.''
        @ (if f = [] then ''0'' else f))"

fun float_repr :: "pyfloat \<Rightarrow> string" where
  "float_repr (Fin q) = rat_str q"
| "float_repr NaN = ''nan''"
| "float_repr PInf = ''inf''"
| "float_repr NInf = ''-inf''"

definition hex_digit :: "nat \<Rightarrow> char" where
  "hex_digit d = (if d < 10 then digit_char d else char_of (87 + d))"

definition repr_char :: "char \<Rightarrow> char \<Rightarrow> string" where
  "repr_char q c = (let n = code_point c in
     if c = q \<or> n = 92 then [CHR 0x5C, c]
     else if n = 10 then [CHR 0x5C, CHR ''n'']
     else if n = 13 then [CHR 0x5C, CHR ''r'']
     else if n = 9 then [CHR 0x5C, CHR ''t'']
     else if n < 32 \<or> (127 \<le> n \<and> n \<le> 160) \<or> n = 173 then
       [CHR 0x5C, CHR ''x'', hex_digit (n div 16), hex_digit (n mod 16)]
     else [c])"

definition str_repr :: "string \<Rightarrow> string" where
  "str_repr s =
     (let q = (if CHR 0x27 \<in> set s \<and> CHR 0x22 \<notin> set s then CHR 0x22 else CHR 0x27)
      in q # concat (map (repr_char q) s) @ [q])"

fun py_repr :: "json \<Rightarrow> string" where
  "py_repr JNull = ''None''"
| "py_repr (JBool b) = (if b then ''True'' else ''False'')"
| "py_repr (JInt i) = int_str i"
| "py_repr (JFloat f) = float_repr f"
| "py_repr (JStr s) = str_repr s"
| "py_repr (JList xs) = ''['' @ join '', '' (map py_repr xs) @ '']''"
| "py_repr (JObj d) =
     ''{'' @ join '', '' (map (\<lambda>(k, v). str_repr k @ '': '' @ py_repr v) d) @ ''}''"

fun py_str :: "json \<Rightarrow> string" where
  "py_str (JStr s) = s"
| "py_str v = py_repr v"

definition str_strip :: "json \<Rightarrow> string res" where
  \<comment> \<open>\<open>x.strip()\<close>: only strings have the method\<close>
  "str_strip v = (case v of JStr s \<Rightarrow> Inr (strip s) | _ \<Rightarrow> Inl AttributeError)"

definition str_or :: "json \<Rightarrow> string \<Rightarrow> string" where
  \<comment> \<open>\<open>str(x or s)\<close>\<close>
  "str_or v s = py_str (py_or v (JStr s))"

lemma str_or_JStr [simp]: "str_or (JStr t) s = (if t = [] then s else t)"
  by (simp add: str_or_def py_or_def)

lemma str_or_JNull [simp]: "str_or JNull s = s"
  by (simp add: str_or_def)

section \<open>json.dumps\<close>

definition json_escape :: "char \<Rightarrow> string" where
  "json_escape c = (let n = code_point c in
     if n = 34 \<or> n = 92 then [CHR 0x5C, c]
     else if n = 10 then [CHR 0x5C, CHR ''n'']
     else if n = 13 then [CHR 0x5C, CHR ''r'']
     else if n = 9 then [CHR 0x5C, CHR ''t'']
     else if n = 8 then [CHR 0x5C, CHR ''b'']
     else if n = 12 then [CHR 0x5C, CHR ''f'']
     else if n < 32 then [CHR 0x5C] @ ''u00'' @ [hex_digit (n div 16), hex_digit (n mod 16)]
     else [c])"

definition json_string :: "string \<Rightarrow> string" where
  "json_string s = [CHR 0x22] @ concat (map json_escape s) @ [CHR 0x22]"

fun float_json :: "pyfloat \<Rightarrow> string" where
  "float_json (Fin q) = rat_str q"
| "float_json NaN = ''NaN''"
| "float_json PInf = ''Infinity''"
| "float_json NInf = ''-Infinity''"

fun dumps :: "string \<Rightarrow> string \<Rightarrow> json \<Rightarrow> string" where
  \<comment> \<open>item and key separators; \<open>ensure_ascii=False\<close>\<close>
  "dumps i k JNull = ''null''"
| "dumps i k (JBool b) = (if b then ''true'' else ''false'')"
| "dumps i k (JInt n) = int_str n"
| "dumps i k (JFloat f) = float_json f"
| "dumps i k (JStr s) = json_string s"
| "dumps i k (JList xs) = ''['' @ join i (map (dumps i k) xs) @ '']''"
| "dumps i k (JObj d) =
     ''{'' @ join i (map (\<lambda>(a, v). json_string a @ k @ dumps i k v) d) @ ''}''"

fun sort_keys :: "json \<Rightarrow> json" where
  "sort_keys (JList xs) = JList (map sort_keys xs)"
| "sort_keys (JObj d) = JObj (sort_key fst (map (\<lambda>(a, v). (a, sort_keys v)) d))"
| "sort_keys v = v"

definition dumps_default :: "json \<Rightarrow> string" where
  \<comment> \<open>\<open>json.dumps(v, ensure_ascii=False)\<close>\<close>
  "dumps_default v = dumps '', '' '': '' v"

definition dumps_sorted :: "json \<Rightarrow> string" where
  \<comment> \<open>\<open>json.dumps(v, sort_keys=True, separators=(",", ":"), ensure_ascii=False)\<close>\<close>
  "dumps_sorted v = dumps '','' '':'' (sort_keys v)"

end
