(* ===== verification/Iso_Time.thy ===== *)
theory Iso_Time
  imports Py_Text
begin

text \<open>
  Instants and their ISO 8601 text. An aware datetime is the number of microseconds since
  1970-01-01T00:00Z; a naive one keeps its wall-clock reading on the same axis and is
  marked so, because comparing the two raises TypeError. \<open>isoformat\<close> and the extended
  format that \<open>fromisoformat\<close> reads are written out over the proleptic Gregorian
  calendar; the basic and the week-date formats of newer Pythons are read as invalid.
\<close>

section \<open>Calendar\<close>

definition is_leap :: "int \<Rightarrow> bool" where
  "is_leap y \<longleftrightarrow> y mod 4 = 0 \<and> (y mod 100 \<noteq> 0 \<or> y mod 400 = 0)"

definition days_in_month :: "int \<Rightarrow> int \<Rightarrow> int" where
  "days_in_month y m =
     (if m = 2 then (if is_leap y then 29 else 28)
      else if m = 4 \<or> m = 6 \<or> m = 9 \<or> m = 11 then 30 else 31)"

definition days_before_year :: "int \<Rightarrow> int" where
  "days_before_year y = (let x = y - 1 in x * 365 + x div 4 - x div 100 + x div 400)"

definition month_list :: "int list" where
  "month_list = [1, 2, 3, 4, 5, 6, 7, 8, 9, 10, 11, 12]"

fun month_walk :: "int \<Rightarrow> int list \<Rightarrow> int \<Rightarrow> int \<times> int" where
  \<comment> \<open>month and day of a 0-based day of the year\<close>
  "month_walk y [] n = (12, n + 1)"
| "month_walk y (m # ms) n =
     (if n < days_in_month y m then (m, n + 1) else month_walk y ms (n - days_in_month y m))"

fun days_before :: "int \<Rightarrow> int list \<Rightarrow> int \<Rightarrow> int" where
  "days_before y [] m = 0"
| "days_before y (k # ms) m = (if k = m then 0 else days_in_month y k + days_before y ms m)"

definition year_of :: "int \<Rightarrow> int \<times> int" where
  \<comment> \<open>year and 0-based day of the year of a 0-based ordinal (0 is 0001-01-01)\<close>
  "year_of n =
     (let n400 = n div 146097; r1 = n mod 146097;
          n100 = r1 div 36524; r2 = r1 mod 36524;
          n4 = r2 div 1461; r3 = r2 mod 1461;
          n1 = r3 div 365; r4 = r3 mod 365;
          y = 400 * n400 + 100 * n100 + 4 * n4 + n1 + 1
      in if n1 = 4 \<or> n100 = 4 then (y - 1, 365) else (y, r4))"

definition ymd_of :: "int \<Rightarrow> int \<times> int \<times> int" where
  "ymd_of n = (let (y, doy) = year_of n; (m, d) = month_walk y month_list doy in (y, m, d))"

definition ord_of :: "int \<times> int \<times> int \<Rightarrow> int" where
  "ord_of t = (case t of (y, m, d) \<Rightarrow>
     days_before_year y + days_before y month_list m + (d - 1))"

definition valid_date :: "int \<times> int \<times> int \<Rightarrow> bool" where
  "valid_date t = (case t of (y, m, d) \<Rightarrow>
     1 \<le> y \<and> y \<le> 9999 \<and> 1 \<le> m \<and> m \<le> 12 \<and> 1 \<le> d \<and> d \<le> days_in_month y m)"

definition max_ord :: int where "max_ord = 3652059"

lemma days_in_month_pos: "0 < days_in_month y m"
  by (simp add: days_in_month_def)

lemma dby_parts:
  assumes "0 \<le> b" "b \<le> 3" "0 \<le> c" "c \<le> 24" "0 \<le> d" "d \<le> (3::int)"
  shows "days_before_year (400 * a + 100 * b + 4 * c + d + 1)
           = 146097 * a + 36524 * b + 1461 * c + 365 * d"
    and "is_leap (400 * a + 100 * b + 4 * c + d + 1) \<longleftrightarrow> d = 3 \<and> (c \<noteq> 24 \<or> b = 3)"
proof -
  let ?x = "400 * a + 100 * b + 4 * c + d"
  have 1: "?x div 4 = 100 * a + 25 * b + c"
    by (rule int_div_pos_eq [where r = d]) (use assms in auto)
  have 2: "?x div 100 = 4 * a + b"
    by (rule int_div_pos_eq [where r = "4 * c + d"]) (use assms in auto)
  have 3: "?x div 400 = a"
    by (rule int_div_pos_eq [where r = "100 * b + 4 * c + d"]) (use assms in auto)
  show "days_before_year (?x + 1) = 146097 * a + 36524 * b + 1461 * c + 365 * d"
    unfolding days_before_year_def Let_def add_diff_cancel_right' 1 2 3 by simp
  show "is_leap (?x + 1) \<longleftrightarrow> d = 3 \<and> (c \<noteq> 24 \<or> b = 3)"
  proof (cases "d = 3")
    case True
    have m4: "(?x + 1) mod 4 = 0"
      by (rule int_mod_pos_eq [where q = "100 * a + 25 * b + c + 1"]) (use True in auto)
    show ?thesis
    proof (cases "c = 24")
      case c: True
      have m100: "(?x + 1) mod 100 = 0"
        by (rule int_mod_pos_eq [where q = "4 * a + b + 1"]) (use True c in auto)
      have m400: "(?x + 1) mod 400 = (if b = 3 then 0 else 100 * (b + 1))"
        by (rule int_mod_pos_eq [where q = "if b = 3 then a + 1 else a"])
          (use True c assms in auto)
      show ?thesis using m4 m100 m400 True c assms by (auto simp: is_leap_def)
    next
      case False
      have m100: "(?x + 1) mod 100 = 4 * (c + 1)"
        by (rule int_mod_pos_eq [where q = "4 * a + b"]) (use True False assms in auto)
      show ?thesis using m4 m100 True False assms by (auto simp: is_leap_def)
    qed
  next
    case False
    have "(?x + 1) mod 4 = d + 1"
      by (rule int_mod_pos_eq [where q = "100 * a + 25 * b + c"]) (use False assms in auto)
    then show ?thesis using False assms by (auto simp: is_leap_def)
  qed
qed

lemma div_pred:
  assumes "0 < (k :: int)"
  shows "y div k = (y - 1) div k + (if y mod k = 0 then 1 else 0)"
proof (cases "y mod k = 0")
  case True
  have "(y - 1) div k = y div k - 1"
  proof (rule int_div_pos_eq [where r = "k - 1"])
    have "y = k * (y div k)" using True by (metis add.right_neutral mult_div_mod_eq)
    then show "y - 1 = k * (y div k - 1) + (k - 1)" by (simp add: algebra_simps)
  qed (use assms in auto)
  with True show ?thesis by simp
next
  case False
  have "(y - 1) div k = y div k"
  proof (rule int_div_pos_eq [where r = "y mod k - 1"])
    show "y - 1 = k * (y div k) + (y mod k - 1)" by simp
    show "0 \<le> y mod k - 1" using False pos_mod_sign [of k y] assms by linarith
    show "y mod k - 1 < k" using pos_mod_bound [of k y] assms by linarith
  qed
  with False show ?thesis by simp
qed

lemma days_before_year_Suc:
  "days_before_year (y + 1) = days_before_year y + (if is_leap y then 366 else 365)"
proof -
  note dv = div_pred [of 4 y] div_pred [of 100 y] div_pred [of 400 y]
  have "(4 :: int) dvd 100" "(100 :: int) dvd 400" by simp_all
  then have md: "y mod 100 = 0 \<longrightarrow> y mod 4 = 0" "y mod 400 = 0 \<longrightarrow> y mod 100 = 0"
    by (meson dvd_trans mod_0_imp_dvd mod_eq_0_iff_dvd)+
  show ?thesis
    unfolding days_before_year_def is_leap_def Let_def add_diff_cancel_right'
    using dv md by (smt (verit))
qed

lemma days_before_year_mono: "y \<le> z \<Longrightarrow> days_before_year y + 365 * (z - y) \<le> days_before_year z"
proof (induction z rule: int_ge_induct)
  case (step z)
  then show ?case using days_before_year_Suc [of z] by (simp add: algebra_simps)
qed simp

lemma year_of_spec:
  assumes "year_of n = (y, doy)"
  shows "days_before_year y + doy = n" "0 \<le> doy" "doy < (if is_leap y then 366 else 365)"
proof -
  define a where "a = n div 146097"
  define r1 where "r1 = n mod 146097"
  define b where "b = r1 div 36524"
  define r2 where "r2 = r1 mod 36524"
  define c where "c = r2 div 1461"
  define r3 where "r3 = r2 mod 1461"
  define d where "d = r3 div 365"
  define r4 where "r4 = r3 mod 365"
  have n: "n = 146097 * a + r1" "0 \<le> r1" "r1 < 146097"
    by (auto simp: a_def r1_def)
  have r1: "r1 = 36524 * b + r2" "0 \<le> r2" "r2 < 36524"
    by (auto simp: b_def r2_def)
  have r2: "r2 = 1461 * c + r3" "0 \<le> r3" "r3 < 1461"
    by (auto simp: c_def r3_def)
  have r3: "r3 = 365 * d + r4" "0 \<le> r4" "r4 < 365"
    by (auto simp: d_def r4_def)
  have "0 \<le> b" unfolding b_def using n(2) by (simp only: pos_imp_zdiv_nonneg_iff)
  moreover have "0 \<le> c" unfolding c_def using r1(2) by (simp only: pos_imp_zdiv_nonneg_iff)
  moreover have "0 \<le> d" unfolding d_def using r2(2) by (simp only: pos_imp_zdiv_nonneg_iff)
  ultimately have pos: "0 \<le> b" "0 \<le> c" "0 \<le> d" .
  have bb: "0 \<le> b" "b \<le> 4" "b = 4 \<longrightarrow> r2 = 0" using n r1 pos by linarith+
  have cc: "0 \<le> c" "c \<le> 24" using r1 r2 pos by linarith+
  have dd: "0 \<le> d" "d \<le> 4" "d = 4 \<longrightarrow> r4 = 0" using r2 r3 pos by linarith+
  have y: "(y, doy) = (if d = 4 \<or> b = 4 then (400 * a + 100 * b + 4 * c + d, 365)
                      else (400 * a + 100 * b + 4 * c + d + 1, r4))"
    using assms [symmetric]
    unfolding year_of_def Let_def a_def r1_def b_def r2_def c_def r3_def d_def r4_def
    by (simp only: add_diff_cancel_right' add_diff_cancel split: if_splits)
  have "days_before_year y + doy = n \<and> 0 \<le> doy \<and> doy < (if is_leap y then 366 else 365)"
  proof (cases "b = 4")
    case True
    then have z: "c = 0" "d = 0" "r4 = 0" using bb r2 r3 cc dd by auto
    have yy: "y = 400 * a + 100 * 3 + 4 * 24 + 3 + 1" "doy = 365" using y z True by simp_all
    from dby_parts [of 3 24 3 a] show ?thesis
      unfolding yy using n r1 r2 r3 z True by simp
  next
    case b4: False
    then have b3: "b \<le> 3" using bb by simp
    show ?thesis
    proof (cases "d = 4")
      case True
      then have c24: "c \<noteq> 24" using r1 r2 r3 by auto
      have yy: "y = 400 * a + 100 * b + 4 * c + 3 + 1" "doy = 365" using y True by simp_all
      from dby_parts [of b c 3 a] bb cc b3 c24 show ?thesis
        unfolding yy using n r1 r2 r3 dd True by simp
    next
      case False
      have yy: "y = 400 * a + 100 * b + 4 * c + d + 1" "doy = r4" using y b4 False by simp_all
      from dby_parts [of b c d a] bb cc dd b3 False show ?thesis
        unfolding yy using n r1 r2 r3 by simp
    qed
  qed
  then show "days_before_year y + doy = n" "0 \<le> doy" "doy < (if is_leap y then 366 else 365)"
    by auto
qed

lemma month_walk_days_before:
  assumes "month_walk y ms n = (m, d)" "0 \<le> n" "n < sum_list (map (days_in_month y) ms)"
    "distinct ms"
  shows "m \<in> set ms" "days_before y ms m + (d - 1) = n" "1 \<le> d" "d \<le> days_in_month y m"
  using assms
proof (induction ms arbitrary: n)
  case (Cons k ms)
  {
    case 1 then show ?case using Cons.IH(1) [of "n - days_in_month y k"] by (auto split: if_splits)
  next
    case 2 then show ?case
      using Cons.IH(1,2) [of "n - days_in_month y k"] by (auto split: if_splits)
  next
    case 3 then show ?case using Cons.IH(3) [of "n - days_in_month y k"] by (auto split: if_splits)
  next
    case 4 then show ?case using Cons.IH(4) [of "n - days_in_month y k"] by (auto split: if_splits)
  }
qed simp_all

lemma month_list_sum:
  "sum_list (map (days_in_month y) month_list) = (if is_leap y then 366 else 365)"
  by (simp add: month_list_def days_in_month_def)

lemma ord_of_ymd_of:
  assumes "0 \<le> n" "n < max_ord"
  shows "ord_of (ymd_of n) = n" "valid_date (ymd_of n)"
proof -
  obtain y doy where y: "year_of n = (y, doy)" by force
  obtain m d where m: "month_walk y month_list doy = (m, d)" by force
  note ys = year_of_spec [OF y]
  note ms = month_walk_days_before [OF m ys(2), unfolded month_list_sum, OF ys(3)]
  have dist: "distinct month_list" by (simp add: month_list_def)
  have ymd: "ymd_of n = (y, m, d)" by (simp add: ymd_of_def y m)
  show "ord_of (ymd_of n) = n" using ms(2) [OF dist] ys(1) by (simp add: ymd ord_of_def)
  have y1: "1 \<le> y"
  proof (rule ccontr)
    assume "\<not> 1 \<le> y"
    then have "y + 1 \<le> 1" by simp
    from days_before_year_mono [OF this] have "days_before_year (y + 1) \<le> 365 * y"
      by (simp add: days_before_year_def)
    moreover have "n < days_before_year (y + 1)"
      using ys by (simp add: days_before_year_Suc)
    ultimately show False using assms(1) \<open>\<not> 1 \<le> y\<close> by simp
  qed
  have y2: "y \<le> 9999"
  proof (rule ccontr)
    assume "\<not> y \<le> 9999"
    then have "10000 \<le> y" by simp
    from days_before_year_mono [OF this] have "3652059 \<le> days_before_year y"
      using \<open>10000 \<le> y\<close> by (simp add: days_before_year_def)
    with ys(1,2) assms(2) show False by (simp add: max_ord_def)
  qed
  have "1 \<le> m" "m \<le> 12" using ms(1) [OF dist] by (auto simp: month_list_def)
  then show "valid_date (ymd_of n)"
    using ms(3,4) [OF dist] y1 y2 by (simp add: ymd valid_date_def)
qed

section \<open>ISO 8601 text\<close>

datatype pydt = DT (dt_us: int) (dt_aware: bool)

fun pad :: "nat \<Rightarrow> int \<Rightarrow> string" where
  "pad 0 n = []"
| "pad (Suc w) n = pad w (n div 10) @ [digit_char (nat (n mod 10))]"

definition us_per_day :: int where "us_per_day = 86400000000"
definition epoch_ord :: int where "epoch_ord = 719162"

definition date_text :: "int \<times> int \<times> int \<Rightarrow> string" where
  "date_text t = (case t of (y, m, d) \<Rightarrow> pad 4 y @ ''-'' @ pad 2 m @ ''-'' @ pad 2 d)"

definition clock_text :: "int \<Rightarrow> string" where
  \<comment> \<open>microseconds since midnight; the fraction is left out when it is 0\<close>
  "clock_text r =
     (let sec = r div 1000000; us = r mod 1000000 in
      pad 2 (sec div 3600) @ '':'' @ pad 2 (sec div 60 mod 60) @ '':'' @ pad 2 (sec mod 60)
      @ (if us = 0 then [] else ''.'' @ pad 6 us))"

definition isoformat :: "int \<Rightarrow> string" where
  \<comment> \<open>\<open>datetime.isoformat()\<close> of an aware UTC datetime\<close>
  "isoformat us = date_text (ymd_of (us div us_per_day + epoch_ord)) @ ''T''
     @ clock_text (us mod us_per_day) @ ''+00:00''"

definition num_of :: "string \<Rightarrow> int option" where
  "num_of s = (if s \<noteq> [] \<and> list_all is_digit s then Some (int (digits_val s)) else None)"

definition parse_date :: "string \<Rightarrow> int option" where
  \<comment> \<open>\<open>YYYY-MM-DD\<close> to the 0-based ordinal\<close>
  "parse_date s =
     (if length s = 10 \<and> s ! 4 = CHR ''-'' \<and> s ! 7 = CHR ''-'' then
        (case (num_of (take 4 s), num_of (take 2 (drop 5 s)), num_of (drop 8 s)) of
           (Some y, Some m, Some d) \<Rightarrow>
             if valid_date (y, m, d) then Some (ord_of (y, m, d)) else None
         | _ \<Rightarrow> None)
      else None)"

definition two :: "string \<Rightarrow> int option" where
  "two s = (if length s = 2 then num_of s else None)"

definition parse_frac :: "string \<Rightarrow> int option" where
  \<comment> \<open>digits after the point, cut or filled up to microseconds\<close>
  "parse_frac s = num_of (if s = [] then [] else take 6 (s @ replicate 6 (CHR ''0'')))"

definition parse_clock :: "string \<Rightarrow> (int \<times> int \<times> int \<times> int) option" where
  "parse_clock s =
     (let hms = takeWhile (\<lambda>c. c \<noteq> CHR ''.'') s; fr = dropWhile (\<lambda>c. c \<noteq> CHR ''.'') s in
      case (map two (split_char (CHR '':'') hms), fr) of
        ([Some h], []) \<Rightarrow> Some (h, 0, 0, 0)
      | ([Some h, Some m], []) \<Rightarrow> Some (h, m, 0, 0)
      | ([Some h, Some m, Some sc], []) \<Rightarrow> Some (h, m, sc, 0)
      | ([Some h, Some m, Some sc], _ # f) \<Rightarrow>
          (case parse_frac f of None \<Rightarrow> None | Some u \<Rightarrow> Some (h, m, sc, u))
      | _ \<Rightarrow> None)"

definition clock_us :: "int \<times> int \<times> int \<times> int \<Rightarrow> int" where
  "clock_us t = (case t of (h, m, s, u) \<Rightarrow> ((h * 60 + m) * 60 + s) * 1000000 + u)"

definition valid_clock :: "int \<times> int \<times> int \<times> int \<Rightarrow> bool" where
  "valid_clock t = (case t of (h, m, s, u) \<Rightarrow> h \<le> 23 \<and> m \<le> 59 \<and> s \<le> 59)"

definition tz_char :: "char \<Rightarrow> bool" where
  "tz_char c = (c = CHR ''+'' \<or> c = CHR ''-'' \<or> c = CHR ''Z'')"

definition fromisoformat :: "string \<Rightarrow> pydt option" where
  "fromisoformat s =
     (case parse_date (take 10 s) of
        None \<Rightarrow> None
      | Some n \<Rightarrow>
         (let day = (n - epoch_ord) * us_per_day in
          case drop 10 s of
            [] \<Rightarrow> Some (DT day False)
          | _ # t \<Rightarrow>
             (let ck = takeWhile (\<lambda>c. \<not> tz_char c) t; tz = dropWhile (\<lambda>c. \<not> tz_char c) t in
              case parse_clock ck of
                None \<Rightarrow> None
              | Some w \<Rightarrow>
                 if \<not> valid_clock w then None
                 else (case tz of
                     [] \<Rightarrow> Some (DT (day + clock_us w) False)
                   | z # off \<Rightarrow>
                       if z = CHR ''Z'' then (if off = [] then Some (DT (day + clock_us w) True) else None)
                       else (case parse_clock off of
                           None \<Rightarrow> None
                         | Some o' \<Rightarrow>
                             if clock_us o' < us_per_day then
                               Some (DT (day + clock_us w
                                 - (if z = CHR ''-'' then - clock_us o' else clock_us o')) True)
                             else None)))))"

definition year_end_us :: int where
  "year_end_us = (max_ord - epoch_ord) * us_per_day"

definition year_start_us :: int where
  "year_start_us = - epoch_ord * us_per_day"

subsection \<open>Reading back what isoformat writes\<close>

lemma length_pad [simp]: "length (pad w n) = w"
  by (induction w arbitrary: n) auto

lemma pad_digits: "\<forall>c \<in> set (pad w n). is_digit c"
  by (induction w arbitrary: n) auto

lemma digits_val_pad: "0 \<le> n \<Longrightarrow> n < 10 ^ w \<Longrightarrow> int (digits_val (pad w n)) = n"
proof (induction w arbitrary: n)
  case 0
  then show ?case by (simp add: digits_val_def)
next
  case (Suc w)
  then have "int (digits_val (pad w (n div 10))) = n div 10" by (simp add: div_less_iff_less_mult)
  then show ?case by (simp add: digits_val_def)
qed

lemma pad_eq_Nil [simp]: "pad w n = [] \<longleftrightarrow> w = 0"
  by (metis length_0_conv length_pad)

lemma num_of_pad [simp]: "w \<noteq> 0 \<Longrightarrow> 0 \<le> n \<Longrightarrow> n < 10 ^ w \<Longrightarrow> num_of (pad w n) = Some n"
  by (auto simp: num_of_def list_all_iff pad_digits digits_val_pad)

lemma pad_no_sep:
  "\<not> is_digit c \<Longrightarrow> c \<notin> set (pad w n)"
  using pad_digits by blast

lemma seps_not_digits [simp]:
  "\<not> is_digit (CHR '':'')" "\<not> is_digit (CHR ''.'')" "\<not> is_digit (CHR ''-'')"
  "\<not> is_digit (CHR ''+'')" "\<not> is_digit (CHR ''Z'')" "\<not> is_digit (CHR ''T'')"
  by (simp_all add: is_digit_def code_point_def)

lemma parse_date_text:
  assumes "valid_date t"
  shows "parse_date (date_text t) = Some (ord_of t)"
proof -
  obtain y m d where t: "t = (y, m, d)" by (cases t)
  have r: "0 \<le> y" "y < 10 ^ 4" "0 \<le> m" "m < 10 ^ 2" "0 \<le> d" "d < 10 ^ 2"
    using assms by (auto simp: t valid_date_def days_in_month_def split: if_splits)
  have "num_of (pad 4 y) = Some y" "num_of (pad 2 m) = Some m" "num_of (pad 2 d) = Some d"
    using r by simp_all
  then show ?thesis
    using assms by (simp add: t parse_date_def date_text_def nth_append)
qed

lemma parse_clock_text:
  assumes "0 \<le> r" "r < us_per_day"
  shows "\<exists>w. parse_clock (clock_text r) = Some w \<and> valid_clock w \<and> clock_us w = r"
proof -
  define sec where "sec = r div 1000000"
  define us where "us = r mod 1000000"
  define h where "h = sec div 3600"
  define m where "m = sec div 60 mod 60"
  define s where "s = sec mod 60"
  have sec: "0 \<le> sec" "sec < 86400"
    using assms unfolding sec_def us_per_day_def
    by (simp_all add: pos_imp_zdiv_nonneg_iff div_less_iff_less_mult)
  have "0 \<le> h" "h < 24"
    using sec unfolding h_def by (simp_all add: pos_imp_zdiv_nonneg_iff div_less_iff_less_mult)
  moreover have "0 \<le> m" "m < 60" "0 \<le> s" "s < 60" "0 \<le> us" "us < 1000000"
    unfolding m_def s_def us_def by simp_all
  ultimately have rng: "0 \<le> h" "h \<le> 23" "0 \<le> m" "m \<le> 59" "0 \<le> s" "s \<le> 59"
    "0 \<le> us" "us < 1000000" by simp_all
  have "h = sec div 60 div 60" using zdiv_zmult2_eq [of 60 sec 60] by (simp add: h_def)
  then have "h * 60 + m = sec div 60" by (simp add: m_def)
  then have "sec = (h * 60 + m) * 60 + s" by (simp add: s_def)
  moreover have "sec * 1000000 + us = r" by (simp add: sec_def us_def)
  ultimately have val: "((h * 60 + m) * 60 + s) * 1000000 + us = r" by (simp only:)
  have two: "two (pad 2 h) = Some h" "two (pad 2 m) = Some m" "two (pad 2 s) = Some s"
    using rng by (simp_all add: two_def)
  let ?hms = "pad 2 h @ '':'' @ pad 2 m @ '':'' @ pad 2 s"
  have sp: "map two (split_char (CHR '':'') ?hms) = [Some h, Some m, Some s]"
    using two by (simp add: split_char_append split_char_no pad_no_sep)
  have nodot: "CHR ''.'' \<notin> set ?hms" by (simp add: pad_no_sep)
  have ct: "clock_text r = ?hms @ (if us = 0 then [] else ''.'' @ pad 6 us)"
    by (simp add: clock_text_def Let_def sec_def us_def h_def m_def s_def)
  have ok: "c \<noteq> CHR ''.''" if "c \<in> set ?hms" for c
    using nodot that by metis
  have tw: "takeWhile (\<lambda>c. c \<noteq> CHR ''.'') (?hms @ zs) = ?hms @ takeWhile (\<lambda>c. c \<noteq> CHR ''.'') zs"
    "dropWhile (\<lambda>c. c \<noteq> CHR ''.'') (?hms @ zs) = dropWhile (\<lambda>c. c \<noteq> CHR ''.'') zs" for zs
    by (rule takeWhile_append2, erule ok) (rule dropWhile_append2, erule ok)
  show ?thesis
  proof (cases "us = 0")
    case True
    have "parse_clock (clock_text r) = Some (h, m, s, 0)"
      unfolding ct parse_clock_def Let_def tw using True sp by simp
    then show ?thesis using val rng True by (auto simp: valid_clock_def clock_us_def)
  next
    case False
    have "parse_frac (pad 6 us) = Some us"
      using rng length_pad [of 6 us] by (auto simp: parse_frac_def simp del: length_pad)
    then have "parse_clock (clock_text r) = Some (h, m, s, us)"
      unfolding ct parse_clock_def Let_def tw using False sp by simp
    then show ?thesis using val rng by (auto simp: valid_clock_def clock_us_def)
  qed
qed

lemma clock_text_no_tz: "\<forall>c \<in> set (clock_text r). \<not> tz_char c"
proof
  fix c
  assume "c \<in> set (clock_text r)"
  then have "is_digit c \<or> c = CHR '':'' \<or> c = CHR ''.''"
    using pad_digits by (auto simp: clock_text_def Let_def split: if_splits)
  then show "\<not> tz_char c" by (auto simp: tz_char_def)
qed

lemma length_date_text [simp]: "length (date_text t) = 10"
  by (simp add: date_text_def split: prod.splits)

lemma fromisoformat_isoformat:
  assumes "year_start_us \<le> us" "us < year_end_us"
  shows "fromisoformat (isoformat us) = Some (DT us True)"
proof -
  let ?n = "us div us_per_day + epoch_ord" and ?r = "us mod us_per_day"
  have "- epoch_ord \<le> us div us_per_day"
    using zdiv_mono1 [OF assms(1), of us_per_day] by (simp add: year_start_us_def us_per_day_def)
  moreover have "us div us_per_day < max_ord - epoch_ord"
    using assms(2) by (simp add: year_end_us_def us_per_day_def div_less_iff_less_mult)
  ultimately have n: "0 \<le> ?n" "?n < max_ord" by simp_all
  note ymd = ord_of_ymd_of [OF n]
  have r: "0 \<le> ?r" "?r < us_per_day" by (simp_all add: us_per_day_def)
  obtain w where w: "parse_clock (clock_text ?r) = Some w" "valid_clock w" "clock_us w = ?r"
    using parse_clock_text [OF r] by blast
  have tk: "takeWhile (\<lambda>c. \<not> tz_char c) (clock_text ?r @ ''+00:00'') = clock_text ?r"
    using clock_text_no_tz by (simp add: takeWhile_append2 tz_char_def)
  have dp: "dropWhile (\<lambda>c. \<not> tz_char c) (clock_text ?r @ ''+00:00'') = ''+00:00''"
    using clock_text_no_tz by (simp add: dropWhile_append2 tz_char_def)
  have z: "parse_clock ''00:00'' = Some (0, 0, 0, 0)" by code_simp
  have us: "us div us_per_day * us_per_day + ?r = us" by simp
  have pd: "parse_date (take 10 (isoformat us)) = Some ?n"
    using parse_date_text [OF ymd(2)] by (simp add: isoformat_def ymd(1))
  have dr: "drop 10 (isoformat us) = CHR ''T'' # clock_text ?r @ ''+00:00''"
    by (simp add: isoformat_def)
  have d0: "clock_us (0, 0, 0, 0) = 0" "0 < us_per_day"
    by (simp_all add: clock_us_def us_per_day_def)
  show ?thesis
    unfolding fromisoformat_def pd dr option.case list.case Let_def tk dp w(1)
    using w us by (simp add: z d0)
qed

lemma replace_char_id: "c \<notin> set s \<Longrightarrow> replace_char c t s = s"
  by (induction s) auto

lemma isoformat_no_Z: "CHR ''Z'' \<notin> set (isoformat us)"
  using pad_no_sep [of "CHR ''Z''"]
  by (auto simp: isoformat_def date_text_def clock_text_def Let_def split: prod.splits)

lemma isoformat_nonempty [simp]: "isoformat us \<noteq> []"
  by (simp add: isoformat_def)

text \<open>The range of instants that datetime can hold, as numbers.\<close>

lemma year_bounds: "year_start_us = -62135596800000000" "year_end_us = 253402300800000000"
  by (simp_all add: year_start_us_def year_end_us_def epoch_ord_def max_ord_def us_per_day_def)

section \<open>Comparing datetimes\<close>

definition dt_less :: "pydt \<Rightarrow> pydt \<Rightarrow> bool res" where
  \<comment> \<open>\<open>a < b\<close>: naive and aware do not compare\<close>
  "dt_less a b = (if dt_aware a \<noteq> dt_aware b then Inl TypeError else Inr (dt_us a < dt_us b))"

definition as_utc :: "pydt \<Rightarrow> pydt" where
  \<comment> \<open>a naive datetime is taken as UTC\<close>
  "as_utc d = DT (dt_us d) True"

end
