(* ===== verification/Protocol.thy ===== *)
theory Protocol
  imports Iso_Time
begin

text \<open>
  The control protocol, \<^verbatim>\<open>colsoft_tools/protocol.py\<close>: message types, command states,
  aliases, timestamps with their expiry test, and the constructors of the messages.
  Clock readings and fresh identifiers are arguments (\<open>now\<close> in microseconds, \<open>fresh\<close>).
\<close>

section \<open>Message types and states\<close>

abbreviation TYPE_COMMAND_REQUEST :: string where "TYPE_COMMAND_REQUEST \<equiv> ''command_request''"
abbreviation TYPE_COMMAND_RESPONSE :: string where "TYPE_COMMAND_RESPONSE \<equiv> ''command_response''"
abbreviation TYPE_COMMAND_ACK :: string where "TYPE_COMMAND_ACK \<equiv> ''command_ack''"
abbreviation TYPE_EVENT_PUSH :: string where "TYPE_EVENT_PUSH \<equiv> ''event_push''"
abbreviation TYPE_HEARTBEAT :: string where "TYPE_HEARTBEAT \<equiv> ''heartbeat''"
abbreviation TYPE_AUTH_ACK :: string where "TYPE_AUTH_ACK \<equiv> ''auth_ack''"
abbreviation TYPE_AUTH_CHALLENGE :: string where "TYPE_AUTH_CHALLENGE \<equiv> ''auth_challenge''"
abbreviation TYPE_AUTH_RESPONSE :: string where "TYPE_AUTH_RESPONSE \<equiv> ''auth_response''"
abbreviation TYPE_AUTH_ERROR :: string where "TYPE_AUTH_ERROR \<equiv> ''auth_error''"

abbreviation STATUS_RUNNING :: string where "STATUS_RUNNING \<equiv> ''running''"
abbreviation STATUS_SUCCESS :: string where "STATUS_SUCCESS \<equiv> ''success''"
abbreviation STATUS_ERROR :: string where "STATUS_ERROR \<equiv> ''error''"
abbreviation STATUS_FAILED :: string where "STATUS_FAILED \<equiv> ''failed''"
abbreviation STATUS_EXPIRED :: string where "STATUS_EXPIRED \<equiv> ''expired''"
abbreviation STATUS_REJECTED :: string where "STATUS_REJECTED \<equiv> ''rejected''"

text \<open>The \<open>CMD_\<close> constants of the command life cycle, with their wire names.\<close>

datatype cmd_state =
    CMD_PENDING | CMD_SENT | CMD_ACKED | CMD_RUNNING
  | CMD_COMPLETED | CMD_FAILED | CMD_EXPIRED | CMD_REJECTED

fun cmd_state_name :: "cmd_state \<Rightarrow> string" where
  "cmd_state_name CMD_PENDING = ''pending''"
| "cmd_state_name CMD_SENT = ''sent''"
| "cmd_state_name CMD_ACKED = ''acked''"
| "cmd_state_name CMD_RUNNING = ''running''"
| "cmd_state_name CMD_COMPLETED = ''completed''"
| "cmd_state_name CMD_FAILED = ''failed''"
| "cmd_state_name CMD_EXPIRED = ''expired''"
| "cmd_state_name CMD_REJECTED = ''rejected''"

lemma cmd_state_name_inj: "cmd_state_name a = cmd_state_name b \<Longrightarrow> a = b"
  by (cases a; cases b) simp_all

section \<open>Commands\<close>

definition LONG_RUNNING_COMMANDS :: "string list" where
  "LONG_RUNNING_COMMANDS = [
    ''run_script'', ''forensic_snapshot'', ''collect_forensic_snapshot'', ''collect_file'',
    ''traceroute'', ''windows_event_log'', ''windows_etw'', ''windows_autoruns'',
    ''windows_wmi'', ''windows_scheduled_tasks'', ''installed_software'', ''cve_inventory'',
    ''fim_scan'', ''linux_auditd'', ''linux_syslog'', ''linux_packages'',
    ''linux_systemd_units'', ''linux_ebpf'', ''linux_netlink'', ''windows_sysmon'',
    ''persistence_scan'', ''detection_scan'']"

definition COMMAND_FAIL_STATUSES :: "string list" where
  "COMMAND_FAIL_STATUSES = [''ERROR'', ''UNSUPPORTED'', ''error'', ''unsupported'']"

fun command_result_failed :: "json \<Rightarrow> bool" where
  "command_result_failed (JObj d) =
     (strip (str_or (getv d ''status'') '''') \<in> set COMMAND_FAIL_STATUSES)"
| "command_result_failed _ = False"

definition COMMAND_ALIASES :: "(string \<times> string) list" where
  "COMMAND_ALIASES = [
    (''get_system_log'', ''system_log''), (''get_process_list'', ''process_list''),
    (''get_service_status'', ''service_status''),
    (''get_network_connections'', ''network_connections''),
    (''get_installed_software'', ''installed_software''), (''get_disk_usage'', ''disk_usage''),
    (''get_file_hash'', ''file_hash''), (''collect_forensic_snapshot'', ''forensic_snapshot''),
    (''get_system_metrics'', ''system_metrics''),
    (''get_hardware_inventory'', ''hardware_inventory''),
    (''run_health_probes'', ''health_probes''), (''get_health_probes'', ''health_probes''),
    (''tcp_check'', ''tcp_connect''), (''http_check'', ''http_get''), (''tls_check'', ''tls''),
    (''get_fim_scan'', ''fim_scan''), (''get_persistence_scan'', ''persistence_scan''),
    (''get_auth_audit'', ''auth_audit''), (''get_detection_scan'', ''detection_scan''),
    (''get_cis_score'', ''cis_score''), (''get_cve_inventory'', ''cve_inventory''),
    (''get_rootkit_check'', ''rootkit_check''), (''get_dns_monitor'', ''dns_monitor''),
    (''get_windows_event_log'', ''windows_event_log''), (''get_windows_etw'', ''windows_etw''),
    (''get_windows_autoruns'', ''windows_autoruns''), (''get_windows_wmi'', ''windows_wmi''),
    (''query_wmi'', ''windows_wmi''),
    (''get_windows_scheduled_tasks'', ''windows_scheduled_tasks''),
    (''get_scheduled_tasks'', ''windows_scheduled_tasks''),
    (''get_windows_sysmon'', ''windows_sysmon''), (''get_sysmon'', ''windows_sysmon''),
    (''get_windows_defender'', ''windows_defender''),
    (''get_defender_status'', ''windows_defender''), (''get_linux_ebpf'', ''linux_ebpf''),
    (''get_linux_auditd'', ''linux_auditd''), (''get_linux_syslog'', ''linux_syslog''),
    (''get_linux_proc_metrics'', ''linux_proc_metrics''),
    (''get_linux_netlink'', ''linux_netlink''),
    (''get_linux_systemd_units'', ''linux_systemd_units''),
    (''get_systemd_units'', ''linux_systemd_units''), (''get_linux_lsm'', ''linux_lsm''),
    (''get_selinux_status'', ''linux_lsm''), (''get_apparmor_status'', ''linux_lsm''),
    (''get_linux_packages'', ''linux_packages'')]"

definition resolve_command :: "string \<Rightarrow> string" where
  "resolve_command c = (case map_of COMMAND_ALIASES c of None \<Rightarrow> c | Some i \<Rightarrow> i)"

text \<open>No internal name is itself an alias, so resolving once is enough.\<close>

lemma aliases_not_keys:
  "list_all (\<lambda>p. snd p \<notin> fst ` set COMMAND_ALIASES) COMMAND_ALIASES"
  by code_simp

lemma resolve_command_idem [simp]: "resolve_command (resolve_command c) = resolve_command c"
proof (cases "map_of COMMAND_ALIASES c")
  case None
  then show ?thesis by (simp add: resolve_command_def)
next
  case (Some i)
  then have "(c, i) \<in> set COMMAND_ALIASES" by (rule map_of_SomeD)
  then have "i \<notin> fst ` set COMMAND_ALIASES"
    using aliases_not_keys by (metis list_all_iff snd_conv)
  then have "map_of COMMAND_ALIASES i = None" by (simp add: map_of_eq_None_iff)
  with Some show ?thesis by (simp add: resolve_command_def)
qed

section \<open>Timestamps\<close>

definition parse_iso :: "json \<Rightarrow> pydt option" where
  "parse_iso v =
     (if \<not> truthy v then None
      else fromisoformat (replace_char (CHR ''Z'') ''+00:00'' (py_str v)))"

definition round_half_even :: "rat \<Rightarrow> int" where
  "round_half_even q = (let f = \<lfloor>q\<rfloor>; d = q - of_int f in
     if d < 1/2 then f else if d > 1/2 then f + 1 else if even f then f else f + 1)"

fun timedelta_us :: "pyfloat \<Rightarrow> int res" where
  \<comment> \<open>\<open>timedelta(seconds=t)\<close>\<close>
  "timedelta_us (Fin q) = Inr (round_half_even (q * 1000000))"
| "timedelta_us NaN = Inl ValueError"
| "timedelta_us _ = Inl OverflowError"

definition dt_add :: "int \<Rightarrow> int \<Rightarrow> int res" where
  "dt_add t d =
     (if year_start_us \<le> t + d \<and> t + d < year_end_us then Inr (t + d) else Inl OverflowError)"

abbreviation DEFAULT_COMMAND_TTL_SECONDS :: pyfloat where
  "DEFAULT_COMMAND_TTL_SECONDS \<equiv> Fin 30"

definition default_expires_at :: "int \<Rightarrow> pyfloat \<Rightarrow> string res" where
  "default_expires_at now ttl =
     res_bind (timedelta_us (fmax ttl (Fin 1))) (\<lambda>d.
     res_bind (dt_add now d) (\<lambda>t. Inr (isoformat t)))"

definition is_expired :: "int \<Rightarrow> json \<Rightarrow> bool res" where
  "is_expired now v =
     (case parse_iso v of
        None \<Rightarrow> Inr True
      | Some e \<Rightarrow> dt_less e (DT now True))"

lemma parse_iso_isoformat [simp]:
  assumes "year_start_us \<le> t" "t < year_end_us"
  shows "parse_iso (JStr (isoformat t)) = Some (DT t True)"
  using assms by (simp add: parse_iso_def replace_char_id isoformat_no_Z fromisoformat_isoformat)

lemma is_expired_isoformat:
  assumes "year_start_us \<le> t" "t < year_end_us"
  shows "is_expired now (JStr (isoformat t)) = Inr (t < now)"
  using assms by (simp add: is_expired_def dt_less_def)

lemma is_expired_missing [simp]: "is_expired now JNull = Inr True"
  by (simp add: is_expired_def parse_iso_def)

section \<open>Message constructors\<close>

text \<open>An optional argument is \<open>JNull\<close> when the caller leaves it out.\<close>

definition make_command_request ::
  "string \<Rightarrow> int \<Rightarrow> string \<Rightarrow> json \<Rightarrow> json \<Rightarrow> json \<Rightarrow> json \<Rightarrow> json \<Rightarrow> json \<Rightarrow> json \<Rightarrow> json \<Rightarrow> dict res" where
  "make_command_request fresh now command params message_id agent_id tenant_id issued_by
      issued_at expires_at signature =
     res_bind (if truthy expires_at then Inr expires_at
               else res_bind (default_expires_at now DEFAULT_COMMAND_TTL_SECONDS) (\<lambda>s. Inr (JStr s)))
     (\<lambda>exp. Inr
      (dput_if (truthy signature) ''signature'' signature
      (dput_if (truthy issued_by) ''issued_by'' issued_by
      (dput_if (truthy tenant_id) ''tenant_id'' tenant_id
      (dput_if (truthy agent_id) ''agent_id'' agent_id
        [(''type'', JStr TYPE_COMMAND_REQUEST),
         (''message_id'', py_or message_id (JStr fresh)),
         (''command'', JStr command),
         (''params'', py_or params (JObj [])),
         (''issued_at'', py_or issued_at (JStr (isoformat now))),
         (''expires_at'', exp)])))))"

definition make_command_ack :: "string \<Rightarrow> json \<Rightarrow> json \<Rightarrow> dict" where
  "make_command_ack message_id agent_id tenant_id =
     dput_if (truthy tenant_id) ''tenant_id'' tenant_id
     (dput_if (truthy agent_id) ''agent_id'' agent_id
       [(''type'', JStr TYPE_COMMAND_ACK), (''message_id'', JStr message_id)])"

definition make_command_response ::
  "string \<Rightarrow> string \<Rightarrow> json \<Rightarrow> json \<Rightarrow> json \<Rightarrow> json \<Rightarrow> json \<Rightarrow> json \<Rightarrow> int option \<Rightarrow> dict" where
  "make_command_response message_id status agent_id tenant_id result err started_at
      completed_at duration_ms =
     (case duration_ms of None \<Rightarrow> (\<lambda>m. m) | Some d \<Rightarrow> dset ''duration_ms'' (JInt d))
     (dput_if (truthy completed_at) ''completed_at'' completed_at
     (dput_if (truthy started_at) ''started_at'' started_at
     (dput_if (truthy err) ''error'' err
     (dput_if (result \<noteq> JNull) ''result'' result
     (dput_if (truthy tenant_id) ''tenant_id'' tenant_id
     (dput_if (truthy agent_id) ''agent_id'' agent_id
       [(''type'', JStr TYPE_COMMAND_RESPONSE), (''message_id'', JStr message_id),
        (''status'', JStr status)]))))))"

definition make_heartbeat :: "int \<Rightarrow> json \<Rightarrow> json \<Rightarrow> json \<Rightarrow> dict" where
  "make_heartbeat now agent_id tenant_id ts =
     dset ''tenant_id'' (py_or tenant_id (JStr ''''))
     (dput_if (truthy agent_id) ''agent_id'' agent_id
       [(''type'', JStr TYPE_HEARTBEAT), (''ts'', py_or ts (JStr (isoformat now)))])"

definition make_auth_ack :: "string \<Rightarrow> json \<Rightarrow> json \<Rightarrow> dict" where
  "make_auth_ack agent_id tenant_id message =
     dput_if (truthy message) ''message'' message
     (dput_if (truthy tenant_id) ''tenant_id'' tenant_id
       [(''type'', JStr TYPE_AUTH_ACK), (''agent_id'', JStr agent_id)])"

lemmas message_defs =
  make_command_ack_def make_command_response_def make_heartbeat_def make_auth_ack_def

lemma make_command_response_fields [simp]:
  "getv (make_command_response i s a t r e st c d) ''type'' = JStr TYPE_COMMAND_RESPONSE"
  "getv (make_command_response i s a t r e st c d) ''message_id'' = JStr i"
  "getv (make_command_response i s a t r e st c d) ''status'' = JStr s"
  "getv (make_command_response i s a t r e st c d) ''result'' = r"
  by (auto simp: make_command_response_def dict_simps split: option.splits)

lemma make_command_ack_fields [simp]:
  "getv (make_command_ack i a t) ''type'' = JStr TYPE_COMMAND_ACK"
  "getv (make_command_ack i a t) ''message_id'' = JStr i"
  by (auto simp: make_command_ack_def dict_simps)

lemma make_command_request_fields:
  assumes "make_command_request fresh now c p m a t ib ia ex sg = Inr msg"
  shows "getv msg ''type'' = JStr TYPE_COMMAND_REQUEST"
    and "getv msg ''message_id'' = py_or m (JStr fresh)"
    and "getv msg ''command'' = JStr c"
    and "getv msg ''params'' = py_or p (JObj [])"
    and "truthy a \<Longrightarrow> getv msg ''agent_id'' = a"
    and "truthy ib \<Longrightarrow> getv msg ''issued_by'' = ib"
    and "truthy ia \<Longrightarrow> getv msg ''issued_at'' = ia"
    and "truthy ex \<Longrightarrow> getv msg ''expires_at'' = ex"
    and "truthy sg \<Longrightarrow> getv msg ''signature'' = sg"
  using assms
  by (auto simp: make_command_request_def res_bind_eq_Inr dict_simps split: if_splits)

lemma make_command_request_total:
  "truthy ex \<Longrightarrow> \<exists>msg. make_command_request fresh now c p m a t ib ia ex sg = Inr msg"
  by (simp add: make_command_request_def)

end
