(* ===== verification/Tool_Catalog.thy ===== *)
theory Tool_Catalog
  imports Protocol
begin

text \<open>
  The tool catalogue, \<^verbatim>\<open>colsoft_tools/tool_catalog.py\<close>: the tool families, the
  family of a tool (\<open>category\<close>) and the one-line summary of a command's target.
  The sets of the code are lists of names here, always used through membership.
\<close>

section \<open>Families\<close>

definition NETWORK_TOOLS :: "string list" where
  "NETWORK_TOOLS = [
    ''ping'', ''http_get'', ''tcp_connect'', ''dns_resolve'', ''tls'', ''traceroute'',
    ''dns_lookup'']"

definition OBSERVABILITY_TOOLS :: "string list" where
  "OBSERVABILITY_TOOLS = [
    ''system_metrics'', ''process_list'', ''service_status'', ''network_connections'',
    ''installed_software'', ''disk_usage'', ''file_hash'', ''system_log'', ''forensic_snapshot'',
    ''collect_file'', ''hardware_inventory'', ''health_probes'']"

definition WINDOWS_TOOLS :: "string list" where
  "WINDOWS_TOOLS = [
    ''windows_event_log'', ''windows_etw'', ''windows_autoruns'', ''windows_wmi'',
    ''windows_scheduled_tasks'']"

definition LINUX_TOOLS :: "string list" where
  "LINUX_TOOLS = [
    ''linux_ebpf'', ''linux_auditd'', ''linux_syslog'', ''linux_proc_metrics'',
    ''linux_netlink'', ''linux_systemd_units'', ''linux_packages'']"

definition REMEDIATION_TOOLS :: "string list" where
  "REMEDIATION_TOOLS = [
    ''kill_process'', ''start_service'', ''stop_service'', ''restart_service'', ''block_ip'',
    ''unblock_ip'', ''isolate_host'', ''restore_isolation'', ''run_script'']"

definition ADMIN_TOOLS :: "string list" where
  "ADMIN_TOOLS = [
    ''update_config'', ''trigger_update'', ''restart_agent'', ''health_check'']"

definition SECURITY_TOOLS :: "string list" where
  "SECURITY_TOOLS = [
    ''fim_scan'', ''persistence_scan'', ''auth_audit'', ''detection_scan'', ''cis_score'',
    ''cve_inventory'', ''rootkit_check'', ''dns_monitor'', ''windows_sysmon'',
    ''windows_defender'', ''linux_lsm'']"

definition TELEMETRY_TOOLS :: "string list" where
  "TELEMETRY_TOOLS = [
    ''process_watch'', ''alerts'']"

definition ALLOWED_TOOLS :: "string list" where
  "ALLOWED_TOOLS = NETWORK_TOOLS @ OBSERVABILITY_TOOLS @ WINDOWS_TOOLS @ LINUX_TOOLS
     @ REMEDIATION_TOOLS @ ADMIN_TOOLS @ SECURITY_TOOLS"

definition tool_category :: "string \<Rightarrow> string" where
  "tool_category t = (let tool = resolve_command (strip t) in
     if tool \<in> set NETWORK_TOOLS then ''network_check''
     else if tool \<in> set REMEDIATION_TOOLS then ''remediation''
     else if tool \<in> set ADMIN_TOOLS then ''agent_admin''
     else if tool \<in> set SECURITY_TOOLS then ''security''
     else if tool \<in> set WINDOWS_TOOLS then ''windows''
     else if tool \<in> set LINUX_TOOLS then ''linux''
     else if tool \<in> set TELEMETRY_TOOLS then ''observability''
     else ''observability'')"

lemma families_distinct: "distinct ALLOWED_TOOLS"
  by code_simp

lemma aliases_resolve_to_tools:
  "list_all (\<lambda>p. snd p \<in> set ALLOWED_TOOLS) COMMAND_ALIASES"
  by code_simp

lemma tool_category_range:
  "tool_category t \<in> {''network_check'', ''remediation'', ''agent_admin'', ''security'',
     ''windows'', ''linux'', ''observability''}"
  unfolding tool_category_def Let_def by simp

section \<open>Target summaries\<close>

definition p3 :: "dict \<Rightarrow> string \<Rightarrow> string \<Rightarrow> json" where
  \<comment> \<open>\<open>p.get(a) or p.get(b) or ""\<close>\<close>
  "p3 p a b = py_or (getv p a) (py_or (getv p b) (JStr ''''))"

definition or_q :: "string \<Rightarrow> string" where
  "or_q s = (if s = [] then ''?'' else s)"

definition reprd :: "dict \<Rightarrow> string \<Rightarrow> json \<Rightarrow> string" where
  \<comment> \<open>\<open>{p.get(k, d)!r}\<close>\<close>
  "reprd p k d = py_repr (getd p k d)"

definition py_bool_str :: "json \<Rightarrow> string" where
  "py_bool_str v = (if truthy v then ''True'' else ''False'')"

definition list_len_or :: "json \<Rightarrow> string \<Rightarrow> string" where
  "list_len_or v s = (case v of JList xs \<Rightarrow> nat_digits (length xs) | _ \<Rightarrow> s)"

definition range_summary :: "dict \<Rightarrow> string" where
  "range_summary p =
     (let bits =
        (if truthy (getv p ''date'') then [''date='' @ py_str (getv p ''date'')] else [])
      @ (if truthy (getv p ''startHour'') \<or> truthy (getv p ''hour'')
         then [''startHour='' @ py_str (py_or (getv p ''startHour'') (getv p ''hour''))] else [])
      @ (if truthy (getv p ''endHour'') \<or> truthy (getv p ''hour'')
         then [''endHour='' @ py_str (py_or (getv p ''endHour'') (getv p ''hour''))] else [])
      @ concat (map (\<lambda>k. if truthy (getv p k) then [k @ ''='' @ py_str (getv p k)] else [])
          [''startDate'', ''endDate'', ''since'', ''until''])
      in if bits = [] then [] else '' '' @ join '' '' bits)"

definition no_param_tools :: "string list" where
  "no_param_tools = [''health_check'', ''system_metrics'', ''network_connections'',
     ''disk_usage'', ''forensic_snapshot'', ''hardware_inventory'', ''persistence_scan'',
     ''detection_scan'', ''cis_score'', ''rootkit_check'', ''dns_monitor'',
     ''windows_autoruns'', ''windows_defender'', ''linux_lsm'']"

definition tool_target_summary :: "string \<Rightarrow> dict \<Rightarrow> string res" where
  "tool_target_summary t p =
    (let tool = resolve_command (strip t) in
     res_bind (str_strip (p3 p ''host'' ''target'')) (\<lambda>host.
     if tool = ''http_get'' then
       res_bind (str_strip (p3 p ''url'' ''target'')) (\<lambda>u. Inr (''url='' @ or_q u))
     else if tool = ''dns_lookup'' then
       res_bind (str_strip (p3 p ''hostname'' ''host'')) (\<lambda>h.
         Inr (''hostname='' @ or_q h @ '' record_type=''
           @ py_str (py_or (getv p ''record_type'') (py_or (getv p ''type'') (JStr ''A'')))))
     else Inr (
     if tool = ''tcp_connect'' \<or> tool = ''tcp_check'' then
       ''target='' @ or_q host @ '' port='' @ py_str (getd p ''port'' (JStr ''?''))
     else if tool = ''ping'' then
       ''target='' @ or_q host @ '' count='' @ reprd p ''count'' (JInt 3) @ '' ''
         @ (if getv p ''timeout_ms'' \<noteq> JNull
            then ''timeout_ms='' @ py_repr (getv p ''timeout_ms'')
            else ''timeout='' @ reprd p ''timeout'' (JInt 15))
     else if tool = ''dns_resolve'' \<or> tool = ''tls'' then ''target='' @ or_q host
     else if tool = ''traceroute'' then
       ''target='' @ or_q host @ '' max_hops='' @ reprd p ''max_hops'' (JInt 30)
     else if tool = ''collect_file'' then
       ''path='' @ py_str (py_or (getv p ''path'') (JStr ''?''))
         @ '' max_size_mb='' @ reprd p ''max_size_mb'' (JFloat (Fin 10))
     else if tool = ''process_list'' then
       ''filter='' @ py_str (py_or (getv p ''filter'') (py_or (getv p ''name'') (JStr ''*'')))
         @ '' limit='' @ reprd p ''limit'' (JInt 300)
     else if tool = ''system_log'' then
       ''source='' @ py_str (py_or (getv p ''source'') (py_or (getv p ''filter'') (JStr ''system'')))
         @ '' level='' @ py_str (getd p ''level'' (JStr ''warning''))
         @ '' max_lines='' @ reprd p ''max_lines'' (JInt 500) @ range_summary p
     else if tool = ''service_status'' then
       ''service='' @ py_str (py_or (getv p ''service_name'')
         (py_or (getv p ''name'') (JStr ''(todos)'')))
     else if tool = ''file_hash'' then
       ''path='' @ py_str (py_or (getv p ''path'') (JStr ''?'')) @ '' algo=''
         @ py_str (py_or (getv p ''algo'') (py_or (getv p ''algorithm'') (JStr ''sha256'')))
     else if tool = ''installed_software'' then
       ''include_hash='' @ py_bool_str (getv p ''include_hash'')
         @ '' max_hash='' @ reprd p ''max_hash'' (JInt 40)
     else if tool = ''update_config'' then
       (case py_or (getv p ''config_diff'') (py_or (getv p ''diff'')
               (py_or (getv p ''config'') (JObj []))) of
          JObj d \<Rightarrow> ''diff='' @ take 180 (dumps_default (JObj d))
        | _ \<Rightarrow> ''config_update'')
     else if tool = ''restore_isolation'' then ''revert_firewall''
     else if tool = ''restart_agent'' then ''delay='' @ py_str (getd p ''delay'' (JStr ''default''))
     else if tool = ''trigger_update'' then
       ''version='' @ py_str (py_or (getv p ''version'') (JStr ''latest''))
     else if tool = ''health_probes'' then ''checks='' @ list_len_or (getv p ''checks'') ''config''
     else if tool = ''fim_scan'' then ''paths='' @ list_len_or (getv p ''paths'') ''default''
     else if tool = ''auth_audit'' then ''max_entries='' @ reprd p ''max_entries'' (JInt 80)
     else if tool = ''cve_inventory'' then
       ''include_hash='' @ py_bool_str (getv p ''include_hash'')
         @ '' max_hash='' @ reprd p ''max_hash'' (JInt 20)
     else if tool = ''windows_event_log'' then
       ''channel='' @ py_str (py_or (getv p ''channel'')
           (py_or (getv p ''source'') (JStr ''Security'')))
         @ '' max_events='' @ reprd p ''max_events'' (JInt 50) @ range_summary p
     else if tool = ''windows_etw'' then ''max_providers='' @ reprd p ''max_providers'' (JInt 80)
     else if tool = ''windows_wmi'' then
       ''class='' @ py_str (py_or (getv p ''class_name'')
         (py_or (getv p ''class'') (JStr ''Win32_OperatingSystem'')))
     else if tool = ''windows_scheduled_tasks'' then ''max_tasks='' @ reprd p ''max_tasks'' (JInt 120)
     else if tool = ''windows_sysmon'' then ''max_events='' @ reprd p ''max_events'' (JInt 30)
     else if tool = ''linux_ebpf'' then ''max_programs='' @ reprd p ''max_programs'' (JInt 40)
     else if tool = ''linux_auditd'' then
       ''max_events='' @ reprd p ''max_events'' (JInt 40) @ range_summary p
     else if tool = ''linux_syslog'' then
       (if truthy (getv p ''bundle'') then
          ''bundle max_lines='' @ py_repr (py_or (getv p ''max_lines'')
              (py_or (getv p ''max_events'') (JInt 20))) @ range_summary p
        else
          ''source='' @ py_str (py_or (getv p ''source'') (py_or (getv p ''filter'') (JStr ''syslog'')))
          @ '' max_lines='' @ reprd p ''max_lines'' (JInt 80) @ range_summary p)
     else if tool = ''linux_proc_metrics'' then
       ''cpu_interval='' @ reprd p ''cpu_interval'' (JFloat (Fin (3/20)))
     else if tool = ''linux_netlink'' then ''max_ifaces='' @ reprd p ''max_ifaces'' (JInt 32)
     else if tool = ''linux_systemd_units'' then ''max_units='' @ reprd p ''max_units'' (JInt 400)
     else if tool = ''linux_packages'' then
       ''include_hash='' @ py_bool_str (getv p ''include_hash'')
         @ '' max_hash='' @ reprd p ''max_hash'' (JInt 20)
     else if tool \<in> set no_param_tools then ''(sin par'' @ [CHR 0xE1] @ ''metros)''
     else take 180 (dumps_default (JObj p)))))"

text \<open>
  The summary is read before the tool is known, so a host or target that is not a string
  makes it fail for every tool.
\<close>

lemma tool_target_summary_host_not_str:
  "truthy (getv p ''host'') \<Longrightarrow> \<not> is_str (getv p ''host'') \<Longrightarrow>
     tool_target_summary t p = Inl AttributeError"
  by (cases "getv p ''host''") (simp_all add: tool_target_summary_def p3_def str_strip_def)

end
