(* ===== verification/Security.thy ===== *)
theory Security
  imports Tool_Catalog
begin

text \<open>
  The security layer of the control channel, \<^verbatim>\<open>colsoft_tools/security.py\<close>: the risk
  catalogue, the local command policy, the mandatory timeout, the canonical text that is
  signed, and the signed script catalogue. Ed25519 verification, SHA-256 and the file
  system are parameters (\<open>ed_verify\<close>, \<open>sha256\<close>, \<open>fs\<close>).
\<close>

section \<open>Risk catalogue\<close>

datatype risk = Bajo | Medio | MedioAlto | Alto | Critico

fun risk_rank :: "risk \<Rightarrow> nat" where
  "risk_rank Bajo = 0"
| "risk_rank Medio = 1"
| "risk_rank MedioAlto = 2"
| "risk_rank Alto = 3"
| "risk_rank Critico = 4"

fun risk_name :: "risk \<Rightarrow> string" where
  "risk_name Bajo = ''bajo''"
| "risk_name Medio = ''medio''"
| "risk_name MedioAlto = ''medio-alto''"
| "risk_name Alto = ''alto''"
| "risk_name Critico = ''critico''"

instantiation risk :: linorder
begin

definition less_eq_risk :: "risk \<Rightarrow> risk \<Rightarrow> bool" where
  "less_eq_risk a b \<longleftrightarrow> risk_rank a \<le> risk_rank b"

definition less_risk :: "risk \<Rightarrow> risk \<Rightarrow> bool" where
  "less_risk a b \<longleftrightarrow> risk_rank a < risk_rank b"

instance
proof
  fix x y :: risk
  show "x \<le> y \<Longrightarrow> y \<le> x \<Longrightarrow> x = y"
    by (cases x; cases y) (simp_all add: less_eq_risk_def)
qed (auto simp: less_eq_risk_def less_risk_def)

end

definition COMMAND_RISK :: "(string \<times> risk) list" where
  "COMMAND_RISK = [
    (''ping'', Bajo), (''traceroute'', Bajo), (''dns_lookup'', Bajo), (''dns_resolve'', Bajo),
    (''tcp_check'', Bajo), (''tcp_connect'', Bajo), (''http_check'', Bajo), (''http_get'', Bajo),
    (''tls_check'', Bajo), (''tls'', Bajo), (''get_system_log'', Medio), (''system_log'', Medio),
    (''get_process_list'', Bajo), (''process_list'', Bajo), (''get_service_status'', Bajo),
    (''service_status'', Bajo), (''get_network_connections'', Bajo),
    (''network_connections'', Bajo), (''get_installed_software'', Bajo),
    (''installed_software'', Bajo), (''get_disk_usage'', Bajo), (''disk_usage'', Bajo),
    (''get_file_hash'', Medio), (''file_hash'', Medio), (''collect_forensic_snapshot'', Medio),
    (''forensic_snapshot'', Medio), (''collect_file'', Alto), (''get_system_metrics'', Bajo),
    (''system_metrics'', Bajo), (''get_hardware_inventory'', Bajo),
    (''hardware_inventory'', Bajo), (''run_health_probes'', Bajo), (''get_health_probes'', Bajo),
    (''health_probes'', Bajo), (''fim_scan'', Medio), (''get_fim_scan'', Medio),
    (''persistence_scan'', Bajo), (''get_persistence_scan'', Bajo), (''auth_audit'', Medio),
    (''get_auth_audit'', Medio), (''detection_scan'', Bajo), (''get_detection_scan'', Bajo),
    (''cis_score'', Bajo), (''get_cis_score'', Bajo), (''cve_inventory'', Bajo),
    (''get_cve_inventory'', Bajo), (''rootkit_check'', Bajo), (''get_rootkit_check'', Bajo),
    (''dns_monitor'', Bajo), (''get_dns_monitor'', Bajo), (''windows_event_log'', Medio),
    (''get_windows_event_log'', Medio), (''windows_etw'', Bajo), (''get_windows_etw'', Bajo),
    (''windows_autoruns'', Bajo), (''get_windows_autoruns'', Bajo), (''windows_wmi'', Medio),
    (''get_windows_wmi'', Medio), (''query_wmi'', Medio), (''windows_scheduled_tasks'', Bajo),
    (''get_windows_scheduled_tasks'', Bajo), (''get_scheduled_tasks'', Bajo),
    (''windows_sysmon'', Bajo), (''get_windows_sysmon'', Bajo), (''get_sysmon'', Bajo),
    (''windows_defender'', Bajo), (''get_windows_defender'', Bajo),
    (''get_defender_status'', Bajo), (''linux_ebpf'', Bajo), (''get_linux_ebpf'', Bajo),
    (''linux_auditd'', Medio), (''get_linux_auditd'', Medio), (''linux_syslog'', Medio),
    (''get_linux_syslog'', Medio), (''linux_proc_metrics'', Bajo),
    (''get_linux_proc_metrics'', Bajo), (''linux_netlink'', Bajo), (''get_linux_netlink'', Bajo),
    (''linux_systemd_units'', Bajo), (''get_linux_systemd_units'', Bajo),
    (''get_systemd_units'', Bajo), (''linux_lsm'', Bajo), (''get_linux_lsm'', Bajo),
    (''get_selinux_status'', Bajo), (''get_apparmor_status'', Bajo), (''linux_packages'', Bajo),
    (''get_linux_packages'', Bajo), (''kill_process'', Alto), (''start_service'', MedioAlto),
    (''stop_service'', MedioAlto), (''restart_service'', MedioAlto), (''block_ip'', Alto),
    (''unblock_ip'', Alto), (''isolate_host'', Critico), (''restore_isolation'', Critico),
    (''run_script'', Critico), (''update_config'', Medio), (''trigger_update'', Bajo),
    (''restart_agent'', Medio), (''health_check'', Bajo)]"

definition DEFAULT_DISABLED :: "string list" where
  "DEFAULT_DISABLED = [''collect_file'', ''kill_process'', ''block_ip'', ''unblock_ip'',
     ''isolate_host'', ''restore_isolation'', ''run_script'']"

definition REQUIRES_ALLOWLIST :: "string list" where
  "REQUIRES_ALLOWLIST = [''start_service'', ''stop_service'', ''restart_service'']"

definition DEFAULT_ENABLED_COMMANDS :: "string list" where
  "DEFAULT_ENABLED_COMMANDS = filter (\<lambda>c. c \<notin> set DEFAULT_DISABLED \<and> c \<notin> set REQUIRES_ALLOWLIST)
     ALLOWED_TOOLS"

definition command_risk :: "string \<Rightarrow> string \<Rightarrow> risk" where
  \<comment> \<open>\<open>COMMAND_RISK.get(cmd, COMMAND_RISK.get(raw, "bajo"))\<close>\<close>
  "command_risk cmd raw = (case map_of COMMAND_RISK cmd of
      Some r \<Rightarrow> r
    | None \<Rightarrow> (case map_of COMMAND_RISK raw of Some r \<Rightarrow> r | None \<Rightarrow> Bajo))"

section \<open>The local command policy\<close>

record command_policy =
  allowed :: "string list"
  allow_high_risk :: bool

definition command_policy_of :: "dict \<Rightarrow> command_policy res" where
  "command_policy_of config =
     (let pol = py_or (getv config ''policy'') (JObj []) in
      res_bind (py_get pol ''allowed_commands'') (\<lambda>a.
      res_bind (py_iter (py_or a (JList []))) (\<lambda>cs.
      res_bind (py_get pol ''allow_high_risk'') (\<lambda>h.
        Inr \<lparr>allowed = map py_str (filter truthy cs), allow_high_risk = truthy h\<rparr>))))"

definition policy_check :: "command_policy \<Rightarrow> string \<Rightarrow> bool \<times> string" where
  "policy_check pol command =
     (let cmd = resolve_command (strip command); rk = command_risk cmd command in
      if cmd = [] then (False, ''Comando vac'' @ [CHR 0xED] @ ''o'')
      else if cmd \<notin> fst ` set COMMAND_RISK \<and> cmd \<notin> set ALLOWED_TOOLS then
        (False, ''Comando '' @ str_repr cmd @ '' desconocido (no est'' @ [CHR 0xE1]
           @ '' en el cat'' @ [CHR 0xE1] @ ''logo)'')
      else if rk \<in> {Alto, Critico} \<and> \<not> allow_high_risk pol then
        (False, ''Comando '' @ str_repr cmd @ '' (riesgo '' @ risk_name rk
           @ '') deshabilitado por pol'' @ [CHR 0xED] @ ''tica local'')
      else if rk \<in> {Alto, Critico} \<and> cmd \<notin> set (allowed pol) then
        (False, ''Comando '' @ str_repr cmd @ '' (riesgo '' @ risk_name rk
           @ '') requiere allowed_commands expl'' @ [CHR 0xED] @ ''cito'')
      else if cmd \<in> set REQUIRES_ALLOWLIST \<and> cmd \<notin> set (allowed pol) then
        (False, ''Comando '' @ str_repr cmd @ '' requiere allowlist expl'' @ [CHR 0xED]
           @ ''cita ('' @ [CHR 0xA7] @ ''8.4-C)'')
      else if allowed pol \<noteq> [] then
        (if cmd \<notin> set (allowed pol)
         then (False, ''Comando '' @ str_repr cmd @ '' no est'' @ [CHR 0xE1] @ '' en la allowlist local'')
         else (True, ''''))
      else if cmd \<notin> set DEFAULT_ENABLED_COMMANDS then
        (False, ''Comando '' @ str_repr cmd @ '' no est'' @ [CHR 0xE1]
           @ '' habilitado por defecto (lista vac'' @ [CHR 0xED] @ ''a = cat'' @ [CHR 0xE1]
           @ ''logo SRS bajo/medio)'')
      else (True, ''''))"

text \<open>
  What the policy promises, without the order of the checks: an allowlist decides alone,
  except that a high-risk command also needs the flag; without an allowlist the default
  catalogue decides.
\<close>

definition policy_spec :: "command_policy \<Rightarrow> string \<Rightarrow> bool" where
  "policy_spec pol cmd \<longleftrightarrow>
     (if allowed pol = [] then cmd \<in> set DEFAULT_ENABLED_COMMANDS
      else cmd \<in> set (allowed pol)
        \<and> (cmd \<in> set DEFAULT_DISABLED \<longrightarrow> allow_high_risk pol)
        \<and> (cmd \<in> fst ` set COMMAND_RISK \<or> cmd \<in> set ALLOWED_TOOLS))"

lemma risk_keys_cover_tools: "list_all (\<lambda>c. map_of COMMAND_RISK c \<noteq> None) ALLOWED_TOOLS"
  by code_simp

lemma default_enabled_low_risk:
  "list_all (\<lambda>c. command_risk c c \<le> Medio \<and> c \<noteq> [] \<and> resolve_command c = c
      \<and> c \<notin> set REQUIRES_ALLOWLIST \<and> strip c = c) DEFAULT_ENABLED_COMMANDS"
  by code_simp

lemma high_risk_catalogue:
  "map fst (filter (\<lambda>p. snd p \<ge> Alto) COMMAND_RISK) = DEFAULT_DISABLED"
  by code_simp

lemma disabled_in_catalogue:
  "list_all (\<lambda>c. map_of COMMAND_RISK c \<noteq> None \<and> resolve_command c = c) DEFAULT_DISABLED"
  by code_simp

lemma risk_keys_distinct: "distinct (map fst COMMAND_RISK)"
  by code_simp

lemma risk_high_iff: "rk \<in> {Alto, Critico} \<longleftrightarrow> rk \<ge> Alto"
  by (cases rk) (simp_all add: less_eq_risk_def)

lemma command_risk_known:
  "cmd \<in> fst ` set COMMAND_RISK \<or> cmd \<in> set ALLOWED_TOOLS \<Longrightarrow>
     \<exists>r. (cmd, r) \<in> set COMMAND_RISK \<and> command_risk cmd raw = r"
proof -
  assume "cmd \<in> fst ` set COMMAND_RISK \<or> cmd \<in> set ALLOWED_TOOLS"
  then have "map_of COMMAND_RISK cmd \<noteq> None"
    using risk_keys_cover_tools by (auto simp: map_of_eq_None_iff list_all_iff)
  then obtain r where "map_of COMMAND_RISK cmd = Some r" by blast
  then show ?thesis by (auto simp: command_risk_def dest: map_of_SomeD)
qed

lemma command_risk_high:
  assumes "cmd \<in> fst ` set COMMAND_RISK \<or> cmd \<in> set ALLOWED_TOOLS"
  shows "command_risk cmd raw \<in> {Alto, Critico} \<longleftrightarrow> cmd \<in> set DEFAULT_DISABLED"
proof -
  obtain r where r: "(cmd, r) \<in> set COMMAND_RISK" "command_risk cmd raw = r"
    using command_risk_known [OF assms] by blast
  have hi: "cmd \<in> set DEFAULT_DISABLED \<longleftrightarrow> (\<exists>r'. (cmd, r') \<in> set COMMAND_RISK \<and> r' \<ge> Alto)"
    unfolding high_risk_catalogue [symmetric] by force
  have "(\<exists>r'. (cmd, r') \<in> set COMMAND_RISK \<and> r' \<ge> Alto) \<longleftrightarrow> r \<ge> Alto"
    using r(1) eq_key_imp_eq_value [OF risk_keys_distinct] by blast
  with hi show ?thesis unfolding r(2) risk_high_iff by simp
qed

lemma default_enabled_facts:
  assumes "c \<in> set DEFAULT_ENABLED_COMMANDS"
  shows "c \<in> set ALLOWED_TOOLS" "c \<notin> set DEFAULT_DISABLED" "c \<notin> set REQUIRES_ALLOWLIST"
    "c \<noteq> []" "command_risk c c \<le> Medio" "resolve_command c = c" "strip c = c"
  using assms default_enabled_low_risk
  by (auto simp: DEFAULT_ENABLED_COMMANDS_def list_all_iff)

lemma policy_check_spec:
  "fst (policy_check pol command) \<longleftrightarrow>
     resolve_command (strip command) \<noteq> [] \<and> policy_spec pol (resolve_command (strip command))"
proof -
  define cmd where "cmd = resolve_command (strip command)"
  show ?thesis
  proof (cases "cmd \<in> fst ` set COMMAND_RISK \<or> cmd \<in> set ALLOWED_TOOLS")
    case False
    then have "cmd \<notin> set DEFAULT_ENABLED_COMMANDS" using default_enabled_facts(1) by blast
    with False show ?thesis
      by (simp add: policy_check_def policy_spec_def Let_def flip: cmd_def)
  next
    case known: True
    note high = command_risk_high [OF known, of command]
    show ?thesis
    proof (cases "allowed pol = []")
      case True
      have "cmd \<in> set DEFAULT_ENABLED_COMMANDS \<Longrightarrow> cmd \<notin> set DEFAULT_DISABLED \<and> cmd \<notin> set REQUIRES_ALLOWLIST"
        using default_enabled_facts by blast
      with True known high show ?thesis
        by (auto simp: policy_check_def policy_spec_def Let_def simp flip: cmd_def)
    next
      case False
      with known high show ?thesis
        by (auto simp: policy_check_def policy_spec_def Let_def simp flip: cmd_def)
    qed
  qed
qed

lemma policy_check_high_risk:
  assumes "fst (policy_check pol command)"
    and "resolve_command (strip command) \<in> set DEFAULT_DISABLED"
  shows "allow_high_risk pol \<and> resolve_command (strip command) \<in> set (allowed pol)"
  using assms default_enabled_facts(2)
  by (auto simp: policy_check_spec policy_spec_def split: if_splits)

section \<open>The mandatory timeout\<close>

fun DEFAULT_TIMEOUT_BY_RISK :: "risk \<Rightarrow> rat" where
  "DEFAULT_TIMEOUT_BY_RISK Bajo = 30"
| "DEFAULT_TIMEOUT_BY_RISK Medio = 60"
| "DEFAULT_TIMEOUT_BY_RISK MedioAlto = 60"
| "DEFAULT_TIMEOUT_BY_RISK Alto = 90"
| "DEFAULT_TIMEOUT_BY_RISK Critico = 120"

definition COMMAND_DEFAULT_TIMEOUT :: "(string \<times> rat) list" where
  "COMMAND_DEFAULT_TIMEOUT = [
    (''traceroute'', 120), (''installed_software'', 90), (''linux_packages'', 90),
    (''cve_inventory'', 90), (''forensic_snapshot'', 90), (''collect_forensic_snapshot'', 90),
    (''fim_scan'', 90), (''windows_event_log'', 90), (''windows_etw'', 60),
    (''windows_autoruns'', 60), (''windows_scheduled_tasks'', 60), (''windows_sysmon'', 60),
    (''linux_ebpf'', 60), (''linux_netlink'', 60), (''linux_systemd_units'', 60),
    (''linux_auditd'', 60), (''linux_syslog'', 60), (''persistence_scan'', 60),
    (''detection_scan'', 60), (''windows_wmi'', 60), (''collect_file'', 90), (''run_script'', 120)]"

abbreviation MIN_TIMEOUT :: pyfloat where "MIN_TIMEOUT \<equiv> Fin 5"
abbreviation MAX_TIMEOUT :: pyfloat where "MAX_TIMEOUT \<equiv> Fin 300"

definition default_timeout :: "string \<Rightarrow> rat" where
  "default_timeout command =
     (let cmd = resolve_command (strip command) in
      case map_of COMMAND_DEFAULT_TIMEOUT cmd of
        Some t \<Rightarrow> t
      | None \<Rightarrow> DEFAULT_TIMEOUT_BY_RISK (command_risk cmd (strip command)))"

definition requested_timeout :: "dict \<Rightarrow> pyfloat option res" where
  \<comment> \<open>\<open>timeout_ms\<close> before \<open>timeout\<close>; None when neither is given\<close>
  "requested_timeout params =
     (if getv params ''timeout_ms'' \<noteq> JNull then
        res_bind (py_float (getv params ''timeout_ms'')) (\<lambda>f. Inr (Some (fscale (1/1000) f)))
      else if getv params ''timeout'' \<noteq> JNull then
        res_bind (py_float (getv params ''timeout'')) (\<lambda>f. Inr (Some f))
      else Inr None)"

definition command_timeout :: "string \<Rightarrow> dict \<Rightarrow> pyfloat res" where
  \<comment> \<open>TypeError and ValueError fall back to the default, other exceptions escape\<close>
  "command_timeout command params =
     (let default = Fin (default_timeout command) in
      case requested_timeout params of
        Inr (Some t) \<Rightarrow> Inr (clampf MIN_TIMEOUT MAX_TIMEOUT t)
      | Inr None \<Rightarrow> Inr (clampf MIN_TIMEOUT MAX_TIMEOUT default)
      | Inl e \<Rightarrow> if e = TypeError \<or> e = ValueError
                 then Inr (clampf MIN_TIMEOUT MAX_TIMEOUT default) else Inl e)"

lemma flt_NaN [simp]: "\<not> flt a NaN"
  by (cases a) simp_all

lemma clampf_bounds: "t \<noteq> NaN \<Longrightarrow> \<exists>q. clampf (Fin a) (Fin b) t = Fin q \<and> (a \<le> b \<longrightarrow> a \<le> q) \<and> q \<le> b"
  by (cases t) (auto simp: clampf_def fmin_def fmax_def)

lemma clampf_id: "a \<le> q \<Longrightarrow> q \<le> b \<Longrightarrow> clampf (Fin a) (Fin b) (Fin q) = Fin q"
  by (simp add: clampf_def fmin_def fmax_def)

lemma clampf_NaN [simp]: "clampf a b NaN = NaN"
  by (simp add: clampf_def fmin_def fmax_def)

lemma command_timeout_bounds:
  assumes "command_timeout command params = Inr t" "t \<noteq> NaN"
  shows "\<exists>q. t = Fin q \<and> 5 \<le> q \<and> q \<le> 300"
proof -
  obtain u where "t = clampf MIN_TIMEOUT MAX_TIMEOUT u"
    using assms(1) by (auto simp: command_timeout_def Let_def split: sum.splits option.splits if_splits)
  moreover from this have "u \<noteq> NaN" using assms(2) by auto
  ultimately show ?thesis using clampf_bounds [of u 5 300] by auto
qed

section \<open>The signed canonical text\<close>

definition NL :: char where "NL = CHR 0x0A"

definition command_canonical ::
  "json \<Rightarrow> json \<Rightarrow> json \<Rightarrow> json \<Rightarrow> json \<Rightarrow> json \<Rightarrow> json \<Rightarrow> string" where
  "command_canonical message_id agent_id command params issued_by issued_at expires_at =
     join [NL]
       [py_str message_id, str_or agent_id '''', py_str command, str_or issued_by '''',
        str_or issued_at '''', str_or expires_at '''', dumps_sorted (py_or params (JObj []))]"

definition verify_command_signature ::
  "(json \<Rightarrow> string \<Rightarrow> json \<Rightarrow> bool) \<Rightarrow> json \<Rightarrow> string \<Rightarrow> json \<Rightarrow> bool" where
  "verify_command_signature ed_verify pk canonical sig \<longleftrightarrow>
     truthy pk \<and> truthy sig \<and> ed_verify pk canonical sig"

text \<open>
  JSON text never holds a raw line feed: string contents are escaped and everything else
  is punctuation, digits or a keyword. So the last field of the canonical text cannot
  spill into the others.
\<close>

lemma NL_code: "c = NL \<longleftrightarrow> code_point c = 10"
proof
  assume "code_point c = 10"
  then have "code_point c = code_point NL" by (simp add: NL_def code_point_def)
  then show "c = NL" by (simp add: code_point_def)
qed (simp add: NL_def code_point_def)

lemma NL_join: "NL \<notin> set sep \<Longrightarrow> \<forall>x \<in> set xs. NL \<notin> set x \<Longrightarrow> NL \<notin> set (join sep xs)"
  by (induction sep xs rule: join.induct) auto

lemma code_point_char_of [simp]: "n < 256 \<Longrightarrow> code_point (char_of n) = n"
  by (simp add: code_point_def)

lemma NL_hex [simp]: "d < 16 \<Longrightarrow> hex_digit d \<noteq> NL"
  by (auto simp: NL_code hex_digit_def digit_char_def)

lemma NL_is_digit: "is_digit c \<Longrightarrow> c \<noteq> NL"
  by (auto simp: NL_code is_digit_def)

lemma NL_nat_digits [simp]: "NL \<notin> set (nat_digits n)"
  using nat_digits_all_digits NL_is_digit by blast

lemma frac_digits_digits:
  "0 \<le> q \<Longrightarrow> q < 1 \<Longrightarrow> \<forall>c \<in> set (frac_digits n q). is_digit c"
proof (induction n arbitrary: q)
  case (Suc n)
  have d: "0 \<le> \<lfloor>10 * q\<rfloor>" "\<lfloor>10 * q\<rfloor> < 10" using Suc.prems by (simp_all add: floor_less_iff)
  have "\<forall>c \<in> set (frac_digits n (10 * q - of_int \<lfloor>10 * q\<rfloor>)). is_digit c"
    using floor_correct [of "10 * q"] by (intro Suc.IH) auto
  moreover have "is_digit (digit_char (nat \<lfloor>10 * q\<rfloor>))"
    using d by (intro is_digit_digit_char) linarith
  ultimately show ?case by (auto simp: Let_def)
qed simp

lemma NL_rat_str [simp]: "NL \<notin> set (rat_str q)"
proof -
  have "NL \<notin> set (frac_digits 17 (\<bar>q\<bar> - of_int \<lfloor>\<bar>q\<bar>\<rfloor>))"
    using frac_digits_digits [of "\<bar>q\<bar> - of_int \<lfloor>\<bar>q\<bar>\<rfloor>" 17] NL_is_digit
      floor_correct [of "\<bar>q\<bar>"] by (auto simp: algebra_simps)
  then show ?thesis by (auto simp: rat_str_def Let_def) (simp_all add: NL_def)
qed

lemma NL_json_escape [simp]: "NL \<notin> set (json_escape c)"
proof -
  have "code_point c < 256" by (simp add: code_point_def)
  then have "code_point c div 16 < 16" "code_point c mod 16 < 16" by simp_all
  then have h: "NL \<noteq> hex_digit (code_point c div 16)" "NL \<noteq> hex_digit (code_point c mod 16)"
    using NL_hex by metis+
  have ne: "NL \<noteq> CHR 0x5C" "NL \<noteq> CHR ''n''" "NL \<noteq> CHR ''r''" "NL \<noteq> CHR ''t''"
    "NL \<noteq> CHR ''b''" "NL \<noteq> CHR ''f''" "NL \<noteq> CHR ''u''" "NL \<noteq> CHR ''0''"
    by (simp_all add: NL_def)
  have cc: "c = NL \<longrightarrow> code_point c = 10" by (simp add: NL_code)
  show ?thesis using h ne cc by (auto simp: json_escape_def Let_def)
qed

lemma NL_json_string [simp]: "NL \<notin> set (json_string s)"
proof -
  have "NL \<noteq> CHR 0x22" by (simp add: NL_def)
  then show ?thesis by (auto simp: json_string_def)
qed

lemma NL_dumps: "NL \<notin> set i \<Longrightarrow> NL \<notin> set k \<Longrightarrow> NL \<notin> set (dumps i k v)"
proof (induction i k v rule: dumps.induct)
  case (4 i k f)
  have "NL \<notin> set (float_json f)" by (cases f) (simp_all, simp_all add: NL_def)
  then show ?case by simp
next
  case (5 i k s)
  show ?case by simp
next
  case (3 i k n)
  have "NL \<noteq> CHR ''-''" by (simp add: NL_def)
  then show ?case by (auto simp: int_str_def)
next
  case (6 i k xs)
  then have "NL \<notin> set (join i (map (dumps i k) xs))" by (intro NL_join) auto
  then show ?case by (simp add: NL_def)
next
  case (7 i k d)
  have "NL \<notin> set (join i (map (\<lambda>(a, v). json_string a @ k @ dumps i k v) d))"
    using 7 by (intro NL_join) fastforce+
  then show ?case by (simp add: NL_def)
qed (simp_all add: NL_def)

lemma NL_dumps_sorted: "NL \<notin> set (dumps_sorted v)"
  unfolding dumps_sorted_def by (rule NL_dumps) (simp_all add: NL_def)

definition one_line :: "json \<Rightarrow> bool" where
  "one_line v \<longleftrightarrow> NL \<notin> set (py_str v) \<and> NL \<notin> set (str_or v [])"

lemma command_canonical_inj:
  assumes "command_canonical m a c p ib ia ex = command_canonical m' a' c' p' ib' ia' ex'"
    and "list_all one_line [m, a, c, ib, ia, ex]" "list_all one_line [m', a', c', ib', ia', ex']"
  shows "py_str m = py_str m' \<and> str_or a [] = str_or a' [] \<and> py_str c = py_str c'
    \<and> str_or ib [] = str_or ib' [] \<and> str_or ia [] = str_or ia' []
    \<and> str_or ex [] = str_or ex' []
    \<and> dumps_sorted (py_or p (JObj [])) = dumps_sorted (py_or p' (JObj []))"
proof -
  have "[py_str m, str_or a [], py_str c, str_or ib [], str_or ia [], str_or ex [],
      dumps_sorted (py_or p (JObj []))] =
    [py_str m', str_or a' [], py_str c', str_or ib' [], str_or ia' [], str_or ex' [],
      dumps_sorted (py_or p' (JObj []))]"
    by (rule join_inj [OF assms(1) [unfolded command_canonical_def]])
      (use assms(2,3) in \<open>auto simp: one_line_def NL_dumps_sorted\<close>)
  then show ?thesis by simp
qed

section \<open>Signed scripts\<close>

datatype fnode = NoFile | Unreadable | File string

definition basename :: "string \<Rightarrow> string" where
  "basename p = rev (takeWhile (\<lambda>c. c \<noteq> CHR ''/'') (rev p))"

definition script_catalog_canonical :: "string \<Rightarrow> string \<Rightarrow> string \<Rightarrow> string" where
  "script_catalog_canonical script_id path sha =
     join [NL] [strip script_id, basename path, lower (strip sha)]"

definition resolve_script_from_catalog ::
  "(json \<Rightarrow> string \<Rightarrow> json \<Rightarrow> bool) \<Rightarrow> (string \<Rightarrow> string) \<Rightarrow> (string \<Rightarrow> fnode) \<Rightarrow>
     dict \<Rightarrow> string \<Rightarrow> string option" where
  "resolve_script_from_catalog ed_verify sha256 fs config sid =
     (let script_id = strip sid in
      if script_id = [] then None
      else (case getv config ''scripts_catalog'' of
         JObj catalog \<Rightarrow>
          (case getv catalog script_id of
             JObj entry \<Rightarrow>
              (let path = strip (str_or (getv entry ''path'') []);
                   expected = lower (strip (str_or (getv entry ''sha256'') []));
                   sig = getv entry ''signature'' in
               if path = [] then None
               else (case fs path of
                   NoFile \<Rightarrow> None
                 | Unreadable \<Rightarrow> None
                 | File content \<Rightarrow>
                    (let digest = sha256 content in
                     if expected = [] \<or> digest \<noteq> expected then None
                     else if \<not> verify_command_signature ed_verify
                           (getv config ''signing_public_key'')
                           (script_catalog_canonical script_id path digest)
                           (if is_str sig then sig else JNull) then None
                     else Some path)))
           | _ \<Rightarrow> None)
       | _ \<Rightarrow> None))"

lemma resolve_script_safe:
  assumes "resolve_script_from_catalog ed_verify sha256 fs config sid = Some path"
  shows "\<exists>catalog entry content.
    getv config ''scripts_catalog'' = JObj catalog \<and>
    getv catalog (strip sid) = JObj entry \<and>
    fs path = File content \<and>
    lower (strip (str_or (getv entry ''sha256'') [])) = sha256 content \<and>
    is_str (getv entry ''signature'') \<and>
    ed_verify (getv config ''signing_public_key'')
       (script_catalog_canonical (strip sid) path (sha256 content)) (getv entry ''signature'')"
  using assms
  by (auto simp: resolve_script_from_catalog_def Let_def verify_command_signature_def
      split: if_splits json.splits fnode.splits)

section \<open>Properties\<close>

text \<open>
  C11: The local policy check, with all its ordered guards, allows exactly the commands of the
  declarative policy: with an allowlist, the listed and known commands, high-risk ones only
  under the flag; without one, the default catalogue of low and medium risk.
\<close>

theorem policy_check_refines_spec:
  "fst (policy_check pol command) \<longleftrightarrow>
     resolve_command (strip command) \<noteq> [] \<and> policy_spec pol (resolve_command (strip command))"
  by (rule policy_check_spec)

text \<open>
  A high-risk command (by any of its aliases) passes the policy only when the flag
  \<open>allow_high_risk\<close> is set and the command is listed: neither alone is enough.
\<close>

theorem high_risk_needs_flag_and_listing:
  assumes "fst (policy_check pol command)"
    and "command_risk (resolve_command (strip command)) command \<ge> Alto"
  shows "allow_high_risk pol \<and> resolve_command (strip command) \<in> set (allowed pol)"
  using assms risk_high_iff [of "command_risk (resolve_command (strip command)) command"]
  by (simp add: policy_check_def Let_def split: if_splits)

theorem high_risk_needs_flag_and_listing_witness:
  "allow_high_risk \<lparr>allowed = [''kill_process''], allow_high_risk = True\<rparr>
   \<and> resolve_command (strip '' kill_process'')
       \<in> set (allowed \<lparr>allowed = [''kill_process''], allow_high_risk = True\<rparr>)"
proof (rule high_risk_needs_flag_and_listing)
  let ?pol = "\<lparr>allowed = [''kill_process''], allow_high_risk = True\<rparr>"
  have cmd: "resolve_command (strip '' kill_process'') = ''kill_process''" by code_simp
  have known: "''kill_process'' \<in> set ALLOWED_TOOLS" by code_simp
  show "fst (policy_check ?pol '' kill_process'')"
    unfolding policy_check_spec cmd by (simp add: policy_spec_def known)
  have "map_of COMMAND_RISK ''kill_process'' = Some Alto" by code_simp
  then show "Alto \<le> command_risk (resolve_command (strip '' kill_process'')) '' kill_process''"
    unfolding cmd by (simp add: command_risk_def)
qed
text \<open>
  Whatever the caller asks for in \<open>timeout\<close> or \<open>timeout_ms\<close>, the effective timeout of
  a command, when it is a number, is between 5 and 300 seconds.
\<close>

theorem timeout_within_bounds:
  assumes "command_timeout command params = Inr t" "t \<noteq> NaN"
  shows "\<exists>q. t = Fin q \<and> 5 \<le> q \<and> q \<le> 300"
  using assms by (rule command_timeout_bounds)

theorem timeout_within_bounds_witness: "\<exists>q. Fin 300 = Fin q \<and> 5 \<le> q \<and> q \<le> (300 :: rat)"
proof (rule timeout_within_bounds)
  show "command_timeout ''traceroute'' [(''timeout_ms'', JInt 900000)] = Inr (Fin 300)"
    by code_simp
qed simp

text \<open>
  The text \<open>nan\<close> as a requested timeout escapes the clamp: Python's \<open>max\<close> and
  \<open>min\<close> keep a NaN that stands first, so the effective timeout is NaN for every command.
\<close>

theorem timeout_nan_escapes_clamp:
  "command_timeout command [(''timeout'', JStr ''nan'')] = Inr NaN"
proof -
  have "requested_timeout [(''timeout'', JStr ''nan'')] = Inr (Some NaN)" by code_simp
  then show ?thesis by (simp add: command_timeout_def)
qed

text \<open>
  Two commands whose text fields hold no line feed have the same canonical text only
  when all their fields agree, the parameters up to key order: a signature cannot be moved
  from one such command to another.
\<close>

theorem canonical_binds_fields:
  assumes "command_canonical m a c p ib ia ex = command_canonical m' a' c' p' ib' ia' ex'"
    and "list_all one_line [m, a, c, ib, ia, ex]" "list_all one_line [m', a', c', ib', ia', ex']"
  shows "py_str m = py_str m' \<and> str_or a [] = str_or a' [] \<and> py_str c = py_str c'
    \<and> str_or ib [] = str_or ib' [] \<and> str_or ia [] = str_or ia' []
    \<and> str_or ex [] = str_or ex' []
    \<and> dumps_sorted (py_or p (JObj [])) = dumps_sorted (py_or p' (JObj []))"
  using assms by (rule command_canonical_inj)

theorem canonical_binds_fields_witness:
  "py_str (JStr ''m1'') = py_str (JStr ''m1'') \<and> str_or JNull [] = str_or (JStr '''') []
   \<and> py_str (JStr ''ping'') = py_str (JStr ''ping'')
   \<and> str_or JNull [] = str_or JNull [] \<and> str_or JNull [] = str_or JNull []
   \<and> str_or JNull [] = str_or JNull []
   \<and> dumps_sorted (py_or (JObj [(''a'', JInt 1), (''b'', JInt 2)]) (JObj []))
       = dumps_sorted (py_or (JObj [(''b'', JInt 2), (''a'', JInt 1)]) (JObj []))"
  by (rule canonical_binds_fields) code_simp+

text \<open>
  With line feeds in the fields the canonical text is ambiguous: a command for one
  agent and a different command for another agent can share it, and so their signature.
\<close>

theorem canonical_ambiguous_with_newlines:
  "command_canonical (JStr (''m'' @ [NL] @ ''x'')) (JStr ''y'') (JStr ''z'') p ib ia ex =
   command_canonical (JStr ''m'') (JStr ''x'') (JStr (''y'' @ [NL] @ ''z'')) p ib ia ex"
  by (simp add: command_canonical_def)

text \<open>
  \<open>run_script\<close> only ever resolves to a path whose present content has the digest of the
  catalogue entry and whose id, base name and digest carry a valid signature under the
  pinned key.
\<close>

theorem script_is_catalogued_and_signed:
  assumes "resolve_script_from_catalog ed_verify sha256 fs config sid = Some path"
  shows "\<exists>catalog entry content.
    getv config ''scripts_catalog'' = JObj catalog \<and>
    getv catalog (strip sid) = JObj entry \<and>
    fs path = File content \<and>
    lower (strip (str_or (getv entry ''sha256'') [])) = sha256 content \<and>
    is_str (getv entry ''signature'') \<and>
    ed_verify (getv config ''signing_public_key'')
       (script_catalog_canonical (strip sid) path (sha256 content)) (getv entry ''signature'')"
  using assms by (rule resolve_script_safe)

definition sample_script_config :: dict where
  "sample_script_config =
     [(''signing_public_key'', JStr ''pk''),
      (''scripts_catalog'', JObj [(''diag'', JObj [(''path'', JStr ''/opt/diag.sh''),
         (''sha256'', JStr ''AB''), (''signature'', JStr ''sig'')])])]"

theorem script_is_catalogued_and_signed_witness:
  "\<exists>catalog entry content.
    getv sample_script_config ''scripts_catalog'' = JObj catalog \<and>
    getv catalog (strip ''diag'') = JObj entry \<and>
    (\<lambda>p. File ''echo'') ''/opt/diag.sh'' = File content \<and>
    lower (strip (str_or (getv entry ''sha256'') [])) = (\<lambda>s. ''ab'') content \<and>
    is_str (getv entry ''signature'') \<and>
    (\<lambda>pk c s. s = JStr ''sig'') (getv sample_script_config ''signing_public_key'')
       (script_catalog_canonical (strip ''diag'') ''/opt/diag.sh'' ((\<lambda>s. ''ab'') content))
       (getv entry ''signature'')"
  by (rule script_is_catalogued_and_signed) code_simp

end
