(* ===== verification/Machine.thy ===== *)
theory Machine
  imports Py_Prelude
begin

text \<open>
  Interfaces shared by the stateful components: a deterministic machine with an invariant,
  and the simulation of an abstract machine by a concrete one. A machine takes an input and
  a state and gives an output with the next state; \<open>run\<close> feeds it a list of inputs.
\<close>

type_synonym ('i, 's, 'o) machine = "'i \<Rightarrow> 's \<Rightarrow> 'o \<times> 's"

fun run :: "('i, 's, 'o) machine \<Rightarrow> 'i list \<Rightarrow> 's \<Rightarrow> 'o list \<times> 's" where
  "run m [] s = ([], s)"
| "run m (i # is) s = (let (x, s') = m i s; (xs, s'') = run m is s' in (x # xs, s''))"

lemma run_length [simp]: "length (fst (run m is s)) = length is"
  by (induction "is" arbitrary: s) (simp_all add: case_prod_unfold Let_def)

lemma run_append:
  "run m (is @ js) s =
     (fst (run m is s) @ fst (run m js (snd (run m is s))), snd (run m js (snd (run m is s))))"
  by (induction "is" arbitrary: s) (simp_all add: case_prod_unfold Let_def)

text \<open>The inputs of a run, each admissible in the state it meets.\<close>

fun admissible :: "('i \<Rightarrow> 's \<Rightarrow> bool) \<Rightarrow> ('i, 's, 'o) machine \<Rightarrow> 'i list \<Rightarrow> 's \<Rightarrow> bool" where
  "admissible ok m [] s = True"
| "admissible ok m (i # is) s = (ok i s \<and> admissible ok m is (snd (m i s)))"

lemma admissible_True [simp]: "admissible (\<lambda>i s. True) m is s"
  by (induction "is" arbitrary: s) simp_all

locale invariant_machine =
  fixes m :: "('i, 's, 'o) machine"
    and ok :: "'i \<Rightarrow> 's \<Rightarrow> bool"
    and inv :: "'s \<Rightarrow> bool"
  assumes step_inv: "inv s \<Longrightarrow> ok i s \<Longrightarrow> inv (snd (m i s))"
begin

lemma run_inv: "inv s \<Longrightarrow> admissible ok m is s \<Longrightarrow> inv (snd (run m is s))"
  by (induction "is" arbitrary: s) (simp_all add: case_prod_unfold Let_def step_inv)

end

locale simulation =
  fixes c :: "('i, 's, 'o) machine"
    and a :: "('i, 'a, 'o) machine"
    and rel :: "'s \<Rightarrow> 'a \<Rightarrow> bool"
    and ok :: "'i \<Rightarrow> 'a \<Rightarrow> bool"
  assumes step_out: "rel s t \<Longrightarrow> ok i t \<Longrightarrow> fst (c i s) = fst (a i t)"
    and step_rel: "rel s t \<Longrightarrow> ok i t \<Longrightarrow> rel (snd (c i s)) (snd (a i t))"
begin

lemma run_sim:
  assumes "rel s t" "admissible ok a is t"
  shows "fst (run c is s) = fst (run a is t) \<and> rel (snd (run c is s)) (snd (run a is t))"
  using assms
proof (induction "is" arbitrary: s t)
  case (Cons i "is")
  have o: "fst (c i s) = fst (a i t)" using Cons.prems by (intro step_out) simp_all
  have r: "rel (snd (c i s)) (snd (a i t))" using Cons.prems by (intro step_rel) simp_all
  have "admissible ok a is (snd (a i t))" using Cons.prems(2) by simp
  from Cons.IH [OF r this] o show ?case by (simp add: case_prod_unfold Let_def)
qed simp

end

end
