(* ===== verification/Rate_Limiter.thy ===== *)
theory Rate_Limiter
  imports Machine Py_Text
begin

text \<open>
  The sliding-window rate limiter of \<^verbatim>\<open>colsoft_tools/security.py\<close>
  (\<open>RateLimiter\<close>), used by the agent and by the server. The monotonic clock is an input of
  every call. The abstract machine remembers every accepted call and counts those of the
  last window; the code's queues, which forget old calls, simulate it.
\<close>

record rate_limiter =
  limit :: int
  window :: rat
  events :: "(string \<times> rat list) list"

definition rate_limiter_init :: "int \<Rightarrow> rat \<Rightarrow> rate_limiter" where
  "rate_limiter_init cap w = \<lparr>limit = cap, window = w, events = []\<rparr>"

definition queue_of :: "rate_limiter \<Rightarrow> string \<Rightarrow> rat list" where
  "queue_of r key = (case map_of (events r) key of None \<Rightarrow> [] | Some q \<Rightarrow> q)"

definition rl_allow :: "rat \<Rightarrow> string \<Rightarrow> rate_limiter \<Rightarrow> bool \<times> rate_limiter" where
  "rl_allow now key r =
     (let r = r\<lparr>events := setdefault key [] (events r)\<rparr>;
          q = dropWhile (\<lambda>t. now - t > window r) (queue_of r key) in
      if int (length q) \<ge> limit r then (False, r\<lparr>events := dset key q (events r)\<rparr>)
      else (True, r\<lparr>events := dset key (q @ [now]) (events r)\<rparr>))"

definition allow_per_command :: "rat \<Rightarrow> rat \<Rightarrow> string \<Rightarrow> string \<Rightarrow> rate_limiter \<Rightarrow> bool \<times> rate_limiter" where
  \<comment> \<open>the clock is read once per \<open>allow\<close>\<close>
  "allow_per_command now now' agent_id command r =
     (let (ok, r) = rl_allow now (''agent:'' @ agent_id) r in
      if \<not> ok then (False, r)
      else rl_allow now' (''agent:'' @ agent_id @ '':cmd:'' @ command) r)"

section \<open>The abstract limiter\<close>

text \<open>Its state: the time of the last call and all accepted calls of each key, oldest first.\<close>

type_synonym rl_history = "rat \<times> (string \<Rightarrow> rat list)"

definition recent :: "rat \<Rightarrow> rat \<Rightarrow> rat list \<Rightarrow> rat list" where
  "recent w now ts = filter (\<lambda>t. now - t \<le> w) ts"

definition rl_step :: "(rat \<times> string, rate_limiter, bool) machine" where
  "rl_step = (\<lambda>(now, key) r. rl_allow now key r)"

definition rl_spec :: "int \<Rightarrow> rat \<Rightarrow> (rat \<times> string, rl_history, bool) machine" where
  "rl_spec cap w = (\<lambda>(now, key) (prev, h).
     if int (length (recent w now (h key))) < cap
     then (True, (now, h(key := h key @ [now]))) else (False, (now, h)))"

definition rl_ok :: "rat \<times> string \<Rightarrow> rl_history \<Rightarrow> bool" where
  "rl_ok i s \<longleftrightarrow> fst s \<le> fst i"

definition key_rel :: "rat \<Rightarrow> rat \<Rightarrow> rat list \<Rightarrow> rat list \<Rightarrow> bool" where
  \<comment> \<open>the queue is a suffix of the history, what is missing is out of the window\<close>
  "key_rel w now q ts \<longleftrightarrow> sorted ts \<and> (\<forall>t \<in> set ts. t \<le> now) \<and>
     (\<exists>old. ts = old @ q \<and> (\<forall>t \<in> set old. now - t > w))"

definition rl_rel :: "int \<Rightarrow> rat \<Rightarrow> rate_limiter \<Rightarrow> rl_history \<Rightarrow> bool" where
  "rl_rel cap w r s \<longleftrightarrow> limit r = cap \<and> window r = w \<and>
     (\<forall>k. key_rel w (fst s) (queue_of r k) (snd s k))"

lemma dropWhile_sorted:
  "sorted ts \<Longrightarrow> dropWhile (\<lambda>t. now - t > w) ts = filter (\<lambda>t. now - t \<le> w) (ts :: rat list)"
proof (induction ts)
  case (Cons a ts)
  show ?case
  proof (cases "now - a > w")
    case True
    with Cons show ?thesis by simp
  next
    case False
    have "filter (\<lambda>t. now - t \<le> w) ts = ts"
      using Cons.prems False by (intro filter_True) auto
    with False show ?thesis by simp
  qed
qed simp

lemma queue_of_dset [simp]:
  "queue_of (r\<lparr>events := dset k q d\<rparr>) k' = (if k' = k then q else queue_of (r\<lparr>events := d\<rparr>) k')"
  by (simp add: queue_of_def)

lemma queue_of_setdefault [simp]: "queue_of (r\<lparr>events := setdefault k [] (events r)\<rparr>) k' = queue_of r k'"
  by (auto simp: queue_of_def map_of_setdefault split: option.splits)

lemma rl_allow_eq:
  "rl_allow now key r =
     (let q = dropWhile (\<lambda>t. now - t > window r) (queue_of r key);
          d = setdefault key [] (events r) in
      if int (length q) \<ge> limit r then (False, r\<lparr>events := dset key q d\<rparr>)
      else (True, r\<lparr>events := dset key (q @ [now]) d\<rparr>))"
  by (simp add: rl_allow_def Let_def)

lemma key_rel_later: "key_rel w t0 q ts \<Longrightarrow> t0 \<le> now \<Longrightarrow> key_rel w now q ts"
  unfolding key_rel_def by force

lemma key_rel_recent:
  assumes "key_rel w now q ts"
  shows "dropWhile (\<lambda>t. now - t > w) q = recent w now ts"
proof -
  obtain old where h: "ts = old @ q" "\<forall>t \<in> set old. now - t > w" and srt: "sorted ts"
    using assms unfolding key_rel_def by blast
  have "filter (\<lambda>t. now - t \<le> w) old = []" using h(2) by (intro filter_False) auto
  moreover have "sorted q" using h(1) srt by (simp add: sorted_append)
  ultimately show ?thesis by (simp add: recent_def h(1) dropWhile_sorted)
qed

lemma key_rel_drop:
  assumes "key_rel w now q ts"
  shows "key_rel w now (recent w now ts) ts"
proof -
  have srt: "sorted ts" using assms unfolding key_rel_def by blast
  have "ts = takeWhile (\<lambda>t. now - t > w) ts @ recent w now ts"
    unfolding recent_def dropWhile_sorted [OF srt, symmetric] by simp
  moreover have "\<forall>t \<in> set (takeWhile (\<lambda>t. now - t > w) ts). now - t > w"
    by (auto dest: set_takeWhileD)
  ultimately show ?thesis using assms unfolding key_rel_def by blast
qed

lemma key_rel_append:
  assumes "key_rel w now q ts"
  shows "key_rel w now (q @ [now]) (ts @ [now])"
  using assms unfolding key_rel_def by (auto simp: sorted_append)

lemma rl_step_sim:
  assumes rel: "rl_rel cap w r s" and ok: "rl_ok i s"
  shows "fst (rl_step i r) = fst (rl_spec cap w i s)"
    and "rl_rel cap w (snd (rl_step i r)) (snd (rl_spec cap w i s))"
proof -
  obtain now key where i: "i = (now, key)" by (cases i)
  obtain t0 h where s: "s = (t0, h)" by (cases s)
  have lw: "limit r = cap" "window r = w" using rel by (simp_all add: rl_rel_def)
  have k: "key_rel w now (queue_of r k) (h k)" for k
    using rel ok by (auto simp: rl_rel_def rl_ok_def i s intro: key_rel_later)
  note eq = rl_allow_eq [of now key r, unfolded lw key_rel_recent [OF k] Let_def]
  show "fst (rl_step i r) = fst (rl_spec cap w i s)"
    by (simp add: rl_step_def rl_spec_def i s eq)
  show "rl_rel cap w (snd (rl_step i r)) (snd (rl_spec cap w i s))"
    using k key_rel_drop [OF k] key_rel_append [OF key_rel_drop [OF k]]
    by (simp add: rl_step_def rl_spec_def i s eq rl_rel_def lw)
qed

interpretation rl: simulation rl_step "rl_spec cap w" "rl_rel cap w" rl_ok for cap w
  by unfold_locales (use rl_step_sim in auto)

section \<open>What the abstract limiter guarantees\<close>

text \<open>Any \<open>cap + 1\<close> accepted calls of a key in a row span more than the window.\<close>

definition spaced :: "int \<Rightarrow> rat \<Rightarrow> rat list \<Rightarrow> bool" where
  "spaced cap w ts \<longleftrightarrow> (\<forall>i. i + nat cap < length ts \<longrightarrow> w < ts ! (i + nat cap) - ts ! i)"

lemma recent_last:
  assumes "sorted ts" "\<forall>t \<in> set ts. t \<le> now" "length (recent w now ts) < n" "n \<le> length ts"
  shows "w < now - ts ! (length ts - n)"
proof (rule ccontr)
  assume "\<not> ?thesis"
  then have le: "now - ts ! (length ts - n) \<le> w" by simp
  let ?j = "length ts - n"
  have "\<forall>t \<in> set (drop ?j ts). now - t \<le> w"
  proof
    fix t assume "t \<in> set (drop ?j ts)"
    then obtain k where "k < n" "t = ts ! (?j + k)"
      using assms(4) by (auto simp: in_set_conv_nth)
    then have "ts ! ?j \<le> t" using assms(1,4) by (simp add: sorted_nth_mono)
    then show "now - t \<le> w" using le by linarith
  qed
  then have "filter (\<lambda>t. now - t \<le> w) (drop ?j ts) = drop ?j ts" by (rule filter_True) 
  then have "n \<le> length (recent w now (take ?j ts @ drop ?j ts))"
    unfolding recent_def filter_append using assms(4) by simp
  then show False using assms(3) by simp
qed

lemma spaced_append:
  assumes "spaced cap w ts" "sorted ts" "\<forall>t \<in> set ts. t \<le> now"
    and "int (length (recent w now ts)) < cap"
  shows "spaced cap w (ts @ [now])"
  unfolding spaced_def
proof (intro allI impI)
  fix i assume i: "i + nat cap < length (ts @ [now])"
  show "w < (ts @ [now]) ! (i + nat cap) - (ts @ [now]) ! i"
  proof (cases "i + nat cap < length ts")
    case True
    then show ?thesis using assms(1) by (simp add: spaced_def nth_append)
  next
    case False
    with i assms(4) have e: "i + nat cap = length ts" "i < length ts" "length ts - nat cap = i" by auto
    then show ?thesis
      using recent_last [OF assms(2,3), of w "nat cap"] assms(4) by (simp add: nth_append)
  qed
qed

definition rl_inv :: "int \<Rightarrow> rat \<Rightarrow> rl_history \<Rightarrow> bool" where
  "rl_inv cap w s \<longleftrightarrow> (\<forall>k. spaced cap w (snd s k) \<and> sorted (snd s k) \<and> (\<forall>t \<in> set (snd s k). t \<le> fst s))"

interpretation rl_hist: invariant_machine "rl_spec cap w" rl_ok "rl_inv cap w" for cap w
proof
  fix s i assume inv: "rl_inv cap w s" and ok: "rl_ok i s"
  obtain now key where i: "i = (now, key)" by (cases i)
  obtain t0 h where s: "s = (t0, h)" by (cases s)
  have h: "spaced cap w (h k)" "sorted (h k)" "\<forall>t \<in> set (h k). t \<le> now" for k
    using inv ok by (auto simp: rl_inv_def rl_ok_def i s intro: order_trans)
  then have "sorted (h key @ [now])" by (auto simp: sorted_append)
  then show "rl_inv cap w (snd (rl_spec cap w i s))"
    using h spaced_append [OF h] by (auto simp: rl_inv_def rl_spec_def i s)
qed

text \<open>The accepted times of a key, read off the inputs and the answers of a run.\<close>

definition accepted :: "string \<Rightarrow> (rat \<times> string) list \<Rightarrow> bool list \<Rightarrow> rat list" where
  "accepted k reqs outs = map (fst \<circ> fst) (filter (\<lambda>p. snd (fst p) = k \<and> snd p) (zip reqs outs))"

lemma rl_history_accepted:
  "snd (snd (run (rl_spec cap w) reqs s)) k =
     snd s k @ accepted k reqs (fst (run (rl_spec cap w) reqs s))"
  by (induction reqs arbitrary: s) (auto simp: rl_spec_def accepted_def case_prod_unfold Let_def)

lemma rl_admissible:
  "sorted (map fst reqs) \<Longrightarrow> \<forall>p \<in> set reqs. fst s \<le> fst p \<Longrightarrow>
     admissible rl_ok (rl_spec cap w) reqs s"
  by (induction reqs arbitrary: s) (auto simp: rl_ok_def rl_spec_def case_prod_unfold)

definition rl_start :: "rat \<Rightarrow> rl_history" where
  "rl_start t = (t, \<lambda>k. [])"

lemma rl_init_rel: "rl_rel cap w (rate_limiter_init cap w) (rl_start t)"
  by (simp add: rl_rel_def key_rel_def rate_limiter_init_def rl_start_def queue_of_def)

lemma rl_run_spec:
  assumes "sorted (map fst reqs)" "\<forall>p \<in> set reqs. t0 \<le> fst p"
  shows "fst (run rl_step reqs (rate_limiter_init cap w)) = fst (run (rl_spec cap w) reqs (rl_start t0))"
  by (rule rl.run_sim [THEN conjunct1, OF rl_init_rel rl_admissible])
    (use assms in \<open>auto simp: rl_start_def\<close>)

lemma rl_run_spaced:
  assumes "sorted (map fst reqs)"
  shows "spaced cap w (accepted k reqs (fst (run rl_step reqs (rate_limiter_init cap w))))"
proof -
  obtain t0 where t0: "\<forall>p \<in> set reqs. t0 \<le> fst p"
    using assms by (cases reqs) auto
  have "rl_inv cap w (snd (run (rl_spec cap w) reqs (rl_start t0)))"
    by (rule rl_hist.run_inv)
      (use assms t0 in \<open>auto simp: rl_inv_def rl_start_def spaced_def intro!: rl_admissible\<close>)
  then show ?thesis
    unfolding rl_run_spec [OF assms t0]
    by (simp add: rl_inv_def rl_history_accepted) (simp add: rl_start_def)
qed

section \<open>Properties\<close>

text \<open>
  C13: The rate limiter, which keeps one pruned queue per key, answers every sequence of
  calls on a monotone clock exactly as the limiter that remembers all accepted calls and
  admits a call when fewer than \<open>limit\<close> of its key fall in the window before it.
\<close>

theorem rate_limiter_refines_history:
  assumes "sorted (map fst reqs)" "\<forall>p \<in> set reqs. t0 \<le> fst p"
  shows "fst (run rl_step reqs (rate_limiter_init cap w)) = fst (run (rl_spec cap w) reqs (rl_start t0))"
  using assms by (rule rl_run_spec)

theorem rate_limiter_refines_history_witness:
  "fst (run rl_step [(0, ''k''), (1, ''k''), (3, ''k'')] (rate_limiter_init 1 2)) =
   fst (run (rl_spec 1 2) [(0, ''k''), (1, ''k''), (3, ''k'')] (rl_start 0))"
  by (rule rate_limiter_refines_history) simp_all

text \<open>
  C14: Whatever the interleaving of keys, of any \<open>limit + 1\<close> accepted calls of one key the
  last comes more than \<open>window\<close> seconds after the first.
\<close>

theorem rate_limit_per_window:
  assumes "sorted (map fst reqs)"
    and "ts = accepted k reqs (fst (run rl_step reqs (rate_limiter_init cap w)))"
    and "i + nat cap < length ts"
  shows "w < ts ! (i + nat cap) - ts ! i"
  using rl_run_spaced [OF assms(1), of cap w k] assms(2,3) by (simp add: spaced_def)

theorem rate_limit_per_window_witness: "(2 :: rat) < [0, 3] ! (0 + nat 1) - [0, 3] ! 0"
proof (rule rate_limit_per_window)
  show "[0, 3] = accepted ''k'' [(0, ''k''), (1, ''k''), (3, ''k'')]
     (fst (run rl_step [(0, ''k''), (1, ''k''), (3, ''k'')] (rate_limiter_init 1 2)))"
    by code_simp
qed simp_all

end
