(* ===== verification/Json_Lines.thy ===== *)
theory Json_Lines
  imports Py_Text
begin

text \<open>
  Files of one JSON document per line, as the audit log and the telemetry buffer keep them.
  A line is represented by what reading it back gives: nothing but white space, a value, or
  text that \<open>json.loads\<close> refuses. Writing \<open>json.dumps(v)\<close> and a line feed appends
  \<open>JLine v\<close>.
\<close>

datatype fline = Blank | JLine json | BadLine

definition last_line :: "fline list \<Rightarrow> fline option" where
  \<comment> \<open>the last line that is not blank\<close>
  "last_line ls = (let xs = filter (\<lambda>l. l \<noteq> Blank) ls in if xs = [] then None else Some (last xs))"

lemma last_line_append [simp]:
  "last_line (ls @ [l]) = (if l = Blank then last_line ls else Some l)"
  by (simp add: last_line_def)

lemma last_line_Nil [simp]: "last_line [] = None"
  by (simp add: last_line_def)

lemma has_append [simp]: "has k (d @ e) \<longleftrightarrow> has k d \<or> has k e"
  by (auto simp: has_def)

lemma has_simps [simp]: "\<not> has k []" "has k ((a, v) # d) \<longleftrightarrow> k = a \<or> has k d"
  by (auto simp: has_def)

lemma dset_fresh: "\<not> has k d \<Longrightarrow> dset k v d = d @ [(k, v)]"
  by (induction d) (auto simp: has_def dset_def)

lemma dpop_fresh: "\<not> has k d \<Longrightarrow> dpop k d = d"
  by (induction d) (auto simp: has_def dpop_def)

lemma dpop_append [simp]: "dpop k (d @ e) = dpop k d @ dpop k e"
  by (simp add: dpop_def AList.delete_eq)

lemma dpop_simps [simp]:
  "dpop k [] = []"
  "dpop k ((a, v) # d) = (if a = k then dpop k d else (a, v) # dpop k d)"
  by (auto simp: dpop_def)

end
