(* ===== verification/Audit_Log.thy ===== *)
theory Audit_Log
  imports Machine Json_Lines
begin

text \<open>
  The hash-chained audit log, \<open>AuditLog\<close> of \<^verbatim>\<open>colsoft_tools/security.py\<close>.
  The disk is a map from paths to lines; \<open>sha256\<close> (the hex digest) is a parameter; the
  clock and whether the write succeeds are inputs.
\<close>

section \<open>The log\<close>

type_synonym disk = "string \<rightharpoonup> fline list"

record audit_log =
  path :: string
  prev_hash :: string

definition GENESIS :: string where
  "GENESIS = ''genesis-0000-0000000000000000000000000000000000000000''"

definition load_tail_hash :: "disk \<Rightarrow> string \<Rightarrow> string" where
  "load_tail_hash fs p =
     (if p = [] then GENESIS
      else (case fs p of
         None \<Rightarrow> GENESIS
       | Some ls \<Rightarrow>
          (case last_line ls of
             None \<Rightarrow> GENESIS
           | Some (JLine (JObj d)) \<Rightarrow> py_str (py_or (getv d ''hash'') (JStr GENESIS))
           | Some _ \<Rightarrow> GENESIS)))"

definition audit_open :: "disk \<Rightarrow> string \<Rightarrow> audit_log" where
  "audit_open fs p = \<lparr>path = p, prev_hash = load_tail_hash fs p\<rparr>"

definition audit_record :: "(string \<Rightarrow> string) \<Rightarrow> rat \<Rightarrow> string \<Rightarrow> dict \<Rightarrow> dict" where
  \<comment> \<open>the record that is written, after \<open>prev\<close>\<close>
  "audit_record sha256 now prev record =
     (let rec = dset ''ts'' (py_or (getv record ''ts'') (JFloat (Fin now))) record;
          digest = sha256 (prev @ ''|'' @ dumps_sorted (JObj rec))
      in dset ''hash'' (JStr digest) (dset ''prev_hash'' (JStr prev) rec))"

definition audit_append ::
  "(string \<Rightarrow> string) \<Rightarrow> string \<Rightarrow> rat \<Rightarrow> bool \<Rightarrow> dict \<Rightarrow> disk \<times> audit_log \<Rightarrow>
     dict res \<times> (disk \<times> audit_log)" where
  "audit_append sha256 default_path now writable record = (\<lambda>(fs, log).
     (let log = (if path log = [] then audit_open fs default_path else log);
          rec = audit_record sha256 now (prev_hash log) record;
          old = (case fs (path log) of None \<Rightarrow> [] | Some ls \<Rightarrow> ls) in
      if \<not> writable then (Inl OSError, (fs, log))
      else (Inr rec, (fs(path log \<mapsto> old @ [JLine (JObj rec)]),
                      log\<lparr>prev_hash := py_str (getv rec ''hash'')\<rparr>))))"

section \<open>The chain\<close>

definition entry_body :: "dict \<Rightarrow> dict" where
  "entry_body r = dpop ''hash'' (dpop ''prev_hash'' r)"

definition entry_text :: "string \<Rightarrow> dict \<Rightarrow> string" where
  "entry_text prev r = prev @ ''|'' @ dumps_sorted (JObj (entry_body r))"

fun chain_ok :: "(string \<Rightarrow> string) \<Rightarrow> string \<Rightarrow> dict list \<Rightarrow> bool" where
  "chain_ok sha256 prev [] = True"
| "chain_ok sha256 prev (r # rs) =
     (getv r ''prev_hash'' = JStr prev \<and> getv r ''hash'' = JStr (sha256 (entry_text prev r)) \<and>
      chain_ok sha256 (sha256 (entry_text prev r)) rs)"

fun chain_end :: "(string \<Rightarrow> string) \<Rightarrow> string \<Rightarrow> dict list \<Rightarrow> string" where
  "chain_end sha256 prev [] = prev"
| "chain_end sha256 prev (r # rs) = chain_end sha256 (sha256 (entry_text prev r)) rs"

text \<open>The texts that a chain hashes, in order.\<close>

fun chain_texts :: "(string \<Rightarrow> string) \<Rightarrow> string \<Rightarrow> dict list \<Rightarrow> string list" where
  "chain_texts sha256 prev [] = []"
| "chain_texts sha256 prev (r # rs) =
     entry_text prev r # chain_texts sha256 (sha256 (entry_text prev r)) rs"

lemma chain_ok_append:
  "chain_ok sha256 prev (rs @ ss) \<longleftrightarrow>
     chain_ok sha256 prev rs \<and> chain_ok sha256 (chain_end sha256 prev rs) ss"
  by (induction rs arbitrary: prev) auto

lemma chain_end_append:
  "chain_end sha256 prev (rs @ ss) = chain_end sha256 (chain_end sha256 prev rs) ss"
  by (induction rs arbitrary: prev) auto

lemma chain_texts_append:
  "chain_texts sha256 prev (rs @ ss) =
     chain_texts sha256 prev rs @ chain_texts sha256 (chain_end sha256 prev rs) ss"
  by (induction rs arbitrary: prev) auto

text \<open>The callers' records carry neither of the two fields that the chain adds.\<close>

definition plain_record :: "dict \<Rightarrow> bool" where
  "plain_record r \<longleftrightarrow> \<not> has ''hash'' r \<and> \<not> has ''prev_hash'' r"

lemma audit_record_entry:
  assumes "plain_record record"
  shows "getv (audit_record sha256 now prev record) ''prev_hash'' = JStr prev"
    and "getv (audit_record sha256 now prev record) ''hash'' =
           JStr (sha256 (entry_text prev (audit_record sha256 now prev record)))"
proof -
  let ?rec = "dset ''ts'' (py_or (getv record ''ts'') (JFloat (Fin now))) record"
  have f: "\<not> has ''prev_hash'' ?rec" "\<not> has ''hash'' ?rec"
    using assms by (simp_all add: plain_record_def)
  then have "entry_body (audit_record sha256 now prev record) = ?rec"
    using f by (simp add: audit_record_def entry_body_def Let_def dset_fresh dpop_fresh)
  then show "getv (audit_record sha256 now prev record) ''prev_hash'' = JStr prev"
    and "getv (audit_record sha256 now prev record) ''hash'' =
           JStr (sha256 (entry_text prev (audit_record sha256 now prev record)))"
    by (simp_all add: audit_record_def Let_def entry_text_def)
qed

definition log_file :: "disk \<Rightarrow> string \<Rightarrow> dict list \<Rightarrow> bool" where
  "log_file fs p rs \<longleftrightarrow> (case fs p of None \<Rightarrow> rs = [] | Some ls \<Rightarrow> ls = map (JLine \<circ> JObj) rs)"

text \<open>
  The invariant: the file is a valid chain and the hash in memory is the one that a restart
  would load.
\<close>

definition audit_inv :: "(string \<Rightarrow> string) \<Rightarrow> string \<Rightarrow> disk \<times> audit_log \<Rightarrow> bool" where
  "audit_inv sha256 p = (\<lambda>(fs, log). path log = p \<and> p \<noteq> [] \<and>
     (\<exists>rs. log_file fs p rs \<and> chain_ok sha256 GENESIS rs \<and>
           prev_hash log = chain_end sha256 GENESIS rs \<and>
           load_tail_hash fs p = chain_end sha256 GENESIS rs))"

definition hex_hash :: "(string \<Rightarrow> string) \<Rightarrow> bool" where
  \<comment> \<open>what the code relies on of \<open>hexdigest\<close>: hexadecimal digits, at least one\<close>
  "hex_hash sha256 \<longleftrightarrow> (\<forall>s. sha256 s \<noteq> [] \<and> set (sha256 s) \<subseteq> set ''0123456789abcdef'')"

lemma hex_hash_facts:
  assumes "hex_hash sha256"
  shows "sha256 s \<noteq> []" "CHR ''|'' \<notin> set (sha256 s)" "sha256 s \<noteq> GENESIS"
proof -
  have *: "set (sha256 s) \<subseteq> set ''0123456789abcdef''" using assms by (simp add: hex_hash_def)
  show "sha256 s \<noteq> []" using assms by (simp add: hex_hash_def)
  show "CHR ''|'' \<notin> set (sha256 s)" using * by auto
  have "CHR ''g'' \<notin> set (sha256 s)" using * by auto
  moreover have "CHR ''g'' \<in> set GENESIS" by (simp add: GENESIS_def)
  ultimately show "sha256 s \<noteq> GENESIS" by metis
qed

definition audit_step ::
  "(string \<Rightarrow> string) \<Rightarrow> string \<Rightarrow> (rat \<times> bool \<times> dict, disk \<times> audit_log, dict res) machine" where
  "audit_step sha256 default_path = (\<lambda>(now, writable, record). audit_append sha256 default_path now writable record)"

lemma audit_append_inv:
  assumes sha: "hex_hash sha256" and inv: "audit_inv sha256 p s" and rec: "plain_record record"
  shows "audit_inv sha256 p (snd (audit_append sha256 default_path now writable record s))"
proof -
  obtain fs log where s: "s = (fs, log)" by (cases s)
  obtain rs where p: "path log = p" "p \<noteq> []" and rs: "log_file fs p rs" "chain_ok sha256 GENESIS rs"
    "prev_hash log = chain_end sha256 GENESIS rs"
    using inv by (auto simp: audit_inv_def s)
  let ?r = "audit_record sha256 now (prev_hash log) record"
  let ?ls = "case fs p of None \<Rightarrow> [] | Some ls \<Rightarrow> ls"
  have ls: "?ls = map (JLine \<circ> JObj) rs" using rs(1) by (auto simp: log_file_def split: option.splits)
  note e = audit_record_entry [OF rec, of sha256 now "prev_hash log"]
  have new: "chain_ok sha256 GENESIS (rs @ [?r])"
    "chain_end sha256 GENESIS (rs @ [?r]) = sha256 (entry_text (prev_hash log) ?r)"
    using rs e by (simp_all add: chain_ok_append chain_end_append)
  have disk: "log_file (fs(p \<mapsto> ?ls @ [JLine (JObj ?r)])) p (rs @ [?r])"
    by (simp add: log_file_def ls)
  have tail: "load_tail_hash (fs(p \<mapsto> ?ls @ [JLine (JObj ?r)])) p = sha256 (entry_text (prev_hash log) ?r)"
    using p(2) e hex_hash_facts(1) [OF sha] by (simp add: load_tail_hash_def py_or_def)
  show ?thesis
  proof (cases writable)
    case True
    then have eq: "snd (audit_append sha256 default_path now writable record s) =
        (fs(p \<mapsto> ?ls @ [JLine (JObj ?r)]), log\<lparr>prev_hash := sha256 (entry_text (prev_hash log) ?r)\<rparr>)"
      using p by (simp add: audit_append_def s Let_def e)
    show ?thesis unfolding eq audit_inv_def using p disk new tail by auto
  next
    case False
    then show ?thesis using inv p by (simp add: audit_append_def s Let_def)
  qed
qed

interpretation audit: invariant_machine "audit_step sha256 default_path"
  "\<lambda>i s. hex_hash sha256 \<and> plain_record (snd (snd i))" "audit_inv sha256 p"
  for sha256 default_path p
  by unfold_locales (auto simp: audit_step_def intro: audit_append_inv)

section \<open>Tampering\<close>

lemma split_bar:
  assumes "p @ ''|'' @ b = p' @ ''|'' @ b'" "CHR ''|'' \<notin> set p" "CHR ''|'' \<notin> set p'"
  shows "p = p' \<and> b = b'"
proof -
  have "takeWhile (\<lambda>c. c \<noteq> CHR ''|'') (p @ ''|'' @ b) = p" if "CHR ''|'' \<notin> set p" for p b :: string
    using that by (subst takeWhile_append2) auto
  from this [OF assms(2), of b] this [OF assms(3), of b'] assms(1) show ?thesis by auto
qed

lemma chain_end_hash:
  "hex_hash sha256 \<Longrightarrow> rs \<noteq> [] \<Longrightarrow> \<exists>s. chain_end sha256 prev rs = sha256 s"
  by (induction rs arbitrary: prev rule: rev_induct) (auto simp: chain_end_append)

lemma chain_end_genesis:
  "hex_hash sha256 \<Longrightarrow> chain_end sha256 GENESIS rs = GENESIS \<longleftrightarrow> rs = []"
  by (cases "rs = []") (use chain_end_hash hex_hash_facts(3) in \<open>simp, metis\<close>)

lemma chain_end_no_bar:
  assumes "hex_hash sha256"
  shows "CHR ''|'' \<notin> set (chain_end sha256 GENESIS rs)"
proof (cases "rs = []")
  case True
  then show ?thesis by (simp add: GENESIS_def)
next
  case False
  with chain_end_hash [OF assms] obtain s where "chain_end sha256 GENESIS rs = sha256 s" by blast
  then show ?thesis using hex_hash_facts(2) [OF assms] by simp
qed

lemma chain_binding:
  assumes sha: "hex_hash sha256"
    and "chain_end sha256 GENESIS rs = chain_end sha256 GENESIS ss"
  shows "map (\<lambda>r. dumps_sorted (JObj (entry_body r))) rs = map (\<lambda>r. dumps_sorted (JObj (entry_body r))) ss \<or>
    (\<exists>x \<in> set (chain_texts sha256 GENESIS rs). \<exists>y \<in> set (chain_texts sha256 GENESIS ss).
       x \<noteq> y \<and> sha256 x = sha256 y)"
  using assms(2)
proof (induction rs arbitrary: ss rule: rev_induct)
  case Nil
  then have "ss = []" using chain_end_genesis [OF sha, of ss] by (metis chain_end.simps(1))
  then show ?case by simp
next
  case (snoc r rs)
  have "ss \<noteq> []"
    using snoc.prems chain_end_genesis [OF sha, of "rs @ [r]"] by (auto simp del: append_Nil)
  then obtain s ts where ss: "ss = ts @ [s]" by (cases ss rule: rev_cases) auto
  let ?x = "entry_text (chain_end sha256 GENESIS rs) r" and ?y = "entry_text (chain_end sha256 GENESIS ts) s"
  have h: "sha256 ?x = sha256 ?y" using snoc.prems by (simp add: ss chain_end_append)
  show ?case
  proof (cases "?x = ?y")
    case False
    then show ?thesis using h by (auto simp: ss chain_texts_append)
  next
    case True
    then have "chain_end sha256 GENESIS rs = chain_end sha256 GENESIS ts \<and>
        dumps_sorted (JObj (entry_body r)) = dumps_sorted (JObj (entry_body s))"
      unfolding entry_text_def using chain_end_no_bar [OF sha] by (intro split_bar) auto
    with snoc.IH [of ts] show ?thesis by (auto simp: ss chain_texts_append)
  qed
qed

section \<open>Properties\<close>


definition sample_audit_inputs :: "(rat \<times> bool \<times> dict) list" where
  "sample_audit_inputs = [(1, True, [(''event'', JStr ''a'')]), (2, False, [(''event'', JStr ''b'')])]"

definition sample_sha :: "string \<Rightarrow> string" where
  "sample_sha s = (if length s mod 2 = 0 then ''a0'' else ''b1'')"




end
