(* ===== verification/Command_Queue.thy ===== *)
theory Command_Queue
  imports Machine Protocol
begin

text \<open>
  The persistent command queue of the server, \<^verbatim>\<open>server/command_queue.py\<close>.
  A queue file is a record or unreadable; \<open>writable\<close> says whether \<open>_persist\<close>
  succeeds (an \<open>OSError\<close> is only logged). The sets of \<open>_by_agent\<close> are lists in
  insertion order.
\<close>

section \<open>Records and the queue\<close>

definition TERMINAL_STATES :: "cmd_state set" where
  "TERMINAL_STATES = {CMD_COMPLETED, CMD_FAILED, CMD_EXPIRED, CMD_REJECTED}"

lemma TERMINAL_simps [simp]:
  "CMD_PENDING \<notin> TERMINAL_STATES" "CMD_SENT \<notin> TERMINAL_STATES" "CMD_ACKED \<notin> TERMINAL_STATES"
  "CMD_RUNNING \<notin> TERMINAL_STATES" "CMD_COMPLETED \<in> TERMINAL_STATES" "CMD_FAILED \<in> TERMINAL_STATES"
  "CMD_EXPIRED \<in> TERMINAL_STATES" "CMD_REJECTED \<in> TERMINAL_STATES"
  by (simp_all add: TERMINAL_STATES_def)

record cmd_record =
  message_id :: string
  agent_id :: string
  tool :: string
  params :: dict
  issued_by :: string
  issued_at :: string
  expires_at :: string
  state :: cmd_state
  attempts :: int
  status :: json
  result :: json
  err :: json
  started_at :: json
  completed_at :: json
  duration_ms :: json
  sent_at :: json

datatype qfile = QRec cmd_record | QBad

record command_queue =
  records :: "(string \<times> cmd_record) list"
  by_agent :: "(string \<times> string list) list"
  persisted :: "(string \<times> qfile) list"

definition agent_ids :: "command_queue \<Rightarrow> string \<Rightarrow> string list" where
  "agent_ids q a = (case map_of (by_agent q) a of None \<Rightarrow> [] | Some ms \<Rightarrow> ms)"

definition add_id :: "string \<Rightarrow> string \<Rightarrow> command_queue \<Rightarrow> command_queue" where
  \<comment> \<open>\<open>_by_agent.setdefault(a, set()).add(m)\<close>\<close>
  "add_id a m q = q\<lparr>by_agent := dset a (List.insert m (agent_ids q a)) (by_agent q)\<rparr>"

definition q_persist :: "bool \<Rightarrow> cmd_record \<Rightarrow> command_queue \<Rightarrow> command_queue" where
  "q_persist writable r q =
     (if writable then q\<lparr>persisted := dset (message_id r) (QRec r) (persisted q)\<rparr> else q)"

definition q_load1 :: "string \<times> qfile \<Rightarrow> command_queue \<Rightarrow> command_queue" where
  "q_load1 f q = (case snd f of
      QRec r \<Rightarrow> add_id (agent_id r) (message_id r) (q\<lparr>records := dset (message_id r) r (records q)\<rparr>)
    | QBad \<Rightarrow> q)"

definition q_load :: "(string \<times> qfile) list \<Rightarrow> command_queue" where
  "q_load files = fold q_load1 files \<lparr>records = [], by_agent = [], persisted = files\<rparr>"

abbreviation DEFAULT_TTL_SECONDS :: pyfloat where "DEFAULT_TTL_SECONDS \<equiv> Fin 30"

definition q_ttl :: "json \<Rightarrow> pyfloat res" where
  "q_ttl timeout =
     (case py_float timeout of
        Inr t \<Rightarrow> Inr (fmax t DEFAULT_TTL_SECONDS)
      | Inl e \<Rightarrow> if e = TypeError \<or> e = ValueError then Inr DEFAULT_TTL_SECONDS else Inl e)"

definition q_get :: "string \<Rightarrow> command_queue \<Rightarrow> cmd_record option" where
  "q_get m q = map_of (records q) m"

definition new_record :: "string \<Rightarrow> string \<Rightarrow> string \<Rightarrow> dict \<Rightarrow> string \<Rightarrow> string \<Rightarrow> string \<Rightarrow> cmd_record" where
  "new_record mid a t ps by_user issued expires =
     \<lparr>message_id = mid, agent_id = a, tool = t, params = ps, issued_by = by_user,
      issued_at = issued, expires_at = expires, state = CMD_PENDING, attempts = 0,
      status = JNull, result = JNull, err = JNull, started_at = JNull, completed_at = JNull,
      duration_ms = JNull, sent_at = JNull\<rparr>"

definition enqueue ::
  "bool \<Rightarrow> int \<Rightarrow> string \<Rightarrow> string \<Rightarrow> string \<Rightarrow> dict \<Rightarrow> string \<Rightarrow> json \<Rightarrow> string option \<Rightarrow>
     command_queue \<Rightarrow> cmd_record res \<times> command_queue" where
  \<comment> \<open>\<open>now\<close> in microseconds, \<open>fresh\<close> the new uuid\<close>
  "enqueue writable now fresh a t ps by_user timeout mid_opt q =
     (let mid = (case mid_opt of None \<Rightarrow> fresh | Some m \<Rightarrow> if m = [] then fresh else m) in
      case q_get mid q of
        Some r \<Rightarrow> (Inr r, q)
      | None \<Rightarrow>
         (case res_bind (q_ttl timeout) (\<lambda>ttl. res_bind (timedelta_us ttl) (dt_add now)) of
            Inl e \<Rightarrow> (Inl e, q)
          | Inr e \<Rightarrow>
             (let r = new_record mid a t ps by_user (isoformat now) (isoformat e) in
              (Inr r, q_persist writable r
                        (add_id a mid (q\<lparr>records := dset mid r (records q)\<rparr>))))))"

definition list_for_agent :: "string \<Rightarrow> command_queue \<Rightarrow> cmd_record list res" where
  "list_for_agent a q =
     (if \<exists>m \<in> set (agent_ids q a). q_get m q = None then Inl KeyError
      else Inr (map (\<lambda>m. the (q_get m q)) (sort_key (\<lambda>m. issued_at (the (q_get m q))) (agent_ids q a))))"

definition list_all_records :: "command_queue \<Rightarrow> cmd_record list" where
  "list_all_records q = map snd (records q)"

definition mark ::
  "bool \<Rightarrow> string \<Rightarrow> cmd_state \<Rightarrow> (cmd_record \<Rightarrow> cmd_record) \<Rightarrow> command_queue \<Rightarrow>
     cmd_record option \<times> command_queue" where
  \<comment> \<open>\<open>updates\<close> are the keyword arguments\<close>
  "mark writable mid st updates q =
     (case q_get mid q of
        None \<Rightarrow> (None, q)
      | Some r \<Rightarrow>
         (let r' = updates (r\<lparr>state := st\<rparr>) in
          (Some r', q_persist writable r' (q\<lparr>records := dset mid r' (records q)\<rparr>))))"

definition non_terminal_for :: "string \<Rightarrow> command_queue \<Rightarrow> cmd_record list res" where
  "non_terminal_for a q =
     res_bind (list_for_agent a q) (\<lambda>rs. Inr (filter (\<lambda>r. state r \<notin> TERMINAL_STATES) rs))"

definition is_record_expired :: "int \<Rightarrow> cmd_record \<Rightarrow> bool res" where
  "is_record_expired now r = is_expired now (JStr (expires_at r))"

definition expire :: "bool \<Rightarrow> int \<Rightarrow> cmd_record \<Rightarrow> command_queue \<Rightarrow> cmd_record option \<times> command_queue" where
  "expire writable now r =
     mark writable (message_id r) CMD_EXPIRED
       (\<lambda>r. r\<lparr>status := JStr ''expired'', err := JStr ''Comando expirado (expires_at superado)'',
              completed_at := JStr (isoformat now)\<rparr>)"

section \<open>The invariant\<close>

text \<open>Marks never touch the identity of a record.\<close>

definition keeps_identity :: "(cmd_record \<Rightarrow> cmd_record) \<Rightarrow> bool" where
  "keeps_identity f \<longleftrightarrow> (\<forall>r. message_id (f r) = message_id r \<and> agent_id (f r) = agent_id r
     \<and> tool (f r) = tool r \<and> params (f r) = params r \<and> issued_by (f r) = issued_by r
     \<and> issued_at (f r) = issued_at r \<and> expires_at (f r) = expires_at r)"

definition id_ok :: "command_queue \<Rightarrow> string \<Rightarrow> bool" where
  "id_ok q m \<longleftrightarrow> (case q_get m q of
      None \<Rightarrow> \<forall>a. m \<notin> set (agent_ids q a)
    | Some r \<Rightarrow> message_id r = m \<and> (\<forall>a. m \<in> set (agent_ids q a) \<longleftrightarrow> a = agent_id r))"

definition queue_inv :: "command_queue \<Rightarrow> bool" where
  "queue_inv q \<longleftrightarrow> distinct (map fst (records q)) \<and> (\<forall>m. id_ok q m) \<and> (\<forall>a. distinct (agent_ids q a))"

lemma queue_inv_id: "queue_inv q \<Longrightarrow> q_get m q = Some r \<Longrightarrow> message_id r = m"
proof -
  assume a: "queue_inv q" "q_get m q = Some r"
  then have "id_ok q m" by (simp add: queue_inv_def)
  with a(2) show ?thesis by (simp add: id_ok_def)
qed

lemma queue_inv_member: "queue_inv q \<Longrightarrow> m \<in> set (agent_ids q a) \<Longrightarrow> \<exists>r. q_get m q = Some r \<and> agent_id r = a"
proof -
  assume a: "queue_inv q" "m \<in> set (agent_ids q a)"
  then have "id_ok q m" by (simp add: queue_inv_def)
  with a(2) show ?thesis by (cases "q_get m q") (simp_all add: id_ok_def)
qed

lemma agent_ids_add_id [simp]:
  "agent_ids (add_id a m q) a' =
     (if a' = a then List.insert m (agent_ids q a) else agent_ids q a')"
  by (auto simp: agent_ids_def add_id_def)

lemma q_get_simps [simp, dict_simps]:
  "q_get m (add_id a m' q) = q_get m q"
  "q_get m (q_persist w r q) = q_get m q"
  "q_get m (q\<lparr>persisted := p\<rparr>) = q_get m q"
  "q_get m (q\<lparr>records := dset m' r (records q)\<rparr>) = (if m = m' then Some r else q_get m q)"
  by (simp_all add: q_get_def add_id_def q_persist_def)

lemma agent_ids_simps [simp]:
  "agent_ids (q_persist w r q) a = agent_ids q a"
  "agent_ids (q\<lparr>records := d\<rparr>) a = agent_ids q a"
  by (simp_all add: agent_ids_def q_persist_def)

lemma records_simps [simp]:
  "records (add_id a m q) = records q"
  "records (q_persist w r q) = records q"
  by (simp_all add: add_id_def q_persist_def)

lemma id_ok_persist [simp]: "id_ok (q_persist w r q) m = id_ok q m"
  unfolding id_ok_def q_get_simps agent_ids_simps ..

lemma queue_inv_persist [simp]: "queue_inv (q_persist w r q) = queue_inv q"
  by (simp add: queue_inv_def)

lemma queue_inv_put:
  assumes "queue_inv q" "message_id r = m" "q_get m q = None"
  shows "queue_inv (add_id (agent_id r) m (q\<lparr>records := dset m r (records q)\<rparr>))"
  unfolding queue_inv_def
proof (intro conjI allI)
  fix m' 
  have "id_ok q m'" "id_ok q m" using assms(1) by (simp_all add: queue_inv_def)
  then show "id_ok (add_id (agent_id r) m (q\<lparr>records := dset m r (records q)\<rparr>)) m'"
    using assms(2,3) by (cases "m' = m") (simp_all add: id_ok_def split: option.splits)
qed (use assms(1) in \<open>simp_all add: queue_inv_def distinct_dset\<close>)

lemma queue_inv_update:
  assumes "queue_inv q" "q_get m q = Some r0" "message_id r = m" "agent_id r = agent_id r0"
  shows "queue_inv (q\<lparr>records := dset m r (records q)\<rparr>)"
  unfolding queue_inv_def
proof (intro conjI allI)
  fix m'
  have "id_ok q m'" "id_ok q m" using assms(1) by (simp_all add: queue_inv_def)
  then show "id_ok (q\<lparr>records := dset m r (records q)\<rparr>) m'"
    using assms(2,3,4) by (cases "m' = m") (simp_all add: id_ok_def split: option.splits)
qed (use assms(1) in \<open>simp_all add: queue_inv_def distinct_dset\<close>)

lemma enqueue_inv [inv_intros]:
  assumes "queue_inv q"
  shows "queue_inv (snd (enqueue w now fresh a t ps u timeout mid q))"
proof -
  have "queue_inv (add_id a m (q\<lparr>records := dset m (new_record m a t ps u i e) (records q)\<rparr>))"
    if "q_get m q = None" for m i e
    using queue_inv_put [OF assms, of "new_record m a t ps u i e" m] that by (simp add: new_record_def)
  then show ?thesis using assms by (simp add: enqueue_def Let_def split: option.splits sum.splits)
qed

lemma mark_inv [inv_intros]:
  assumes "queue_inv q" "keeps_identity f"
  shows "queue_inv (snd (mark w m st f q))"
proof (cases "q_get m q")
  case None
  then show ?thesis using assms(1) by (simp add: mark_def)
next
  case (Some r)
  have "message_id (f (r\<lparr>state := st\<rparr>)) = m" "agent_id (f (r\<lparr>state := st\<rparr>)) = agent_id r"
    using assms(2) queue_inv_id [OF assms(1) Some] by (simp_all add: keeps_identity_def)
  from queue_inv_update [OF assms(1) Some this] show ?thesis
    by (simp add: mark_def Let_def Some)
qed

lemma keeps_identity_expire:
  "keeps_identity (\<lambda>r. r\<lparr>status := s, err := e, completed_at := c\<rparr>)"
  by (simp add: keeps_identity_def)

lemma expire_inv [inv_intros]: "queue_inv q \<Longrightarrow> queue_inv (snd (expire w now r q))"
  unfolding expire_def by (intro mark_inv keeps_identity_expire)

section \<open>The store interface\<close>

text \<open>
  What the connection manager relies on: an update under a key is seen under that key, by
  applying it to what was there, and nowhere else.
\<close>

locale keyed_store =
  fixes get :: "'k \<Rightarrow> 's \<Rightarrow> 'v option"
    and upd :: "'k \<Rightarrow> 'u \<Rightarrow> 's \<Rightarrow> 's"
    and app :: "'u \<Rightarrow> 'v \<Rightarrow> 'v"
  assumes get_upd_same: "get k (upd k u s) = map_option (app u) (get k s)"
    and get_upd_other: "k' \<noteq> k \<Longrightarrow> get k' (upd k u s) = get k' s"
begin

lemma get_fold:
  "get k (fold (\<lambda>(k', u). upd k' u) us s) =
     map_option (fold app (map snd (filter (\<lambda>p. fst p = k) us))) (get k s)"
proof (induction us arbitrary: s)
  case (Cons p us)
  obtain k' u where p: "p = (k', u)" by (cases p)
  show ?case
    by (cases "k' = k") (auto simp: p Cons.IH get_upd_same get_upd_other option.map_comp comp_def)
qed (simp add: id_def option.map_ident)

lemma present_fold: "get k (fold (\<lambda>(k', u). upd k' u) us s) = None \<longleftrightarrow> get k s = None"
  by (simp add: get_fold)

lemma frame_fold: "k \<notin> fst ` set us \<Longrightarrow> get k (fold (\<lambda>(k', u). upd k' u) us s) = get k s"
  by (induction us arbitrary: s) (auto simp: get_upd_other)

end

definition q_upd :: "string \<Rightarrow> bool \<times> cmd_state \<times> (cmd_record \<Rightarrow> cmd_record) \<Rightarrow> command_queue \<Rightarrow> command_queue" where
  "q_upd m u q = snd (mark (fst u) m (fst (snd u)) (snd (snd u)) q)"

definition q_app :: "bool \<times> cmd_state \<times> (cmd_record \<Rightarrow> cmd_record) \<Rightarrow> cmd_record \<Rightarrow> cmd_record" where
  "q_app u r = snd (snd u) (r\<lparr>state := fst (snd u)\<rparr>)"

interpretation store: keyed_store q_get q_upd q_app
  by unfold_locales (auto simp: q_upd_def q_app_def mark_def Let_def split: option.splits)

section \<open>Persistence\<close>

text \<open>With successful writes the files are exactly the records.\<close>

definition synced :: "command_queue \<Rightarrow> bool" where
  "synced q \<longleftrightarrow> distinct (map fst (persisted q)) \<and>
     (\<forall>m. map_of (persisted q) m = map_option QRec (q_get m q))"

lemma persisted_simps [simp]:
  "persisted (add_id a m q) = persisted q"
  "persisted (q_persist True r q) = dset (message_id r) (QRec r) (persisted q)"
  by (simp_all add: add_id_def q_persist_def)

lemma enqueue_synced:
  "synced q \<Longrightarrow> synced (snd (enqueue True now fresh a t ps u timeout mid q))"
  by (simp add: enqueue_def Let_def synced_def new_record_def distinct_dset split: option.splits sum.splits)

lemma mark_synced:
  assumes "synced q" "queue_inv q" "keeps_identity f"
  shows "synced (snd (mark True m st f q))"
proof (cases "q_get m q")
  case None
  then show ?thesis using assms(1) by (simp add: mark_def)
next
  case (Some r)
  then have "message_id (f (r\<lparr>state := st\<rparr>)) = m"
    using assms(3) queue_inv_id [OF assms(2) Some] by (simp add: keeps_identity_def)
  then show ?thesis using assms(1) Some by (simp add: mark_def Let_def synced_def distinct_dset)
qed

lemma q_load_get:
  assumes "distinct (map fst files)" "\<forall>(m, f) \<in> set files. \<forall>r. f = QRec r \<longrightarrow> message_id r = m"
  shows "q_get m (fold q_load1 files q) =
     (case map_of files m of Some (QRec r) \<Rightarrow> Some r | _ \<Rightarrow> q_get m q)"
  using assms
proof (induction files arbitrary: q)
  case (Cons p files)
  obtain k f where p: "p = (k, f)" by (cases p)
  have k: "m = k \<Longrightarrow> map_of files m = None"
    using Cons.prems(1) by (auto simp: p map_of_eq_None_iff)
  have id: "\<And>r. f = QRec r \<Longrightarrow> message_id r = k" using Cons.prems(2) by (simp add: p)
  have IH: "q_get m (fold q_load1 (p # files) q) =
      (case map_of files m of Some (QRec r) \<Rightarrow> Some r | _ \<Rightarrow> q_get m (q_load1 p q))"
    using Cons by simp
  have "q_get m (q_load1 p q) = (if m = k then (case f of QRec r \<Rightarrow> Some r | QBad \<Rightarrow> q_get m q) else q_get m q)"
    using id by (cases f) (simp_all add: p q_load1_def)
  then show ?case unfolding IH using k
    by (cases "m = k"; cases f) (simp_all add: p split: option.splits qfile.splits)
qed simp

lemma load_persisted:
  assumes "synced q" "queue_inv q"
  shows "q_get m (q_load (persisted q)) = q_get m q"
proof -
  have d: "distinct (map fst (persisted q))" using assms(1) by (simp add: synced_def)
  have "\<forall>(m, f) \<in> set (persisted q). \<forall>r. f = QRec r \<longrightarrow> message_id r = m"
  proof clarify
    fix k r assume "(k, QRec r) \<in> set (persisted q)"
    then have "map_of (persisted q) k = Some (QRec r)" using d by simp
    then have "q_get k q = Some r" using assms(1) by (simp add: synced_def)
    then show "message_id r = k" by (rule queue_inv_id [OF assms(2)])
  qed
  from q_load_get [OF d this, of m] show ?thesis
    using assms(1) by (simp add: q_load_def synced_def) (simp add: q_get_def split: option.splits)
qed

lemma q_load_inv: 
  assumes "distinct (map fst files)" "\<forall>(m, f) \<in> set files. \<forall>r. f = QRec r \<longrightarrow> message_id r = m"
  shows "queue_inv (q_load files)"
proof -
  have "queue_inv (fold q_load1 fs q)"
    if "queue_inv q" "distinct (map fst fs)" "\<forall>(m, f) \<in> set fs. \<forall>r. f = QRec r \<longrightarrow> message_id r = m"
      "\<forall>m \<in> fst ` set fs. q_get m q = None" for fs q
    using that
  proof (induction fs arbitrary: q)
    case (Cons p fs)
    obtain k f where p: "p = (k, f)" by (cases p)
    have "queue_inv (q_load1 p q)"
    proof (cases f)
      case (QRec r)
      then show ?thesis
        using Cons.prems queue_inv_put [OF Cons.prems(1), of r k] by (simp add: p q_load1_def)
    qed (use Cons.prems in \<open>simp add: p q_load1_def\<close>)
    moreover have "\<forall>m \<in> fst ` set fs. q_get m (q_load1 p q) = None"
      using Cons.prems by (cases f) (auto simp: p q_load1_def image_iff)
    ultimately show ?case using Cons by simp
  qed simp
  then show ?thesis unfolding q_load_def
    using assms by (simp add: queue_inv_def q_get_def agent_ids_def id_ok_def)
qed

section \<open>The queue as a machine\<close>

datatype q_op =
    Enqueue int string string string dict string json "string option"
  | Mark string cmd_state "cmd_record \<Rightarrow> cmd_record"
  | Expire int cmd_record

fun q_op_ok :: "q_op \<Rightarrow> bool" where
  "q_op_ok (Mark m st f) = keeps_identity f"
| "q_op_ok _ = True"

fun q_step :: "bool \<Rightarrow> q_op \<Rightarrow> command_queue \<Rightarrow> unit \<times> command_queue" where
  "q_step w (Enqueue now fresh a t ps u timeout mid) q = ((), snd (enqueue w now fresh a t ps u timeout mid q))"
| "q_step w (Mark m st f) q = ((), snd (mark w m st f q))"
| "q_step w (Expire now r) q = ((), snd (expire w now r q))"

lemma q_step_inv: "queue_inv q \<Longrightarrow> q_op_ok i \<Longrightarrow> queue_inv (snd (q_step w i q))"
  by (cases i) (auto intro: inv_intros)

lemma q_step_synced: "queue_inv q \<Longrightarrow> synced q \<Longrightarrow> q_op_ok i \<Longrightarrow> synced (snd (q_step True i q))"
  by (cases i) (auto intro: enqueue_synced mark_synced simp: expire_def keeps_identity_expire)

interpretation queue: invariant_machine "q_step w" "\<lambda>i q. q_op_ok i" queue_inv for w
  by unfold_locales (rule q_step_inv)

interpretation queue_disk: invariant_machine "q_step True" "\<lambda>i q. q_op_ok i" "\<lambda>q. queue_inv q \<and> synced q"
  by unfold_locales (auto intro: q_step_inv q_step_synced)

lemma q_admissible: "list_all q_op_ok ops \<Longrightarrow> admissible (\<lambda>i q. q_op_ok i) (q_step w) ops q"
  by (induction ops arbitrary: q) simp_all

definition q_empty :: command_queue where
  "q_empty = \<lparr>records = [], by_agent = [], persisted = []\<rparr>"

lemma q_empty_inv: "queue_inv q_empty" "synced q_empty"
  by (simp_all add: queue_inv_def id_ok_def q_empty_def q_get_def agent_ids_def synced_def)

lemma list_for_agent_total:
  assumes "queue_inv q"
  shows "\<exists>rs. list_for_agent a q = Inr rs \<and> sorted (map issued_at rs) \<and>
    (\<forall>r. r \<in> set rs \<longleftrightarrow> q_get (message_id r) q = Some r \<and> agent_id r = a) \<and>
    distinct (map message_id rs)"
proof -
  let ?ms = "agent_ids q a" and ?f = "\<lambda>m. the (q_get m q)"
  have mem: "m \<in> set ?ms \<Longrightarrow> \<exists>r. q_get m q = Some r \<and> agent_id r = a" for m
    by (rule queue_inv_member [OF assms])
  then have "\<forall>m \<in> set ?ms. q_get m q \<noteq> None" by fastforce
  then have l: "list_for_agent a q = Inr (map ?f (sort_key (\<lambda>m. issued_at (?f m)) ?ms))"
    by (auto simp: list_for_agent_def)
  have s: "sorted (map issued_at (map ?f (sort_key (\<lambda>m. issued_at (?f m)) ?ms)))"
    using sorted_sort_key [of "\<lambda>m. issued_at (?f m)" ?ms] by (simp add: comp_def)
  have "r \<in> ?f ` set ?ms \<longleftrightarrow> q_get (message_id r) q = Some r \<and> agent_id r = a" for r
  proof
    assume "r \<in> ?f ` set ?ms"
    then obtain m where m: "m \<in> set ?ms" "r = ?f m" by blast
    with mem [OF m(1)] have "q_get m q = Some r" "agent_id r = a" by auto
    then show "q_get (message_id r) q = Some r \<and> agent_id r = a"
      using queue_inv_id [OF assms] by metis
  next
    assume r: "q_get (message_id r) q = Some r \<and> agent_id r = a"
    have "id_ok q (message_id r)" using assms by (simp add: queue_inv_def)
    then have "message_id r \<in> set ?ms" using r by (simp add: id_ok_def)
    then show "r \<in> ?f ` set ?ms" using r by force
  qed
  moreover have "map message_id (map ?f (sort_key (\<lambda>m. issued_at (?f m)) ?ms)) = sort_key (\<lambda>m. issued_at (?f m)) ?ms"
  proof -
    have "message_id (?f m) = m" if "m \<in> set ?ms" for m
      using mem [OF that] queue_inv_id [OF assms] by force
    then have "map (message_id \<circ> ?f) (sort_key (\<lambda>m. issued_at (?f m)) ?ms) = sort_key (\<lambda>m. issued_at (?f m)) ?ms"
      by (intro map_idI) simp
    then show ?thesis by simp
  qed
  moreover have "distinct (sort_key (\<lambda>m. issued_at (?f m)) ?ms)" using assms by (simp add: queue_inv_def)
  ultimately show ?thesis using l s
    by (intro exI [of _ "map ?f (sort_key (\<lambda>m. issued_at (?f m)) ?ms)"]) (simp add: image_iff)
qed

lemma enqueue_new:
  assumes "enqueue w now fresh a t ps u timeout mid q = (Inr r, q')" "q_get (message_id r) q = None"
    "queue_inv q"
  obtains ttl d e where "q_ttl timeout = Inr ttl" "timedelta_us ttl = Inr d" "dt_add now d = Inr e"
    "expires_at r = isoformat e" "state r = CMD_PENDING" "q_get (message_id r) q' = Some r"
proof -
  let ?m = "case mid of None \<Rightarrow> fresh | Some m \<Rightarrow> if m = [] then fresh else m"
  show ?thesis
  proof (cases "q_get ?m q")
    case None
    with assms(1) obtain e where
      e: "res_bind (q_ttl timeout) (\<lambda>ttl. res_bind (timedelta_us ttl) (dt_add now)) = Inr e"
      and r: "r = new_record ?m a t ps u (isoformat now) (isoformat e)"
      and q': "q' = q_persist w r (add_id a ?m (q\<lparr>records := dset ?m r (records q)\<rparr>))"
      by (auto simp: enqueue_def Let_def split: sum.splits)
    from e obtain ttl d where "q_ttl timeout = Inr ttl" "timedelta_us ttl = Inr d" "dt_add now d = Inr e"
      by (auto simp: res_bind_eq_Inr)
    then show ?thesis using r q' by (intro that) (simp_all add: new_record_def)
  next
    case (Some r0)
    then have "r = r0" "q' = q" using assms(1) by (simp_all add: enqueue_def Let_def)
    then show ?thesis using assms(2) Some queue_inv_id [OF assms(3) Some] by simp
  qed
qed

section \<open>Properties\<close>

text \<open>
  C17: Whatever sequence of enqueues, marks and expirations a queue went through from empty,
  with its writes succeeding, a restart that loads the directory finds every record as it
  was, under its id.
\<close>

theorem queue_survives_restart:
  assumes "list_all q_op_ok ops" "q = snd (run (q_step True) ops q_empty)"
  shows "q_get m (q_load (persisted q)) = q_get m q"
  using queue_disk.run_inv [of q_empty ops] q_empty_inv q_admissible [OF assms(1)] assms(2)
  by (simp add: load_persisted)

definition sample_ops :: "q_op list" where
  "sample_ops = [Enqueue 0 ''m1'' ''a1'' ''ping'' [] ''api:user'' (JInt 60) None,
     Mark ''m1'' CMD_SENT (\<lambda>r. r\<lparr>attempts := 1\<rparr>),
     Enqueue 1000000 ''m2'' ''a1'' ''tls'' [] ''api:user'' JNull None]"

lemma sample_ops_ok: "list_all q_op_ok sample_ops"
  by (simp add: sample_ops_def keeps_identity_def)

theorem queue_survives_restart_witness:
  "q_get ''m1'' (q_load (persisted (snd (run (q_step True) sample_ops q_empty))))
     = q_get ''m1'' (snd (run (q_step True) sample_ops q_empty))"
  by (rule queue_survives_restart [OF sample_ops_ok refl])

text \<open>
  In every state the queue reaches, listing an agent's commands succeeds, gives exactly
  the records of that agent and orders them by issue time.
\<close>

theorem queue_lists_agent_commands:
  assumes "list_all q_op_ok ops" "q = snd (run (q_step w) ops q_empty)"
  shows "\<exists>rs. list_for_agent a q = Inr rs \<and> sorted (map issued_at rs) \<and>
    (\<forall>r. r \<in> set rs \<longleftrightarrow> q_get (message_id r) q = Some r \<and> agent_id r = a) \<and>
    distinct (map message_id rs)"
  unfolding assms(2)
  by (rule list_for_agent_total, rule queue.run_inv [OF q_empty_inv(1) q_admissible [OF assms(1)]])

theorem queue_lists_agent_commands_witness:
  "\<exists>rs. list_for_agent ''a1'' (snd (run (q_step True) sample_ops q_empty)) = Inr rs
     \<and> sorted (map issued_at rs)
     \<and> (\<forall>r. r \<in> set rs \<longleftrightarrow> q_get (message_id r) (snd (run (q_step True) sample_ops q_empty)) = Some r
            \<and> agent_id r = ''a1'')
     \<and> distinct (map message_id rs)"
  by (rule queue_lists_agent_commands [OF sample_ops_ok refl])

text \<open>
  Enqueueing is idempotent: after an enqueue that returned a record, an enqueue under
  the same message id, with whatever arguments and at whatever time, returns that record and
  changes nothing.
\<close>

theorem enqueue_idempotent:
  assumes "queue_inv q" "enqueue w now fresh a t ps u timeout mid q = (Inr r, q')"
    and "message_id r \<noteq> []"
  shows "enqueue w' now' fresh' a' t' ps' u' timeout' (Some (message_id r)) q' = (Inr r, q')"
proof -
  have "q_get (message_id r) q' = Some r"
  proof (cases "q_get (message_id r) q")
    case None
    then show ?thesis using enqueue_new [OF assms(2) None assms(1)] by blast
  next
    case (Some r0)
    let ?m = "case mid of None \<Rightarrow> fresh | Some m \<Rightarrow> if m = [] then fresh else m"
    show ?thesis
    proof (cases "q_get ?m q")
      case None
      then show ?thesis using assms(2) Some
        by (auto simp: enqueue_def Let_def new_record_def split: sum.splits)
    next
      case (Some r1)
      then show ?thesis using assms(2) queue_inv_id [OF assms(1) Some] by (simp add: enqueue_def Let_def)
    qed
  qed
  then show ?thesis using assms(3) by (simp add: enqueue_def)
qed

theorem enqueue_idempotent_witness:
  "enqueue False 99 ''x'' ''other'' ''tls'' [] ''u'' (JInt 1)
      (Some (message_id (new_record ''m1'' ''a1'' ''ping'' [] ''u'' (isoformat 0) (isoformat 60000000))))
      (snd (enqueue True 0 ''m1'' ''a1'' ''ping'' [] ''u'' (JInt 60) None q_empty)) =
   (Inr (new_record ''m1'' ''a1'' ''ping'' [] ''u'' (isoformat 0) (isoformat 60000000)),
    snd (enqueue True 0 ''m1'' ''a1'' ''ping'' [] ''u'' (JInt 60) None q_empty))"
proof (rule enqueue_idempotent)
  show "queue_inv q_empty" by (rule q_empty_inv)
  show "enqueue True 0 ''m1'' ''a1'' ''ping'' [] ''u'' (JInt 60) None q_empty =
     (Inr (new_record ''m1'' ''a1'' ''ping'' [] ''u'' (isoformat 0) (isoformat 60000000)),
      snd (enqueue True 0 ''m1'' ''a1'' ''ping'' [] ''u'' (JInt 60) None q_empty))"
    by (simp add: enqueue_def q_empty_def q_get_def q_ttl_def fmax_def round_half_even_def Let_def
        dt_add_def year_bounds del: py_float.simps)
qed (simp add: new_record_def)

text \<open>
  A queued command lives for the larger of its timeout and 30 seconds: it expires at
  that offset from its creation and not before, at microsecond precision.
\<close>

theorem command_ttl:
  assumes "queue_inv q" "enqueue w now fresh a t ps u (JInt s) mid q = (Inr r, q')"
    and "q_get (message_id r) q = None" "\<bar>s\<bar> \<le> 1000000000" "year_start_us \<le> now"
  shows "is_record_expired now' r = Inr (now + max s 30 * 1000000 < now')"
proof -
  obtain ttl d e where x: "q_ttl (JInt s) = Inr ttl" "timedelta_us ttl = Inr d" "dt_add now d = Inr e"
    "expires_at r = isoformat e"
    using enqueue_new [OF assms(2,3,1)] by metis
  have ttl: "ttl = Fin (of_int (max s 30))"
    using x(1) assms(4) by (auto simp: q_ttl_def fmax_def max_def simp del: py_float.simps)
  have m: "(of_int (max s 30) :: rat) * 1000000 = of_int (max s 30 * 1000000)" by simp
  have "d = max s 30 * 1000000"
    using x(2) unfolding ttl timedelta_us.simps m round_half_even_def Let_def floor_of_int by simp
  then have e: "e = now + max s 30 * 1000000" "year_start_us \<le> e" "e < year_end_us"
    using x(3) by (simp_all add: dt_add_def split: if_splits)
  have "is_expired now' (JStr (expires_at r)) = Inr (e < now')"
    unfolding x(4) by (rule is_expired_isoformat [OF e(2,3)])
  then show ?thesis by (simp add: is_record_expired_def e(1))
qed

theorem command_ttl_witness:
  "is_record_expired 59000000 (new_record ''m1'' ''a1'' ''ping'' [] ''u'' (isoformat 0) (isoformat 60000000))
     = Inr (0 + max 60 30 * 1000000 < (59000000 :: int))"
proof (rule command_ttl)
  show "queue_inv q_empty" by (rule q_empty_inv)
  show "enqueue True 0 ''m1'' ''a1'' ''ping'' [] ''u'' (JInt 60) None q_empty =
     (Inr (new_record ''m1'' ''a1'' ''ping'' [] ''u'' (isoformat 0) (isoformat 60000000)),
      snd (enqueue True 0 ''m1'' ''a1'' ''ping'' [] ''u'' (JInt 60) None q_empty))"
    by (simp add: enqueue_def q_empty_def q_get_def q_ttl_def fmax_def round_half_even_def Let_def
        dt_add_def year_bounds del: py_float.simps)
qed (simp_all add: q_empty_def q_get_def year_bounds)

end
