(* ===== verification/Connection_Manager.thy ===== *)
theory Connection_Manager
  imports Security Rate_Limiter Command_Queue
begin

text \<open>
  The server's connection manager, \<^verbatim>\<open>server/connection_manager.py\<close>: sessions by
  agent, sending and re-dispatching commands, and the messages of the agents. A socket is a
  number; what is sent on sockets is collected in \<open>wire\<close>. The coroutine
  \<open>send_command_to_agent\<close> is cut at its awaits: \<open>send_command\<close> runs up to the
  sending, \<open>dispatch_end\<close> after it, \<open>send_finish\<close> when its future is resolved or
  times out; so other steps can come in between.
\<close>

section \<open>State and environment\<close>

record agent_meta =
  client_name :: string
  remote_ip :: string
  connected_at :: string
  last_seen :: string
  public_key :: json
  meta_tenant :: string

datatype future = Waiting | Resolved dict

text \<open>
  \<open>pending_requests\<close> holds the registered message ids, \<open>futures\<close> the future
  objects, which a coroutine keeps after its entry is popped.
\<close>

record conn_manager =
  active :: "(string \<times> nat) list"
  metadata :: "(string \<times> agent_meta) list"
  pending_requests :: "string list"
  futures :: "(string \<times> future) list"
  queue :: command_queue
  rl_agent :: rate_limiter
  rl_command :: rate_limiter
  signing_pem :: "string option"
  wire :: "(nat \<times> dict) list"

text \<open>
  The environment of one step: the wall clock (microseconds), the monotonic clock, the next
  uuid, the files, the environment variables, the signing primitive, which sockets are
  connected, and whether the queue directory and the socket accept a write.
\<close>

record server_env =
  now_us :: int
  mono :: rat
  fresh_id :: string
  key_path :: string
  key_file :: fnode
  allow_high_risk_env :: string
  default_tenant :: string
  liveness_s :: rat
  ed_sign :: "string \<Rightarrow> string \<Rightarrow> string res"
  sock_connected :: "nat \<Rightarrow> bool"
  sock_sends :: "nat \<Rightarrow> bool"
  writable :: bool

definition RESP_TO_STATE :: "(string \<times> cmd_state) list" where
  "RESP_TO_STATE =
     [(STATUS_RUNNING, CMD_RUNNING), (STATUS_SUCCESS, CMD_COMPLETED), (STATUS_ERROR, CMD_FAILED),
      (STATUS_FAILED, CMD_FAILED), (STATUS_REJECTED, CMD_REJECTED), (STATUS_EXPIRED, CMD_EXPIRED)]"

definition load_signing_key :: "server_env \<Rightarrow> conn_manager \<Rightarrow> string option \<times> conn_manager" where
  "load_signing_key env m =
     (case signing_pem m of
        Some k \<Rightarrow> (Some k, m)
      | None \<Rightarrow>
         (if strip (key_path env) = [] then (None, m)
          else (case key_file env of
             File pem \<Rightarrow> if strip pem = [] then (None, m) else (Some pem, m\<lparr>signing_pem := Some pem\<rparr>)
           | _ \<Rightarrow> (None, m))))"

definition signing_key_status :: "server_env \<Rightarrow> conn_manager \<Rightarrow> dict" where
  "signing_key_status env m =
     (if strip (key_path env) = []
      then [(''configured'', JBool False), (''path'', JNull), (''readable'', JBool False), (''loaded'', JBool False)]
      else [(''configured'', JBool True), (''path'', JStr (strip (key_path env))),
            (''readable'', JBool (case key_file env of File _ \<Rightarrow> True | _ \<Rightarrow> False)),
            (''loaded'', JBool (signing_pem m \<noteq> None))])"

definition allowed_high_risk :: "server_env \<Rightarrow> string list" where
  "allowed_high_risk env = filter (\<lambda>c. c \<noteq> []) (map strip (split_char (CHR '','') (allow_high_risk_env env)))"

definition backend_command_forbidden :: "server_env \<Rightarrow> string \<Rightarrow> bool" where
  "backend_command_forbidden env resolved \<longleftrightarrow>
     resolved \<in> set DEFAULT_DISABLED \<and> resolved \<notin> set (allowed_high_risk env)"

definition parse_iso_timestamp :: "string \<Rightarrow> pydt option" where
  "parse_iso_timestamp raw =
     (let text = strip raw in
      if text = [] then None
      else map_option as_utc
        (fromisoformat (if endswith text ''Z'' then butlast text @ ''+00:00'' else text)))"

section \<open>Sessions\<close>

definition register_connection ::
  "server_env \<Rightarrow> nat \<Rightarrow> string \<Rightarrow> string \<Rightarrow> json \<Rightarrow> string \<Rightarrow> string \<Rightarrow> conn_manager \<Rightarrow> string res \<times> conn_manager" where
  "register_connection env ws agent name pk tenant ip m =
     (let a = strip agent; t = isoformat (now_us env) in
      if a = [] then (Inl ValueError, m)
      else (Inr a, m\<lparr>active := dset a ws (active m),
         metadata := dset a \<lparr>client_name = if name = [] then ''Desconocido'' else name,
            remote_ip = if ip = [] then ''IP Desconocida'' else ip, connected_at = t, last_seen = t,
            public_key = pk,
            meta_tenant = if tenant = [] then default_tenant env else tenant\<rparr> (metadata m)\<rparr>))"

definition disconnect :: "string \<Rightarrow> conn_manager \<Rightarrow> conn_manager" where
  "disconnect a m = m\<lparr>active := dpop a (active m), metadata := dpop a (metadata m)\<rparr>"

definition last_activity :: "conn_manager \<Rightarrow> string \<Rightarrow> pydt option" where
  "last_activity m a =
     (case map_of (metadata m) a of
        None \<Rightarrow> None
      | Some meta \<Rightarrow>
         (case parse_iso_timestamp (last_seen meta) of
            Some t \<Rightarrow> Some t
          | None \<Rightarrow> parse_iso_timestamp (connected_at meta)))"

definition is_agent_online :: "server_env \<Rightarrow> conn_manager \<Rightarrow> string \<Rightarrow> bool" where
  "is_agent_online env m a =
     (case map_of (active m) a of
        None \<Rightarrow> False
      | Some ws \<Rightarrow>
         sock_connected env ws \<and>
         (case last_activity m a of
            None \<Rightarrow> True
          | Some t \<Rightarrow> of_int (now_us env - dt_us t) / 1000000 \<le> liveness_s env))"

definition prune_stale_connections :: "server_env \<Rightarrow> conn_manager \<Rightarrow> string list \<times> conn_manager" where
  "prune_stale_connections env m =
     fold (\<lambda>a (removed, m). if is_agent_online env m a then (removed, m) else (removed @ [a], disconnect a m))
       (map fst (active m)) ([], m)"

definition agent_row :: "string \<Rightarrow> agent_meta \<Rightarrow> dict" where
  "agent_row a meta =
     [(''agent_id'', JStr a), (''client_name'', JStr (client_name meta)),
      (''remote_ip'', JStr (remote_ip meta)), (''connected_at'', JStr (connected_at meta)),
      (''last_seen'', JStr (if last_seen meta = [] then connected_at meta else last_seen meta)),
      (''public_key_preview'',
         (case public_key meta of JStr k \<Rightarrow> if k = [] then JNull else JStr (take 30 k @ ''...'') | _ \<Rightarrow> JNull)),
      (''tenant_id'', JStr (meta_tenant meta))]"

definition get_connected_agents :: "server_env \<Rightarrow> conn_manager \<Rightarrow> dict list" where
  "get_connected_agents env m =
     map (\<lambda>(a, meta). agent_row a meta) (filter (\<lambda>(a, meta). is_agent_online env m a) (metadata m))"

section \<open>Dispatching one record\<close>

definition request_canonical :: "string \<Rightarrow> cmd_record \<Rightarrow> string" where
  "request_canonical agent r =
     command_canonical (JStr (message_id r)) (JStr agent) (JStr (tool r)) (JObj (params r))
       (py_or (JStr (issued_by r)) (JStr ''api:user'')) (JStr (issued_at r)) (JStr (expires_at r))"

definition signed_request :: "server_env \<Rightarrow> string \<Rightarrow> conn_manager \<Rightarrow> string \<Rightarrow> cmd_record \<Rightarrow> dict res" where
  \<comment> \<open>canonical text, signature and message of \<open>_dispatch_record\<close>\<close>
  "signed_request env pem m agent r =
     res_bind (ed_sign env pem (request_canonical agent r)) (\<lambda>sig.
       let tenant = (case map_of (metadata m) agent of
             Some meta \<Rightarrow> if meta_tenant meta = [] then default_tenant env else meta_tenant meta
           | None \<Rightarrow> default_tenant env) in
       make_command_request (fresh_id env) (now_us env) (tool r) (JObj (params r))
         (JStr (message_id r)) (JStr agent) (if tenant = [] then JNull else JStr tenant)
         (py_or (JStr (issued_by r)) (JStr ''api:user'')) (JStr (issued_at r))
         (JStr (expires_at r)) (JStr sig))"

definition dispatch_begin ::
  "server_env \<Rightarrow> string \<Rightarrow> cmd_record \<Rightarrow> bool \<Rightarrow> conn_manager \<Rightarrow> bool res \<times> conn_manager" where
  \<comment> \<open>\<open>_dispatch_record\<close> up to the return of \<open>send_text\<close>; False: not sent\<close>
  "dispatch_begin env agent r register_future m =
     (case map_of (active m) agent of
        None \<Rightarrow> (Inr False, m)
      | Some ws \<Rightarrow>
         (case load_signing_key env m of
            (None, m) \<Rightarrow> (Inr False, m)
          | (Some pem, m) \<Rightarrow>
             (case signed_request env pem m agent r of
                Inl e \<Rightarrow> (Inl e, m)
              | Inr msg \<Rightarrow>
                 (let m' = (if register_future
                            then m\<lparr>pending_requests := List.insert (message_id r) (pending_requests m),
                                   futures := dset (message_id r) Waiting (futures m)\<rparr>
                            else m) in
                  if sock_sends env ws then (Inr True, m'\<lparr>wire := wire m' @ [(ws, msg)]\<rparr>)
                  else (Inr False, if register_future
                          then m'\<lparr>pending_requests := removeAll (message_id r) (pending_requests m')\<rparr>
                          else m')))))"

definition dispatch_end :: "server_env \<Rightarrow> string \<Rightarrow> conn_manager \<Rightarrow> conn_manager" where
  \<comment> \<open>the rest of \<open>_dispatch_record\<close>, on the queue's present record\<close>
  "dispatch_end env mid m =
     m\<lparr>queue := snd (mark (writable env) mid CMD_SENT
         (\<lambda>r. r\<lparr>attempts := attempts r + 1, sent_at := JStr (isoformat (now_us env))\<rparr>) (queue m))\<rparr>"

definition dispatch_record ::
  "server_env \<Rightarrow> string \<Rightarrow> cmd_record \<Rightarrow> bool \<Rightarrow> conn_manager \<Rightarrow> bool res \<times> conn_manager" where
  \<comment> \<open>both parts with nothing in between\<close>
  "dispatch_record env agent r register_future m =
     (case dispatch_begin env agent r register_future m of
        (Inr True, m') \<Rightarrow> (Inr True, dispatch_end env (message_id r) m')
      | res \<Rightarrow> res)"

section \<open>The REST path\<close>

datatype send_result =
    Raised py_exc
  | Queued string string
  | Sent string string pyfloat
  | Answered dict

definition http :: "int \<Rightarrow> send_result" where "http code = Raised (HTTPException code)"

definition effective_timeout :: "string \<Rightarrow> dict \<Rightarrow> json \<Rightarrow> pyfloat res" where
  "effective_timeout resolved ps timeout =
     res_bind (if truthy timeout then py_float timeout else command_timeout resolved ps)
       (\<lambda>t. Inr (clampf (Fin 5) (Fin 300) t))"

definition agent_key :: "string \<Rightarrow> string" where
  "agent_key agent = ''agent:'' @ agent"

definition command_key :: "string \<Rightarrow> string \<Rightarrow> string" where
  "command_key agent cmd = ''agent:'' @ agent @ '':cmd:'' @ cmd"

definition send_enqueue ::
  "server_env \<Rightarrow> string \<Rightarrow> string \<Rightarrow> dict \<Rightarrow> string \<Rightarrow> pyfloat \<Rightarrow> conn_manager \<Rightarrow> send_result \<times> conn_manager" where
  \<comment> \<open>the part after the checks: the command is queued and sent, or stays queued\<close>
  "send_enqueue env agent resolved ps user t m =
     (case enqueue (writable env) (now_us env) (fresh_id env) agent resolved ps
             (if user = [] then ''api:user'' else user) (JFloat t) None (queue m) of
        (Inl e, q) \<Rightarrow> (Raised e, m\<lparr>queue := q\<rparr>)
      | (Inr r, q) \<Rightarrow>
         (case dispatch_begin env agent r True (m\<lparr>queue := q\<rparr>) of
            (Inl e, m) \<Rightarrow> (Raised e, m)
          | (Inr False, m) \<Rightarrow> (Queued (message_id r) resolved, m)
          | (Inr True, m) \<Rightarrow> (Sent (message_id r) resolved t, m)))"

definition send_command ::
  "server_env \<Rightarrow> string \<Rightarrow> string \<Rightarrow> dict \<Rightarrow> json \<Rightarrow> string \<Rightarrow> conn_manager \<Rightarrow> send_result \<times> conn_manager" where
  "send_command env agent cmd ps timeout user m =
     (let resolved = resolve_command cmd in
      if backend_command_forbidden env resolved then (http 403, m)
      else
       let (key, m) = load_signing_key env m in
       if key = None \<or> key = Some [] then (http 503, m)
       else
        let (ok, ra) = rl_allow (mono env) (agent_key agent) (rl_agent m); m = m\<lparr>rl_agent := ra\<rparr> in
        if \<not> ok then (http 429, m)
        else
         let (ok, rc) = rl_allow (mono env) (command_key agent resolved) (rl_command m);
             m = m\<lparr>rl_command := rc\<rparr> in
         if \<not> ok then (http 429, m)
         else
          (case effective_timeout resolved ps timeout of
             Inl e \<Rightarrow> (Raised e, m)
           | Inr t \<Rightarrow> send_enqueue env agent resolved ps user t m))"

definition normalize_response :: "string \<Rightarrow> string \<Rightarrow> dict \<Rightarrow> dict" where
  "normalize_response mid t data =
     [(''id'', JStr mid), (''ok'', JBool (getv data ''status'' = JStr STATUS_SUCCESS)), (''tool'', JStr t),
      (''result'', getv data ''result''), (''error'', getv data ''error''), (''status'', getv data ''status'')]"

definition await_future :: "string \<Rightarrow> conn_manager \<Rightarrow> send_result option \<times> conn_manager" where
  \<comment> \<open>\<open>entry = self.pending_requests[message_id]\<close>, before the wait; None: it waits\<close>
  "await_future mid m =
     (if mid \<in> set (pending_requests m) then (None, m) else (Some (Raised KeyError), m))"

definition send_finish :: "string \<Rightarrow> string \<Rightarrow> conn_manager \<Rightarrow> send_result \<times> conn_manager" where
  \<comment> \<open>the wait ended: with the future's result, or with the timeout\<close>
  "send_finish mid t m =
     ((case map_of (futures m) mid of
         Some (Resolved data) \<Rightarrow> Answered (normalize_response mid t data)
       | _ \<Rightarrow> http 504),
      m\<lparr>pending_requests := removeAll mid (pending_requests m)\<rparr>)"

section \<open>Re-dispatch on reconnection\<close>

definition dispatch_one :: "server_env \<Rightarrow> string \<Rightarrow> cmd_record \<Rightarrow> conn_manager \<Rightarrow> unit res \<times> conn_manager" where
  "dispatch_one env agent r m =
     (case is_record_expired (now_us env) r of
        Inl e \<Rightarrow> (Inl e, m)
      | Inr True \<Rightarrow> (Inr (), m\<lparr>queue := snd (expire (writable env) (now_us env) r (queue m))\<rparr>)
      | Inr False \<Rightarrow>
         (if state r \<noteq> CMD_PENDING then (Inr (), m)
          else (case dispatch_record env agent r False m of
                  (Inl e, m) \<Rightarrow> (Inl e, m)
                | (Inr _, m) \<Rightarrow> (Inr (), m))))"

fun dispatch_all :: "server_env \<Rightarrow> string \<Rightarrow> cmd_record list \<Rightarrow> conn_manager \<Rightarrow> unit res \<times> conn_manager" where
  "dispatch_all env agent [] m = (Inr (), m)"
| "dispatch_all env agent (r # rs) m =
     (case dispatch_one env agent r m of
        (Inl e, m) \<Rightarrow> (Inl e, m)
      | (Inr _, m) \<Rightarrow> dispatch_all env agent rs m)"

definition dispatch_pending :: "server_env \<Rightarrow> string \<Rightarrow> conn_manager \<Rightarrow> unit res \<times> conn_manager" where
  "dispatch_pending env agent m =
     (if map_of (active m) agent = None then (Inr (), m)
      else (case non_terminal_for agent (queue m) of
              Inl e \<Rightarrow> (Inl e, m)
            | Inr rs \<Rightarrow> dispatch_all env agent rs m))"

section \<open>Messages of the agents\<close>

definition resp_state :: "json \<Rightarrow> cmd_state option res" where
  \<comment> \<open>\<open>RESP_TO_STATE.get(status)\<close>; an unhashable status raises\<close>
  "resp_state st = (case st of
      JStr s \<Rightarrow> Inr (map_of RESP_TO_STATE s)
    | JList _ \<Rightarrow> Inl TypeError
    | JObj _ \<Rightarrow> Inl TypeError
    | _ \<Rightarrow> Inr None)"

definition resp_updates :: "server_env \<Rightarrow> cmd_state \<Rightarrow> dict \<Rightarrow> cmd_record \<Rightarrow> cmd_record" where
  "resp_updates env st data r =
     (let r = r\<lparr>status := getv data ''status'', result := getv data ''result'', err := getv data ''error''\<rparr> in
      if st \<in> TERMINAL_STATES then r\<lparr>completed_at := JStr (isoformat (now_us env))\<rparr> else r)"

definition msg_id :: "dict \<Rightarrow> string" where
  "msg_id data = str_or (getv data ''message_id'') []"

definition handle_response :: "server_env \<Rightarrow> dict \<Rightarrow> conn_manager \<Rightarrow> dict res \<times> conn_manager" where
  "handle_response env data m =
     (case resp_state (getv data ''status'') of
        Inl e \<Rightarrow> (Inl e, m)
      | Inr None \<Rightarrow> (Inr data, m)
      | Inr (Some st) \<Rightarrow>
         (let m = m\<lparr>queue := snd (mark (writable env) (msg_id data) st (resp_updates env st data) (queue m))\<rparr> in
          if msg_id data \<in> set (pending_requests m) \<and> map_of (futures m) (msg_id data) = Some Waiting
             \<and> st \<in> TERMINAL_STATES
          then (Inr data, m\<lparr>futures := dset (msg_id data) (Resolved data) (futures m),
                            pending_requests := removeAll (msg_id data) (pending_requests m)\<rparr>)
          else (Inr data, m)))"

definition handle_ack :: "server_env \<Rightarrow> dict \<Rightarrow> conn_manager \<Rightarrow> conn_manager" where
  "handle_ack env data m =
     m\<lparr>queue := snd (mark (writable env) (msg_id data) CMD_ACKED (\<lambda>r. r) (queue m))\<rparr>"

definition handle_heartbeat :: "server_env \<Rightarrow> string \<Rightarrow> conn_manager \<Rightarrow> conn_manager" where
  "handle_heartbeat env agent m =
     (case map_of (metadata m) agent of
        None \<Rightarrow> m
      | Some meta \<Rightarrow> m\<lparr>metadata := dset agent (meta\<lparr>last_seen := isoformat (now_us env)\<rparr>) (metadata m)\<rparr>)"

definition handle_agent_message ::
  "server_env \<Rightarrow> string \<Rightarrow> json option \<Rightarrow> conn_manager \<Rightarrow> json res \<times> conn_manager" where
  \<comment> \<open>None: the text is not JSON\<close>
  "handle_agent_message env agent parsed m =
     (case parsed of
        None \<Rightarrow> (Inr JNull, m)
      | Some (JObj data) \<Rightarrow>
         (if getv data ''type'' = JStr TYPE_COMMAND_RESPONSE then
            (case handle_response env data m of (r, m) \<Rightarrow> (res_bind r (\<lambda>d. Inr (JObj d)), m))
          else if getv data ''type'' = JStr TYPE_COMMAND_ACK then (Inr (JObj data), handle_ack env data m)
          else if getv data ''type'' = JStr TYPE_HEARTBEAT then (Inr (JObj data), handle_heartbeat env agent m)
          else (Inr (JObj data), m))
      | Some _ \<Rightarrow> (Inl AttributeError, m))"

section \<open>The manager as a machine\<close>

datatype cm_event =
    Register nat string string json string string
  | Disconnect string
  | Prune
  | Send string string dict json string
  | DispatchEnd string
  | Finish string string
  | Reconnect string
  | Message string "json option"

fun cm_step :: "server_env \<times> cm_event \<Rightarrow> conn_manager \<Rightarrow> unit \<times> conn_manager" where
  "cm_step (env, Register ws a n pk t ip) m = ((), snd (register_connection env ws a n pk t ip m))"
| "cm_step (env, Disconnect a) m = ((), disconnect a m)"
| "cm_step (env, Prune) m = ((), snd (prune_stale_connections env m))"
| "cm_step (env, Send a c ps t u) m = ((), snd (send_command env a c ps t u m))"
| "cm_step (env, DispatchEnd mid) m = ((), dispatch_end env mid m)"
| "cm_step (env, Finish mid t) m = ((), snd (send_finish mid t m))"
| "cm_step (env, Reconnect a) m = ((), snd (dispatch_pending env a m))"
| "cm_step (env, Message a p) m = ((), snd (handle_agent_message env a p m))"

definition cm_init :: "command_queue \<Rightarrow> int \<Rightarrow> int \<Rightarrow> conn_manager" where
  "cm_init q agent_cap command_cap =
     \<lparr>active = [], metadata = [], pending_requests = [], futures = [], queue = q,
      rl_agent = rate_limiter_init agent_cap 60, rl_command = rate_limiter_init command_cap 60,
      signing_pem = None, wire = []\<rparr>"

section \<open>What goes on the wire\<close>

text \<open>The text that the receiver of a command request verifies.\<close>

definition message_canonical :: "dict \<Rightarrow> string" where
  "message_canonical msg =
     command_canonical (getv msg ''message_id'') (getv msg ''agent_id'') (getv msg ''command'')
       (getv msg ''params'') (getv msg ''issued_by'') (getv msg ''issued_at'') (getv msg ''expires_at'')"

text \<open>
  A record the manager created: complete, and its command not forbidden by the backend's
  policy \<open>hr\<close> (the high-risk commands it allows).
\<close>

definition record_ok :: "string list \<Rightarrow> cmd_record \<Rightarrow> bool" where
  "record_ok hr r \<longleftrightarrow> message_id r \<noteq> [] \<and> issued_at r \<noteq> [] \<and> expires_at r \<noteq> []
     \<and> (tool r \<in> set DEFAULT_DISABLED \<longrightarrow> tool r \<in> set hr)"

definition wire_ok :: "(string \<Rightarrow> string \<Rightarrow> string res) \<Rightarrow> string list \<Rightarrow> dict \<Rightarrow> bool" where
  "wire_ok sign hr msg \<longleftrightarrow>
     getv msg ''type'' = JStr TYPE_COMMAND_REQUEST \<and>
     (\<exists>pem sig. sign pem (message_canonical msg) = Inr sig \<and> (sig \<noteq> [] \<longrightarrow> getv msg ''signature'' = JStr sig)) \<and>
     (\<exists>c. getv msg ''command'' = JStr c \<and> (c \<in> set DEFAULT_DISABLED \<longrightarrow> c \<in> set hr))"

definition queue_ok :: "string list \<Rightarrow> command_queue \<Rightarrow> bool" where
  "queue_ok hr q \<longleftrightarrow> queue_inv q \<and> list_all (\<lambda>p. record_ok hr (snd p)) (records q)"

definition cm_inv :: "(string \<Rightarrow> string \<Rightarrow> string res) \<Rightarrow> string list \<Rightarrow> conn_manager \<Rightarrow> bool" where
  "cm_inv sign hr m \<longleftrightarrow> queue_ok hr (queue m) \<and> list_all (\<lambda>p. wire_ok sign hr (snd p)) (wire m)"

definition env_ok :: "(string \<Rightarrow> string \<Rightarrow> string res) \<Rightarrow> string list \<Rightarrow> server_env \<Rightarrow> bool" where
  "env_ok sign hr env \<longleftrightarrow> ed_sign env = sign \<and> allowed_high_risk env = hr \<and> fresh_id env \<noteq> []"

lemma record_ok_keeps: "record_ok hr r \<Longrightarrow> keeps_identity f \<Longrightarrow> record_ok hr (f r)"
  by (simp add: record_ok_def keeps_identity_def)

lemma queue_ok_get: "queue_ok hr q \<Longrightarrow> q_get k q = Some r \<Longrightarrow> record_ok hr r"
  unfolding queue_ok_def q_get_def list_all_iff by (metis map_of_SomeD snd_conv)

lemma list_all_dset: "list_all (\<lambda>p. P (snd p)) d \<Longrightarrow> P v \<Longrightarrow> list_all (\<lambda>p. P (snd p)) (dset k v d)"
  by (induction d) (auto simp: dset_def)

lemmas record_ok_dset = list_all_dset [of "record_ok hr" for hr]

lemma queue_ok_mark [inv_intros]:
  assumes "queue_ok hr q" "keeps_identity f"
  shows "queue_ok hr (snd (mark w k st f q))"
proof (cases "q_get k q")
  case None
  then show ?thesis using assms(1) by (simp add: mark_def)
next
  case (Some r)
  have "record_ok hr (f (r\<lparr>state := st\<rparr>))"
    by (rule record_ok_keeps [OF _ assms(2)])
      (use queue_ok_get [OF assms(1) Some] in \<open>simp add: record_ok_def\<close>)
  then have "list_all (\<lambda>p. record_ok hr (snd p)) (dset k (f (r\<lparr>state := st\<rparr>)) (records q))"
    using assms(1) by (intro record_ok_dset) (simp_all add: queue_ok_def)
  moreover have "queue_inv (snd (mark w k st f q))"
    using assms by (intro mark_inv) (simp_all add: queue_ok_def)
  ultimately show ?thesis
    by (simp add: queue_ok_def) (simp add: mark_def Let_def Some)
qed

lemma keeps_identity_id: "keeps_identity (\<lambda>r. r)"
  by (simp add: keeps_identity_def)

lemma keeps_identity_sent: "keeps_identity (\<lambda>r. r\<lparr>attempts := attempts r + 1, sent_at := s\<rparr>)"
  by (simp add: keeps_identity_def)

lemma keeps_identity_resp: "keeps_identity (resp_updates env st data)"
  by (simp add: keeps_identity_def resp_updates_def Let_def)

lemma queue_ok_expire [inv_intros]: "queue_ok hr q \<Longrightarrow> queue_ok hr (snd (expire w now r q))"
  unfolding expire_def by (intro queue_ok_mark keeps_identity_expire)

lemma queue_ok_enqueue:
  assumes "queue_ok hr q" "fresh \<noteq> []" "t \<in> set DEFAULT_DISABLED \<longrightarrow> t \<in> set hr"
  shows "queue_ok hr (snd (enqueue w now fresh a t ps u timeout None q))"
proof -
  have "record_ok hr (new_record fresh a t ps u (isoformat now) (isoformat e))" for e
    using assms(2,3) by (simp add: record_ok_def new_record_def)
  then show ?thesis
    using assms(1) enqueue_inv [of q w now fresh a t ps u timeout None]
    by (simp add: queue_ok_def enqueue_def Let_def record_ok_dset split: option.splits sum.splits)
qed

lemma enqueue_result_ok:
  assumes "queue_ok hr q" "fresh \<noteq> []" "t \<in> set DEFAULT_DISABLED \<longrightarrow> t \<in> set hr"
    and "enqueue w now fresh a t ps u timeout None q = (Inr r, q')"
  shows "record_ok hr r" and "queue_ok hr q'"
proof -
  show "queue_ok hr q'" using queue_ok_enqueue [OF assms(1-3), of w now a ps u timeout] assms(4) by simp
  show "record_ok hr r"
  proof (cases "q_get fresh q")
    case None
    then have "\<exists>e. r = new_record fresh a t ps u (isoformat now) (isoformat e)"
      using assms(4) by (simp add: enqueue_def Let_def split: sum.splits) metis
    then obtain e where "r = new_record fresh a t ps u (isoformat now) (isoformat e)" ..
    then show ?thesis using assms(2,3) by (simp add: record_ok_def new_record_def)
  next
    case (Some r0)
    then have "r = r0" using assms(4) by (simp add: enqueue_def)
    then show ?thesis using queue_ok_get [OF assms(1) Some] by simp
  qed
qed

lemma signed_request_ok:
  assumes "signed_request env pem m agent r = Inr msg" "record_ok hr r"
  shows "wire_ok (ed_sign env) hr msg" "getv msg ''agent_id'' = (if agent = [] then JNull else JStr agent)"
    "getv msg ''message_id'' = JStr (message_id r)"
proof -
  obtain sig tenant where sig: "ed_sign env pem (request_canonical agent r) = Inr sig"
    and msg: "make_command_request (fresh_id env) (now_us env) (tool r) (JObj (params r))
         (JStr (message_id r)) (JStr agent) tenant
         (py_or (JStr (issued_by r)) (JStr ''api:user'')) (JStr (issued_at r))
         (JStr (expires_at r)) (JStr sig) = Inr msg"
    using assms(1) by (auto simp: signed_request_def Let_def res_bind_eq_Inr)
  have ne: "message_id r \<noteq> []" "issued_at r \<noteq> []" "expires_at r \<noteq> []"
    using assms(2) by (simp_all add: record_ok_def)
  note f = make_command_request_fields [OF msg]
  have ib: "truthy (py_or (JStr (issued_by r)) (JStr ''api:user''))" by (simp add: py_or_def)
  have a: "getv msg ''agent_id'' = (if agent = [] then JNull else JStr agent)"
    using msg by (auto simp: make_command_request_def dict_simps res_bind_eq_Inr split: if_splits)
  have "message_canonical msg = request_canonical agent r"
    using f ne ib by (simp add: message_canonical_def request_canonical_def command_canonical_def a py_or_def)
  then show "wire_ok (ed_sign env) hr msg"
    using sig f(1,3,9) assms(2) by (auto simp: wire_ok_def record_ok_def)
  show "getv msg ''agent_id'' = (if agent = [] then JNull else JStr agent)" by (rule a)
  show "getv msg ''message_id'' = JStr (message_id r)" using f(2) ne by (simp add: py_or_def)
qed

subsection \<open>Every step keeps the invariant\<close>

lemma cm_inv_simps [simp]:
  "cm_inv sign hr (m\<lparr>active := x\<rparr>) = cm_inv sign hr m"
  "cm_inv sign hr (m\<lparr>metadata := y\<rparr>) = cm_inv sign hr m"
  "cm_inv sign hr (m\<lparr>pending_requests := z\<rparr>) = cm_inv sign hr m"
  "cm_inv sign hr (m\<lparr>futures := f\<rparr>) = cm_inv sign hr m"
  "cm_inv sign hr (m\<lparr>rl_agent := ra\<rparr>) = cm_inv sign hr m"
  "cm_inv sign hr (m\<lparr>rl_command := rc\<rparr>) = cm_inv sign hr m"
  "cm_inv sign hr (m\<lparr>signing_pem := sp\<rparr>) = cm_inv sign hr m"
  by (simp_all add: cm_inv_def)

lemma cm_inv_queue: "cm_inv sign hr m \<Longrightarrow> queue_ok hr q \<Longrightarrow> cm_inv sign hr (m\<lparr>queue := q\<rparr>)"
  by (simp add: cm_inv_def)

lemma cm_inv_wire: "cm_inv sign hr m \<Longrightarrow> wire_ok sign hr msg \<Longrightarrow> cm_inv sign hr (m\<lparr>wire := wire m @ [(ws, msg)]\<rparr>)"
  by (simp add: cm_inv_def)

lemma cm_inv_queue_ok: "cm_inv sign hr m \<Longrightarrow> queue_ok hr (queue m)"
  by (simp add: cm_inv_def)

lemma load_signing_key_frame:
  assumes "load_signing_key env m = (k, m')"
  shows "m' = m\<lparr>signing_pem := signing_pem m'\<rparr>"
  using assms by (auto simp: load_signing_key_def split: option.splits fnode.splits if_splits)

lemma load_signing_key_inv:
  "load_signing_key env m = (k, m') \<Longrightarrow> cm_inv sign hr m' = cm_inv sign hr m"
  using load_signing_key_frame by (metis cm_inv_simps(7))

lemma dispatch_begin_inv:
  assumes "cm_inv sign hr m" "ed_sign env = sign" "record_ok hr r"
    and "dispatch_begin env agent r reg m = (res, m')"
  shows "cm_inv sign hr m'"
proof (cases "map_of (active m) agent")
  case None
  then show ?thesis using assms(1,4) by (simp add: dispatch_begin_def)
next
  case (Some ws)
  obtain k m1 where k: "load_signing_key env m = (k, m1)" by fastforce
  then have m1: "cm_inv sign hr m1" using load_signing_key_inv [OF k] assms(1) by simp
  show ?thesis
  proof (cases k)
    case None
    then show ?thesis using assms(4) m1 by (simp add: dispatch_begin_def Some k)
  next
    case pem: (Some pem)
    show ?thesis
    proof (cases "signed_request env pem m1 agent r")
      case (Inl e)
      then show ?thesis using assms(4) m1 by (simp add: dispatch_begin_def Some k pem)
    next
      case (Inr msg)
      then have "wire_ok sign hr msg" using signed_request_ok(1) [OF Inr assms(3)] assms(2) by simp
      then show ?thesis using assms(4) m1 cm_inv_wire
        by (auto simp: dispatch_begin_def Some k pem Inr Let_def cm_inv_def split: if_splits)
    qed
  qed
qed

lemma dispatch_end_inv: "cm_inv sign hr m \<Longrightarrow> cm_inv sign hr (dispatch_end env mid m)"
  unfolding dispatch_end_def
  by (intro cm_inv_queue queue_ok_mark keeps_identity_sent) (simp_all add: cm_inv_queue_ok)

lemma dispatch_record_inv:
  assumes "cm_inv sign hr m" "ed_sign env = sign" "record_ok hr r"
    and "dispatch_record env agent r reg m = (res, m')"
  shows "cm_inv sign hr m'"
proof -
  obtain x m1 where d: "dispatch_begin env agent r reg m = (x, m1)" by fastforce
  have "cm_inv sign hr m1" by (rule dispatch_begin_inv [OF assms(1-3) d])
  then show ?thesis using assms(4) dispatch_end_inv
    by (auto simp: dispatch_record_def d split: sum.splits bool.splits)
qed

lemma dispatch_one_inv:
  assumes "cm_inv sign hr m" "ed_sign env = sign" "record_ok hr r" "dispatch_one env agent r m = (res, m')"
  shows "cm_inv sign hr m'"
proof -
  obtain x m1 where d: "dispatch_record env agent r False m = (x, m1)" by fastforce
  have "cm_inv sign hr m1" by (rule dispatch_record_inv [OF assms(1-3) d])
  moreover have "cm_inv sign hr (m\<lparr>queue := snd (expire (writable env) (now_us env) r (queue m))\<rparr>)"
    using assms(1) by (intro cm_inv_queue queue_ok_expire) (simp_all add: cm_inv_queue_ok)
  ultimately show ?thesis using assms(1,4)
    by (auto simp: dispatch_one_def d split: sum.splits bool.splits if_splits)
qed

lemma dispatch_all_inv:
  assumes "cm_inv sign hr m" "ed_sign env = sign" "list_all (record_ok hr) rs" "dispatch_all env agent rs m = (res, m')"
  shows "cm_inv sign hr m'"
  using assms
proof (induction rs arbitrary: m)
  case (Cons r rs)
  obtain x m1 where d: "dispatch_one env agent r m = (x, m1)" by fastforce
  have "cm_inv sign hr m1" using Cons.prems by (intro dispatch_one_inv [OF _ _ _ d]) simp_all
  then show ?case using Cons d by (cases x) auto
qed simp

lemma non_terminal_members:
  assumes "queue_inv q" "non_terminal_for a q = Inr rs" "r \<in> set rs"
  shows "q_get (message_id r) q = Some r" "agent_id r = a" "state r \<notin> TERMINAL_STATES"
proof -
  obtain all where all: "list_for_agent a q = Inr all" "rs = filter (\<lambda>r. state r \<notin> TERMINAL_STATES) all"
    using assms(2) by (auto simp: non_terminal_for_def res_bind_eq_Inr)
  with list_for_agent_total [OF assms(1), of a] assms(3)
  show "q_get (message_id r) q = Some r" "agent_id r = a" "state r \<notin> TERMINAL_STATES" by auto
qed

lemma dispatch_pending_inv:
  assumes "cm_inv sign hr m" "ed_sign env = sign"
  shows "cm_inv sign hr (snd (dispatch_pending env agent m))"
proof (cases "map_of (active m) agent = None")
  case False
  show ?thesis
  proof (cases "non_terminal_for agent (queue m)")
    case (Inr rs)
    have q: "queue_ok hr (queue m)" using assms(1) by (rule cm_inv_queue_ok)
    then have "list_all (record_ok hr) rs"
      unfolding list_all_iff using non_terminal_members(1) [OF _ Inr] queue_ok_get [OF q]
      by (metis queue_ok_def)
    from dispatch_all_inv [OF assms this] show ?thesis
      using False Inr by (auto simp: dispatch_pending_def) (metis prod.collapse)
  qed (use assms False in \<open>simp add: dispatch_pending_def\<close>)
qed (use assms in \<open>simp add: dispatch_pending_def\<close>)

lemma handle_agent_message_inv:
  assumes "cm_inv sign hr m"
  shows "cm_inv sign hr (snd (handle_agent_message env agent p m))"
proof -
  have "cm_inv sign hr (m\<lparr>queue := snd (mark w k st f (queue m))\<rparr>)" if "keeps_identity f" for w k st f
    using assms that by (intro cm_inv_queue queue_ok_mark) (simp_all add: cm_inv_queue_ok)
  note mk = this [OF keeps_identity_resp] this [OF keeps_identity_id]
  have r: "cm_inv sign hr (snd (handle_response env data m))" for data
    using assms mk(1) by (auto simp: handle_response_def Let_def split: sum.splits option.splits)
  have a: "cm_inv sign hr (handle_ack env data m)" for data
    using mk(2) by (simp add: handle_ack_def)
  have h: "cm_inv sign hr (handle_heartbeat env agent m)"
    using assms by (simp add: handle_heartbeat_def split: option.splits)
  show ?thesis using assms r a h
    by (auto simp: handle_agent_message_def case_prod_unfold split: option.splits json.splits)
qed

lemma prune_inv: "cm_inv sign hr m \<Longrightarrow> cm_inv sign hr (snd (prune_stale_connections env m))"
proof -
  assume "cm_inv sign hr m"
  then have "cm_inv sign hr (snd (fold (\<lambda>a (removed, m). if is_agent_online env m a then (removed, m)
      else (removed @ [a], disconnect a m)) xs (ys, m)))" for xs ys
    by (induction xs arbitrary: ys m) (simp_all add: disconnect_def)
  then show ?thesis by (simp add: prune_stale_connections_def)
qed

lemma send_enqueue_inv:
  assumes inv: "cm_inv sign hr m" and env: "env_ok sign hr env"
    and allowed: "rv \<in> set DEFAULT_DISABLED \<longrightarrow> rv \<in> set hr"
  shows "cm_inv sign hr (snd (send_enqueue env agent rv ps user t m))"
proof -
  obtain x q where e: "enqueue (writable env) (now_us env) (fresh_id env) agent rv ps
      (if user = [] then ''api:user'' else user) (JFloat t) None (queue m) = (x, q)" by fastforce
  have qok: "queue_ok hr (queue m)" "fresh_id env \<noteq> []" "ed_sign env = sign"
    using inv env by (simp_all add: cm_inv_def env_ok_def)
  have "queue_ok hr q" using queue_ok_enqueue [OF qok(1,2) allowed] e by (metis snd_conv)
  then have mq: "cm_inv sign hr (m\<lparr>queue := q\<rparr>)" by (rule cm_inv_queue [OF inv])
  show ?thesis
  proof (cases x)
    case (Inl y)
    then show ?thesis using mq by (simp add: send_enqueue_def e)
  next
    case (Inr r)
    have r: "record_ok hr r" by (rule enqueue_result_ok(1) [OF qok(1,2) allowed e [unfolded Inr]])
    obtain y m2 where d: "dispatch_begin env agent r True (m\<lparr>queue := q\<rparr>) = (y, m2)" by fastforce
    have "cm_inv sign hr m2" by (rule dispatch_begin_inv [OF mq qok(3) r d])
    then show ?thesis by (simp add: send_enqueue_def e Inr d split: sum.splits bool.splits)
  qed
qed

lemma send_command_inv:
  assumes inv: "cm_inv sign hr m" and env: "env_ok sign hr env"
  shows "cm_inv sign hr (snd (send_command env agent cmd ps timeout user m))"
proof -
  define rv where "rv = resolve_command cmd"
  obtain k m1 where k: "load_signing_key env m = (k, m1)" by fastforce
  have m1: "cm_inv sign hr m1" using load_signing_key_inv [OF k] inv by simp
  show ?thesis
  proof (cases "backend_command_forbidden env rv")
    case False
    then have allowed: "rv \<in> set DEFAULT_DISABLED \<longrightarrow> rv \<in> set hr"
      using env by (auto simp: backend_command_forbidden_def env_ok_def)
    note step = send_enqueue_inv [OF _ env allowed]
    from m1 False show ?thesis unfolding send_command_def
      by (simp add: k Let_def step case_prod_unfold flip: rv_def split: sum.split)
  qed (use inv in \<open>simp add: send_command_def flip: rv_def\<close>)
qed

lemma cm_step_inv:
  assumes "cm_inv sign hr m" "env_ok sign hr (fst i)"
  shows "cm_inv sign hr (snd (cm_step i m))"
proof -
  obtain env ev where i: "i = (env, ev)" by (cases i)
  have s: "ed_sign env = sign" using assms(2) by (simp add: env_ok_def i)
  show ?thesis using assms i s
    by (cases ev)
      (simp_all add: register_connection_def disconnect_def send_finish_def Let_def prune_inv
        send_command_inv dispatch_end_inv dispatch_pending_inv handle_agent_message_inv)
qed

interpretation manager: invariant_machine cm_step "\<lambda>i m. env_ok sign hr (fst i)" "cm_inv sign hr" for sign hr
  by unfold_locales (rule cm_step_inv)

section \<open>Re-dispatch: effect on the queue and on the wire\<close>

text \<open>What a reconnection does to a record of the agent.\<close>

definition redispatched :: "int \<Rightarrow> cmd_record \<Rightarrow> cmd_record \<Rightarrow> bool" where
  "redispatched now r r' \<longleftrightarrow>
     (if state r \<in> TERMINAL_STATES then r' = r
      else (case is_record_expired now r of
          Inl e \<Rightarrow> False
        | Inr True \<Rightarrow> state r' = CMD_EXPIRED
        | Inr False \<Rightarrow> r' = r \<or> state r = CMD_PENDING \<and> state r' = CMD_SENT \<and> attempts r' = attempts r + 1))"

definition dispatchable :: "int \<Rightarrow> cmd_record \<Rightarrow> bool" where
  "dispatchable now r \<longleftrightarrow> state r = CMD_PENDING \<and> is_record_expired now r = Inr False"

lemma q_get_mark: "q_get k (snd (mark w k' st f q)) =
    (if k = k' then map_option (\<lambda>r. f (r\<lparr>state := st\<rparr>)) (q_get k q) else q_get k q)"
  by (simp add: mark_def Let_def split: option.split)

lemma load_signing_key_fields:
  assumes "load_signing_key env m = (k, m')"
  shows "active m' = active m" "queue m' = queue m" "wire m' = wire m" "metadata m' = metadata m"
    "pending_requests m' = pending_requests m" "futures m' = futures m"
  by (subst load_signing_key_frame [OF assms], simp)+

lemma dispatch_begin_fields:
  assumes "dispatch_begin env a r reg m = (res, m')"
  shows "active m' = active m" "queue m' = queue m"
    and "res = Inr True \<longleftrightarrow> wire m' \<noteq> wire m"
    and "res = Inr True \<Longrightarrow> \<exists>ws msg pem. map_of (active m) a = Some ws \<and> wire m' = wire m @ [(ws, msg)] \<and>
           signed_request env pem (m\<lparr>signing_pem := signing_pem m'\<rparr>) a r = Inr msg"
    and "res = Inr True \<Longrightarrow> reg \<Longrightarrow> message_id r \<in> set (pending_requests m') \<and>
           map_of (futures m') (message_id r) = Some Waiting"
proof -
  obtain k m1 where k: "load_signing_key env m = (k, m1)" by fastforce
  note f = load_signing_key_fields [OF k] and fr = load_signing_key_frame [OF k]
  note d = assms [unfolded dispatch_begin_def k]
  have sp: "m1 = m\<lparr>signing_pem := signing_pem m1\<rparr>" by (rule fr)
  show "active m' = active m" "queue m' = queue m" "res = Inr True \<longleftrightarrow> wire m' \<noteq> wire m"
    "res = Inr True \<Longrightarrow> \<exists>ws msg pem. map_of (active m) a = Some ws \<and> wire m' = wire m @ [(ws, msg)] \<and>
           signed_request env pem (m\<lparr>signing_pem := signing_pem m'\<rparr>) a r = Inr msg"
    "res = Inr True \<Longrightarrow> reg \<Longrightarrow> message_id r \<in> set (pending_requests m') \<and>
           map_of (futures m') (message_id r) = Some Waiting"
    using d f sp by (auto simp: Let_def split: option.splits sum.splits if_splits)
qed

lemma dispatch_one_effect:
  assumes "dispatch_one env a r m = (Inr x, m')" "q_get (message_id r) (queue m) = Some r"
    "state r \<notin> TERMINAL_STATES"
  shows "active m' = active m"
    and "\<And>k. k \<noteq> message_id r \<Longrightarrow> q_get k (queue m') = q_get k (queue m)"
    and "\<exists>r'. q_get (message_id r) (queue m') = Some r' \<and> redispatched (now_us env) r r'"
proof -
  obtain res m1 where d: "dispatch_begin env a r False m = (res, m1)" by fastforce
  note f = dispatch_begin_fields [OF d]
  show "active m' = active m"
    using assms(1) f
    by (auto simp: dispatch_one_def dispatch_record_def d dispatch_end_def split: sum.splits bool.splits if_splits)
  show "q_get k (queue m') = q_get k (queue m)" if "k \<noteq> message_id r" for k
    using assms(1) f that
    by (auto simp: dispatch_one_def dispatch_record_def d dispatch_end_def expire_def q_get_mark
        split: sum.splits bool.splits if_splits)
  show "\<exists>r'. q_get (message_id r) (queue m') = Some r' \<and> redispatched (now_us env) r r'"
    using assms f
    by (auto simp: dispatch_one_def dispatch_record_def d dispatch_end_def expire_def q_get_mark
        redispatched_def split: sum.splits bool.splits if_splits)
qed

lemma dispatch_one_wire:
  assumes "dispatch_one env a r m = (res, m')" "record_ok hr r"
  shows "wire m' = wire m \<or> dispatchable (now_us env) r \<and>
     (\<exists>ws msg. wire m' = wire m @ [(ws, msg)] \<and> map_of (active m) a = Some ws \<and>
        getv msg ''message_id'' = JStr (message_id r))"
proof -
  obtain y m1 where d: "dispatch_begin env a r False m = (y, m1)" by fastforce
  note f = dispatch_begin_fields [OF d]
  show ?thesis
  proof (cases "y = Inr True")
    case True
    obtain ws msg pem where w: "map_of (active m) a = Some ws" "wire m1 = wire m @ [(ws, msg)]"
      "signed_request env pem (m\<lparr>signing_pem := signing_pem m1\<rparr>) a r = Inr msg"
      using f(4) [OF True] by blast
    note id = signed_request_ok(3) [OF w(3) assms(2)]
    show ?thesis using assms(1) w id True
      by (auto simp: dispatch_one_def dispatch_record_def d dispatch_end_def dispatchable_def
          split: sum.splits bool.splits if_splits)
  next
    case False
    then have "wire m1 = wire m" using f(3) by simp
    with assms(1) False show ?thesis
      by (auto simp: dispatch_one_def dispatch_record_def d split: sum.splits bool.splits if_splits)
  qed
qed

lemma dispatch_all_effect:
  assumes "dispatch_all env a rs m = (Inr (), m')" "distinct (map message_id rs)"
    "\<And>r. r \<in> set rs \<Longrightarrow> q_get (message_id r) (queue m) = Some r \<and> state r \<notin> TERMINAL_STATES"
  shows "(\<forall>k. k \<notin> message_id ` set rs \<longrightarrow> q_get k (queue m') = q_get k (queue m)) \<and>
    (\<forall>r \<in> set rs. \<exists>r'. q_get (message_id r) (queue m') = Some r' \<and> redispatched (now_us env) r r')"
  using assms
proof (induction rs arbitrary: m)
  case (Cons r rs)
  obtain x m1 where d: "dispatch_one env a r m = (Inr x, m1)" "dispatch_all env a rs m1 = (Inr (), m')"
    using Cons.prems(1) by (auto split: prod.splits sum.splits)
  have r: "q_get (message_id r) (queue m) = Some r" "state r \<notin> TERMINAL_STATES"
    using Cons.prems(3) [of r] by simp_all
  note e = dispatch_one_effect [OF d(1) r]
  have fresh: "message_id r \<notin> message_id ` set rs" using Cons.prems(2) by simp
  have IH: "(\<forall>k. k \<notin> message_id ` set rs \<longrightarrow> q_get k (queue m') = q_get k (queue m1)) \<and>
    (\<forall>r \<in> set rs. \<exists>r'. q_get (message_id r) (queue m') = Some r' \<and> redispatched (now_us env) r r')"
  proof (rule Cons.IH [OF d(2)])
    fix r' assume r': "r' \<in> set rs"
    then have "message_id r' \<noteq> message_id r" using fresh by (metis imageI)
    then show "q_get (message_id r') (queue m1) = Some r' \<and> state r' \<notin> TERMINAL_STATES"
      using e(2) Cons.prems(3) [of r'] r' by simp
  qed (use Cons.prems(2) in simp)
  have head: "q_get (message_id r) (queue m') = q_get (message_id r) (queue m1)"
    using IH fresh by blast
  show ?case using IH e(2,3) head by (auto simp del: split_paired_All)
qed simp

lemma dispatch_all_wire:
  assumes "dispatch_all env a rs m = (res, m')" "list_all (record_ok hr) rs"
    "\<And>r. r \<in> set rs \<Longrightarrow> q_get (message_id r) (queue m) = Some r \<and> state r \<notin> TERMINAL_STATES"
    "distinct (map message_id rs)"
  shows "\<exists>new. wire m' = wire m @ new \<and> (\<forall>p \<in> set new. Some (fst p) = map_of (active m) a) \<and>
    subseq (map (\<lambda>p. getv (snd p) ''message_id'') new)
           (map (\<lambda>r. JStr (message_id r)) (filter (dispatchable (now_us env)) rs))"
  using assms
proof (induction rs arbitrary: m)
  case (Cons r rs)
  obtain x m1 where d: "dispatch_one env a r m = (x, m1)" by fastforce
  have ok: "record_ok hr r" "list_all (record_ok hr) rs" using Cons.prems(2) by simp_all
  note w = dispatch_one_wire [OF d ok(1)]
  obtain n1 where n1: "wire m1 = wire m @ n1" "\<forall>p \<in> set n1. Some (fst p) = map_of (active m) a"
    "subseq (map (\<lambda>p. getv (snd p) ''message_id'') n1)
       (map (\<lambda>r. JStr (message_id r)) (filter (dispatchable (now_us env)) [r]))"
    using w
  proof (elim disjE conjE exE)
    assume "wire m1 = wire m"
    then show thesis by (intro that [of "[]"]) simp_all
  next
    fix ws msg
    assume "dispatchable (now_us env) r" "wire m1 = wire m @ [(ws, msg)]"
      "map_of (active m) a = Some ws" "getv msg ''message_id'' = JStr (message_id r)"
    then show thesis by (intro that [of "[(ws, msg)]"]) simp_all
  qed
  show ?case
  proof (cases x)
    case (Inl e)
    with Cons.prems(1) d n1 show ?thesis
      by (intro exI [of _ n1]) (auto intro: subseq_order.order_trans split: if_splits)
  next
    case (Inr u)
    have r: "q_get (message_id r) (queue m) = Some r" "state r \<notin> TERMINAL_STATES"
      using Cons.prems(3) [of r] by simp_all
    note e = dispatch_one_effect [OF d [unfolded Inr] r]
    have fresh: "message_id r \<notin> message_id ` set rs" using Cons.prems(4) by simp
    have all: "dispatch_all env a rs m1 = (res, m')" using Cons.prems(1) d Inr by simp
    have g: "q_get (message_id r') (queue m1) = Some r' \<and> state r' \<notin> TERMINAL_STATES" if "r' \<in> set rs" for r'
    proof -
      have "message_id r' \<noteq> message_id r" using fresh that by (metis imageI)
      then show ?thesis using e(2) Cons.prems(3) [of r'] that by simp
    qed
    obtain n2 where n2: "wire m' = wire m1 @ n2" "\<forall>p \<in> set n2. Some (fst p) = map_of (active m1) a"
      "subseq (map (\<lambda>p. getv (snd p) ''message_id'') n2)
           (map (\<lambda>r. JStr (message_id r)) (filter (dispatchable (now_us env)) rs))"
      using Cons.IH [OF all ok(2) g] Cons.prems(4) by auto
    have "subseq (map (\<lambda>p. getv (snd p) ''message_id'') (n1 @ n2))
      (map (\<lambda>r. JStr (message_id r)) (filter (dispatchable (now_us env)) ([r] @ rs)))"
      unfolding map_append filter_append by (intro list_emb_append_mono n1(3) n2(3))
    then show ?thesis using n1(1,2) n2(1,2) e(1)
      by (intro exI [of _ "n1 @ n2"]) auto
  qed
qed simp

lemma dispatch_pending_effect:
  assumes "queue_inv (queue m)" "dispatch_pending env a m = (Inr (), m')"
    "map_of (active m) a \<noteq> None" "q_get k (queue m) = Some r"
  shows "\<exists>r'. q_get k (queue m') = Some r' \<and> (if agent_id r = a then redispatched (now_us env) r r' else r' = r)"
proof -
  obtain rs where rs: "non_terminal_for a (queue m) = Inr rs" "dispatch_all env a rs m = (Inr (), m')"
    using assms(2,3) by (auto simp: dispatch_pending_def split: if_splits sum.splits)
  obtain all where all: "list_for_agent a (queue m) = Inr all" "rs = filter (\<lambda>r. state r \<notin> TERMINAL_STATES) all"
    using rs(1) by (auto simp: non_terminal_for_def res_bind_eq_Inr)
  have mem: "\<And>r. r \<in> set all \<longleftrightarrow> q_get (message_id r) (queue m) = Some r \<and> agent_id r = a"
    and dist: "distinct (map message_id all)"
    using list_for_agent_total [OF assms(1), of a] all(1) by auto
  have "distinct (map message_id rs)" using dist all(2) by (simp add: distinct_map_filter)
  note e = dispatch_all_effect [OF rs(2) this]
  have e': "(\<forall>k. k \<notin> message_id ` set rs \<longrightarrow> q_get k (queue m') = q_get k (queue m)) \<and>
    (\<forall>r \<in> set rs. \<exists>r'. q_get (message_id r) (queue m') = Some r' \<and> redispatched (now_us env) r r')"
    by (rule e) (use mem all(2) in auto)
  have k: "message_id r = k" by (rule queue_inv_id [OF assms(1,4)])
  have inrs: "r' \<in> set rs \<longleftrightarrow> q_get (message_id r') (queue m) = Some r' \<and> agent_id r' = a \<and> state r' \<notin> TERMINAL_STATES" for r'
    using mem [of r'] all(2) by auto
  show ?thesis
  proof (cases "r \<in> set rs")
    case True
    then show ?thesis using e' k inrs [of r] by auto
  next
    case False
    have "k \<notin> message_id ` set rs"
    proof
      assume "k \<in> message_id ` set rs"
      then obtain r1 where "r1 \<in> set rs" "message_id r1 = k" by blast
      then have "r1 = r" using inrs [of r1] assms(4) by simp
      with \<open>r1 \<in> set rs\<close> False show False by simp
    qed
    then have "q_get k (queue m') = Some r" using e' assms(4) by simp
    moreover have "agent_id r = a \<Longrightarrow> state r \<in> TERMINAL_STATES"
      using False inrs [of r] k assms(4) by auto
    ultimately show ?thesis by (simp add: redispatched_def)
  qed
qed

lemma dispatch_pending_wire:
  assumes "queue_ok hr (queue m)" "dispatch_pending env a m = (res, m')" "map_of (active m) a = Some ws"
    "list_for_agent a (queue m) = Inr rs"
  shows "\<exists>new. wire m' = wire m @ new \<and> (\<forall>p \<in> set new. fst p = ws) \<and>
    subseq (map (\<lambda>p. getv (snd p) ''message_id'') new)
           (map (\<lambda>r. JStr (message_id r)) (filter (dispatchable (now_us env)) rs))"
proof -
  have inv: "queue_inv (queue m)" using assms(1) by (simp add: queue_ok_def)
  let ?nt = "filter (\<lambda>r. state r \<notin> TERMINAL_STATES) rs"
  have nt: "non_terminal_for a (queue m) = Inr ?nt" using assms(4) by (simp add: non_terminal_for_def)
  have mem: "\<And>r. r \<in> set rs \<longleftrightarrow> q_get (message_id r) (queue m) = Some r \<and> agent_id r = a"
    and dist: "distinct (map message_id rs)"
    using list_for_agent_total [OF inv, of a] assms(4) by auto
  have d: "dispatch_all env a ?nt m = (res, m')" using assms(2,3) nt by (simp add: dispatch_pending_def)
  have la: "list_all (record_ok hr) ?nt"
    unfolding list_all_iff using mem queue_ok_get [OF assms(1)] by auto
  have g: "q_get (message_id r) (queue m) = Some r \<and> state r \<notin> TERMINAL_STATES" if "r \<in> set ?nt" for r
    using that mem by simp
  have dn: "distinct (map message_id ?nt)" by (rule distinct_map_filter [OF dist])
  have f: "filter (dispatchable (now_us env)) ?nt = filter (dispatchable (now_us env)) rs"
    unfolding filter_filter by (rule filter_cong) (auto simp: dispatchable_def)
  from dispatch_all_wire [OF d la g dn] show ?thesis unfolding f assms(3) by simp
qed

lemma run_wire_ok:
  assumes "queue_ok hr q" "\<forall>i \<in> set ins. env_ok sign hr (fst i)"
    and "(ws, msg) \<in> set (wire (snd (run cm_step ins (cm_init q ac cc))))"
  shows "wire_ok sign hr msg"
proof -
  have "admissible (\<lambda>i m. env_ok sign hr (fst i)) cm_step ins m" for m
    using assms(2) by (induction ins arbitrary: m) auto
  moreover have "cm_inv sign hr (cm_init q ac cc)" using assms(1) by (simp add: cm_inv_def cm_init_def)
  ultimately have "cm_inv sign hr (snd (run cm_step ins (cm_init q ac cc)))"
    by (intro manager.run_inv)
  then show ?thesis using assms(3) by (auto simp: cm_inv_def list_all_iff)
qed

section \<open>Properties\<close>

text \<open>
  C5: In every run of the server from a queue it created itself, whatever the sessions,
  REST calls, reconnections, agent messages and failing writes, each command request put on
  a socket carries a signature of exactly the canonical text its receiver recomputes from
  it, and names no high-risk command outside the backend's allowlist.
\<close>

theorem wire_commands_signed_and_allowed:
  assumes "queue_ok hr q" "\<forall>i \<in> set ins. env_ok sign hr (fst i)"
    and "(ws, msg) \<in> set (wire (snd (run cm_step ins (cm_init q ac cc))))"
  shows "(\<exists>pem sig. sign pem (message_canonical msg) = Inr sig \<and>
            (sig \<noteq> [] \<longrightarrow> getv msg ''signature'' = JStr sig)) \<and>
         (\<exists>c. getv msg ''command'' = JStr c \<and> (c \<in> set DEFAULT_DISABLED \<longrightarrow> c \<in> set hr))"
  using run_wire_ok [OF assms] by (auto simp: wire_ok_def)

definition sample_env :: server_env where
  "sample_env = \<lparr>now_us = 0, mono = 0, fresh_id = ''m1'', key_path = ''/k'', key_file = File ''pem'',
     allow_high_risk_env = [], default_tenant = [], liveness_s = 90,
     ed_sign = (\<lambda>k t. Inr (CHR ''S'' # t)), sock_connected = (\<lambda>s. True), sock_sends = (\<lambda>s. True),
     writable = True\<rparr>"

definition sample_events :: "(server_env \<times> cm_event) list" where
  "sample_events = [(sample_env, Register 7 ''a1'' ''host'' JNull [] []),
     (sample_env, Send ''a1'' ''ping'' [] (JInt 30) []), (sample_env, DispatchEnd ''m1'')]"

lemma q_empty_ok: "queue_ok hr q_empty"
  by (simp add: queue_ok_def q_empty_inv) (simp add: q_empty_def)

lemma sample_env_ok: "env_ok (\<lambda>k t. Inr (CHR ''S'' # t)) [] sample_env"
  by (simp add: env_ok_def sample_env_def allowed_high_risk_def)

lemma send_command_eq:
  assumes "resolve_command cmd = rv" "\<not> backend_command_forbidden env rv"
    "load_signing_key env m = (Some pem, m1)" "pem \<noteq> []"
    "rl_allow (mono env) (agent_key agent) (rl_agent m1) = (True, ra)"
    "rl_allow (mono env) (command_key agent rv) (rl_command m1) = (True, rc)"
    "effective_timeout rv ps timeout = Inr t"
  shows "send_command env agent cmd ps timeout user m =
    send_enqueue env agent rv ps user t (m1\<lparr>rl_agent := ra, rl_command := rc\<rparr>)"
  using assms by (simp add: send_command_def Let_def)

definition sample_connected :: conn_manager where
  "sample_connected = snd (register_connection sample_env 7 ''a1'' ''host'' JNull [] [] (cm_init q_empty 30 10))"

definition sample_checked :: conn_manager where
  "sample_checked = sample_connected
     \<lparr>signing_pem := Some ''pem'',
      rl_agent := snd (rl_allow 0 (agent_key ''a1'') (rate_limiter_init 30 60)),
      rl_command := snd (rl_allow 0 (command_key ''a1'' ''ping'') (rate_limiter_init 10 60))\<rparr>"

lemma sample_send:
  "send_command sample_env ''a1'' ''ping'' [] (JInt 30) u sample_connected =
     send_enqueue sample_env ''a1'' ''ping'' [] u (Fin 30) sample_checked"
proof -
  have c: "rl_agent sample_connected = rate_limiter_init 30 60" "rl_command sample_connected = rate_limiter_init 10 60"
    "signing_pem sample_connected = None"
    by (simp_all add: sample_connected_def register_connection_def Let_def cm_init_def split: if_splits)
  have rl: "fst (rl_allow 0 (agent_key ''a1'') (rate_limiter_init 30 60))"
    "fst (rl_allow 0 (command_key ''a1'' ''ping'') (rate_limiter_init 10 60))" by code_simp+
  have k: "load_signing_key sample_env sample_connected = (Some ''pem'', sample_connected\<lparr>signing_pem := Some ''pem''\<rparr>)"
  proof -
    have "strip ''/k'' \<noteq> []" "strip ''pem'' \<noteq> []" by code_simp+
    then show ?thesis unfolding load_signing_key_def c by (simp add: sample_env_def)
  qed
  have "send_command sample_env ''a1'' ''ping'' [] (JInt 30) u sample_connected =
     send_enqueue sample_env ''a1'' ''ping'' [] u (Fin 30)
       (sample_connected\<lparr>signing_pem := Some ''pem'',
      rl_agent := snd (rl_allow 0 (agent_key ''a1'') (rate_limiter_init 30 60)),
      rl_command := snd (rl_allow 0 (command_key ''a1'' ''ping'') (rate_limiter_init 10 60))\<rparr>)"
  proof (rule send_command_eq)
    show "load_signing_key sample_env sample_connected = (Some ''pem'', sample_connected\<lparr>signing_pem := Some ''pem''\<rparr>)"
      by (rule k)
    show "resolve_command ''ping'' = ''ping''" "\<not> backend_command_forbidden sample_env ''ping''"
      "effective_timeout ''ping'' [] (JInt 30) = Inr (Fin 30)"
      by (simp_all add: resolve_command_def COMMAND_ALIASES_def backend_command_forbidden_def
        DEFAULT_DISABLED_def effective_timeout_def clampf_def fmin_def fmax_def del: py_float.simps)
    show "rl_allow (mono sample_env) (agent_key ''a1'') (rl_agent (sample_connected\<lparr>signing_pem := Some ''pem''\<rparr>))
      = (True, snd (rl_allow 0 (agent_key ''a1'') (rate_limiter_init 30 60)))"
      using rl by (simp add: c sample_env_def prod_eq_iff)
    show "rl_allow (mono sample_env) (command_key ''a1'' ''ping'') (rl_command (sample_connected\<lparr>signing_pem := Some ''pem''\<rparr>))
      = (True, snd (rl_allow 0 (command_key ''a1'' ''ping'') (rate_limiter_init 10 60)))"
      using rl by (simp add: c sample_env_def prod_eq_iff)
  qed simp
  then show ?thesis by (simp add: sample_checked_def)
qed

definition sample_sent :: "send_result \<times> conn_manager" where
  "sample_sent = send_enqueue sample_env ''a1'' ''ping'' [] [] (Fin 30) sample_checked"

lemma sample_sent_wire: "map fst (wire (snd sample_sent)) = [7]" "fst sample_sent = Sent ''m1'' ''ping'' (Fin 30)"
  by code_simp+

lemma sample_run:
  "wire (snd (run cm_step sample_events (cm_init q_empty 30 10))) = wire (snd sample_sent)"
  by (simp add: sample_events_def sample_send dispatch_end_def sample_sent_def flip: sample_connected_def)

lemma sample_wire_member:
  "(7, snd (hd (wire (snd sample_sent)))) \<in> set (wire (snd (run cm_step sample_events (cm_init q_empty 30 10))))"
  unfolding sample_run using sample_sent_wire(1) by (cases "wire (snd sample_sent)") auto

theorem wire_commands_signed_and_allowed_witness:
  "(\<exists>(pem :: string) sig. (Inr (CHR ''S'' # message_canonical (snd (hd (wire (snd sample_sent))))) :: string res) = Inr sig \<and>
       (sig \<noteq> [] \<longrightarrow> getv (snd (hd (wire (snd sample_sent)))) ''signature'' = JStr sig)) \<and>
   (\<exists>c. getv (snd (hd (wire (snd sample_sent)))) ''command'' = JStr c \<and> (c \<in> set DEFAULT_DISABLED \<longrightarrow> c \<in> set []))"
proof -
  have "\<forall>i \<in> set sample_events. env_ok (\<lambda>k t. Inr (CHR ''S'' # t)) [] (fst i)"
    using sample_env_ok by (simp add: sample_events_def)
  from wire_commands_signed_and_allowed [OF q_empty_ok this sample_wire_member] show ?thesis .
qed

text \<open>
  C18: When an agent reconnects, every record of the queue is treated by its state and its
  TTL: the agent's terminal records and all records of other agents stay as they are, its
  expired ones become expired, its unexpired pending ones are sent once more or stay
  pending, and those sent, acked or running in an earlier session are left alone.
\<close>

theorem reconnect_treats_each_record:
  assumes "queue_inv (queue m)" "dispatch_pending env a m = (Inr (), m')"
    and "map_of (active m) a \<noteq> None" "q_get k (queue m) = Some r"
  shows "\<exists>r'. q_get k (queue m') = Some r' \<and>
    (if agent_id r \<noteq> a \<or> state r \<in> TERMINAL_STATES then r' = r
     else (case is_record_expired (now_us env) r of
         Inl e \<Rightarrow> False
       | Inr True \<Rightarrow> state r' = CMD_EXPIRED
       | Inr False \<Rightarrow> r' = r \<or> state r = CMD_PENDING \<and> state r' = CMD_SENT \<and> attempts r' = attempts r + 1))"
  using dispatch_pending_effect [OF assms] unfolding redispatched_def
  by (cases "agent_id r = a") simp_all

definition sample_record :: cmd_record where
  "sample_record = new_record ''m1'' ''a1'' ''ping'' [] ''u'' (isoformat 0) (isoformat 30000000)"

definition sample_expired :: conn_manager where
  "sample_expired = sample_connected
     \<lparr>queue := add_id ''a1'' ''m1'' (q_empty\<lparr>records := dset ''m1'' sample_record (records q_empty)\<rparr>)\<rparr>"

definition late_env :: server_env where
  "late_env = sample_env\<lparr>now_us := 31000000\<rparr>"

lemma sample_record_simps [simp]:
  "message_id sample_record = ''m1''" "agent_id sample_record = ''a1''" "state sample_record = CMD_PENDING"
  "expires_at sample_record = isoformat 30000000"
  by (simp_all add: sample_record_def new_record_def)

lemma sample_active: "map_of (active sample_connected) ''a1'' = Some 7"
proof -
  have "strip ''a1'' = ''a1''" by code_simp
  then show ?thesis by (simp add: sample_connected_def register_connection_def Let_def)
qed

lemma sample_expired_queue:
  "queue_inv (queue sample_expired)" "map_of (active sample_expired) ''a1'' = Some 7"
  "q_get ''m1'' (queue sample_expired) = Some sample_record"
proof -
  have "q_get ''m1'' q_empty = None" by (simp add: q_empty_def q_get_def)
  then show "queue_inv (queue sample_expired)"
    using queue_inv_put [OF q_empty_inv(1), of sample_record "''m1''"] by (simp add: sample_expired_def)
qed (simp_all add: sample_expired_def sample_active)

lemma sample_redispatch: "fst (dispatch_pending late_env ''a1'' sample_expired) = Inr ()"
proof -
  have "agent_ids (queue sample_expired) ''a1'' = [''m1'']"
    by (simp add: sample_expired_def) (simp add: agent_ids_def q_empty_def)
  then have l: "list_for_agent ''a1'' (queue sample_expired) = Inr [sample_record]"
    using sample_expired_queue(3) by (simp add: list_for_agent_def)
  have "is_record_expired 31000000 sample_record = Inr True"
    using is_expired_isoformat [of 30000000 31000000] by (simp add: is_record_expired_def year_bounds)
  then show ?thesis
    using sample_expired_queue(2)
    by (simp add: dispatch_pending_def non_terminal_for_def l dispatch_one_def late_env_def sample_env_def)
qed

theorem reconnect_treats_each_record_witness:
  "\<exists>r'. q_get ''m1'' (queue (snd (dispatch_pending late_env ''a1'' sample_expired))) = Some r' \<and>
    (if agent_id sample_record \<noteq> ''a1'' \<or> state sample_record \<in> TERMINAL_STATES then r' = sample_record
     else (case is_record_expired (now_us late_env) sample_record of
         Inl e \<Rightarrow> False
       | Inr True \<Rightarrow> state r' = CMD_EXPIRED
       | Inr False \<Rightarrow> r' = sample_record
           \<or> state sample_record = CMD_PENDING \<and> state r' = CMD_SENT \<and> attempts r' = attempts sample_record + 1))"
  by (rule reconnect_treats_each_record [OF sample_expired_queue(1) prod_eqI _ sample_expired_queue(3)])
    (simp_all add: sample_redispatch sample_expired_queue(2))

text \<open>
  A reconnection sends, on the socket of that agent only and at most once each, requests
  for pending commands whose TTL has not passed, in issue order.
\<close>

theorem reconnect_sends_pending_once:
  assumes "queue_ok hr (queue m)" "dispatch_pending env a m = (res, m')"
    and "map_of (active m) a = Some ws" "list_for_agent a (queue m) = Inr rs"
  shows "\<exists>new. wire m' = wire m @ new \<and> (\<forall>p \<in> set new. fst p = ws) \<and>
    subseq (map (\<lambda>p. getv (snd p) ''message_id'') new)
           (map (\<lambda>r. JStr (message_id r))
              (filter (\<lambda>r. state r = CMD_PENDING \<and> is_record_expired (now_us env) r = Inr False) rs))"
  using dispatch_pending_wire [OF assms] unfolding dispatchable_def by simp

theorem reconnect_sends_pending_once_witness:
  "\<exists>new. wire (snd (dispatch_pending late_env ''a1'' sample_connected)) = wire sample_connected @ new
    \<and> (\<forall>p \<in> set new. fst p = 7) \<and>
    subseq (map (\<lambda>p. getv (snd p) ''message_id'') new)
           (map (\<lambda>r. JStr (message_id r))
              (filter (\<lambda>r. state r = CMD_PENDING \<and> is_record_expired (now_us late_env) r = Inr False) []))"
proof (rule reconnect_sends_pending_once [OF _ prod.collapse [symmetric]])
  have q: "queue sample_connected = q_empty"
    by (simp add: sample_connected_def register_connection_def cm_init_def Let_def)
  show "queue_ok [] (queue sample_connected)" unfolding q by (rule q_empty_ok)
  show "list_for_agent ''a1'' (queue sample_connected) = Inr []"
    unfolding q by (simp add: list_for_agent_def agent_ids_def q_empty_def)
qed (rule sample_active)

section \<open>The REST call and its races\<close>

lemma send_enqueue_sent:
  assumes "send_enqueue env a rv ps u t m = (Sent mid tn tt, m')"
  shows "mid \<in> set (pending_requests m')" "map_of (futures m') mid = Some Waiting" "tn = rv" "tt = t"
proof -
  let ?u = "if u = [] then ''api:user'' else u"
  obtain x q where e: "enqueue (writable env) (now_us env) (fresh_id env) a rv ps ?u (JFloat t) None (queue m) = (x, q)"
    by fastforce
  show "mid \<in> set (pending_requests m')" "map_of (futures m') mid = Some Waiting" "tn = rv" "tt = t"
  proof -
    obtain r where x: "x = Inr r" using assms e by (cases x) (simp_all add: send_enqueue_def)
    obtain y m2 where d: "dispatch_begin env a r True (m\<lparr>queue := q\<rparr>) = (y, m2)" by fastforce
    have "y = Inr True \<and> m' = m2 \<and> mid = message_id r \<and> tn = rv \<and> tt = t"
      using assms by (simp add: send_enqueue_def e x d split: sum.splits bool.splits)
    with dispatch_begin_fields(5) [OF d] show "mid \<in> set (pending_requests m')"
      "map_of (futures m') mid = Some Waiting" "tn = rv" "tt = t" by simp_all
  qed
qed

lemma send_command_sent:
  assumes "send_command env a c ps timeout u m = (Sent mid tn tt, m')"
  shows "mid \<in> set (pending_requests m')" "map_of (futures m') mid = Some Waiting" "tn = resolve_command c"
proof -
  obtain m0 t where "send_enqueue env a (resolve_command c) ps u t m0 = (Sent mid tn tt, m')"
    using assms
    by (auto simp: send_command_def http_def Let_def split: if_splits prod.splits sum.splits)
  from send_enqueue_sent [OF this] show "mid \<in> set (pending_requests m')"
    "map_of (futures m') mid = Some Waiting" "tn = resolve_command c" by simp_all
qed

lemma handle_response_terminal:
  assumes "getv data ''status'' = JStr s" "map_of RESP_TO_STATE s = Some st" "st \<in> TERMINAL_STATES"
    "mid \<in> set (pending_requests m)" "map_of (futures m) mid = Some Waiting" "msg_id data = mid"
  shows "map_of (futures (snd (handle_response env data m))) mid = Some (Resolved data)"
    "mid \<notin> set (pending_requests (snd (handle_response env data m)))"
  using assms by (simp_all add: handle_response_def resp_state_def Let_def)

lemma dispatch_end_fields [simp]:
  "pending_requests (dispatch_end env mid m) = pending_requests m"
  "futures (dispatch_end env mid m) = futures m"
  by (simp_all add: dispatch_end_def)

lemma message_response:
  assumes "getv data ''type'' = JStr TYPE_COMMAND_RESPONSE"
  shows "snd (handle_agent_message env a (Some (JObj data)) m) = snd (handle_response env data m)"
  using assms by (simp add: handle_agent_message_def case_prod_unfold)

text \<open>
  A REST call whose command went out, and whose terminal response the server handles
  after the sending finished, returns that response: status, result and error are the
  agent's, and \<open>ok\<close> is exactly the status \<open>success\<close>.
\<close>

theorem rest_call_returns_response:
  assumes "send_command env a c ps timeout u m = (Sent mid tn t, m1)"
    and "getv data ''type'' = JStr TYPE_COMMAND_RESPONSE" "msg_id data = mid"
    and "getv data ''status'' = JStr s" "map_of RESP_TO_STATE s = Some st" "st \<in> TERMINAL_STATES"
    and "m2 = dispatch_end env1 mid m1"
  shows "fst (await_future mid m2) = None \<and>
    fst (send_finish mid tn (snd (handle_agent_message env2 b (Some (JObj data)) m2))) =
      Answered [(''id'', JStr mid), (''ok'', JBool (s = STATUS_SUCCESS)), (''tool'', JStr (resolve_command c)),
        (''result'', getv data ''result''), (''error'', getv data ''error''), (''status'', JStr s)]"
proof -
  note s = send_command_sent [OF assms(1)]
  have w: "mid \<in> set (pending_requests m2)" "map_of (futures m2) mid = Some Waiting"
    using s by (simp_all add: assms(7))
  note h = handle_response_terminal [OF assms(4-6) w assms(3), of env2]
  show ?thesis
    using w(1) h s(3) assms(4)
    by (simp add: await_future_def send_finish_def message_response [OF assms(2)] normalize_response_def)
qed

definition sample_response :: dict where
  "sample_response = [(''type'', JStr TYPE_COMMAND_RESPONSE), (''message_id'', JStr ''m1''),
     (''status'', JStr STATUS_SUCCESS), (''result'', JInt 1)]"

lemma sample_response_facts:
  "getv sample_response ''type'' = JStr TYPE_COMMAND_RESPONSE" "msg_id sample_response = ''m1''"
  "getv sample_response ''status'' = JStr STATUS_SUCCESS" "map_of RESP_TO_STATE STATUS_SUCCESS = Some CMD_COMPLETED"
  by (simp_all add: sample_response_def msg_id_def RESP_TO_STATE_def)

lemma sample_send_sent:
  "send_command sample_env ''a1'' ''ping'' [] (JInt 30) [] sample_connected = (Sent ''m1'' ''ping'' (Fin 30), snd sample_sent)"
  using sample_sent_wire(2) by (simp add: sample_send prod_eq_iff flip: sample_sent_def)

lemma sample_sent_queued: "q_get ''m1'' (queue (snd sample_sent)) \<noteq> None"
  by code_simp

theorem rest_call_returns_response_witness:
  "fst (await_future ''m1'' (dispatch_end sample_env ''m1'' (snd sample_sent))) = None \<and>
    fst (send_finish ''m1'' ''ping''
      (snd (handle_agent_message sample_env ''a1'' (Some (JObj sample_response)) (dispatch_end sample_env ''m1'' (snd sample_sent))))) =
      Answered [(''id'', JStr ''m1''), (''ok'', JBool (STATUS_SUCCESS = STATUS_SUCCESS)), (''tool'', JStr (resolve_command ''ping'')),
        (''result'', getv sample_response ''result''), (''error'', getv sample_response ''error''), (''status'', JStr STATUS_SUCCESS)]"
  by (rule rest_call_returns_response [OF sample_send_sent sample_response_facts _ refl]) simp

text \<open>
  If the agent's terminal response is handled before the coroutine resumes after
  \<open>send_text\<close>, the record ends in \<open>sent\<close> although its result is stored, and the
  REST call fails with a \<open>KeyError\<close> instead of returning it.
\<close>

theorem early_response_is_lost:
  assumes "send_command env a c ps timeout u m = (Sent mid tn t, m1)" "q_get mid (queue m1) = Some r"
    and "getv data ''type'' = JStr TYPE_COMMAND_RESPONSE" "msg_id data = mid"
    and "getv data ''status'' = JStr s" "map_of RESP_TO_STATE s = Some st" "st \<in> TERMINAL_STATES"
    and "m2 = dispatch_end env2 mid (snd (handle_agent_message env1 a (Some (JObj data)) m1))"
  shows "fst (await_future mid m2) = Some (Raised KeyError) \<and>
    map_option state (q_get mid (queue m2)) = Some CMD_SENT"
proof -
  note s = send_command_sent [OF assms(1)]
  note h = handle_response_terminal [OF assms(5-7) s(1,2) assms(4), of env1]
  have "fst (await_future mid m2) = Some (Raised KeyError)"
    using h(2) by (simp add: await_future_def assms(8) message_response [OF assms(3)])
  moreover have "map_option state (q_get mid (queue m2)) = Some CMD_SENT"
    using assms(2,4,5-7)
    by (simp add: assms(8) message_response [OF assms(3)] handle_response_def resp_state_def dispatch_end_def
        q_get_mark Let_def)
  ultimately show ?thesis by simp
qed

theorem early_response_is_lost_witness:
  "fst (await_future ''m1'' (dispatch_end sample_env ''m1''
      (snd (handle_agent_message sample_env ''a1'' (Some (JObj sample_response)) (snd sample_sent))))) = Some (Raised KeyError) \<and>
    map_option state (q_get ''m1'' (queue (dispatch_end sample_env ''m1''
      (snd (handle_agent_message sample_env ''a1'' (Some (JObj sample_response)) (snd sample_sent)))))) = Some CMD_SENT"
proof -
  obtain r where "q_get ''m1'' (queue (snd sample_sent)) = Some r"
    using sample_sent_queued by auto
  then show ?thesis
    by (rule early_response_is_lost [OF sample_send_sent _ sample_response_facts _ refl]) simp
qed

section \<open>What the handlers do not check\<close>

text \<open>
  The handler of agent messages never uses the identity of the sender for the queue:
  any connected agent that knows a message id reports the outcome of another agent's command.
\<close>

theorem sender_identity_ignored:
  "queue (snd (handle_agent_message env a p m)) = queue (snd (handle_agent_message env b p m))"
  by (simp add: handle_agent_message_def handle_heartbeat_def case_prod_unfold split: option.split json.split)

text \<open>
  C39: An acknowledgement overwrites any state: a command that completed, failed, expired or
  was rejected becomes \<open>acked\<close> again, and the next reconnection after its TTL marks it
  \<open>expired\<close>.
\<close>

theorem late_ack_reopens_command:
  assumes "queue_inv (queue m)" "q_get (msg_id data) (queue m) = Some r"
    and "getv data ''type'' = JStr TYPE_COMMAND_ACK" "map_of (active m) (agent_id r) \<noteq> None"
    and "m1 = snd (handle_agent_message env b (Some (JObj data)) m)"
    and "is_record_expired (now_us env') r = Inr True" "dispatch_pending env' (agent_id r) m1 = (Inr (), m2)"
  shows "q_get (msg_id data) (queue m1) = Some (r\<lparr>state := CMD_ACKED\<rparr>) \<and>
    (\<exists>r'. q_get (msg_id data) (queue m2) = Some r' \<and> state r' = CMD_EXPIRED)"
proof -
  have m1: "m1 = handle_ack env data m" using assms(3,5) by (simp add: handle_agent_message_def)
  have q1: "q_get (msg_id data) (queue m1) = Some (r\<lparr>state := CMD_ACKED\<rparr>)"
    using assms(2) by (simp add: m1 handle_ack_def q_get_mark)
  have "queue_inv (queue m1)" using assms(1) by (simp add: m1 handle_ack_def mark_inv keeps_identity_id)
  moreover have "map_of (active m1) (agent_id r) \<noteq> None" using assms(4) by (simp add: m1 handle_ack_def)
  ultimately obtain r' where "q_get (msg_id data) (queue m2) = Some r'"
    "redispatched (now_us env') (r\<lparr>state := CMD_ACKED\<rparr>) r'"
    using dispatch_pending_effect [OF _ assms(7) _ q1] by auto
  with q1 assms(6) show ?thesis by (simp add: redispatched_def is_record_expired_def)
qed

definition sample_ack :: dict where
  "sample_ack = [(''type'', JStr TYPE_COMMAND_ACK), (''message_id'', JStr ''m1'')]"

definition sample_completed :: conn_manager where
  "sample_completed = sample_expired\<lparr>queue := snd (mark True ''m1'' CMD_COMPLETED (\<lambda>r. r) (queue sample_expired))\<rparr>"

theorem late_ack_reopens_command_witness:
  "q_get (msg_id sample_ack) (queue (snd (handle_agent_message sample_env ''a1'' (Some (JObj sample_ack)) sample_completed)))
     = Some (sample_record\<lparr>state := CMD_COMPLETED\<rparr>\<lparr>state := CMD_ACKED\<rparr>) \<and>
   (\<exists>r'. q_get (msg_id sample_ack) (queue (snd (dispatch_pending late_env (agent_id (sample_record\<lparr>state := CMD_COMPLETED\<rparr>))
        (snd (handle_agent_message sample_env ''a1'' (Some (JObj sample_ack)) sample_completed))))) = Some r'
      \<and> state r' = CMD_EXPIRED)"
proof (rule late_ack_reopens_command [OF _ _ _ _ refl])
  have id: "msg_id sample_ack = ''m1''" by (simp add: sample_ack_def msg_id_def)
  show "queue_inv (queue sample_completed)"
    using sample_expired_queue(1) by (simp add: sample_completed_def mark_inv keeps_identity_id)
  show "q_get (msg_id sample_ack) (queue sample_completed) = Some (sample_record\<lparr>state := CMD_COMPLETED\<rparr>)"
    using sample_expired_queue(3) by (simp add: sample_completed_def q_get_mark id)
  show "getv sample_ack ''type'' = JStr TYPE_COMMAND_ACK" by (simp add: sample_ack_def)
  show "map_of (active sample_completed) (agent_id (sample_record\<lparr>state := CMD_COMPLETED\<rparr>)) \<noteq> None"
    using sample_expired_queue(2) by (simp add: sample_completed_def)
  show exp: "is_record_expired (now_us late_env) (sample_record\<lparr>state := CMD_COMPLETED\<rparr>) = Inr True"
    using is_expired_isoformat [of 30000000 31000000]
    by (simp add: is_record_expired_def year_bounds late_env_def)
  let ?m1 = "snd (handle_agent_message sample_env ''a1'' (Some (JObj sample_ack)) sample_completed)"
  have m1: "?m1 = handle_ack sample_env sample_ack sample_completed"
    by (simp add: handle_agent_message_def sample_ack_def)
  have m1q: "queue ?m1 = snd (mark True ''m1'' CMD_ACKED (\<lambda>r. r) (queue sample_completed))"
    unfolding m1 by (simp add: handle_ack_def id) (simp add: sample_env_def)
  have g: "q_get ''m1'' (queue ?m1) = Some (sample_record\<lparr>state := CMD_ACKED\<rparr>)"
    unfolding m1q using sample_expired_queue(3) by (simp add: q_get_mark sample_completed_def)
  have "agent_ids (queue ?m1) ''a1'' = [''m1'']"
  proof -
    have "agent_ids (snd (mark w k st f q)) a = agent_ids q a" for w k st f q a
      by (simp add: mark_def Let_def split: option.split)
    then show ?thesis
      unfolding m1q by (simp add: sample_completed_def sample_expired_def) (simp add: agent_ids_def q_empty_def)
  qed
  then have l: "list_for_agent ''a1'' (queue ?m1) = Inr [sample_record\<lparr>state := CMD_ACKED\<rparr>]"
    using g by (simp add: list_for_agent_def)
  have "is_record_expired 31000000 (sample_record\<lparr>state := CMD_ACKED\<rparr>) = Inr True"
    using exp by (simp add: is_record_expired_def late_env_def)
  moreover have "map_of (active ?m1) ''a1'' = Some 7"
    unfolding m1 using sample_expired_queue(2) by (simp add: handle_ack_def sample_completed_def)
  moreover have "now_us late_env = 31000000" by (simp add: late_env_def)
  ultimately have "fst (dispatch_pending late_env ''a1'' ?m1) = Inr ()"
    by (simp add: dispatch_pending_def non_terminal_for_def l dispatch_one_def)
  then show "dispatch_pending late_env (agent_id (sample_record\<lparr>state := CMD_COMPLETED\<rparr>)) ?m1
      = (Inr (), snd (dispatch_pending late_env (agent_id (sample_record\<lparr>state := CMD_COMPLETED\<rparr>)) ?m1))"
    by (simp add: prod_eq_iff)
qed

section \<open>Liveness of sessions\<close>

lemma last_activity_disconnect: "a \<noteq> b \<Longrightarrow> last_activity (disconnect b m) a = last_activity m a"
  by (simp add: last_activity_def disconnect_def)

lemma active_disconnect: "map_of (active (disconnect b m)) a = (if a = b then None else map_of (active m) a)"
  by (simp add: disconnect_def)

lemma online_disconnect:
  "is_agent_online env (disconnect b m) a \<longleftrightarrow> a \<noteq> b \<and> is_agent_online env m a"
  by (cases "a = b") (simp_all add: is_agent_online_def active_disconnect last_activity_disconnect
      split: option.split)

lemma prune_fold:
  "fold (\<lambda>a (removed, m). if is_agent_online env m a then (removed, m) else (removed @ [a], disconnect a m)) xs (ys, m) =
     (ys @ filter (\<lambda>a. \<not> is_agent_online env m a) xs,
      fold disconnect (filter (\<lambda>a. \<not> is_agent_online env m a) xs) m)"
proof (induction xs arbitrary: ys m)
  case (Cons x xs)
  have "\<not> is_agent_online env m x \<Longrightarrow> is_agent_online env (disconnect x m) a = is_agent_online env m a" for a
    by (auto simp: online_disconnect)
  then show ?case by (simp add: Cons.IH)
qed simp

lemma fold_disconnect:
  "map_of (active (fold disconnect xs m)) a = (if a \<in> set xs then None else map_of (active m) a)"
  "is_agent_online env (fold disconnect xs m) a \<longleftrightarrow> a \<notin> set xs \<and> is_agent_online env m a"
  by (induction xs arbitrary: m) (auto simp: online_disconnect, auto simp: disconnect_def)

text \<open>
  Pruning removes exactly the sessions that are not online and reports them: afterwards
  every remaining session is online and the online ones kept their sockets.
\<close>

theorem prune_removes_exactly_stale:
  "fst (prune_stale_connections env m) = filter (\<lambda>a. \<not> is_agent_online env m a) (map fst (active m)) \<and>
   map_of (active (snd (prune_stale_connections env m))) a =
     (if is_agent_online env m a then map_of (active m) a else None) \<and>
   is_agent_online env (snd (prune_stale_connections env m)) a = is_agent_online env m a"
proof -
  have none: "a \<notin> fst ` set (active m) \<Longrightarrow> map_of (active m) a = None \<and> \<not> is_agent_online env m a"
    by (simp add: is_agent_online_def map_of_eq_None_iff [THEN iffD2])
  show ?thesis
    unfolding prune_stale_connections_def prune_fold using none
    by (auto simp: fold_disconnect)
qed

text \<open>
  After an agent reconnected on a new socket, the clean-up of its old session removes
  the new one: the agent is offline for the server although the new socket is connected.
\<close>

theorem stale_cleanup_drops_new_session:
  assumes "register_connection env ws a n pk t ip m = (Inr b, m1)"
    and "register_connection env' ws' a n' pk' t' ip' m1 = (Inr b', m2)"
  shows "map_of (active m2) b = Some ws' \<and> \<not> is_agent_online env'' (disconnect b m2) b"
  using assms by (auto simp: register_connection_def Let_def online_disconnect split: if_splits)

theorem stale_cleanup_drops_new_session_witness:
  "map_of (active (snd (register_connection sample_env 8 ''a1'' ''host'' JNull [] [] sample_connected))) ''a1'' = Some 8 \<and>
   \<not> is_agent_online sample_env (disconnect ''a1'' (snd (register_connection sample_env 8 ''a1'' ''host'' JNull [] [] sample_connected))) ''a1''"
proof (rule stale_cleanup_drops_new_session)
  have s: "strip ''a1'' = ''a1''" by code_simp
  show "register_connection sample_env 7 ''a1'' ''host'' JNull [] [] (cm_init q_empty 30 10) = (Inr ''a1'', sample_connected)"
    by (simp add: sample_connected_def register_connection_def s Let_def)
  show "register_connection sample_env 8 ''a1'' ''host'' JNull [] [] sample_connected =
     (Inr ''a1'', snd (register_connection sample_env 8 ''a1'' ''host'' JNull [] [] sample_connected))"
    by (simp add: register_connection_def s Let_def)
qed

end
