(* ===== verification/Telemetry_Buffer.thy ===== *)
theory Telemetry_Buffer
  imports Json_Lines Iso_Time
begin

text \<open>
  The disk buffer of telemetry, \<^verbatim>\<open>colsoft_tools/telemetry_buffer.py\<close>: JSONL files,
  a queue of files with a read position each, and a state file. A file is its lines and its
  modification time; a read position counts lines instead of bytes, and \<open>line_bytes\<close> gives
  the size of a line on disk. The clock, the time stamp of new file names and the success of
  writes are inputs.
\<close>

section \<open>State\<close>

record buf_conf =
  dir_path :: string
  max_events :: int
  max_age_days :: pyfloat
  max_file_bytes :: int
  max_total_bytes :: int
  line_bytes :: "fline \<Rightarrow> int"

record io =
  now_s :: rat
  ts_text :: string
  stamp :: nat
  append_ok :: bool
  rename_ok :: bool
  state_ok :: bool

type_synonym files = "(string \<times> fline list \<times> rat) list"

record buffer =
  files :: files
  fqueue :: "(string \<times> nat) list"
  pending :: int
  state_file :: "json option"

definition buf_path :: "buf_conf \<Rightarrow> string \<Rightarrow> string" where
  "buf_path c name = dir_path c @ ''/'' @ name"

definition active_file :: "buf_conf \<Rightarrow> string" where
  "active_file c = buf_path c ''buffer.jsonl''"

definition conf_of :: "(fline \<Rightarrow> int) \<Rightarrow> dict \<Rightarrow> buf_conf res" where
  \<comment> \<open>\<open>buffer_from_config\<close> and the constructor's clamping; \<open>tb\<close> the \<open>telemetry_buffer\<close> section\<close>
  "conf_of bytes tb =
     res_bind (if getv tb ''max_events'' \<in> {JNull, JStr []} then Inr 0 else py_int (getv tb ''max_events'')) (\<lambda>me.
     res_bind (py_float (py_or (getv tb ''max_age_days'') (JFloat (Fin 7)))) (\<lambda>age.
     res_bind (py_int (py_or (getv tb ''max_file_bytes'') (JInt 8388608))) (\<lambda>mf.
     res_bind (py_int (py_or (getv tb ''max_total_bytes'') (JInt 1073741824))) (\<lambda>mt.
     Inr \<lparr>dir_path = str_or (getv tb ''dir'') ''results_logs/telemetry_buffer'',
          max_events = max 0 me, max_age_days = fmax (Fin 1) age, max_file_bytes = max 1024 mf,
          max_total_bytes = max (max 1024 mf) mt, line_bytes = bytes\<rparr>))))"

definition lines_of :: "files \<Rightarrow> string \<Rightarrow> fline list" where
  "lines_of fs p = (case map_of fs p of None \<Rightarrow> [] | Some (ls, t) \<Rightarrow> ls)"

definition file_bytes :: "buf_conf \<Rightarrow> fline list \<Rightarrow> int" where
  "file_bytes c ls = sum_list (map (line_bytes c) ls)"

definition count_lines :: "files \<Rightarrow> string \<Rightarrow> nat \<Rightarrow> int" where
  "count_lines fs p skip = int (length (filter (\<lambda>l. l \<noteq> Blank) (drop skip (lines_of fs p))))"

fun parse_line :: "fline \<Rightarrow> dict option" where
  "parse_line (JLine (JObj d)) = Some d"
| "parse_line _ = None"

section \<open>The state file\<close>

definition state_payload :: "buffer \<Rightarrow> json" where
  "state_payload b = JObj
     [(''queue'', JList (map (\<lambda>(p, off). JObj [(''path'', JStr p), (''offset'', JInt (int off))]) (fqueue b))),
      (''pending'', JInt (pending b))]"

definition write_state :: "io \<Rightarrow> buffer \<Rightarrow> buffer" where
  "write_state e b = (if state_ok e then b\<lparr>state_file := Some (state_payload b)\<rparr> else b)"

definition offset_of :: "json \<Rightarrow> nat" where
  "offset_of v = (case py_int (py_or v (JInt 0)) of
      Inr i \<Rightarrow> nat (max 0 i)
    | Inl e \<Rightarrow> 0)"

definition load_item :: "files \<Rightarrow> json \<Rightarrow> (string \<times> nat) list" where
  "load_item fs item = (case item of
      JObj d \<Rightarrow>
        (case getv d ''path'' of
           JStr p \<Rightarrow>
             (if has p fs then
                (let off = offset_of (getv d ''offset'') in
                 [(p, if off > length (lines_of fs p) then 0 else off)])
              else [])
         | _ \<Rightarrow> [])
    | _ \<Rightarrow> [])"

fun load_files :: "files \<Rightarrow> nat \<Rightarrow> json list \<Rightarrow> (string \<times> nat) list" where
  \<comment> \<open>the older format: the offset belongs to the first entry\<close>
  "load_files fs off [] = []"
| "load_files fs off (JStr p # vs) = (if has p fs then (p, off) # load_files fs 0 vs else load_files fs 0 vs)"
| "load_files fs off (v # vs) = load_files fs 0 vs"

definition in_dir :: "buf_conf \<Rightarrow> string \<Rightarrow> string option" where
  "in_dir c p = (if startswith p (buf_path c []) then Some (drop (length (buf_path c [])) p) else None)"

definition discover_files :: "buf_conf \<Rightarrow> files \<Rightarrow> string list" where
  "discover_files c fs =
     (let names = filter (\<lambda>n. endswith n ''.jsonl'') (List.map_filter (in_dir c) (map fst fs));
          restores = sort (filter (\<lambda>n. startswith n ''buffer.restore.'') names);
          rotated = sort (filter (\<lambda>n. startswith n ''buffer.'' \<and> \<not> startswith n ''buffer.restore.''
                       \<and> n \<noteq> ''buffer.jsonl'') names);
          ordered = restores @ rotated
            @ (if ''buffer.jsonl'' \<in> set names then [''buffer.jsonl''] else []) in
      map (buf_path c) ordered)"

definition load_queue :: "buf_conf \<Rightarrow> files \<Rightarrow> json option \<Rightarrow> (string \<times> nat) list" where
  "load_queue c fs st =
     (let q = (case st of
           Some (JObj d) \<Rightarrow>
             (case getv d ''queue'' of
                JList items \<Rightarrow> concat (map (load_item fs) items)
              | _ \<Rightarrow> (case getv d ''files'' of
                  JList ps \<Rightarrow> load_files fs (offset_of (getv d ''offset'')) ps
                | _ \<Rightarrow> []))
         | _ \<Rightarrow> []) in
      if q = [] then map (\<lambda>p. (p, 0)) (discover_files c fs) else q)"

definition load_state :: "buf_conf \<Rightarrow> io \<Rightarrow> files \<Rightarrow> json option \<Rightarrow> buffer" where
  "load_state c e fs st =
     (let q = load_queue c fs st in
      write_state e \<lparr>files = fs, fqueue = q,
        pending = sum_list (map (\<lambda>(p, off). count_lines fs p off) q), state_file = st\<rparr>)"

section \<open>New file names\<close>

definition numbered :: "buf_conf \<Rightarrow> string \<Rightarrow> nat \<Rightarrow> nat \<Rightarrow> string" where
  "numbered c stem ts n =
     buf_path c (stem @ nat_digits ts @ (if n = 0 then [] else ''-'' @ nat_digits n) @ ''.jsonl'')"

lemma nat_digits_inj: "nat_digits m = nat_digits n \<Longrightarrow> m = n"
  by (metis digits_val_nat_digits)

lemma numbered_inj: "inj (numbered c stem ts)"
proof (rule injI)
  fix m n assume "numbered c stem ts m = numbered c stem ts n"
  then show "m = n"
    by (auto simp: numbered_def buf_path_def split: if_splits dest: nat_digits_inj)
qed

text \<open>The search for a name that does not exist yet ends: finitely many names are taken.\<close>

function free_number :: "buf_conf \<Rightarrow> string \<Rightarrow> nat \<Rightarrow> string list \<Rightarrow> nat \<Rightarrow> nat" where
  "free_number c stem ts taken n =
     (if numbered c stem ts n \<in> set taken then free_number c stem ts taken (Suc n) else n)"
  by auto

termination free_number
proof (relation "measure (\<lambda>(c, stem, ts, taken, n). card (set taken \<inter> numbered c stem ts ` {n..}))")
  fix c stem ts taken n
  assume t: "numbered c stem ts n \<in> set taken"
  have "numbered c stem ts n \<notin> numbered c stem ts ` {Suc n..}"
    using numbered_inj [of c stem ts] by (auto dest: injD)
  then have "numbered c stem ts n \<notin> set taken \<inter> numbered c stem ts ` {Suc n..}" by simp
  moreover have "numbered c stem ts n \<in> set taken \<inter> numbered c stem ts ` {n..}" using t by simp
  moreover have "set taken \<inter> numbered c stem ts ` {Suc n..} \<subseteq> set taken \<inter> numbered c stem ts ` {n..}"
    by (intro Int_mono image_mono) auto
  ultimately have "set taken \<inter> numbered c stem ts ` {Suc n..} \<subset> set taken \<inter> numbered c stem ts ` {n..}"
    by blast
  then show "((c, stem, ts, taken, Suc n), c, stem, ts, taken, n)
     \<in> measure (\<lambda>(c, stem, ts, taken, n). card (set taken \<inter> numbered c stem ts ` {n..}))"
    by (simp add: psubset_card_mono)
qed simp

declare free_number.simps [simp del]

definition free_name :: "buf_conf \<Rightarrow> string \<Rightarrow> nat \<Rightarrow> files \<Rightarrow> string" where
  "free_name c stem ts fs = numbered c stem ts (free_number c stem ts (map fst fs) 0)"

lemma free_number_not_taken: "numbered c stem ts (free_number c stem ts taken n) \<notin> set taken"
  by (induction c stem ts taken n rule: free_number.induct)
    (subst free_number.simps, simp)

lemma free_name_fresh: "\<not> has (free_name c stem ts fs) fs"
  using free_number_not_taken [of c stem ts "map fst fs" 0] by (simp add: free_name_def has_def)

section \<open>Retention\<close>

definition total_bytes :: "buf_conf \<Rightarrow> buffer \<Rightarrow> int" where
  "total_bytes c b = sum_list (map (\<lambda>(p, off). file_bytes c (lines_of (files b) p)) (fqueue b))"

definition drop_path :: "string \<Rightarrow> buffer \<Rightarrow> buffer" where
  "drop_path path b = b\<lparr>
     pending := fold (\<lambda>(p, off) n. max 0 (n - count_lines (files b) p off)) (filter (\<lambda>x. fst x = path) (fqueue b)) (pending b),
     fqueue := filter (\<lambda>x. fst x \<noteq> path) (fqueue b),
     files := dpop path (files b)\<rparr>"

fun age_cutoff :: "rat \<Rightarrow> pyfloat \<Rightarrow> pyfloat" where
  \<comment> \<open>\<open>time.time() - self.max_age_days * 86400\<close>\<close>
  "age_cutoff now (Fin d) = Fin (now - d * 86400)"
| "age_cutoff now PInf = NInf"
| "age_cutoff now NInf = PInf"
| "age_cutoff now NaN = NaN"

definition stale :: "buf_conf \<Rightarrow> io \<Rightarrow> files \<Rightarrow> string \<Rightarrow> bool" where
  "stale c e fs p = (case map_of fs p of
      None \<Rightarrow> True
    | Some (ls, t) \<Rightarrow> flt (Fin t) (age_cutoff (now_s e) (max_age_days c)))"

definition prune_pass :: "buf_conf \<Rightarrow> io \<Rightarrow> buffer \<Rightarrow> buffer" where
  \<comment> \<open>one round of the age loop over a snapshot of the queue\<close>
  "prune_pass c e b =
     fold (\<lambda>(p, off) b. if p \<noteq> active_file c \<and> stale c e (files b) p then drop_path p b else b) (fqueue b) b"

function drop_while :: "(buffer \<Rightarrow> bool) \<Rightarrow> buffer \<Rightarrow> buffer" where
  "drop_while over b =
     (if over b \<and> fqueue b \<noteq> [] then drop_while over (drop_path (fst (hd (fqueue b))) b) else b)"
  by auto

lemma drop_path_shorter:
  "fqueue b \<noteq> [] \<Longrightarrow> length (fqueue (drop_path (fst (hd (fqueue b))) b)) < length (fqueue b)"
  by (cases "fqueue b") (simp_all add: drop_path_def less_Suc_eq_le)

termination drop_while
  by (relation "measure (\<lambda>(over, b). length (fqueue b))") (simp_all add: drop_path_shorter)

declare drop_while.simps [simp del]

definition prune :: "buf_conf \<Rightarrow> io \<Rightarrow> buffer \<Rightarrow> buffer" where
  "prune c e b =
     (let b = prune_pass c e b;
          b = drop_while (\<lambda>b. total_bytes c b > max_total_bytes c) b in
      if max_events c > 0 then drop_while (\<lambda>b. pending b > max_events c) b else b)"

definition rotate_if_needed :: "buf_conf \<Rightarrow> io \<Rightarrow> buffer \<Rightarrow> buffer" where
  "rotate_if_needed c e b =
     (case map_of (files b) (active_file c) of
        None \<Rightarrow> b
      | Some (ls, t) \<Rightarrow>
         (if file_bytes c ls < max_file_bytes c \<or> \<not> rename_ok e then b
          else (let r = free_name c ''buffer.'' (stamp e) (files b) in
                b\<lparr>files := dset r (ls, t) (dpop (active_file c) (files b)),
                  fqueue := map (\<lambda>(p, off). (if p = active_file c then r else p, off)) (fqueue b)\<rparr>)))"

section \<open>The operations\<close>

definition append_line :: "buf_conf \<Rightarrow> io \<Rightarrow> dict \<Rightarrow> buffer \<Rightarrow> buffer" where
  "append_line c e ev b =
     (if \<not> append_ok e then b
      else (let b = b\<lparr>files := dset (active_file c) (lines_of (files b) (active_file c) @ [JLine (JObj ev)], now_s e) (files b)\<rparr> in
            if has (active_file c) (fqueue b) then b
            else b\<lparr>fqueue := fqueue b @ [(active_file c, 0)]\<rparr>))"

definition put_record :: "io \<Rightarrow> dict \<Rightarrow> dict" where
  "put_record e event = (if truthy (getv event ''ts'') then event else dset ''ts'' (JStr (ts_text e)) event)"

definition buf_put :: "buf_conf \<Rightarrow> io \<Rightarrow> dict \<Rightarrow> buffer \<Rightarrow> dict \<times> buffer" where
  "buf_put c e event b =
     (let rec = put_record e event;
          b = append_line c e rec b;
          b = b\<lparr>pending := pending b + 1\<rparr> in
      (rec, write_state e (prune c e (rotate_if_needed c e b))))"

fun read_lines :: "nat \<Rightarrow> fline list \<Rightarrow> dict list \<times> nat \<times> bool" where
  \<comment> \<open>events, lines read, whether the end of file was seen\<close>
  "read_lines 0 ls = ([], 0, False)"
| "read_lines (Suc n) [] = ([], 0, True)"
| "read_lines (Suc n) (l # ls) =
     (case parse_line l of
        None \<Rightarrow> (case read_lines (Suc n) ls of (evs, k, eof) \<Rightarrow> (evs, Suc k, eof))
      | Some d \<Rightarrow> (case read_lines n ls of (evs, k, eof) \<Rightarrow> (d # evs, Suc k, eof)))"

definition finish_file :: "buf_conf \<Rightarrow> string \<Rightarrow> files \<Rightarrow> files" where
  \<comment> \<open>a file read to its end is removed; the active one is emptied\<close>
  "finish_file c p fs = (case map_of fs p of
      None \<Rightarrow> fs
    | Some (ls, t) \<Rightarrow> if p = active_file c then dset p ([], t) fs else dpop p fs)"

fun read_front :: "buf_conf \<Rightarrow> nat \<Rightarrow> (string \<times> nat) list \<Rightarrow> files \<Rightarrow> dict list \<times> (string \<times> nat) list \<times> files" where
  "read_front c n [] fs = ([], [], fs)"
| "read_front c n ((p, off) # q) fs =
     (if n = 0 then ([], (p, off) # q, fs)
      else if \<not> has p fs then read_front c n q fs
      else (case read_lines n (drop off (lines_of fs p)) of
          (evs, k, eof) \<Rightarrow>
            if eof then
              (case read_front c (n - length evs) q (finish_file c p fs) of
                 (rest, q', fs') \<Rightarrow> (evs @ rest, q', fs'))
            else (evs, (p, off + k) # q, fs)))"

fun peek_front :: "nat \<Rightarrow> (string \<times> nat) list \<Rightarrow> files \<Rightarrow> dict list" where
  \<comment> \<open>\<open>_read_front\<close> without \<open>consume\<close>\<close>
  "peek_front n [] fs = []"
| "peek_front n ((p, off) # q) fs =
     (if n = 0 \<or> \<not> has p fs then []
      else (let evs = fst (read_lines n (drop off (lines_of fs p))) in
            evs @ peek_front (n - length evs) q fs))"

definition buf_take :: "buf_conf \<Rightarrow> io \<Rightarrow> nat \<Rightarrow> buffer \<Rightarrow> dict list \<times> buffer" where
  "buf_take c e n b =
     (case read_front c n (fqueue b) (files b) of
        (evs, q, fs) \<Rightarrow>
          (evs, write_state e (b\<lparr>fqueue := q, files := fs, pending := max 0 (pending b - int (length evs))\<rparr>)))"

definition buf_pending :: "buffer \<Rightarrow> dict list" where
  "buf_pending b = peek_front 256 (fqueue b) (files b)"

definition buf_count :: "buffer \<Rightarrow> int" where
  "buf_count b = pending b"

definition restore_insert :: "buf_conf \<Rightarrow> io \<Rightarrow> dict list \<Rightarrow> buffer \<Rightarrow> buffer" where
  "restore_insert c e evs b =
     (let p = free_name c ''buffer.restore.'' (stamp e) (files b) in
      b\<lparr>files := dset p (map (JLine \<circ> JObj) evs, now_s e) (files b),
        fqueue := (p, 0) # fqueue b,
        pending := pending b + int (length evs)\<rparr>)"

definition buf_restore :: "buf_conf \<Rightarrow> io \<Rightarrow> dict list \<Rightarrow> buffer \<Rightarrow> buffer" where
  "buf_restore c e evs b =
     (if evs = [] \<or> \<not> append_ok e then b
      else write_state e (prune c e (restore_insert c e evs b)))"

definition buf_clear :: "buffer \<Rightarrow> buffer" where
  "buf_clear b = b\<lparr>files := fold (\<lambda>(p, off). dpop p) (fqueue b) (files b), fqueue := [], pending := 0,
     state_file := None\<rparr>"

section \<open>The buffer as a FIFO\<close>

text \<open>The events still to be delivered, front first.\<close>

definition unread :: "files \<Rightarrow> string \<times> nat \<Rightarrow> dict list" where
  "unread fs x = List.map_filter parse_line (drop (snd x) (lines_of fs (fst x)))"

definition contents :: "buffer \<Rightarrow> dict list" where
  "contents b = concat (map (unread (files b)) (fqueue b))"

text \<open>
  The invariant: every queued file exists and is queued once, no position is past its end,
  and the active file, to which \<open>put\<close> appends, is the last of the queue; when it is
  not queued, it holds nothing.
\<close>

definition paths :: "buffer \<Rightarrow> string list" where
  "paths b = map fst (fqueue b)"

definition buf_inv :: "buf_conf \<Rightarrow> buffer \<Rightarrow> bool" where
  "buf_inv c b \<longleftrightarrow> distinct (paths b) \<and> (\<forall>p \<in> set (paths b). has p (files b)) \<and>
     (\<forall>x \<in> set (fqueue b). snd x \<le> length (lines_of (files b) (fst x))) \<and>
     active_file c \<notin> set (butlast (paths b)) \<and>
     (active_file c \<notin> set (paths b) \<longrightarrow> lines_of (files b) (active_file c) = [])"

lemma lines_of_simps [simp]:
  "lines_of (dset p (ls, t) fs) p' = (if p' = p then ls else lines_of fs p')"
  "lines_of (dpop p fs) p' = (if p' = p then [] else lines_of fs p')"
  by (simp_all add: lines_of_def)

lemma has_dpop [simp]: "has x (dpop k d) \<longleftrightarrow> x \<noteq> k \<and> has x d"
  by (simp add: has_map_of)

lemma unread_other: "lines_of fs' (fst x) = lines_of fs (fst x) \<Longrightarrow> unread fs' x = unread fs x"
  by (simp add: unread_def)

lemma read_lines_spec:
  "case read_lines n ls of (evs, k, eof) \<Rightarrow>
     evs = take n (List.map_filter parse_line ls) \<and>
     List.map_filter parse_line (drop k ls) = drop n (List.map_filter parse_line ls) \<and>
     (if eof then length evs < n \<and> List.map_filter parse_line (drop k ls) = [] else length evs = n) \<and>
     k \<le> length ls"
  by (induction n ls rule: read_lines.induct)
    (auto simp: List.map_filter_simps split: option.splits prod.splits if_splits)

lemma finish_file_lines [simp]: "lines_of (finish_file c p fs) p' = (if p' = p then [] else lines_of fs p')"
  by (auto simp: finish_file_def lines_of_def split: option.splits)

lemma finish_file_has: "p' \<noteq> p \<Longrightarrow> has p' (finish_file c p fs) = has p' fs"
  by (auto simp: finish_file_def split: option.split)

lemma concat_unread_cong:
  "(\<And>x. x \<in> set q \<Longrightarrow> lines_of fs' (fst x) = lines_of fs (fst x)) \<Longrightarrow>
     concat (map (unread fs') q) = concat (map (unread fs) q)"
  by (induction q) (auto simp: unread_def)

text \<open>What reading does: a prefix of the queue is finished and its files emptied.\<close>

definition front_ok :: "nat \<Rightarrow> (string \<times> nat) list \<Rightarrow> files \<Rightarrow> dict list \<times> (string \<times> nat) list \<times> files \<Rightarrow> bool" where
  "front_ok n q fs = (\<lambda>(evs, q', fs').
     evs = take n (concat (map (unread fs) q)) \<and>
     concat (map (unread fs') q') = drop n (concat (map (unread fs) q)) \<and>
     (\<exists>xs. map fst q = xs @ map fst q' \<and>
        (\<forall>p. lines_of fs' p = (if p \<in> set xs then [] else lines_of fs p)) \<and>
        (\<forall>p. p \<notin> set xs \<longrightarrow> has p fs' = has p fs)) \<and>
     ((\<forall>x \<in> set q. snd x \<le> length (lines_of fs (fst x))) \<longrightarrow>
        (\<forall>x \<in> set q'. snd x \<le> length (lines_of fs' (fst x)))))"

lemma read_front_ok:
  "distinct (map fst q) \<Longrightarrow> \<forall>x \<in> set q. has (fst x) fs \<Longrightarrow> front_ok n q fs (read_front c n q fs)"
proof (induction c n q fs rule: read_front.induct)
  case (1 c n fs)
  then show ?case by (simp add: front_ok_def)
next
  case (2 c n p off q fs)
  show ?case
  proof (cases "n = 0")
    case True
    then show ?thesis by (simp add: front_ok_def)
  next
    case n: False
    have p: "has p fs" using "2.prems"(2) by simp
    obtain evs k eof where r: "read_lines n (drop off (lines_of fs p)) = (evs, k, eof)"
      by (cases "read_lines n (drop off (lines_of fs p))") auto
    have rs: "evs = take n (unread fs (p, off))"
      "List.map_filter parse_line (drop (off + k) (lines_of fs p)) = drop n (unread fs (p, off))"
      "if eof then length evs < n \<and> drop n (unread fs (p, off)) = [] else length evs = n"
      "k \<le> length (lines_of fs p) - off"
      using read_lines_spec [of n "drop off (lines_of fs p)"]
      by (auto simp: r unread_def add.commute split: if_splits)
    show ?thesis
    proof (cases eof)
      case False
      then have l: "length evs = n" using rs(3) by simp
      then have "n \<le> length (unread fs (p, off))" using rs(1) by simp
      then show ?thesis using n p r rs(1,2,4) False
        by (simp add: front_ok_def) (simp add: unread_def, linarith)
    next
      case True
      let ?fs = "finish_file c p fs"
      have all: "evs = unread fs (p, off)" using rs(1,3) True by simp
      have tl: "concat (map (unread ?fs) q) = concat (map (unread fs) q)"
        using "2.prems"(1) by (intro concat_unread_cong) force
      have d: "distinct (map fst q)" using "2.prems"(1) by simp
      have h: "\<forall>x \<in> set q. has (fst x) ?fs"
      proof
        fix x assume "x \<in> set q"
        then have "fst x \<noteq> p" "has (fst x) fs" using "2.prems" by auto
        then show "has (fst x) ?fs" by (simp add: finish_file_has)
      qed
      have IH: "front_ok (n - length evs) q ?fs (read_front c (n - length evs) q ?fs)"
        using "2.IH"(2) [OF n _ r [symmetric] refl True d h] p by simp
      obtain rest q' fs' where m: "read_front c (n - length evs) q ?fs = (rest, q', fs')"
        by (cases "read_front c (n - length evs) q ?fs") auto
      from IH obtain xs where xs: "map fst q = xs @ map fst q'"
        "\<forall>p'. lines_of fs' p' = (if p' \<in> set xs then [] else lines_of ?fs p')"
        "\<forall>p'. p' \<notin> set xs \<longrightarrow> has p' fs' = has p' ?fs"
        and c: "rest = take (n - length evs) (concat (map (unread fs) q))"
          "concat (map (unread fs') q') = drop (n - length evs) (concat (map (unread fs) q))"
        and o: "(\<forall>x \<in> set q. snd x \<le> length (lines_of ?fs (fst x))) \<longrightarrow>
          (\<forall>x \<in> set q'. snd x \<le> length (lines_of fs' (fst x)))"
        unfolding m front_ok_def tl by auto
      have np: "\<forall>x \<in> set q. fst x \<noteq> p" using "2.prems"(1) by auto
      have pos: "(\<forall>x \<in> set ((p, off) # q). snd x \<le> length (lines_of fs (fst x))) \<longrightarrow>
          (\<forall>x \<in> set q'. snd x \<le> length (lines_of fs' (fst x)))"
        using o np by simp
      have paths: "map fst ((p, off) # q) = (p # xs) @ map fst q'"
        "\<forall>p'. lines_of fs' p' = (if p' \<in> set (p # xs) then [] else lines_of fs p')"
        "\<forall>p'. p' \<notin> set (p # xs) \<longrightarrow> has p' fs' = has p' fs"
        using xs by (auto simp: finish_file_has)
      have len: "length evs \<le> n" using rs(1) by simp
      show ?thesis
      proof -
        have eq: "read_front c n ((p, off) # q) fs = (evs @ rest, q', fs')"
          using n p r True m by simp
        have "evs @ rest = take n (concat (map (unread fs) ((p, off) # q)))"
          "concat (map (unread fs') q') = drop n (concat (map (unread fs) ((p, off) # q)))"
          using c len by (simp_all add: all)
        then show ?thesis unfolding front_ok_def eq prod.case using pos paths by blast
      qed
    qed
  qed
qed

lemma contents_write_state [simp]:
  "contents (write_state e b) = contents b" "buf_inv c (write_state e b) = buf_inv c b"
  "fqueue (write_state e b) = fqueue b" "files (write_state e b) = files b"
  "pending (write_state e b) = pending b"
  by (simp_all add: write_state_def contents_def buf_inv_def paths_def)

lemma contents_pending [simp]:
  "contents (b\<lparr>pending := n\<rparr>) = contents b" "buf_inv c (b\<lparr>pending := n\<rparr>) = buf_inv c b"
  by (simp_all add: contents_def buf_inv_def paths_def)

lemma buf_take_spec:
  assumes "buf_inv c b"
  shows "fst (buf_take c e n b) = take n (contents b)"
    and "contents (snd (buf_take c e n b)) = drop n (contents b)"
    and "buf_inv c (snd (buf_take c e n b))"
proof -
  obtain evs q fs where r: "read_front c n (fqueue b) (files b) = (evs, q, fs)"
    by (cases "read_front c n (fqueue b) (files b)") auto
  have "front_ok n (fqueue b) (files b) (evs, q, fs)"
    unfolding r [symmetric] using assms by (intro read_front_ok) (auto simp: buf_inv_def paths_def)
  then obtain xs where f: "evs = take n (contents b)" "concat (map (unread fs) q) = drop n (contents b)"
    and xs: "paths b = xs @ map fst q" "\<forall>p. lines_of fs p = (if p \<in> set xs then [] else lines_of (files b) p)"
      "\<forall>p. p \<notin> set xs \<longrightarrow> has p fs = has p (files b)"
    and o: "\<forall>x \<in> set q. snd x \<le> length (lines_of fs (fst x))"
    using assms by (auto simp: front_ok_def contents_def buf_inv_def paths_def)
  show "fst (buf_take c e n b) = take n (contents b)" by (simp add: buf_take_def r f)
  show "contents (snd (buf_take c e n b)) = drop n (contents b)"
    by (simp add: buf_take_def r) (simp add: contents_def f(2) [unfolded contents_def])
  have inv: "distinct (xs @ map fst q)" "\<forall>p \<in> set (xs @ map fst q). has p (files b)"
    "active_file c \<notin> set (butlast (xs @ map fst q))"
    "active_file c \<notin> set (xs @ map fst q) \<longrightarrow> lines_of (files b) (active_file c) = []"
    using assms unfolding buf_inv_def xs(1) by blast+
  have "\<forall>p \<in> set (map fst q). has p fs" using inv(1,2) xs(3) by auto
  moreover have "active_file c \<notin> set (butlast (map fst q))"
    using inv(3) by (cases "q = []") (auto simp: butlast_append)
  ultimately have "buf_inv c (b\<lparr>fqueue := q, files := fs\<rparr>)"
    using inv(1,4) xs(2) o by (auto simp: buf_inv_def paths_def)
  then show "buf_inv c (snd (buf_take c e n b))" by (simp add: buf_take_def r)
qed

lemma buf_path_inj [simp]: "buf_path c a = buf_path c b \<longleftrightarrow> a = b"
  by (simp add: buf_path_def)

lemma numbered_not_active:
  "numbered c ''buffer.'' ts n \<noteq> active_file c" "numbered c ''buffer.restore.'' ts n \<noteq> active_file c"
proof -
  obtain d ds where d: "nat_digits ts = d # ds" using nat_digits_nonempty by (cases "nat_digits ts") auto
  have "is_digit d" using nat_digits_all_digits [of ts] by (simp add: d)
  then have "d \<noteq> CHR ''j''" by (auto simp: is_digit_def code_point_def)
  then show "numbered c ''buffer.'' ts n \<noteq> active_file c" "numbered c ''buffer.restore.'' ts n \<noteq> active_file c"
    by (simp_all add: numbered_def active_file_def d)
qed

lemma free_name_not_active:
  "free_name c ''buffer.'' ts fs \<noteq> active_file c" "free_name c ''buffer.restore.'' ts fs \<noteq> active_file c"
  by (simp_all add: free_name_def numbered_not_active)

lemma restore_insert_spec:
  assumes "buf_inv c b"
  shows "contents (restore_insert c e evs b) = evs @ contents b" "buf_inv c (restore_insert c e evs b)"
proof -
  define p where "p = free_name c ''buffer.restore.'' (stamp e) (files b)"
  have fresh: "\<not> has p (files b)" "p \<noteq> active_file c"
    unfolding p_def by (simp_all add: free_name_fresh free_name_not_active)
  then have np: "\<forall>x \<in> set (fqueue b). fst x \<noteq> p" using assms by (auto simp: buf_inv_def paths_def)
  have "List.map_filter parse_line (map (JLine \<circ> JObj) evs) = evs"
    by (induction evs) (simp_all add: List.map_filter_simps)
  then show "contents (restore_insert c e evs b) = evs @ contents b"
    using np by (auto simp: restore_insert_def contents_def Let_def unread_def simp flip: p_def
      intro!: arg_cong [where f = concat])
  show "buf_inv c (restore_insert c e evs b)"
    using assms np fresh by (auto simp: restore_insert_def buf_inv_def paths_def Let_def simp flip: p_def)
qed

lemma append_line_spec:
  assumes "buf_inv c b"
  shows "contents (append_line c e ev b) = contents b @ (if append_ok e then [ev] else [])"
    and "buf_inv c (append_line c e ev b)"
proof -
  let ?a = "active_file c"
  let ?fs = "dset ?a (lines_of (files b) ?a @ [JLine (JObj ev)], now_s e) (files b)"
  have d: "distinct (paths b)" and pos: "\<forall>x \<in> set (fqueue b). snd x \<le> length (lines_of (files b) (fst x))"
    using assms by (simp_all add: buf_inv_def)
  have same: "fst x \<noteq> ?a \<Longrightarrow> unread ?fs x = unread (files b) x" for x
    by (simp add: unread_def)
  have grown: "off \<le> length (lines_of (files b) ?a) \<Longrightarrow> unread ?fs (?a, off) = unread (files b) (?a, off) @ [ev]" for off
    by (simp add: unread_def List.map_filter_def)
  have "contents (append_line c e ev b) = contents b @ (if append_ok e then [ev] else []) \<and>
      buf_inv c (append_line c e ev b)"
  proof (cases "append_ok e")
    case False
    then show ?thesis using assms by (simp add: append_line_def)
  next
    case ok: True
    show ?thesis
    proof (cases "?a \<in> set (paths b)")
      case True
      then have ne: "fqueue b \<noteq> []" by (auto simp: paths_def)
      obtain q x where q: "fqueue b = q @ [x]" using ne by (metis append_butlast_last_id)
      have "?a \<notin> fst ` set q" using assms by (simp add: buf_inv_def paths_def q butlast_append)
      then have x: "fst x = ?a" "\<forall>y \<in> set q. fst y \<noteq> ?a"
        using True by (auto simp: paths_def q) (metis fst_conv image_eqI)
      have u: "unread ?fs x = unread (files b) x @ [ev]"
        using pos grown [of "snd x"] x(1) by (cases x) (auto simp: q)
      have "concat (map (unread ?fs) q) = concat (map (unread (files b)) q)"
        using x(2) by (intro concat_unread_cong) simp
      then have "contents (append_line c e ev b) = contents b @ [ev]"
        using ok True u by (simp add: append_line_def contents_def has_def paths_def q)
      moreover have "buf_inv c (append_line c e ev b)"
        using assms ok True by (auto simp: append_line_def buf_inv_def paths_def has_def [of "active_file c" "fqueue b"])
      ultimately show ?thesis using ok by simp
    next
      case False
      then have l: "lines_of (files b) ?a = []" using assms by (simp add: buf_inv_def)
      have "concat (map (unread ?fs) (fqueue b)) = concat (map (unread (files b)) (fqueue b))"
      proof (intro concat_unread_cong)
        fix x assume "x \<in> set (fqueue b)"
        then have "fst x \<noteq> ?a" using False unfolding paths_def by (metis imageI set_map)
        then show "lines_of ?fs (fst x) = lines_of (files b) (fst x)" by simp
      qed
      moreover have "unread ?fs (?a, 0) = [ev]" using l by (simp add: unread_def List.map_filter_simps)
      ultimately have "contents (append_line c e ev b) = contents b @ [ev]"
        using ok False by (simp add: append_line_def contents_def has_def paths_def)
      moreover have "buf_inv c (append_line c e ev b)"
        using assms ok False by (auto simp: append_line_def buf_inv_def paths_def has_def [of "active_file c" "fqueue b"])
      ultimately show ?thesis using ok by simp
    qed
  qed
  then show "contents (append_line c e ev b) = contents b @ (if append_ok e then [ev] else [])"
    and "buf_inv c (append_line c e ev b)" by simp_all
qed

lemma rotate_spec:
  assumes "buf_inv c b"
  shows "contents (rotate_if_needed c e b) = contents b" "buf_inv c (rotate_if_needed c e b)"
proof -
  have "contents (rotate_if_needed c e b) = contents b \<and> buf_inv c (rotate_if_needed c e b)"
  proof (cases "\<exists>ls t. map_of (files b) (active_file c) = Some (ls, t) \<and>
      \<not> (file_bytes c ls < max_file_bytes c \<or> \<not> rename_ok e)")
    case False
    then have "rotate_if_needed c e b = b" by (auto simp: rotate_if_needed_def split: option.split)
    then show ?thesis using assms by simp
  next
    case True
    let ?a = "active_file c"
    define r where "r = free_name c ''buffer.'' (stamp e) (files b)"
    have fresh: "\<not> has r (files b)" "r \<noteq> ?a"
      unfolding r_def by (simp_all add: free_name_fresh free_name_not_active)
    obtain ls t where lt: "map_of (files b) ?a = Some (ls, t)" and
      eq: "rotate_if_needed c e b = b\<lparr>files := dset r (ls, t) (dpop ?a (files b)),
        fqueue := map (\<lambda>(p, off). (if p = ?a then r else p, off)) (fqueue b)\<rparr>"
    proof -
      from True obtain ls t where m: "map_of (files b) ?a = Some (ls, t)"
        "\<not> (file_bytes c ls < max_file_bytes c \<or> \<not> rename_ok e)" by blast
      show thesis by (rule that [OF m(1)]) (use m in \<open>simp add: rotate_if_needed_def Let_def flip: r_def\<close>)
    qed
    let ?f = "\<lambda>p. if p = ?a then r else p"
    have np: "\<forall>x \<in> set (fqueue b). fst x \<noteq> r" using assms fresh by (auto simp: buf_inv_def paths_def)
    have pth: "map fst (map (\<lambda>(p, off). (?f p, off)) (fqueue b)) = map ?f (paths b)"
      by (simp add: paths_def comp_def case_prod_unfold)
    have inj: "inj_on ?f (set (paths b))" using np by (auto simp: inj_on_def paths_def)
    have lines: "lines_of (dset r (ls, t) (dpop ?a (files b))) (?f (fst x)) = lines_of (files b) (fst x)"
      if "x \<in> set (fqueue b)" for x
      using np that lt by (auto simp: lines_of_def)
    have c: "map (unread (dset r (ls, t) (dpop ?a (files b)))) (map (\<lambda>(p, off). (?f p, off)) (fqueue b))
        = map (unread (files b)) (fqueue b)"
      unfolding map_map
    proof (rule map_cong [OF refl])
      fix x assume "x \<in> set (fqueue b)"
      from lines [OF this] show "(unread (dset r (ls, t) (dpop ?a (files b))) \<circ> (\<lambda>(p, off). (?f p, off))) x
          = unread (files b) x"
        unfolding unread_def comp_def case_prod_unfold fst_conv snd_conv by (rule arg_cong)
    qed
    have "contents (rotate_if_needed c e b) = contents b"
      unfolding eq contents_def by (subst c [symmetric]) simp
    moreover have "buf_inv c (rotate_if_needed c e b)"
    proof -
      have "?a \<notin> ?f ` set (paths b)" using fresh by auto
      then have "?a \<notin> set (map ?f (paths b))" by simp
      then have "?a \<notin> set (butlast (map ?f (paths b)))" by (metis in_set_butlastD)
      have pb: "paths (rotate_if_needed c e b) = map ?f (paths b)"
        unfolding paths_def eq by (simp add: comp_def case_prod_unfold)
      show ?thesis
        unfolding buf_inv_def pb
      proof (intro conjI ballI impI)
        show "distinct (map ?f (paths b))" using assms inj by (simp add: distinct_map buf_inv_def)
        fix p assume "p \<in> set (map ?f (paths b))"
        then show "has p (files (rotate_if_needed c e b))"
          using assms fresh unfolding eq by (auto simp: buf_inv_def)
      next
        fix x assume "x \<in> set (fqueue (rotate_if_needed c e b))"
        then obtain y where y: "y \<in> set (fqueue b)" "x = (?f (fst y), snd y)" unfolding eq by auto
        then have "snd y \<le> length (lines_of (files b) (fst y))" using assms by (simp add: buf_inv_def)
        then show "snd x \<le> length (lines_of (files (rotate_if_needed c e b)) (fst x))"
          unfolding eq using lines [OF y(1)] y(2) by simp
      next
        show "lines_of (files (rotate_if_needed c e b)) ?a = []" unfolding eq using fresh by simp
      qed (fact \<open>?a \<notin> set (butlast (map ?f (paths b)))\<close>)
    qed
    ultimately show ?thesis by simp
  qed
  then show "contents (rotate_if_needed c e b) = contents b" "buf_inv c (rotate_if_needed c e b)" by simp_all
qed

section \<open>Pruning only drops\<close>

lemma subseq_concat_filter: "subseq (concat (map f (filter P q))) (concat (map f q))"
  by (induction q) (auto intro: list_emb_append2 list_emb_append_mono)

lemma drop_path_spec:
  assumes "buf_inv c b"
  shows "subseq (contents (drop_path p b)) (contents b)" "buf_inv c (drop_path p b)"
proof -
  let ?q = "filter (\<lambda>x. fst x \<noteq> p) (fqueue b)"
  have "concat (map (unread (dpop p (files b))) ?q) = concat (map (unread (files b)) ?q)"
    by (intro concat_unread_cong) simp
  then show "subseq (contents (drop_path p b)) (contents b)"
    by (simp add: drop_path_def contents_def subseq_concat_filter)
  have pb: "paths (drop_path p b) = filter (\<lambda>x. x \<noteq> p) (paths b)"
    by (simp add: drop_path_def paths_def filter_map comp_def)
  have bl: "set (butlast (filter P xs)) \<subseteq> set (butlast xs)" for P and xs :: "string list"
    by (induction xs rule: rev_induct) (auto simp: butlast_append dest: in_set_butlastD)
  show "buf_inv c (drop_path p b)"
    unfolding buf_inv_def pb
  proof (intro conjI ballI impI)
    show "distinct (filter (\<lambda>x. x \<noteq> p) (paths b))" using assms by (simp add: buf_inv_def)
    show "active_file c \<notin> set (butlast (filter (\<lambda>x. x \<noteq> p) (paths b)))"
      using assms bl [of "\<lambda>x. x \<noteq> p" "paths b"] by (auto simp: buf_inv_def)
  next
    fix x assume "x \<in> set (fqueue (drop_path p b))"
    then show "snd x \<le> length (lines_of (files (drop_path p b)) (fst x))"
      using assms by (auto simp: drop_path_def buf_inv_def)
  next
    assume "active_file c \<notin> set (filter (\<lambda>x. x \<noteq> p) (paths b))"
    then show "lines_of (files (drop_path p b)) (active_file c) = []"
      using assms by (auto simp: drop_path_def buf_inv_def)
  qed (use assms in \<open>auto simp: drop_path_def buf_inv_def\<close>)
qed

definition shrunk :: "buf_conf \<Rightarrow> buffer \<Rightarrow> buffer \<Rightarrow> bool" where
  "shrunk c b b' \<longleftrightarrow> buf_inv c b' \<and> subseq (contents b') (contents b)"

lemma shrunk_drop: "shrunk c b0 b \<Longrightarrow> shrunk c b0 (drop_path p b)"
  using drop_path_spec unfolding shrunk_def by (blast intro: subseq_order.order_trans)

lemma shrunk_drop_while: "shrunk c b0 b \<Longrightarrow> shrunk c b0 (drop_while over b)"
  by (induction over b rule: drop_while.induct) (subst drop_while.simps, auto intro: shrunk_drop)

lemma shrunk_prune_pass: "shrunk c b0 b \<Longrightarrow> shrunk c b0 (prune_pass c e b)"
proof -
  have "shrunk c b0 b \<Longrightarrow> shrunk c b0 (fold (\<lambda>(p, off) b. if p \<noteq> active_file c \<and> stale c e (files b) p
      then drop_path p b else b) q b)" for q
    by (induction q arbitrary: b) (auto simp: shrunk_drop)
  then show "shrunk c b0 b \<Longrightarrow> shrunk c b0 (prune_pass c e b)" by (simp add: prune_pass_def)
qed

lemma prune_spec:
  assumes "buf_inv c b"
  shows "subseq (contents (prune c e b)) (contents b)" "buf_inv c (prune c e b)"
proof -
  have "shrunk c b b" using assms by (simp add: shrunk_def)
  then have "shrunk c b (prune c e b)"
    by (simp add: prune_def Let_def shrunk_drop_while shrunk_prune_pass)
  then show "subseq (contents (prune c e b)) (contents b)" "buf_inv c (prune c e b)"
    by (simp_all add: shrunk_def)
qed

text \<open>Within the limits nothing is dropped.\<close>

definition fits :: "buf_conf \<Rightarrow> io \<Rightarrow> buffer \<Rightarrow> bool" where
  "fits c e b \<longleftrightarrow> (\<forall>p \<in> set (paths b). p \<noteq> active_file c \<longrightarrow> \<not> stale c e (files b) p) \<and>
     total_bytes c b \<le> max_total_bytes c \<and> (max_events c > 0 \<longrightarrow> pending b \<le> max_events c)"

lemma drop_while_stop: "\<not> over b \<Longrightarrow> drop_while over b = b"
  by (subst drop_while.simps) simp

lemma prune_fits: "fits c e b \<Longrightarrow> prune c e b = b"
proof -
  assume f: "fits c e b"
  have "fold (\<lambda>(p, off) b. if p \<noteq> active_file c \<and> stale c e (files b) p then drop_path p b else b) q b = b"
    if "\<forall>x \<in> set q. fst x \<noteq> active_file c \<longrightarrow> \<not> stale c e (files b) (fst x)" for q
    using that by (induction q) auto
  from this [of "fqueue b"] have "prune_pass c e b = b"
    using f by (simp add: prune_pass_def fits_def paths_def)
  then show ?thesis using f by (auto simp: prune_def Let_def fits_def drop_while_stop)
qed

text \<open>After pruning the queue respects the limits on bytes and events, or is empty.\<close>

lemma drop_while_end: "\<not> over (drop_while over b) \<or> fqueue (drop_while over b) = []"
  by (induction over b rule: drop_while.induct) (subst (1 2) drop_while.simps, auto)

lemma buf_restore_spec:
  assumes "buf_inv c b"
  shows "subseq (contents (buf_restore c e evs b)) (evs @ contents b)" "buf_inv c (buf_restore c e evs b)"
    and "append_ok e \<Longrightarrow> fits c e (restore_insert c e evs b) \<Longrightarrow> contents (buf_restore c e evs b) = evs @ contents b"
proof -
  note r = restore_insert_spec [OF assms, of e evs]
  show "subseq (contents (buf_restore c e evs b)) (evs @ contents b)"
    using prune_spec(1) [OF r(2), of e] by (auto simp: buf_restore_def r(1) intro: list_emb_append2)
  show "buf_inv c (buf_restore c e evs b)"
    using prune_spec(2) [OF r(2), of e] assms by (simp add: buf_restore_def)
  show "append_ok e \<Longrightarrow> fits c e (restore_insert c e evs b) \<Longrightarrow> contents (buf_restore c e evs b) = evs @ contents b"
    by (simp add: buf_restore_def prune_fits r(1))
qed

definition after_append :: "buf_conf \<Rightarrow> io \<Rightarrow> dict \<Rightarrow> buffer \<Rightarrow> buffer" where
  \<comment> \<open>the state of \<open>put\<close> before pruning\<close>
  "after_append c e event b =
     rotate_if_needed c e ((append_line c e (put_record e event) b)
        \<lparr>pending := pending (append_line c e (put_record e event) b) + 1\<rparr>)"

lemma after_append_spec:
  assumes "buf_inv c b"
  shows "contents (after_append c e event b) = contents b @ (if append_ok e then [put_record e event] else [])"
    "buf_inv c (after_append c e event b)"
proof -
  note a = append_line_spec [OF assms, of e "put_record e event"]
  have "buf_inv c ((append_line c e (put_record e event) b)
        \<lparr>pending := pending (append_line c e (put_record e event) b) + 1\<rparr>)" using a(2) by simp
  from rotate_spec [OF this, of e] a(1) show
    "contents (after_append c e event b) = contents b @ (if append_ok e then [put_record e event] else [])"
    "buf_inv c (after_append c e event b)" by (simp_all add: after_append_def)
qed

lemma buf_put_eq:
  "snd (buf_put c e event b) = write_state e (prune c e (after_append c e event b))"
  by (simp add: buf_put_def after_append_def Let_def)

lemma buf_put_spec:
  assumes "buf_inv c b"
  shows "subseq (contents (snd (buf_put c e event b))) (contents b @ [put_record e event])"
    "buf_inv c (snd (buf_put c e event b))"
    and "append_ok e \<Longrightarrow> fits c e (after_append c e event b) \<Longrightarrow>
       contents (snd (buf_put c e event b)) = contents b @ [put_record e event]"
proof -
  note a = after_append_spec [OF assms, of e event]
  show "subseq (contents (snd (buf_put c e event b))) (contents b @ [put_record e event])"
    using prune_spec(1) [OF a(2), of e] unfolding buf_put_eq a(1)
    by (cases "append_ok e") (auto intro: subseq_order.order_trans list_emb_append_mono [of _ _ _ "[]", simplified])
  show "buf_inv c (snd (buf_put c e event b))"
    using prune_spec(2) [OF a(2), of e] by (simp add: buf_put_eq)
  show "append_ok e \<Longrightarrow> fits c e (after_append c e event b) \<Longrightarrow>
       contents (snd (buf_put c e event b)) = contents b @ [put_record e event]"
    by (simp add: buf_put_eq prune_fits a(1))
qed

section \<open>The FIFO interface\<close>

text \<open>
  What the exporters rely on: taking gives the front and removes it; putting back never
  invents, duplicates or reorders events.
\<close>

locale fifo =
  fixes inv :: "'s \<Rightarrow> bool"
    and items :: "'s \<Rightarrow> 'e list"
    and take_front :: "'x \<Rightarrow> nat \<Rightarrow> 's \<Rightarrow> 'e list \<times> 's"
    and put_back :: "'x \<Rightarrow> 'e list \<Rightarrow> 's \<Rightarrow> 's"
  assumes take_batch: "inv s \<Longrightarrow> fst (take_front x n s) = take n (items s)"
    and take_rest: "inv s \<Longrightarrow> items (snd (take_front x n s)) = drop n (items s)"
    and take_inv: "inv s \<Longrightarrow> inv (snd (take_front x n s))"
    and back_items: "inv s \<Longrightarrow> subseq (items (put_back x es s)) (es @ items s)"
    and back_inv: "inv s \<Longrightarrow> inv (put_back x es s)"
begin

lemma round_trip:
  assumes "inv s"
  shows "subseq (items (put_back x (fst (take_front x' n s)) (snd (take_front x' n s)))) (items s)"
  using back_items [OF take_inv [OF assms], of x "fst (take_front x' n s)" x' n]
  by (simp add: take_batch take_rest assms)

lemma delivered:
  assumes "inv s"
  shows "fst (take_front x n s) @ items (snd (take_front x n s)) = items s"
  by (simp add: take_batch take_rest assms)

end

interpretation tb: fifo "buf_inv c" contents "buf_take c" "buf_restore c" for c
  by unfold_locales (simp_all add: buf_take_spec buf_restore_spec)

section \<open>Flushing over the WebSocket\<close>

text \<open>Every read shortens what lies unread on disk, so the loop of \<open>flush_to_ws\<close> ends.\<close>

definition unread_lines :: "files \<Rightarrow> (string \<times> nat) list \<Rightarrow> nat" where
  "unread_lines fs q = sum_list (map (\<lambda>(p, off). length (lines_of fs p) - off) q)"

lemma unread_lines_finish: "unread_lines (finish_file c p fs) q \<le> unread_lines fs q"
  unfolding unread_lines_def by (intro sum_list_mono) auto

lemma read_lines_consumes: "read_lines n ls = (evs, k, eof) \<Longrightarrow> length evs \<le> k \<and> k \<le> length ls"
  by (induction n ls arbitrary: evs k eof rule: read_lines.induct)
    (auto split: option.splits prod.splits)

lemma read_front_consumes:
  "read_front c n q fs = (evs, q', fs') \<Longrightarrow> length evs + unread_lines fs' q' \<le> unread_lines fs q"
proof (induction c n q fs arbitrary: evs q' fs' rule: read_front.induct)
  case (2 c n p off q fs)
  show ?case
  proof (cases "n = 0 \<or> \<not> has p fs")
    case True
    then show ?thesis using 2 by (fastforce simp: unread_lines_def split: if_splits)
  next
    case False
    obtain es k eof where r: "read_lines n (drop off (lines_of fs p)) = (es, k, eof)"
      by (cases "read_lines n (drop off (lines_of fs p))") auto
    note k = read_lines_consumes [OF r]
    show ?thesis
    proof (cases eof)
      case True
      obtain more' q1 fs1 where m: "read_front c (n - length es) q (finish_file c p fs) = (more', q1, fs1)"
        by (cases "read_front c (n - length es) q (finish_file c p fs)") auto
      have "length more' + unread_lines fs1 q1 \<le> unread_lines (finish_file c p fs) q"
        using "2.IH"(2) [OF _ _ r [symmetric] refl True m] False by simp
      then show ?thesis using "2.prems" False r m True k unread_lines_finish [of c p fs q]
        by (auto simp: unread_lines_def)
    next
      case False2: False
      then show ?thesis using "2.prems" False r k by (auto simp: unread_lines_def)
    qed
  qed
qed simp

lemma take_shortens:
  assumes "(ev # rest, b1) = buf_take c e n b"
  shows "unread_lines (files b1) (fqueue b1) < unread_lines (files b) (fqueue b)"
proof -
  obtain evs q fs where r: "read_front c n (fqueue b) (files b) = (evs, q, fs)"
    by (cases "read_front c n (fqueue b) (files b)") auto
  with assms have "evs = ev # rest" "fqueue b1 = q" "files b1 = fs" by (simp_all add: buf_take_def)
  with read_front_consumes [OF r] show ?thesis by simp
qed

function flush_to_ws :: "buf_conf \<Rightarrow> io \<Rightarrow> (nat \<Rightarrow> dict \<Rightarrow> bool) \<Rightarrow> nat \<Rightarrow> buffer \<Rightarrow> dict list \<times> buffer" where
  \<comment> \<open>\<open>send i ev\<close>: whether the \<open>i\<close>-th sending succeeds; the events sent, in order\<close>
  "flush_to_ws c e send i b =
     (case buf_take c e 1 b of
        ([], b1) \<Rightarrow> ([], b1)
      | (ev # _, b1) \<Rightarrow>
         (if send i ev then (case flush_to_ws c e send (Suc i) b1 of (sent, b2) \<Rightarrow> (ev # sent, b2))
          else ([], buf_restore c e [ev] b1)))"
  by auto

termination flush_to_ws
  by (relation "measure (\<lambda>(c, e, send, i, b). unread_lines (files b) (fqueue b))")
    (simp_all add: take_shortens)

declare flush_to_ws.simps [simp del]

lemma flush_to_ws_spec:
  assumes "buf_inv c b" "flush_to_ws c e send i b = (sent, b')"
  shows "buf_inv c b' \<and> subseq (sent @ contents b') (contents b) \<and>
    sent = take (length sent) (contents b) \<and>
    (\<forall>j < length sent. send (i + j) (sent ! j)) \<and>
    (length sent < length (contents b) \<longrightarrow> \<not> send (i + length sent) (contents b ! length sent))"
  using assms
proof (induction c e send i b arbitrary: sent b' rule: flush_to_ws.induct)
  case (1 c e send i b)
  obtain evs b1 where t: "buf_take c e 1 b = (evs, b1)" by fastforce
  have s: "evs = take 1 (contents b)" "contents b1 = drop 1 (contents b)" "buf_inv c b1"
    using buf_take_spec [OF "1.prems"(1), of e 1] unfolding t by simp_all
  note eq = "1.prems"(2) [unfolded flush_to_ws.simps [of c e send i b] t]
  show ?case
  proof (cases "contents b")
    case Nil
    then show ?thesis using eq s by simp
  next
    case (Cons ev rest)
    then have evs: "evs = [ev]" "contents b1 = rest" using s by simp_all
    show ?thesis
    proof (cases "send i ev")
      case False
      then have "sent = []" "b' = buf_restore c e [ev] b1" using eq by (simp_all add: evs)
      then show ?thesis using buf_restore_spec(1,2) [OF s(3), of e "[ev]"] False Cons evs(2) by simp
    next
      case True
      obtain sent' b2 where f: "flush_to_ws c e send (Suc i) b1 = (sent', b2)" by fastforce
      have r: "sent = ev # sent'" "b' = b2" using eq True f by (simp_all add: evs)
      have "buf_inv c b2 \<and> subseq (sent' @ contents b2) rest \<and> sent' = take (length sent') rest \<and>
        (\<forall>j < length sent'. send (Suc i + j) (sent' ! j)) \<and>
        (length sent' < length rest \<longrightarrow> \<not> send (Suc i + length sent') (rest ! length sent'))"
        using "1.IH" [OF t [unfolded evs(1), symmetric] refl True s(3) f] by (simp add: evs(2))
      then show ?thesis using True by (auto simp: r Cons nth_Cons split: nat.splits)
    qed
  qed
qed

section \<open>Properties\<close>

text \<open>
  C19: The buffer is a FIFO over its files: taking \<open>n\<close> events gives the next \<open>n\<close> in
  order, across rotated, restored and active files and over corrupt lines, and leaves
  exactly the others.
\<close>

theorem take_is_fifo:
  assumes "buf_inv c b"
  shows "fst (buf_take c e n b) = take n (contents b) \<and>
    contents (snd (buf_take c e n b)) = drop n (contents b) \<and> buf_inv c (snd (buf_take c e n b))"
  using assms tb.take_batch tb.take_rest tb.take_inv by blast

definition sample_conf :: buf_conf where
  "sample_conf = \<lparr>dir_path = ''/b'', max_events = 0, max_age_days = Fin 7, max_file_bytes = 1024,
     max_total_bytes = 4096, line_bytes = (\<lambda>l. 100)\<rparr>"

definition sample_io :: io where
  "sample_io = \<lparr>now_s = 0, ts_text = ''t'', stamp = 20260101, append_ok = True, rename_ok = True, state_ok = True\<rparr>"

definition sample_buffer :: buffer where
  "sample_buffer = \<lparr>files = [(''/b/buffer.1.jsonl'', [JLine (JObj [(''a'', JInt 1)]), BadLine, JLine (JObj [(''a'', JInt 2)])], 0),
       (''/b/buffer.jsonl'', [JLine (JObj [(''a'', JInt 3)])], 0)],
     fqueue = [(''/b/buffer.1.jsonl'', 1), (''/b/buffer.jsonl'', 0)], pending = 3, state_file = None\<rparr>"

lemma sample_buffer_inv: "buf_inv sample_conf sample_buffer"
  by (simp add: buf_inv_def paths_def sample_conf_def sample_buffer_def active_file_def buf_path_def lines_of_def)

theorem take_is_fifo_witness:
  "fst (buf_take sample_conf sample_io 2 sample_buffer) = take 2 (contents sample_buffer) \<and>
   contents (snd (buf_take sample_conf sample_io 2 sample_buffer)) = drop 2 (contents sample_buffer) \<and>
   buf_inv sample_conf (snd (buf_take sample_conf sample_io 2 sample_buffer))"
  by (rule take_is_fifo [OF sample_buffer_inv])

text \<open>
  A failed export loses nothing while the limits hold: putting a taken batch back
  restores the sequence of events exactly; beyond the limits events are dropped but never
  duplicated or reordered.
\<close>

theorem failed_export_restores:
  assumes "buf_inv c b" "buf_take c e n b = (batch, b1)"
  shows "subseq (contents (buf_restore c e' batch b1)) (contents b) \<and>
    (append_ok e' \<and> fits c e' (restore_insert c e' batch b1) \<longrightarrow> contents (buf_restore c e' batch b1) = contents b)"
proof -
  have b1: "buf_inv c b1" "batch @ contents b1 = contents b"
    using tb.take_inv [OF assms(1), of e n] tb.delivered [OF assms(1), of e n] by (simp_all add: assms(2))
  then show ?thesis using buf_restore_spec [OF b1(1), of e' batch] by simp
qed

definition sample_rest :: buffer where
  "sample_rest = write_state sample_io (sample_buffer\<lparr>fqueue := [(''/b/buffer.jsonl'', 1)],
     files := [(''/b/buffer.jsonl'', [JLine (JObj [(''a'', JInt 3)])], 0)], pending := 1\<rparr>)"

lemma sample_take:
  "buf_take sample_conf sample_io 2 sample_buffer = ([[(''a'', JInt 2)], [(''a'', JInt 3)]], sample_rest)"
  by (simp add: buf_take_def sample_rest_def sample_buffer_def sample_conf_def active_file_def buf_path_def
      finish_file_def lines_of_def numeral_2_eq_2)

lemma sample_name:
  "free_name sample_conf ''buffer.restore.'' 20260101 [(''/b/buffer.jsonl'', v)] = ''/b/buffer.restore.20260101.jsonl''"
proof -
  have n: "numbered sample_conf ''buffer.restore.'' 20260101 0 = ''/b/buffer.restore.20260101.jsonl''"
    by (simp add: numbered_def sample_conf_def buf_path_def nat_digits.simps digit_char_def char_of_def bit_0)
  then show ?thesis by (simp add: free_name_def free_number.simps [of sample_conf "''buffer.restore.''" 20260101 _ 0])
qed

lemma sample_restored:
  "append_ok sample_io"
  "restore_insert sample_conf sample_io [[(''a'', JInt 2)], [(''a'', JInt 3)]] sample_rest =
     sample_rest\<lparr>files := [(''/b/buffer.jsonl'', [JLine (JObj [(''a'', JInt 3)])], 0),
         (''/b/buffer.restore.20260101.jsonl'', [JLine (JObj [(''a'', JInt 2)]), JLine (JObj [(''a'', JInt 3)])], 0)],
       fqueue := [(''/b/buffer.restore.20260101.jsonl'', 0), (''/b/buffer.jsonl'', 1)], pending := 3\<rparr>"
  by (simp_all add: restore_insert_def sample_rest_def sample_buffer_def sample_io_def Let_def write_state_def
      sample_name dset_def)

lemma sample_restore_fits:
  "fits sample_conf sample_io (restore_insert sample_conf sample_io [[(''a'', JInt 2)], [(''a'', JInt 3)]] sample_rest)"
  unfolding sample_restored
  by (simp add: fits_def sample_conf_def sample_io_def paths_def stale_def total_bytes_def
      file_bytes_def lines_of_def)

theorem failed_export_restores_witness:
  "contents (buf_restore sample_conf sample_io [[(''a'', JInt 2)], [(''a'', JInt 3)]] sample_rest) = contents sample_buffer"
  using failed_export_restores [OF sample_buffer_inv sample_take, of sample_io] sample_restored(1) sample_restore_fits
  by blast

text \<open>
  Putting an event appends it at the end, with a time stamp, and keeps all others, when
  the write succeeds and the limits hold; otherwise what remains is a subsequence of that.
\<close>

theorem put_appends:
  assumes "buf_inv c b"
  shows "buf_inv c (snd (buf_put c e event b)) \<and>
    subseq (contents (snd (buf_put c e event b))) (contents b @ [put_record e event]) \<and>
    (append_ok e \<and> fits c e (after_append c e event b) \<longrightarrow>
       contents (snd (buf_put c e event b)) = contents b @ [put_record e event])"
  using buf_put_spec [OF assms] by blast

theorem put_appends_witness:
  "buf_inv sample_conf (snd (buf_put sample_conf sample_io [] sample_buffer)) \<and>
    subseq (contents (snd (buf_put sample_conf sample_io [] sample_buffer))) (contents sample_buffer @ [put_record sample_io []]) \<and>
    (append_ok sample_io \<and> fits sample_conf sample_io (after_append sample_conf sample_io [] sample_buffer) \<longrightarrow>
       contents (snd (buf_put sample_conf sample_io [] sample_buffer)) = contents sample_buffer @ [put_record sample_io []])"
  by (rule put_appends [OF sample_buffer_inv])


definition sample_flush :: "dict list \<times> buffer" where
  \<comment> \<open>the second sending fails\<close>
  "sample_flush = flush_to_ws sample_conf sample_io (\<lambda>i ev. i = 0) 0 sample_buffer"


text \<open>
  The count of pending events can exceed the events: a write that fails is still
  counted, although nothing was stored.
\<close>

theorem failed_put_still_counted:
  assumes "\<not> append_ok e" "\<not> rename_ok e" "fits c e (b\<lparr>pending := pending b + 1\<rparr>)"
  shows "contents (snd (buf_put c e event b)) = contents b \<and>
    buf_count (snd (buf_put c e event b)) = buf_count b + 1"
proof -
  have "after_append c e event b = b\<lparr>pending := pending b + 1\<rparr>"
    using assms(1,2) by (simp add: after_append_def append_line_def rotate_if_needed_def split: option.split)
  then show ?thesis using assms(3) by (simp add: buf_put_eq prune_fits buf_count_def)
qed

theorem failed_put_still_counted_witness:
  "contents (snd (buf_put sample_conf (sample_io\<lparr>append_ok := False, rename_ok := False\<rparr>) [] sample_buffer)) = contents sample_buffer \<and>
    buf_count (snd (buf_put sample_conf (sample_io\<lparr>append_ok := False, rename_ok := False\<rparr>) [] sample_buffer)) = buf_count sample_buffer + 1"
proof (rule failed_put_still_counted)
  show "fits sample_conf (sample_io\<lparr>append_ok := False, rename_ok := False\<rparr>) (sample_buffer\<lparr>pending := pending sample_buffer + 1\<rparr>)"
    by (simp add: fits_def sample_conf_def sample_io_def sample_buffer_def paths_def stale_def total_bytes_def
      file_bytes_def lines_of_def)
qed (simp_all add: sample_io_def)

end
