(* ===== verification/Log_Range.thy ===== *)
theory Log_Range
  imports Protocol
begin

text \<open>
  Dates and hour ranges of log queries, \<^verbatim>\<open>colsoft_tools/log_range.py\<close>: the
  window that the parameters denote, its renderings for the log tools, the time stamp of a
  log line, and the filter of entries by a window. A time of day is its microseconds since
  midnight; \<open>now\<close> is an argument.
\<close>

section \<open>Windows\<close>

record log_window =
  start :: "pydt option"
  end_at :: "pydt option"
  since_raw :: "string option"
  until_raw :: "string option"

definition bounded :: "log_window \<Rightarrow> bool" where
  "bounded w \<longleftrightarrow> start w \<noteq> None \<or> end_at w \<noteq> None"

definition TIME_KEYS :: "string list" where
  "TIME_KEYS = [''date'', ''startDate'', ''endDate'', ''since'', ''until'', ''startHour'', ''endHour'',
     ''hour'', ''start'', ''end'']"

definition blank :: "json \<Rightarrow> bool" where
  \<comment> \<open>\<open>value in (None, "")\<close>\<close>
  "blank v \<longleftrightarrow> v = JNull \<or> v = JStr []"

definition time_kwargs :: "dict \<Rightarrow> dict" where
  "time_kwargs params = map (\<lambda>k. (k, getv params k)) (filter (\<lambda>k. \<not> blank (getv params k)) TIME_KEYS)"

section \<open>Renderings\<close>

definition date_of :: "int \<Rightarrow> int \<times> int \<times> int" where
  "date_of us = ymd_of (us div us_per_day + epoch_ord)"

definition hms_text :: "int \<Rightarrow> string" where
  "hms_text us = (let s = us mod us_per_day div 1000000 in
     pad 2 (s div 3600) @ '':'' @ pad 2 (s div 60 mod 60) @ '':'' @ pad 2 (s mod 60))"

definition to_iso_z :: "pydt \<Rightarrow> string" where
  "to_iso_z d = date_text (date_of (dt_us d)) @ ''T'' @ hms_text (dt_us d) @ ''.''
     @ pad 3 (dt_us d mod 1000000 div 1000) @ ''Z''"

definition to_journalctl :: "pydt \<Rightarrow> string" where
  "to_journalctl d = date_text (date_of (dt_us d)) @ '' '' @ hms_text (dt_us d) @ '' UTC''"

definition wevtutil_time_query :: "pydt option \<Rightarrow> pydt option \<Rightarrow> string option" where
  "wevtutil_time_query s e =
     (let q = [CHR 0x27];
          parts = (case s of None \<Rightarrow> [] | Some d \<Rightarrow> [''@SystemTime>='' @ q @ to_iso_z d @ q])
            @ (case e of None \<Rightarrow> [] | Some d \<Rightarrow> [''@SystemTime<='' @ q @ to_iso_z d @ q]) in
      if parts = [] then None
      else Some (''*[System[TimeCreated['' @ join '' and '' parts @ '']]]''))"

definition journalctl_time_args :: "log_window \<Rightarrow> string list" where
  "journalctl_time_args w =
     (case start w of
        Some d \<Rightarrow> [''--since'', to_journalctl d]
      | None \<Rightarrow> (case since_raw w of Some r \<Rightarrow> if r = [] then [] else [''--since'', r] | None \<Rightarrow> []))
     @ (case end_at w of
        Some d \<Rightarrow> [''--until'', to_journalctl d]
      | None \<Rightarrow> (case until_raw w of Some r \<Rightarrow> if r = [] then [] else [''--until'', r] | None \<Rightarrow> []))"

definition window_fields :: "log_window \<Rightarrow> dict" where
  "window_fields w =
     [(''start'', case start w of Some d \<Rightarrow> JStr (to_iso_z d) | None \<Rightarrow> JNull),
      (''end'', case end_at w of Some d \<Rightarrow> JStr (to_iso_z d) | None \<Rightarrow> JNull)]"

section \<open>Hours and dates\<close>

definition hour_us :: int where "hour_us = 3600000000"

definition whole_hour :: "int \<Rightarrow> (int \<times> bool) option" where
  "whole_hour h = (if 0 \<le> h \<and> h \<le> 23 then Some (h * hour_us, True) else None)"

definition parse_hour :: "json \<Rightarrow> (int \<times> bool) option res" where
  \<comment> \<open>the time and whether it is a whole hour\<close>
  "parse_hour v =
     (if blank v then Inr None
      else (case v of
          JBool b \<Rightarrow> Inr (whole_hour (if b then 1 else 0))
        | JInt i \<Rightarrow> Inr (whole_hour i)
        | JFloat f \<Rightarrow> res_bind (int_of_float f) (\<lambda>i. Inr (whole_hour i))
        | _ \<Rightarrow>
           (let text = strip (py_str v); ps = split_char (CHR '':'') text;
                n1 = (\<lambda>s. if length s \<in> {1, 2} then num_of s else None) in
            Inr (case map n1 ps of
                [Some h] \<Rightarrow> whole_hour h
              | Some h # rest \<Rightarrow>
                  (case (map two (tl ps)) of
                     [Some m] \<Rightarrow> if h \<le> 23 \<and> m \<le> 59 then Some (h * hour_us + m * 60000000, False) else None
                   | [Some m, Some s] \<Rightarrow>
                       if h \<le> 23 \<and> m \<le> 59 \<and> s \<le> 59
                       then Some (h * hour_us + m * 60000000 + s * 1000000, False) else None
                   | _ \<Rightarrow> None)
              | _ \<Rightarrow> None))))"

definition parse_day :: "json \<Rightarrow> int option" where
  \<comment> \<open>\<open>_parse_date\<close>: midnight UTC\<close>
  "parse_day v = map_option (\<lambda>n. (n - epoch_ord) * us_per_day) (parse_date (strip (str_or v [])))"

definition end_of_hour :: "int \<Rightarrow> int" where
  "end_of_hour t = t div hour_us * hour_us + (hour_us - 1)"

definition combine :: "int \<Rightarrow> int \<Rightarrow> pydt" where
  \<comment> \<open>the day of an instant with another time of day\<close>
  "combine day t = DT (day div us_per_day * us_per_day + t) True"

definition maybe_dt :: "json \<Rightarrow> pydt option" where
  "maybe_dt v = (if blank v then None else parse_iso (JStr (py_str v)))"

fun first_some :: "'a option list \<Rightarrow> 'a option" where
  "first_some [] = None"
| "first_some (Some x # xs) = Some x"
| "first_some (None # xs) = first_some xs"

lemma first_some_None: "first_some xs = None \<longleftrightarrow> (\<forall>x \<in> set xs. x = None)"
  by (induction xs rule: first_some.induct) auto

definition closing :: "int \<times> bool \<Rightarrow> int" where
  "closing h = (if snd h then end_of_hour (fst h) else fst h)"

section \<open>The window of the parameters\<close>

definition day_window :: "int \<Rightarrow> (int \<times> bool) option \<Rightarrow> (int \<times> bool) option \<Rightarrow> (int \<times> bool) option \<Rightarrow> log_window" where
  \<comment> \<open>with \<open>date\<close>\<close>
  "day_window day hr sh eh =
     (case hr of
        Some (t, w) \<Rightarrow> \<lparr>start = Some (combine day t), end_at = Some (combine day (end_of_hour t)),
                        since_raw = None, until_raw = None\<rparr>
      | None \<Rightarrow>
         \<lparr>start = Some (case sh of Some (t, w) \<Rightarrow> combine day t | None \<Rightarrow> DT day True),
          end_at = Some (case eh of
             Some h \<Rightarrow> combine day (closing h)
           | None \<Rightarrow> (case sh of
                Some (t, True) \<Rightarrow> combine day (end_of_hour t)
              | _ \<Rightarrow> DT (day + us_per_day - 1) True)),
          since_raw = None, until_raw = None\<rparr>)"

definition hours_window ::
  "int \<Rightarrow> pydt option \<Rightarrow> pydt option \<Rightarrow> (int \<times> bool) option \<Rightarrow> (int \<times> bool) option \<Rightarrow> log_window" where
  \<comment> \<open>hours without \<open>date\<close>\<close>
  "hours_window now st en sh eh =
     (let base = (case st of Some d \<Rightarrow> dt_us d | None \<Rightarrow> now div us_per_day * us_per_day);
          st' = (case sh of Some (t, w) \<Rightarrow> Some (combine base t) | None \<Rightarrow> st);
          en' = (case eh of
             Some h \<Rightarrow> Some (combine (case en of None \<Rightarrow> base | Some d \<Rightarrow> dt_us d) (closing h))
           | None \<Rightarrow> (case sh of
                Some (t, True) \<Rightarrow> Some (combine (case st' of Some d \<Rightarrow> dt_us d | None \<Rightarrow> base) (end_of_hour t))
              | _ \<Rightarrow> en)) in
      \<lparr>start = st', end_at = en', since_raw = None, until_raw = None\<rparr>)"

definition raw_pass :: "json \<Rightarrow> string option" where
  "raw_pass v = (if maybe_dt v \<noteq> None \<or> \<not> truthy v then None else Some (strip (py_str v)))"

definition window_from_params :: "int \<Rightarrow> dict \<Rightarrow> log_window res" where
  "window_from_params now p =
     (let st = first_some [maybe_dt (getv p ''start''), maybe_dt (getv p ''startDate''), maybe_dt (getv p ''since'')];
          en = first_some [maybe_dt (getv p ''end''), maybe_dt (getv p ''endDate''), maybe_dt (getv p ''until'')] in
      res_bind (parse_hour (getv p ''hour'')) (\<lambda>hr.
      res_bind (parse_hour (py_or (getv p ''startHour'') (getv p ''start_hour''))) (\<lambda>sh0.
      res_bind (parse_hour (py_or (getv p ''endHour'') (getv p ''end_hour''))) (\<lambda>eh0.
        let whole = map_option (\<lambda>h. (fst h, True)) hr;
            sh = (if hr \<noteq> None \<and> sh0 = None then whole else sh0);
            eh = (if hr \<noteq> None \<and> sh0 = None then whole else eh0) in
        Inr (case parse_day (getv p ''date'') of
            Some day \<Rightarrow> day_window day hr sh eh
          | None \<Rightarrow>
             if sh \<noteq> None \<or> eh \<noteq> None then hours_window now st en sh eh
             else \<lparr>start = st, end_at = en, since_raw = raw_pass (getv p ''since''),
                   until_raw = raw_pass (getv p ''until'')\<rparr>)))))"

definition expand_query_window :: "int \<Rightarrow> dict \<Rightarrow> dict res" where
  "expand_query_window now params =
     (let hours = [''startHour'', ''endHour'', ''hour'', ''start_hour'', ''end_hour''];
          strip_hours = (\<lambda>d. fold dpop hours d) in
      if \<exists>k \<in> set [''startHour'', ''endHour'', ''hour'']. \<not> blank (getv params k) then
        res_bind (window_from_params now params) (\<lambda>w.
          let d = (case start w of Some s \<Rightarrow> dset ''startDate'' (JStr (to_iso_z s)) params | None \<Rightarrow> params);
              d = (case end_at w of Some e \<Rightarrow> dset ''endDate'' (JStr (to_iso_z e)) d | None \<Rightarrow> d) in
          Inr (strip_hours (dpop ''date'' d)))
      else Inr (strip_hours params))"

section \<open>Time stamps of log lines\<close>

definition shape :: "string \<Rightarrow> string \<Rightarrow> bool" where
  \<comment> \<open>\<open>d\<close> in the pattern stands for a digit, \<open>_\<close> for \<open>T\<close> or a blank\<close>
  "shape pat s \<longleftrightarrow> length s = length pat \<and>
     list_all (\<lambda>(p, c). if p = CHR ''d'' then is_digit c
        else if p = CHR ''_'' then c = CHR ''T'' \<or> c = CHR '' '' else p = c) (zip pat s)"

definition iso_prefix :: "string \<Rightarrow> string option" where
  \<comment> \<open>the match of the ISO pattern at the start of the text\<close>
  "iso_prefix s =
     (if \<not> shape ''dddd-dd-dd_dd:dd:dd'' (take 19 s) then None
      else
        (let r = drop 19 s;
             fr = (case r of c # t \<Rightarrow> if c = CHR ''.'' then takeWhile is_digit t else [] | [] \<Rightarrow> []);
             frac = (if fr = [] then [] else CHR ''.'' # fr);
             r2 = drop (length frac) r;
             tz = (case r2 of
                 [] \<Rightarrow> []
               | c # t \<Rightarrow>
                   if c = CHR ''Z'' then [c]
                   else if c = CHR ''+'' \<or> c = CHR ''-'' then
                     (if shape ''dd:dd'' (take 5 t) then c # take 5 t
                      else if shape ''dddd'' (take 4 t) then c # take 4 t else [])
                   else []) in
         Some (take 19 s @ frac @ tz)))"

fun iso_search :: "string \<Rightarrow> string option" where
  "iso_search [] = None"
| "iso_search (c # s) = (case iso_prefix (c # s) of Some m \<Rightarrow> Some m | None \<Rightarrow> iso_search s)"

definition MONTHS :: "(string \<times> int) list" where
  "MONTHS = [(''Jan'', 1), (''Feb'', 2), (''Mar'', 3), (''Apr'', 4), (''May'', 5), (''Jun'', 6),
     (''Jul'', 7), (''Aug'', 8), (''Sep'', 9), (''Oct'', 10), (''Nov'', 11), (''Dec'', 12)]"

definition is_word :: "char \<Rightarrow> bool" where
  "is_word c = (let n = code_point c in is_digit c \<or> c = CHR ''_'' \<or> (65 \<le> n \<and> n \<le> 90)
     \<or> (97 \<le> n \<and> n \<le> 122) \<or> n \<in> {170, 178, 179, 181, 185, 186, 188, 189, 190} \<or> (192 \<le> n \<and> n \<noteq> 215 \<and> n \<noteq> 247))"

definition spaces1 :: "string \<Rightarrow> string option" where
  \<comment> \<open>\<open>\s+\<close>\<close>
  "spaces1 s = (if s \<noteq> [] \<and> is_space (hd s) then Some (lstrip s) else None)"

definition syslog_ts :: "int \<Rightarrow> string \<Rightarrow> pydt option" where
  "syslog_ts year s =
     (case map_of MONTHS (take 3 s) of
        None \<Rightarrow> None
      | Some mon \<Rightarrow>
         (case spaces1 (drop 3 s) of
            None \<Rightarrow> None
          | Some r \<Rightarrow>
             (let ds = takeWhile is_digit r in
              if length ds \<notin> {1, 2} then None
              else (case spaces1 (drop (length ds) r) of
                  None \<Rightarrow> None
                | Some ck \<Rightarrow>
                   if \<not> shape ''dd:dd:dd'' (take 8 ck) \<or> (drop 8 ck \<noteq> [] \<and> is_word (hd (drop 8 ck))) then None
                   else
                     (let day = int (digits_val ds); h = int (digits_val (take 2 ck));
                          m = int (digits_val (take 2 (drop 3 ck))); sec = int (digits_val (take 2 (drop 6 ck))) in
                      if valid_date (year, mon, day) \<and> valid_clock (h, m, sec, 0)
                      then Some (DT ((ord_of (year, mon, day) - epoch_ord) * us_per_day + clock_us (h, m, sec, 0)) True)
                      else None)))))"

definition year_at :: "int \<Rightarrow> int" where
  "year_at us = fst (date_of us)"

definition parse_log_line_ts :: "int \<Rightarrow> int option \<Rightarrow> string \<Rightarrow> pydt option" where
  "parse_log_line_ts now year line =
     (let text = strip line in
      if text = [] then None
      else (case iso_search text of
          Some m \<Rightarrow> parse_iso (JStr (replace_char (CHR '' '') ''T'' m))
        | None \<Rightarrow>
           syslog_ts (case year of Some y \<Rightarrow> if y = 0 then year_at now else y | None \<Rightarrow> year_at now) text))"

section \<open>Filtering\<close>

definition entry_ts :: "int \<Rightarrow> json \<Rightarrow> log_window \<Rightarrow> string \<Rightarrow> pydt option" where
  \<comment> \<open>the instant of an entry: its \<open>ts\<close>, or else what its line says\<close>
  "entry_ts now ts w line =
     first_some
       [if blank ts then None
        else first_some [parse_iso (JStr (py_str ts)), parse_log_line_ts now None (py_str ts)],
        if line = [] then None
        else parse_log_line_ts now (map_option (\<lambda>d. year_at (dt_us d)) (start w)) line]"

definition in_window :: "int \<Rightarrow> json \<Rightarrow> log_window \<Rightarrow> string \<Rightarrow> bool res" where
  "in_window now ts w line =
     (if \<not> bounded w then Inr True
      else (case entry_ts now ts w line of
          None \<Rightarrow> Inr False
        | Some d \<Rightarrow>
           res_bind (case start w of None \<Rightarrow> Inr False | Some s \<Rightarrow> dt_less (as_utc d) s) (\<lambda>early.
             if early then Inr False
             else res_bind (case end_at w of None \<Rightarrow> Inr False | Some e \<Rightarrow> dt_less e (as_utc d)) (\<lambda>late.
               Inr (\<not> late)))))"

definition entry_msg :: "dict \<Rightarrow> string" where
  "entry_msg rec = str_or (py_or (py_or (getv rec ''message'') (getv rec ''raw'')) (getv rec ''msg'')) []"

fun filter_loop :: "int \<Rightarrow> log_window \<Rightarrow> nat option \<Rightarrow> dict list \<Rightarrow> dict list res" where
  \<comment> \<open>the counter runs down to the limit\<close>
  "filter_loop now w cap [] = Inr []"
| "filter_loop now w cap (rec # recs) =
     res_bind (in_window now (getv rec ''ts'') w (entry_msg rec)) (\<lambda>ok.
       if ok then
         (if cap \<noteq> None \<and> the cap \<le> 1 then Inr [rec]
          else res_bind (filter_loop now w (map_option (\<lambda>n. n - 1) cap) recs) (\<lambda>out. Inr (rec # out)))
       else filter_loop now w cap recs)"

definition filter_entries :: "int \<Rightarrow> dict list \<Rightarrow> log_window \<Rightarrow> nat option \<Rightarrow> dict list res" where
  "filter_entries now entries w cap =
     (if \<not> bounded w then Inr (case cap of Some n \<Rightarrow> take n entries | None \<Rightarrow> entries)
      else filter_loop now w cap entries)"

section \<open>Lemmas\<close>

lemma filter_loop_spec:
  "filter_loop now w cap recs = Inr out \<Longrightarrow>
     out = (case cap of
        None \<Rightarrow> filter (\<lambda>r. in_window now (getv r ''ts'') w (entry_msg r) = Inr True) recs
      | Some n \<Rightarrow> take (max n 1) (filter (\<lambda>r. in_window now (getv r ''ts'') w (entry_msg r) = Inr True) recs))"
proof (induction now w cap recs arbitrary: out rule: filter_loop.induct)
  case (1 now w cap)
  then show ?case by (simp split: option.splits)
next
  case (2 now w cap rec recs)
  obtain ok where ok: "in_window now (getv rec ''ts'') w (entry_msg rec) = Inr ok"
    using "2.prems" by (auto simp: res_bind_eq_Inr)
  show ?case
  proof (cases "ok \<and> \<not> (cap \<noteq> None \<and> the cap \<le> 1)")
    case True
    then obtain rest where rest: "filter_loop now w (map_option (\<lambda>n. n - 1) cap) recs = Inr rest" "out = rec # rest"
      using "2.prems" ok by (auto simp: res_bind_eq_Inr split: if_splits)
    have "ok" and c: "\<not> (cap \<noteq> None \<and> the cap \<le> 1)" using True by simp_all
    then have "rest = (case map_option (\<lambda>n. n - 1) cap of
        None \<Rightarrow> filter (\<lambda>r. in_window now (getv r ''ts'') w (entry_msg r) = Inr True) recs
      | Some n \<Rightarrow> take (max n 1) (filter (\<lambda>r. in_window now (getv r ''ts'') w (entry_msg r) = Inr True) recs))"
      using rest(1) by (intro "2.IH"(1) [of True]) auto
    then show ?thesis
      using rest(2) ok \<open>ok\<close> c
      by (cases cap) (auto simp: max_def take_Cons' dest!: le_antisym [of "_ - Suc 0"])
  next
    case False
    show ?thesis
    proof (cases ok)
      case True
      then show ?thesis using False "2.prems" ok by (cases cap) (auto simp: max_def take_Cons')
    next
      case no: False
      then have "filter_loop now w cap recs = Inr out" using "2.prems" ok by simp
      then show ?thesis using "2.IH"(2) [of False out] no ok by (simp split: option.splits)
    qed
  qed
qed

lemma entry_ts_isoformat:
  assumes "year_start_us \<le> t" "t < year_end_us"
  shows "entry_ts now (JStr (isoformat t)) w line = Some (DT t True)"
  using assms by (simp add: entry_ts_def blank_def)

lemma in_window_isoformat:
  assumes "year_start_us \<le> t" "t < year_end_us" "start w = Some (DT s True)" "end_at w = Some (DT e True)"
  shows "in_window now (JStr (isoformat t)) w line = Inr (s \<le> t \<and> t \<le> e)"
  using assms by (simp add: in_window_def bounded_def entry_ts_isoformat as_utc_def dt_less_def) linarith

lemma blank_simps [simp]:
  "blank JNull" "blank (JStr s) \<longleftrightarrow> s = []" "\<not> blank (JInt i)"
  by (simp_all add: blank_def)

lemma no_hour [simp]: "parse_hour JNull = Inr None"
  by (simp add: parse_hour_def)

lemma no_dt [simp]: "maybe_dt JNull = None"
  by (simp add: maybe_dt_def)

lemma raw_pass_none [simp]: "raw_pass JNull = None"
  by (simp add: raw_pass_def)

lemma no_day [simp]: "parse_day JNull = None"
  by code_simp

lemma day_aligned: "parse_day v = Some day \<Longrightarrow> day mod us_per_day = 0"
  by (auto simp: parse_day_def)

lemma day_start: "parse_day v = Some day \<Longrightarrow> day div us_per_day * us_per_day = day"
  using day_aligned div_mult_mod_eq [of day us_per_day] by simp

lemma same_day:
  assumes "day div us_per_day * us_per_day = day"
  shows "day \<le> t \<and> t \<le> day + us_per_day - 1 \<longleftrightarrow> t div us_per_day = day div us_per_day"
proof -
  define q where "q = day div us_per_day"
  have "day = q * us_per_day" using assms by (simp add: q_def)
  moreover have "t div us_per_day = q \<longleftrightarrow> q * us_per_day \<le> t \<and> t \<le> q * us_per_day + us_per_day - 1"
    unfolding us_per_day_def by auto
  ultimately show ?thesis by (simp add: q_def)
qed

section \<open>Properties\<close>

text \<open>
  The filter of log entries keeps exactly those inside the window, in their order, and
  with a limit the first ones up to it (at least one).
\<close>

theorem filter_keeps_window:
  assumes "bounded w" "filter_entries now entries w cap = Inr out"
  shows "out = (case cap of
      None \<Rightarrow> filter (\<lambda>r. in_window now (getv r ''ts'') w (entry_msg r) = Inr True) entries
    | Some n \<Rightarrow> take (max n 1) (filter (\<lambda>r. in_window now (getv r ''ts'') w (entry_msg r) = Inr True) entries))"
  using assms by (auto simp: filter_entries_def intro: filter_loop_spec)

definition sample_window :: log_window where
  "sample_window = \<lparr>start = Some (DT 0 True), end_at = None, since_raw = None, until_raw = None\<rparr>"

theorem filter_keeps_window_witness:
  "[] = (case Some 5 of
      None \<Rightarrow> filter (\<lambda>r. in_window 0 (getv r ''ts'') sample_window (entry_msg r) = Inr True) [[]]
    | Some n \<Rightarrow> take (max n 1) (filter (\<lambda>r. in_window 0 (getv r ''ts'') sample_window (entry_msg r) = Inr True) [[]]))"
proof (rule filter_keeps_window)
  show "bounded sample_window" by (simp add: bounded_def sample_window_def)
  show "filter_entries 0 [[]] sample_window (Some 5) = Inr []"
    by (simp add: filter_entries_def sample_window_def bounded_def in_window_def entry_ts_def blank_def entry_msg_def)
qed

text \<open>
  A query with only \<open>date\<close> denotes exactly that UTC day: an entry stamped at any
  instant is kept if and only if the instant lies in the day.
\<close>

theorem date_selects_utc_day:
  assumes "parse_day v = Some day" "window_from_params now [(''date'', v)] = Inr w"
    and "year_start_us \<le> t" "t < year_end_us"
  shows "in_window now' (JStr (isoformat t)) w line = Inr (t div us_per_day = day div us_per_day)"
proof -
  have "window_from_params now [(''date'', v)] = Inr (day_window day None None None)"
    using assms(1) by (simp add: window_from_params_def)
  then have w: "start w = Some (DT day True)" "end_at w = Some (DT (day + us_per_day - 1) True)"
    using assms(2) by (auto simp: day_window_def)
  have "day \<le> t \<and> t \<le> day + us_per_day - 1 \<longleftrightarrow> t div us_per_day = day div us_per_day"
    by (rule same_day [OF day_start [OF assms(1)]])
  then show ?thesis using in_window_isoformat [OF assms(3,4) w] by simp
qed

theorem date_selects_utc_day_witness:
  "in_window 0 (JStr (isoformat 5)) (projr (window_from_params 0 [(''date'', JStr ''1970-01-01'')])) []
     = Inr (5 div us_per_day = 0 div us_per_day)"
proof (rule date_selects_utc_day)
  have d: "parse_day (JStr ''1970-01-01'') = Some 0" by code_simp
  then show "parse_day (JStr ''1970-01-01'') = Some 0" .
  show "window_from_params 0 [(''date'', JStr ''1970-01-01'')] =
     Inr (projr (window_from_params 0 [(''date'', JStr ''1970-01-01'')]))"
    using d by (simp add: window_from_params_def)
qed (simp_all add: year_bounds)

text \<open>
  An end of range given as the integer 0 is taken as missing, so the query covers the
  whole day; given as the text \<open>0\<close> it covers only the first hour.
\<close>

theorem end_hour_zero_ignored:
  assumes "parse_day v = Some day"
  shows "window_from_params now [(''date'', v), (''endHour'', JInt 0)] =
      Inr \<lparr>start = Some (DT day True), end_at = Some (DT (day + us_per_day - 1) True), since_raw = None, until_raw = None\<rparr>
    \<and> window_from_params now [(''date'', v), (''endHour'', JStr ''0'')] =
      Inr \<lparr>start = Some (DT day True), end_at = Some (DT (day + hour_us - 1) True), since_raw = None, until_raw = None\<rparr>"
proof -
  note d = day_start [OF assms]
  have e: "combine day (end_of_hour 0) = DT (day + hour_us - 1) True"
    unfolding combine_def d by (simp add: end_of_hour_def)
  have h: "parse_hour (JStr ''0'') = Inr (Some (0, True))" by code_simp
  show ?thesis
    using assms by (simp add: window_from_params_def h e day_window_def closing_def)
qed

theorem end_hour_zero_ignored_witness:
  "window_from_params 0 [(''date'', JStr ''1970-01-01''), (''endHour'', JInt 0)] =
      Inr \<lparr>start = Some (DT 0 True), end_at = Some (DT (0 + us_per_day - 1) True), since_raw = None, until_raw = None\<rparr>
    \<and> window_from_params 0 [(''date'', JStr ''1970-01-01''), (''endHour'', JStr ''0'')] =
      Inr \<lparr>start = Some (DT 0 True), end_at = Some (DT (0 + hour_us - 1) True), since_raw = None, until_raw = None\<rparr>"
  by (rule end_hour_zero_ignored) code_simp

text \<open>
  A start given without a UTC offset stays a naive datetime, and comparing any entry
  with it raises a \<open>TypeError\<close> that the filter does not catch.
\<close>

theorem naive_start_breaks_filter:
  assumes "parse_iso v = Some (DT s False)" "v = JStr (t0 # ts0)" "year_start_us \<le> t" "t < year_end_us"
    and "window_from_params now [(''startDate'', v)] = Inr w" "getv rec ''ts'' = JStr (isoformat t)"
  shows "filter_entries now' (rec # recs) w cap = Inl TypeError"
proof -
  have m: "maybe_dt v = Some (DT s False)" using assms(1,2) by (simp add: maybe_dt_def blank_def)
  have "window_from_params now [(''startDate'', v)]
      = Inr \<lparr>start = Some (DT s False), end_at = None, since_raw = None, until_raw = None\<rparr>"
    using m by (simp add: window_from_params_def)
  then have w: "start w = Some (DT s False)" using assms(5) by auto
  have "in_window now' (JStr (isoformat t)) w (entry_msg rec) = Inl TypeError"
    using w by (simp add: in_window_def bounded_def entry_ts_isoformat [OF assms(3,4)] as_utc_def dt_less_def)
  then show ?thesis using w assms(6) by (simp add: filter_entries_def bounded_def)
qed

theorem naive_start_breaks_filter_witness:
  "filter_entries 0 [[(''ts'', JStr (isoformat 5))]]
     (projr (window_from_params 0 [(''startDate'', JStr ''1970-01-01T00:00:00'')])) None = Inl TypeError"
proof (rule naive_start_breaks_filter)
  show "parse_iso (JStr ''1970-01-01T00:00:00'') = Some (DT 0 False)" by code_simp
  show "window_from_params 0 [(''startDate'', JStr ''1970-01-01T00:00:00'')]
     = Inr (projr (window_from_params 0 [(''startDate'', JStr ''1970-01-01T00:00:00'')]))"
    by (simp add: window_from_params_def)
qed (simp_all add: year_bounds)

end
