(* ===== verification/Event_Model.thy ===== *)
theory Event_Model
  imports Protocol
begin

text \<open>
  The unified event of the telemetry, \<^verbatim>\<open>colsoft_tools/event_model.py\<close>, with the
  message that carries it (\<open>make_event_push\<close> of \<^verbatim>\<open>protocol.py\<close>) and the choice of
  the events that go at once over the control channel (\<open>is_control_plane_event\<close> of
  \<^verbatim>\<open>obs_monitors.py\<close>). The description of the host, read once from the platform and the
  cloud, is an argument.
\<close>

section \<open>The envelope\<close>

definition put_text :: "string \<Rightarrow> json \<Rightarrow> dict \<Rightarrow> dict" where
  \<comment> \<open>\<open>if v: d[k] = v\<close>\<close>
  "put_text k v d = (if truthy v then d @ [(k, v)] else d)"

definition put_some :: "string \<Rightarrow> json \<Rightarrow> dict \<Rightarrow> dict" where
  \<comment> \<open>\<open>if v is not None: d[k] = v\<close>\<close>
  "put_some k v d = (if v \<noteq> JNull then d @ [(k, v)] else d)"

definition process_of :: "dict \<Rightarrow> dict" where
  "process_of d =
     put_text ''command_line'' (py_or (py_or (getv d ''command_line'') (getv d ''cmdline'')) (getv d ''exe''))
     (put_text ''name'' (py_or (getv d ''name'') (getv d ''comm''))
     (put_some ''parent'' (getv d ''ppid'')
     (put_some ''pid'' (getv d ''pid'') [])))"

definition detection_of :: "dict \<Rightarrow> dict" where
  "detection_of d =
     put_text ''mitre_technique'' (getv d ''technique'') (put_text ''rule_id'' (getv d ''rule_id'') [])"

definition mentions_process :: "dict \<Rightarrow> bool" where
  "mentions_process d \<longleftrightarrow> getv d ''pid'' \<noteq> JNull \<or> truthy (getv d ''name'') \<or> truthy (getv d ''comm'')
     \<or> truthy (getv d ''cmdline'') \<or> truthy (getv d ''exe'')"

definition set_time :: "int \<Rightarrow> json \<Rightarrow> dict \<Rightarrow> dict" where
  "set_time now timestamp d =
     (let ts = py_or (py_or (py_or timestamp (getv d ''timestamp'')) (getv d ''ts'')) (JStr (isoformat now)) in
      setdefault ''ts'' ts (dset ''timestamp'' ts d))"

definition set_agent :: "json \<Rightarrow> dict \<Rightarrow> dict" where
  "set_agent agent_id d = dput_if (truthy agent_id \<and> \<not> truthy (getv d ''agent_id'')) ''agent_id'' agent_id d"

definition set_tenant :: "json \<Rightarrow> dict \<Rightarrow> dict" where
  "set_tenant tenant_id d =
     (if tenant_id \<noteq> JNull then dset ''tenant_id'' (JStr (py_str tenant_id)) d
      else setdefault ''tenant_id'' (JStr []) d)"

definition set_host :: "dict \<Rightarrow> dict \<Rightarrow> dict" where
  "set_host host d = dput_if (\<not> is_obj (getv d ''host'')) ''host'' (JObj host) d"

definition set_kind :: "dict \<Rightarrow> dict" where
  "set_kind d = setdefault ''severity'' (JStr ''info'')
     (setdefault ''category'' (JStr ''observability'') (setdefault ''event_type'' (JStr ''telemetry'') d))"

text \<open>The fields derived from those of the source.\<close>

definition set_user :: "dict \<Rightarrow> dict" where
  "set_user d = dput_if (\<not> has ''user'' d \<and> truthy (getv d ''username'')) ''user'' (getv d ''username'') d"

definition set_process :: "dict \<Rightarrow> dict" where
  "set_process d = dput_if (\<not> has ''process'' d \<and> mentions_process d \<and> process_of d \<noteq> [])
     ''process'' (JObj (process_of d)) d"

definition set_detection :: "dict \<Rightarrow> dict" where
  "set_detection d = dput_if (\<not> has ''detection'' d \<and> (truthy (getv d ''rule_id'') \<or> truthy (getv d ''technique''))
     \<and> detection_of d \<noteq> []) ''detection'' (JObj (detection_of d)) d"

definition set_network :: "dict \<Rightarrow> dict" where
  "set_network d = setdefault ''network'' (py_or (getv d ''network'') (JObj [])) d"

definition normalize_event :: "dict \<Rightarrow> int \<Rightarrow> json \<Rightarrow> json \<Rightarrow> json \<Rightarrow> json \<Rightarrow> dict" where
  "normalize_event host now agent_id tenant_id timestamp event =
     (set_network \<circ> set_detection \<circ> set_process \<circ> set_user \<circ> set_kind \<circ> set_host host
      \<circ> set_tenant tenant_id \<circ> set_agent agent_id \<circ> set_time now timestamp
      \<circ> setdefault ''schema_version'' (JStr ''1.0''))
     (case event of JObj d \<Rightarrow> d | _ \<Rightarrow> [(''summary'', JStr (py_str event))])"

definition make_event_push :: "dict \<Rightarrow> int \<Rightarrow> json \<Rightarrow> json \<Rightarrow> json \<Rightarrow> json \<Rightarrow> dict" where
  "make_event_push host now agent_id event tenant_id ts =
     (let inner = normalize_event host now agent_id (if tenant_id \<noteq> JNull then tenant_id else JStr []) ts
                    (py_or event (JObj [])) in
      [(''type'', JStr ''event_push''), (''agent_id'', agent_id), (''event'', JObj inner),
       (''ts'', py_or (py_or (getv inner ''timestamp'') ts) (JStr (isoformat now))),
       (''tenant_id'', py_or (getv inner ''tenant_id'') (JStr []))])"

section \<open>The control plane\<close>

definition CONTROL_PLANE_TYPES :: "string list" where
  "CONTROL_PLANE_TYPES = [''health.probe'', ''windows.autorun_change'', ''windows.sysmon'', ''linux.unit_change'']"

definition is_control_plane_event :: "dict \<Rightarrow> bool" where
  "is_control_plane_event event =
     (let et = str_or (getv event ''event_type'') [];
          sev = lower (str_or (getv event ''severity'') []);
          bad = (sev \<in> set [''high'', ''critical'', ''error'']) in
      startswith et ''alert.'' \<or> startswith et ''security.'' \<or> et \<in> set CONTROL_PLANE_TYPES
      \<or> (et = ''windows.eventlog'' \<and> bad) \<or> (et = ''linux.audit'' \<and> bad)
      \<or> (et = ''linux.netlink'' \<and> startswith (str_or (getv event ''change'') []) ''iface_''))"

section \<open>Lemmas\<close>

lemma isoformat_truthy [simp]: "truthy (JStr (isoformat now))"
  using isoformat_nonempty by simp

lemma truthy_py_or [simp]: "truthy (py_or a b) \<longleftrightarrow> truthy a \<or> truthy b"
  by (simp add: py_or_def)

text \<open>Each step writes one field and leaves the others alone.\<close>

named_theorems step_frames \<open>lookups that a step leaves alone\<close>

lemma setdefault_frame [step_frames]: "k \<noteq> k' \<Longrightarrow> map_of (setdefault k' v d) k = map_of d k"
  by (simp add: map_of_setdefault)

lemma stamp_frames [step_frames]:
  "k \<noteq> ''timestamp'' \<Longrightarrow> k \<noteq> ''ts'' \<Longrightarrow> map_of (set_time now ts d) k = map_of d k"
  "k \<noteq> ''agent_id'' \<Longrightarrow> map_of (set_agent a d) k = map_of d k"
  "k \<noteq> ''tenant_id'' \<Longrightarrow> map_of (set_tenant t d) k = map_of d k"
  "k \<noteq> ''host'' \<Longrightarrow> map_of (set_host h d) k = map_of d k"
  "k \<notin> {''event_type'', ''category'', ''severity''} \<Longrightarrow> map_of (set_kind d) k = map_of d k"
  by (simp_all add: set_time_def Let_def set_agent_def set_tenant_def set_host_def set_kind_def
      map_of_setdefault map_of_dput_if)

lemma derive_frames [step_frames]:
  "k \<noteq> ''user'' \<Longrightarrow> map_of (set_user d) k = map_of d k"
  "k \<noteq> ''process'' \<Longrightarrow> map_of (set_process d) k = map_of d k"
  "k \<noteq> ''detection'' \<Longrightarrow> map_of (set_detection d) k = map_of d k"
  "k \<noteq> ''network'' \<Longrightarrow> map_of (set_network d) k = map_of d k"
  by (simp_all add: set_user_def set_process_def set_detection_def set_network_def
      map_of_setdefault map_of_dput_if)

text \<open>What a source field goes through: only four keys can be overwritten.\<close>

lemma steps_keep:
  "map_of d k = Some v \<Longrightarrow> map_of (setdefault k' w d) k = Some v"
  "map_of d k = Some v \<Longrightarrow> k \<noteq> ''timestamp'' \<Longrightarrow> map_of (set_time now ts d) k = Some v"
  "map_of d k = Some v \<Longrightarrow> k = ''agent_id'' \<longrightarrow> truthy v \<Longrightarrow> map_of (set_agent a d) k = Some v"
  "map_of d k = Some v \<Longrightarrow> k \<noteq> ''tenant_id'' \<Longrightarrow> map_of (set_tenant t d) k = Some v"
  "map_of d k = Some v \<Longrightarrow> k = ''host'' \<longrightarrow> is_obj v \<Longrightarrow> map_of (set_host h d) k = Some v"
  "map_of d k = Some v \<Longrightarrow> map_of (set_kind d) k = Some v"
  "map_of d k = Some v \<Longrightarrow> map_of (set_user d) k = Some v"
  "map_of d k = Some v \<Longrightarrow> map_of (set_process d) k = Some v"
  "map_of d k = Some v \<Longrightarrow> map_of (set_detection d) k = Some v"
  "map_of d k = Some v \<Longrightarrow> map_of (set_network d) k = Some v"
  by (auto simp: set_time_def Let_def set_agent_def set_tenant_def set_host_def set_kind_def set_user_def
      set_process_def set_detection_def set_network_def map_of_setdefault map_of_dput_if has_map_of getv_def)

lemma step_posts:
  "truthy (getv (set_time now ts d) ''timestamp'')" "map_of (set_time now ts d) ''ts'' \<noteq> None"
  "t \<noteq> JNull \<Longrightarrow> is_str (getv (set_tenant t d) ''tenant_id'')"
  "is_obj (getv (set_host h d) ''host'')"
  "map_of (set_kind d) ''event_type'' \<noteq> None" "map_of (set_kind d) ''category'' \<noteq> None"
  "map_of (set_kind d) ''severity'' \<noteq> None" "map_of (set_network d) ''network'' \<noteq> None"
  "map_of (setdefault ''schema_version'' v d) ''schema_version'' \<noteq> None"
  by (auto simp: set_time_def Let_def set_tenant_def set_host_def set_kind_def set_network_def
      map_of_setdefault map_of_dput_if getv_def split: option.splits)

lemma getv_frame: "map_of e k = map_of d k \<Longrightarrow> getv e k = getv d k"
  by (simp add: getv_def)

definition pushed :: "dict \<Rightarrow> dict" where
  \<comment> \<open>the event of a message\<close>
  "pushed msg = obj_of (getv msg ''event'')"

lemma pushed_event:
  "pushed (make_event_push host now a event t ts) =
     normalize_event host now a (if t \<noteq> JNull then t else JStr []) ts (py_or event (JObj []))"
  by (simp add: pushed_def make_event_push_def Let_def)

lemma normalize_kept:
  assumes "map_of d k = Some v" "k \<noteq> ''timestamp''" "k \<noteq> ''tenant_id''"
    "k = ''agent_id'' \<longrightarrow> truthy v" "k = ''host'' \<longrightarrow> is_obj v"
  shows "map_of (normalize_event host now a t ts (JObj d)) k = Some v"
  using assms unfolding normalize_event_def o_def json.case by (intro steps_keep)


section \<open>Properties\<close>

text \<open>
  C25: Every event that leaves the agent has the envelope: a time stamp, the schema version, the
  tenant as a text (possibly empty), a host object, and a type, a category and a severity.
\<close>

theorem events_have_envelope:
  "let e = pushed (make_event_push host now a event t ts) in
     truthy (getv e ''timestamp'') \<and> is_str (getv e ''tenant_id'') \<and> is_obj (getv e ''host'')
     \<and> list_all (\<lambda>k. has k e) [''schema_version'', ''ts'', ''event_type'', ''category'', ''severity'', ''network'']"
proof -
  have "(if t \<noteq> JNull then t else JStr []) \<noteq> JNull" by simp
  then show ?thesis
    unfolding Let_def pushed_event normalize_event_def o_def has_map_of getv_def
    by (simp add: step_frames step_posts [unfolded getv_def] del: not_None_eq)
qed

text \<open>
  The envelope drops nothing of the source: every field of the event reaches the backend
  as it was, save the time stamp, the tenant, an empty agent id and a host that is no object.
\<close>

theorem events_keep_source_fields:
  assumes "map_of d k = Some v" "k \<noteq> ''timestamp''" "k \<noteq> ''tenant_id''"
    "k = ''agent_id'' \<longrightarrow> truthy v" "k = ''host'' \<longrightarrow> is_obj v"
  shows "map_of (pushed (make_event_push host now a (JObj d) t ts)) k = Some v"
proof -
  have "d \<noteq> []" using assms(1) by auto
  then show ?thesis using normalize_kept [OF assms] by (simp add: pushed_event)
qed

theorem events_keep_source_fields_witness:
  "map_of (pushed (make_event_push [] 0 (JStr ''a'') (JObj [(''pid'', JInt 7)]) JNull JNull)) ''pid'' = Some (JInt 7)"
  by (rule events_keep_source_fields) (simp_all del: isoformat_truthy)

end
