(* ===== verification/Execute_Tool.thy ===== *)
theory Execute_Tool
  imports Tool_Catalog Security Log_Range
begin

text \<open>
  The tool executor of the agent, \<open>execute_tool\<close> of
  \<^verbatim>\<open>ws_tools_client_embedded.py\<close>: the white list, then one branch per tool, which
  reads the parameters, checks them and calls one function of the collectors. The collectors
  are an argument of the model: a function from the name and the arguments of a call to its
  result. Each family of branches gives \<open>None\<close> for the tools of other families.
\<close>

section \<open>Parameters\<close>

type_synonym collectors = "string \<Rightarrow> dict \<Rightarrow> json res"

definition text_param :: "dict \<Rightarrow> string \<Rightarrow> string \<Rightarrow> string res" where
  \<comment> \<open>\<open>(params.get(a) or params.get(b) or "").strip()\<close>\<close>
  "text_param p a b = str_strip (p3 p a b)"

definition text_or :: "json \<Rightarrow> string \<Rightarrow> string res" where
  \<comment> \<open>\<open>(v or s).strip()\<close>\<close>
  "text_or v s = str_strip (py_or v (JStr s))"

definition int_param :: "dict \<Rightarrow> string \<Rightarrow> int \<Rightarrow> int res" where
  "int_param p k d = py_int (py_or (getv p k) (JInt d))"

definition float_param :: "dict \<Rightarrow> string \<Rightarrow> rat \<Rightarrow> pyfloat res" where
  "float_param p k d = py_float (py_or (getv p k) (JFloat (Fin d)))"

definition or_default :: "'a \<Rightarrow> 'a res \<Rightarrow> 'a res" where
  \<comment> \<open>\<open>except (TypeError, ValueError): return default\<close>\<close>
  "or_default d r = (case r of Inl e \<Rightarrow> if e = TypeError \<or> e = ValueError then Inr d else Inl e | Inr x \<Rightarrow> Inr x)"

fun round_float :: "pyfloat \<Rightarrow> int res" where
  "round_float (Fin q) = Inr (round_half_even q)"
| "round_float NaN = Inl ValueError"
| "round_float _ = Inl OverflowError"

definition param_timeout_s :: "dict \<Rightarrow> int \<Rightarrow> int res" where
  "param_timeout_s params dflt =
     (if getv params ''timeout_ms'' \<noteq> JNull then
        or_default dflt
          (res_bind (py_float (getv params ''timeout_ms'')) (\<lambda>f.
           res_bind (round_float (fscale (1/1000) f)) (\<lambda>n. Inr (max 1 n))))
      else or_default dflt (int_param params ''timeout'' dflt))"

definition truncate_text :: "json \<Rightarrow> int \<Rightarrow> string" where
  \<comment> \<open>\<open>_truncate\<close>\<close>
  "truncate_text v max_chars =
     (if v = JNull then []
      else (let s = py_str v in
        if max_chars > 0 \<and> int (length s) > max_chars
        then take (nat max_chars) s @ [NL] @ ''...[truncated to '' @ int_str max_chars @ '' chars]''
        else s))"

definition refused :: "string \<Rightarrow> string \<Rightarrow> json res" where
  "refused tool why = Inr (JObj [(''tool'', JStr tool), (''status'', JStr ''ERROR''), (''error'', JStr why)])"

definition tagged :: "string \<Rightarrow> json \<Rightarrow> json" where
  "tagged tool v = (case v of JObj d \<Rightarrow> JObj (dset ''tool'' (JStr tool) d) | _ \<Rightarrow> v)"

definition ping_reply :: "int \<Rightarrow> string \<Rightarrow> json \<Rightarrow> json" where
  "ping_reply max_chars tool v =
     (case v of
        JObj d \<Rightarrow>
         (let d = dset ''output'' (JStr (truncate_text (getv d ''output'') max_chars)) d;
              d = (if truthy (getv d ''error'')
                   then dset ''error'' (JStr (truncate_text (getv d ''error'') max_chars)) d else d);
              d = (if \<not> truthy (getv d ''status'')
                   then dset ''status'' (JStr (if getv d ''success'' = JBool True then ''UP'' else ''DOWN'')) d else d) in
          JObj (dset ''tool'' (JStr tool) d))
      | _ \<Rightarrow> v)"

section \<open>Network diagnostics\<close>

definition run_ping :: "collectors \<Rightarrow> int \<Rightarrow> dict \<Rightarrow> json res" where
  "run_ping call max_chars p =
     res_bind (text_param p ''host'' ''target'') (\<lambda>host.
     res_bind (int_param p ''count'' 3) (\<lambda>count.
     res_bind (param_timeout_s p 15) (\<lambda>timeout.
       if host = [] then refused ''ping'' ''Missing host''
       else res_bind (call ''ping_host'' [(''host'', JStr host), (''count'', JInt count), (''timeout'', JInt timeout)])
         (\<lambda>r. Inr (ping_reply max_chars ''ping'' r)))))"

definition run_http_get :: "collectors \<Rightarrow> dict \<Rightarrow> json res" where
  "run_http_get call p =
     res_bind (text_param p ''url'' ''target'') (\<lambda>url.
     res_bind (param_timeout_s p 10) (\<lambda>timeout.
       if url = [] \<or> \<not> (startswith url ''http://'' \<or> startswith url ''https://'')
       then refused ''http_get'' ''Invalid url (must start with http:// or https://)''
       else res_bind (call ''check_http_service'' [(''url'', JStr url), (''timeout'', JInt timeout)])
         (\<lambda>r. Inr (tagged ''http_get'' r))))"

definition run_tcp_connect :: "collectors \<Rightarrow> dict \<Rightarrow> json res" where
  "run_tcp_connect call p =
     res_bind (text_param p ''host'' ''target'') (\<lambda>host.
     res_bind (int_param p ''port'' 0) (\<lambda>port.
     res_bind (param_timeout_s p 3) (\<lambda>timeout.
       if host = [] \<or> port \<le> 0 \<or> port > 65535 then refused ''tcp_connect'' ''Invalid host/port''
       else res_bind (call ''check_tcp_port'' [(''host'', JStr host), (''port'', JInt port), (''timeout'', JInt timeout)])
         (\<lambda>r. Inr (tagged ''tcp_connect'' r)))))"

definition run_dns :: "collectors \<Rightarrow> string \<Rightarrow> dict \<Rightarrow> json res" where
  "run_dns call tool p =
     (if tool = ''dns_resolve'' then
        res_bind (text_param p ''host'' ''target'') (\<lambda>host.
          if host = [] then refused tool ''Missing host''
          else res_bind (call ''resolve_dns'' [(''target'', JStr host)]) (\<lambda>r. Inr (tagged tool r)))
      else
        res_bind (text_param p ''hostname'' ''host'') (\<lambda>hostname.
        res_bind (text_or (py_or (getv p ''record_type'') (getv p ''type'')) ''A'') (\<lambda>record_type.
          if hostname = [] then refused tool ''Missing hostname''
          else res_bind (call ''dns_lookup'' [(''hostname'', JStr hostname), (''record_type'', JStr record_type)])
            (\<lambda>r. Inr (tagged tool r)))))"

definition run_traceroute :: "collectors \<Rightarrow> dict \<Rightarrow> json res" where
  "run_traceroute call p =
     res_bind (text_param p ''target'' ''host'') (\<lambda>target.
     res_bind (int_param p ''max_hops'' 30) (\<lambda>max_hops.
     res_bind (if getv p ''timeout_ms'' \<noteq> JNull \<or> truthy (getv p ''timeout'')
               then res_bind (param_timeout_s p 120) (\<lambda>t. res_bind (py_float (JInt t)) (\<lambda>f. Inr (JFloat f)))
               else Inr (JInt 0)) (\<lambda>timeout.
       if target = [] then refused ''traceroute'' ''Missing target''
       else res_bind (call ''traceroute'' [(''target'', JStr target), (''max_hops'', JInt max_hops), (''timeout'', timeout)])
         (\<lambda>r. Inr (tagged ''traceroute'' r)))))"

definition run_tls :: "collectors \<Rightarrow> dict \<Rightarrow> json res" where
  "run_tls call p =
     res_bind (text_param p ''host'' ''target'') (\<lambda>target.
     res_bind (param_timeout_s p 8) (\<lambda>timeout.
       if target = [] then refused ''tls'' ''Missing host/target''
       else res_bind (call ''check_tls_certificate'' [(''target'', JStr target), (''timeout'', JInt timeout)])
         (\<lambda>r. Inr (tagged ''tls'' r))))"

definition network_tool :: "collectors \<Rightarrow> int \<Rightarrow> string \<Rightarrow> dict \<Rightarrow> json res option" where
  "network_tool call max_chars tool p =
     (if tool = ''ping'' then Some (run_ping call max_chars p)
      else if tool = ''http_get'' then Some (run_http_get call p)
      else if tool = ''tcp_connect'' then Some (run_tcp_connect call p)
      else if tool = ''dns_resolve'' \<or> tool = ''dns_lookup'' then Some (run_dns call tool p)
      else if tool = ''traceroute'' then Some (run_traceroute call p)
      else if tool = ''tls'' then Some (run_tls call p)
      else None)"

section \<open>Observability\<close>

definition config_checks :: "dict \<Rightarrow> json res" where
  \<comment> \<open>\<open>((config or {}).get("health_probes") or {}).get("checks") or []\<close>\<close>
  "config_checks config =
     res_bind (py_get (py_or (getv config ''health_probes'') (JObj [])) ''checks'') (\<lambda>c. Inr (py_or c (JList [])))"

definition observability_tool :: "collectors \<Rightarrow> dict \<Rightarrow> string \<Rightarrow> dict \<Rightarrow> json res option" where
  "observability_tool call config tool p =
     (if tool = ''system_metrics'' then Some
        (res_bind (float_param p ''cpu_interval'' (1/2)) (\<lambda>c.
         call ''get_system_metrics'' [(''cpu_interval'', JFloat c)]))
      else if tool = ''process_list'' then Some
        (res_bind (int_param p ''limit'' 300) (\<lambda>n.
         call ''get_process_list'' [(''name_filter'', py_or (getv p ''filter'') (getv p ''name'')), (''limit'', JInt n)]))
      else if tool = ''service_status'' then Some
        (res_bind (text_param p ''service_name'' ''name'') (\<lambda>s.
         call ''get_service_status'' [(''service_name'', if s = [] then JNull else JStr s)]))
      else if tool = ''network_connections'' then Some
        (res_bind (text_or (getv p ''kind'') ''inet'') (\<lambda>k.
         call ''get_network_connections'' [(''kind'', JStr k)]))
      else if tool = ''installed_software'' then Some
        (res_bind (int_param p ''max_hash'' 40) (\<lambda>n.
         call ''get_installed_software'' [(''include_hash'', JBool (truthy (getv p ''include_hash''))), (''max_hash'', JInt n)]))
      else if tool = ''hardware_inventory'' then Some (call ''get_hardware_inventory'' [])
      else if tool = ''health_probes'' then Some
        (res_bind (if is_list (getv p ''checks'') then Inr (getv p ''checks'') else config_checks config) (\<lambda>c.
         call ''run_health_probes'' [(''checks'', c)]))
      else if tool = ''disk_usage'' then Some (call ''get_disk_usage'' [])
      else if tool = ''file_hash'' then Some
        (res_bind (text_or (getv p ''path'') []) (\<lambda>path.
         res_bind (text_or (py_or (getv p ''algo'') (getv p ''algorithm'')) ''sha256'') (\<lambda>algo.
           if path = [] then refused tool ''Missing path''
           else call ''get_file_hash'' [(''path'', JStr path), (''algo'', JStr algo)])))
      else if tool = ''system_log'' then Some
        (res_bind (int_param p ''max_lines'' 500) (\<lambda>n.
         call ''get_system_log''
           ([(''source'', py_or (py_or (getv p ''source'') (getv p ''filter'')) (JStr ''system'')),
             (''level'', py_or (getv p ''level'') (JStr ''warning'')), (''max_lines'', JInt n)] @ time_kwargs p)))
      else if tool = ''forensic_snapshot'' then Some (call ''collect_forensic_snapshot'' [])
      else if tool = ''collect_file'' then Some
        (res_bind (text_or (getv p ''path'') []) (\<lambda>path.
           if path = [] then refused tool ''Missing path''
           else call ''collect_file'' [(''path'', JStr path), (''max_size_mb'', py_or (getv p ''max_size_mb'') (JFloat (Fin 10)))]))
      else None)"

section \<open>Endpoint security\<close>

definition fim_paths :: "dict \<Rightarrow> dict \<Rightarrow> json" where
  "fim_paths config p =
     (if is_list (getv p ''paths'') then getv p ''paths''
      else (case getv (obj_of (getv config ''security'')) ''fim'' of
          JObj fim \<Rightarrow> getv fim ''paths'' | _ \<Rightarrow> JNull))"

definition security_tool :: "collectors \<Rightarrow> dict \<Rightarrow> string \<Rightarrow> dict \<Rightarrow> json res option" where
  "security_tool call config tool p =
     (if tool = ''fim_scan'' then Some (call ''fim_scan'' [(''paths'', fim_paths config p)])
      else if tool = ''persistence_scan'' then Some (call ''persistence_scan'' [])
      else if tool = ''auth_audit'' then Some
        (res_bind (int_param p ''max_entries'' 80) (\<lambda>n. call ''auth_audit'' [(''max_entries'', JInt n)]))
      else if tool = ''detection_scan'' then Some (call ''detection_scan'' [])
      else if tool = ''cis_score'' then Some (call ''cis_score'' [])
      else if tool = ''cve_inventory'' then Some
        (res_bind (int_param p ''max_hash'' 20) (\<lambda>n.
         call ''cve_inventory'' [(''include_hash'', JBool (truthy (getv p ''include_hash''))), (''max_hash'', JInt n)]))
      else if tool = ''rootkit_check'' then Some (call ''rootkit_check'' [])
      else if tool = ''dns_monitor'' then Some (call ''dns_monitor'' [])
      else None)"

section \<open>Windows and Linux\<close>

definition EVENT_LOG_MAX_DEFAULT :: int where "EVENT_LOG_MAX_DEFAULT = 50"

definition windows_tool :: "collectors \<Rightarrow> string \<Rightarrow> dict \<Rightarrow> json res option" where
  "windows_tool call tool p =
     (if tool = ''windows_event_log'' then Some
        (if truthy (getv p ''bundle'') then
           res_bind (int_param p ''max_events'' 20) (\<lambda>n.
           call ''windows_event_log_bundle'' ((''max_per_channel'', JInt n) # time_kwargs p))
         else
           res_bind (int_param p ''max_events'' EVENT_LOG_MAX_DEFAULT) (\<lambda>n.
           call ''windows_event_log''
             ([(''channel'', JStr (str_or (py_or (getv p ''channel'') (getv p ''source'')) ''Security'')),
               (''max_events'', JInt n)] @ time_kwargs p)))
      else if tool = ''windows_etw'' then Some
        (res_bind (int_param p ''max_providers'' 80) (\<lambda>n. call ''windows_etw'' [(''max_providers'', JInt n)]))
      else if tool = ''windows_autoruns'' then Some (call ''windows_autoruns'' [])
      else if tool = ''windows_wmi'' then Some
        (res_bind (int_param p ''max_rows'' 40) (\<lambda>n.
         call ''windows_wmi''
           [(''class_name'', JStr (str_or (py_or (getv p ''class_name'') (getv p ''class'')) ''Win32_OperatingSystem'')),
            (''max_rows'', JInt n)]))
      else if tool = ''windows_scheduled_tasks'' then Some
        (res_bind (int_param p ''max_tasks'' 120) (\<lambda>n. call ''windows_scheduled_tasks'' [(''max_tasks'', JInt n)]))
      else if tool = ''windows_sysmon'' then Some
        (res_bind (int_param p ''max_events'' 30) (\<lambda>n. call ''windows_sysmon'' [(''max_events'', JInt n)]))
      else if tool = ''windows_defender'' then Some (call ''windows_defender'' [])
      else None)"

definition linux_tool :: "collectors \<Rightarrow> string \<Rightarrow> dict \<Rightarrow> json res option" where
  "linux_tool call tool p =
     (if tool = ''linux_ebpf'' then Some
        (res_bind (int_param p ''max_programs'' 40) (\<lambda>n. call ''linux_ebpf'' [(''max_programs'', JInt n)]))
      else if tool = ''linux_auditd'' then Some
        (res_bind (int_param p ''max_events'' 40) (\<lambda>n.
         call ''linux_auditd'' ((''max_events'', JInt n) # time_kwargs p)))
      else if tool = ''linux_syslog'' then Some
        (if truthy (getv p ''bundle'') then
           res_bind (py_int (py_or (py_or (getv p ''max_lines'') (getv p ''max_events'')) (JInt 20))) (\<lambda>n.
           call ''linux_syslog_bundle'' ((''max_per_channel'', JInt n) # time_kwargs p))
         else
           res_bind (int_param p ''max_lines'' 80) (\<lambda>n.
           call ''linux_syslog''
             ([(''source'', JStr (str_or (py_or (getv p ''source'') (getv p ''filter'')) ''syslog'')),
               (''max_lines'', JInt n)] @ time_kwargs p)))
      else if tool = ''linux_proc_metrics'' then Some
        (res_bind (float_param p ''cpu_interval'' (15/100)) (\<lambda>c.
         call ''linux_proc_metrics'' [(''cpu_interval'', JFloat c)]))
      else if tool = ''linux_netlink'' then Some
        (res_bind (int_param p ''max_ifaces'' 32) (\<lambda>n. call ''linux_netlink'' [(''max_ifaces'', JInt n)]))
      else if tool = ''linux_systemd_units'' then Some
        (res_bind (int_param p ''max_units'' 400) (\<lambda>n.
         res_bind (int_param p ''max_timers'' 200) (\<lambda>k.
         call ''linux_systemd_units'' [(''max_units'', JInt n), (''max_timers'', JInt k)])))
      else if tool = ''linux_lsm'' then Some (call ''linux_lsm'' [])
      else if tool = ''linux_packages'' then Some
        (res_bind (int_param p ''max_hash'' 20) (\<lambda>n.
         res_bind (int_param p ''max_packages'' 400) (\<lambda>k.
         call ''linux_packages'' [(''include_hash'', JBool (truthy (getv p ''include_hash''))),
           (''max_hash'', JInt n), (''max_packages'', JInt k)])))
      else None)"

section \<open>Remediation\<close>

definition service_action :: "string \<Rightarrow> string" where
  "service_action tool =
     (if tool = ''start_service'' then ''start'' else if tool = ''stop_service'' then ''stop'' else ''restart'')"

definition run_kill_process :: "collectors \<Rightarrow> dict \<Rightarrow> json res" where
  "run_kill_process call p =
     res_bind (if getv p ''timeout'' = JNull \<and> getv p ''timeout_ms'' \<noteq> JNull
               then res_bind (py_float (getv p ''timeout_ms'')) (\<lambda>f. Inr (JFloat (fscale (1/1000) f)))
               else Inr (getv p ''timeout'')) (\<lambda>t.
     res_bind (py_float (if t \<noteq> JNull then t else JInt 5)) (\<lambda>timeout.
       call ''kill_process'' [(''pid'', getv p ''pid''), (''name'', getv p ''name''),
         (''force'', JBool (truthy (getv p ''force''))), (''timeout'', JFloat timeout)]))"

definition run_service :: "collectors \<Rightarrow> string \<Rightarrow> dict \<Rightarrow> json res" where
  "run_service call tool p =
     res_bind (text_param p ''service_name'' ''name'') (\<lambda>s.
       if s = [] then refused tool ''Missing service_name''
       else call ''control_service'' [(''action'', JStr (service_action tool)), (''service_name'', JStr s)])"

definition run_firewall :: "collectors \<Rightarrow> string \<Rightarrow> dict \<Rightarrow> json res" where
  "run_firewall call tool p =
     res_bind (text_or (getv p ''ip'') []) (\<lambda>ip.
     res_bind (text_or (getv p ''direction'') ''input'') (\<lambda>direction.
       if ip = [] then refused tool ''Missing ip''
       else call tool [(''ip'', JStr ip), (''direction'', JStr (lower direction))]))"

definition run_isolate :: "collectors \<Rightarrow> dict \<Rightarrow> dict \<Rightarrow> json res" where
  "run_isolate call config p =
     res_bind (if truthy (getv p ''manager_host'') then Inr (getv p ''manager_host'')
               else call ''manager_host_from_config'' [(''config'', JObj config)]) (\<lambda>host.
       call ''isolate_host'' [(''reason'', getv p ''reason''),
         (''duration'', py_or (getv p ''duration'') (getv p ''duration_seconds'')), (''manager_host'', host)])"

text \<open>The script is looked up again in the signed catalogue.\<close>

definition script_missing :: "string \<Rightarrow> string" where
  "script_missing script_id =
     (if script_id \<noteq> []
      then ''run_script rechazado: script_id no est'' @ [CHR 0xE1] @ '' en el cat'' @ [CHR 0xE1] @ ''logo firmado local''
      else ''run_script rechazado: falta script_id (nunca se ejecuta c'' @ [CHR 0xF3] @ ''digo del payload)'')"

definition run_run_script :: "collectors \<Rightarrow> (string \<Rightarrow> string option) \<Rightarrow> int \<Rightarrow> dict \<Rightarrow> dict \<Rightarrow> json res" where
  \<comment> \<open>\<open>scripts\<close> is the catalogue lookup with the configuration\<close>
  "run_run_script call scripts max_chars config p =
     res_bind (text_or (getv p ''script_id'') []) (\<lambda>script_id.
       case (if config = [] then None else scripts script_id) of
         None \<Rightarrow> refused ''run_script'' (script_missing script_id)
       | Some path \<Rightarrow>
           if path = [] then refused ''run_script'' (script_missing script_id)
           else res_bind (py_float (py_or (getv p ''timeout'') (JInt 120))) (\<lambda>t.
             call ''execute_script'' [(''script_path'', JStr path), (''args'', getv p ''args''),
               (''timeout'', JFloat t), (''max_chars'', JInt max_chars)]))"

definition remediation_tool ::
  "collectors \<Rightarrow> (string \<Rightarrow> string option) \<Rightarrow> int \<Rightarrow> dict \<Rightarrow> string \<Rightarrow> dict \<Rightarrow> json res option" where
  "remediation_tool call scripts max_chars config tool p =
     (if tool = ''kill_process'' then Some (run_kill_process call p)
      else if tool = ''start_service'' \<or> tool = ''stop_service'' \<or> tool = ''restart_service''
        then Some (run_service call tool p)
      else if tool = ''block_ip'' \<or> tool = ''unblock_ip'' then Some (run_firewall call tool p)
      else if tool = ''isolate_host'' then Some (run_isolate call config p)
      else if tool = ''restore_isolation'' then Some (call tool [])
      else if tool = ''run_script'' then Some (run_run_script call scripts max_chars config p)
      else None)"

definition admin_tool :: "collectors \<Rightarrow> int \<Rightarrow> dict \<Rightarrow> json \<Rightarrow> string \<Rightarrow> dict \<Rightarrow> json res option" where
  "admin_tool call max_chars config config_file tool p =
     (if tool = ''update_config'' then Some
        (call tool [(''config'', JObj config), (''config_file'', config_file), (''params'', JObj p)])
      else if tool = ''trigger_update'' then Some
        (call tool [(''config'', JObj config), (''params'', JObj p), (''max_chars'', JInt max_chars)])
      else if tool = ''restart_agent'' then Some (call tool [(''params'', JObj p)])
      else if tool = ''health_check'' then Some (call tool [(''config'', JObj config), (''config_file'', config_file)])
      else None)"

section \<open>The executor\<close>

record executor =
  call :: collectors
  scripts :: "string \<Rightarrow> string option"
  max_chars :: int
  config :: dict
  config_file :: json

definition tool_handler :: "executor \<Rightarrow> string \<Rightarrow> dict \<Rightarrow> json res option" where
  "tool_handler x tool p =
     first_some
       [network_tool (call x) (max_chars x) tool p,
        observability_tool (call x) (config x) tool p,
        security_tool (call x) (config x) tool p,
        windows_tool (call x) tool p,
        linux_tool (call x) tool p,
        remediation_tool (call x) (scripts x) (max_chars x) (config x) tool p,
        admin_tool (call x) (max_chars x) (config x) (config_file x) tool p]"

definition execute_tool :: "executor \<Rightarrow> string \<Rightarrow> dict \<Rightarrow> json res" where
  "execute_tool x tool0 p =
     (let tool = resolve_command (strip tool0) in
      if tool \<notin> set ALLOWED_TOOLS then refused tool (''Tool no permitido: '' @ tool)
      else (case tool_handler x tool p of Some r \<Rightarrow> r | None \<Rightarrow> refused tool ''Unhandled tool''))"

section \<open>Lemmas\<close>

lemmas family_defs = network_tool_def observability_tool_def security_tool_def windows_tool_def
  linux_tool_def remediation_tool_def admin_tool_def

definition FAMILIES :: "string list list" where
  "FAMILIES = [NETWORK_TOOLS, OBSERVABILITY_TOOLS, SECURITY_TOOLS, WINDOWS_TOOLS, LINUX_TOOLS,
     REMEDIATION_TOOLS, ADMIN_TOOLS]"

lemma network_handled: "network_tool c n tool p = None \<Longrightarrow> tool \<notin> set NETWORK_TOOLS"
  unfolding network_tool_def NETWORK_TOOLS_def by (simp split: if_split_asm)

lemma observability_handled: "observability_tool c f tool p = None \<Longrightarrow> tool \<notin> set OBSERVABILITY_TOOLS"
  unfolding observability_tool_def OBSERVABILITY_TOOLS_def by (simp split: if_split_asm)

lemma security_handled:
  "security_tool c f tool p = None \<Longrightarrow>
     tool \<notin> set SECURITY_TOOLS - {''windows_sysmon'', ''windows_defender'', ''linux_lsm''}"
  unfolding security_tool_def SECURITY_TOOLS_def by (simp split: if_split_asm) blast

lemma windows_handled: "windows_tool c tool p = None \<Longrightarrow> tool \<notin> set WINDOWS_TOOLS \<union> {''windows_sysmon'', ''windows_defender''}"
  unfolding windows_tool_def WINDOWS_TOOLS_def by (simp split: if_split_asm)

lemma linux_handled: "linux_tool c tool p = None \<Longrightarrow> tool \<notin> set LINUX_TOOLS \<union> {''linux_lsm''}"
  unfolding linux_tool_def LINUX_TOOLS_def by (simp split: if_split_asm)

lemma remediation_handled: "remediation_tool c s n f tool p = None \<Longrightarrow> tool \<notin> set REMEDIATION_TOOLS"
  unfolding remediation_tool_def REMEDIATION_TOOLS_def by (simp split: if_split_asm)

lemma admin_handled: "admin_tool c n f cf tool p = None \<Longrightarrow> tool \<notin> set ADMIN_TOOLS"
  unfolding admin_tool_def ADMIN_TOOLS_def by (simp split: if_split_asm)

lemma tool_handler_None:
  assumes "tool_handler x tool p = None"
  shows "tool \<notin> set ALLOWED_TOOLS"
proof -
  have n: "network_tool (call x) (max_chars x) tool p = None"
    "observability_tool (call x) (config x) tool p = None" "security_tool (call x) (config x) tool p = None"
    "windows_tool (call x) tool p = None" "linux_tool (call x) tool p = None"
    "remediation_tool (call x) (scripts x) (max_chars x) (config x) tool p = None"
    "admin_tool (call x) (max_chars x) (config x) (config_file x) tool p = None"
    using assms by (simp_all add: tool_handler_def first_some_None)
  have "tool \<notin> {''windows_sysmon'', ''windows_defender'', ''linux_lsm''}"
    using windows_handled [OF n(4)] linux_handled [OF n(5)] by simp
  then show ?thesis
    using network_handled [OF n(1)] observability_handled [OF n(2)] security_handled [OF n(3)]
      windows_handled [OF n(4)] linux_handled [OF n(5)] remediation_handled [OF n(6)] admin_handled [OF n(7)]
    unfolding ALLOWED_TOOLS_def set_append Diff_iff Un_iff by simp
qed

text \<open>The calls that the executor may make: what its checks establish of the arguments.\<close>

definition text_arg :: "dict \<Rightarrow> string \<Rightarrow> bool" where
  "text_arg a k \<longleftrightarrow> is_str (getv a k) \<and> getv a k \<noteq> JStr []"

definition url_arg :: "json \<Rightarrow> bool" where
  "url_arg v = (case v of JStr s \<Rightarrow> startswith s ''http://'' \<or> startswith s ''https://'' | _ \<Rightarrow> False)"

definition port_arg :: "json \<Rightarrow> bool" where
  "port_arg v = (case v of JInt n \<Rightarrow> 0 < n \<and> n \<le> 65535 | _ \<Rightarrow> False)"

definition valid_call :: "string \<Rightarrow> dict \<Rightarrow> bool" where
  "valid_call name a =
     (if name \<in> set [''ping_host'', ''check_tcp_port''] then text_arg a ''host'' \<and> (name = ''ping_host'' \<or> port_arg (getv a ''port''))
      else if name = ''check_http_service'' then url_arg (getv a ''url'')
      else if name \<in> set [''resolve_dns'', ''traceroute'', ''check_tls_certificate''] then text_arg a ''target''
      else if name = ''dns_lookup'' then text_arg a ''hostname''
      else if name \<in> set [''get_file_hash'', ''collect_file''] then text_arg a ''path''
      else if name = ''control_service'' then text_arg a ''service_name'' \<and>
        getv a ''action'' \<in> {JStr ''start'', JStr ''stop'', JStr ''restart''}
      else if name \<in> set [''block_ip'', ''unblock_ip''] then text_arg a ''ip''
      else if name = ''execute_script'' then text_arg a ''script_path''
      else True)"

definition agree :: "collectors \<Rightarrow> collectors \<Rightarrow> bool" where
  "agree c d \<longleftrightarrow> (\<forall>name a. valid_call name a \<longrightarrow> c name a = d name a)"

lemma agreeD: "agree c d \<Longrightarrow> valid_call name a \<Longrightarrow> c name a = d name a"
  by (simp add: agree_def)

lemmas arg_defs = valid_call_def text_arg_def url_arg_def port_arg_def

lemma res_bind_cong: "r = r' \<Longrightarrow> (\<And>x. f x = g x) \<Longrightarrow> res_bind r f = res_bind r' g"
  by (cases r') simp_all

lemma run_agree:
  assumes "agree c d"
  shows "run_ping c n p = run_ping d n p" "run_http_get c p = run_http_get d p"
    "run_tcp_connect c p = run_tcp_connect d p" "run_dns c tool p = run_dns d tool p"
    "run_traceroute c p = run_traceroute d p" "run_tls c p = run_tls d p"
    "run_service c tool p = run_service d tool p"
    "run_run_script c s n f p = run_run_script d s n f p"
    "run_isolate c f p = run_isolate d f p" "run_kill_process c p = run_kill_process d p"
  unfolding run_ping_def run_http_get_def run_tcp_connect_def run_dns_def run_traceroute_def run_tls_def
    run_service_def run_run_script_def run_isolate_def run_kill_process_def
  by (intro res_bind_cong refl if_cong option.case_cong;
      simp add: agreeD [OF assms] arg_defs service_action_def)+

lemma run_firewall_agree:
  assumes "agree c d" "tool = ''block_ip'' \<or> tool = ''unblock_ip''"
  shows "run_firewall c tool p = run_firewall d tool p"
  unfolding run_firewall_def
  by (intro res_bind_cong refl if_cong; use assms(2) in \<open>auto simp: agreeD [OF assms(1)] arg_defs\<close>)

lemma family_agree:
  assumes "agree c d"
  shows "network_tool c n tool p = network_tool d n tool p"
    "observability_tool c f tool p = observability_tool d f tool p"
    "security_tool c f tool p = security_tool d f tool p"
    "windows_tool c tool p = windows_tool d tool p" "linux_tool c tool p = linux_tool d tool p"
    "remediation_tool c s n f tool p = remediation_tool d s n f tool p"
    "admin_tool c n f cf tool p = admin_tool d n f cf tool p"
  unfolding family_defs
  by (intro if_cong refl arg_cong [of _ _ Some] res_bind_cong;
      simp add: agreeD [OF assms] arg_defs run_agree [OF assms] run_firewall_agree [OF assms])+

section \<open>Result summaries\<close>

definition fld :: "dict \<Rightarrow> string \<Rightarrow> string" where
  "fld d k = py_str (getv d k)"

definition py_len :: "json \<Rightarrow> nat res" where
  "py_len v = (case v of JList xs \<Rightarrow> Inr (length xs) | JStr s \<Rightarrow> Inr (length s) | JObj d \<Rightarrow> Inr (length d) | _ \<Rightarrow> Inl TypeError)"

definition len_or :: "dict \<Rightarrow> string \<Rightarrow> string res" where
  \<comment> \<open>\<open>len(result.get(k) or [])\<close>\<close>
  "len_or d k = res_bind (py_len (py_or (getv d k) (JList []))) (\<lambda>n. Inr (nat_digits n))"

definition sub_or :: "dict \<Rightarrow> string \<Rightarrow> string \<Rightarrow> string res" where
  \<comment> \<open>\<open>(result.get(k) or {}).get(j)\<close>\<close>
  "sub_or d k j = res_bind (py_get (py_or (getv d k) (JObj [])) j) (\<lambda>v. Inr (py_str v))"

definition result_summary :: "string \<Rightarrow> json \<Rightarrow> string res" where
  "result_summary tool result =
    (case result of
      JObj d \<Rightarrow>
       (if truthy (getv d ''error'') then Inr (''error='' @ truncate_text (JStr (fld d ''error'')) 120) else
        let t = py_or (getv d ''tool'') (JStr tool);
            st = ''estado='' @ fld d ''status'';
            isin = (\<lambda>ts. t \<in> set (map JStr ts)) in
        if isin [''ping''] then Inr (''success='' @ fld d ''success'' @ '' status='' @ fld d ''status'')
        else if isin [''http'', ''http_check'', ''http_get''] then Inr (''http_status='' @ fld d ''status_code'' @ '' '' @ st)
        else if isin [''tcp'', ''tcp_check'', ''tcp_connect''] then Inr (st @ '' tiempo='' @ fld d ''response_time'')
        else if isin [''dns'', ''dns_resolve''] then res_bind (len_or d ''ips'') (\<lambda>n. Inr (st @ '' ips='' @ n))
        else if isin [''dns_lookup''] then res_bind (len_or d ''answers'') (\<lambda>n.
          Inr (st @ '' record_type='' @ fld d ''record_type'' @ '' respuestas='' @ n))
        else if isin [''traceroute''] then res_bind (len_or d ''hops'') (\<lambda>n.
          Inr (st @ '' saltos='' @ n @ '' destino='' @ fld d ''target''))
        else if isin [''collect_file''] then
          Inr (st @ '' bytes='' @ fld d ''content_bytes'' @ '' truncado='' @ fld d ''truncated'' @ '' sha256='' @ fld d ''sha256'')
        else if isin [''tls'', ''tls_check''] then Inr (st @ '' handshake_s='' @ fld d ''handshake_time'')
        else if isin [''system_metrics''] then
          res_bind (sub_or d ''cpu'' ''percent'') (\<lambda>c. res_bind (sub_or d ''memory'' ''percent'') (\<lambda>m.
            Inr (st @ '' cpu='' @ c @ ''% mem='' @ m @ ''%'')))
        else if isin [''process_list'', ''installed_software''] then
          Inr (st @ '' count='' @ fld d ''count''
            @ (if t = JStr ''installed_software'' \<and> getv d ''hashed'' \<noteq> JNull then '' hashed='' @ fld d ''hashed'' else []))
        else if isin [''hardware_inventory''] then res_bind (sub_or d ''cpu'' ''logical_cores'') (\<lambda>c.
          Inr (st @ '' host='' @ fld d ''hostname'' @ '' cores='' @ c))
        else if isin [''health_probes''] then Inr (st @ '' checks='' @ fld d ''count'' @ '' down='' @ fld d ''down'')
        else if isin [''service_status''] then
          Inr (st @ (if truthy (getv d ''service_name'')
            then '' service='' @ fld d ''service_name'' @ '' active='' @ fld d ''active_state'' @ '' sub='' @ fld d ''sub_state''
            else '' count='' @ fld d ''count''))
        else if isin [''start_service'', ''stop_service'', ''restart_service''] then
          Inr (st @ '' action='' @ fld d ''action'' @ '' service='' @ fld d ''service_name'' @ '' active='' @ fld d ''active_state'')
        else if isin [''block_ip'', ''unblock_ip''] then
          Inr (st @ '' action='' @ fld d ''action'' @ '' ip='' @ fld d ''ip'' @ '' dir='' @ fld d ''direction'')
        else if isin [''network_connections''] then Inr (st @ '' conexiones='' @ fld d ''count'')
        else if isin [''disk_usage''] then res_bind (len_or d ''disks'') (\<lambda>n. Inr (st @ '' discos='' @ n))
        else if isin [''file_hash''] then Inr (st @ '' hash='' @ fld d ''hash'')
        else if isin [''system_log''] then Inr (st @ '' lineas='' @ fld d ''count'')
        else if isin [''forensic_snapshot''] then Inr (st @ '' completado_en='' @ fld d ''completed_at'')
        else if isin [''fim_scan''] then Inr (st @ '' archivos='' @ fld d ''count'')
        else if isin [''persistence_scan''] then Inr (st @ '' items='' @ fld d ''count'')
        else if isin [''auth_audit''] then Inr (st @ '' eventos='' @ fld d ''count'')
        else if isin [''detection_scan''] then Inr (st @ '' detecciones='' @ fld d ''count'')
        else if isin [''cis_score''] then
          Inr (st @ '' score='' @ fld d ''score'' @ '' passed='' @ fld d ''passed'' @ ''/'' @ fld d ''total'')
        else if isin [''cve_inventory''] then Inr (st @ '' paquetes='' @ fld d ''count'')
        else if isin [''rootkit_check''] then Inr (st @ '' hallazgos='' @ fld d ''count'')
        else if isin [''dns_monitor''] then Inr (st @ '' consultas='' @ fld d ''count'')
        else if isin [''windows_event_log'', ''linux_auditd'', ''linux_syslog'', ''windows_autoruns'', ''windows_sysmon'']
          then Inr (st @ '' count='' @ fld d ''count'')
        else if isin [''windows_etw''] then
          Inr (st @ '' providers='' @ py_str (py_or (getv d ''count'') (getv d ''provider_count'')))
        else if isin [''windows_wmi''] then
          Inr (st @ '' class='' @ py_str (py_or (getv d ''class_name'') (getv d ''class'')) @ '' rows='' @ fld d ''count'')
        else if isin [''windows_scheduled_tasks''] then Inr (st @ '' tasks='' @ fld d ''count'')
        else if isin [''windows_defender''] then Inr (st @ '' enabled='' @ fld d ''antivirus_enabled'')
        else if isin [''linux_proc_metrics''] then res_bind (sub_or d ''cpu'' ''percent'') (\<lambda>c. Inr (st @ '' cpu='' @ c @ ''%''))
        else if isin [''linux_packages''] then Inr (st @ '' count='' @ fld d ''count'' @ '' hashed='' @ fld d ''hashed'')
        else if isin [''linux_systemd_units''] then Inr (st @ '' units='' @ fld d ''count'')
        else if isin [''linux_lsm''] then Inr (st @ '' active='' @ fld d ''active'')
        else if isin [''linux_ebpf''] then
          Inr (st @ '' programs='' @ py_str (py_or (getv d ''count'') (getv d ''program_count'')))
        else if isin [''linux_netlink''] then Inr (st @ '' ifaces='' @ fld d ''count'')
        else if isin [''health_check''] then
          Inr (st @ '' v'' @ fld d ''version'' @ '' pid='' @ fld d ''pid'' @ '' uptime_s='' @ fld d ''uptime_s'')
        else if isin [''update_config''] then Inr (st @ '' aplicadas='' @ fld d ''applied'')
        else if isin [''trigger_update''] then Inr (st @ '' rc='' @ fld d ''returncode'')
        else if isin [''restart_agent''] then Inr (st @ '' reinicio_en='' @ fld d ''delay'' @ ''s'')
        else Inr st)
    | _ \<Rightarrow> Inr (take 160 (py_str result)))"

section \<open>Properties\<close>

text \<open>
  Whatever the parameters of a request, the executor calls a collector only with
  arguments that its checks have validated (non-empty hosts and paths, ports from 1 to 65535,
  web addresses of the two schemes, the three service actions): replacing the collectors on
  all other arguments changes nothing.
\<close>

theorem executor_calls_are_validated:
  assumes "agree (call x) d"
  shows "execute_tool (x\<lparr>call := d\<rparr>) tool p = execute_tool x tool p"
  by (simp add: execute_tool_def Let_def tool_handler_def family_agree [OF assms])

definition sample_executor :: executor where
  "sample_executor = \<lparr>call = (\<lambda>name a. Inr (JObj [(''status'', JStr ''OPEN'')])), scripts = (\<lambda>s. None),
     max_chars = 60000, config = [], config_file = JNull\<rparr>"

definition strict_collectors :: collectors where
  "strict_collectors name a = (if valid_call name a then Inr (JObj [(''status'', JStr ''OPEN'')]) else Inl RuntimeError)"

theorem executor_calls_are_validated_witness:
  "execute_tool (sample_executor\<lparr>call := strict_collectors\<rparr>) ''tcp_check'' [(''host'', JStr ''h''), (''port'', JInt 70000)]
     = execute_tool sample_executor ''tcp_check'' [(''host'', JStr ''h''), (''port'', JInt 70000)]"
  by (rule executor_calls_are_validated) (simp add: agree_def sample_executor_def strict_collectors_def)

text \<open>
  Every tool of the white list has its branch: the request is answered by that branch and
  the fall-through answer \<open>Unhandled tool\<close> is never reached; a tool outside the list is
  refused without any call.
\<close>

theorem allowed_tools_are_handled:
  shows "if resolve_command (strip tool) \<in> set ALLOWED_TOOLS
      then \<exists>r. tool_handler x (resolve_command (strip tool)) p = Some r \<and> execute_tool x tool p = r
      else execute_tool x tool p = refused (resolve_command (strip tool)) (''Tool no permitido: '' @ resolve_command (strip tool))"
  using tool_handler_None [of x "resolve_command (strip tool)" p]
  by (cases "tool_handler x (resolve_command (strip tool)) p") (simp_all add: execute_tool_def Let_def)

end
