(* ===== verification/Py_Flow.thy ===== *)
theory Py_Flow
  imports Machine
begin

text \<open>
  Statements of a message loop: an action changes the state and ends with a value, with a
  \<open>continue\<close> of the loop, or with an exception that leaves the loop.
\<close>

section \<open>Actions\<close>

datatype 'a outcome = Val 'a | Continue | Raise py_exc

type_synonym ('s, 'a) act = "'s \<Rightarrow> 'a outcome \<times> 's"

definition ret :: "'a \<Rightarrow> ('s, 'a) act" where
  "ret x s = (Val x, s)"

definition stop :: "('s, 'a) act" where
  "stop s = (Continue, s)"

definition act_bind :: "('s, 'a) act \<Rightarrow> ('a \<Rightarrow> ('s, 'b) act) \<Rightarrow> ('s, 'b) act" where
  "act_bind m f s = (case m s of
     (Val x, s') \<Rightarrow> f x s' | (Continue, s') \<Rightarrow> (Continue, s') | (Raise e, s') \<Rightarrow> (Raise e, s'))"

definition act_seq :: "('s, unit) act \<Rightarrow> ('s, 'b) act \<Rightarrow> ('s, 'b) act" where
  "act_seq m k = act_bind m (\<lambda>_. k)"

definition lift_res :: "'a res \<Rightarrow> ('s, 'a) act" where
  "lift_res r s = (case r of Inl e \<Rightarrow> (Raise e, s) | Inr x \<Rightarrow> (Val x, s))"

definition put_state :: "('s \<Rightarrow> 's) \<Rightarrow> ('s, unit) act" where
  "put_state f s = (Val (), f s)"

definition reading :: "('s \<Rightarrow> ('s, 'a) act) \<Rightarrow> ('s, 'a) act" where
  \<comment> \<open>an action that depends on the state it starts in\<close>
  "reading f s = f s s"

definition unless_skip :: "bool \<Rightarrow> ('s, unit) act \<Rightarrow> ('s, unit) act" where
  "unless_skip c m = (if c then m else ret ())"

lemmas act_defs = ret_def stop_def act_bind_def act_seq_def lift_res_def put_state_def unless_skip_def

section \<open>Rules\<close>

text \<open>An action has a frame when a view of the state survives it, however it ends.\<close>

definition frames :: "('s \<Rightarrow> 'v) \<Rightarrow> ('s, 'a) act \<Rightarrow> bool" where
  "frames v m \<longleftrightarrow> (\<forall>s. v (snd (m s)) = v s)"

named_theorems frame_intros \<open>frames of the actions\<close>

lemma frame_basic [frame_intros]:
  "frames v (ret x)" "frames v stop" "frames v (lift_res r)"
  by (simp_all add: frames_def ret_def stop_def lift_res_def split: sum.splits)

lemma frame_bind [frame_intros]:
  "frames v m \<Longrightarrow> (\<And>x. frames v (f x)) \<Longrightarrow> frames v (act_bind m f)"
  by (auto simp: frames_def act_bind_def split: prod.splits outcome.splits) (metis snd_conv)+

lemma frame_seq [frame_intros]: "frames v m \<Longrightarrow> frames v k \<Longrightarrow> frames v (act_seq m k)"
  by (simp add: act_seq_def frame_intros)

lemma frame_skip [frame_intros]: "frames v m \<Longrightarrow> frames v (unless_skip c m)"
  by (simp add: unless_skip_def frame_basic)

lemma reading_apply [simp]: "reading f s = f s s"
  by (simp add: reading_def)

lemma frame_reading [frame_intros]: "(\<And>s0. frames v (f s0)) \<Longrightarrow> frames v (reading f)"
  by (simp add: frames_def reading_def)

lemma frame_option [frame_intros]:
  "frames v m \<Longrightarrow> (\<And>x. frames v (f x)) \<Longrightarrow> frames v (case c of None \<Rightarrow> m | Some x \<Rightarrow> f x)"
  by (simp split: option.split)

lemma frame_put: "(\<And>s. v (f s) = v s) \<Longrightarrow> frames v (put_state f)"
  by (simp add: frames_def put_state_def)

lemma frame_if [frame_intros]:
  "(c \<Longrightarrow> frames v m) \<Longrightarrow> (\<not> c \<Longrightarrow> frames v k) \<Longrightarrow> frames v (if c then m else k)"
  by simp

lemma frameD: "frames v m \<Longrightarrow> v (snd (m s)) = v s"
  by (simp add: frames_def)

text \<open>An action that can end with a value does so only if a condition holds.\<close>

definition ensures :: "('s, 'a) act \<Rightarrow> ('a \<Rightarrow> bool) \<Rightarrow> bool" where
  "ensures m Q \<longleftrightarrow> (\<forall>s x s'. m s = (Val x, s') \<longrightarrow> Q x)"

lemma ensuresD: "ensures m Q \<Longrightarrow> m s = (Val x, s') \<Longrightarrow> Q x"
  by (auto simp: ensures_def)

lemma bind_Val:
  "act_bind m f s = (Val y, s'') \<longleftrightarrow> (\<exists>x s'. m s = (Val x, s') \<and> f x s' = (Val y, s''))"
  by (auto simp: act_bind_def split: prod.splits outcome.splits)

lemma seq_Val: "act_seq m k s = (Val y, s'') \<longleftrightarrow> (\<exists>s'. m s = (Val (), s') \<and> k s' = (Val y, s''))"
  by (simp add: act_seq_def bind_Val)

lemma stop_Val [simp]: "stop s \<noteq> (Val x, s')"
  by (simp add: stop_def)

lemma ret_Val [simp]: "ret y s = (Val x, s') \<longleftrightarrow> x = y \<and> s' = s"
  by (auto simp: ret_def)

text \<open>
  A guard followed by the rest of the handler: the rest runs only after the guard has ended
  with a value, and in the state that the guard leaves.
\<close>

lemma bind_snd:
  "snd (act_bind m f s) = (case m s of (Val x, s') \<Rightarrow> snd (f x s') | (_, s') \<Rightarrow> s')"
  by (simp add: act_bind_def split: prod.splits outcome.splits)

lemma bind_step:
  assumes "m s = (Val x, s')"
  shows "act_bind m f s = f x s'"
  using assms by (simp add: act_bind_def)

lemma seq_step: "m s = (Val (), s') \<Longrightarrow> act_seq m k s = k s'"
  by (simp add: act_seq_def bind_step)

lemma seq_fail: "(\<And>s'. m s \<noteq> (Val (), s')) \<Longrightarrow> snd (act_seq m k s) = snd (m s)"
  by (cases "m s"; cases "fst (m s)") (auto simp: act_seq_def act_bind_def)

lemma seq_guard:
  assumes "frames v m"
  shows "v (snd (act_seq m k s)) = v s \<or> (\<exists>s'. m s = (Val (), s') \<and> v s' = v s \<and> act_seq m k s = k s')"
proof (cases "m s")
  case (Pair r s')
  then have "v s' = v s" using frameD [OF assms, of s] by simp
  with Pair show ?thesis by (cases r) (auto simp: act_seq_def act_bind_def)
qed

lemma bind_guard:
  assumes "frames v m"
  shows "v (snd (act_bind m f s)) = v s \<or> (\<exists>x s'. m s = (Val x, s') \<and> v s' = v s \<and> act_bind m f s = f x s')"
proof (cases "m s")
  case (Pair r s')
  then have "v s' = v s" using frameD [OF assms, of s] by simp
  with Pair show ?thesis by (cases r) (auto simp: act_bind_def)
qed

end
