(* ===== verification/Json_Parse.thy ===== *)
theory Json_Parse
  imports Py_Text
begin

text \<open>
  Python's \<open>json.loads\<close>: the scanner of the standard library with its extensions
  (\<open>NaN\<close>, \<open>Infinity\<close>), strict strings, and dictionaries in which the last of equal
  keys wins. A \<open>\u\<close> escape beyond the 256 characters of the model is refused. The
  main lemma says that it reads back what \<open>json.dumps\<close> writes, for values without floats.
\<close>

section \<open>Scanner\<close>

definition json_ws :: "char \<Rightarrow> bool" where
  "json_ws c \<longleftrightarrow> code_point c \<in> {32, 9, 10, 13}"

definition skip_ws :: "string \<Rightarrow> string" where
  "skip_ws s = dropWhile json_ws s"

definition hex_val :: "char \<Rightarrow> nat option" where
  "hex_val c = (let n = code_point c in
     if is_digit c then Some (n - 48)
     else if 97 \<le> n \<and> n \<le> 102 then Some (n - 87)
     else if 65 \<le> n \<and> n \<le> 70 then Some (n - 55)
     else None)"

definition hex4 :: "char \<Rightarrow> char \<Rightarrow> char \<Rightarrow> char \<Rightarrow> char option" where
  "hex4 a b x y = (case (hex_val a, hex_val b, hex_val x, hex_val y) of
      (Some i, Some j, Some k, Some l) \<Rightarrow>
        (if i = 0 \<and> j = 0 then Some (char_of (16 * k + l)) else None)
    | _ \<Rightarrow> None)"

definition plain_escape :: "char \<Rightarrow> char option" where
  "plain_escape c = map_of
     [(CHR 0x22, CHR 0x22), (CHR 0x5C, CHR 0x5C), (CHR 0x2F, CHR 0x2F), (CHR ''b'', CHR 0x08), (CHR ''f'', CHR 0x0C),
      (CHR ''n'', CHR 0x0A), (CHR ''r'', CHR 0x0D), (CHR ''t'', CHR 0x09)] c"

definition cons_char :: "char \<Rightarrow> (string \<times> string) option \<Rightarrow> (string \<times> string) option" where
  "cons_char c r = map_option (\<lambda>(cs, rest). (c # cs, rest)) r"

fun parse_chars :: "string \<Rightarrow> (string \<times> string) option" where
  \<comment> \<open>after the opening quote\<close>
  "parse_chars [] = None"
| "parse_chars (c # s) =
     (if c = CHR 0x22 then Some ([], s)
      else if c = CHR 0x5C then
        (case s of
           [] \<Rightarrow> None
         | e # t \<Rightarrow>
            (if e = CHR ''u'' then
               (case t of
                  a # b # x # y # r \<Rightarrow>
                    (case hex4 a b x y of None \<Rightarrow> None | Some ch \<Rightarrow> cons_char ch (parse_chars r))
                | _ \<Rightarrow> None)
             else (case plain_escape e of None \<Rightarrow> None | Some ch \<Rightarrow> cons_char ch (parse_chars t))))
      else if code_point c < 32 then None
      else cons_char c (parse_chars s))"

definition split_digits :: "string \<Rightarrow> string \<times> string" where
  "split_digits s = (takeWhile is_digit s, dropWhile is_digit s)"

definition int_part :: "string \<Rightarrow> (string \<times> string) option" where
  "int_part s = (case split_digits s of
      (ds, r) \<Rightarrow> if ds = [] then None else if hd ds = CHR ''0'' then Some ([hd ds], tl ds @ r) else Some (ds, r))"

definition frac_part :: "string \<Rightarrow> string \<times> string" where
  \<comment> \<open>the digits after the point, none when there is no fraction\<close>
  "frac_part s = (case s of
      c # t \<Rightarrow> (case split_digits t of (ds, r) \<Rightarrow> if c = CHR ''.'' \<and> ds \<noteq> [] then (ds, r) else ([], s))
    | [] \<Rightarrow> ([], []))"

definition exp_part :: "string \<Rightarrow> int option \<times> string" where
  "exp_part s = (case s of
      c # t \<Rightarrow>
       (let (sg, t') = take_sign t; (ds, r) = split_digits t' in
        if (c = CHR ''e'' \<or> c = CHR ''E'') \<and> ds \<noteq> [] then (Some (sg * int (digits_val ds)), r) else (None, s))
    | [] \<Rightarrow> (None, []))"

definition parse_number :: "string \<Rightarrow> (json \<times> string) option" where
  "parse_number s =
     (let neg = (s \<noteq> [] \<and> hd s = CHR ''-''); sg = (if neg then - 1 else 1 :: int) in
      case int_part (if neg then tl s else s) of
        None \<Rightarrow> None
      | Some (ds, r) \<Rightarrow>
         (case frac_part r of (fs, r) \<Rightarrow>
          (case exp_part r of (ex, r) \<Rightarrow>
            Some (if fs = [] \<and> ex = None then JInt (sg * int (digits_val ds))
                  else JFloat (fin (of_int sg * (rat_of_nat (digits_val ds) + frac_val fs)
                         * pow10 (case ex of None \<Rightarrow> 0 | Some x \<Rightarrow> x))), r))))"

definition json_keywords :: "(string \<times> json) list" where
  "json_keywords = [(''null'', JNull), (''true'', JBool True), (''false'', JBool False), (''NaN'', JFloat NaN),
     (''Infinity'', JFloat PInf), (''-Infinity'', JFloat NInf)]"

definition parse_scalar :: "string \<Rightarrow> (json \<times> string) option" where
  "parse_scalar s = (case find (\<lambda>(w, v). startswith s w) json_keywords of
      Some (w, v) \<Rightarrow> Some (v, drop (length w) s)
    | None \<Rightarrow> parse_number s)"

definition first_is :: "string \<Rightarrow> char \<Rightarrow> bool" where
  "first_is s c \<longleftrightarrow> s \<noteq> [] \<and> hd s = c"

text \<open>The fuel is used up by one on each value and each element; the length of the text is enough.\<close>

fun parse_value :: "nat \<Rightarrow> string \<Rightarrow> (json \<times> string) option"
  and parse_items :: "nat \<Rightarrow> string \<Rightarrow> (json list \<times> string) option"
  and parse_pairs :: "nat \<Rightarrow> string \<Rightarrow> (dict \<times> string) option" where
  "parse_value 0 s = None"
| "parse_value (Suc n) s =
     (if first_is s (CHR 0x22) then map_option (\<lambda>(cs, r). (JStr cs, r)) (parse_chars (tl s))
      else if first_is s (CHR ''['') then
        (let t = skip_ws (tl s) in
         if first_is t (CHR '']'') then Some (JList [], tl t)
         else map_option (\<lambda>(vs, r). (JList vs, r)) (parse_items n t))
      else if first_is s (CHR ''{'') then
        (let t = skip_ws (tl s) in
         if first_is t (CHR ''}'') then Some (JObj [], tl t)
         else map_option (\<lambda>(ps, r). (JObj (fold (\<lambda>(k, v). dset k v) ps []), r)) (parse_pairs n t))
      else parse_scalar s)"
| "parse_items 0 s = None"
| "parse_items (Suc n) s =
     (case parse_value n s of
        None \<Rightarrow> None
      | Some (v, r) \<Rightarrow>
         (let t = skip_ws r in
          if first_is t (CHR '']'') then Some ([v], tl t)
          else if first_is t (CHR '','') then map_option (\<lambda>(vs, r). (v # vs, r)) (parse_items n (skip_ws (tl t)))
          else None))"
| "parse_pairs 0 s = None"
| "parse_pairs (Suc n) s =
     (if \<not> first_is s (CHR 0x22) then None
      else (case parse_chars (tl s) of
         None \<Rightarrow> None
       | Some (k, r) \<Rightarrow>
          (let t = skip_ws r in
           if \<not> first_is t (CHR '':'') then None
           else (case parse_value n (skip_ws (tl t)) of
              None \<Rightarrow> None
            | Some (v, r) \<Rightarrow>
               (let t = skip_ws r in
                if first_is t (CHR ''}'') then Some ([(k, v)], tl t)
                else if first_is t (CHR '','') then
                  map_option (\<lambda>(ps, r). ((k, v) # ps, r)) (parse_pairs n (skip_ws (tl t)))
                else None)))))"

definition json_loads :: "string \<Rightarrow> json option" where
  "json_loads s = (case parse_value (Suc (length s)) (skip_ws s) of
      Some (v, r) \<Rightarrow> if skip_ws r = [] then Some v else None
    | None \<Rightarrow> None)"

section \<open>Strings\<close>

lemma hex_digit_cases: "n < 16 \<Longrightarrow> hex_val (hex_digit n) = Some n"
  by (auto simp: hex_val_def hex_digit_def is_digit_def digit_char_def code_point_def Let_def)

lemma hex_val_zero: "hex_val (CHR ''0'') = Some 0"
  by (simp add: hex_val_def is_digit_def code_point_def)

lemma parse_escape: "parse_chars (json_escape c @ s) = cons_char c (parse_chars s)"
proof -
  define n where "n = code_point c"
  have c: "c = char_of n" and n: "n < 256" by (simp_all add: n_def code_point_def)
  have e: "(c = d) = (n = of_char d)" for d by (simp add: n_def code_point_def)
  have q: "c = CHR 0x22 \<longleftrightarrow> n = 34" "c = CHR 0x5C \<longleftrightarrow> n = 92" "c = CHR ''u'' \<longleftrightarrow> n = 117"
    unfolding e by simp_all
  consider (quote) "n = 34 \<or> n = 92" | (short) "n \<in> {10, 13, 9, 8, 12}"
    | (hex) "n < 32" "n \<notin> {10, 13, 9, 8, 12}" | (raw) "32 \<le> n" "n \<noteq> 34" "n \<noteq> 92"
    by linarith
  then show ?thesis
  proof cases
    case hex
    have h: "hex4 (CHR ''0'') (CHR ''0'') (hex_digit (n div 16)) (hex_digit (n mod 16)) = Some c"
      using hex(1) by (simp add: hex4_def hex_digit_cases hex_val_zero c)
    then show ?thesis using hex by (simp add: json_escape_def n_def [symmetric] Let_def)
  next
    case raw
    then show ?thesis using q by (simp add: json_escape_def n_def [symmetric] Let_def)
  next
    case quote
    then have "c = CHR 0x22 \<or> c = CHR 0x5C" by (simp add: q)
    then show ?thesis by (elim disjE) (simp_all add: json_escape_def Let_def plain_escape_def code_point_def)
  next
    case short
    then have "c = CHR 0x0A \<or> c = CHR 0x0D \<or> c = CHR 0x09 \<or> c = CHR 0x08 \<or> c = CHR 0x0C"
      unfolding e by simp
    then show ?thesis by (elim disjE) (simp_all add: json_escape_def Let_def plain_escape_def code_point_def)
  qed
qed

lemma parse_json_string: "parse_chars (concat (map json_escape s) @ CHR 0x22 # r) = Some (s, r)"
  by (induction s) (simp_all add: parse_escape cons_char_def)

section \<open>Numbers\<close>

lemma digit_not_ws: "is_digit c \<Longrightarrow> \<not> json_ws c"
  by (auto simp: is_digit_def json_ws_def)

definition ends_number :: "string \<Rightarrow> bool" where
  \<comment> \<open>the text does not go on with something a number could contain\<close>
  "ends_number r \<longleftrightarrow> r = [] \<or> hd r \<in> {CHR '','', CHR '']'', CHR ''}''}"

lemma ends_number_facts:
  assumes "ends_number r"
  shows "takeWhile is_digit r = []" "dropWhile is_digit r = r" "frac_part r = ([], r)" "exp_part r = (None, r)"
proof -
  have "r = [] \<or> \<not> is_digit (hd r)" using assms by (auto simp: ends_number_def is_digit_def code_point_def)
  then show "takeWhile is_digit r = []" "dropWhile is_digit r = r" by (cases r; simp)+
  show "frac_part r = ([], r)" "exp_part r = (None, r)"
    using assms by (cases r; auto simp: ends_number_def frac_part_def exp_part_def split: prod.split)+
qed

lemma nat_digits_split:
  assumes "ends_number r"
  shows "split_digits (nat_digits n @ r) = (nat_digits n, r)"
proof -
  have "\<forall>c \<in> set (nat_digits n). is_digit c" by (rule nat_digits_all_digits)
  then show ?thesis
    using ends_number_facts(1,2) [OF assms] by (simp add: split_digits_def takeWhile_append2 dropWhile_append2)
qed

lemma nat_digits_head: "hd (nat_digits n) = CHR ''0'' \<Longrightarrow> n = 0"
proof (induction n rule: nat_digits.induct)
  case (1 n)
  have d: "digit_char k = CHR ''0'' \<Longrightarrow> k < 10 \<Longrightarrow> k = 0" for k
    using ord_digit_char [of k] by (auto simp: code_point_def)
  show ?case
  proof (cases "n < 10")
    case True
    then have "nat_digits n = [digit_char n]" by (subst nat_digits.simps) simp
    with True 1(2) d show ?thesis by simp
  next
    case False
    then have "hd (nat_digits n) = hd (nat_digits (n div 10))" by (subst nat_digits.simps) simp
    with 1 False have "n div 10 = 0" by simp
    with False show ?thesis by simp
  qed
qed

lemma nat_digits_0: "nat_digits 0 = ''0''"
  by (subst nat_digits.simps) (simp add: digit_char_def char_of_def bit_0)

lemma int_part_digits:
  assumes "ends_number r"
  shows "int_part (nat_digits n @ r) = Some (nat_digits n, r)"
  using nat_digits_split [OF assms, of n] nat_digits_head [of n]
  by (cases "n = 0") (auto simp: int_part_def nat_digits_0)

lemma head_digit: "is_digit (hd (nat_digits n))"
  using nat_digits_all_digits [of n] by (metis hd_in_set nat_digits_nonempty)

lemma head_digit_append: "hd (nat_digits n @ r) = hd (nat_digits n)"
  by (simp add: hd_append)

lemma parse_number_int:
  assumes "ends_number r"
  shows "parse_number (int_str i @ r) = Some (JInt i, r)"
proof (cases "i < 0")
  case True
  then show ?thesis
    using int_part_digits [OF assms] ends_number_facts [OF assms] by (simp add: parse_number_def int_str_def)
next
  case False
  have "hd (nat_digits (nat i)) \<noteq> CHR ''-''"
    using head_digit [of "nat i"] by (auto simp: is_digit_def code_point_def)
  with False show ?thesis
    using int_part_digits [OF assms] ends_number_facts [OF assms]
    by (simp add: parse_number_def int_str_def head_digit_append)
qed

lemma not_keyword:
  assumes "s = int_str i @ r"
  shows "find (\<lambda>(w, v). startswith s w) json_keywords = None"
proof -
  have d: "is_digit (hd (nat_digits n))" "nat_digits n \<noteq> []" for n by (simp_all add: head_digit)
  obtain c t where ct: "nat_digits (nat (if i < 0 then - i else i)) = c # t" "is_digit c"
    using d by (metis list.collapse)
  then have "s = (if i < 0 then CHR ''-'' # c # t else c # t) @ r" using assms by (auto simp: int_str_def)
  moreover have "c \<notin> {CHR ''n'', CHR ''t'', CHR ''f'', CHR ''N'', CHR ''I'', CHR ''-''}"
    using ct(2) by (auto simp: is_digit_def code_point_def)
  ultimately show ?thesis by (simp add: json_keywords_def startswith_def)
qed

lemma parse_scalar_int: "ends_number r \<Longrightarrow> parse_scalar (int_str i @ r) = Some (JInt i, r)"
  by (simp add: parse_scalar_def not_keyword [OF refl] parse_number_int)

lemma int_str_head: "int_str i = c # t \<Longrightarrow> c = CHR ''-'' \<or> is_digit c"
  using nat_digits_all_digits by (auto simp: int_str_def split: if_splits) (metis list.set_intros(1))

section \<open>Dictionaries built pair by pair\<close>

lemma dset_new: "k \<notin> fst ` set d \<Longrightarrow> dset k v d = d @ [(k, v)]"
  by (induction d) (auto simp: dset_def)

lemma fold_dset_new:
  "distinct (map fst (acc @ d)) \<Longrightarrow> list_all (\<lambda>(k, x). f x = x) d \<Longrightarrow>
   fold (\<lambda>(k, x). dset k (f x)) d acc = acc @ d"
proof (induction d arbitrary: acc)
  case (Cons x d)
  obtain k v where x: "x = (k, v)" by (cases x)
  have "k \<notin> fst ` set acc" using Cons.prems(1) by (auto simp: x)
  then show ?case using Cons.IH [of "acc @ [x]"] Cons.prems by (simp add: x dset_new)
qed simp

section \<open>Reading back what was written\<close>

fun plain :: "json \<Rightarrow> bool" where
  \<comment> \<open>no floats, and no key twice\<close>
  "plain (JFloat f) = False"
| "plain (JList xs) = list_all plain xs"
| "plain (JObj d) = (distinct (map fst d) \<and> list_all (\<lambda>(k, v). plain v) d)"
| "plain v = True"

abbreviation text_of :: "json \<Rightarrow> string" where
  "text_of \<equiv> dumps '', '' '': ''"

abbreviation pair_text :: "string \<times> json \<Rightarrow> string" where
  "pair_text \<equiv> \<lambda>(k, v). json_string k @ '': '' @ text_of v"

definition value_head :: "char \<Rightarrow> bool" where
  "value_head c \<longleftrightarrow> \<not> json_ws c \<and> c \<notin> {CHR '']'', CHR ''}''}"

lemma text_head: "plain v \<Longrightarrow> \<exists>c t. text_of v = c # t \<and> value_head c"
proof (cases v)
  case (JInt i)
  obtain c t where ct: "int_str i = c # t" by (cases "int_str i") (auto simp: int_str_def split: if_splits)
  have "value_head c"
    using int_str_head [OF ct] by (auto simp: value_head_def json_ws_def is_digit_def code_point_def)
  with ct JInt show ?thesis by simp
qed (auto simp: value_head_def json_ws_def code_point_def json_string_def)

lemma skip_ws_head: "value_head c \<Longrightarrow> skip_ws (c # s) = c # s"
  by (simp add: skip_ws_def value_head_def)

lemma skip_ws_punct [simp]:
  "skip_ws (CHR '','' # s) = CHR '','' # s" "skip_ws (CHR '']'' # s) = CHR '']'' # s"
  "skip_ws (CHR ''}'' # s) = CHR ''}'' # s" "skip_ws (CHR '':'' # s) = CHR '':'' # s"
  "skip_ws (CHR '' '' # s) = skip_ws s"
  by (simp_all add: skip_ws_def json_ws_def code_point_def)

lemma ends_punct [simp]:
  "ends_number (CHR '','' # s)" "ends_number (CHR '']'' # s)" "ends_number (CHR ''}'' # s)"
  by (simp_all add: ends_number_def)

lemma parse_text:
  "plain v \<Longrightarrow> ends_number r \<Longrightarrow> length (text_of v) \<le> n \<Longrightarrow> parse_value n (text_of v @ r) = Some (v, r)"
proof (induction v arbitrary: n r)
  case (JList xs)
  have items: "parse_items m (join '', '' (map text_of ys) @ CHR '']'' # r) = Some (ys, r)"
    if "ys \<noteq> []" "set ys \<subseteq> set xs" "length (join '', '' (map text_of ys)) < m" for ys m
    using that
  proof (induction ys arbitrary: m)
    case (Cons y ys)
    obtain k where k: "m = Suc k" using Cons.prems(3) by (cases m) auto
    have y: "y \<in> set xs" "plain y" using Cons.prems(2) JList.prems(1) by (auto simp: list_all_iff)
    show ?case
    proof (cases ys)
      case Nil
      then have "parse_value k (text_of y @ CHR '']'' # r) = Some (y, CHR '']'' # r)"
        using JList.IH [OF y, of "CHR '']'' # r" k] Cons.prems(3) k by simp
      then show ?thesis by (simp add: Nil k first_is_def)
    next
      case (Cons z zs)
      have z: "plain z" using Cons.prems(2) Cons JList.prems(1) by (auto simp: list_all_iff)
      obtain c t where ct: "text_of z = c # t" "value_head c" using text_head [OF z] by blast
      have j: "join '', '' (map text_of ys) = c # tl (join '', '' (map text_of ys))"
        using ct(1) by (cases zs) (simp_all add: Cons)
      have "parse_value k (text_of y @ CHR '','' # CHR '' '' # join '', '' (map text_of ys) @ CHR '']'' # r)
          = Some (y, CHR '','' # CHR '' '' # join '', '' (map text_of ys) @ CHR '']'' # r)"
        using JList.IH [OF y] Cons.prems(3) k by (simp add: Cons)
      moreover have "skip_ws (join '', '' (map text_of ys) @ CHR '']'' # r) = join '', '' (map text_of ys) @ CHR '']'' # r"
        using skip_ws_head [OF ct(2)] j by (metis append_Cons)
      moreover have "parse_items k (join '', '' (map text_of ys) @ CHR '']'' # r) = Some (ys, r)"
        using Cons.IH [of k] Cons.prems(2,3) k by (simp add: Cons)
      ultimately show ?thesis by (simp add: Cons k first_is_def)
    qed
  qed simp
  obtain k where k: "n = Suc k" using JList.prems(3) by (cases n) auto
  show ?case
  proof (cases xs)
    case Nil
    then show ?thesis by (simp add: k first_is_def)
  next
    case (Cons x ys)
    obtain c t where ct: "text_of x = c # t" "value_head c"
      using text_head [of x] JList.prems(1) Cons by auto
    then have j: "join '', '' (map text_of xs) = c # tl (join '', '' (map text_of xs))"
      by (cases ys) (simp_all add: Cons)
    then have "skip_ws (join '', '' (map text_of xs) @ CHR '']'' # r) = join '', '' (map text_of xs) @ CHR '']'' # r"
      using skip_ws_head [OF ct(2)] by (metis append_Cons)
    moreover have "\<not> first_is (join '', '' (map text_of xs) @ CHR '']'' # r) (CHR '']'')"
      using ct(2) by (subst j) (auto simp: first_is_def value_head_def)
    moreover have "parse_items k (join '', '' (map text_of xs) @ CHR '']'' # r) = Some (xs, r)"
      using items [of xs k] JList.prems(3) k Cons by simp
    ultimately show ?thesis by (simp add: k first_is_def)
  qed
next
  case (JObj d)
  have pairs: "parse_pairs m (join '', '' (map pair_text ps) @ CHR ''}'' # r) = Some (ps, r)"
    if "ps \<noteq> []" "set ps \<subseteq> set d" "length (join '', '' (map pair_text ps)) < m" for ps m
    using that
  proof (induction ps arbitrary: m)
    case (Cons p ps)
    obtain a v where p: "p = (a, v)" by (cases p)
    obtain k where k: "m = Suc k" using Cons.prems(3) by (cases m) auto
    have v: "(a, v) \<in> set d" "v \<in> Basic_BNFs.snds (a, v)" "plain v"
      using Cons.prems(2) JObj.prems(1) by (auto simp: list_all_iff p)
    obtain c t where ct: "text_of v = c # t" "value_head c" using text_head [OF v(3)] by blast
    have s: "skip_ws (text_of v @ s) = text_of v @ s" for s using skip_ws_head [OF ct(2)] ct(1) by (metis append_Cons)
    show ?case
    proof (cases ps)
      case Nil
      then have "parse_value k (text_of v @ CHR ''}'' # r) = Some (v, CHR ''}'' # r)"
        using JObj.IH [OF v, of "CHR ''}'' # r" k] Cons.prems(3) k by (simp add: p json_string_def)
      then show ?thesis by (simp add: Nil k p first_is_def json_string_def parse_json_string s)
    next
      case (Cons q qs)
      define rest where "rest = join '', '' (map pair_text ps) @ CHR ''}'' # r"
      have q: "skip_ws rest = rest"
      proof -
        obtain u where "rest = CHR 0x22 # u" by (cases q; cases qs) (simp_all add: rest_def Cons json_string_def)
        then show ?thesis by (simp add: skip_ws_def json_ws_def code_point_def)
      qed
      have "parse_value k (text_of v @ CHR '','' # CHR '' '' # rest) = Some (v, CHR '','' # CHR '' '' # rest)"
        using JObj.IH [OF v, of "CHR '','' # CHR '' '' # rest" k] Cons.prems(3) k by (simp add: Cons p json_string_def)
      moreover have "parse_pairs k rest = Some (ps, r)"
        using Cons.IH [of k] Cons.prems(2,3) k by (simp add: Cons p rest_def)
      moreover have "join '', '' (map pair_text (p # ps)) @ CHR ''}'' # r
          = CHR 0x22 # concat (map json_escape a) @ CHR 0x22 # CHR '':'' # CHR '' '' # text_of v @ CHR '','' # CHR '' '' # rest"
        by (simp add: p Cons json_string_def rest_def)
      ultimately show ?thesis
        by (simp only: k) (simp add: first_is_def parse_json_string s q p)
    qed
  qed simp
  obtain k where k: "n = Suc k" using JObj.prems(3) by (cases n) auto
  show ?case
  proof (cases d)
    case Nil
    then show ?thesis by (simp add: k first_is_def)
  next
    case (Cons x ps)
    obtain u where u: "join '', '' (map pair_text d) @ CHR ''}'' # r = CHR 0x22 # u"
      by (cases x; cases ps) (simp_all add: Cons json_string_def)
    then have "skip_ws (join '', '' (map pair_text d) @ CHR ''}'' # r) = join '', '' (map pair_text d) @ CHR ''}'' # r"
      "\<not> first_is (join '', '' (map pair_text d) @ CHR ''}'' # r) (CHR ''}'')"
      by (simp_all add: skip_ws_def json_ws_def code_point_def first_is_def)
    moreover have "parse_pairs k (join '', '' (map pair_text d) @ CHR ''}'' # r) = Some (d, r)"
      using pairs [of d k] JObj.prems(3) k Cons by simp
    moreover have "fold (\<lambda>(k, v). dset k v) d [] = d"
      using fold_dset_new [of "[]" d "\<lambda>x. x"] JObj.prems(1) by (simp add: list_all_iff)
    ultimately show ?thesis by (simp add: k first_is_def)
  qed
next
  case (JInt i)
  obtain k where k: "n = Suc k" using JInt.prems(3) by (cases n) (auto simp: int_str_def split: if_splits)
  obtain c t where ct: "int_str i = c # t" by (cases "int_str i") (auto simp: int_str_def split: if_splits)
  have "c \<notin> {CHR 0x22, CHR ''['', CHR ''{''}"
    using int_str_head [OF ct] by (auto simp: is_digit_def code_point_def)
  then have "parse_value n (int_str i @ r) = parse_scalar (int_str i @ r)" by (simp add: k ct first_is_def)
  then show ?case using parse_scalar_int [OF JInt.prems(2)] by simp
next
  case (JStr s)
  then show ?case by (cases n) (simp_all add: first_is_def json_string_def parse_json_string)
next
  case JNull
  then show ?case by (cases n) (simp_all add: first_is_def parse_scalar_def json_keywords_def startswith_def)
next
  case (JBool b)
  then show ?case by (cases n; cases b) (simp_all add: first_is_def parse_scalar_def json_keywords_def startswith_def)
qed simp

text \<open>What \<open>json.dumps\<close> writes, \<open>json.loads\<close> reads.\<close>

lemma loads_dumps: "plain v \<Longrightarrow> json_loads (dumps_default v) = Some v"
proof -
  assume v: "plain v"
  obtain c t where ct: "text_of v = c # t" "value_head c" using text_head [OF v] by blast
  have "parse_value (Suc (length (text_of v))) (text_of v @ []) = Some (v, [])"
    by (rule parse_text [OF v]) (simp_all add: ends_number_def)
  then show ?thesis
    using skip_ws_head [OF ct(2), of t] by (simp add: json_loads_def dumps_default_def ct(1)) (simp add: skip_ws_def)
qed

end
