(* ===== verification/Otlp_Compact.thy ===== *)
theory Otlp_Compact
  imports Json_Parse
begin

text \<open>
  The compaction of tool results, the first half of \<^verbatim>\<open>colsoft_tools/data_plane.py\<close>:
  long lists become samples, records keep their first short fields, and a payload that is
  still too long is replaced by counts or by a summary. Three users share it: the OTLP
  exporter, the answers on the WebSocket, and the log service of the server. A row of a WMI
  query is flattened as in \<^verbatim>\<open>colsoft_tools/windows_collectors.py\<close>.
\<close>

section \<open>Sizes of values\<close>

lemma size_obj_entry [termination_simp]: "(k, v) \<in> set d \<Longrightarrow> size v < size (JObj d)"
  by (induction d) auto

lemma size_list_entry [termination_simp]: "v \<in> set xs \<Longrightarrow> size v < size (JList xs)"
  by (induction xs) auto

lemma size_take_entry [termination_simp]: "(v :: json) \<in> set (take n xs) \<Longrightarrow> size v < Suc (size_list size xs)"
  using size_list_entry [of v xs] by (auto dest: in_set_takeD)

section \<open>Constants\<close>

definition otlp_payload_max :: nat where "otlp_payload_max = 8000"
definition otlp_list_sample :: nat where "otlp_list_sample = 12"
definition otlp_packages_max :: nat where "otlp_packages_max = 200"

definition bulky_list_keys :: "string list" where
  "bulky_list_keys = [''services'', ''processes'', ''connections'', ''entries'', ''items'',
     ''detections'', ''queries'', ''files'', ''findings'', ''hops'', ''checks'', ''disks'',
     ''providers'', ''of_interest'', ''tasks'', ''rows'', ''disk_io'', ''changes'', ''units'',
     ''timers'', ''programs'', ''denials'', ''interfaces'', ''sockets'', ''stats'', ''net'', ''rules'',
     ''profiles'', ''enabled'', ''events'', ''volumes'', ''answers'', ''applied'']"

definition event_entry_keys :: "string list" where
  "event_entry_keys = [''ts'', ''level'', ''provider'', ''event_id'', ''channel'', ''computer'',
     ''record_id'', ''source'', ''message'', ''pid'', ''host'', ''type'', ''uid'', ''exe'', ''comm'',
     ''syscall'', ''success'', ''msg'']"

section \<open>Single entries\<close>

definition dump :: "json \<Rightarrow> string" where
  "dump v = dumps_default v"

definition sample_list :: "json list \<Rightarrow> nat \<Rightarrow> json list \<times> nat" where
  "sample_list xs m = (if length xs \<le> m then (xs, 0) else (take m xs, length xs - m))"

definition slim_package :: "json \<Rightarrow> json option" where
  "slim_package v = (case v of
      JObj p \<Rightarrow>
       (let name = py_or (getv p ''name'') (getv p ''product'') in
        if \<not> truthy name then None
        else Some (JObj (dput_if (truthy (getv p ''sha256'')) ''sha256'' (getv p ''sha256'')
               [(''name'', name), (''version'', py_or (getv p ''version'') (JStr []))])))
    | _ \<Rightarrow> None)"

definition slim_event_data :: "json \<Rightarrow> dict" where
  \<comment> \<open>\<open>_slim_event_data\<close> with its defaults: 12 keys, 180 characters\<close>
  "slim_event_data v = (case v of
      JObj d \<Rightarrow> fold (\<lambda>(k, x). dset k (JStr (take 180 (py_str x)))) (take 12 d) []
    | _ \<Rightarrow> [])"

definition pick :: "string list \<Rightarrow> dict \<Rightarrow> dict" where
  \<comment> \<open>\<open>{k: d.get(k) for k in ks if d.get(k) is not None}\<close>\<close>
  "pick ks d = fold (\<lambda>k r. dput_if (getv d k \<noteq> JNull) k (getv d k) r) ks []"

definition slim_event_entry :: "json \<Rightarrow> json option" where
  "slim_event_entry v = (case v of
      JObj d \<Rightarrow>
       (let rec = pick event_entry_keys d;
            rec = (case getv rec ''message'' of JStr m \<Rightarrow> dset ''message'' (JStr (take 180 m)) rec | _ \<Rightarrow> rec);
            data = slim_event_data (getv d ''data'') in
        Some (JObj (dput_if (data \<noteq> []) ''data'' (JObj data) rec)))
    | _ \<Rightarrow> None)"

fun slim_field :: "json \<Rightarrow> json" where
  "slim_field (JStr s) = JStr (take 180 s)"
| "slim_field (JList xs) = JStr (''['' @ nat_digits (length xs) @ '']'')"
| "slim_field (JObj d) = JObj (slim_event_data (JObj d))"
| "slim_field v = v"

definition slim_record :: "json \<Rightarrow> json" where
  "slim_record v = (case v of
      JObj d \<Rightarrow> JObj (fold (\<lambda>(k, x). dset k (slim_field x)) (take 12 d) [])
    | _ \<Rightarrow> JStr (take 180 (py_str v)))"

definition cim_meta_keys :: "string list" where
  "cim_meta_keys = [''CimClass'', ''CimInstanceProperties'', ''CimSystemProperties'', ''PSComputerName'']"

fun wmi_scalar :: "json \<Rightarrow> json" where
  "wmi_scalar (JList xs) = JList (map wmi_scalar (take 20 xs))"
| "wmi_scalar (JObj d) = JStr (take 500 (py_str (JObj d)))"
| "wmi_scalar v = v"

definition cim_property :: "json \<Rightarrow> dict \<Rightarrow> dict" where
  "cim_property item out = (case item of
      JObj p \<Rightarrow>
        (if truthy (getv p ''Name'') \<and> getv p ''Value'' \<noteq> JNull
         then dset (py_str (getv p ''Name'')) (wmi_scalar (getv p ''Value'')) out else out)
    | _ \<Rightarrow> out)"

definition flatten_wmi_row :: "json \<Rightarrow> json option" where
  "flatten_wmi_row v = (case v of
      JObj d \<Rightarrow>
       (let out = (case getv d ''CimInstanceProperties'' of JList ps \<Rightarrow> fold cim_property ps [] | _ \<Rightarrow> []);
            out = fold (\<lambda>(k, x) out. if k \<in> set cim_meta_keys \<or> x = JNull \<or> has k out then out
                                     else dset k (wmi_scalar x) out) d out in
        if out = [] then None else Some (JObj out))
    | _ \<Rightarrow> None)"

definition slim_row :: "json \<Rightarrow> json option" where
  \<comment> \<open>\<open>flatten_wmi_row(x) or (x if isinstance(x, dict) else None)\<close>, kept when truthy\<close>
  "slim_row v = (case flatten_wmi_row v of
      Some r \<Rightarrow> Some r
    | None \<Rightarrow> if is_obj v \<and> truthy v then Some v else None)"

definition slim_point :: "json \<Rightarrow> json option" where
  "slim_point v = (case v of
      JObj p \<Rightarrow>
       (if getv p ''name'' = JNull then None
        else Some (JObj (dput_if (getv p ''timeUnixNano'' \<noteq> JNull) ''timeUnixNano'' (getv p ''timeUnixNano'')
                        (dput_if (getv p ''unit'' \<noteq> JNull) ''unit'' (getv p ''unit'')
               [(''name'', getv p ''name''), (''value'', getv p ''value'')]))))
    | _ \<Rightarrow> None)"

section \<open>Compaction of a result\<close>

definition sampled :: "string \<Rightarrow> json list \<Rightarrow> nat \<Rightarrow> dict \<times> bool" where
  \<comment> \<open>what one list of the result writes, and whether entries were left out\<close>
  "sampled k xs m =
     (let (kept, omitted) = sample_list xs m in
      ((k, JList kept) # (if omitted \<noteq> 0 then [(k @ ''_omitted'', JInt (int omitted))] else []),
       omitted \<noteq> 0))"

definition list_item :: "nat \<Rightarrow> string \<Rightarrow> json list \<Rightarrow> dict \<times> bool" where
  "list_item m k xs =
     (if k = ''packages'' then sampled k (List.map_filter slim_package xs) otlp_packages_max
      else if k = ''entries'' then
        (let slim = List.map_filter slim_event_entry xs in sampled k (if slim = [] then xs else slim) m)
      else if k = ''rows'' then sampled k (List.map_filter slim_row xs) m
      else if k = ''points'' then sampled k (List.map_filter slim_point xs) 200
      else if k \<in> set bulky_list_keys then sampled k (map slim_record xs) m
      else ([(k, JList xs)], False))"

definition marked :: "json \<Rightarrow> bool" where
  "marked v = (case v of JObj d \<Rightarrow> truthy (getv d ''truncated'') | _ \<Rightarrow> False)"

definition write_all :: "dict \<Rightarrow> dict \<Rightarrow> dict" where
  "write_all ws out = fold (\<lambda>(k, v). dset k v) ws out"

definition gather :: "bool \<Rightarrow> (dict \<times> bool) list \<Rightarrow> dict" where
  "gather t items =
     (let out = fold (\<lambda>(ws, b). write_all ws) items [] in
      if t \<or> list_ex snd items then dset ''truncated'' (JBool True) out else out)"

fun compact_result :: "nat \<Rightarrow> dict \<Rightarrow> dict" where
  "compact_result m d = gather (truthy (getv d ''truncated'')) (map (\<lambda>(k, v).
     case v of
       JList xs \<Rightarrow> list_item m k xs
     | JObj c \<Rightarrow>
        (if k = ''channels'' then
          (let chs = map (\<lambda>(name, ch). (name, case ch of JObj e \<Rightarrow> JObj (compact_result m e) | _ \<Rightarrow> ch)) c in
           ([(k, JObj chs)], list_ex (\<lambda>(name, ch). marked ch) chs))
         else if k = ''event_data'' then ([(k, JObj (slim_event_data v))], False)
         else (let nested = JObj (compact_result m c) in ([(k, nested)], marked nested)))
     | _ \<Rightarrow> ([(k, v)], False)) d)"

declare compact_result.simps [simp del]

definition count_keys :: "string list" where
  "count_keys = [''tool'', ''status'', ''count'', ''error'', ''score'', ''class_name'', ''namespace'',
     ''failed'', ''down'', ''response_time'', ''response_time_max'', ''uptime_seconds'', ''uptime_s'',
     ''filesystem_percent_max'']"

definition scalar_obj :: "dict \<Rightarrow> bool" where
  "scalar_obj d \<longleftrightarrow> d \<noteq> [] \<and> list_all (\<lambda>(k, v). \<not> is_list v \<and> \<not> is_obj v) d"

fun counts_only :: "dict \<Rightarrow> dict" where
  "counts_only d = fold (\<lambda>ws. write_all ws) (map (\<lambda>(k, v).
     case v of
       JList xs \<Rightarrow> [(k @ ''_count'', JInt (int (length xs)))]
     | JObj c \<Rightarrow>
        (if scalar_obj c then [(k, JObj c)]
         else (let nested = dpop ''truncated'' (counts_only c) in
               if nested = [] then [] else [(k, JObj nested)]))
     | _ \<Rightarrow> []) d)
     (fold (\<lambda>k. dput_if (has k d) k (getv d k)) count_keys [(''truncated'', JBool True)])"

declare counts_only.simps [simp del]

section \<open>Events for OTLP\<close>

definition tenant_or_empty :: "dict \<Rightarrow> json" where
  "tenant_or_empty inner = (if getv inner ''tenant_id'' = JNull then JStr [] else getv inner ''tenant_id'')"

definition wrap :: "dict \<Rightarrow> dict \<Rightarrow> dict" where
  \<comment> \<open>\<open>_wrap\<close>, which is only called with a result\<close>
  "wrap inner r =
     dput_if (truthy (getv inner ''error'')) ''error'' (JStr (take 400 (py_str (getv inner ''error''))))
       [(''schema_version'', py_or (getv inner ''schema_version'') (JStr ''1.0'')),
        (''event_type'', getv inner ''event_type''), (''category'', getv inner ''category''),
        (''severity'', getv inner ''severity''), (''scheduled'', getv inner ''scheduled''),
        (''request_id'', getv inner ''request_id''), (''tool'', getv inner ''tool''),
        (''tenant_id'', tenant_or_empty inner), (''result'', JObj r)]"

definition payload_fits :: "dict \<Rightarrow> bool" where
  "payload_fits payload \<longleftrightarrow> length (dump (JObj payload)) \<le> otlp_payload_max"

definition mark_result :: "dict \<Rightarrow> dict" where
  "mark_result payload =
     dset ''result'' (JObj (dset ''truncated'' (JBool True) (obj_of (getv payload ''result'')))) payload"

fun first_fit :: "dict \<Rightarrow> dict \<Rightarrow> nat list \<Rightarrow> dict option" where
  "first_fit inner raw [] = None"
| "first_fit inner raw (m # ms) =
     (let payload = wrap inner (compact_result m raw) in
      if payload_fits payload then Some (if m < otlp_list_sample then mark_result payload else payload)
      else first_fit inner raw ms)"

definition too_large :: "dict \<Rightarrow> dict" where
  "too_large inner =
     [(''schema_version'', py_or (getv inner ''schema_version'') (JStr ''1.0'')),
      (''event_type'', getv inner ''event_type''), (''tool'', getv inner ''tool''),
      (''category'', getv inner ''category''), (''scheduled'', getv inner ''scheduled''),
      (''request_id'', getv inner ''request_id''), (''tenant_id'', tenant_or_empty inner),
      (''truncated'', JBool True), (''error'', JStr ''payload_too_large'')]"

definition compact_event :: "dict \<Rightarrow> dict" where
  \<comment> \<open>\<open>compact_event_for_otlp\<close> of a dictionary\<close>
  "compact_event inner =
     (case getv inner ''result'' of
        JObj raw \<Rightarrow>
         (case first_fit inner raw [otlp_list_sample, 8, 4, 2] of
            Some payload \<Rightarrow> payload
          | None \<Rightarrow>
             (let payload = wrap inner (counts_only raw) in
              if payload_fits payload then payload else too_large inner))
      | _ \<Rightarrow> if payload_fits inner then inner else too_large inner)"

definition compact_event_for_otlp :: "json \<Rightarrow> dict" where
  "compact_event_for_otlp v = (case v of
      JObj inner \<Rightarrow> compact_event inner
    | _ \<Rightarrow> [(''value'', JStr (take 500 (py_str v)))])"

section \<open>Results for the WebSocket\<close>

definition ws_entry_meta :: "string list" where
  "ws_entry_meta = [''ts'', ''level'', ''provider'', ''event_id'', ''channel'', ''computer'', ''record_id'', ''source'']"

definition ws_linux_entry_meta :: "string list" where
  "ws_linux_entry_meta = [''type'', ''pid'', ''uid'', ''exe'', ''comm'', ''syscall'', ''success'']"

definition ws_list_sample :: nat where "ws_list_sample = 3"

definition ws_slim_entry :: "json \<Rightarrow> json" where
  "ws_slim_entry v = (case v of
      JObj d \<Rightarrow>
       (let rec = pick ws_entry_meta d;
            rec = fold (\<lambda>k rec. dput_if (getv d k \<noteq> JNull \<and> \<not> has k rec) k (getv d k) rec) ws_linux_entry_meta rec;
            rec = (if \<not> has ''event_id'' rec \<and> \<not> has ''provider'' rec then
                     (case py_or (getv d ''message'') (getv d ''msg'') of
                        JStr m \<Rightarrow> dput_if (m \<noteq> []) ''message'' (JStr (take 120 m)) rec
                      | _ \<Rightarrow> rec)
                   else rec) in
        JObj rec)
    | _ \<Rightarrow> JStr (take 80 (py_str v)))"

definition int_or_zero :: "json \<Rightarrow> int res" where
  \<comment> \<open>\<open>int(x or 0)\<close>\<close>
  "int_or_zero v = py_int (py_or v (JInt 0))"

definition with_omitted :: "string \<Rightarrow> json list \<Rightarrow> int \<Rightarrow> dict \<times> bool" where
  "with_omitted k kept extra =
     ((k, JList kept) # (if extra \<noteq> 0 then [(k @ ''_omitted'', JInt extra)] else []), extra \<noteq> 0)"

definition ws_list_item :: "dict \<Rightarrow> nat \<Rightarrow> string \<Rightarrow> json list \<Rightarrow> (dict \<times> bool) res" where
  \<comment> \<open>\<open>d\<close> is the result that holds the list\<close>
  "ws_list_item d m k xs =
     (if k \<in> {''entries'', ''rows''} then
        (let kept = fst (sample_list (map ws_slim_entry xs) m) in
         res_bind (int_or_zero (getv d ''count'')) (\<lambda>c.
         res_bind (if c \<noteq> 0 then Inr c
                   else res_bind (int_or_zero (getv d (k @ ''_omitted''))) (\<lambda>prev. Inr (int (length xs) + prev))) (\<lambda>orig.
         Inr (with_omitted k kept (max 0 (orig - int (length kept)))))))
      else if k \<in> set bulky_list_keys then
        (let (kept, omitted) = sample_list xs m in
         res_bind (int_or_zero (getv d (k @ ''_omitted''))) (\<lambda>prev.
         Inr (with_omitted k (map slim_record kept) (int omitted + prev))))
      else Inr ([(k, JList xs)], False))"

definition plain_sections :: "string list" where
  "plain_sections = [''cpu'', ''memory'', ''host'', ''identity'']"

fun control_plane_result :: "nat \<Rightarrow> dict \<Rightarrow> dict res" where
  "control_plane_result m d =
     res_bind (all_res (map (\<lambda>(k, v).
       if k \<in> {''data'', ''event_data''} then Inr ([], True)
       else case v of
         JList xs \<Rightarrow> ws_list_item d m k xs
       | JObj c \<Rightarrow>
          (if k = ''channels'' then
             res_bind (all_res (map (\<lambda>(name, ch). case ch of
                 JObj e \<Rightarrow> res_bind (control_plane_result m e) (\<lambda>r. Inr (name, JObj r))
               | _ \<Rightarrow> Inr (name, ch)) c)) (\<lambda>chs.
             Inr ([(k, JObj chs)], list_ex (\<lambda>(name, ch). marked ch) chs))
           else if k \<notin> set plain_sections then
             res_bind (control_plane_result m c) (\<lambda>r. Inr ([(k, JObj r)], marked (JObj r)))
           else Inr ([(k, v)], False))
       | _ \<Rightarrow> Inr ([(k, v)], False)) d))
     (\<lambda>items. Inr (gather (truthy (getv d ''truncated'')) items))"

declare control_plane_result.simps [simp del]

definition compact_command_result :: "json \<Rightarrow> dict \<Rightarrow> dict res" where
  \<comment> \<open>of a result that is a dictionary; any other value is returned as it is\<close>
  "compact_command_result tool d =
     (let name = py_or tool (getv d ''tool'');
          packed = compact_event [(''event_type'', JStr ''telemetry.tool_result''), (''tool'', name), (''result'', JObj d)] in
      case getv packed ''result'' of
        JObj inner \<Rightarrow>
          res_bind (control_plane_result ws_list_sample inner) (\<lambda>r.
          let r = dput_if (truthy (getv packed ''truncated'') \<or> getv packed ''error'' = JStr ''payload_too_large'')
                    ''truncated'' (JBool True) r in
          Inr (if payload_fits r then r
               else dset ''truncated'' (JBool True) (dset ''tool'' name (counts_only d))))
      | _ \<Rightarrow> Inr [(''tool'', name), (''status'', py_or (getv d ''status'') (JStr ''ERROR'')),
                (''truncated'', JBool True), (''error'', py_or (getv packed ''error'') (JStr ''payload_too_large''))])"

section \<open>Records for the log service\<close>

definition logger_keep :: "string list" where
  "logger_keep = [''agent_id'', ''tenant_id'', ''user_id'', ''issued_by'', ''message_id'', ''tool'', ''tool_family'',
     ''success'', ''command_status'', ''status'', ''event_type'', ''error'', ''truncated'', ''target'', ''duration_ms'',
     ''result_summary'', ''command'', ''otlp'', ''points'']"

definition packed_blob :: "dict \<Rightarrow> json" where
  "packed_blob packed = (case getv packed ''result'' of JObj inner \<Rightarrow> JObj inner | _ \<Rightarrow> JObj packed)"

definition logger_result :: "dict \<Rightarrow> dict" where
  "logger_result out = (case getv out ''result'' of
      JObj r \<Rightarrow>
       (let packed = compact_event [(''tool'', getv out ''tool''),
               (''event_type'', py_or (getv out ''event_type'') (JStr ''telemetry.tool_result'')),
               (''category'', py_or (getv out ''tool_family'') (getv out ''category'')), (''result'', JObj r)] in
        dput_if (truthy (getv packed ''truncated'') \<or> getv packed ''error'' = JStr ''payload_too_large'')
          ''truncated'' (JBool True) (dset ''result'' (packed_blob packed) out))
    | _ \<Rightarrow> out)"

definition logger_payload :: "dict \<Rightarrow> dict" where
  "logger_payload out = (case getv out ''payload'' of
      JObj pl \<Rightarrow>
        dset ''payload''
          (if is_obj (getv pl ''result'') then JObj (compact_event pl)
           else packed_blob (compact_event [(''tool'', py_or (getv out ''tool'') (getv pl ''tool'')),
                  (''event_type'', py_or (getv pl ''event_type'') (getv out ''event_type'')), (''result'', JObj pl)])) out
    | _ \<Rightarrow> out)"

definition shrink_blob :: "string \<Rightarrow> dict \<Rightarrow> dict" where
  "shrink_blob k out = (case getv out k of
      JObj b \<Rightarrow> if length (dump (JObj b)) > 4000 then dset k (JObj (counts_only b)) out else out
    | _ \<Rightarrow> out)"

definition compact_logger_data :: "json \<Rightarrow> dict" where
  "compact_logger_data v = (case v of
      JObj data \<Rightarrow>
       (let out = compact_result otlp_list_sample (logger_payload (logger_result data)) in
        if payload_fits out then out
        else
         (let out = shrink_blob ''payload'' (shrink_blob ''result'' (dset ''truncated'' (JBool True) out)) in
          if payload_fits out then out
          else dset ''truncated'' (JBool True)
                 (map (\<lambda>k. (k, getv out k)) (filter (\<lambda>k. has k out) logger_keep))))
    | _ \<Rightarrow> [(''value'', JStr (take 500 (py_str v)))])"

section \<open>Samples\<close>

text \<open>
  A result that compaction does not mark keeps every list, so any larger limit gives the same
  result; marking a result that is marked already changes nothing.
\<close>

definition item_of :: "nat \<Rightarrow> string \<times> json \<Rightarrow> dict \<times> bool" where
  "item_of m = (\<lambda>(k, v). case v of
       JList xs \<Rightarrow> list_item m k xs
     | JObj c \<Rightarrow>
        (if k = ''channels'' then
          (let chs = map (\<lambda>(name, ch). (name, case ch of JObj e \<Rightarrow> JObj (compact_result m e) | _ \<Rightarrow> ch)) c in
           ([(k, JObj chs)], list_ex (\<lambda>(name, ch). marked ch) chs))
         else if k = ''event_data'' then ([(k, JObj (slim_event_data v))], False)
         else (let nested = JObj (compact_result m c) in ([(k, nested)], marked nested)))
     | _ \<Rightarrow> ([(k, v)], False))"

definition cut :: "nat \<Rightarrow> dict \<Rightarrow> bool" where
  "cut m d \<longleftrightarrow> truthy (getv d ''truncated'') \<or> list_ex snd (map (item_of m) d)"

lemma compact_result_items:
  "compact_result m d = gather (truthy (getv d ''truncated'')) (map (item_of m) d)"
  by (subst compact_result.simps) (simp only: item_of_def)

lemma cut_marked: "cut m d \<Longrightarrow> map_of (compact_result m d) ''truncated'' = Some (JBool True)"
  by (simp add: cut_def compact_result_items gather_def Let_def)

lemma sampled_same: "\<not> snd (sampled k xs m) \<Longrightarrow> m \<le> n \<Longrightarrow> sampled k xs n = sampled k xs m"
  by (simp add: sampled_def sample_list_def split: if_splits)

lemma list_item_same: "\<not> snd (list_item m k xs) \<Longrightarrow> m \<le> n \<Longrightarrow> list_item n k xs = list_item m k xs"
  unfolding list_item_def Let_def by (simp split: if_splits) (rule sampled_same; assumption)+

lemma marked_uncut: "\<not> marked (JObj (compact_result m d)) \<Longrightarrow> \<not> cut m d"
  using cut_marked [of m d] by (auto simp: marked_def getv_def)

lemma uncut_same:
  assumes "\<not> cut m d" "m \<le> n"
  shows "compact_result n d = compact_result m d"
  using assms
proof (induction m d rule: compact_result.induct)
  case (1 m d)
  have "item_of n x = item_of m x" if x: "x \<in> set d" for x
  proof -
    obtain k v where kv: "x = (k, v)" by (cases x)
    have f: "\<not> snd (item_of m (k, v))"
      using 1(3) x kv by (auto simp: cut_def list_ex_iff)
    show ?thesis
    proof (cases v)
      case (JList xs)
      then show ?thesis using f 1(4) list_item_same [of m k xs n] by (simp add: kv item_of_def)
    next
      case (JObj c)
      show ?thesis
      proof (cases "k = ''channels''")
        case True
        have "compact_result n e = compact_result m e" if "(name, JObj e) \<in> set c" for name e
        proof (rule 1(1) [OF x kv [symmetric] JObj True that refl refl])
          show "\<not> cut m e"
            using f that by (intro marked_uncut) (auto simp: item_of_def JObj True Let_def list_ex_iff)
        qed (use 1(4) in simp_all)
        then have "map (\<lambda>(name, ch). (name, case ch of JObj e \<Rightarrow> JObj (compact_result n e) | _ \<Rightarrow> ch)) c
            = map (\<lambda>(name, ch). (name, case ch of JObj e \<Rightarrow> JObj (compact_result m e) | _ \<Rightarrow> ch)) c"
          by (intro map_cong) (auto split: json.split)
        then show ?thesis by (simp only: kv item_of_def JObj True Let_def case_prod_conv json.case if_True simp_thms refl)
      next
        case False
        from f have u: "\<not> marked (JObj (compact_result m c))" if "k \<noteq> ''event_data''"
          using False that by (simp add: item_of_def JObj Let_def)
        have "compact_result n c = compact_result m c" if "k \<noteq> ''event_data''"
          by (rule 1(2) [OF x kv [symmetric] JObj False that marked_uncut [OF u [OF that]] 1(4)])
        then show ?thesis using False by (simp add: kv item_of_def JObj Let_def)
      qed
    qed (simp_all add: kv item_of_def)
  qed
  then show ?case by (simp add: compact_result_items cong: map_cong)
qed

lemma dset_same: "map_of d k = Some v \<Longrightarrow> dset k v d = d"
  by (induction d) (auto simp: dset_def)

lemma mark_result_cut:
  assumes "cut m raw"
  shows "mark_result (wrap inner (compact_result m raw)) = wrap inner (compact_result m raw)"
proof -
  have "map_of (wrap inner r) ''result'' = Some (JObj r)" for r
    by (simp add: wrap_def dict_simps)
  then show ?thesis
    by (simp add: mark_result_def getv_def dset_same cut_marked [OF assms])
qed

lemma first_fit_fits:
  assumes "first_fit inner raw ms = Some payload" "\<forall>m \<in> set ms. m < otlp_list_sample \<longrightarrow> payload_fits (wrap inner (compact_result m raw)) \<longrightarrow> cut m raw"
  shows "payload_fits payload"
  using assms
proof (induction ms)
  case (Cons m ms)
  then show ?case
    by (cases "payload_fits (wrap inner (compact_result m raw))") (auto simp: Let_def mark_result_cut split: if_splits)
qed simp

text \<open>
  C24: The payload of an event for OTLP has at most 8000 characters, or it is the short summary
  that says that the payload was too large. The mark added after the length was checked never
  makes it longer: a smaller sample is only tried when the larger one was cut.
\<close>

theorem otlp_payload_fits:
  "payload_fits (compact_event inner) \<or> compact_event inner = too_large inner"
proof (cases "getv inner ''result''")
  case (JObj raw)
  show ?thesis
  proof (cases "first_fit inner raw [otlp_list_sample, 8, 4, 2]")
    case (Some payload)
    have "payload_fits payload"
    proof (cases "payload_fits (wrap inner (compact_result otlp_list_sample raw))")
      case True
      with Some show ?thesis by (simp add: Let_def)
    next
      case False
      have eq: "first_fit inner raw [8, 4, 2] = Some payload" using Some False by (simp add: Let_def)
      show ?thesis 
      proof (rule first_fit_fits [OF eq], intro ballI impI)
        fix m assume m: "m \<in> set [8, 4, 2]" "m < otlp_list_sample" "payload_fits (wrap inner (compact_result m raw))"
        show "cut m raw"
        proof (rule ccontr)
          assume "\<not> cut m raw"
          then have "compact_result otlp_list_sample raw = compact_result m raw"
            by (rule uncut_same) (use m(2) in simp)
          with m(3) False show False by simp
        qed
      qed
    qed
    with Some JObj show ?thesis by (simp add: compact_event_def)
  next
    case None
    with JObj show ?thesis by (simp add: compact_event_def Let_def)
  qed
qed (simp_all add: compact_event_def)

text \<open>The log service gets a record that payload_fits, or one with the listed fields only.\<close>

lemma logger_data_bounded:
  "payload_fits (compact_logger_data (JObj d)) \<or> fst ` set (compact_logger_data (JObj d)) \<subseteq> insert ''truncated'' (set logger_keep)"
  by (auto simp: compact_logger_data_def Let_def keys_dset)

section \<open>Repeated compaction\<close>

lemma write_all_simps [simp]:
  "write_all [] out = out"
  "write_all ((k, v) # ws) out = write_all ws (dset k v out)"
  by (simp_all add: write_all_def)

definition sampled_key :: "string \<Rightarrow> bool" where
  \<comment> \<open>lists whose entries are cut by the general recipe\<close>
  "sampled_key k \<longleftrightarrow> k \<in> set bulky_list_keys \<and> k \<notin> {''packages'', ''entries'', ''rows'', ''points''}"

lemma sampled_key_item: "sampled_key k \<Longrightarrow> list_item m k xs = sampled k (map slim_record xs) m"
  by (auto simp: list_item_def sampled_key_def)

lemma one_list_cut:
  assumes "sampled_key k" "m < length xs" "k \<noteq> ''truncated''"
  shows "compact_result m [(k, JList xs)] =
    [(k, JList (map slim_record (take m xs))), (k @ ''_omitted'', JInt (int (length xs - m))), (''truncated'', JBool True)]"
  using assms
  by (simp add: compact_result_items item_of_def sampled_key_item sampled_def sample_list_def gather_def
      dset_def take_map)

text \<open>
  A result is compacted by the scheduler and again by the exporter. When the second
  sample is smaller, the list keeps \<open>n\<close> entries, yet the number of omitted entries is the one
  of the first compaction: the entries that the second one dropped are counted nowhere.
\<close>

theorem second_compaction_miscounts:
  assumes "sampled_key k" "n < m" "m < length xs" "k \<noteq> ''truncated''"
  shows "\<exists>kept. getv (compact_result n (compact_result m [(k, JList xs)])) k = JList kept \<and> length kept = n
    \<and> getv (compact_result n (compact_result m [(k, JList xs)])) (k @ ''_omitted'') = JInt (int (length xs - m))
    \<and> length xs - m < length xs - n"
proof -
  define ys where "ys = map slim_record (take m xs)"
  have l: "length ys = m" using assms(3) by (simp add: ys_def)
  have "k @ ''_omitted'' \<noteq> ''truncated''"
  proof
    assume "k @ ''_omitted'' = ''truncated''"
    then have "drop (length k) ''truncated'' = ''_omitted''" by (metis append_eq_conv_conj)
    moreover have "length k = 1" using \<open>k @ ''_omitted'' = ''truncated''\<close> [THEN arg_cong, of length] by simp
    ultimately show False by simp
  qed
  then show ?thesis
    unfolding one_list_cut [OF assms(1,3,4)] ys_def [symmetric]
    using assms l
    by (simp add: compact_result_items item_of_def sampled_key_item sampled_def sample_list_def gather_def dict_simps)
qed

theorem second_compaction_miscounts_witness:
  "\<exists>kept. getv (compact_result 8 (compact_result 12 [(''services'', JList (replicate 50 (JStr ''nginx'')))])) ''services''
      = JList kept \<and> length kept = 8
    \<and> getv (compact_result 8 (compact_result 12 [(''services'', JList (replicate 50 (JStr ''nginx'')))])) (''services'' @ ''_omitted'')
      = JInt (int (length (replicate 50 (JStr ''nginx'')) - 12))
    \<and> length (replicate 50 (JStr ''nginx'')) - 12 < length (replicate 50 (JStr ''nginx'')) - 8"
  by (rule second_compaction_miscounts) (simp_all add: sampled_key_def bulky_list_keys_def)

end
