(* ===== verification/Agent_Session.thy ===== *)
theory Agent_Session
  imports Py_Flow Execute_Tool Event_Model Rate_Limiter Audit_Log Otlp_Compact
begin

text \<open>
  The session of the agent, \<open>client_session\<close> of
  \<^verbatim>\<open>ws_tools_client_embedded.py\<close>: what happens to a message of the backend, above
  all to a \<open>command_request\<close>, from the duplicate check to the response. Each guard of
  the handler is one action that either lets the request pass or ends the turn of the loop.
  An exception outside the \<open>try\<close> of the execution leaves the session.
\<close>

section \<open>State and environment\<close>

record agent =
  dedup :: "string list \<times> string set"
  limiter :: rate_limiter
  audit :: "disk \<times> audit_log"
  wire :: "dict list"
  events :: "dict list"
  urgent :: "dict list"
  restarts :: "pyfloat list"
  agent_id :: json
  seen :: "string list"
  executed :: "(nat \<times> dict) list"

text \<open>
  \<open>dedup\<close> is the pair of module variables \<open>_cmd_dedup_ids\<close> and \<open>_cmd_dedup_set\<close>;
  \<open>wire\<close> is what the socket has sent; \<open>events\<close> are the messages put into the telemetry
  buffer and \<open>urgent\<close> the priority queue. \<open>seen\<close> and \<open>executed\<close> are not in the code:
  the ids that were ever recorded, and the requests whose tool was started, each with the
  number of ids recorded by then.

  The environment of one message: clocks, primitives, files, the collectors and the settings
  of the session.
\<close>

record agent_env =
  started :: int
  checked :: int
  finished :: int
  tick :: rat
  wall :: rat
  ed_verify :: "json \<Rightarrow> string \<Rightarrow> json \<Rightarrow> bool"
  sha256 :: "string \<Rightarrow> string"
  files :: "string \<Rightarrow> fnode"
  collectors_of :: collectors
  too_slow :: bool
  link :: "nat \<Rightarrow> bool"
  disk_ok :: bool
  exc_text :: "py_exc \<Rightarrow> string"
  host :: dict
  ident :: dict
  tenant :: json
  settings :: dict
  policy :: command_policy
  limit_chars :: int
  settings_file :: json
  audit_default :: string

definition executor_of :: "agent_env \<Rightarrow> executor" where
  "executor_of e = \<lparr>call = collectors_of e,
     scripts = resolve_script_from_catalog (ed_verify e) (sha256 e) (files e) (settings e),
     max_chars = limit_chars e, config = settings e, config_file = settings_file e\<rparr>"

record request =
  mid :: string
  raw :: string
  cmd :: string
  prm :: json
  body :: dict

section \<open>Duplicates\<close>

definition CMD_DEDUP_MAX :: nat where "CMD_DEDUP_MAX = 256"

definition is_duplicate_message :: "string \<Rightarrow> string list \<times> string set \<Rightarrow> bool \<times> (string list \<times> string set)" where
  \<comment> \<open>the deque drops its first element by itself when it is full\<close>
  "is_duplicate_message m = (\<lambda>(ids, set_ids).
     if m \<in> set_ids then (True, (ids, set_ids))
     else
       (let (ids, set_ids) = (if card set_ids \<ge> CMD_DEDUP_MAX
              then (case ids of [] \<Rightarrow> (ids, set_ids) | x # xs \<Rightarrow> (xs, set_ids - {x}))
              else (ids, set_ids));
            ids = (if length ids \<ge> CMD_DEDUP_MAX then tl ids else ids) in
        (False, (ids @ [m], insert m set_ids))))"

section \<open>Effects\<close>

definition send :: "agent_env \<Rightarrow> dict \<Rightarrow> (agent, unit) act" where
  "send e msg s =
     (if link e (length (wire s)) then (Val (), s\<lparr>wire := wire s @ [msg]\<rparr>) else (Raise OSError, s))"

definition audit_write :: "agent_env \<Rightarrow> dict \<Rightarrow> (agent, unit) act" where
  "audit_write e rec s =
     (case audit_append (sha256 e) (audit_default e) (wall e) (disk_ok e) rec (audit s) of
        (Inl x, a) \<Rightarrow> (Raise x, s\<lparr>audit := a\<rparr>)
      | (Inr r, a) \<Rightarrow> (Val (), s\<lparr>audit := a\<rparr>))"

definition reply :: "agent_env \<Rightarrow> request \<Rightarrow> string \<Rightarrow> string \<Rightarrow> (agent, 'a) act" where
  \<comment> \<open>an early response ends the turn\<close>
  "reply e r status why = reading (\<lambda>s.
     act_seq (send e (make_command_response (mid r) status (agent_id s) (tenant e) JNull (JStr why)
       (JStr (isoformat (started e))) (JStr (isoformat (checked e))) None)) stop)"

definition rejection_record :: "request \<Rightarrow> string \<Rightarrow> json \<Rightarrow> dict" where
  "rejection_record r why aid =
     [(''kind'', JStr ''command_rejected''), (''message_id'', JStr (mid r)), (''command'', JStr (raw r)),
      (''params'', prm r), (''issued_by'', getv (body r) ''issued_by''), (''issued_at'', getv (body r) ''issued_at''),
      (''reason'', JStr why), (''agent_id'', aid)]"

definition reject_audited :: "agent_env \<Rightarrow> request \<Rightarrow> string \<Rightarrow> (agent, unit) act" where
  "reject_audited e r why = reading (\<lambda>s.
     act_seq (audit_write e (rejection_record r why (agent_id s))) (reply e r STATUS_REJECTED why))"

section \<open>The guards of a command request\<close>

definition parse_request :: "agent_env \<Rightarrow> dict \<Rightarrow> (agent, request) act" where
  "parse_request e payload =
     act_bind (lift_res (text_or (getv payload ''command'') [])) (\<lambda>raw_command.
       let r = \<lparr>mid = str_or (getv payload ''message_id'') [], raw = raw_command,
                cmd = resolve_command raw_command, prm = py_or (getv payload ''params'') (JObj []), body = payload\<rparr> in
       if mid r = [] then stop
       else if raw_command = [] then reply e r STATUS_REJECTED ''command_request sin command''
       else ret r)"

definition check_duplicate :: "request \<Rightarrow> (agent, unit) act" where
  "check_duplicate r s =
     (let (dup, d) = is_duplicate_message (mid r) (dedup s) in
      if dup then (Continue, s) else (Val (), s\<lparr>dedup := d, seen := seen s @ [mid r]\<rparr>))"

definition request_text :: "request \<Rightarrow> string" where
  \<comment> \<open>the canonical text that the agent verifies\<close>
  "request_text r =
     command_canonical (JStr (mid r)) (getv (body r) ''agent_id'') (JStr (raw r)) (prm r)
       (getv (body r) ''issued_by'') (getv (body r) ''issued_at'') (getv (body r) ''expires_at'')"

definition signed :: "agent_env \<Rightarrow> request \<Rightarrow> bool" where
  "signed e r \<longleftrightarrow> verify_command_signature (ed_verify e) (getv (settings e) ''signing_public_key'')
     (request_text r) (getv (body r) ''signature'')"

definition signature_reason :: "agent_env \<Rightarrow> string" where
  "signature_reason e =
     (if \<not> truthy (getv (settings e) ''signing_public_key'')
      then ''Sin clave p'' @ [CHR 0xFA] @ ''blica de firma configurada (enrollment '' @ [CHR 0xA7] @ ''8.2)''
      else ''Firma Ed25519 inv'' @ [CHR 0xE1] @ ''lida'')"

definition check_signature :: "agent_env \<Rightarrow> request \<Rightarrow> (agent, unit) act" where
  "check_signature e r = (if signed e r then ret () else reject_audited e r (signature_reason e))"

definition check_policy :: "agent_env \<Rightarrow> request \<Rightarrow> (agent, unit) act" where
  "check_policy e r =
     (let (ok, why) = policy_check (policy e) (cmd r) in
      if ok then ret () else reject_audited e r why)"

definition check_rate :: "agent_env \<Rightarrow> request \<Rightarrow> (agent, unit) act" where
  "check_rate e r = reading (\<lambda>s.
     let (ok, l) = allow_per_command (tick e) (tick e) (str_or (agent_id s) ''agent'') (cmd r) (limiter s) in
     act_seq (put_state (limiter_update (\<lambda>_. l)))
       (if ok then ret ()
        else reply e r STATUS_REJECTED (''Rate limit local excedido para '' @ str_repr (cmd r))))"

definition check_script :: "agent_env \<Rightarrow> request \<Rightarrow> (agent, unit) act" where
  "check_script e r =
     (if cmd r \<noteq> ''run_script'' then ret ()
      else act_bind (lift_res (py_get (prm r) ''script_id'')) (\<lambda>v.
           act_bind (lift_res (text_or v [])) (\<lambda>script_id.
             case resolve_script_from_catalog (ed_verify e) (sha256 e) (files e) (settings e) script_id of
               Some sp \<Rightarrow> if sp \<noteq> [] then ret () else reply e r STATUS_REJECTED (script_missing script_id)
             | None \<Rightarrow> reply e r STATUS_REJECTED (script_missing script_id))))"

definition check_expiry :: "agent_env \<Rightarrow> request \<Rightarrow> (agent, unit) act" where
  "check_expiry e r =
     act_bind (lift_res (is_expired (checked e) (getv (body r) ''expires_at''))) (\<lambda>late.
       if late then reply e r STATUS_EXPIRED ''Comando expirado (expires_at)'' else ret ())"

definition acknowledge :: "agent_env \<Rightarrow> request \<Rightarrow> (agent, unit) act" where
  \<comment> \<open>the acknowledgement, the line for the log, and \<open>running\<close> for a long command\<close>
  "acknowledge e r = reading (\<lambda>s.
     act_seq (send e (make_command_ack (mid r) (agent_id s) (tenant e)))
     (act_seq (case prm r of
         JObj d \<Rightarrow> act_bind (lift_res (tool_target_summary (cmd r) d)) (\<lambda>_. ret ())
       | _ \<Rightarrow> lift_res (Inl AttributeError))
     (unless_skip (cmd r \<in> set LONG_RUNNING_COMMANDS)
       (send e (make_command_response (mid r) STATUS_RUNNING (agent_id s) (tenant e) JNull JNull
          (JStr (isoformat (started e))) JNull None)))))"

section \<open>Execution\<close>

definition run_tool :: "agent_env \<Rightarrow> request \<Rightarrow> dict \<Rightarrow> (agent, json res) act" where
  \<comment> \<open>\<open>asyncio.wait_for(execute_tool(...), timeout)\<close>; its exceptions are caught\<close>
  "run_tool e r d s =
     (Val (if too_slow e then Inl TimeoutError else execute_tool (executor_of e) (cmd r) d),
      s\<lparr>executed := executed s @ [(length (seen s), body r)]\<rparr>)"

record verdict =
  result :: json
  status :: string
  reason :: json
  answer :: json

definition failure_text :: "agent_env \<Rightarrow> pyfloat \<Rightarrow> py_exc \<Rightarrow> string" where
  "failure_text e t x =
     (if x = TimeoutError then ''Timeout ('' @ py_repr (JFloat t) @ ''s) excedido en el agente'' else exc_text e x)"

definition failed_reason :: "dict \<Rightarrow> json" where
  "failed_reason d =
     py_or (py_or (getv d ''error'')
       (if truthy (getv d ''status'') then JStr (''Resultado '' @ py_str (getv d ''status'')) else JNull))
       (JStr (''Ejecuci'' @ [CHR 0xF3] @ ''n fall'' @ [CHR 0xF3] @ '' en el agente''))"

definition judge :: "agent_env \<Rightarrow> request \<Rightarrow> pyfloat \<Rightarrow> json res \<Rightarrow> verdict" where
  \<comment> \<open>the summary for the log is computed inside the \<open>try\<close>\<close>
  "judge e r t res =
     (case res of
        Inl x \<Rightarrow> \<lparr>result = JNull, status = STATUS_ERROR, reason = JStr (failure_text e t x), answer = JNull\<rparr>
      | Inr v \<Rightarrow>
         (case result_summary (cmd r) v of
            Inl x \<Rightarrow> \<lparr>result = v, status = STATUS_ERROR, reason = JStr (failure_text e t x), answer = JNull\<rparr>
          | Inr line \<Rightarrow>
             if command_result_failed v
             then \<lparr>result = v, status = STATUS_ERROR, reason = failed_reason (obj_of v), answer = v\<rparr>
             else \<lparr>result = v, status = STATUS_SUCCESS, reason = JNull, answer = v\<rparr>))"

definition RESTART_MARKER :: string where "RESTART_MARKER = ''_agent_restart''"

definition without_marker :: "json \<Rightarrow> json" where
  "without_marker v = (case v of JObj d \<Rightarrow> JObj (dpop RESTART_MARKER d) | _ \<Rightarrow> v)"

definition marker :: "json \<Rightarrow> json" where
  "marker v = (case v of JObj d \<Rightarrow> getv d RESTART_MARKER | _ \<Rightarrow> JNull)"

definition duration_ms :: "agent_env \<Rightarrow> int option" where
  "duration_ms e =
     (case (parse_iso (JStr (isoformat (started e))), parse_iso (JStr (isoformat (finished e)))) of
        (Some a, Some b) \<Rightarrow> Some (Py_Text.truncate (rat_of_int (dt_us b - dt_us a) / 1000))
      | _ \<Rightarrow> None)"

definition audit_executed :: "agent_env \<Rightarrow> request \<Rightarrow> verdict \<Rightarrow> json \<Rightarrow> (agent, unit) act" where
  "audit_executed e r v summary = reading (\<lambda>s. audit_write e
       [(''kind'', JStr ''command_executed''), (''message_id'', JStr (mid r)), (''command'', JStr (raw r)),
        (''params'', prm r), (''issued_by'', getv (body r) ''issued_by''), (''issued_at'', getv (body r) ''issued_at''),
        (''expires_at'', getv (body r) ''expires_at''), (''status'', JStr (status v)),
        (''result_summary'', summary), (''error'', reason v), (''started_at'', JStr (isoformat (started e))),
        (''completed_at'', JStr (isoformat (finished e))), (''agent_id'', agent_id s)])"

definition final_response :: "agent_env \<Rightarrow> request \<Rightarrow> verdict \<Rightarrow> json \<Rightarrow> dict" where
  "final_response e r v aid =
     make_command_response (mid r) (status v) aid (tenant e) (answer v) (reason v)
       (JStr (isoformat (started e))) (JStr (isoformat (finished e))) (duration_ms e)"

definition session_telemetry :: "agent_env \<Rightarrow> dict \<Rightarrow> agent \<Rightarrow> agent" where
  \<comment> \<open>\<open>_session_telemetry_sink\<close>; the priority queue holds 200 messages\<close>
  "session_telemetry e event s =
     (let msg = make_event_push (host e) (finished e) (py_or (getv (ident e) ''agent_id'') (agent_id s)) (JObj event)
                  (py_or (getv (ident e) ''tenant_id'') (tenant e)) (JStr (isoformat (finished e)));
          s = s\<lparr>events := events s @ [msg]\<rparr> in
      if is_control_plane_event event \<and> length (urgent s) < 200 then s\<lparr>urgent := urgent s @ [msg]\<rparr> else s)"

definition tool_event :: "request \<Rightarrow> verdict \<Rightarrow> dict" where
  "tool_event r v =
     [(''event_type'', JStr ''telemetry.tool_result''), (''category'', JStr (tool_category (cmd r))),
      (''severity'', JStr (if status v \<noteq> STATUS_SUCCESS then ''error'' else ''info'')), (''scheduled'', JBool False),
      (''request_id'', JStr (mid r)), (''tool'', JStr (cmd r)), (''result'', answer v), (''error'', reason v)]"

definition os_telemetry :: "string \<Rightarrow> bool" where
  "os_telemetry c \<longleftrightarrow> c \<in> set WINDOWS_TOOLS \<or> c \<in> set LINUX_TOOLS \<or> c \<in> set [''windows_sysmon'', ''windows_defender'', ''linux_lsm'']"

definition schedule_restart :: "json \<Rightarrow> (agent, unit) act" where
  "schedule_restart m =
     (if truthy m then act_bind (lift_res (py_float m)) (\<lambda>f. put_state (restarts_update (\<lambda>rs. rs @ [f])))
      else ret ())"

definition compact_answer :: "request \<Rightarrow> verdict \<Rightarrow> (agent, verdict) act" where
  "compact_answer r v = (case answer v of
      JObj d \<Rightarrow> act_bind (lift_res (compact_command_result (JStr (cmd r)) d)) (\<lambda>c. ret (v\<lparr>answer := JObj c\<rparr>))
    | _ \<Rightarrow> ret v)"

definition finish_request :: "agent_env \<Rightarrow> request \<Rightarrow> verdict \<Rightarrow> (agent, unit) act" where
  "finish_request e r v0 = reading (\<lambda>s.
     let m = marker (result v0);
          v = v0\<lparr>result := without_marker (result v0), answer := without_marker (answer v0)\<rparr> in
      act_bind (if result v = JNull then ret JNull
                else act_bind (lift_res (result_summary (cmd r) (result v))) (\<lambda>line. ret (JStr line))) (\<lambda>summary.
      act_seq (audit_executed e r v summary)
        (act_bind (compact_answer r v) (\<lambda>v.
         act_seq (send e (final_response e r v (agent_id s)))
        (act_seq (unless_skip (os_telemetry (cmd r)) (put_state (session_telemetry e (tool_event r v))))
           (schedule_restart m))))))"

definition execute_request :: "agent_env \<Rightarrow> request \<Rightarrow> (agent, unit) act" where
  "execute_request e r =
     act_bind (lift_res (command_timeout (cmd r) (obj_of (prm r)))) (\<lambda>t.
     act_bind (run_tool e r (obj_of (prm r))) (\<lambda>res. finish_request e r (judge e r t res)))"

definition handle_command :: "agent_env \<Rightarrow> dict \<Rightarrow> (agent, unit) act" where
  "handle_command e payload =
     act_bind (parse_request e payload) (\<lambda>r.
     act_seq (check_duplicate r)
    (act_seq (check_signature e r)
    (act_seq (check_policy e r)
    (act_seq (check_rate e r)
    (act_seq (check_script e r)
    (act_seq (check_expiry e r)
    (act_seq (acknowledge e r)
             (execute_request e r))))))))"

section \<open>Frames\<close>

text \<open>What the guards leave alone: the duplicate store, the ids and the executions.\<close>

definition books :: "agent \<Rightarrow> (string list \<times> string set) \<times> string list \<times> (nat \<times> dict) list" where
  "books s = (dedup s, seen s, executed s)"


lemma frame_send [frame_intros]: "frames books (send e msg)"
  by (simp add: frames_def send_def books_def)

lemma frame_audit_write [frame_intros]: "frames books (audit_write e rec)"
  by (simp add: frames_def audit_write_def books_def split: prod.splits sum.splits)

lemma frame_reply [frame_intros]: "frames books (reply e r st why)"
  unfolding reply_def by (intro frame_intros)

lemma frame_reject [frame_intros]: "frames books (reject_audited e r why)"
  unfolding reject_audited_def by (intro frame_intros)

lemma frame_parse [frame_intros]: "frames books (parse_request e p)"
  unfolding parse_request_def Let_def by (intro frame_intros)

lemma frame_check_rate [frame_intros]: "frames books (check_rate e r)"
proof -
  have "frames books (put_state (limiter_update f))" for f
    by (rule frame_put) (simp add: books_def)
  then show ?thesis
    unfolding check_rate_def Let_def case_prod_unfold by (intro frame_intros)
qed

lemma frame_guards [frame_intros]:
  "frames books (check_signature e r)" "frames books (check_policy e r)"
  "frames books (check_script e r)" "frames books (check_expiry e r)"
proof -
  show "frames books (check_signature e r)" unfolding check_signature_def by (intro frame_intros)
  show "frames books (check_policy e r)"
    unfolding check_policy_def Let_def case_prod_unfold by (intro frame_intros)
  show "frames books (check_script e r)"
    unfolding check_script_def by (intro frame_intros)
  show "frames books (check_expiry e r)" unfolding check_expiry_def by (intro frame_intros)
qed

lemma frame_acknowledge [frame_intros]: "frames books (acknowledge e r)"
proof -
  have "frames books (case v of JObj d \<Rightarrow> act_bind (lift_res (tool_target_summary c d)) (\<lambda>_. ret ())
       | _ \<Rightarrow> lift_res (Inl AttributeError))" for v c
    by (cases v) (simp_all add: frame_intros)
  then show ?thesis unfolding acknowledge_def by (intro frame_intros)
qed

lemma frame_compact [frame_intros]: "frames books (compact_answer r v)"
  unfolding compact_answer_def by (cases "answer v"; simp; intro frame_intros)

lemma frame_finish [frame_intros]: "frames books (finish_request e r v)"
proof -
  have t: "frames books (put_state (session_telemetry e ev))" for ev
    by (rule frame_put) (simp add: session_telemetry_def Let_def books_def)
  have rs: "frames books (put_state (restarts_update f))" for f
    by (rule frame_put) (simp add: books_def)
  have a: "frames books (audit_executed e r w sm)" for w sm
    unfolding audit_executed_def by (intro frame_intros)
  show ?thesis
    unfolding finish_request_def schedule_restart_def Let_def
    by (intro frame_intros t rs a)
qed

section \<open>What a started tool has passed\<close>

definition request_of :: "dict \<Rightarrow> request" where
  "request_of p =
     (let rc = strip (case py_or (getv p ''command'') (JStr []) of JStr s \<Rightarrow> s | _ \<Rightarrow> []) in
      \<lparr>mid = str_or (getv p ''message_id'') [], raw = rc, cmd = resolve_command rc,
       prm = py_or (getv p ''params'') (JObj []), body = p\<rparr>)"

definition script_ok :: "agent_env \<Rightarrow> request \<Rightarrow> bool" where
  "script_ok e r \<longleftrightarrow> (cmd r = ''run_script'' \<longrightarrow> (\<exists>sid p.
     getv (obj_of (prm r)) ''script_id'' \<in> {JNull, JStr sid} \<and>
     resolve_script_from_catalog (ed_verify e) (sha256 e) (files e) (settings e) (strip sid) = Some p))"

definition authorised :: "agent_env \<Rightarrow> request \<Rightarrow> bool" where
  "authorised e r \<longleftrightarrow> mid r \<noteq> [] \<and> raw r \<noteq> [] \<and> signed e r \<and> fst (policy_check (policy e) (cmd r))
     \<and> is_expired (checked e) (getv (body r) ''expires_at'') = Inr False"

lemma parse_request_Val:
  assumes "parse_request e p s = (Val r, s')"
  shows "r = request_of p \<and> mid r \<noteq> [] \<and> raw r \<noteq> []"
  using assms
  by (auto simp: parse_request_def bind_Val lift_res_def text_or_def str_strip_def request_of_def Let_def
      reply_def seq_Val split: if_splits json.splits)

lemma reply_Val [simp]: "reply e r st why s \<noteq> (Val x, s')"
  by (simp add: reply_def seq_Val)

lemma reject_Val [simp]: "reject_audited e r why s \<noteq> (Val x, s')"
  by (simp add: reject_audited_def seq_Val)

lemma guards_Val:
  "check_signature e r s = (Val (), s') \<Longrightarrow> signed e r"
  "check_policy e r s = (Val (), s') \<Longrightarrow> fst (policy_check (policy e) (cmd r))"
  "check_expiry e r s = (Val (), s') \<Longrightarrow> is_expired (checked e) (getv (body r) ''expires_at'') = Inr False"
  by (auto simp: check_signature_def check_policy_def check_expiry_def bind_Val lift_res_def Let_def
      split: if_splits prod.splits sum.splits)

lemma check_duplicate_Val:
  assumes "check_duplicate r s = (Val (), s')"
  shows "is_duplicate_message (mid r) (dedup s) = (False, dedup s')" "seen s' = seen s @ [mid r]"
    "executed s' = executed s"
  using assms by (auto simp: check_duplicate_def Let_def split: prod.splits if_splits)

lemma execute_books:
  "dedup (snd (execute_request e r s)) = dedup s \<and> seen (snd (execute_request e r s)) = seen s \<and>
   executed (snd (execute_request e r s)) \<in> {executed s, executed s @ [(length (seen s), body r)]}"
proof -
  have f: "books (snd (finish_request e r v s')) = books s'" for v s'
    by (rule frameD [OF frame_finish])
  show ?thesis
  proof (cases "command_timeout (cmd r) (obj_of (prm r))")
    case (Inl x)
    then show ?thesis by (simp add: execute_request_def act_bind_def lift_res_def)
  next
    case (Inr t)
    then have "books (snd (execute_request e r s)) = books (s\<lparr>executed := executed s @ [(length (seen s), body r)]\<rparr>)"
      by (simp add: execute_request_def act_bind_def lift_res_def run_tool_def f)
    then show ?thesis by (simp add: books_def)
  qed
qed

text \<open>The three ways a request can go through the books.\<close>

definition books_step :: "agent_env \<Rightarrow> request \<Rightarrow> agent \<Rightarrow> agent \<Rightarrow> bool" where
  "books_step e r s s' \<longleftrightarrow> books s' = books s
   \<or> is_duplicate_message (mid r) (dedup s) = (False, dedup s') \<and> seen s' = seen s @ [mid r] \<and>
     (executed s' = executed s
      \<or> executed s' = executed s @ [(length (seen s'), body r)] \<and> authorised e r)"

lemma guarded_step:
  assumes "frames books m" "\<And>s'. m s = (Val (), s') \<Longrightarrow> books s' = books s \<Longrightarrow> P (books (snd (k s')))" "P (books s)"
  shows "P (books (snd (act_seq m k s)))"
  using seq_guard [OF assms(1), of k s] assms(2,3) by auto

lemma handle_books: "books_step e (request_of p) s (snd (handle_command e p s))"
proof -
  let ?r = "request_of p"
  define late where "late b \<longleftrightarrow> (\<exists>d sn ex. b = (d, sn, ex) \<and>
      is_duplicate_message (mid ?r) (dedup s) = (False, d) \<and> sn = seen s @ [mid ?r] \<and>
      (ex = executed s \<or> ex = executed s @ [(length sn, body ?r)] \<and> authorised e ?r))" for b
  have run: "late (books (snd (act_seq (check_signature e ?r) (act_seq (check_policy e ?r) (act_seq (check_rate e ?r)
      (act_seq (check_script e ?r) (act_seq (check_expiry e ?r) (act_seq (acknowledge e ?r)
        (execute_request e ?r)))))) s1)))"
    if d: "check_duplicate ?r s0 = (Val (), s1)" "books s0 = books s" and m: "mid ?r \<noteq> []" "raw ?r \<noteq> []" for s0 s1
  proof -
    note dup = check_duplicate_Val [OF d(1)]
    have b1: "executed s1 = executed s" "seen s1 = seen s @ [mid ?r]"
      "is_duplicate_message (mid ?r) (dedup s) = (False, dedup s1)"
      using dup d(2) by (simp_all add: books_def)
    then have l1: "late (books s1)" by (simp add: late_def books_def)
    show ?thesis
    proof (intro guarded_step [where P = late] frame_intros)
      fix s2 s3 s4 s5 s6 s7
      assume a: "check_signature e ?r s1 = (Val (), s2)" "books s2 = books s1"
        "check_policy e ?r s2 = (Val (), s3)" "books s3 = books s2"
        "check_rate e ?r s3 = (Val (), s4)" "books s4 = books s3"
        "check_script e ?r s4 = (Val (), s5)" "books s5 = books s4"
        "check_expiry e ?r s5 = (Val (), s6)" "books s6 = books s5"
        "acknowledge e ?r s6 = (Val (), s7)" "books s7 = books s6"
      have au: "authorised e ?r"
        using m guards_Val(1) [OF a(1)] guards_Val(2) [OF a(3)] guards_Val(3) [OF a(9)] by (simp add: authorised_def)
      show "late (books (snd (execute_request e ?r s7)))"
        using execute_books [of e ?r s7] b1 a(2,4,6,8,10,12) au by (auto simp: late_def books_def)
    qed (use l1 in auto)
  qed
  have "books (snd (handle_command e p s)) = books s \<or> late (books (snd (handle_command e p s)))"
  proof (cases "parse_request e p s")
    case (Pair x s0)
    have b0: "books s0 = books s" using frameD [OF frame_parse, of e p s] Pair by simp
    show ?thesis
    proof (cases x)
      case (Val r)
      have r: "r = ?r" "mid ?r \<noteq> []" "raw ?r \<noteq> []" using parse_request_Val [of e p s r s0] Pair Val by auto
      have h: "handle_command e p s = act_seq (check_duplicate ?r) (act_seq (check_signature e ?r)
         (act_seq (check_policy e ?r) (act_seq (check_rate e ?r) (act_seq (check_script e ?r)
         (act_seq (check_expiry e ?r) (act_seq (acknowledge e ?r) (execute_request e ?r))))))) s0"
        unfolding handle_command_def using bind_step [of "parse_request e p" s r s0] Pair Val r(1) by simp
      show ?thesis
      proof (cases "fst (is_duplicate_message (mid ?r) (dedup s0))")
        case True
        then have "handle_command e p s = (Continue, s0)"
          unfolding h by (simp add: act_seq_def act_bind_def check_duplicate_def Let_def case_prod_unfold)
        then show ?thesis using b0 by simp
      next
        case False
        then obtain s1 where s1: "check_duplicate ?r s0 = (Val (), s1)"
          by (simp add: check_duplicate_def Let_def case_prod_unfold)
        show ?thesis using run [OF s1 b0 r(2,3)] unfolding h seq_step [of "check_duplicate ?r" s0 s1, OF s1] by blast
      qed
    qed (use Pair b0 in \<open>simp_all add: handle_command_def act_bind_def\<close>)
  qed
  then show ?thesis by (auto simp: books_step_def late_def books_def)
qed

section \<open>The session as a machine\<close>

definition agent_step :: "(agent_env \<times> dict, agent, unit) machine" where
  "agent_step = (\<lambda>(e, p) s. ((), snd (handle_command e p s)))"

definition agent_start :: "rate_limiter \<Rightarrow> disk \<times> audit_log \<Rightarrow> json \<Rightarrow> agent" where
  "agent_start l a aid = \<lparr>dedup = ([], {}), limiter = l, audit = a, wire = [], events = [], urgent = [],
     restarts = [], agent_id = aid, seen = [], executed = []\<rparr>"

definition window :: "string list \<Rightarrow> string list" where
  "window ids = drop (length ids - CMD_DEDUP_MAX) ids"

definition far_apart :: "string list \<Rightarrow> bool" where
  "far_apart ids \<longleftrightarrow> (\<forall>i j. i < j \<and> j < length ids \<and> ids ! i = ids ! j \<longrightarrow> j - i > CMD_DEDUP_MAX)"

definition dedup_inv :: "(string list \<times> string set) \<times> string list \<Rightarrow> bool" where
  "dedup_inv b = (case b of (d, ids) \<Rightarrow> d = (window ids, set (window ids)) \<and> distinct (window ids) \<and> far_apart ids)"

definition agent_inv :: "(agent_env \<times> dict) set \<Rightarrow> agent \<Rightarrow> bool" where
  "agent_inv I s \<longleftrightarrow> dedup_inv (dedup s, seen s) \<and>
     sorted_wrt (<) (map fst (executed s)) \<and>
     (\<forall>(n, p) \<in> set (executed s). 0 < n \<and> n \<le> length (seen s) \<and> seen s ! (n - 1) = mid (request_of p) \<and>
        (\<exists>e. (e, p) \<in> I \<and> authorised e (request_of p)))"

lemma window_length: "length (window ids) = min (length ids) CMD_DEDUP_MAX"
  by (simp add: window_def)

lemma window_snoc:
  "window (ids @ [m]) = (if length (window ids) \<ge> CMD_DEDUP_MAX then tl (window ids) else window ids) @ [m]"
proof (cases "length ids \<ge> CMD_DEDUP_MAX")
  case True
  then have "drop (Suc (length ids) - CMD_DEDUP_MAX) ids = tl (drop (length ids - CMD_DEDUP_MAX) ids)"
    by (simp add: Suc_diff_le drop_Suc tl_drop)
  then show ?thesis using True by (simp add: window_def CMD_DEDUP_MAX_def)
next
  case False
  then show ?thesis by (simp add: window_def)
qed

lemma window_memb:
  assumes "i < length ids" "length ids - i \<le> CMD_DEDUP_MAX"
  shows "ids ! i \<in> set (window ids)"
proof -
  define k where "k = i - (length ids - CMD_DEDUP_MAX)"
  have "k < length (window ids)" "window ids ! k = ids ! i"
    using assms by (auto simp: window_def k_def)
  then show ?thesis by (metis nth_mem)
qed

lemma dedup_inv_step:
  assumes "dedup_inv (d, ids)" "is_duplicate_message m d = (False, d')"
  shows "dedup_inv (d', ids @ [m])"
proof -
  define w where "w = window ids"
  have d: "d = (w, set w)" "distinct w" "far_apart ids" using assms(1) by (simp_all add: dedup_inv_def w_def)
  have m: "m \<notin> set w" using assms(2) d(1) by (auto simp: is_duplicate_message_def split: if_splits)
  have c: "card (set w) = length w" by (rule distinct_card [OF d(2)])
  have len: "length w \<le> CMD_DEDUP_MAX" by (simp add: w_def window_length)
  have new: "d' = (window (ids @ [m]), set (window (ids @ [m]))) \<and> distinct (window (ids @ [m]))"
  proof (cases "length w \<ge> CMD_DEDUP_MAX")
    case True
    then obtain x xs where w: "w = x # xs" by (cases w) (auto simp: CMD_DEDUP_MAX_def)
    have "window (ids @ [m]) = xs @ [m]" using True w by (simp add: window_snoc flip: w_def)
    moreover have "d' = (xs @ [m], insert m (set xs))"
      using assms(2) d(1,2) m c True len w by (auto simp: is_duplicate_message_def)
    ultimately show ?thesis using d(2) m w by simp
  next
    case False
    have "window (ids @ [m]) = w @ [m]" using False by (simp add: window_snoc flip: w_def)
    moreover have "d' = (w @ [m], insert m (set w))"
      using assms(2) d(1,2) m c False by (auto simp: is_duplicate_message_def)
    ultimately show ?thesis using d(2) m by simp
  qed
  have "far_apart (ids @ [m])"
    unfolding far_apart_def
  proof (intro allI impI)
    fix i j assume ij: "i < j \<and> j < length (ids @ [m]) \<and> (ids @ [m]) ! i = (ids @ [m]) ! j"
    show "j - i > CMD_DEDUP_MAX"
    proof (cases "j < length ids")
      case True
      with ij have "ids ! i = ids ! j" "i < j" by (auto simp: nth_append)
      then show ?thesis using True d(3) by (simp add: far_apart_def)
    next
      case False
      then have j: "j = length ids" "i < length ids" "ids ! i = m" using ij by (auto simp: nth_append)
      then have "ids ! i \<notin> set (window ids)" using m by (simp add: w_def)
      then show ?thesis using window_memb [of i ids] j by fastforce
    qed
  qed
  with new show ?thesis by (simp add: dedup_inv_def)
qed

lemma agent_inv_step:
  assumes inv: "agent_inv I s" and i: "(e, p) \<in> I"
  shows "agent_inv I (snd (handle_command e p s))"
proof -
  define s' where "s' = snd (handle_command e p s)"
  have old: "\<forall>(n, q) \<in> set (executed s). 0 < n \<and> n \<le> length (seen s) \<and>
      (seen s @ ids) ! (n - 1) = mid (request_of q) \<and> (\<exists>e. (e, q) \<in> I \<and> authorised e (request_of q))" for ids
  proof (safe)
    fix n q assume "(n, q) \<in> set (executed s)"
    then have q: "0 < n" "n \<le> length (seen s)" "seen s ! (n - 1) = mid (request_of q)"
        "\<exists>e. (e, q) \<in> I \<and> authorised e (request_of q)"
      using inv by (auto simp: agent_inv_def)
    show "0 < n" "n \<le> length (seen s)" "\<exists>e. (e, q) \<in> I \<and> authorised e (request_of q)" by (fact q)+
    show "(seen s @ ids) ! (n - 1) = mid (request_of q)"
      using q nth_append_left [of "n - 1" "seen s" ids] by simp
  qed
  from handle_books [of e p s] consider "books s' = books s"
    | (recorded) "is_duplicate_message (mid (request_of p)) (dedup s) = (False, dedup s')"
        "seen s' = seen s @ [mid (request_of p)]" "executed s' = executed s"
    | (started) "is_duplicate_message (mid (request_of p)) (dedup s) = (False, dedup s')"
        "seen s' = seen s @ [mid (request_of p)]"
        "executed s' = executed s @ [(length (seen s'), p)]" "authorised e (request_of p)"
    by (auto simp: books_step_def s'_def request_of_def Let_def)
  then have "agent_inv I s'"
  proof cases
    case 1
    then show ?thesis using inv by (simp add: agent_inv_def books_def)
  next
    case recorded
    then have "dedup_inv (dedup s', seen s')" using inv dedup_inv_step [of "dedup s" "seen s" "mid (request_of p)" "dedup s'"] by (simp add: agent_inv_def)
    then show ?thesis
      using inv old [of "[mid (request_of p)]"] by (auto simp: agent_inv_def recorded(2,3))
  next
    case started
    then have d: "dedup_inv (dedup s', seen s')" using inv dedup_inv_step [of "dedup s" "seen s" "mid (request_of p)" "dedup s'"] by (simp add: agent_inv_def)
    have srt: "sorted_wrt (<) (map fst (executed s'))"
      using inv old by (auto simp: agent_inv_def sorted_wrt_append started(2,3) less_Suc_eq_le)
    have "seen s' ! (length (seen s') - 1) = mid (request_of p)" by (simp add: started(2))
    then have "\<forall>(n, q) \<in> set (executed s'). 0 < n \<and> n \<le> length (seen s') \<and> seen s' ! (n - 1) = mid (request_of q) \<and>
        (\<exists>e. (e, q) \<in> I \<and> authorised e (request_of q))"
      using old [of "[mid (request_of p)]"] i started(4) by (auto simp: started(2,3))
    with d srt show ?thesis by (simp add: agent_inv_def)
  qed
  then show ?thesis by (simp add: s'_def)
qed

interpretation agent: invariant_machine agent_step "\<lambda>i s. i \<in> I" "agent_inv I" for I
  by unfold_locales (auto simp: agent_step_def agent_inv_step)

lemma agent_start_inv: "agent_inv I (agent_start l a aid)"
  by (simp add: agent_inv_def agent_start_def dedup_inv_def window_def far_apart_def)

section \<open>The answer to an admitted request\<close>

definition outcome_of :: "agent_env \<Rightarrow> request \<Rightarrow> json res" where
  \<comment> \<open>what the tool of a request gives within its time\<close>
  "outcome_of e r = (if too_slow e then Inl TimeoutError else execute_tool (executor_of e) (cmd r) (obj_of (prm r)))"

definition summarised :: "string \<Rightarrow> json res \<Rightarrow> bool" where
  \<comment> \<open>the result has a summary, with and without the restart marker, and can be compacted\<close>
  "summarised c res = (case res of Inl x \<Rightarrow> True | Inr v \<Rightarrow>
     (\<exists>a b. result_summary c v = Inr a \<and> result_summary c (without_marker v) = Inr b)
     \<and> (case without_marker v of JObj d \<Rightarrow> \<exists>p. compact_command_result (JStr c) d = Inr p | _ \<Rightarrow> True))"

definition admitted :: "agent_env \<Rightarrow> dict \<Rightarrow> agent \<Rightarrow> bool" where
  "admitted e p s \<longleftrightarrow> (let r = request_of p in
     parse_request e p s = (Val r, s) \<and> \<not> fst (is_duplicate_message (mid r) (dedup s)) \<and> authorised e r
     \<and> fst (allow_per_command (tick e) (tick e) (str_or (agent_id s) ''agent'') (cmd r) (limiter s))
     \<and> cmd r \<noteq> ''run_script'' \<and> is_obj (prm r)
     \<and> (\<exists>line. tool_target_summary (cmd r) (obj_of (prm r)) = Inr line)
     \<and> (\<exists>t. command_timeout (cmd r) (obj_of (prm r)) = Inr t))"

definition sane_env :: "agent_env \<Rightarrow> bool" where
  \<comment> \<open>the connection holds and the audit log can be written\<close>
  "sane_env e \<longleftrightarrow> (\<forall>n. link e n) \<and> disk_ok e"

lemma send_ok: "link e (length (wire s)) \<Longrightarrow> send e m s = (Val (), s\<lparr>wire := wire s @ [m]\<rparr>)"
  by (simp add: send_def)

lemma audit_write_ok: "disk_ok e \<Longrightarrow> \<exists>a. audit_write e rec s = (Val (), s\<lparr>audit := a\<rparr>)"
  by (cases "audit s") (auto simp: audit_write_def audit_append_def Let_def)

lemma telemetry_frame:
  "wire (session_telemetry e ev s) = wire s" "executed (session_telemetry e ev s) = executed s"
  by (simp_all add: session_telemetry_def Let_def)

lemma without_marker_JNull [simp]: "without_marker JNull = JNull"
  by (simp add: without_marker_def)

lemma without_marker_None [simp]: "without_marker v = JNull \<longleftrightarrow> v = JNull"
  by (simp add: without_marker_def split: json.split)

lemma skip_wire:
  "wire (snd (act_seq (unless_skip c (put_state (session_telemetry e ev))) (schedule_restart m) s)) = wire s"
  by (simp add: act_defs schedule_restart_def telemetry_frame split: sum.split)

lemma finish_wire:
  assumes "sane_env e" "result v = JNull \<or> (\<exists>b. result_summary (cmd r) (without_marker (result v)) = Inr b)"
    and "\<And>d. without_marker (answer v) = JObj d \<Longrightarrow> \<exists>p. compact_command_result (JStr (cmd r)) d = Inr p"
  shows "\<exists>v'. wire (snd (finish_request e r v s)) = wire s @ [final_response e r v' (agent_id s)] \<and> status v' = status v"
proof -
  define w where "w = v\<lparr>result := without_marker (result v), answer := without_marker (answer v)\<rparr>"
  obtain w' where w': "compact_answer r w u = (Val w', u)" "status w' = status v" for u
  proof (cases "answer w")
    case (JObj d)
    then obtain p where p: "compact_command_result (JStr (cmd r)) d = Inr p" using assms(3) by (auto simp: w_def)
    have "compact_answer r w u = (Val (w\<lparr>answer := JObj p\<rparr>), u)" for u
      by (simp add: compact_answer_def JObj act_bind_def lift_res_def ret_def p)
    then show ?thesis by (rule that) (simp add: w_def)
  qed (rule that [of w], simp_all add: compact_answer_def ret_def w_def)+
  define sm :: "(agent, json) act" where "sm = (if result w = JNull then ret JNull
                else act_bind (lift_res (result_summary (cmd r) (result w))) (\<lambda>line. ret (JStr line)))"
  obtain summary where s: "sm s = (Val summary, s)"
  proof (cases "result v = JNull")
    case False
    then obtain b where "result_summary (cmd r) (result w) = Inr b" using assms(2) by (auto simp: w_def)
    then have "sm s = (Val (if result w = JNull then JNull else JStr b), s)"
      by (simp add: sm_def act_bind_def lift_res_def ret_def)
    then show ?thesis by (rule that)
  qed (rule that [of JNull], simp add: sm_def w_def ret_def)
  obtain a where a: "audit_executed e r w summary s = (Val (), s\<lparr>audit := a\<rparr>)"
    using audit_write_ok assms(1) unfolding audit_executed_def reading_apply sane_env_def by blast
  have "finish_request e r v s = act_seq (audit_executed e r w summary)
      (act_bind (compact_answer r w) (\<lambda>w'. act_seq (send e (final_response e r w' (agent_id s)))
        (act_seq (unless_skip (os_telemetry (cmd r)) (put_state (session_telemetry e (tool_event r w'))))
           (schedule_restart (marker (result v)))))) s"
    unfolding finish_request_def reading_apply Let_def w_def [symmetric] sm_def [symmetric]
    by (rule bind_step [of sm s summary s, OF s])
  also have "\<dots> = act_seq (unless_skip (os_telemetry (cmd r)) (put_state (session_telemetry e (tool_event r w'))))
      (schedule_restart (marker (result v))) (s\<lparr>audit := a, wire := wire s @ [final_response e r w' (agent_id s)]\<rparr>)"
    using assms(1) by (simp add: act_seq_def a send_def sane_env_def act_bind_def w'(1))
  finally have "wire (snd (finish_request e r v s)) = wire s @ [final_response e r w' (agent_id s)]"
    by (simp add: skip_wire)
  with w'(2) show ?thesis by blast
qed

definition acked :: "agent_env \<Rightarrow> request \<Rightarrow> json \<Rightarrow> dict list" where
  \<comment> \<open>the messages before the final response\<close>
  "acked e r aid = make_command_ack (mid r) aid (tenant e) #
     (if cmd r \<in> set LONG_RUNNING_COMMANDS
      then [make_command_response (mid r) STATUS_RUNNING aid (tenant e) JNull JNull (JStr (isoformat (started e))) JNull None]
      else [])"

lemma acknowledge_run:
  assumes "sane_env e" "prm r = JObj d" "tool_target_summary (cmd r) d = Inr line"
  shows "acknowledge e r s = (Val (), s\<lparr>wire := wire s @ acked e r (agent_id s)\<rparr>)"
proof -
  have l: "link e n" for n using assms(1) by (simp add: sane_env_def)
  show ?thesis
    by (simp add: acknowledge_def assms(2,3) act_seq_def act_bind_def send_def l lift_res_def ret_def unless_skip_def acked_def)
qed

lemma judge_facts:
  assumes "summarised (cmd r) res"
  shows "result (judge e r t res) = JNull \<or>
      (\<exists>b. result_summary (cmd r) (without_marker (result (judge e r t res))) = Inr b)"
    and "status (judge e r t res) =
      (case res of Inr v \<Rightarrow> if command_result_failed v then STATUS_ERROR else STATUS_SUCCESS | Inl x \<Rightarrow> STATUS_ERROR)"
    and "without_marker (answer (judge e r t res)) = JObj d \<Longrightarrow> \<exists>p. compact_command_result (JStr (cmd r)) d = Inr p"
  using assms by (auto simp: judge_def summarised_def split: sum.splits if_splits)

lemma execute_wire:
  assumes "sane_env e" "prm r = JObj d" "command_timeout (cmd r) d = Inr t" "summarised (cmd r) (outcome_of e r)"
  shows "\<exists>v. wire (snd (execute_request e r s)) = wire s @ [final_response e r v (agent_id s)] \<and>
    status v = (case outcome_of e r of Inr x \<Rightarrow> if command_result_failed x then STATUS_ERROR else STATUS_SUCCESS
                | Inl x \<Rightarrow> STATUS_ERROR)"
proof -
  have x: "execute_request e r s = finish_request e r (judge e r t (outcome_of e r))
      (s\<lparr>executed := executed s @ [(length (seen s), body r)]\<rparr>)"
    using assms(2,3) by (simp add: execute_request_def act_bind_def lift_res_def run_tool_def outcome_of_def)
  show ?thesis
    using finish_wire [OF assms(1) judge_facts(1) [OF assms(4), of e t] judge_facts(3) [OF assms(4), of e t], of "s\<lparr>executed := executed s @ [(length (seen s), body r)]\<rparr>"]
      judge_facts(2) [OF assms(4), of e t] unfolding x by auto
qed

lemma handle_admitted:
  assumes "admitted e p s" "sane_env e"
  shows "\<exists>s'. wire s' = wire s @ acked e (request_of p) (agent_id s) \<and> agent_id s' = agent_id s
    \<and> seen s' = seen s @ [mid (request_of p)] \<and> executed s' = executed s
    \<and> handle_command e p s = execute_request e (request_of p) s'"
proof -
  let ?r = "request_of p"
  from assms(1) have p: "parse_request e p s = (Val ?r, s)" and dup: "\<not> fst (is_duplicate_message (mid ?r) (dedup s))"
    and au: "authorised e ?r" and c: "cmd ?r \<noteq> ''run_script''"
    and rl: "fst (allow_per_command (tick e) (tick e) (str_or (agent_id s) ''agent'') (cmd ?r) (limiter s))"
    by (simp_all add: admitted_def Let_def)
  obtain d line where d: "prm ?r = JObj d" "tool_target_summary (cmd ?r) d = Inr line"
    using assms(1) by (cases "prm ?r") (auto simp: admitted_def Let_def)
  define s1 where "s1 = s\<lparr>dedup := snd (is_duplicate_message (mid ?r) (dedup s)), seen := seen s @ [mid ?r]\<rparr>"
  define s2 where "s2 = s1\<lparr>limiter := snd (allow_per_command (tick e) (tick e) (str_or (agent_id s) ''agent'') (cmd ?r) (limiter s))\<rparr>"
  have 1: "check_duplicate ?r s = (Val (), s1)"
    using dup by (simp add: check_duplicate_def Let_def case_prod_unfold s1_def)
  have 2: "check_signature e ?r s1 = (Val (), s1)" "check_policy e ?r s1 = (Val (), s1)"
    using au by (simp_all add: check_signature_def check_policy_def authorised_def case_prod_unfold Let_def ret_def)
  have 3: "check_rate e ?r s1 = (Val (), s2)"
    using rl by (simp add: check_rate_def Let_def case_prod_unfold act_seq_def act_bind_def put_state_def ret_def s1_def s2_def)
  have 4: "check_script e ?r s2 = (Val (), s2)" using c by (simp add: check_script_def ret_def)
  have 5: "check_expiry e ?r s2 = (Val (), s2)"
    using au by (simp add: check_expiry_def authorised_def act_bind_def lift_res_def ret_def)
  have 6: "acknowledge e ?r s2 = (Val (), s2\<lparr>wire := wire s2 @ acked e ?r (agent_id s2)\<rparr>)"
    by (rule acknowledge_run [OF assms(2) d])
  have "handle_command e p s = execute_request e ?r (s2\<lparr>wire := wire s2 @ acked e ?r (agent_id s2)\<rparr>)"
    by (simp add: handle_command_def act_seq_def act_bind_def p 1 2 3 4 5 6)
  then show ?thesis by (intro exI [of _ "s2\<lparr>wire := wire s2 @ acked e ?r (agent_id s2)\<rparr>"]) (simp add: s2_def s1_def)
qed

lemma admitted_executes:
  assumes "admitted e p s" "sane_env e"
  shows "executed (snd (handle_command e p s)) = executed s @ [(Suc (length (seen s)), p)]"
proof -
  obtain s' where s': "seen s' = seen s @ [mid (request_of p)]" "executed s' = executed s"
    "handle_command e p s = execute_request e (request_of p) s'"
    using handle_admitted [OF assms] by blast
  obtain t where t: "command_timeout (cmd (request_of p)) (obj_of (prm (request_of p))) = Inr t"
    using assms(1) by (auto simp: admitted_def Let_def)
  have "books (snd (finish_request e r v u)) = books u" for r v u by (rule frameD [OF frame_finish])
  then have "executed (snd (finish_request e r v u)) = executed u" for r v u by (simp add: books_def)
  then show ?thesis
    unfolding s'(3) execute_request_def
    by (simp add: act_bind_def lift_res_def t run_tool_def s'(1,2)) (simp add: request_of_def Let_def)
qed

section \<open>A sample session\<close>

definition sample_agent_env :: agent_env where
  "sample_agent_env = \<lparr>started = 0, checked = 0, finished = 0, tick = 0, wall = 0,
     ed_verify = (\<lambda>k t g. g = JStr (CHR ''S'' # t)), sha256 = (\<lambda>s. ''a''), files = (\<lambda>p. NoFile),
     collectors_of = (\<lambda>name a. Inr (JObj [(''status'', JStr ''OK'')])), too_slow = False, link = (\<lambda>n. True),
     disk_ok = True, exc_text = (\<lambda>x. []), host = [], ident = [], tenant = JNull,
     settings = [(''signing_public_key'', JStr ''pk'')], policy = \<lparr>allowed = [], allow_high_risk = False\<rparr>,
     limit_chars = 60000, settings_file = JNull, audit_default = ''/log''\<rparr>"

definition sample_unsigned :: dict where
  "sample_unsigned = [(''type'', JStr ''command_request''), (''message_id'', JStr ''m1''),
     (''command'', JStr ''disk_usage''), (''expires_at'', JStr (isoformat 5))]"

definition sample_signed :: dict where
  "sample_signed = dset ''signature'' (JStr (CHR ''S'' # request_text (request_of sample_unsigned))) sample_unsigned"

definition sample_agent :: agent where
  "sample_agent = agent_start (rate_limiter_init 20 60) (Map.empty, audit_open Map.empty ''/log'') (JStr ''a1'')"

lemma sample_fields:
  "getv sample_signed ''command'' = JStr ''disk_usage''" "getv sample_signed ''message_id'' = JStr ''m1''"
  "getv sample_signed ''params'' = JNull" "getv sample_signed ''expires_at'' = JStr (isoformat 5)"
  "getv sample_signed ''signature'' = JStr (CHR ''S'' # request_text (request_of sample_unsigned))"
  by (simp_all add: sample_signed_def sample_unsigned_def)

lemma sample_request:
  "request_of sample_signed = \<lparr>mid = ''m1'', raw = ''disk_usage'', cmd = ''disk_usage'', prm = JObj [], body = sample_signed\<rparr>"
proof -
  have "strip ''disk_usage'' = ''disk_usage''" "resolve_command ''disk_usage'' = ''disk_usage''" by code_simp+
  then show ?thesis by (simp add: request_of_def sample_fields Let_def)
qed

lemma sample_text: "request_text (request_of sample_signed) = request_text (request_of sample_unsigned)"
proof -
  have "getv sample_signed k = getv sample_unsigned k" if "k \<noteq> ''signature''" for k
    using that by (simp add: sample_signed_def)
  then show ?thesis by (simp add: request_text_def request_of_def Let_def)
qed

lemma sample_sane: "sane_env sample_agent_env"
  by (simp add: sane_env_def sample_agent_env_def)

lemma sample_authorised: "authorised sample_agent_env (request_of sample_signed)"
proof -
  have "fst (policy_check \<lparr>allowed = [], allow_high_risk = False\<rparr> ''disk_usage'')" by code_simp
  moreover have "signed sample_agent_env (request_of sample_signed)"
    unfolding signed_def sample_text
    by (simp add: sample_request sample_agent_env_def verify_command_signature_def sample_fields)
  moreover have "is_expired 0 (JStr (isoformat 5)) = Inr False"
    by (subst is_expired_isoformat) (simp_all add: year_bounds)
  ultimately show ?thesis
    by (simp add: authorised_def) (simp add: sample_request sample_agent_env_def sample_fields)
qed

lemma sample_admitted: "admitted sample_agent_env sample_signed sample_agent"
proof -
  have "fst (allow_per_command 0 0 ''a1'' ''disk_usage'' (rate_limiter_init 20 60))" by code_simp
  moreover have "parse_request sample_agent_env sample_signed sample_agent = (Val (request_of sample_signed), sample_agent)"
  proof -
    have "strip ''disk_usage'' = ''disk_usage''" by code_simp
    then show ?thesis
      unfolding sample_request
      by (simp add: parse_request_def sample_fields text_or_def str_strip_def act_bind_def lift_res_def ret_def
          resolve_command_def COMMAND_ALIASES_def Let_def)
  qed
  moreover have "\<exists>line. tool_target_summary ''disk_usage'' [] = Inr line" by (rule exI, code_simp)
  moreover have "\<exists>t. command_timeout ''disk_usage'' [] = Inr t"
    by (simp add: command_timeout_def requested_timeout_def Let_def)
  ultimately show ?thesis
    using sample_authorised
    by (simp add: admitted_def Let_def) (simp add: sample_request sample_agent_def agent_start_def
        is_duplicate_message_def CMD_DEDUP_MAX_def sample_agent_env_def)
qed

section \<open>Properties\<close>

text \<open>
  C2: In every run of a session, whatever messages arrive in whatever order, the agent starts a
  tool only for a request that arrived with a signature of the backend over its own canonical
  text, whose command the local policy allows, and whose deadline had not passed.
\<close>

theorem only_authorised_commands_run:
  assumes "(n, p) \<in> set (executed (snd (run agent_step ins (agent_start l a aid))))"
  shows "\<exists>e. (e, p) \<in> set ins \<and> mid (request_of p) \<noteq> []
    \<and> verify_command_signature (ed_verify e) (getv (settings e) ''signing_public_key'')
        (request_text (request_of p)) (getv p ''signature'')
    \<and> fst (policy_check (policy e) (cmd (request_of p)))
    \<and> is_expired (checked e) (getv p ''expires_at'') = Inr False"
proof -
  have "agent_inv (set ins) (snd (run agent_step ins (agent_start l a aid)))"
  proof (rule agent.run_inv [OF agent_start_inv])
    have "admissible (\<lambda>i s. i \<in> I) agent_step is s" if "set is \<subseteq> I" for I "is" s
      using that by (induction "is" arbitrary: s) auto
    then show "admissible (\<lambda>i s. i \<in> set ins) agent_step ins (agent_start l a aid)" by blast
  qed
  moreover have "body (request_of p) = p" by (simp add: request_of_def Let_def)
  ultimately show ?thesis using assms by (fastforce simp: agent_inv_def authorised_def signed_def)
qed

lemma sample_executed:
  "executed (snd (run agent_step [(sample_agent_env, sample_signed)] sample_agent)) = [(1, sample_signed)]"
  using admitted_executes [OF sample_admitted sample_sane]
  by (simp add: agent_step_def) (simp add: sample_agent_def agent_start_def)

theorem only_authorised_commands_run_witness:
  "\<exists>e. (e, sample_signed) \<in> set [(sample_agent_env, sample_signed)] \<and> mid (request_of sample_signed) \<noteq> []
    \<and> verify_command_signature (ed_verify e) (getv (settings e) ''signing_public_key'')
        (request_text (request_of sample_signed)) (getv sample_signed ''signature'')
    \<and> fst (policy_check (policy e) (cmd (request_of sample_signed)))
    \<and> is_expired (checked e) (getv sample_signed ''expires_at'') = Inr False"
  by (rule only_authorised_commands_run [of 1 _ _ "rate_limiter_init 20 60" "(Map.empty, audit_open Map.empty ''/log'')" "JStr ''a1''"])
    (simp add: sample_executed [unfolded sample_agent_def] del: run.simps)

definition replays_apart :: "(nat \<times> dict) list \<Rightarrow> bool" where
  \<comment> \<open>two executions of one message id, at which counts of recorded ids they happened\<close>
  "replays_apart ex \<longleftrightarrow> (\<forall>i j. i < j \<and> j < length ex
       \<and> mid (request_of (snd (ex ! i))) = mid (request_of (snd (ex ! j)))
     \<longrightarrow> fst (ex ! j) - fst (ex ! i) > CMD_DEDUP_MAX)"

text \<open>
  C3: A request is not run twice on a replay or a retry: between two executions of the same
  message id at least 256 other message ids have been recorded.
\<close>

theorem replay_needs_256_other_ids:
  "replays_apart (executed (snd (run agent_step ins (agent_start l a aid))))"
  unfolding replays_apart_def
proof (intro allI impI, elim conjE)
  fix i j
  define s where "s = snd (run agent_step ins (agent_start l a aid))"
  assume "i < j" "j < length (executed (snd (run agent_step ins (agent_start l a aid))))"
    and "mid (request_of (snd (executed (snd (run agent_step ins (agent_start l a aid))) ! i)))
      = mid (request_of (snd (executed (snd (run agent_step ins (agent_start l a aid))) ! j)))"
  then have a: "i < j" "j < length (executed s)"
    "mid (request_of (snd (executed s ! i))) = mid (request_of (snd (executed s ! j)))"
    by (simp_all add: s_def)
  have inv: "agent_inv UNIV s" unfolding s_def by (rule agent.run_inv [OF agent_start_inv]) simp
  obtain n p where i: "executed s ! i = (n, p)" by fastforce
  obtain k q where j: "executed s ! j = (k, q)" by fastforce
  have "(n, p) \<in> set (executed s)" "(k, q) \<in> set (executed s)"
    using a(1,2) i j nth_mem [of i "executed s"] nth_mem [of j "executed s"] by simp_all
  then have at: "0 < n" "seen s ! (n - 1) = mid (request_of p)" "0 < k" "k \<le> length (seen s)"
    "seen s ! (k - 1) = mid (request_of q)"
    using inv by (auto simp: agent_inv_def)
  have "n < k"
    using inv a(1,2) i j sorted_wrt_nth_less [of "(<)" "map fst (executed s)" i j] by (simp add: agent_inv_def)
  then have "n - 1 < k - 1 \<and> k - 1 < length (seen s) \<and> seen s ! (n - 1) = seen s ! (k - 1)"
    using at a(3) i j by auto
  moreover have "far_apart (seen s)" using inv by (simp add: agent_inv_def dedup_inv_def)
  ultimately have "(k - 1) - (n - 1) > CMD_DEDUP_MAX" unfolding far_apart_def by blast
  then show "fst (executed (snd (run agent_step ins (agent_start l a aid))) ! j)
      - fst (executed (snd (run agent_step ins (agent_start l a aid))) ! i) > CMD_DEDUP_MAX"
    using at i j by (simp add: s_def)
qed


lemma sample_outcome: "outcome_of sample_agent_env (request_of sample_signed) = Inr (JObj [(''status'', JStr ''OK'')])"
proof -
  have "strip ''disk_usage'' = ''disk_usage''" "resolve_command ''disk_usage'' = ''disk_usage''"
    "''disk_usage'' \<in> set ALLOWED_TOOLS" by code_simp+
  then show ?thesis
    by (simp add: outcome_of_def sample_request execute_tool_def tool_handler_def network_tool_def
        observability_tool_def executor_of_def) (simp add: sample_agent_env_def)
qed

lemma sample_compacted:
  "compact_command_result (JStr ''disk_usage'') [(''status'', JStr ''OK'')] = Inr [(''status'', JStr ''OK'')]"
  by code_simp

lemma sample_summarised: "summarised ''disk_usage'' (Inr (JObj [(''status'', JStr ''OK'')]))"
  by (simp add: sample_compacted summarised_def without_marker_def dpop_def RESTART_MARKER_def result_summary_def Let_def len_or_def py_len_def)


text \<open>
  C38: The id of a request is recorded before its signature is checked, so an unsigned message
  is rejected and yet makes the agent ignore the genuine request with the same id that follows.
\<close>

theorem unsigned_message_blocks_id:
  assumes "parse_request e p s = (Val (request_of p), s)" "\<not> signed e (request_of p)"
    and "parse_request e' q (snd (handle_command e p s)) = (Val (request_of q), snd (handle_command e p s))"
    and "mid (request_of q) = mid (request_of p)"
  shows "executed (snd (handle_command e p s)) = executed s
    \<and> handle_command e' q (snd (handle_command e p s)) = (Continue, snd (handle_command e p s))"
proof -
  define s1 where "s1 = snd (handle_command e p s)"
  have na: "\<not> authorised e (request_of p)" using assms(2) by (simp add: authorised_def)
  then have "executed s1 = executed s"
    using handle_books [of e p s] by (auto simp: books_step_def books_def s1_def)
  moreover have "fst (is_duplicate_message (mid (request_of p)) (dedup s1))"
  proof (cases "fst (is_duplicate_message (mid (request_of p)) (dedup s))")
    case True
    then have "s1 = s"
      using assms(1) by (simp add: s1_def handle_command_def act_bind_def act_seq_def check_duplicate_def
          case_prod_unfold Let_def)
    with True show ?thesis by simp
  next
    case False
    define s0 where "s0 = s\<lparr>dedup := snd (is_duplicate_message (mid (request_of p)) (dedup s)), seen := seen s @ [mid (request_of p)]\<rparr>"
    have d: "check_duplicate (request_of p) s = (Val (), s0)"
      using False by (simp add: check_duplicate_def case_prod_unfold Let_def s0_def)
    have g: "check_signature e (request_of p) = reject_audited e (request_of p) (signature_reason e)"
      using assms(2) by (simp add: check_signature_def)
    have "s1 = snd (reject_audited e (request_of p) (signature_reason e) s0)"
      unfolding s1_def handle_command_def
      by (simp add: bind_step [of "parse_request e p", OF assms(1)] seq_step [of "check_duplicate _", OF d] g seq_fail)
    then have "dedup s1 = snd (is_duplicate_message (mid (request_of p)) (dedup s))"
      using frameD [OF frame_reject, of e "request_of p" "signature_reason e" s0] by (simp add: books_def s0_def)
    with False show ?thesis
      by (auto simp: is_duplicate_message_def case_prod_unfold Let_def split: if_splits)
  qed
  then have "handle_command e' q s1 = (Continue, s1)"
    using assms(3,4) by (simp add: s1_def handle_command_def act_bind_def act_seq_def check_duplicate_def
        case_prod_unfold Let_def)
  ultimately show ?thesis by (simp add: s1_def)
qed

theorem unsigned_message_blocks_id_witness:
  "executed (snd (handle_command sample_agent_env sample_unsigned sample_agent)) = executed sample_agent
    \<and> handle_command sample_agent_env sample_signed (snd (handle_command sample_agent_env sample_unsigned sample_agent))
        = (Continue, snd (handle_command sample_agent_env sample_unsigned sample_agent))"
proof (rule unsigned_message_blocks_id)
  have f: "getv sample_unsigned ''command'' = JStr ''disk_usage''" "getv sample_unsigned ''message_id'' = JStr ''m1''"
    "getv sample_unsigned ''params'' = JNull" "getv sample_unsigned ''signature'' = JNull"
    by (simp_all add: sample_unsigned_def)
  have s: "strip ''disk_usage'' = ''disk_usage''" by code_simp
  show "parse_request sample_agent_env sample_unsigned sample_agent = (Val (request_of sample_unsigned), sample_agent)"
    by (simp add: parse_request_def request_of_def f s text_or_def str_strip_def act_bind_def lift_res_def ret_def Let_def)
  show "parse_request sample_agent_env sample_signed s = (Val (request_of sample_signed), s)" for s
    by (simp add: parse_request_def request_of_def sample_fields s text_or_def str_strip_def act_bind_def
        lift_res_def ret_def Let_def)
  show "mid (request_of sample_signed) = mid (request_of sample_unsigned)"
    by (simp add: request_of_def f sample_fields Let_def)
  show "\<not> signed sample_agent_env (request_of sample_unsigned)"
    by (simp add: signed_def verify_command_signature_def request_of_def f Let_def)
qed

end
