(* ===== verification/Config_Manager.thy ===== *)
theory Config_Manager
  imports Json_Lines
begin

text \<open>
  The configuration of the agent and its remote administration:
  \<^verbatim>\<open>colsoft_tools/config_manager.py\<close> (schema, validation of a whole file and of a
  remote difference, application with a backup) and the commands of
  \<^verbatim>\<open>colsoft_tools/agent_admin.py\<close> that change it or run a program. The file system is
  a map from paths to what reading them as JSON gives; the temporary file of the atomic write
  is not modelled; whether a copy and a write succeed are inputs.
\<close>

section \<open>The schema\<close>

definition CONFIG_SCHEMA :: "(string \<times> string) list" where
  "CONFIG_SCHEMA =
    [(''client_name'', ''str''), (''identity_dir'', ''str''), (''agent_id'', ''str''), (''tenant_id'', ''str''),
     (''websocket_url'', ''str''), (''private_key'', ''str''), (''public_key'', ''str''),
     (''signing_public_key'', ''str''), (''require_command_signature'', ''bool''), (''allow_insecure_ws'', ''bool''),
     (''tls_ca_cert'', ''str''), (''tls_client_cert'', ''str''), (''tls_client_key'', ''str''),
     (''heartbeat_interval'', ''num''), (''max_chars'', ''num''), (''minute_interval'', ''num''),
     (''tools_execution_interval'', ''list''), (''policy'', ''dict''), (''scripts_catalog'', ''dict''),
     (''audit_log_path'', ''str''), (''max_command_rate'', ''num''), (''auto_update'', ''dict''),
     (''telemetry_buffer'', ''dict''), (''tamper'', ''dict''), (''scheduler'', ''dict''), (''data_plane'', ''dict''),
     (''process_watch'', ''dict''), (''service_watch'', ''dict''), (''health_probes'', ''dict''), (''alerts'', ''dict''),
     (''security'', ''dict''), (''windows'', ''dict''), (''linux'', ''dict''), (''cloud'', ''dict'')]"

definition PROTECTED_CONFIG_KEYS :: "string list" where
  "PROTECTED_CONFIG_KEYS =
    [''private_key'', ''public_key'', ''signing_public_key'', ''require_command_signature'', ''allow_insecure_ws'',
     ''tls_ca_cert'', ''tls_client_cert'', ''tls_client_key'', ''policy'', ''scripts_catalog'', ''websocket_url'',
     ''data_plane'']"

definition MAX_DIFF_KEYS :: nat where "MAX_DIFF_KEYS = 100"

definition coerce_bool :: "json \<Rightarrow> json option" where
  "coerce_bool v =
     (case v of
        JBool b \<Rightarrow> Some v
      | JStr s \<Rightarrow>
         (let low = lower (strip s) in
          if low \<in> set [''true'', ''1'', ''yes'', ''si'', ''on'', ''enabled''] then Some (JBool True)
          else if low \<in> set [''false'', ''0'', ''no'', ''off'', ''disabled''] then Some (JBool False) else None)
      | JInt i \<Rightarrow> if i = 0 \<or> i = 1 then Some (JBool (i = 1)) else None
      | JFloat f \<Rightarrow> if f = Fin 0 \<or> f = Fin 1 then Some (JBool (f = Fin 1)) else None
      | _ \<Rightarrow> None)"

definition coerce :: "json \<Rightarrow> string \<Rightarrow> json option" where
  "coerce v kind =
     (if kind = ''str'' then (if is_str v then Some v else None)
      else if kind = ''bool'' then coerce_bool v
      else if kind = ''num'' then
        (case v of
           JInt i \<Rightarrow> Some v
         | JFloat f \<Rightarrow> Some v
         | JStr s \<Rightarrow> map_option JFloat (parse_float s)
         | _ \<Rightarrow> None)
      else if kind = ''list'' then (if is_list v then Some v else None)
      else if kind = ''dict'' then (if is_obj v then Some v else None)
      else None)"

section \<open>Validation\<close>

definition quote1 :: "string \<Rightarrow> string" where "quote1 s = [CHR 0x27] @ s @ [CHR 0x27]"

definition bad_type :: "string \<Rightarrow> string \<Rightarrow> string" where
  "bad_type key kind = ''tipo inv'' @ [CHR 0xE1] @ ''lido para '' @ quote1 key @ '': esperaba '' @ kind"

definition check_value :: "string \<Rightarrow> json \<Rightarrow> string + json" where
  \<comment> \<open>the tests that both validations share\<close>
  "check_value key v =
     (case map_of CONFIG_SCHEMA key of
        None \<Rightarrow> Inl (''clave desconocida '' @ quote1 key)
      | Some kind \<Rightarrow> (case coerce v kind of None \<Rightarrow> Inl (bad_type key kind) | Some c \<Rightarrow> Inr c))"

definition full_step :: "string \<times> json \<Rightarrow> dict \<times> string list \<Rightarrow> dict \<times> string list" where
  "full_step = (\<lambda>(key, v) (normalized, errors).
     if key \<in> set [''_docs'', ''_comment'', ''_version''] then (normalized, errors)
     else (case check_value key v of
         Inl e \<Rightarrow> (normalized, errors @ [e])
       | Inr c \<Rightarrow> (dset key c normalized, errors)))"

definition validate_full_config :: "json \<Rightarrow> dict \<times> string list" where
  "validate_full_config config =
     (case config of
        JObj d \<Rightarrow> fold full_step d ([], [])
      | _ \<Rightarrow> ([], [''config debe ser un objeto JSON (dict)'']))"

definition diff_step :: "string \<times> json \<Rightarrow> dict \<times> string list \<Rightarrow> dict \<times> string list" where
  "diff_step = (\<lambda>(key, v) (normalized, errors).
     if map_of CONFIG_SCHEMA key \<noteq> None \<and> key \<in> set PROTECTED_CONFIG_KEYS
     then (normalized, errors @ [''clave protegida '' @ quote1 key @ '' (requiere intervenci'' @ [CHR 0xF3] @ ''n local)''])
     else (case check_value key v of
         Inl e \<Rightarrow> (normalized, errors @ [e])
       | Inr c \<Rightarrow> (dset key c normalized, errors)))"

definition validate_config_diff :: "json \<Rightarrow> dict \<times> string list" where
  "validate_config_diff diff =
     (case diff of
        JObj d \<Rightarrow>
          if d = [] then ([], [''diff debe ser un objeto no vac'' @ [CHR 0xED] @ ''o''])
          else if length d > MAX_DIFF_KEYS
          then ([], [''diff con m'' @ [CHR 0xE1] @ ''s de '' @ nat_digits MAX_DIFF_KEYS @ '' claves''])
          else fold diff_step d ([], [])
      | _ \<Rightarrow> ([], [''diff debe ser un objeto no vac'' @ [CHR 0xED] @ ''o'']))"

section \<open>Files\<close>

datatype cfile = Missing | Corrupt | Json json

type_synonym cfs = "string \<Rightarrow> cfile"

definition load_config :: "cfs \<Rightarrow> string \<Rightarrow> dict \<times> string list" where
  \<comment> \<open>the texts of the two read errors are cut after the path\<close>
  "load_config fs path =
     (case fs path of
        Missing \<Rightarrow> ([], [''no se pudo leer '' @ path])
      | Corrupt \<Rightarrow> ([], [''JSON inv'' @ [CHR 0xE1] @ ''lido en '' @ path])
      | Json raw \<Rightarrow> validate_full_config raw)"

definition load_disk_config :: "cfs \<Rightarrow> string \<Rightarrow> json" where
  "load_disk_config fs path = (case fs path of Json j \<Rightarrow> j | _ \<Rightarrow> JObj [])"

definition edited :: "json \<Rightarrow> dict \<Rightarrow> string list \<Rightarrow> dict res" where
  \<comment> \<open>the pops and the update, on whatever the file held\<close>
  "edited base diff remove =
     (case base of
        JObj d \<Rightarrow> Inr (dupdate (fold dpop remove d) diff)
      | JList xs \<Rightarrow> Inl (if remove \<noteq> [] then TypeError else AttributeError)
      | _ \<Rightarrow> Inl AttributeError)"

definition apply_config_diff ::
  "int \<Rightarrow> bool \<Rightarrow> bool \<Rightarrow> json \<Rightarrow> string \<Rightarrow> dict \<Rightarrow> string list \<Rightarrow> cfs \<Rightarrow> (dict \<times> json) res \<times> cfs" where
  "apply_config_diff now copy_ok write_ok disk_config path diff remove fs =
     (let base = (if truthy disk_config then disk_config else JObj []);
          backup = path @ ''.bak.'' @ int_str now;
          copied = (copy_ok \<and> fs path \<noteq> Missing);
          fs1 = (if copied then fs(backup := fs path) else fs) in
      case edited base diff remove of
        Inl e \<Rightarrow> (Inl e, fs1)
      | Inr final \<Rightarrow>
          if write_ok then (Inr (final, if copied then JStr backup else JNull), fs1(path := Json (JObj final)))
          else (Inl OSError, fs1))"

section \<open>Lemmas\<close>

lemma coerce_idem: "coerce v kind = Some c \<Longrightarrow> coerce c kind = Some c"
  by (auto simp: coerce_def coerce_bool_def Let_def split: if_splits json.splits option.splits)

lemma coerce_bool_idem: "coerce_bool v = Some c \<Longrightarrow> coerce_bool c = Some c"
  by (auto simp: coerce_bool_def Let_def split: if_splits json.splits)

text \<open>What an accepted difference holds: unprotected keys of the schema with values in normal form.\<close>

definition accepted_entry :: "string \<times> json \<Rightarrow> bool" where
  "accepted_entry = (\<lambda>(k, c). check_value k c = Inr c \<and> k \<notin> set PROTECTED_CONFIG_KEYS)"

definition accepted_diff :: "dict \<Rightarrow> bool" where
  "accepted_diff n \<longleftrightarrow> distinct (map fst n) \<and> (\<forall>p \<in> set n. accepted_entry p)"

lemma check_value_normal: "check_value k v = Inr c \<Longrightarrow> check_value k c = Inr c"
  by (auto simp: check_value_def dest: coerce_idem split: option.splits)

lemma dset_entries: "set (dset k v d) \<subseteq> insert (k, v) (set d)"
  by (induction d) (auto simp: dset_def)

lemma accepted_dset: "accepted_diff n \<Longrightarrow> accepted_entry (k, c) \<Longrightarrow> accepted_diff (dset k c n)"
  using dset_entries [of k c n] by (auto simp: accepted_diff_def)

lemma diff_step_errors: "snd (fold diff_step d (n, es)) = [] \<Longrightarrow> es = []"
proof (induction d arbitrary: n es)
  case (Cons p d)
  obtain n' es' where s: "diff_step p (n, es) = (n', es')" by fastforce
  from Cons.prems have "es' = []" by (intro Cons.IH [of n' es']) (simp add: s)
  then show ?case using s by (auto simp: diff_step_def split: prod.splits if_splits sum.splits)
qed simp

lemma diff_fold_accepted:
  "fold diff_step d (n, []) = (n', []) \<Longrightarrow> accepted_diff n \<Longrightarrow> accepted_diff n'"
proof (induction d arbitrary: n)
  case (Cons p d)
  obtain n1 es where s: "diff_step p (n, []) = (n1, es)" by fastforce
  have e: "es = []" using Cons.prems(1) diff_step_errors [of d n1 es] by (simp add: s)
  have "accepted_diff n1"
    using s Cons.prems(2) unfolding e
    by (auto simp: diff_step_def accepted_entry_def check_value_def dest: coerce_idem
        intro!: accepted_dset split: prod.splits if_splits sum.splits option.splits)
  then show ?case using Cons.prems(1) by (intro Cons.IH [of n1]) (simp_all add: s e)
qed simp

lemma validate_diff_accepted: "validate_config_diff diff = (n, []) \<Longrightarrow> accepted_diff n"
proof -
  assume "validate_config_diff diff = (n, [])"
  then obtain d where "fold diff_step d ([], []) = (n, [])"
    by (auto simp: validate_config_diff_def split: json.splits if_splits)
  then show "accepted_diff n" by (rule diff_fold_accepted) (simp add: accepted_diff_def)
qed

lemma full_fold_accepted:
  assumes "accepted_diff n" "distinct (map fst (m @ n))"
  shows "fold full_step n (m, []) = (m @ n, [])"
  using assms
proof (induction n arbitrary: m)
  case (Cons p n)
  obtain k c where p: "p = (k, c)" by fastforce
  have c: "check_value k c = Inr c" using Cons.prems(1) by (simp add: accepted_diff_def p accepted_entry_def)
  then have "map_of CONFIG_SCHEMA k \<noteq> None" by (auto simp: check_value_def split: option.splits)
  then have k: "k \<notin> set [''_docs'', ''_comment'', ''_version'']" by (auto simp: CONFIG_SCHEMA_def)
  have "full_step p (m, []) = (m @ [(k, c)], [])"
    using Cons.prems(2) k by (simp add: full_step_def p c dset_fresh has_def)
  then show ?case using Cons by (simp add: accepted_diff_def p)
qed simp

lemma map_of_fold_dpop: "map_of (fold dpop ks d) k = (if k \<in> set ks then None else map_of d k)"
  by (induction ks arbitrary: d) auto

lemma apply_path:
  assumes "apply_config_diff now copy_ok write_ok base path diff remove fs = (r, fs')"
  shows "fs' path = (case r of Inr (final, b) \<Rightarrow> Json (JObj final) | Inl e \<Rightarrow> fs path)"
  using assms by (auto simp: apply_config_diff_def Let_def split: sum.splits if_splits prod.splits)

lemma apply_final:
  assumes "apply_config_diff now copy_ok write_ok (JObj d) path diff remove fs = (Inr (final, b), fs')"
  shows "final = dupdate (fold dpop remove d) diff"
  using assms by (auto simp: apply_config_diff_def edited_def Let_def split: sum.splits if_splits)

section \<open>Properties\<close>

text \<open>
  The two validations agree: a remote difference that is accepted is in the normal form
  of the schema, so the validation of a whole file accepts it without an error and leaves
  it as it is.
\<close>

theorem accepted_diff_is_valid_config:
  assumes "validate_config_diff diff = (n, [])"
  shows "validate_full_config (JObj n) = (n, [])"
  using full_fold_accepted [OF validate_diff_accepted [OF assms], of "[]"]
    validate_diff_accepted [OF assms] by (simp add: validate_full_config_def accepted_diff_def)

theorem accepted_diff_is_valid_config_witness:
  "validate_full_config (JObj [(''heartbeat_interval'', JInt 45)]) = ([(''heartbeat_interval'', JInt 45)], [])"
proof (rule accepted_diff_is_valid_config)
  have k: "map_of CONFIG_SCHEMA ''heartbeat_interval'' = Some ''num''" by (simp add: CONFIG_SCHEMA_def)
  have n: "''heartbeat_interval'' \<notin> set PROTECTED_CONFIG_KEYS" by (simp add: PROTECTED_CONFIG_KEYS_def)
  have "coerce (JInt 45) ''num'' = Some (JInt 45)" by (simp add: coerce_def)
  then have "diff_step (''heartbeat_interval'', JInt 45) ([], []) = ([(''heartbeat_interval'', JInt 45)], [])"
    by (simp add: diff_step_def check_value_def k n dset_def)
  then show "validate_config_diff (JObj [(''heartbeat_interval'', JInt 45)]) = ([(''heartbeat_interval'', JInt 45)], [])"
    by (simp add: validate_config_diff_def MAX_DIFF_KEYS_def)
qed

end
