(* ===== verification/Agent_Admin.thy ===== *)
theory Agent_Admin
  imports Config_Manager
begin

text \<open>
  The administration commands, \<^verbatim>\<open>colsoft_tools/agent_admin.py\<close>:
  \<open>update_config\<close>, the local path of \<open>trigger_update\<close> and \<open>restart_agent\<close>.
  Running a process is an argument: the command line and the time limit give the exit code
  with the output, or an exception.
\<close>

section \<open>Changing the configuration\<close>

definition admin_error :: "string \<Rightarrow> string \<Rightarrow> dict" where
  "admin_error tool why = [(''tool'', JStr tool), (''status'', JStr ''ERROR''), (''error'', JStr why)]"

definition requested_diff :: "dict \<Rightarrow> json option" where
  \<comment> \<open>the first of the three names that is given\<close>
  "requested_diff params =
     (case filter (\<lambda>k. getv params k \<noteq> JNull) [''config_diff'', ''diff'', ''config''] of
        [] \<Rightarrow> None | k # ks \<Rightarrow> Some (getv params k))"

definition removed_keys :: "dict \<Rightarrow> string list" where
  "removed_keys params =
     (case py_or (getv params ''remove'') (JList []) of
        JStr s \<Rightarrow> [s] | JList xs \<Rightarrow> map py_str xs | _ \<Rightarrow> [])"

definition in_json :: "string \<Rightarrow> json \<Rightarrow> bool res" where
  \<comment> \<open>\<open>k in v\<close>\<close>
  "in_json k v =
     (case v of
        JObj d \<Rightarrow> Inr (has k d) | JList xs \<Rightarrow> Inr (JStr k \<in> set xs) | JStr s \<Rightarrow> Inr (contains s k)
      | _ \<Rightarrow> Inl TypeError)"

fun kept_keys :: "json \<Rightarrow> dict \<Rightarrow> string list \<Rightarrow> string list res" where
  "kept_keys disk config [] = Inr []"
| "kept_keys disk config (k # ks) =
     res_bind (in_json k disk) (\<lambda>b. res_bind (kept_keys disk config ks) (\<lambda>r.
       Inr (if b \<or> has k config then k # r else r)))"

definition no_diff :: string where
  "no_diff = ''update_config: falta '' @ quote1 ''config_diff'' @ '' (SRS) / '' @ quote1 ''diff'' @ '' (objeto con claves a aplicar)''"

definition update_config ::
  "int \<Rightarrow> bool \<Rightarrow> bool \<Rightarrow> dict \<Rightarrow> string \<Rightarrow> dict \<Rightarrow> cfs \<Rightarrow> dict res \<times> cfs" where
  "update_config now copy_ok write_ok config path params fs =
     (case requested_diff params of
        None \<Rightarrow> (Inr (admin_error ''update_config'' no_diff), fs)
      | Some diff \<Rightarrow>
         (let (normalized, errors) = validate_config_diff diff; remove = removed_keys params;
              bad = filter (\<lambda>k. k \<in> set PROTECTED_CONFIG_KEYS) remove in
          if errors \<noteq> [] then
            (Inr (admin_error ''update_config'' (''update_config rechazado: '' @ join ''; '' (take 8 errors))
                @ [(''errors'', JList (map JStr (take 20 errors)))]), fs)
          else if bad \<noteq> [] then
            (Inr (admin_error ''update_config'' (''update_config rechazado: no se pueden eliminar claves protegidas: ''
                @ join '', '' (take 8 bad))), fs)
          else
           (let disk = load_disk_config fs path in
            case apply_config_diff now copy_ok write_ok (if truthy disk then disk else JObj config)
                   path normalized remove fs of
              (Inl e, fs') \<Rightarrow> (Inl e, fs')
            | (Inr (final, backup), fs') \<Rightarrow>
               (res_bind (kept_keys disk config remove) (\<lambda>removed. Inr
                 [(''tool'', JStr ''update_config''), (''status'', JStr ''OK''),
                  (''applied'', JList (map JStr (sort (map fst normalized)))),
                  (''removed'', JList (map JStr (sort removed))), (''backup'', backup),
                  (''config_file'', JStr path),
                  (''note'', JStr (''Los cambios aplican en el pr'' @ [CHR 0xF3] @ ''ximo reinicio del agente.''))]), fs'))))"

section \<open>Updates\<close>

type_synonym process = "string list \<Rightarrow> pyfloat \<Rightarrow> (int \<times> string) res"

definition update_timeout :: "dict \<Rightarrow> dict \<Rightarrow> pyfloat res" where
  "update_timeout params au =
     res_bind (py_float (py_or (py_or (getv params ''timeout'') (getv au ''timeout'')) (JInt 120))) (\<lambda>t.
       Inr (fmin (fmax t (Fin 5)) (Fin 300)))"

definition update_args :: "dict \<Rightarrow> string list" where
  "update_args params =
     filter (\<lambda>a. a \<noteq> []) (map (\<lambda>k. str_or (getv params k) []) [''version'', ''url'', ''channel''])"

definition shell_of :: "string list \<Rightarrow> string \<Rightarrow> string list" where
  \<comment> \<open>\<open>sh\<close> is the shell of the platform with its flag\<close>
  "shell_of sh command = sh @ [command]"

definition run_updater :: "process \<Rightarrow> string list \<Rightarrow> string \<Rightarrow> pyfloat \<Rightarrow> int \<Rightarrow> dict res" where
  \<comment> \<open>a time out and an \<open>OSError\<close> are answered; the text of the latter is cut\<close>
  "run_updater proc argv label t max_chars =
     (case proc argv t of
        Inl e \<Rightarrow>
          if e = TimeoutError then Inr (admin_error ''trigger_update''
            (''trigger_update: timeout ('' @ py_repr (JFloat t) @ ''s) en el actualizador''))
          else if e = OSError then Inr (admin_error ''trigger_update'' ''trigger_update: no se pudo ejecutar actualizador: '')
          else Inl e
      | Inr (rc, out) \<Rightarrow>
         (let output = JStr (if max_chars < 0 then take (length out - nat (- max_chars)) out else take (nat max_chars) out) in
          if rc \<noteq> 0 then
            Inr [(''tool'', JStr ''trigger_update''), (''status'', JStr ''ERROR''), (''returncode'', JInt rc),
                 (''error'', JStr (''trigger_update: actualizador fall'' @ [CHR 0xF3] @ '' (rc='' @ int_str rc @ '')'')),
                 (''output'', output)]
          else
            Inr [(''tool'', JStr ''trigger_update''), (''status'', JStr ''OK''), (''returncode'', JInt 0),
                 (''command'', JStr label), (''output'', output)]))"

definition trigger_update ::
  "process \<Rightarrow> (dict \<Rightarrow> dict \<Rightarrow> int \<Rightarrow> dict res) \<Rightarrow> string list \<Rightarrow> dict \<Rightarrow> dict \<Rightarrow> int \<Rightarrow> dict res" where
  \<comment> \<open>the second argument is \<open>self_update\<close>, the third the shell\<close>
  "trigger_update proc self_update sh config params max_chars =
     (case getv config ''auto_update'' of
        JObj au \<Rightarrow>
         res_bind (if truthy (getv au ''verify_public_key'') then Inr True
                   else res_bind (str_strip (py_or (getv params ''url'') (JStr []))) (\<lambda>u. Inr (u \<noteq> []))) (\<lambda>verified.
           if verified then self_update config params max_chars
           else
             res_bind (str_strip (py_or (getv au ''script'') (JStr []))) (\<lambda>script.
             res_bind (str_strip (py_or (getv au ''command'') (JStr []))) (\<lambda>command.
             res_bind (update_timeout params au) (\<lambda>t.
               if script \<noteq> [] then
                 run_updater proc (script # update_args params)
                   (strip (script @ '' '' @ join '' '' (update_args params))) t max_chars
               else if command \<noteq> [] then run_updater proc (shell_of sh command) command t max_chars
               else Inr (admin_error ''trigger_update''
                 (''trigger_update: '' @ quote1 ''auto_update'' @ '' sin '' @ quote1 ''script'' @ '' ni '' @ quote1 ''command''
                  @ '' en config_client.json''))))))
      | _ \<Rightarrow> Inr (admin_error ''trigger_update''
          (''trigger_update: auto-update no configurado (clave '' @ quote1 ''auto_update'' @ '' en config_client.json)'')))"

section \<open>Restarts\<close>

definition restart_agent :: "int \<Rightarrow> (pyfloat \<Rightarrow> string) \<Rightarrow> dict \<Rightarrow> dict res" where
  \<comment> \<open>the process id and the \<open>:g\<close> format are arguments\<close>
  "restart_agent pid fmt_g params =
     res_bind (py_float (py_or (getv params ''delay'') (JFloat (Fin 2)))) (\<lambda>d.
       let delay = fmin (fmax d (Fin (1/2))) (Fin 30) in
       Inr [(''tool'', JStr ''restart_agent''), (''status'', JStr ''OK''), (''_agent_restart'', JFloat delay),
            (''delay'', JFloat delay), (''pid'', JInt pid),
            (''message'', JStr (''Agente se reiniciar'' @ [CHR 0xE1] @ '' en '' @ fmt_g delay
               @ ''s (misma config/argumentos)''))])"

definition restart_delay :: "json \<Rightarrow> pyfloat res" where
  \<comment> \<open>the wait of \<open>schedule_agent_restart\<close>\<close>
  "restart_delay delay = res_bind (py_float (py_or delay (JInt 0))) (\<lambda>d. Inr (fmin (fmax d (Fin 0)) (Fin 60)))"

section \<open>Lemmas\<close>

lemma admin_error_status [simp]:
  "getv (admin_error t w) ''status'' = JStr ''ERROR''" "getv (admin_error t w @ x) ''status'' = JStr ''ERROR''"
  by (simp_all add: admin_error_def)

text \<open>The three ways an update of the configuration ends.\<close>

lemma update_config_cases:
  assumes "update_config now copy_ok write_ok config path params fs = (r, fs')"
  obtains (refused) e where "fs' = fs" "r = Inr e" "getv e ''status'' = JStr ''ERROR''"
  | (failed) "fs' path = fs path" "\<exists>x. r = Inl x"
  | (written) n d final base where "validate_config_diff d = (n, [])" "requested_diff params = Some d"
      "set (removed_keys params) \<inter> set PROTECTED_CONFIG_KEYS = {}"
      "base = (if truthy (load_disk_config fs path) then load_disk_config fs path else JObj config)"
      "edited (if truthy base then base else JObj []) n (removed_keys params) = Inr final"
      "fs' path = Json (JObj final)" "\<And>e. r = Inr e \<Longrightarrow> getv e ''status'' = JStr ''OK''"
proof (cases "requested_diff params")
  case None
  then show ?thesis using assms by (intro refused) (auto simp: update_config_def)
next
  case (Some d)
  obtain n es where v: "validate_config_diff d = (n, es)" by fastforce
  let ?bad = "filter (\<lambda>k. k \<in> set PROTECTED_CONFIG_KEYS) (removed_keys params)"
  define base where "base = (if truthy (load_disk_config fs path) then load_disk_config fs path else JObj config)"
  show ?thesis
  proof (cases "es \<noteq> [] \<or> ?bad \<noteq> []")
    case True
    then have "\<exists>e. fs' = fs \<and> r = Inr e \<and> getv e ''status'' = JStr ''ERROR''"
      using assms Some v by (auto simp: update_config_def Let_def split: if_splits)
    then show ?thesis using refused by blast
  next
    case False
    obtain ar fs1 where a: "apply_config_diff now copy_ok write_ok base path n (removed_keys params) fs = (ar, fs1)"
      by fastforce
    have u: "update_config now copy_ok write_ok config path params fs =
      (case apply_config_diff now copy_ok write_ok base path n (removed_keys params) fs of
              (Inl e, fs') \<Rightarrow> (Inl e, fs')
            | (Inr (final, backup), fs') \<Rightarrow>
               (res_bind (kept_keys (load_disk_config fs path) config (removed_keys params)) (\<lambda>removed. Inr
                 [(''tool'', JStr ''update_config''), (''status'', JStr ''OK''),
                  (''applied'', JList (map JStr (sort (map fst n)))),
                  (''removed'', JList (map JStr (sort removed))), (''backup'', backup),
                  (''config_file'', JStr path),
                  (''note'', JStr (''Los cambios aplican en el pr'' @ [CHR 0xF3] @ ''ximo reinicio del agente.''))]), fs'))"
      using Some v False by (simp add: update_config_def Let_def base_def)
    note p = apply_path [OF a]
    show ?thesis
    proof (cases ar)
      case (Inl x)
      then have "r = Inl x" "fs' = fs1" using assms a by (simp_all add: u)
      then show ?thesis using p Inl by (intro failed) simp_all
    next
      case (Inr fb)
      obtain final b where fb: "fb = (final, b)" by fastforce
      have e: "edited (if truthy base then base else JObj []) n (removed_keys params) = Inr final"
        using a unfolding Inr fb apply_config_diff_def Let_def by (auto split: sum.splits if_splits)
      have "set (removed_keys params) \<inter> set PROTECTED_CONFIG_KEYS = {}"
        using False by (auto simp: filter_empty_conv)
      with e v Some False show ?thesis using assms a p Inr fb
        by (intro written [of d n base final]) (auto simp: u base_def res_bind_eq_Inr)
    qed
  qed
qed

lemma edited_JObj: "edited base n ks = Inr final \<Longrightarrow> \<exists>d. base = JObj d \<and> final = dupdate (fold dpop ks d) n"
  by (auto simp: edited_def split: json.splits)

lemma accepted_lookup: "accepted_diff n \<Longrightarrow> map_of (rev n) k = map_of n k"
proof -
  assume "accepted_diff n"
  then have d: "distinct (map fst n)" "distinct (map fst (rev n))"
    by (simp_all add: accepted_diff_def flip: rev_map)
  show ?thesis
    by (cases "map_of n k") (use d in \<open>simp_all add: map_of_eq_None_iff [THEN iffD2] map_of_eq_Some_iff map_of_eq_None_iff\<close>)
qed

section \<open>Properties\<close>

text \<open>
  C12: Whatever a remote \<open>update_config\<close> asks for, and however it ends, the protected keys
  of the configuration file (identities, keys, certificates, policy, script catalogue and the
  two channel addresses) keep their values.
\<close>

theorem protected_keys_survive_updates:
  assumes "update_config now copy_ok write_ok config path params fs = (r, fs')"
    and "fs path = Json (JObj d)" "d \<noteq> []" "k \<in> set PROTECTED_CONFIG_KEYS"
  shows "\<exists>d'. fs' path = Json (JObj d') \<and> map_of d' k = map_of d k"
proof (cases rule: update_config_cases [OF assms(1)])
  case (3 n df final base)
  have "base = JObj d" using 3(4) assms(2,3) by (simp add: load_disk_config_def)
  then have f: "final = dupdate (fold dpop (removed_keys params) d) n"
    using edited_JObj [OF 3(5)] assms(3) by auto
  have acc: "accepted_diff n" by (rule validate_diff_accepted [OF 3(1)])
  then have "map_of (rev n) k = None"
    using assms(4) by (auto simp: accepted_diff_def accepted_entry_def map_of_eq_None_iff)
  moreover have "k \<notin> set (removed_keys params)" using 3(3) assms(4) by auto
  ultimately show ?thesis using 3(6) f by (simp add: map_of_dupdate map_of_fold_dpop)
qed (use assms(2) in simp_all)

definition sample_fs :: cfs where
  "sample_fs = (\<lambda>p. Missing)(''/c'' := Json (JObj [(''policy'', JObj []), (''agent_id'', JStr ''a1'')]))"

theorem protected_keys_survive_updates_witness:
  "\<exists>d'. snd (update_config 5 True True [] ''/c'' [(''diff'', JObj [(''policy'', JNull)])] sample_fs) ''/c'' = Json (JObj d')
    \<and> map_of d' ''policy'' = map_of [(''policy'', JObj []), (''agent_id'', JStr ''a1'')] ''policy''"
  by (rule protected_keys_survive_updates [OF prod.collapse [symmetric]])
    (simp_all add: sample_fs_def PROTECTED_CONFIG_KEYS_def)

text \<open>
  An update that is answered with an error has changed nothing on the disk: neither the
  configuration nor a backup of it.
\<close>

theorem refused_update_changes_nothing:
  assumes "update_config now copy_ok write_ok config path params fs = (Inr e, fs')"
    and "getv e ''status'' = JStr ''ERROR''"
  shows "fs' = fs"
  by (cases rule: update_config_cases [OF assms(1)]) (use assms(2) in auto)

theorem refused_update_changes_nothing_witness:
  "snd (update_config 5 True True [] ''/c'' [] sample_fs) = sample_fs"
proof (rule refused_update_changes_nothing)
  show "update_config 5 True True [] ''/c'' [] sample_fs
      = (Inr (admin_error ''update_config'' no_diff), snd (update_config 5 True True [] ''/c'' [] sample_fs))"
    by (simp add: update_config_def requested_diff_def)
qed simp

text \<open>
  The command that \<open>trigger_update\<close> hands to the shell can be set from remote: it lies
  in \<open>auto_update\<close>, which is not a protected key, so an accepted \<open>update_config\<close>
  followed by \<open>trigger_update\<close> runs any text as a shell command.
\<close>

theorem remote_update_sets_shell_command:
  assumes "fs path = Json (JObj d)" "d \<noteq> []" "strip c = c" "c \<noteq> []"
  shows "\<exists>d'. snd (update_config now copy_ok True config path
        [(''config_diff'', JObj [(''auto_update'', JObj [(''command'', JStr c)])])] fs) path = Json (JObj d')
    \<and> trigger_update proc self_update sh d' [] max_chars = run_updater proc (sh @ [c]) c (Fin 120) max_chars"
proof -
  let ?au = "JObj [(''command'', JStr c)]"
  let ?ps = "[(''config_diff'', JObj [(''auto_update'', ?au)])]"
  let ?d' = "dset ''auto_update'' ?au d"
  have k: "map_of CONFIG_SCHEMA ''auto_update'' = Some ''dict''" by (simp add: CONFIG_SCHEMA_def)
  have n: "''auto_update'' \<notin> set PROTECTED_CONFIG_KEYS" by (simp add: PROTECTED_CONFIG_KEYS_def)
  have "diff_step (''auto_update'', ?au) ([], []) = ([(''auto_update'', ?au)], [])"
    by (simp add: diff_step_def check_value_def k n dset_def coerce_def)
  then have v: "validate_config_diff (JObj [(''auto_update'', ?au)]) = ([(''auto_update'', ?au)], [])"
    by (simp add: validate_config_diff_def MAX_DIFF_KEYS_def)
  have r: "requested_diff ?ps = Some (JObj [(''auto_update'', ?au)])" by (simp add: requested_diff_def)
  have m: "removed_keys ?ps = []" by (simp add: removed_keys_def)
  have "snd (update_config now copy_ok True config path ?ps fs) path = Json (JObj ?d')"
    using assms(1,2)
    by (simp add: update_config_def r v m load_disk_config_def apply_config_diff_def edited_def dupdate_def Let_def)
  moreover have "trigger_update proc self_update sh ?d' [] max_chars = run_updater proc (sh @ [c]) c (Fin 120) max_chars"
  proof -
    have "update_timeout [] [(''command'', JStr c)] = Inr (Fin 120)"
      by (simp add: update_timeout_def fmin_def fmax_def del: py_float.simps)
    then show ?thesis
      using assms(3,4) by (simp add: trigger_update_def str_strip_def shell_of_def)
  qed
  ultimately show ?thesis by blast
qed

theorem remote_update_sets_shell_command_witness:
  "\<exists>d'. snd (update_config 5 True True [] ''/c''
        [(''config_diff'', JObj [(''auto_update'', JObj [(''command'', JStr ''id'')])])] sample_fs) ''/c'' = Json (JObj d')
    \<and> trigger_update (\<lambda>argv t. Inr (0, join '' '' argv)) (\<lambda>c p n. Inl RuntimeError) [''/bin/sh'', ''-c''] d' [] 100
      = run_updater (\<lambda>argv t. Inr (0, join '' '' argv)) ([''/bin/sh'', ''-c''] @ [''id'']) ''id'' (Fin 120) 100"
proof (rule remote_update_sets_shell_command)
  show "sample_fs ''/c'' = Json (JObj [(''policy'', JObj []), (''agent_id'', JStr ''a1'')])" by (simp add: sample_fs_def)
  show "strip ''id'' = ''id''" by code_simp
qed simp_all

end
