(* ===== verification/Tamper.thy ===== *)
theory Tamper
  imports Config_Manager Security
begin

text \<open>
  The tamper monitor of the agent, \<^verbatim>\<open>colsoft_tools/tamper.py\<close>: hashes of the binary,
  the configuration and the certificates against a baseline on disk. \<open>sha256\<close>, the files,
  their sizes and times, the path of the binary and the clock are arguments; the baseline file
  is the state.
\<close>

section \<open>Snapshots\<close>

record world =
  files :: "string \<Rightarrow> fnode"
  file_size :: "string \<Rightarrow> int"
  file_time :: "string \<Rightarrow> string"
  binary :: string
  sha256 :: "string \<Rightarrow> string"
  settings :: dict

definition isfile :: "world \<Rightarrow> string \<Rightarrow> bool" where
  "isfile w p \<longleftrightarrow> files w p \<noteq> NoFile"

definition sha256_file :: "world \<Rightarrow> string \<Rightarrow> json" where
  "sha256_file w p = (case files w p of File c \<Rightarrow> JStr (sha256 w c) | _ \<Rightarrow> JNull)"

definition sha256_bytes :: "world \<Rightarrow> json \<Rightarrow> json res" where
  "sha256_bytes w v = (case v of JNull \<Rightarrow> Inr JNull | JStr s \<Rightarrow> Inr (JStr (sha256 w s)) | _ \<Rightarrow> Inl AttributeError)"

definition monitored_paths :: "world \<Rightarrow> (string \<times> string) list" where
  "monitored_paths w =
     (let cfg = str_or (getv (settings w) ''_config_path'') ''config_client.json'' in
      (''binary'', binary w) # (if isfile w cfg then [(''config'', cfg)] else [])
      @ concat (map (\<lambda>k. let p = getv (settings w) k in
          if truthy p \<and> isfile w (py_str p) then [(k, py_str p)] else [])
          [''tls_ca_cert'', ''tls_client_cert'', ''tls_client_key'']))"

definition component :: "world \<Rightarrow> string \<Rightarrow> json" where
  "component w p = JObj [(''path'', JStr p), (''sha256'', sha256_file w p),
     (''size_bytes'', if isfile w p then JInt (file_size w p) else JNull),
     (''mtime'', if isfile w p then JStr (file_time w p) else JNull)]"

definition compute_snapshot :: "world \<Rightarrow> dict res" where
  "compute_snapshot w =
     res_bind (sha256_bytes w (getv (settings w) ''signing_public_key'')) (\<lambda>h.
       Inr (map (\<lambda>(label, p). (label, component w p)) (monitored_paths w)
            @ [(''signing_public_key'', JObj [(''value_sha256'', h)])]))"

definition fingerprint :: "world \<Rightarrow> json \<Rightarrow> json" where
  "fingerprint w snapshot = JStr (sha256 w (dumps_sorted snapshot))"

section \<open>The baseline\<close>

definition load_baseline :: "cfile \<Rightarrow> json" where
  \<comment> \<open>\<open>None\<close> when the file is missing or is no JSON\<close>
  "load_baseline f = (case f of Json j \<Rightarrow> j | _ \<Rightarrow> JNull)"

definition baseline_of :: "world \<Rightarrow> string \<Rightarrow> dict \<Rightarrow> dict" where
  "baseline_of w now snapshot =
     [(''created_at'', JStr now), (''snapshot'', JObj snapshot), (''fingerprint'', fingerprint w (JObj snapshot))]"

definition save_baseline :: "world \<Rightarrow> string \<Rightarrow> bool \<Rightarrow> cfile \<Rightarrow> dict res \<times> cfile" where
  "save_baseline w now write_ok f =
     (case compute_snapshot w of
        Inl e \<Rightarrow> (Inl e, f)
      | Inr s \<Rightarrow>
          if write_ok then (Inr (baseline_of w now s), Json (JObj (baseline_of w now s))) else (Inl OSError, f))"

definition change_of :: "string \<Rightarrow> json \<Rightarrow> json \<Rightarrow> dict option res" where
  \<comment> \<open>the entry of one component, when it differs from the baseline\<close>
  "change_of label current expected =
     (if expected = JNull then
        Inr (Some [(''component'', JStr label), (''reason'', JStr ''componente nuevo (sin baseline)'')])
      else
        res_bind (py_get current ''sha256'') (\<lambda>h. res_bind (py_get expected ''sha256'') (\<lambda>h'.
        res_bind (py_get current ''value_sha256'') (\<lambda>v. res_bind (py_get expected ''value_sha256'') (\<lambda>v'.
          Inr (if h \<noteq> h' \<or> v \<noteq> v' then
            Some [(''component'', JStr label), (''path'', getv (obj_of current) ''path''),
                  (''expected_sha256'', py_or h' v'), (''actual_sha256'', py_or h v),
                  (''reason'', JStr ''hash modificado'')]
          else None))))))"

fun changes_of :: "json \<Rightarrow> dict \<Rightarrow> dict list res" where
  \<comment> \<open>over the components of the present snapshot\<close>
  "changes_of base [] = Inr []"
| "changes_of base ((label, current) # rest) =
     res_bind (py_get base label) (\<lambda>expected.
     res_bind (change_of label current expected) (\<lambda>c.
     res_bind (changes_of base rest) (\<lambda>cs. Inr (case c of None \<Rightarrow> cs | Some x \<Rightarrow> x # cs))))"

definition CREATED :: dict where
  "CREATED = [(''ok'', JBool True), (''tampered'', JBool False), (''baseline_created'', JBool True),
     (''changes'', JList []), (''baseline_fingerprint_ok'', JBool True)]"

definition compare :: "world \<Rightarrow> string \<Rightarrow> json \<Rightarrow> dict res" where
  \<comment> \<open>\<open>check\<close> with a baseline\<close>
  "compare w file baseline =
     res_bind (py_get baseline ''fingerprint'') (\<lambda>stored.
     res_bind (py_get baseline ''snapshot'') (\<lambda>snap0.
     let snap = py_or snap0 (JObj []); fp_ok = (stored = fingerprint w snap) in
     res_bind (compute_snapshot w) (\<lambda>s.
     res_bind (changes_of snap s) (\<lambda>changes.
       Inr (if changes = [] \<and> fp_ok then [(''ok'', JBool True), (''tampered'', JBool False), (''changes'', JList [])]
            else [(''ok'', JBool False), (''tampered'', JBool True), (''changes'', JList (map JObj changes)),
                  (''baseline_fingerprint_ok'', JBool fp_ok), (''baseline_file'', JStr file)])))))"

definition check :: "world \<Rightarrow> string \<Rightarrow> string \<Rightarrow> bool \<Rightarrow> cfile \<Rightarrow> dict res \<times> cfile" where
  "check w file now write_ok f =
     (if load_baseline f = JNull then
        (case save_baseline w now write_ok f of
           (Inl e, f') \<Rightarrow> (Inl e, f') | (Inr b, f') \<Rightarrow> (Inr CREATED, f'))
      else (compare w file (load_baseline f), f))"

definition verify_and_rebaseline :: "world \<Rightarrow> string \<Rightarrow> string \<Rightarrow> bool \<Rightarrow> bool \<Rightarrow> cfile \<Rightarrow> dict res \<times> cfile" where
  "verify_and_rebaseline w file now write_ok allow f =
     (case check w file now write_ok f of
        (Inl e, f') \<Rightarrow> (Inl e, f')
      | (Inr r, f') \<Rightarrow>
          if truthy (getv r ''tampered'') \<and> allow then
            (case save_baseline w now write_ok f' of
               (Inl e, f'') \<Rightarrow> (Inl e, f'')
             | (Inr b, f'') \<Rightarrow>
                (Inr (dset ''new_fingerprint'' (getv b ''fingerprint'') (dset ''rebaselined'' (JBool True) r)), f''))
          else (Inr r, f'))"

definition to_event :: "string \<Rightarrow> dict \<Rightarrow> dict" where
  \<comment> \<open>of the last result\<close>
  "to_event file r =
     [(''event_type'', JStr ''security.tamper_detected''), (''category'', JStr ''security''),
      (''severity'', JStr (if truthy (getv r ''tampered'') then ''critical'' else ''info'')),
      (''tampered'', getd r ''tampered'' (JBool False)), (''changes'', getd r ''changes'' (JList [])),
      (''baseline_file'', JStr file),
      (''baseline_fingerprint_ok'', getd r ''baseline_fingerprint_ok'' (JBool True))]"

section \<open>Lemmas\<close>

lemma monitored_labels: "distinct (map fst (monitored_paths w)) \<and> ''signing_public_key'' \<notin> fst ` set (monitored_paths w)"
  by (auto simp: monitored_paths_def Let_def)

definition parts :: "world \<Rightarrow> (string \<times> string) list \<Rightarrow> json \<Rightarrow> dict" where
  "parts w ps h = map (\<lambda>(label, p). (label, component w p)) ps @ [(''signing_public_key'', JObj [(''value_sha256'', h)])]"

lemma compute_snapshot_parts:
  "compute_snapshot w = res_bind (sha256_bytes w (getv (settings w) ''signing_public_key'')) (\<lambda>h. Inr (parts w (monitored_paths w) h))"
  by (simp add: compute_snapshot_def parts_def)

lemma parts_lookup:
  assumes "(label, p) \<in> set (monitored_paths w)"
  shows "getv (parts w (monitored_paths w) h) label = component w p"
proof -
  have d: "distinct (map fst (parts w (monitored_paths w) h))"
    using monitored_labels [of w] by (auto simp: parts_def case_prod_unfold o_def)
  have "(label, component w p) \<in> set (parts w (monitored_paths w) h)" using assms by (force simp: parts_def)
  then show ?thesis using d by (simp add: getv_def map_of_is_SomeI)
qed

lemma parts_key: "getv (parts w (monitored_paths w) h) ''signing_public_key'' = JObj [(''value_sha256'', h)]"
proof -
  have "map_of (map (\<lambda>(label, p). (label, component w p)) (monitored_paths w)) ''signing_public_key'' = None"
    using monitored_labels [of w] by (force simp: map_of_eq_None_iff)
  then show ?thesis by (simp add: parts_def getv_def map_add_def)
qed

lemma component_fields [simp]:
  "getv (obj_of (component w p)) ''sha256'' = sha256_file w p" "component w p \<noteq> JNull"
  "py_get (component w p) ''sha256'' = Inr (sha256_file w p)" "py_get (component w p) ''value_sha256'' = Inr JNull"
  by (simp_all add: component_def py_get_def)

lemma change_component:
  "change_of label (component w p) (component w0 p0) =
     Inr (if sha256_file w p \<noteq> sha256_file w0 p0 then
       Some [(''component'', JStr label), (''path'', JStr p), (''expected_sha256'', py_or (sha256_file w0 p0) JNull),
             (''actual_sha256'', py_or (sha256_file w p) JNull), (''reason'', JStr ''hash modificado'')] else None)"
  by (simp add: change_of_def) (simp add: component_def)

lemma change_key:
  "change_of label (JObj [(''value_sha256'', h)]) (JObj [(''value_sha256'', h)]) = Inr None"
  by (simp add: change_of_def py_get_def)

lemma changes_none:
  "(\<And>l c. (l, c) \<in> set s \<Longrightarrow> change_of l c (getv base l) = Inr None) \<Longrightarrow> changes_of (JObj base) s = Inr []"
proof (induction s)
  case (Cons x s)
  obtain l c where x: "x = (l, c)" by fastforce
  have "change_of l c (getv base l) = Inr None" using Cons.prems by (simp add: x)
  moreover have "changes_of (JObj base) s = Inr []" using Cons.prems by (intro Cons.IH) simp
  ultimately show ?case by (simp add: x py_get_def)
qed simp

lemma compare_saved:
  "compare w file (JObj (baseline_of w0 now s0)) =
     res_bind (compute_snapshot w) (\<lambda>s. res_bind (changes_of (py_or (JObj s0) (JObj [])) s) (\<lambda>changes.
       Inr (if changes = [] \<and> fingerprint w0 (JObj s0) = fingerprint w (py_or (JObj s0) (JObj []))
            then [(''ok'', JBool True), (''tampered'', JBool False), (''changes'', JList [])]
            else [(''ok'', JBool False), (''tampered'', JBool True), (''changes'', JList (map JObj changes)),
                  (''baseline_fingerprint_ok'', JBool (fingerprint w0 (JObj s0) = fingerprint w (py_or (JObj s0) (JObj [])))),
                  (''baseline_file'', JStr file)])))"
  by (simp add: compare_def baseline_of_def py_get_def Let_def)

lemma parts_nonempty [simp]: "parts w ps h \<noteq> []"
  by (simp add: parts_def)

lemma compare_ok:
  assumes "sha256 w = sha256 w0" "settings w = settings w0" "compute_snapshot w0 = Inr s0"
    and "\<And>l p. (l, p) \<in> set (monitored_paths w) \<Longrightarrow> (l, p) \<in> set (monitored_paths w0) \<and> sha256_file w p = sha256_file w0 p"
  shows "compare w file (JObj (baseline_of w0 now s0)) = Inr [(''ok'', JBool True), (''tampered'', JBool False), (''changes'', JList [])]"
proof -
  obtain h where h: "sha256_bytes w0 (getv (settings w0) ''signing_public_key'') = Inr h" "s0 = parts w0 (monitored_paths w0) h"
    using assms(3) by (auto simp: compute_snapshot_parts res_bind_eq_Inr)
  have hw: "sha256_bytes w (getv (settings w) ''signing_public_key'') = Inr h"
    using h(1) unfolding sha256_bytes_def assms(1,2) .
  have "changes_of (JObj s0) (parts w (monitored_paths w) h) = Inr []"
  proof (rule changes_none)
    fix l c assume "(l, c) \<in> set (parts w (monitored_paths w) h)"
    then consider p where "(l, p) \<in> set (monitored_paths w)" "c = component w p"
      | "l = ''signing_public_key''" "c = JObj [(''value_sha256'', h)]" by (auto simp: parts_def)
    then show "change_of l c (getv s0 l) = Inr None"
    proof cases
      case 1
      then have "(l, p) \<in> set (monitored_paths w0)" "sha256_file w p = sha256_file w0 p" using assms(4) by blast+
      then show ?thesis using 1 by (simp add: h(2) parts_lookup [of l p] change_component)
    next
      case 2
      then show ?thesis by (simp add: h(2) parts_key change_key)
    qed
  qed
  then show ?thesis using hw h(2)
    by (simp add: compare_saved compute_snapshot_parts fingerprint_def assms(1))
qed

lemma changes_found:
  assumes "\<And>l c. (l, c) \<in> set s \<Longrightarrow> \<exists>x. change_of l c (getv base l) = Inr x"
    and "(l, c) \<in> set s" "change_of l c (getv base l) = Inr (Some d)"
  shows "\<exists>cs. changes_of (JObj base) s = Inr cs \<and> d \<in> set cs"
  using assms
proof (induction s)
  case (Cons y s)
  obtain l' c' where y: "y = (l', c')" by fastforce
  have total: "\<exists>cs. changes_of (JObj base) s = Inr cs"
    if "\<And>l c. (l, c) \<in> set s \<Longrightarrow> \<exists>x. change_of l c (getv base l) = Inr x" for s
    using that
  proof (induction s)
    case (Cons z s)
    obtain l2 c2 where z: "z = (l2, c2)" by fastforce
    obtain x where "change_of l2 c2 (getv base l2) = Inr x" using Cons.prems [of l2 c2] by (auto simp: z)
    moreover obtain cs where "changes_of (JObj base) s = Inr cs" using Cons.IH Cons.prems by fastforce
    ultimately show ?case by (simp add: z py_get_def)
  qed simp
  obtain x where x: "change_of l' c' (getv base l') = Inr x" using Cons.prems(1) [of l' c'] by (auto simp: y)
  obtain cs where cs: "changes_of (JObj base) s = Inr cs" using total Cons.prems(1) by fastforce
  show ?case
  proof (cases "(l, c) = (l', c')")
    case True
    then show ?thesis using Cons.prems(3) x cs by (simp add: y py_get_def)
  next
    case False
    then have "d \<in> set cs" using Cons.IH Cons.prems cs by (auto simp: y)
    then show ?thesis using x cs by (auto simp: y py_get_def split: option.splits)
  qed
qed simp

section \<open>Properties\<close>

text \<open>
  A change of a monitored file is reported: if the content of a file that the baseline
  holds is replaced by one with another hash, the check answers \<open>tampered\<close> and lists the
  component.
\<close>

theorem modified_file_is_reported:
  assumes "save_baseline w0 now True f = (Inr b, f')" "(label, p) \<in> set (monitored_paths w0)"
    and "files w0 p = File c" "sha256 w0 c' \<noteq> sha256 w0 c" "w = w0\<lparr>files := (files w0)(p := File c')\<rparr>"
  shows "\<exists>r changes. check w file now' write_ok f' = (Inr r, f') \<and> getv r ''tampered'' = JBool True
    \<and> getv r ''changes'' = JList (map JObj changes) \<and> (\<exists>d \<in> set changes. getv d ''component'' = JStr label)"
proof -
  obtain s0 where s0: "compute_snapshot w0 = Inr s0" "f' = Json (JObj (baseline_of w0 now s0))"
    using assms(1) by (auto simp: save_baseline_def split: sum.splits)
  obtain h where h: "sha256_bytes w0 (getv (settings w0) ''signing_public_key'') = Inr h" "s0 = parts w0 (monitored_paths w0) h"
    using s0(1) by (auto simp: compute_snapshot_parts res_bind_eq_Inr)
  have m: "monitored_paths w = monitored_paths w0"
  proof -
    have "isfile w = isfile w0" using assms(3,5) by (auto simp: isfile_def fun_eq_iff)
    moreover have "settings w = settings w0" "binary w = binary w0" by (simp_all add: assms(5))
    ultimately show ?thesis unfolding monitored_paths_def by simp
  qed
  have "settings w = settings w0" "sha256 w = sha256 w0" by (simp_all add: assms(5))
  then have hw: "compute_snapshot w = Inr (parts w (monitored_paths w0) h)"
    using h(1) by (simp add: compute_snapshot_parts m sha256_bytes_def cong: json.case_cong)
  have sha: "sha256_file w p = JStr (sha256 w0 c')" "sha256_file w0 p = JStr (sha256 w0 c)"
    using assms(3,5) by (simp_all add: sha256_file_def)
  define d where "d = [(''component'', JStr label), (''path'', JStr p), (''expected_sha256'', py_or (sha256_file w0 p) JNull),
             (''actual_sha256'', py_or (sha256_file w p) JNull), (''reason'', JStr ''hash modificado'')]"
  have "\<exists>cs. changes_of (JObj s0) (parts w (monitored_paths w0) h) = Inr cs \<and> d \<in> set cs"
  proof (rule changes_found)
    show "\<exists>x. change_of l c (getv s0 l) = Inr x" if lc: "(l, c) \<in> set (parts w (monitored_paths w0) h)" for l c
    proof (cases "l = ''signing_public_key'' \<and> c = JObj [(''value_sha256'', h)]")
      case True
      then show ?thesis by (simp add: h(2) parts_key change_key)
    next
      case False
      then obtain p' where "(l, p') \<in> set (monitored_paths w0)" "c = component w p'" using lc by (auto simp: parts_def)
      then show ?thesis by (simp add: h(2) parts_lookup change_component)
    qed
    show "(label, component w p) \<in> set (parts w (monitored_paths w0) h)" using assms(2) by (force simp: parts_def)
    show "change_of label (component w p) (getv s0 label) = Inr (Some d)"
      using sha assms(4) by (simp add: h(2) parts_lookup [OF assms(2)] change_component d_def)
  qed
  then obtain cs where cs: "changes_of (JObj s0) (parts w (monitored_paths w0) h) = Inr cs" "d \<in> set cs" by blast
  have "getv d ''component'' = JStr label" by (simp add: d_def)
  moreover have "cs \<noteq> []" using cs(2) by auto
  ultimately show ?thesis
    using cs hw h(2) by (auto simp: check_def s0(2) load_baseline_def compare_saved)
qed

definition sample_world :: world where
  "sample_world = \<lparr>files = (\<lambda>p. if p = ''/a'' then File ''x'' else if p = ''/c'' then File ''cert'' else NoFile),
     file_size = (\<lambda>p. 1), file_time = (\<lambda>p. []), binary = ''/a'', sha256 = (\<lambda>s. s),
     settings = [(''tls_ca_cert'', JStr ''/c'')]\<rparr>"

definition sample_baseline :: "dict res \<times> cfile" where
  "sample_baseline = save_baseline sample_world ''t0'' True Missing"

lemma sample_baseline_ok: "\<exists>b. save_baseline sample_world ''t0'' True Missing = (Inr b, snd sample_baseline)"
  by (simp add: sample_baseline_def save_baseline_def compute_snapshot_def sample_world_def sha256_bytes_def)

theorem modified_file_is_reported_witness:
  "\<exists>r changes. check (sample_world\<lparr>files := (files sample_world)(''/a'' := File ''y'')\<rparr>) ''/b'' ''t1'' True (snd sample_baseline)
      = (Inr r, snd sample_baseline)
    \<and> getv r ''tampered'' = JBool True \<and> getv r ''changes'' = JList (map JObj changes)
    \<and> (\<exists>d \<in> set changes. getv d ''component'' = JStr ''binary'')"
proof -
  obtain b where b: "save_baseline sample_world ''t0'' True Missing = (Inr b, snd sample_baseline)"
    using sample_baseline_ok by blast
  show ?thesis
    by (rule modified_file_is_reported [OF b, of "''binary''" "''/a''" "''x''" "''y''"])
      (simp_all add: sample_world_def monitored_paths_def Let_def)
qed

text \<open>
  A monitor that starts again with the files it saw is content: sizes and times do not
  matter, and the baseline stays as it is.
\<close>

theorem untouched_files_pass:
  assumes "save_baseline w0 now True f = (Inr b, f')"
  shows "check (w0\<lparr>file_size := sizes, file_time := stamps\<rparr>) file now' write_ok f' =
    (Inr [(''ok'', JBool True), (''tampered'', JBool False), (''changes'', JList [])], f')"
proof -
  obtain s0 where s0: "compute_snapshot w0 = Inr s0" "f' = Json (JObj (baseline_of w0 now s0))"
    using assms by (auto simp: save_baseline_def split: sum.splits)
  let ?w = "w0\<lparr>file_size := sizes, file_time := stamps\<rparr>"
  have "isfile ?w = isfile w0" by (simp add: isfile_def fun_eq_iff)
  then have "monitored_paths ?w = monitored_paths w0" unfolding monitored_paths_def by simp
  moreover have "sha256_file ?w p = sha256_file w0 p" for p by (simp add: sha256_file_def cong: fnode.case_cong)
  ultimately have "compare ?w file (JObj (baseline_of w0 now s0)) =
      Inr [(''ok'', JBool True), (''tampered'', JBool False), (''changes'', JList [])]"
    by (intro compare_ok [OF _ _ s0(1)]) simp_all
  then show ?thesis by (simp add: check_def s0(2) load_baseline_def)
qed

theorem untouched_files_pass_witness:
  "check (sample_world\<lparr>file_size := \<lambda>p. 7, file_time := \<lambda>p. ''later''\<rparr>) ''/b'' ''t1'' True (snd sample_baseline)
    = (Inr [(''ok'', JBool True), (''tampered'', JBool False), (''changes'', JList [])], snd sample_baseline)"
  using untouched_files_pass sample_baseline_ok by blast

text \<open>
  A monitored file that is deleted is not reported: the check walks over the files that
  are there, so without its certificate or its configuration the agent is still found intact.
\<close>

theorem deleted_file_is_missed:
  assumes "save_baseline w0 now True f = (Inr b, f')" "p \<noteq> binary w0"
  shows "check (w0\<lparr>files := (files w0)(p := NoFile)\<rparr>) file now' write_ok f' =
    (Inr [(''ok'', JBool True), (''tampered'', JBool False), (''changes'', JList [])], f')"
proof -
  obtain s0 where s0: "compute_snapshot w0 = Inr s0" "f' = Json (JObj (baseline_of w0 now s0))"
    using assms(1) by (auto simp: save_baseline_def split: sum.splits)
  let ?w = "w0\<lparr>files := (files w0)(p := NoFile)\<rparr>"
  have i: "isfile ?w x \<longleftrightarrow> isfile w0 x \<and> x \<noteq> p" for x by (simp add: isfile_def)
  have "(l, x) \<in> set (monitored_paths w0) \<and> sha256_file ?w x = sha256_file w0 x"
    if m: "(l, x) \<in> set (monitored_paths ?w)" for l x
  proof -
    have "x \<noteq> p" using m assms(2) by (auto simp: monitored_paths_def i Let_def split: if_splits)
    moreover have "(l, x) \<in> set (monitored_paths w0)"
      using m by (auto simp: monitored_paths_def i Let_def split: if_splits)
    ultimately show ?thesis by (simp add: sha256_file_def cong: fnode.case_cong)
  qed
  then have "compare ?w file (JObj (baseline_of w0 now s0)) =
      Inr [(''ok'', JBool True), (''tampered'', JBool False), (''changes'', JList [])]"
    by (intro compare_ok [OF _ _ s0(1)]) simp_all
  then show ?thesis by (simp add: check_def s0(2) load_baseline_def)
qed

theorem deleted_file_is_missed_witness:
  "check (sample_world\<lparr>files := (files sample_world)(''/c'' := NoFile)\<rparr>) ''/b'' ''t1'' True (snd sample_baseline)
    = (Inr [(''ok'', JBool True), (''tampered'', JBool False), (''changes'', JList [])], snd sample_baseline)"
proof -
  obtain b where b: "save_baseline sample_world ''t0'' True Missing = (Inr b, snd sample_baseline)"
    using sample_baseline_ok by blast
  show ?thesis by (rule deleted_file_is_missed [OF b]) (simp add: sample_world_def)
qed

text \<open>
  A baseline that was deleted or damaged counts as a first start: whatever the files now
  hold becomes the new baseline, with the answer \<open>ok\<close>, although rebaselining was not allowed.
\<close>

theorem damaged_baseline_is_replaced:
  assumes "load_baseline f = JNull" "compute_snapshot w = Inr s"
  shows "verify_and_rebaseline w file now True False f = (Inr CREATED, Json (JObj (baseline_of w now s)))
    \<and> getv CREATED ''tampered'' = JBool False"
  using assms by (simp_all add: verify_and_rebaseline_def check_def save_baseline_def CREATED_def)

theorem damaged_baseline_is_replaced_witness:
  "verify_and_rebaseline (sample_world\<lparr>files := (files sample_world)(''/a'' := File ''y'')\<rparr>) ''/b'' ''t1'' True False Corrupt
      = (Inr CREATED, Json (JObj (baseline_of (sample_world\<lparr>files := (files sample_world)(''/a'' := File ''y'')\<rparr>) ''t1''
          (projr (compute_snapshot (sample_world\<lparr>files := (files sample_world)(''/a'' := File ''y'')\<rparr>))))))
    \<and> getv CREATED ''tampered'' = JBool False"
  by (rule damaged_baseline_is_replaced)
    (simp_all add: load_baseline_def compute_snapshot_def sample_world_def sha256_bytes_def)

end
