(* ===== verification/Scheduler.thy ===== *)
theory Scheduler
  imports Execute_Tool Otlp_Compact
begin

text \<open>
  The internal scheduler of the agent, \<^verbatim>\<open>colsoft_tools/scheduler.py\<close>: the tools and
  the cadence of the configuration, and one pass over the tools. The executor and the fresh
  request ids are arguments; what the sink receives is the result, compacted for OTLP. A
  pass is sequential and every exception of a tool is turned into an event.
\<close>

section \<open>Configuration\<close>

definition scheduler_block :: "dict \<Rightarrow> dict" where
  "scheduler_block cfg = obj_of (getv cfg ''scheduler'')"

definition dict_copy :: "json \<Rightarrow> dict res" where
  \<comment> \<open>\<open>dict(v)\<close>; a list of pairs, which it also takes, is not modelled\<close>
  "dict_copy v = (case v of JObj d \<Rightarrow> Inr d | JStr s \<Rightarrow> Inl ValueError | JList xs \<Rightarrow> Inl ValueError | _ \<Rightarrow> Inl TypeError)"

definition item_of :: "json \<Rightarrow> (string \<times> dict) list res" where
  "item_of item =
     (case item of
        JObj d \<Rightarrow>
          res_bind (text_or (getv d ''tool'') []) (\<lambda>name.
          res_bind (dict_copy (py_or (getv d ''params'') (JObj []))) (\<lambda>ps.
          res_bind (if getv d ''timeout'' = JNull then Inr ps
                    else res_bind (py_float (getv d ''timeout'')) (\<lambda>f. Inr (dset ''timeout'' (JFloat f) ps))) (\<lambda>ps.
            Inr (if name = [] then [] else [(name, ps)]))))
      | JStr s \<Rightarrow> Inr [(strip s, [])]
      | _ \<Rightarrow> Inr [])"

fun items_of :: "json list \<Rightarrow> (string \<times> dict) list res" where
  "items_of [] = Inr []"
| "items_of (x # xs) = res_bind (item_of x) (\<lambda>a. res_bind (items_of xs) (\<lambda>b. Inr (a @ b)))"

definition items_from_config :: "dict \<Rightarrow> (string \<times> dict) list res" where
  "items_from_config cfg =
     (let sched = scheduler_block cfg in
      case (if has ''tools'' sched then getv sched ''tools'' else getv cfg ''tools_execution_interval'') of
        JList xs \<Rightarrow> items_of xs
      | JObj d \<Rightarrow> Inr (map (\<lambda>(name, ps). (name, obj_of ps)) d)
      | _ \<Rightarrow> Inr [])"

definition cadence :: "json \<Rightarrow> pyfloat res" where
  \<comment> \<open>\<open>max(float(v or 0), 0.0)\<close>, 0 for a value that is no number\<close>
  "cadence v = or_default (Fin 0) (res_bind (py_float (py_or v (JInt 0))) (\<lambda>f. Inr (fmax f (Fin 0))))"

definition interval_seconds :: "dict \<Rightarrow> pyfloat res" where
  "interval_seconds cfg =
     (let sched = scheduler_block cfg in
      if getv sched ''interval_seconds'' \<noteq> JNull then cadence (getv sched ''interval_seconds'')
      else res_bind (cadence (if getv sched ''interval_minutes'' \<noteq> JNull then getv sched ''interval_minutes''
                              else getv cfg ''minute_interval'')) (\<lambda>f. Inr (fscale 60 f)))"

record scheduler =
  conf :: dict
  interval :: pyfloat
  items :: "(string \<times> dict) list"
  run_once :: bool
  rules :: command_policy

definition scheduler_of :: "dict \<Rightarrow> command_policy \<Rightarrow> scheduler res" where
  "scheduler_of cfg pol =
     res_bind (interval_seconds cfg) (\<lambda>i. res_bind (items_from_config cfg) (\<lambda>xs.
       Inr \<lparr>conf = cfg, interval = i, items = xs,
            run_once = (truthy (getv (scheduler_block cfg) ''run_once'') \<or> truthy (getv (scheduler_block cfg) ''once'')),
            rules = pol\<rparr>))"

definition enabled :: "scheduler \<Rightarrow> bool" where
  "enabled s \<longleftrightarrow> items s \<noteq> [] \<and> (run_once s \<or> flt (Fin 0) (interval s))"

definition status_of :: "scheduler \<Rightarrow> dict" where
  "status_of s = [(''enabled'', JBool (enabled s)), (''interval_s'', JFloat (interval s)),
     (''tools'', JInt (int (length (items s)))), (''run_once'', JBool (run_once s))]"

section \<open>A pass\<close>

record pass_env =
  execute :: "string \<Rightarrow> dict \<Rightarrow> int \<Rightarrow> json res"
  fresh :: "nat \<Rightarrow> string"
  exc_text :: "py_exc \<Rightarrow> string"

definition tool_event :: "string \<Rightarrow> string \<Rightarrow> string \<Rightarrow> string \<Rightarrow> json \<Rightarrow> dict" where
  \<comment> \<open>severity, request id, tool, and the last field\<close>
  "tool_event severity rid tool key v =
     [(''event_type'', JStr ''telemetry.tool_result''), (''category'', JStr (tool_category tool)),
      (''severity'', JStr severity), (''scheduled'', JBool True), (''request_id'', JStr rid),
      (''tool'', JStr tool), (key, v)]"

definition packed_result :: "string \<Rightarrow> string \<Rightarrow> json \<Rightarrow> json" where
  "packed_result rid tool v =
     (case v of
        JObj d \<Rightarrow>
         (let packed = compact_event (tool_event ''info'' rid tool ''result'' v) in
          case getv packed ''result'' of
            JObj inner \<Rightarrow> JObj inner
          | _ \<Rightarrow> if getv packed ''error'' = JStr ''payload_too_large''
                 then JObj [(''tool'', JStr tool), (''status'', py_or (getv d ''status'') (JStr ''ERROR'')),
                            (''truncated'', JBool True), (''error'', JStr ''payload_too_large'')]
                 else v)
      | _ \<Rightarrow> v)"

definition outcome_event :: "pass_env \<Rightarrow> scheduler \<Rightarrow> string \<Rightarrow> string \<Rightarrow> dict \<Rightarrow> dict" where
  "outcome_event e s rid tool ps =
     (case command_timeout tool ps of
        Inl x \<Rightarrow> tool_event ''error'' rid tool ''error'' (JStr (exc_text e x))
      | Inr t \<Rightarrow>
         (case res_bind (py_int (py_or (getv (conf s) ''max_chars'') (JInt 60000))) (execute e tool ps) of
            Inr v \<Rightarrow> tool_event ''info'' rid tool ''result'' (packed_result rid tool v)
          | Inl x \<Rightarrow> tool_event ''error'' rid tool ''error'' (JStr
              (if x = TimeoutError then ''Timeout ('' @ py_repr (JFloat t) @ ''s) excedido en el agente''
               else exc_text e x))))"

definition run_item :: "pass_env \<Rightarrow> scheduler \<Rightarrow> nat \<Rightarrow> string \<times> dict \<Rightarrow> dict list" where
  \<comment> \<open>the events of one item: none when the policy refuses the tool\<close>
  "run_item e s n = (\<lambda>(raw, ps).
     let tool = resolve_command raw in
     if fst (policy_check (rules s) tool) then [outcome_event e s (fresh e n) tool ps] else [])"

fun run_items :: "pass_env \<Rightarrow> scheduler \<Rightarrow> nat \<Rightarrow> (string \<times> dict) list \<Rightarrow> dict list" where
  "run_items e s n [] = []"
| "run_items e s n (x # xs) = run_item e s n x @ run_items e s (Suc n) xs"

definition run_pass :: "pass_env \<Rightarrow> scheduler \<Rightarrow> dict list" where
  "run_pass e s = (if enabled s then run_items e s 0 (items s) else [])"

section \<open>Properties\<close>

lemma outcome_event_tool [simp]: "getv (outcome_event e s rid tool ps) ''tool'' = JStr tool"
  by (simp add: outcome_event_def tool_event_def split: sum.splits)

lemma run_items_tools:
  "map (\<lambda>ev. getv ev ''tool'') (run_items e s n xs) =
     map JStr (filter (\<lambda>t. fst (policy_check (rules s) t)) (map (\<lambda>x. resolve_command (fst x)) xs))"
  by (induction xs arbitrary: n) (auto simp: run_item_def Let_def case_prod_unfold)


definition sample_scheduler :: scheduler where
  "sample_scheduler = \<lparr>conf = [], interval = Fin 60, items = [(''disk_usage'', []), (''kill_process'', [])],
     run_once = False, rules = \<lparr>allowed = [], allow_high_risk = False\<rparr>\<rparr>"

definition sample_pass_env :: pass_env where
  "sample_pass_env = \<lparr>execute = (\<lambda>t p n. if t = ''kill_process'' then Inl RuntimeError else Inl TimeoutError),
     fresh = (\<lambda>n. []), exc_text = (\<lambda>x. [])\<rparr>"


end
