(* ===== verification/Jwt_Auth.thy ===== *)
theory Jwt_Auth
  imports Protocol Security
begin

text \<open>
  The authentication of the REST interface, \<^verbatim>\<open>server/lib/jwt_auth.py\<close>: the cached
  public key, the check of a token, the dependency \<open>require_robin_jwt\<close> and the roles that may
  issue commands. Downloading the key and PyJWT (the header of a token, its verification) are
  arguments; the \<open>n\<close>-th download of the process is \<open>fetch_key n\<close>.
\<close>

section \<open>State and environment\<close>

text \<open>The exceptions of PyJWT that the code tells apart; the last is no \<open>PyJWTError\<close>.\<close>

datatype jwt_exc = JwtInvalid | JwtSignature | JwtKey | JwtOther py_exc

record key_cache =
  key_pem :: json
  key_kid :: json
  key_at :: rat
  downloads :: nat

record jwt_env =
  jwt_now :: rat
  fetch_key :: "nat \<Rightarrow> json res"
  jwt_header :: "string \<Rightarrow> jwt_exc + dict"
  jwt_decode :: "string \<Rightarrow> json \<Rightarrow> string list \<Rightarrow> string option \<Rightarrow> string list \<Rightarrow> jwt_exc + dict"
    \<comment> \<open>token, key, algorithms, issuer, claims required\<close>
  required_env :: string
  issuer_env :: string
  execute_env :: string
  high_env :: string

definition key_cache_init :: key_cache where
  "key_cache_init = \<lparr>key_pem = JNull, key_kid = JNull, key_at = 0, downloads = 0\<rparr>"

definition jwt_required_enabled :: "jwt_env \<Rightarrow> bool" where
  "jwt_required_enabled e \<longleftrightarrow> required_env e = ''1''"

section \<open>The public key\<close>

definition get_public_key :: "jwt_env \<Rightarrow> bool \<Rightarrow> key_cache \<Rightarrow> json \<times> key_cache" where
  "get_public_key e force c =
     (if truthy (key_pem c) \<and> \<not> force \<and> jwt_now e - key_at c < 3600 then (key_pem c, c)
      else
       let c' = c\<lparr>downloads := Suc (downloads c)\<rparr> in
       (case fetch_key e (downloads c) of
          Inr (JObj d) \<Rightarrow>
            (if truthy (getv d ''public_key'')
             then (getv d ''public_key'',
                   c'\<lparr>key_pem := getv d ''public_key'', key_kid := py_or (getv d ''kid'') (key_kid c), key_at := jwt_now e\<rparr>)
             else (key_pem c, c'))
        | _ \<Rightarrow> (key_pem c, c')))"

section \<open>Checking a token\<close>

abbreviation REQUIRED_CLAIMS :: "string list" where
  "REQUIRED_CLAIMS \<equiv> [''exp'', ''sub'', ''modelBotId'', ''roles'']"

definition jwt_issuer :: "jwt_env \<Rightarrow> string option" where
  "jwt_issuer e = (if strip (issuer_env e) = [] then None else Some (strip (issuer_env e)))"

definition verify_token :: "jwt_env \<Rightarrow> string \<Rightarrow> json \<Rightarrow> jwt_exc + dict" where
  "verify_token e token key =
     (case jwt_decode e token key [''RS256''] (jwt_issuer e) REQUIRED_CLAIMS of
        Inl x \<Rightarrow> Inl x
      | Inr claims \<Rightarrow>
          (if truthy (getv claims ''type'') \<and> getv claims ''type'' \<noteq> JStr ''access'' then Inl JwtInvalid
           else Inr claims))"

definition header_refused :: "jwt_env \<Rightarrow> string \<Rightarrow> jwt_exc option" where
  \<comment> \<open>the checks before a key is needed\<close>
  "header_refused e token =
     (case jwt_header e token of
        Inl (JwtOther x) \<Rightarrow> Some (JwtOther x)
      | Inl JwtKey \<Rightarrow> Some JwtKey
      | Inl _ \<Rightarrow> Some JwtInvalid
      | Inr h \<Rightarrow> if getv h ''alg'' = JStr ''RS256'' then None else Some JwtInvalid)"

definition token_kid :: "jwt_env \<Rightarrow> string \<Rightarrow> json" where
  "token_kid e token = (case jwt_header e token of Inl _ \<Rightarrow> JNull | Inr h \<Rightarrow> getv h ''kid'')"

definition key_for :: "jwt_env \<Rightarrow> json \<Rightarrow> key_cache \<Rightarrow> (jwt_exc + json) \<times> key_cache" where
  \<comment> \<open>the cached key, downloaded again when the token names another one\<close>
  "key_for e kid c =
     (case get_public_key e False c of (pem, c) \<Rightarrow>
       if pem = JNull then (Inl JwtKey, c)
       else if truthy kid \<and> truthy (key_kid c) \<and> kid \<noteq> key_kid c then
         (case get_public_key e True c of (pem, c) \<Rightarrow>
            (if truthy pem then Inr pem else Inl JwtKey, c))
       else (Inr pem, c))"

definition decode_robin_jwt :: "jwt_env \<Rightarrow> string \<Rightarrow> key_cache \<Rightarrow> (jwt_exc + dict) \<times> key_cache" where
  "decode_robin_jwt e raw c =
     (let token = strip raw in
      if token = [] then (Inl JwtInvalid, c)
      else
       (case header_refused e token of
          Some x \<Rightarrow> (Inl x, c)
        | None \<Rightarrow>
           (case key_for e (token_kid e token) c of
              (Inl x, c) \<Rightarrow> (Inl x, c)
            | (Inr pem, c) \<Rightarrow>
                (case verify_token e token pem of
                   Inl JwtSignature \<Rightarrow>
                     (case get_public_key e True c of (pem, c) \<Rightarrow>
                        (if truthy pem then verify_token e token pem else Inl JwtSignature, c))
                 | r \<Rightarrow> (r, c)))))"

definition bearer_token :: "string \<Rightarrow> string" where
  "bearer_token a = (if startswith a ''Bearer '' then strip (drop 7 a) else [])"

definition with_token :: "string \<Rightarrow> dict \<Rightarrow> dict" where
  "with_token token claims = dset ''_access_token'' (JStr token) claims"

definition require_robin_jwt ::
  "jwt_env \<Rightarrow> string option \<Rightarrow> key_cache \<Rightarrow> dict option res \<times> key_cache" where
  "require_robin_jwt e authorization c =
     (let a = (case authorization of None \<Rightarrow> [] | Some s \<Rightarrow> s); token = bearer_token a in
      if \<not> jwt_required_enabled e then
        (if token = [] then (Inr None, c)
         else (case decode_robin_jwt e token c of
                 (Inr claims, c) \<Rightarrow> (Inr (Some (with_token token claims)), c)
               | (Inl _, c) \<Rightarrow> (Inr None, c)))
      else if a = [] \<or> \<not> startswith a ''Bearer '' then (Inl (HTTPException 401), c)
      else (case decode_robin_jwt e token c of
              (Inr claims, c) \<Rightarrow> (Inr (Some (with_token token claims)), c)
            | (Inl (JwtOther x), c) \<Rightarrow> (Inl x, c)
            | (Inl _, c) \<Rightarrow> (Inl (HTTPException 401), c)))"

section \<open>Roles\<close>

definition jwt_roles :: "dict option \<Rightarrow> string list" where
  "jwt_roles user =
     map lower (filter (\<lambda>s. s \<noteq> []) (map (\<lambda>r. strip (py_str r))
       (case user of
          None \<Rightarrow> []
        | Some d \<Rightarrow> (case getv d ''roles'' of JStr s \<Rightarrow> [JStr s] | JList xs \<Rightarrow> xs | _ \<Rightarrow> []))))"

definition roles_from_env :: "string \<Rightarrow> string \<Rightarrow> string list" where
  "roles_from_env val dflt =
     map lower (filter (\<lambda>s. s \<noteq> []) (map strip (split_char (CHR '','') (if val = [] then dflt else val))))"

definition execute_roles :: "jwt_env \<Rightarrow> string list" where
  "execute_roles e = roles_from_env (execute_env e) ''admin,operator,analyst,soc,gestor''"

definition high_risk_roles :: "jwt_env \<Rightarrow> string list" where
  "high_risk_roles e = roles_from_env (high_env e) ''admin,soc,operator''"

definition has_role :: "string list \<Rightarrow> string list \<Rightarrow> bool" where
  \<comment> \<open>\<open>"*" in wanted or roles & wanted\<close>\<close>
  "has_role roles wanted \<longleftrightarrow> ''*'' \<in> set wanted \<or> list_ex (\<lambda>r. r \<in> set wanted) roles"

definition jwt_can_issue_command :: "jwt_env \<Rightarrow> dict option \<Rightarrow> string \<Rightarrow> bool" where
  "jwt_can_issue_command e user cmd =
     (if user = None then True
      else
       let roles = jwt_roles user in
       if \<not> has_role roles (execute_roles e) then False
       else if resolve_command (strip cmd) \<in> set DEFAULT_DISABLED then has_role roles (high_risk_roles e)
       else True)"

definition issued_by_from_jwt :: "dict option \<Rightarrow> string" where
  "issued_by_from_jwt user =
     (case user of
        None \<Rightarrow> ''api:user''
      | Some d \<Rightarrow> if truthy (getv d ''sub'') then ''user:'' @ py_str (getv d ''sub'') else ''api:user'')"

section \<open>What an accepted token has passed\<close>

text \<open>A key that the process got from the authority: cached before, or downloaded meanwhile.\<close>

definition downloaded :: "jwt_env \<Rightarrow> nat \<Rightarrow> nat \<Rightarrow> json \<Rightarrow> bool" where
  "downloaded e lo hi key \<longleftrightarrow>
     (\<exists>n d. lo \<le> n \<and> n < hi \<and> fetch_key e n = Inr (JObj d) \<and> getv d ''public_key'' = key)"

definition served_key :: "jwt_env \<Rightarrow> key_cache \<Rightarrow> key_cache \<Rightarrow> json \<Rightarrow> bool" where
  "served_key e c c' key \<longleftrightarrow> key = key_pem c \<or> downloaded e (downloads c) (downloads c') key"

lemma downloaded_mono: "downloaded e lo hi key \<Longrightarrow> lo' \<le> lo \<Longrightarrow> hi \<le> hi' \<Longrightarrow> downloaded e lo' hi' key"
  unfolding downloaded_def by (elim exE conjE, rule exI, rule exI) (intro conjI; (assumption | linarith))

lemma get_public_key_served:
  assumes "get_public_key e force c = (key, c')"
  shows "served_key e c c' key" "key_pem c' = key" "downloads c \<le> downloads c'" "downloads c' \<le> Suc (downloads c)"
proof -
  show "downloads c \<le> downloads c'" "downloads c' \<le> Suc (downloads c)" "key_pem c' = key"
    using assms by (auto simp: get_public_key_def Let_def split: if_splits sum.splits json.splits)
  show "served_key e c c' key"
    using assms by (auto simp: get_public_key_def Let_def served_key_def downloaded_def split: if_splits sum.splits json.splits)
qed

lemma served_key_trans:
  assumes "served_key e c c1 key1" "key_pem c1 = key1" "served_key e c1 c2 key2"
    and "downloads c \<le> downloads c1" "downloads c1 \<le> downloads c2"
  shows "served_key e c c2 key2"
  using assms downloaded_mono unfolding served_key_def by (metis order_refl)

lemma key_for_served:
  assumes "key_for e kid c = (r, c')"
  shows "downloads c \<le> downloads c'" "downloads c' \<le> downloads c + 2"
    and "r = Inr key \<Longrightarrow> served_key e c c' key \<and> key_pem c' = key"
proof -
  obtain k1 c1 where g1: "get_public_key e False c = (k1, c1)" by fastforce
  obtain k2 c2 where g2: "get_public_key e True c1 = (k2, c2)" by fastforce
  note s1 = get_public_key_served [OF g1] and s2 = get_public_key_served [OF g2]
  show "downloads c \<le> downloads c'" "downloads c' \<le> downloads c + 2"
    using assms s1(3,4) s2(3,4) by (auto simp: key_for_def g1 g2 split: if_splits)
  show "r = Inr key \<Longrightarrow> served_key e c c' key \<and> key_pem c' = key"
    using assms s1 s2(2) served_key_trans [OF s1(1,2) s2(1) s1(3) s2(3)]
    by (auto simp: key_for_def g1 g2 split: if_splits)
qed

definition token_passed :: "jwt_env \<Rightarrow> string \<Rightarrow> json \<Rightarrow> dict \<Rightarrow> bool" where
  "token_passed e token key claims \<longleftrightarrow>
     (\<exists>h. jwt_header e token = Inr h \<and> getv h ''alg'' = JStr ''RS256'') \<and>
     jwt_decode e token key [''RS256''] (jwt_issuer e) REQUIRED_CLAIMS = Inr claims \<and>
     (truthy (getv claims ''type'') \<longrightarrow> getv claims ''type'' = JStr ''access'')"

lemma verify_token_passed:
  "verify_token e token key = Inr claims \<Longrightarrow> header_refused e token = None \<Longrightarrow> token_passed e token key claims"
  by (auto simp: verify_token_def header_refused_def token_passed_def
      split: sum.splits if_splits jwt_exc.splits)

lemma decode_passed:
  assumes "decode_robin_jwt e raw c = (r, c')"
  shows "downloads c' \<le> downloads c + 3"
    and "r = Inr claims \<Longrightarrow> \<exists>key. served_key e c c' key \<and> token_passed e (strip raw) key claims"
proof -
  obtain r1 c1 where k: "key_for e (token_kid e (strip raw)) c = (r1, c1)" by fastforce
  obtain k2 c2 where g: "get_public_key e True c1 = (k2, c2)" by fastforce
  note s1 = key_for_served [OF k] and s2 = get_public_key_served [OF g]
  show "downloads c' \<le> downloads c + 3"
    using assms s1(2) s2(4)
    by (auto simp: decode_robin_jwt_def Let_def k g split: if_splits option.splits sum.splits jwt_exc.splits)
  assume r: "r = Inr claims"
  then obtain pem where pem: "r1 = Inr pem" "header_refused e (strip raw) = None"
    using assms by (auto simp: decode_robin_jwt_def Let_def k split: if_splits option.splits sum.splits)
  note t = s1(3) [OF pem(1)]
  show "\<exists>key. served_key e c c' key \<and> token_passed e (strip raw) key claims"
  proof (cases "verify_token e (strip raw) pem")
    case (Inr cl)
    then have "c' = c1" "cl = claims"
      using assms r pem by (auto simp: decode_robin_jwt_def Let_def k split: if_splits)
    with t Inr pem(2) show ?thesis using verify_token_passed by blast
  next
    case (Inl x)
    then have "c' = c2" "verify_token e (strip raw) k2 = Inr claims"
      using assms r pem by (auto simp: decode_robin_jwt_def Let_def k g split: if_splits jwt_exc.splits)
    moreover have "served_key e c c2 k2"
      using served_key_trans [OF conjunct1 [OF t] conjunct2 [OF t] s2(1) s1(1) s2(3)] .
    ultimately show ?thesis using verify_token_passed [OF _ pem(2)] by blast
  qed
qed

section \<open>Properties\<close>

lemma require_accepts:
  assumes "jwt_required_enabled e" "require_robin_jwt e authorization c = (Inr user, c')"
  shows "\<exists>a key claims. authorization = Some a \<and> startswith a ''Bearer '' \<and> served_key e c c' key \<and>
    token_passed e (bearer_token a) key claims \<and> user = Some (with_token (bearer_token a) claims)"
proof -
  from assms obtain a where a: "authorization = Some a" "startswith a ''Bearer ''"
    by (auto simp: require_robin_jwt_def Let_def split: option.splits if_splits)
  with assms obtain claims where d: "decode_robin_jwt e (bearer_token a) c = (Inr claims, c')"
      "user = Some (with_token (bearer_token a) claims)"
    by (auto simp: require_robin_jwt_def Let_def split: option.splits if_splits sum.splits prod.splits jwt_exc.splits)
  have "strip (bearer_token a) = bearer_token a" by (simp add: bearer_token_def)
  with decode_passed(2) [OF d(1) refl] a d(2) show ?thesis by auto
qed

text \<open>
  When tokens are required, a request gets through only with a Bearer token whose header names
  RS256, whose signature and claims the library verified under a key that the authority served,
  and whose type is access; the request acts under these claims.
\<close>

theorem accepted_request_has_verified_token:
  assumes "jwt_required_enabled e" "require_robin_jwt e authorization c = (Inr user, c')"
  shows "\<exists>a key claims. authorization = Some a \<and> startswith a ''Bearer '' \<and> served_key e c c' key \<and>
    token_passed e (bearer_token a) key claims \<and> user = Some (with_token (bearer_token a) claims)"
  using require_accepts [OF assms] .

text \<open>
  A request causes at most three downloads of the key, whatever the token says.
\<close>

theorem at_most_three_downloads:
  "downloads (snd (require_robin_jwt e authorization c)) \<le> downloads c + 3"
proof -
  have "downloads (snd (decode_robin_jwt e t c)) \<le> downloads c + 3" for t
    using decode_passed(1) [of e t c] by (metis prod.collapse)
  then have "decode_robin_jwt e t c = (r, c') \<Longrightarrow> downloads c' \<le> downloads c + 3" for t r c'
    by (metis snd_conv)
  then show ?thesis
    by (auto simp: require_robin_jwt_def Let_def split: option.split sum.split prod.split jwt_exc.split)
qed

text \<open>
  The role check: with a token, every command needs one of the execute roles, and a disabled
  one (high or critical risk) also one of the high-risk roles, under any alias of its name and
  any white space around it.
\<close>

lemma role_check:
  "jwt_can_issue_command e (Some claims) cmd \<longleftrightarrow>
     has_role (jwt_roles (Some claims)) (execute_roles e) \<and>
     (resolve_command (strip cmd) \<in> set DEFAULT_DISABLED \<longrightarrow> has_role (jwt_roles (Some claims)) (high_risk_roles e))"
  by (simp add: jwt_can_issue_command_def Let_def)

section \<open>Example\<close>

definition sample_jwt_env :: jwt_env where
  "sample_jwt_env = \<lparr>jwt_now = 0,
     fetch_key = (\<lambda>n. Inr (JObj [(''public_key'', JStr ''K''), (''kid'', JStr ''1'')])),
     jwt_header = (\<lambda>t. Inr [(''alg'', JStr ''RS256'')]),
     jwt_decode = (\<lambda>t k al i rq. if k = JStr ''K'' \<and> t = ''tok''
        then Inr [(''sub'', JStr ''u1''), (''roles'', JList [JStr ''Analyst''])] else Inl JwtSignature),
     required_env = ''1'', issuer_env = '''', execute_env = '''', high_env = ''''\<rparr>"

definition sample_claims :: dict where
  "sample_claims = [(''sub'', JStr ''u1''), (''roles'', JList [JStr ''Analyst'']), (''_access_token'', JStr ''tok'')]"

lemma sample_require:
  "require_robin_jwt sample_jwt_env (Some ''Bearer tok'') key_cache_init =
     (Inr (Some sample_claims), \<lparr>key_pem = JStr ''K'', key_kid = JStr ''1'', key_at = 0, downloads = 1\<rparr>)"
  by code_simp

theorem accepted_request_has_verified_token_witness:
  "\<exists>a key claims. Some ''Bearer tok'' = Some a \<and> startswith a ''Bearer '' \<and>
    served_key sample_jwt_env key_cache_init \<lparr>key_pem = JStr ''K'', key_kid = JStr ''1'', key_at = 0, downloads = 1\<rparr> key \<and>
    token_passed sample_jwt_env (bearer_token a) key claims \<and>
    Some sample_claims = Some (with_token (bearer_token a) claims)"
  by (rule accepted_request_has_verified_token [OF _ sample_require])
    (simp add: jwt_required_enabled_def sample_jwt_env_def)

end
