(* ===== verification/Owner_Store.thy ===== *)
theory Owner_Store
  imports Py_Text
begin

text \<open>
  Who owns an agent: the identity of a caller from its token, from \<open>/auth/me\<close> or from the
  log service (\<^verbatim>\<open>server/lib/ruvic_user.py\<close>), and the inventory of users and agents
  (\<^verbatim>\<open>server/lib/agent_store.py\<close>). The HTTP requests, the hash of a token and the
  success of a database transaction are arguments; a table is a list of rows in the order of
  insertion, and text in it compares exactly.
\<close>

section \<open>Identity from payloads\<close>

text \<open>User id and client id; the empty text stands for a missing one.\<close>

type_synonym owner = "string \<times> string"

abbreviation no_owner :: owner where "no_owner \<equiv> ([], [])"

fun pick_path :: "json \<Rightarrow> string list \<Rightarrow> json" where
  "pick_path cur [] = cur"
| "pick_path (JObj d) (p # ps) = pick_path (getv d p) ps"
| "pick_path _ (p # ps) = JNull"

definition pick_value :: "dict \<Rightarrow> string \<Rightarrow> json" where
  "pick_value d key =
     (if CHR ''.'' \<in> set key then pick_path (JObj d) (split_char (CHR ''.'') key) else getv d key)"

fun pick :: "dict \<Rightarrow> string list \<Rightarrow> string" where
  "pick d [] = []"
| "pick d (k # ks) =
     (if pick_value d k \<noteq> JNull \<and> strip (py_str (pick_value d k)) \<noteq> [] then strip (py_str (pick_value d k))
      else pick d ks)"

definition text_or_else :: "string \<Rightarrow> string \<Rightarrow> string" where
  \<comment> \<open>\<open>a or b\<close> on texts\<close>
  "text_or_else a b = (if a \<noteq> [] then a else b)"

definition has_id :: "dict \<Rightarrow> bool" where
  "has_id d \<longleftrightarrow> truthy (getv d ''id'') \<or> truthy (getv d ''userId'') \<or> truthy (getv d ''clientId'')"

fun unwrap_in :: "dict \<Rightarrow> string list \<Rightarrow> dict" where
  "unwrap_in d [] = d"
| "unwrap_in d (k # ks) = (if is_obj (getv d k) \<and> has_id (obj_of (getv d k)) then obj_of (getv d k) else unwrap_in d ks)"

definition unwrap :: "json \<Rightarrow> dict" where
  "unwrap payload = (case payload of JObj d \<Rightarrow> unwrap_in d [''data'', ''user'', ''result''] | _ \<Rightarrow> [])"

definition ids_from_payload :: "json \<Rightarrow> dict \<Rightarrow> owner" where
  "ids_from_payload payload jwt_claims =
     (let b = unwrap (py_or payload (JObj []));
          claims = filter (\<lambda>p. fst p \<noteq> ''_access_token'') jwt_claims in
      (text_or_else
         (pick b [''userId'', ''user_id'', ''idUsuario'', ''id_usuario'', ''uid'', ''_id'', ''id'', ''sub''])
         (pick claims [''sub'', ''userId'', ''user_id'', ''id'']),
       text_or_else
         (pick b [''clientId'', ''client_id'', ''idCliente'', ''id_cliente'', ''cliente.id'', ''client.id'',
                  ''accountId'', ''account_id'', ''modelBotId'', ''model_bot_id''])
         (pick claims [''modelBotId'', ''clientId'', ''client_id'', ''accountId''])))"

definition profile_from_payload :: "json \<Rightarrow> dict \<Rightarrow> owner" where
  "profile_from_payload payload jwt_claims = ids_from_payload payload jwt_claims"

definition log_data :: "dict \<Rightarrow> dict" where
  "log_data l = obj_of (getv (obj_of (getv l ''metadata'')) ''data'')"

definition profile_from_log :: "json \<Rightarrow> owner" where
  "profile_from_log v =
     (case v of
        JObj l \<Rightarrow>
         (let data = log_data l;
              uid = text_or_else (pick l [''userId'', ''user_id'']) (pick data [''userId'', ''user_id'']);
              cid = text_or_else (pick l [''clientId'', ''client_id''])
                      (text_or_else (pick data [''clientId'', ''client_id'']) (pick l [''agentId'']));
              issued = strip (str_or (getv data ''issued_by'') []) in
          (if uid = [] \<and> startswith issued ''user:'' then strip (drop 5 issued) else uid, cid))
      | _ \<Rightarrow> no_owner)"

definition log_agent_id :: "dict \<Rightarrow> string" where
  "log_agent_id l = strip (str_or (getv (log_data l) ''agent_id'') [])"

section \<open>Requests and their cache\<close>

type_synonym id_cache = "(string \<times> rat \<times> owner) list"

record owner_env =
  own_now :: rat
  auth_me :: "string \<Rightarrow> (int \<times> json res) res"
    \<comment> \<open>status and body of \<open>/auth/me\<close> for a token; an exception of the request\<close>
  logs_of :: "dict \<Rightarrow> json res"
  token_hash :: "string \<Rightarrow> string"
  db_on :: bool
  db_ok :: bool
  db_now :: string
  unscoped_env :: string

definition cached :: "owner_env \<Rightarrow> string \<Rightarrow> id_cache \<Rightarrow> owner option" where
  "cached e k c = (case map_of c k of
      None \<Rightarrow> None
    | Some (t, ids) \<Rightarrow> if own_now e - t < 300 then Some ids else None)"

fun fetch_rows :: "(dict \<Rightarrow> json res) \<Rightarrow> dict list \<Rightarrow> (bool \<times> json list) res" where
  \<comment> \<open>whether some answer held a list, and the first nonempty one\<close>
  "fetch_rows f [] = Inr (False, [])"
| "fetch_rows f (q # qs) =
     res_bind (f q) (\<lambda>reply.
       case getv (obj_of reply) ''data'' of
         JList xs \<Rightarrow> if xs \<noteq> [] then Inr (True, xs) else res_bind (fetch_rows f qs) (\<lambda>r. Inr (True, snd r))
       | _ \<Rightarrow> fetch_rows f qs)"

definition log_queries :: "string \<Rightarrow> dict list" where
  "log_queries aid =
     (if aid = [] then []
      else [[(''type'', JStr ''activity''), (''category'', JStr ''system''),
             (''subcategory'', JStr ''agent_connected''), (''page'', JInt 1), (''limit'', JInt 50)]])
     @ [[(''page'', JInt 1), (''limit'', JInt 50)]]"

definition chosen_log :: "string \<Rightarrow> json list \<Rightarrow> json" where
  "chosen_log aid rows =
     (case find (\<lambda>l. is_obj l \<and>
              (if aid \<noteq> [] then log_agent_id (obj_of l) = aid
               else truthy (getv (obj_of l) ''userId'') \<or> truthy (getv (obj_of l) ''user_id'')
                    \<or> truthy (getv (obj_of l) ''_id''))) rows of
        None \<Rightarrow> JNull | Some l \<Rightarrow> l)"

definition logs_key :: "string \<Rightarrow> string" where
  "logs_key aid = ''logs:'' @ text_or_else aid ''_''"

definition fetch_owner_from_logs :: "owner_env \<Rightarrow> string \<Rightarrow> id_cache \<Rightarrow> owner \<times> id_cache" where
  "fetch_owner_from_logs e agent c =
     (let aid = strip agent in
      case cached e (logs_key aid) c of
        Some ids \<Rightarrow> (ids, c)
      | None \<Rightarrow>
         (case fetch_rows (logs_of e) (log_queries aid) of
            Inr (True, rows) \<Rightarrow>
              (let p = profile_from_log (chosen_log aid rows) in
               (p, if p \<noteq> no_owner then dset (logs_key aid) (own_now e, p) c else c))
          | _ \<Rightarrow> (no_owner, c)))"

text \<open>
  \<open>fetch_ruvic_user\<close> returns a copy of a cached entry, but on a miss the very dictionary it
  has put into the cache; the last component tells whether the result is that shared one.
\<close>

definition fetch_ruvic_user :: "owner_env \<Rightarrow> string \<Rightarrow> dict \<Rightarrow> id_cache \<Rightarrow> owner \<times> id_cache \<times> bool" where
  "fetch_ruvic_user e access_token claims c =
     (let fallback = profile_from_payload JNull claims; token = strip access_token; k = token_hash e token in
      if token = [] then (fallback, c, False)
      else
       (case cached e k c of
          Some ids \<Rightarrow> (ids, c, False)
        | None \<Rightarrow>
           (case auth_me e token of
              Inl x \<Rightarrow> (fallback, c, False)
            | Inr (code, reply) \<Rightarrow>
               (if code \<ge> 400 then (fallback, dset k (own_now e, fallback) c, True)
                else
                 (case reply of
                    Inl x \<Rightarrow> (fallback, c, False)
                  | Inr v \<Rightarrow>
                     (let p = profile_from_payload v claims; ids = (if p = no_owner then fallback else p) in
                      (ids, dset k (own_now e, ids) c, True)))))))"

definition token_of :: "dict \<Rightarrow> string" where
  \<comment> \<open>\<open>user.get("_access_token")\<close> when it is a text\<close>
  "token_of user = (case getv user ''_access_token'' of JStr s \<Rightarrow> s | _ \<Rightarrow> [])"

definition sub_of :: "dict \<Rightarrow> string" where
  "sub_of user = strip (str_or (getv user ''sub'') [])"

definition owner_ids_from_jwt :: "owner_env \<Rightarrow> dict option \<Rightarrow> id_cache \<Rightarrow> owner \<times> id_cache" where
  \<comment> \<open>\<open>ids["user_id"] = sub\<close> writes through to the cache when the dictionary is shared\<close>
  "owner_ids_from_jwt e user c =
     (case user of
        None \<Rightarrow> (no_owner, c)
      | Some d \<Rightarrow>
         (if d = [] then (no_owner, c)
          else
           (case fetch_ruvic_user e (token_of d) d c of (ids, c, shared) \<Rightarrow>
              if sub_of d = [] then (ids, c)
              else
               (let ids' = (sub_of d, snd ids); k = token_hash e (strip (token_of d)) in
                (ids', if shared then dset k (own_now e, ids') c else c)))))"

definition user_id_candidates :: "owner_env \<Rightarrow> dict option \<Rightarrow> owner \<Rightarrow> id_cache \<Rightarrow> string list \<times> id_cache" where
  "user_id_candidates e user ids c =
     (case user of
        None \<Rightarrow> (if strip (fst ids) = [] then [] else [strip (fst ids)], c)
      | Some d \<Rightarrow>
         (let sub = text_or_else (sub_of d) (strip (fst ids));
              out = (if sub = [] then [] else [sub]) in
          if strip (token_of d) = [] then (out, c)
          else
           (case fetch_ruvic_user e (strip (token_of d)) d c of (ids', c, shared) \<Rightarrow>
              (let alt = strip (fst ids') in
               (if alt \<noteq> [] \<and> alt \<notin> set out then out @ [alt] else out, c)))))"

definition clear_owner_logs_cache :: "string \<Rightarrow> id_cache \<Rightarrow> id_cache" where
  "clear_owner_logs_cache agent c =
     (if agent \<noteq> [] then dpop (''logs:'' @ text_or_else (strip agent) ''_'') c
      else filter (\<lambda>p. \<not> startswith (fst p) ''logs:'') c)"

section \<open>The inventory\<close>

record inventory =
  inv_users :: "(string \<times> dict) list"
  inv_agents :: "(string \<times> dict) list"

definition STR_KEYS :: "string list" where
  "STR_KEYS = [''user_id'', ''client_id'', ''client_name'', ''tenant_id'', ''remote_ip'', ''hostname'', ''os_name'',
     ''os_version'', ''arch'', ''cpu_model'', ''firmware_vendor'', ''firmware_product'', ''firmware_serial'',
     ''firmware_uuid'', ''agent_version'', ''inventory_captured_at'']"

definition NUM_KEYS :: "string list" where
  "NUM_KEYS = [''cpu_logical_cores'', ''cpu_physical_cores'', ''cpu_freq_mhz'', ''ram_total_gb'', ''disk_total_gb'']"

definition keep_str :: "json \<Rightarrow> json \<Rightarrow> json res" where
  "keep_str new old =
     res_bind (if new = JNull then Inr [] else str_strip (py_or new (JStr [])))
       (\<lambda>v. Inr (JStr (if v \<noteq> [] then v else str_or old [])))"

definition keep_num :: "json \<Rightarrow> json \<Rightarrow> json" where
  "keep_num new old = (if new = JNull \<or> new = JStr [] \<or> is_bool new then old else new)"

fun merge_str :: "dict \<Rightarrow> string list \<Rightarrow> dict \<Rightarrow> dict res" where
  "merge_str flds [] row = Inr row"
| "merge_str flds (k # ks) row =
     res_bind (keep_str (getv flds k) (getv row k)) (\<lambda>v. merge_str flds ks (dset k v row))"

definition merge_num :: "dict \<Rightarrow> dict \<Rightarrow> dict" where
  "merge_num flds row = fold (\<lambda>k r. dset k (keep_num (getv flds k) (getv r k)) r) NUM_KEYS row"

definition new_agent_row :: "owner_env \<Rightarrow> string \<Rightarrow> dict \<Rightarrow> dict" where
  "new_agent_row e aid flds =
     [(''agent_id'', JStr aid)]
     @ map (\<lambda>k. (k, JStr (if getv flds k \<noteq> JNull then strip (py_str (getv flds k)) else []))) STR_KEYS
     @ map (\<lambda>k. (k, getv flds k)) NUM_KEYS
     @ [(''first_seen'', JStr (db_now e)), (''last_seen'', JStr (db_now e))]"

definition upsert_agent :: "owner_env \<Rightarrow> string \<Rightarrow> dict \<Rightarrow> inventory \<Rightarrow> dict res \<times> inventory" where
  "upsert_agent e agent flds st =
     (let aid = strip agent in
      if aid = [] then (Inl ValueError, st)
      else if \<not> db_on e then (Inr (new_agent_row e aid flds), st)
      else if \<not> db_ok e then (Inl RuntimeError, st)
      else
       (case map_of (inv_agents st) aid of
          None \<Rightarrow> (Inr (new_agent_row e aid flds), st\<lparr>inv_agents := inv_agents st @ [(aid, new_agent_row e aid flds)]\<rparr>)
        | Some row \<Rightarrow>
           (case merge_str flds STR_KEYS row of
              Inl x \<Rightarrow> (Inl x, st)
            | Inr r \<Rightarrow>
               (let r = dset ''last_seen'' (JStr (db_now e)) (merge_num flds r) in
                (Inr r, st\<lparr>inv_agents := dset aid r (inv_agents st)\<rparr>)))))"

definition upsert_user :: "owner_env \<Rightarrow> string \<Rightarrow> json \<Rightarrow> inventory \<Rightarrow> unit res \<times> inventory" where
  "upsert_user e user cid st =
     (let uid = strip user in
      if uid = [] then (Inl ValueError, st)
      else if \<not> db_on e then (Inr (), st)
      else if \<not> db_ok e then (Inl RuntimeError, st)
      else
       (case map_of (inv_users st) uid of
          None \<Rightarrow>
           (case str_strip (py_or cid (JStr [])) of
              Inl x \<Rightarrow> (Inl x, st)
            | Inr c \<Rightarrow> (Inr (), st\<lparr>inv_users := inv_users st @
                [(uid, [(''user_id'', JStr uid), (''client_id'', JStr c), (''first_seen'', JStr (db_now e)),
                        (''last_seen'', JStr (db_now e))])]\<rparr>))
        | Some row \<Rightarrow>
           (case keep_str cid (getv row ''client_id'') of
              Inl x \<Rightarrow> (Inl x, st)
            | Inr v \<Rightarrow> (Inr (), st\<lparr>inv_users :=
                dset uid (dset ''last_seen'' (JStr (db_now e)) (dset ''client_id'' v row)) (inv_users st)\<rparr>))))"

definition get_agent :: "owner_env \<Rightarrow> string \<Rightarrow> inventory \<Rightarrow> dict option res" where
  "get_agent e agent st =
     (if strip agent = [] \<or> \<not> db_on e then Inr None
      else if \<not> db_ok e then Inl RuntimeError
      else Inr (map_of (inv_agents st) (strip agent)))"

definition list_stored_agents :: "owner_env \<Rightarrow> string \<Rightarrow> string \<Rightarrow> inventory \<Rightarrow> dict list res" where
  \<comment> \<open>\<open>list_agents\<close>: the empty text is no filter; the latest \<open>last_seen\<close> first\<close>
  "list_stored_agents e uid cid st =
     (if \<not> db_on e then Inr []
      else if \<not> db_ok e then Inl RuntimeError
      else Inr (rev (sort_key (\<lambda>r. py_str (getv r ''last_seen''))
        (filter (\<lambda>r. (uid = [] \<or> getv r ''user_id'' = JStr (strip uid)) \<and>
                     (cid = [] \<or> getv r ''client_id'' = JStr (strip cid))) (map snd (inv_agents st))))))"

definition owner_ids_from_user ::
  "owner_env \<Rightarrow> dict option \<Rightarrow> string \<Rightarrow> inventory \<Rightarrow> id_cache \<Rightarrow> owner \<times> id_cache" where
  \<comment> \<open>an empty agent id stands for a missing one\<close>
  "owner_ids_from_user e user agent st c =
     (if user \<noteq> None \<and> sub_of (the user) \<noteq> [] then owner_ids_from_jwt e user c
      else if strip agent = [] then (no_owner, c)
      else
       (let row = (case get_agent e (strip agent) st of Inr (Some r) \<Rightarrow> r | _ \<Rightarrow> []);
            uid = strip (str_or (getv row ''user_id'') []) in
        if uid \<noteq> [] then ((uid, strip (str_or (getv row ''client_id'') [])), c)
        else fetch_owner_from_logs e (strip agent) c))"

section \<open>What the inventory keeps\<close>

lemma keep_str_old: "new = JNull \<or> new = JStr s \<and> strip s = [] \<Longrightarrow> keep_str new (JStr old) = Inr (JStr old)"
  by (auto simp: keep_str_def str_strip_def py_or_def)

lemma keep_str_new: "strip s \<noteq> [] \<Longrightarrow> keep_str (JStr s) old = Inr (JStr (strip s))"
  by (cases "s = []") (auto simp: keep_str_def str_strip_def py_or_def)

lemma merge_str_other: "merge_str flds ks row = Inr r \<Longrightarrow> k \<notin> set ks \<Longrightarrow> getv r k = getv row k"
  by (induction ks arbitrary: row) (auto simp: res_bind_eq_Inr)

lemma merge_str_at:
  "merge_str flds ks row = Inr r \<Longrightarrow> distinct ks \<Longrightarrow> k \<in> set ks \<Longrightarrow>
     keep_str (getv flds k) (getv row k) = Inr (getv r k)"
proof (induction ks arbitrary: row)
  case (Cons a ks)
  then obtain v where v: "keep_str (getv flds a) (getv row a) = Inr v" "merge_str flds ks (dset a v row) = Inr r"
    by (auto simp: res_bind_eq_Inr)
  show ?case
  proof (cases "k = a")
    case True
    with v Cons.prems(2) merge_str_other [OF v(2), of a] show ?thesis by simp
  next
    case False
    with Cons.IH [OF v(2)] Cons.prems show ?thesis by simp
  qed
qed simp

lemma fold_dset_other: "k \<notin> set ks \<Longrightarrow> getv (fold (\<lambda>k r. dset k (g k r) r) ks row) k = getv row k"
  by (induction ks arbitrary: row) simp_all

lemma merge_num_other: "k \<notin> set NUM_KEYS \<Longrightarrow> getv (merge_num flds row) k = getv row k"
  unfolding merge_num_def by (rule fold_dset_other)

definition texts_only :: "dict \<Rightarrow> bool" where
  \<comment> \<open>the fields the server passes: texts, or nothing\<close>
  "texts_only flds \<longleftrightarrow> list_all (\<lambda>p. snd p = JNull \<or> is_str (snd p)) flds"

lemma texts_only_getv:
  assumes "texts_only flds"
  shows "getv flds k = JNull \<or> (\<exists>s. getv flds k = JStr s)"
proof (cases "map_of flds k")
  case (Some v)
  then have "v = JNull \<or> is_str v" using assms map_of_SomeD [OF Some] by (force simp: texts_only_def list_all_iff)
  with Some show ?thesis by (cases v) (simp_all add: getv_def)
qed (simp add: getv_def)

lemma merge_str_total:
  assumes "texts_only flds"
  shows "\<exists>r. merge_str flds ks row = Inr r"
proof (induction ks arbitrary: row)
  case (Cons k ks)
  obtain v where "keep_str (getv flds k) (getv row k) = Inr v"
    using texts_only_getv [OF assms, of k] by (cases "getv flds k = JStr []") (auto simp: keep_str_def str_strip_def py_or_def)
  with Cons show ?case by simp
qed simp

lemma STR_KEYS_distinct: "distinct STR_KEYS"
  by code_simp

text \<open>The text fields of the stored row after an update with texts.\<close>

lemma upsert_agent_row:
  assumes "db_on e" "db_ok e" "strip agent \<noteq> []" "map_of (inv_agents st) (strip agent) = Some row"
    and "texts_only flds"
  shows "\<exists>r. map_of (inv_agents (snd (upsert_agent e agent flds st))) (strip agent) = Some r \<and>
    (\<forall>k \<in> set STR_KEYS. keep_str (getv flds k) (getv row k) = Inr (getv r k))"
proof -
  obtain r where r: "merge_str flds STR_KEYS row = Inr r" using merge_str_total [OF assms(5)] by blast
  have "k \<in> set STR_KEYS \<Longrightarrow> k \<noteq> ''last_seen'' \<and> k \<notin> set NUM_KEYS" for k
    by (auto simp: STR_KEYS_def NUM_KEYS_def)
  with merge_str_at [OF r STR_KEYS_distinct] assms(1-4) r show ?thesis
    by (auto simp: upsert_agent_def Let_def merge_num_other)
qed

text \<open>
  An update never loses what the inventory knows: a text field of the row of an agent changes
  only to a new text that is not blank.
\<close>

theorem blank_fields_keep_stored:
  assumes "db_on e" "db_ok e" "strip agent \<noteq> []" "map_of (inv_agents st) (strip agent) = Some row"
    and "texts_only flds" "k \<in> set STR_KEYS" "getv row k = JStr old"
    and "getv flds k = JNull \<or> getv flds k = JStr s \<and> strip s = []"
  shows "\<exists>r. map_of (inv_agents (snd (upsert_agent e agent flds st))) (strip agent) = Some r \<and> getv r k = JStr old"
proof -
  obtain r where r: "map_of (inv_agents (snd (upsert_agent e agent flds st))) (strip agent) = Some r"
    "\<forall>k \<in> set STR_KEYS. keep_str (getv flds k) (getv row k) = Inr (getv r k)"
    using upsert_agent_row [OF assms(1-5)] by blast
  with assms(6-8) keep_str_old [of "getv flds k" s old] show ?thesis by auto
qed

section \<open>The second identity is never used\<close>

lemma cached_dset [simp]: "cached e k (dset k (t, ids) c) = (if own_now e - t < 300 then Some ids else None)"
  by (simp add: cached_def)

text \<open>
  The endpoints ask for the owner first and then for the candidates. When no answer of
  \<open>/auth/me\<close> is cached, the first call overwrites the user id of the answer it has just
  cached, so the second call never sees it: the only candidate is the subject of the token,
  although the listing is meant to search the user id of \<open>/auth/me\<close> too.
\<close>

theorem auth_me_id_is_overwritten:
  assumes "d \<noteq> []" "sub_of d \<noteq> []" "strip (token_of d) \<noteq> []"
    and "cached e (token_hash e (strip (token_of d))) c = None"
    and "auth_me e (strip (token_of d)) = Inr (200, Inr reply)"
    and "owner_ids_from_jwt e (Some d) c = (ids, c')"
  shows "fst (user_id_candidates e (Some d) ids c') = [sub_of d]"
proof -
  let ?k = "token_hash e (strip (token_of d))"
  let ?p = "profile_from_payload reply d"
  define q where "q = (if ?p = no_owner then profile_from_payload JNull d else ?p)"
  have "fetch_ruvic_user e (token_of d) d c = (q, dset ?k (own_now e, q) c, True)"
    using assms(3-5) by (simp add: fetch_ruvic_user_def Let_def q_def)
  then have "c' = dset ?k (own_now e, (sub_of d, snd q)) (dset ?k (own_now e, q) c)"
    using assms(1,2,6) by (auto simp: owner_ids_from_jwt_def Let_def)
  then have "cached e ?k c' = Some (sub_of d, snd q)"
    by (simp only: cached_dset) simp
  then have "fetch_ruvic_user e (strip (token_of d)) d c' = ((sub_of d, snd q), c', False)"
    using assms(3) by (simp add: fetch_ruvic_user_def Let_def)
  moreover have "strip (sub_of d) = sub_of d" by (simp add: sub_of_def)
  ultimately show ?thesis
    using assms(2,3) by (simp add: user_id_candidates_def Let_def text_or_else_def)
qed

section \<open>Example\<close>

definition sample_owner_env :: owner_env where
  "sample_owner_env = \<lparr>own_now = 0, auth_me = (\<lambda>t. Inr (200, Inr (JObj [(''id'', JStr ''77'')]))),
     logs_of = (\<lambda>q. Inl OSError), token_hash = (\<lambda>t. t), db_on = True, db_ok = True, db_now = ''now'',
     unscoped_env = []\<rparr>"

definition sample_user :: dict where
  "sample_user = [(''sub'', JStr ''u1''), (''_access_token'', JStr ''tok'')]"

definition sample_inventory :: inventory where
  "sample_inventory = \<lparr>inv_users = [],
     inv_agents = [(''a1'', [(''agent_id'', JStr ''a1''), (''user_id'', JStr ''u2''), (''client_id'', JStr [])])]\<rparr>"

lemma sample_user_simps [simp]:
  "sub_of sample_user = ''u1''" "token_of sample_user = ''tok''" "strip ''tok'' = ''tok''" "strip ''u1'' = ''u1''"
  "strip ''a1'' = ''a1''"
  by code_simp+

theorem auth_me_id_is_overwritten_witness:
  "fst (user_id_candidates sample_owner_env (Some sample_user)
     (fst (owner_ids_from_jwt sample_owner_env (Some sample_user) []))
     (snd (owner_ids_from_jwt sample_owner_env (Some sample_user) []))) = [sub_of sample_user]"
proof (rule auth_me_id_is_overwritten [OF _ _ _ _ _ prod.collapse [symmetric]])
  show "auth_me sample_owner_env (strip (token_of sample_user)) = Inr (200, Inr (JObj [(''id'', JStr ''77'')]))"
    by (simp add: sample_owner_env_def)
  show "cached sample_owner_env (token_hash sample_owner_env (strip (token_of sample_user))) [] = None"
    by (simp add: cached_def)
  show "sample_user \<noteq> []" by (simp add: sample_user_def)
qed simp_all

theorem blank_fields_keep_stored_witness:
  "\<exists>r. map_of (inv_agents (snd (upsert_agent sample_owner_env ''a1'' [(''hostname'', JStr ''h'')] sample_inventory))) (strip ''a1'')
      = Some r \<and> getv r ''user_id'' = JStr ''u2''"
proof (rule blank_fields_keep_stored [where k = "''user_id''" and old = "''u2''"])
  show "map_of (inv_agents sample_inventory) (strip ''a1'') =
      Some [(''agent_id'', JStr ''a1''), (''user_id'', JStr ''u2''), (''client_id'', JStr [])]"
    by (simp add: sample_inventory_def)
qed (simp_all add: sample_owner_env_def STR_KEYS_def texts_only_def)

end
