(* ===== verification/Rest_Api.thy ===== *)
theory Rest_Api
  imports Connection_Manager Jwt_Auth Owner_Store
begin

text \<open>
  The REST endpoints for agents and commands, \<^verbatim>\<open>server/controllers.py\<close>: the list
  and the record of agents for their owner, the execution of a tool, and the state of a
  command. A request starts with \<open>require_robin_jwt\<close>. The coroutine of the execution is
  cut where it waits for the agent: \<open>execute_begin\<close> runs up to the sending,
  \<open>execute_reply\<close> makes the answer from what \<open>send_command_to_agent\<close> gives.
\<close>

section \<open>State\<close>

record rest_state =
  rs_mgr :: conn_manager
  rs_keys :: key_cache
  rs_cache :: id_cache
  rs_inv :: inventory

record rest_env =
  re_jwt :: jwt_env
  re_srv :: server_env
  re_own :: owner_env

definition opt_text :: "string \<Rightarrow> json" where
  \<comment> \<open>\<open>s or None\<close>\<close>
  "opt_text s = (if s = [] then JNull else JStr s)"

section \<open>Ownership\<close>

definition bind_ruvic_owner :: "rest_env \<Rightarrow> string \<Rightarrow> dict option \<Rightarrow> dict \<Rightarrow> rest_state \<Rightarrow> rest_state" where
  \<comment> \<open>an exception is only logged; what was stored before it stays\<close>
  "bind_ruvic_owner e agent user more_fields st =
     (let (ids, c) = owner_ids_from_user (re_own e) user agent (rs_inv st) (rs_cache st);
          uid = strip (fst ids);
          (r, inv1) = (if uid \<noteq> [] then upsert_user (re_own e) uid (opt_text (snd ids)) (rs_inv st)
                       else (Inr (), rs_inv st)) in
      st\<lparr>rs_cache := c,
         rs_inv := (case r of
             Inl x \<Rightarrow> inv1
           | Inr _ \<Rightarrow> snd (upsert_agent (re_own e) agent
               ([(''user_id'', opt_text uid), (''client_id'', opt_text (snd ids))] @ more_fields) inv1))\<rparr>)"

definition agents_list_unscoped :: "owner_env \<Rightarrow> bool" where
  "agents_list_unscoped e \<longleftrightarrow> lower (strip (unscoped_env e)) \<in> set [''1'', ''true'', ''yes'', ''on'']"

definition enforce_query_user_id :: "string \<Rightarrow> dict option \<Rightarrow> unit res" where
  "enforce_query_user_id query_user user =
     (if strip query_user = [] then Inr ()
      else (case user of
          None \<Rightarrow> Inl (HTTPException 401)
        | Some d \<Rightarrow> if sub_of d = [] \<or> strip query_user \<noteq> sub_of d then Inl (HTTPException 403) else Inr ()))"

definition list_has_owner_scope :: "owner_env \<Rightarrow> owner \<Rightarrow> dict option \<Rightarrow> id_cache \<Rightarrow> bool \<times> id_cache" where
  "list_has_owner_scope e ids user c =
     (case user_id_candidates e user ids c of (cands, c) \<Rightarrow> (cands \<noteq> [] \<or> strip (snd ids) \<noteq> [], c))"

definition row_text :: "dict \<Rightarrow> string \<Rightarrow> string" where
  \<comment> \<open>\<open>str(row.get(k) or "").strip()\<close>\<close>
  "row_text r k = strip (str_or (getv r k) [])"

definition owned_by :: "string list \<Rightarrow> string \<Rightarrow> dict \<Rightarrow> bool" where
  "owned_by cands client r \<longleftrightarrow>
     row_text r ''user_id'' \<noteq> [] \<and> row_text r ''user_id'' \<in> set cands \<or>
     client \<noteq> [] \<and> row_text r ''client_id'' = client"

definition agent_owned_by :: "owner_env \<Rightarrow> dict \<Rightarrow> owner \<Rightarrow> dict option \<Rightarrow> id_cache \<Rightarrow> bool \<times> id_cache" where
  "agent_owned_by e r ids user c =
     (if r = [] then (False, c)
      else (case user_id_candidates e user ids c of (cands, c) \<Rightarrow>
        (if cands = [] \<and> strip (snd ids) = [] then agents_list_unscoped e
         else owned_by cands (strip (snd ids)) r, c)))"

definition add_rows :: "dict list \<Rightarrow> dict list \<Rightarrow> dict list" where
  \<comment> \<open>rows of agents not in the list yet\<close>
  "add_rows rows out = fold (\<lambda>r out.
     if truthy (getv r ''agent_id'') \<and> getv r ''agent_id'' \<notin> (\<lambda>x. getv x ''agent_id'') ` set out then out @ [r] else out) rows out"

fun rows_of_users :: "owner_env \<Rightarrow> string list \<Rightarrow> inventory \<Rightarrow> dict list \<Rightarrow> dict list res" where
  "rows_of_users e [] iv out = Inr out"
| "rows_of_users e (u # us) iv out =
     res_bind (list_stored_agents e u [] iv) (\<lambda>rows. rows_of_users e us iv (add_rows rows out))"

definition stored_agents_for_owner ::
  "owner_env \<Rightarrow> owner \<Rightarrow> dict option \<Rightarrow> inventory \<Rightarrow> id_cache \<Rightarrow> dict list res \<times> id_cache" where
  "stored_agents_for_owner e ids user iv c =
     (case user_id_candidates e user ids c of (cands, c) \<Rightarrow>
       (let client = strip (snd ids) in
        (res_bind (rows_of_users e cands iv []) (\<lambda>out.
         res_bind (if client = [] then Inr out
                   else res_bind (list_stored_agents e [] client iv) (\<lambda>rows. Inr (add_rows rows out))) (\<lambda>out.
         if cands = [] \<and> client = [] \<and> agents_list_unscoped e
         then res_bind (list_stored_agents e [] [] iv) (\<lambda>rows. Inr (add_rows rows out))
         else Inr out)), c)))"

section \<open>Answers\<close>

definition first_of :: "dict \<Rightarrow> dict \<Rightarrow> string \<Rightarrow> json" where
  \<comment> \<open>\<open>stored.get(k) or live.get(k) or ""\<close>\<close>
  "first_of stored live k = py_or (py_or (getv stored k) (getv live k)) (JStr [])"

definition agent_payload :: "dict \<Rightarrow> dict \<Rightarrow> bool \<Rightarrow> dict" where
  "agent_payload stored live online =
     (let or_empty = (\<lambda>k. py_or (getv stored k) (JStr [])) in
      [(''agent_id'', py_or (getv stored ''agent_id'') (getv live ''agent_id'')),
       (''client_name'', first_of stored live ''client_name''),
       (''remote_ip'', first_of stored live ''remote_ip''),
       (''connected_at'', py_or (py_or (getv live ''connected_at'') (getv stored ''last_seen'')) (JStr [])),
       (''public_key_preview'', getv live ''public_key_preview''),
       (''tenant_id'', first_of stored live ''tenant_id''),
       (''user_id'', or_empty ''user_id''), (''client_id'', or_empty ''client_id''),
       (''hostname'', or_empty ''hostname''), (''os_name'', or_empty ''os_name''),
       (''os_version'', or_empty ''os_version''), (''arch'', or_empty ''arch''), (''cpu_model'', or_empty ''cpu_model''),
       (''cpu_logical_cores'', getv stored ''cpu_logical_cores''),
       (''cpu_physical_cores'', getv stored ''cpu_physical_cores''),
       (''cpu_freq_mhz'', getv stored ''cpu_freq_mhz''), (''ram_total_gb'', getv stored ''ram_total_gb''),
       (''disk_total_gb'', getv stored ''disk_total_gb''),
       (''firmware_vendor'', or_empty ''firmware_vendor''), (''firmware_product'', or_empty ''firmware_product''),
       (''firmware_serial'', or_empty ''firmware_serial''), (''firmware_uuid'', or_empty ''firmware_uuid''),
       (''agent_version'', or_empty ''agent_version''),
       (''inventory_captured_at'', or_empty ''inventory_captured_at''),
       (''online'', JBool online), (''first_seen'', getv stored ''first_seen''),
       (''last_seen'', py_or (getv live ''last_seen'') (getv stored ''last_seen'')),
       (''user'', if truthy (getv stored ''user_id'')
          then JObj [(''user_id'', getv stored ''user_id''), (''client_id'', or_empty ''client_id'')] else JNull)])"

definition live_of :: "dict list \<Rightarrow> string \<Rightarrow> dict option" where
  \<comment> \<open>\<open>live_by_id\<close>\<close>
  "live_of conns a = find (\<lambda>r. getv r ''agent_id'' = JStr a) conns"

definition id_of :: "dict \<Rightarrow> string" where
  "id_of r = str_or (getv r ''agent_id'') []"

section \<open>Listing\<close>

definition shown :: "rest_env \<Rightarrow> conn_manager \<Rightarrow> dict \<Rightarrow> dict" where
  "shown e m r = agent_payload r
     (case live_of (get_connected_agents (re_srv e) m) (id_of r) of None \<Rightarrow> [] | Some l \<Rightarrow> l)
     (is_agent_online (re_srv e) m (id_of r))"

fun live_rows :: "rest_env \<Rightarrow> (dict \<Rightarrow> id_cache \<Rightarrow> bool \<times> id_cache) \<Rightarrow> conn_manager \<Rightarrow> inventory \<Rightarrow> string list \<Rightarrow>
    dict list \<Rightarrow> id_cache \<Rightarrow> dict list res \<times> id_cache" where
  \<comment> \<open>the conns agents not listed yet whose stored row passes the test\<close>
  "live_rows e test m iv seen [] c = (Inr [], c)"
| "live_rows e test m iv seen (l # ls) c =
     (if id_of l \<in> set seen \<or> \<not> is_agent_online (re_srv e) m (id_of l) then live_rows e test m iv seen ls c
      else (case get_agent (re_own e) (id_of l) iv of
              Inl x \<Rightarrow> (Inl x, c)
            | Inr row \<Rightarrow>
               (let r = (case row of None \<Rightarrow> [] | Some r \<Rightarrow> r) in
                case test r c of (keep, c) \<Rightarrow>
                  (case live_rows e test m iv seen ls c of
                     (Inl x, c) \<Rightarrow> (Inl x, c)
                   | (Inr out, c) \<Rightarrow> (Inr (if keep then agent_payload r l True # out else out), c)))))"

definition list_live ::
  "rest_env \<Rightarrow> dict option \<Rightarrow> owner \<Rightarrow> bool \<Rightarrow> conn_manager \<Rightarrow> inventory \<Rightarrow> string list \<Rightarrow> id_cache \<Rightarrow>
     dict list res \<times> id_cache" where
  "list_live e user ids scoped m iv seen c =
     (let conns = get_connected_agents (re_srv e) m in
      if agents_list_unscoped (re_own e) \<and> \<not> scoped
      then (Inr (map (\<lambda>l. agent_payload [] l True) (filter (\<lambda>l. id_of l \<notin> set seen) conns)), c)
      else if scoped then live_rows e (\<lambda>r c. agent_owned_by (re_own e) r ids user c) m iv seen conns c
      else if \<not> jwt_required_enabled (re_jwt e) \<and> user = None
      then live_rows e (\<lambda>r c. (row_text r ''user_id'' = [] \<and> row_text r ''client_id'' = [], c)) m iv seen conns c
      else (Inr [], c))"

definition list_agents_for :: "rest_env \<Rightarrow> dict option \<Rightarrow> string \<Rightarrow> rest_state \<Rightarrow> dict list res \<times> rest_state" where
  "list_agents_for e user query_user st =
     (case enforce_query_user_id query_user user of
        Inl x \<Rightarrow> (Inl x, st)
      | Inr _ \<Rightarrow>
         (let (ids, c1) = owner_ids_from_jwt (re_own e) user (rs_cache st);
              (scoped, c2) = list_has_owner_scope (re_own e) ids user c1;
              m = snd (prune_stale_connections (re_srv e) (rs_mgr st));
              (stored, c3) = stored_agents_for_owner (re_own e) ids user (rs_inv st) c2 in
          case stored of
            Inl x \<Rightarrow> (Inl x, st\<lparr>rs_mgr := m, rs_cache := c3\<rparr>)
          | Inr rows \<Rightarrow>
             (let (more_rows, c4) = list_live e user ids scoped m (rs_inv st) (map id_of rows) c3 in
              (res_bind more_rows (\<lambda>ls. Inr (map (shown e m) rows @ ls)), st\<lparr>rs_mgr := m, rs_cache := c4\<rparr>))))"

definition get_agents :: "rest_env \<Rightarrow> string option \<Rightarrow> string \<Rightarrow> rest_state \<Rightarrow> dict list res \<times> rest_state" where
  \<comment> \<open>\<open>GET /api/agents\<close> with its dependency\<close>
  "get_agents e authorization query_user st =
     (case require_robin_jwt (re_jwt e) authorization (rs_keys st) of
        (Inl x, k) \<Rightarrow> (Inl x, st\<lparr>rs_keys := k\<rparr>)
      | (Inr user, k) \<Rightarrow> list_agents_for e user query_user (st\<lparr>rs_keys := k\<rparr>))"

section \<open>The record of an agent\<close>

definition agent_record_for :: "rest_env \<Rightarrow> dict option \<Rightarrow> string \<Rightarrow> rest_state \<Rightarrow> dict res \<times> rest_state" where
  "agent_record_for e user a st =
     (let m = snd (prune_stale_connections (re_srv e) (rs_mgr st)); st = st\<lparr>rs_mgr := m\<rparr> in
      case get_agent (re_own e) a (rs_inv st) of
        Inl x \<Rightarrow> (Inl x, st)
      | Inr row \<Rightarrow>
         (let live = live_of (get_connected_agents (re_srv e) m) a in
          if row = None \<and> live = None then (Inl (HTTPException 404), st)
          else
           (let r = (case row of None \<Rightarrow> [] | Some r \<Rightarrow> r);
                (ids, c1) = owner_ids_from_jwt (re_own e) user (rs_cache st);
                (scoped, c2) = list_has_owner_scope (re_own e) ids user c1;
                (owned, c3) = (if scoped then agent_owned_by (re_own e) r ids user c2 else (True, c2)) in
            (if owned then Inr (agent_payload r (case live of None \<Rightarrow> [] | Some l \<Rightarrow> l) (is_agent_online (re_srv e) m a))
             else Inl (HTTPException 404), st\<lparr>rs_cache := c3\<rparr>))))"

section \<open>Executing a tool\<close>

definition SO_LOG_TOOLS :: "string list" where
  "SO_LOG_TOOLS = [''windows_event_log'', ''linux_syslog'', ''linux_auditd'', ''system_log'']"

definition execute_for ::
  "rest_env \<Rightarrow> dict option \<Rightarrow> string \<Rightarrow> string \<Rightarrow> dict \<Rightarrow> json \<Rightarrow> rest_state \<Rightarrow> send_result \<times> rest_state" where
  "execute_for e user a cmd ps timeout st =
     (if \<not> jwt_can_issue_command (re_jwt e) user cmd then (http 403, st)
      else
       let logs = resolve_command cmd \<in> set SO_LOG_TOOLS;
           m = (if logs then snd (prune_stale_connections (re_srv e) (rs_mgr st)) else rs_mgr st);
           st = st\<lparr>rs_mgr := m\<rparr> in
       if logs \<and> \<not> is_agent_online (re_srv e) m a then (http 409, st)
       else
        let st = bind_ruvic_owner e a user [] st;
            (r, m) = send_command (re_srv e) a cmd ps timeout (issued_by_from_jwt user) (rs_mgr st) in
        (r, st\<lparr>rs_mgr := m\<rparr>))"

definition execute_begin ::
  "rest_env \<Rightarrow> string option \<Rightarrow> string \<Rightarrow> string \<Rightarrow> dict \<Rightarrow> json \<Rightarrow> rest_state \<Rightarrow> send_result \<times> rest_state" where
  \<comment> \<open>\<open>POST /api/agents/{agent_id}/execute\<close> with its dependency\<close>
  "execute_begin e authorization a cmd ps timeout st =
     (case require_robin_jwt (re_jwt e) authorization (rs_keys st) of
        (Inl x, k) \<Rightarrow> (Raised x, st\<lparr>rs_keys := k\<rparr>)
      | (Inr user, k) \<Rightarrow> execute_for e user a cmd ps timeout (st\<lparr>rs_keys := k\<rparr>))"

definition execute_reply :: "string \<Rightarrow> send_result \<Rightarrow> (int \<times> dict) res" where
  \<comment> \<open>status and body; a command that was sent has no reply yet\<close>
  "execute_reply a r =
     (case r of
        Raised x \<Rightarrow> Inl x
      | Queued mid t \<Rightarrow> Inr (202, [(''id'', JStr mid), (''agent_id'', JStr a), (''ok'', JBool True), (''queued'', JBool True),
          (''tool'', JStr t), (''state'', JStr ''pending''),
          (''message'', JStr (''Agente offline: comando encolado; se despachar'' @ [CHR 0xE1]
             @ '' al reconectar (si no expira antes).''))])
      | Answered d \<Rightarrow> Inr (200, [(''id'', getv d ''id''), (''agent_id'', JStr a), (''ok'', getv d ''ok''),
          (''tool'', getv d ''tool''), (''result'', getv d ''result''), (''error'', getv d ''error'')])
      | Sent mid t tt \<Rightarrow> Inl TimeoutError)"

section \<open>The state of a command\<close>

definition get_command_status :: "string \<Rightarrow> string \<Rightarrow> conn_manager \<Rightarrow> cmd_record res" where
  "get_command_status a mid m =
     (case q_get mid (queue m) of
        None \<Rightarrow> Inl (HTTPException 404)
      | Some r \<Rightarrow> if agent_id r \<noteq> a then Inl (HTTPException 404) else Inr r)"

definition get_command_by_id :: "string \<Rightarrow> conn_manager \<Rightarrow> cmd_record res" where
  "get_command_by_id mid m = (case q_get mid (queue m) of None \<Rightarrow> Inl (HTTPException 404) | Some r \<Rightarrow> Inr r)"

definition list_agent_commands :: "string \<Rightarrow> conn_manager \<Rightarrow> cmd_record list res" where
  "list_agent_commands a m = list_for_agent a (queue m)"

definition list_all_commands :: "conn_manager \<Rightarrow> cmd_record list" where
  "list_all_commands m = list_all_records (queue m)"

definition health :: "rest_env \<Rightarrow> rest_state \<Rightarrow> dict \<times> rest_state" where
  "health e st =
     (let pend = filter (\<lambda>r. state r \<notin> TERMINAL_STATES) (list_all_records (queue (rs_mgr st)));
          m = snd (prune_stale_connections (re_srv e) (rs_mgr st));
          ready = db_on (re_own e) \<and> db_ok (re_own e) in
      ([(''status'', JStr ''ok''), (''agents'', JInt (int (length (get_connected_agents (re_srv e) m)))),
        (''pending_commands'', JInt (int (length pend))),
        (''mysql_inventory'', JObj [(''configured'', JBool (db_on (re_own e))), (''ready'', JBool ready),
           (''stored_agents'', if ready then JInt (int (length (inv_agents (rs_inv st)))) else JNull)]),
        (''signing_key'', JObj (signing_key_status (re_srv e) m))],
       st\<lparr>rs_mgr := m\<rparr>))"

section \<open>Commands need a verified token\<close>

lemma send_command_forbidden:
  "backend_command_forbidden env (resolve_command c) \<Longrightarrow> send_command env a c ps t u m = (http 403, m)"
  by (simp add: send_command_def Let_def)

lemma fold_disconnect_frame:
  "queue (snd (fold (\<lambda>a (gone, m). if P a m then (gone, m) else (gone @ [a], disconnect a m)) xs (g, m))) = queue m"
  "wire (snd (fold (\<lambda>a (gone, m). if P a m then (gone, m) else (gone @ [a], disconnect a m)) xs (g, m))) = wire m"
  by (induction xs arbitrary: g m) (simp_all add: disconnect_def)

lemma prune_frame [simp]:
  "queue (snd (prune_stale_connections env m)) = queue m" "wire (snd (prune_stale_connections env m)) = wire m"
  unfolding prune_stale_connections_def
  by (rule fold_disconnect_frame [where P = "\<lambda>a m. is_agent_online env m a"])+

lemma bind_frame [simp]:
  "rs_mgr (bind_ruvic_owner e a user fs st) = rs_mgr st" "rs_keys (bind_ruvic_owner e a user fs st) = rs_keys st"
  by (simp_all add: bind_ruvic_owner_def case_prod_unfold Let_def)

lemma execute_for_changes:
  assumes "execute_for e user a cmd ps timeout st = (r, st')"
    and "queue (rs_mgr st') \<noteq> queue (rs_mgr st) \<or> wire (rs_mgr st') \<noteq> wire (rs_mgr st)"
  shows "jwt_can_issue_command (re_jwt e) user cmd" "\<not> backend_command_forbidden (re_srv e) (resolve_command cmd)"
proof -
  show "jwt_can_issue_command (re_jwt e) user cmd"
    using assms by (auto simp: execute_for_def split: if_splits)
  show "\<not> backend_command_forbidden (re_srv e) (resolve_command cmd)"
  proof
    assume "backend_command_forbidden (re_srv e) (resolve_command cmd)"
    with assms show False
      by (auto simp: execute_for_def Let_def send_command_forbidden split: if_splits)
  qed
qed

lemma execute_for_keys: "execute_for e user a cmd ps timeout st = (r, st') \<Longrightarrow> rs_keys st' = rs_keys st"
  by (auto simp: execute_for_def Let_def split: if_splits prod.splits)

text \<open>
  C6: When tokens are required, a call of the execution endpoint that puts anything into the
  command queue or on a socket carried a Bearer token that verified under a key of the
  authority, with an execute role; for a disabled command it also had a high-risk role, and
  the backend's own list allows that command.
\<close>

theorem rest_commands_are_authorised:
  assumes "jwt_required_enabled (re_jwt e)" "execute_begin e authorization a cmd ps timeout st = (r, st')"
    and "queue (rs_mgr st') \<noteq> queue (rs_mgr st) \<or> wire (rs_mgr st') \<noteq> wire (rs_mgr st)"
  shows "\<exists>h key claims. authorization = Some h \<and>
    served_key (re_jwt e) (rs_keys st) (rs_keys st') key \<and> token_passed (re_jwt e) (bearer_token h) key claims \<and>
    (let roles = jwt_roles (Some (with_token (bearer_token h) claims)) in
       has_role roles (execute_roles (re_jwt e)) \<and>
       (resolve_command (strip cmd) \<in> set DEFAULT_DISABLED \<longrightarrow> has_role roles (high_risk_roles (re_jwt e)))) \<and>
    (resolve_command cmd \<in> set DEFAULT_DISABLED \<longrightarrow> resolve_command cmd \<in> set (allowed_high_risk (re_srv e)))"
proof -
  obtain res k where q: "require_robin_jwt (re_jwt e) authorization (rs_keys st) = (res, k)" by fastforce
  with assms(2,3) obtain user where u: "res = Inr user"
    "execute_for e user a cmd ps timeout (st\<lparr>rs_keys := k\<rparr>) = (r, st')"
    by (cases res) (auto simp: execute_begin_def)
  have c: "jwt_can_issue_command (re_jwt e) user cmd" "\<not> backend_command_forbidden (re_srv e) (resolve_command cmd)"
    using execute_for_changes [OF u(2)] assms(3) by simp_all
  have k: "rs_keys st' = k" using execute_for_keys [OF u(2)] by simp
  obtain h key claims where h: "authorization = Some h" "served_key (re_jwt e) (rs_keys st) k key"
      "token_passed (re_jwt e) (bearer_token h) key claims" "user = Some (with_token (bearer_token h) claims)"
    using require_accepts [OF assms(1) q [unfolded u(1)]] by blast
  with c k show ?thesis
    by (auto simp: Let_def role_check backend_command_forbidden_def intro!: exI [of _ key] exI [of _ claims])
qed

section \<open>Executing a command takes an agent over\<close>

lemma owner_ids_sub: "sub_of d \<noteq> [] \<Longrightarrow> fst (fst (owner_ids_from_jwt e (Some d) c)) = sub_of d"
  by (auto simp: owner_ids_from_jwt_def sub_of_def Let_def split: prod.split)

lemma opt_text_cases: "opt_text s = JNull \<or> opt_text s = JStr s"
  by (simp add: opt_text_def)

lemma upsert_user_ok:
  assumes "db_on e" "db_ok e" "strip u \<noteq> []"
  shows "\<exists>inv1. upsert_user e u (opt_text s) iv = (Inr (), inv1) \<and> inv_agents inv1 = inv_agents iv"
  using assms
  by (auto simp: upsert_user_def Let_def opt_text_def keep_str_def str_strip_def py_or_def split: option.split)

lemma bind_sets_owner:
  assumes "db_on (re_own e)" "db_ok (re_own e)" "sub_of d \<noteq> []" "strip a \<noteq> []"
    and "map_of (inv_agents (rs_inv st)) (strip a) = Some row"
  shows "\<exists>r. map_of (inv_agents (rs_inv (bind_ruvic_owner e a (Some d) [] st))) (strip a) = Some r \<and>
    getv r ''user_id'' = JStr (sub_of d)"
proof -
  obtain ids c where i: "owner_ids_from_user (re_own e) (Some d) a (rs_inv st) (rs_cache st) = (ids, c)" by fastforce
  have ids: "fst ids = sub_of d"
    using i owner_ids_sub [OF assms(3), of "re_own e" "rs_cache st"] assms(3) by (simp add: owner_ids_from_user_def)
  have s: "strip (sub_of d) = sub_of d" by (simp add: sub_of_def)
  obtain inv1 where inv1: "upsert_user (re_own e) (sub_of d) (opt_text (snd ids)) (rs_inv st) = (Inr (), inv1)"
      "inv_agents inv1 = inv_agents (rs_inv st)"
    using upsert_user_ok [OF assms(1,2)] s assms(3) by metis
  let ?flds = "[(''user_id'', opt_text (sub_of d)), (''client_id'', opt_text (snd ids))]"
  have t: "texts_only ?flds" by (simp add: texts_only_def opt_text_def)
  obtain r where r: "map_of (inv_agents (snd (upsert_agent (re_own e) a ?flds inv1))) (strip a) = Some r"
      "\<forall>k \<in> set STR_KEYS. keep_str (getv ?flds k) (getv row k) = Inr (getv r k)"
    using upsert_agent_row [OF assms(1,2,4) _ t, of inv1 row] assms(5) inv1(2) by auto
  have "keep_str (opt_text (sub_of d)) (getv row ''user_id'') = Inr (getv r ''user_id'')"
    using r(2) by (simp add: STR_KEYS_def)
  then have "getv r ''user_id'' = JStr (sub_of d)"
    using keep_str_new [of "sub_of d"] s assms(3) by (simp add: opt_text_def)
  with r(1) show ?thesis
    by (simp add: bind_ruvic_owner_def i ids s inv1(1) assms(3))
qed

text \<open>
  The execution endpoint never checks who owns the agent, and it stores the caller as the
  owner: after any accepted call, even one that the manager then refuses, the agent belongs
  to the subject of the caller's token, whoever owned it before.
\<close>

theorem execute_takes_agent_over:
  assumes "require_robin_jwt (re_jwt e) authorization (rs_keys st) = (Inr (Some d), k)"
    and "jwt_can_issue_command (re_jwt e) (Some d) cmd" "resolve_command cmd \<notin> set SO_LOG_TOOLS"
    and "db_on (re_own e)" "db_ok (re_own e)" "sub_of d \<noteq> []" "strip a \<noteq> []"
    and "map_of (inv_agents (rs_inv st)) (strip a) = Some row"
  shows "\<exists>r. map_of (inv_agents (rs_inv (snd (execute_begin e authorization a cmd ps timeout st)))) (strip a) = Some r \<and>
    getv r ''user_id'' = JStr (sub_of d)"
proof -
  have "rs_inv (snd (execute_begin e authorization a cmd ps timeout st)) =
      rs_inv (bind_ruvic_owner e a (Some d) [] (st\<lparr>rs_keys := k\<rparr>))"
    using assms(1-3) by (simp add: execute_begin_def execute_for_def Let_def case_prod_unfold)
  then show ?thesis using bind_sets_owner [OF assms(4-7), of "st\<lparr>rs_keys := k\<rparr>" row] assms(8) by simp
qed

section \<open>Only the owner sees an agent\<close>

lemma fetch_ruvic_user_stable:
  "fetch_ruvic_user e t d c = (ids, c', s) \<Longrightarrow> \<exists>s'. fetch_ruvic_user e t d c' = (ids, c', s')"
  by (auto simp: fetch_ruvic_user_def Let_def split: if_splits option.splits sum.splits prod.splits)

lemma candidates_stable:
  assumes "user_id_candidates e user ids c = (cs, c')"
  shows "user_id_candidates e user ids c' = (cs, c')"
proof (cases user)
  case None
  with assms show ?thesis by (simp add: user_id_candidates_def)
next
  case (Some d)
  obtain ids1 c1 s1 where f: "fetch_ruvic_user e (strip (token_of d)) d c = (ids1, c1, s1)"
    by (metis prod_cases3)
  obtain s2 where f2: "fetch_ruvic_user e (strip (token_of d)) d c1 = (ids1, c1, s2)"
    using fetch_ruvic_user_stable [OF f] by blast
  have "c' = c1 \<or> strip (token_of d) = []"
    using assms by (auto simp: user_id_candidates_def Some f Let_def split: if_splits)
  with assms f2 show ?thesis
    by (auto simp: user_id_candidates_def Some f Let_def split: if_splits)
qed

lemma candidates_stripped:
  assumes "user_id_candidates e user ids c = (cs, c')" "u \<in> set cs"
  shows "u \<noteq> [] \<and> strip u = u"
proof (cases user)
  case None
  with assms show ?thesis by (auto simp: user_id_candidates_def split: if_splits)
next
  case (Some d)
  obtain ids1 c1 s1 where f: "fetch_ruvic_user e (strip (token_of d)) d c = (ids1, c1, s1)"
    by (metis prod_cases3)
  have "u \<in> {text_or_else (sub_of d) (strip (fst ids)), strip (fst ids1)} \<and> u \<noteq> []"
    using assms by (auto simp: user_id_candidates_def Some f Let_def split: if_splits)
  then show ?thesis by (auto simp: text_or_else_def sub_of_def)
qed

lemma row_text_payload [simp]:
  "row_text (agent_payload r l b) ''user_id'' = row_text r ''user_id''"
  "row_text (agent_payload r l b) ''client_id'' = row_text r ''client_id''"
  by (simp_all add: agent_payload_def Let_def row_text_def str_or_def py_or_def)

lemma owned_payload [simp]: "owned_by cs client (agent_payload r l b) = owned_by cs client r"
  by (simp add: owned_by_def)

lemma row_text_str: "getv r k = JStr s \<Longrightarrow> row_text r k = strip s"
  by (simp add: row_text_def)

lemma add_rows_subset: "set (add_rows rows out) \<subseteq> set rows \<union> set out"
proof (induction rows arbitrary: out)
  case (Cons r rows)
  have "add_rows (r # rows) out = add_rows rows (add_rows [r] out)" by (simp add: add_rows_def)
  moreover have "set (add_rows [r] out) \<subseteq> insert r (set out)" by (auto simp: add_rows_def)
  ultimately show ?case using Cons.IH [of "add_rows [r] out"] by auto
qed (simp add: add_rows_def)

lemma add_rows_all:
  "\<forall>r \<in> set rows. P r \<Longrightarrow> \<forall>r \<in> set out. P r \<Longrightarrow> \<forall>r \<in> set (add_rows rows out). P r"
  using add_rows_subset [of rows out] by blast

lemma list_stored_owned:
  assumes "list_stored_agents e u c iv = Inr rows" "r \<in> set rows"
  shows "u \<noteq> [] \<Longrightarrow> strip u = u \<Longrightarrow> u \<in> set cs \<Longrightarrow> owned_by cs client r"
    and "c \<noteq> [] \<Longrightarrow> strip c = c \<Longrightarrow> owned_by cs c r"
  using assms by (auto simp: list_stored_agents_def owned_by_def row_text_str split: if_splits)

lemma rows_of_users_owned:
  "rows_of_users e us iv out = Inr rows \<Longrightarrow> \<forall>u \<in> set us. u \<noteq> [] \<and> strip u = u \<and> u \<in> set cs \<Longrightarrow>
     \<forall>r \<in> set out. owned_by cs client r \<Longrightarrow> \<forall>r \<in> set rows. owned_by cs client r"
proof (induction us arbitrary: out)
  case (Cons u us)
  then obtain rs where rs: "list_stored_agents e u [] iv = Inr rs" "rows_of_users e us iv (add_rows rs out) = Inr rows"
    by (auto simp: res_bind_eq_Inr)
  have "\<forall>r \<in> set (add_rows rs out). owned_by cs client r"
    using list_stored_owned(1) [OF rs(1)] Cons.prems(2,3) by (intro add_rows_all) auto
  with Cons.IH [OF rs(2)] Cons.prems(2) show ?case by simp
qed simp

lemma stored_agents_owned:
  assumes "stored_agents_for_owner e ids user iv c = (Inr rows, c')"
    and "user_id_candidates e user ids c = (cs, c')" "cs \<noteq> [] \<or> strip (snd ids) \<noteq> []"
  shows "\<forall>r \<in> set rows. owned_by cs (strip (snd ids)) r"
proof -
  let ?cl = "strip (snd ids)"
  obtain out where out: "rows_of_users e cs iv [] = Inr out"
    using assms(1,2) by (cases "rows_of_users e cs iv []") (auto simp: stored_agents_for_owner_def Let_def)
  have o: "\<forall>r \<in> set out. owned_by cs ?cl r"
    by (rule rows_of_users_owned [OF out]) (use candidates_stripped [OF assms(2)] in auto)
  show ?thesis
  proof (cases "?cl = []")
    case True
    with assms out o show ?thesis by (auto simp: stored_agents_for_owner_def Let_def)
  next
    case False
    then obtain rs where rs: "list_stored_agents e [] ?cl iv = Inr rs" "rows = add_rows rs out"
      using assms(1,2) out by (auto simp: stored_agents_for_owner_def Let_def res_bind_eq_Inr split: if_splits)
    have "\<forall>r \<in> set rs. owned_by cs ?cl r"
      using list_stored_owned(2) [OF rs(1)] False by auto
    with o rs(2) show ?thesis by (auto intro: add_rows_all [rule_format])
  qed
qed

lemma agent_owned_by_eq:
  assumes "user_id_candidates e user ids c = (cs, c)" "cs \<noteq> [] \<or> strip (snd ids) \<noteq> []"
  shows "agent_owned_by e r ids user c = (r \<noteq> [] \<and> owned_by cs (strip (snd ids)) r, c)"
  using assms by (auto simp: agent_owned_by_def)

lemma live_rows_all:
  assumes "\<And>r. test r c = (P r, c)"
  shows "live_rows e test m iv seen ls c = (Inr out, c') \<Longrightarrow> p \<in> set out \<Longrightarrow> \<exists>r l. p = agent_payload r l True \<and> P r"
  by (induction ls arbitrary: out c')
    (auto simp: assms Let_def split: if_splits sum.splits option.splits prod.splits, blast+)

definition owner_scope :: "owner_env \<Rightarrow> dict option \<Rightarrow> id_cache \<Rightarrow> string list \<times> string" where
  \<comment> \<open>the user ids and the client id that a request may see\<close>
  "owner_scope e user c =
     (case owner_ids_from_jwt e user c of (ids, c1) \<Rightarrow> (fst (user_id_candidates e user ids c1), strip (snd ids)))"

lemma list_live_owned:
  assumes "user_id_candidates (re_own e) user ids c = (cs, c)" "cs \<noteq> [] \<or> strip (snd ids) \<noteq> []"
    and "list_live e user ids True m iv seen c = (Inr out, c')"
  shows "\<forall>p \<in> set out. owned_by cs (strip (snd ids)) p"
proof
  fix p assume p: "p \<in> set out"
  have "live_rows e (\<lambda>r c. agent_owned_by (re_own e) r ids user c) m iv seen (get_connected_agents (re_srv e) m) c = (Inr out, c')"
    using assms(3) by (simp add: list_live_def Let_def)
  from live_rows_all [OF agent_owned_by_eq [OF assms(1,2)] this p]
  obtain r l where "p = agent_payload r l True" "owned_by cs (strip (snd ids)) r" by blast
  then show "owned_by cs (strip (snd ids)) p" by simp
qed

text \<open>
  C10: The list of agents shows a caller with an identity only agents of that identity: every row
  has the user id of the caller or its client id, whether it comes from the inventory or
  from the open connections.
\<close>

theorem list_shows_own_agents_only:
  assumes "list_agents_for e user query_user st = (Inr out, st')"
    and "owner_scope (re_own e) user (rs_cache st) = (users, client)" "users \<noteq> [] \<or> client \<noteq> []" "p \<in> set out"
  shows "owned_by users client p"
proof -
  obtain ids c1 where i: "owner_ids_from_jwt (re_own e) user (rs_cache st) = (ids, c1)" by fastforce
  obtain cs c2 where c: "user_id_candidates (re_own e) user ids c1 = (cs, c2)" by fastforce
  have sc: "users = cs" "client = strip (snd ids)" using assms(2) by (simp_all add: owner_scope_def i c)
  have st: "user_id_candidates (re_own e) user ids c2 = (cs, c2)" by (rule candidates_stable [OF c])
  have scoped: "list_has_owner_scope (re_own e) ids user c1 = (True, c2)"
    using assms(3) by (auto simp: list_has_owner_scope_def c sc)
  obtain stored c3 where s: "stored_agents_for_owner (re_own e) ids user (rs_inv st) c2 = (stored, c3)" by fastforce
  then have c3: "c3 = c2" by (auto simp: stored_agents_for_owner_def st Let_def)
  let ?m = "snd (prune_stale_connections (re_srv e) (rs_mgr st))"
  from assms(1) obtain rows ls c4 where r: "stored = Inr rows"
      "list_live e user ids True ?m (rs_inv st) (map id_of rows) c2 = (Inr ls, c4)"
      "out = map (shown e ?m) rows @ ls"
    by (auto simp: list_agents_for_def i scoped s c3 Let_def case_prod_unfold res_bind_eq_Inr prod_eq_iff
        split: sum.splits)
  have "\<forall>r \<in> set rows. owned_by users client r"
    using stored_agents_owned [OF _ st] s r(1) c3 assms(3) sc by simp
  moreover have "\<forall>p \<in> set ls. owned_by users client p"
    using list_live_owned [OF st _ r(2)] assms(3) sc by simp
  ultimately show ?thesis using assms(4) r(3) by (auto simp: shown_def)
qed

text \<open>The record of one agent is shown to a caller with an identity only if it is its own.\<close>

theorem record_shown_to_owner_only:
  assumes "agent_record_for e user a st = (Inr p, st')"
    and "owner_scope (re_own e) user (rs_cache st) = (users, client)" "users \<noteq> [] \<or> client \<noteq> []"
  shows "owned_by users client p"
proof -
  obtain ids c1 where i: "owner_ids_from_jwt (re_own e) user (rs_cache st) = (ids, c1)" by fastforce
  obtain cs c2 where c: "user_id_candidates (re_own e) user ids c1 = (cs, c2)" by fastforce
  have sc: "users = cs" "client = strip (snd ids)" using assms(2) by (simp_all add: owner_scope_def i c)
  have scoped: "list_has_owner_scope (re_own e) ids user c1 = (True, c2)"
    using assms(3) by (auto simp: list_has_owner_scope_def c sc)
  note own = agent_owned_by_eq [OF candidates_stable [OF c] assms(3) [unfolded sc]]
  show ?thesis
    using assms(1)
    by (auto simp: agent_record_for_def Let_def i scoped own sc split: sum.splits option.splits if_splits)
qed

section \<open>Examples\<close>

definition sample_rest_env :: rest_env where
  "sample_rest_env = \<lparr>re_jwt = sample_jwt_env, re_srv = sample_env, re_own = sample_owner_env\<rparr>"

definition sample_rest :: rest_state where
  "sample_rest = \<lparr>rs_mgr = sample_connected, rs_keys = key_cache_init, rs_cache = [], rs_inv = sample_inventory\<rparr>"

lemma sample_rest_simps [simp]:
  "re_jwt sample_rest_env = sample_jwt_env" "re_srv sample_rest_env = sample_env" "re_own sample_rest_env = sample_owner_env"
  "rs_mgr sample_rest = sample_connected" "rs_keys sample_rest = key_cache_init" "rs_cache sample_rest = []"
  "rs_inv sample_rest = sample_inventory"
  by (simp_all add: sample_rest_env_def sample_rest_def)

lemma sample_can_issue: "jwt_can_issue_command sample_jwt_env (Some sample_claims) ''ping''"
  "resolve_command ''ping'' \<notin> set SO_LOG_TOOLS" "sub_of sample_claims = ''u1''"
  by code_simp+

lemma sample_enqueued: "wire (snd (send_enqueue sample_env ''a1'' ''ping'' [] ''user:u1'' (Fin 30) sample_checked)) \<noteq> wire sample_connected"
  by code_simp

theorem execute_takes_agent_over_witness:
  "\<exists>r. map_of (inv_agents (rs_inv (snd (execute_begin sample_rest_env (Some ''Bearer tok'') ''a1'' ''ping'' [] (JInt 30) sample_rest))))
      (strip ''a1'') = Some r \<and> getv r ''user_id'' = JStr (sub_of sample_claims)"
proof (rule execute_takes_agent_over)
  show "require_robin_jwt (re_jwt sample_rest_env) (Some ''Bearer tok'') (rs_keys sample_rest) =
      (Inr (Some sample_claims), \<lparr>key_pem = JStr ''K'', key_kid = JStr ''1'', key_at = 0, downloads = 1\<rparr>)"
    using sample_require by simp
  show "map_of (inv_agents (rs_inv sample_rest)) (strip ''a1'') =
      Some [(''agent_id'', JStr ''a1''), (''user_id'', JStr ''u2''), (''client_id'', JStr [])]"
    by (simp add: sample_inventory_def)
qed (simp_all add: sample_can_issue sample_owner_env_def)

text \<open>A user with one agent in the inventory and no open connection.\<close>

definition sample_offline :: rest_state where
  "sample_offline = \<lparr>rs_mgr = cm_init q_empty 30 10, rs_keys = key_cache_init, rs_cache = [],
     rs_inv = sample_inventory\<lparr>inv_agents := [(''a1'', [(''agent_id'', JStr ''a1''), (''user_id'', JStr ''u1'')]),
       (''a2'', [(''agent_id'', JStr ''a2''), (''user_id'', JStr ''u2'')])]\<rparr>\<rparr>"

definition ids_shown :: "dict list res \<Rightarrow> json list" where
  "ids_shown r = (case r of Inl x \<Rightarrow> [] | Inr out \<Rightarrow> map (\<lambda>p. getv p ''agent_id'') out)"

lemma sample_listing:
  "ids_shown (fst (list_agents_for sample_rest_env (Some sample_user) [] sample_offline)) = [JStr ''a1'']"
  "owner_scope (re_own sample_rest_env) (Some sample_user) (rs_cache sample_offline) = ([''u1''], [])"
  "\<not> isl (fst (agent_record_for sample_rest_env (Some sample_user) ''a1'' sample_offline))"
  by code_simp+

theorem list_shows_own_agents_only_witness:
  "owned_by [''u1''] [] (hd (projr (fst (list_agents_for sample_rest_env (Some sample_user) [] sample_offline))))"
proof -
  obtain out where out: "fst (list_agents_for sample_rest_env (Some sample_user) [] sample_offline) = Inr out" "out \<noteq> []"
    using sample_listing(1) by (auto simp: ids_shown_def split: sum.splits)
  then have "list_agents_for sample_rest_env (Some sample_user) [] sample_offline =
      (Inr out, snd (list_agents_for sample_rest_env (Some sample_user) [] sample_offline))"
    by (simp add: prod_eq_iff)
  from list_shows_own_agents_only [OF this sample_listing(2), of "hd out"] out show ?thesis by simp
qed

theorem record_shown_to_owner_only_witness:
  "owned_by [''u1''] [] (projr (fst (agent_record_for sample_rest_env (Some sample_user) ''a1'' sample_offline)))"
proof -
  have "agent_record_for sample_rest_env (Some sample_user) ''a1'' sample_offline =
      (Inr (projr (fst (agent_record_for sample_rest_env (Some sample_user) ''a1'' sample_offline))),
       snd (agent_record_for sample_rest_env (Some sample_user) ''a1'' sample_offline))"
    using sample_listing(3) by (simp add: prod_eq_iff)
  from record_shown_to_owner_only [OF this sample_listing(2)] show ?thesis by simp
qed

text \<open>An operator sends a ping to a connected agent.\<close>

definition sample_execution :: "send_result \<times> rest_state" where
  "sample_execution = execute_begin sample_rest_env (Some ''Bearer tok'') ''a1'' ''ping'' [] (JInt 30) sample_rest"

lemma sample_execution_mgr:
  "rs_mgr (snd sample_execution) = snd (send_enqueue sample_env ''a1'' ''ping'' [] ''user:u1'' (Fin 30) sample_checked)"
proof -
  have "issued_by_from_jwt (Some sample_claims) = ''user:u1''" by code_simp
  then show ?thesis
    using sample_require sample_can_issue
    by (simp add: sample_execution_def execute_begin_def execute_for_def Let_def case_prod_unfold sample_send)
qed

theorem rest_commands_are_authorised_witness:
  "\<exists>h key claims. Some ''Bearer tok'' = Some h \<and>
    served_key sample_jwt_env key_cache_init (rs_keys (snd sample_execution)) key \<and>
    token_passed sample_jwt_env (bearer_token h) key claims \<and>
    (let roles = jwt_roles (Some (with_token (bearer_token h) claims)) in
       has_role roles (execute_roles sample_jwt_env) \<and>
       (resolve_command (strip ''ping'') \<in> set DEFAULT_DISABLED \<longrightarrow> has_role roles (high_risk_roles sample_jwt_env))) \<and>
    (resolve_command ''ping'' \<in> set DEFAULT_DISABLED \<longrightarrow> resolve_command ''ping'' \<in> set (allowed_high_risk sample_env))"
proof -
  have "jwt_required_enabled (re_jwt sample_rest_env)" by (simp add: jwt_required_enabled_def sample_jwt_env_def)
  moreover have "execute_begin sample_rest_env (Some ''Bearer tok'') ''a1'' ''ping'' [] (JInt 30) sample_rest =
      (fst sample_execution, snd sample_execution)" by (simp add: sample_execution_def)
  moreover have "queue (rs_mgr (snd sample_execution)) \<noteq> queue (rs_mgr sample_rest) \<or>
      wire (rs_mgr (snd sample_execution)) \<noteq> wire (rs_mgr sample_rest)"
    using sample_enqueued by (simp add: sample_execution_mgr)
  ultimately show ?thesis using rest_commands_are_authorised by fastforce
qed

end
