(* ===== verification/Self_Update.thy ===== *)
theory Self_Update
  imports Agent_Admin Security
begin

text \<open>
  The verified update of the agent, \<^verbatim>\<open>colsoft_tools/self_update.py\<close>: download,
  signature of the artifact, installation with a backup and a post-check, and the local
  updater of the configuration. The network, the processes and which copies of files
  succeed are inputs; a file is its content.
\<close>

section \<open>Environment\<close>

record update_env =
  fetched :: "string \<Rightarrow> string res"
    \<comment> \<open>the content behind a URL\<close>
  digest_of :: "string \<Rightarrow> string"
  update_verify :: "json \<Rightarrow> string \<Rightarrow> json \<Rightarrow> bool"
  copies :: "nat \<Rightarrow> bool"
    \<comment> \<open>whether the backup (0), the installation (1) and the restoration (2) succeed\<close>
  check_run :: "string \<Rightarrow> pyfloat \<Rightarrow> int res"
    \<comment> \<open>the exit code of a shell command\<close>
  updater :: process
  pid_text :: string
  own_binary :: string
    \<comment> \<open>\<open>sys.executable\<close> of a frozen build, else empty\<close>
  work_dir :: string

datatype update_exc = UpdateError string | Unexpected py_exc

section \<open>Signature and download\<close>

definition verify_update_signature :: "update_env \<Rightarrow> (string \<Rightarrow> fnode) \<Rightarrow> string \<Rightarrow> json \<Rightarrow> json \<Rightarrow> bool" where
  "verify_update_signature e fs artifact signature_b64 public_key =
     (truthy public_key \<and> truthy signature_b64 \<and>
      (case fs artifact of
         File c \<Rightarrow> verify_command_signature (update_verify e) public_key (digest_of e c) signature_b64
       | _ \<Rightarrow> False))"

definition urlretrieve :: "update_env \<Rightarrow> string list \<Rightarrow> string \<Rightarrow> string res" where
  \<comment> \<open>the library function knows the keywords \<open>filename\<close>, \<open>reporthook\<close> and \<open>data\<close> only\<close>
  "urlretrieve e keywords url =
     (if set keywords \<subseteq> {''filename'', ''reporthook'', ''data''} then fetched e url else Inl TypeError)"

definition artifact_name :: "string \<Rightarrow> string" where
  "artifact_name url = (let b = basename (hd (split_char (CHR ''?'') url)) in if b = [] then ''update.bin'' else b)"

definition download_update ::
  "update_env \<Rightarrow> string \<Rightarrow> string \<Rightarrow> (string \<Rightarrow> fnode) \<Rightarrow> (update_exc + string) \<times> (string \<Rightarrow> fnode)" where
  "download_update e url dest_dir fs =
     (if \<not> (startswith (strip url) ''http://'' \<or> startswith (strip url) ''https://'')
      then (Inl (UpdateError (''url de update inv'' @ [CHR 0xE1] @ ''lida'')), fs)
      else
       (let dest = dest_dir @ ''/'' @ artifact_name url in
        case urlretrieve e [''timeout''] url of
          Inl x \<Rightarrow> (Inl (UpdateError ''fallo descargando update''), fs)
        | Inr c \<Rightarrow> (Inr dest, fs(dest := File c))))"

section \<open>Installation with rollback\<close>

definition post_check :: "update_env \<Rightarrow> json \<Rightarrow> pyfloat \<Rightarrow> bool res" where
  \<comment> \<open>\<open>_run_verify_command\<close>\<close>
  "post_check e cmd timeout =
     res_bind (str_strip (py_or cmd (JStr []))) (\<lambda>c.
       if c = [] then Inr True
       else (case check_run e (py_str cmd) timeout of
               Inr rc \<Rightarrow> Inr (rc = 0)
             | Inl x \<Rightarrow> if x = TimeoutError \<or> x = OSError then Inr False else Inl x))"

definition backup_path :: "update_env \<Rightarrow> string \<Rightarrow> string" where
  "backup_path e target = target @ ''.bak.'' @ pid_text e"

definition applied_result :: "bool \<Rightarrow> string \<Rightarrow> string \<Rightarrow> dict" where
  "applied_result rolled_back target backup =
     (if rolled_back then
        [(''ok'', JBool False), (''target'', JStr target), (''backup'', JStr backup), (''rolled_back'', JBool True),
         (''error'', JStr (''post-check del update fall'' @ [CHR 0xF3] @ ''; se restaur'' @ [CHR 0xF3] @ '' el backup''))]
      else [(''ok'', JBool True), (''target'', JStr target), (''backup'', JStr backup), (''rolled_back'', JBool False)])"

definition apply_update_with_rollback ::
  "update_env \<Rightarrow> string \<Rightarrow> string \<Rightarrow> json \<Rightarrow> pyfloat \<Rightarrow> (string \<Rightarrow> fnode) \<Rightarrow> (update_exc + dict) \<times> (string \<Rightarrow> fnode)" where
  "apply_update_with_rollback e artifact target check timeout fs =
     (if fs artifact = NoFile then (Inl (UpdateError ''artefacto de update no encontrado''), fs)
      else if fs target = NoFile then (Inl (UpdateError ''target de update no existe''), fs)
      else if \<not> copies e 0 then (Inl (Unexpected OSError), fs)
      else
       (let old = fs target; fs1 = fs(backup_path e target := old) in
        if \<not> copies e 1 then (Inl (UpdateError ''no se pudo instalar update''), fs1)
        else
         (let fs2 = fs1(target := fs1 artifact) in
          case post_check e check timeout of
            Inl x \<Rightarrow> (Inl (Unexpected x), fs2)
          | Inr True \<Rightarrow> (Inr (applied_result False target (backup_path e target)), fs2)
          | Inr False \<Rightarrow>
              (Inr (applied_result True target (backup_path e target)),
               if copies e 2 then fs2(target := old) else fs2))))"

section \<open>The whole update\<close>

definition self_error :: "string \<Rightarrow> dict" where
  "self_error why = [(''tool'', JStr ''trigger_update''), (''status'', JStr ''ERROR''), (''error'', JStr why)]"

definition local_timeout :: "dict \<Rightarrow> dict \<Rightarrow> pyfloat res" where
  "local_timeout params au =
     res_bind (py_float (py_or (py_or (getv params ''timeout'') (getv au ''timeout'')) (JInt 120)))
       (\<lambda>t. Inr (clampf (Fin 5) (Fin 300) t))"

definition local_update :: "update_env \<Rightarrow> dict \<Rightarrow> dict \<Rightarrow> string \<Rightarrow> string \<Rightarrow> int \<Rightarrow> update_exc + dict" where
  \<comment> \<open>the configured script or command\<close>
  "local_update e params au script command max_chars =
     (let extra = filter (\<lambda>a. a \<noteq> []) [str_or (getv params ''version'') [], [], str_or (getv params ''channel'') []];
          cmd = (if script \<noteq> [] then script # extra else [''/bin/sh'', ''-c'', command]) in
      case local_timeout params au of
        Inl x \<Rightarrow> if x = OSError then Inr [(''ok'', JBool False), (''error'', JStr ''no se pudo ejecutar actualizador'')]
                 else Inl (Unexpected x)
      | Inr t \<Rightarrow>
         (case updater e cmd t of
            Inl x \<Rightarrow>
              (if x = TimeoutError then Inr [(''ok'', JBool False), (''error'', JStr ''timeout en el actualizador'')]
               else if x = OSError then Inr [(''ok'', JBool False), (''error'', JStr ''no se pudo ejecutar actualizador'')]
               else Inl (Unexpected x))
          | Inr (rc, out) \<Rightarrow>
              Inr ([(''ok'', JBool (rc = 0)), (''returncode'', JInt rc), (''output'', JStr (take (nat max_chars) out))]
                @ (if rc = 0 then [] else [(''error'', JStr (''actualizador fall'' @ [CHR 0xF3] @ '' (rc='' @ int_str rc @ '')''))]))))"

definition verified_update ::
  "update_env \<Rightarrow> dict \<Rightarrow> string \<Rightarrow> json \<Rightarrow> json \<Rightarrow> (string \<Rightarrow> fnode) \<Rightarrow> (update_exc + dict) \<times> (string \<Rightarrow> fnode)" where
  \<comment> \<open>the branch with a URL\<close>
  "verified_update e au url public_key sig fs =
     (case download_update e url (work_dir e) fs of
        (Inl x, fs) \<Rightarrow> (Inl x, fs)
      | (Inr artifact, fs) \<Rightarrow>
         (if truthy public_key \<and> \<not> truthy sig then (Inl (UpdateError ''update rechazado: falta signature''), fs)
          else if truthy public_key \<and> \<not> verify_update_signature e fs artifact sig public_key
          then (Inl (UpdateError ''update rechazado: firma Ed25519''), fs)
          else
           (let target = py_or (getv au ''target'') (JStr (own_binary e)) in
            if \<not> truthy target then (Inl (UpdateError ''update rechazado: sin target''), fs)
            else
             (case py_float (py_or (getv au ''verify_timeout'') (JInt 60)) of
                Inl x \<Rightarrow> (Inl (Unexpected x), fs)
              | Inr t \<Rightarrow> apply_update_with_rollback e artifact (py_str target) (getv au ''verify_command'') t fs))))"

definition report :: "dict \<Rightarrow> bool \<Rightarrow> update_exc + dict \<Rightarrow> dict" where
  "report params verified r =
     (let version = JStr (str_or (getv params ''version'') []); channel = JStr (str_or (getv params ''channel'') []) in
      case r of
        Inl (UpdateError why) \<Rightarrow> self_error (''self_update: '' @ why) @ [(''version'', version), (''channel'', channel)]
      | Inl (Unexpected x) \<Rightarrow> self_error ''self_update: error inesperado''
      | Inr d \<Rightarrow>
         (if \<not> truthy (getv d ''ok'') then
            [(''tool'', JStr ''trigger_update''), (''status'', JStr ''ERROR''),
             (''error'', py_or (getv d ''error'') (JStr (''update fall'' @ [CHR 0xF3]))), (''returncode'', getv d ''returncode''),
             (''output'', getv d ''output''), (''version'', version), (''channel'', channel)]
          else
            [(''tool'', JStr ''trigger_update''), (''status'', JStr ''OK''), (''returncode'', JInt 0), (''version'', version),
             (''channel'', channel), (''verified_signature'', JBool verified), (''rolled_back'', getv d ''rolled_back''),
             (''backup'', getv d ''backup''), (''output'', getv d ''output'')]))"

definition self_update ::
  "update_env \<Rightarrow> dict \<Rightarrow> dict \<Rightarrow> int \<Rightarrow> (string \<Rightarrow> fnode) \<Rightarrow> dict res \<times> (string \<Rightarrow> fnode)" where
  "self_update e config params max_chars fs =
     (let au = obj_of (getv config ''auto_update'');
          public_key = py_or (getv au ''verify_public_key'') (getv params ''verify_public_key'') in
      case str_strip (py_or (getv params ''url'') (JStr [])) of
        Inl x \<Rightarrow> (Inl x, fs)
      | Inr url \<Rightarrow>
       (case str_strip (py_or (getv au ''script'') (JStr [])) of
          Inl x \<Rightarrow> (Inl x, fs)
        | Inr script \<Rightarrow>
         (case str_strip (py_or (getv au ''command'') (JStr [])) of
            Inl x \<Rightarrow> (Inl x, fs)
          | Inr command \<Rightarrow>
             (if script = [] \<and> command = [] \<and> url = [] then (Inr (self_error ''self_update: falta url''), fs)
              else if url \<noteq> [] then
                (case verified_update e au url public_key (getv params ''signature'') fs of
                   (r, fs') \<Rightarrow> (Inr (report params (truthy public_key) r), fs'))
              else (Inr (report params (truthy public_key) (local_update e params au script command max_chars)), fs)))))"

section \<open>Properties\<close>


lemma download_fails: "\<exists>why. download_update e url d fs = (Inl (UpdateError why), fs)"
  by (simp add: download_update_def urlretrieve_def Let_def)

lemma url_update_fails:
  assumes "self_update e config params max_chars fs = (Inr d, fs')"
    and "getv params ''url'' = JStr url" "strip url \<noteq> []"
  shows "getv d ''status'' = JStr ''ERROR'' \<and> fs' = fs"
proof -
  have u: "str_strip (py_or (getv params ''url'') (JStr [])) = Inr (strip url)"
    using assms(2,3) by (cases "url = []") (simp_all add: str_strip_def)
  obtain why where "\<And>au k s. verified_update e au (strip url) k s fs = (Inl (UpdateError why), fs)"
    using download_fails [of e "strip url" "work_dir e" fs] by (auto simp: verified_update_def)
  then show ?thesis
    using assms(1,3)
    by (auto simp: self_update_def Let_def u report_def self_error_def split: sum.splits)
qed

text \<open>
  An update from a URL never works: the download passes a keyword that \<open>urlretrieve\<close> does
  not have, so every such request ends with an error before a signature is looked at, and
  nothing is installed.
\<close>

theorem url_update_never_works:
  assumes "self_update e config params max_chars fs = (Inr d, fs')"
    and "getv params ''url'' = JStr url" "strip url \<noteq> []"
  shows "getv d ''status'' = JStr ''ERROR'' \<and> fs' = fs"
  using url_update_fails [OF assms] .

text \<open>
  A rollback that fails is reported as done: the answer says that the backup was restored,
  while the program that failed its check stays installed.
\<close>

theorem failed_rollback_is_reported_done:
  assumes "fs artifact = File new" "fs target = File old" "copies e 0" "copies e 1" "\<not> copies e 2"
    and "post_check e check t = Inr False" "artifact \<noteq> backup_path e target"
    and "apply_update_with_rollback e artifact target check t fs = (r, fs')"
  shows "\<exists>d. r = Inr d \<and> getv d ''rolled_back'' = JBool True \<and> fs' target = File new"
  using assms by (auto simp: apply_update_with_rollback_def Let_def applied_result_def)

text \<open>So \<open>trigger_update\<close> with a URL answers an error whatever the configuration is.\<close>

lemma trigger_with_url_fails:
  assumes "trigger_update proc (\<lambda>c p m. fst (self_update e c p m fs)) sh config params max_chars = Inr d"
    and "getv params ''url'' = JStr url" "strip url \<noteq> []"
  shows "getv d ''status'' = JStr ''ERROR''"
proof -
  have u: "str_strip (py_or (getv params ''url'') (JStr [])) = Inr (strip url)"
    using assms(2,3) by (cases "url = []") (simp_all add: str_strip_def)
  show ?thesis
  proof (cases "getv config ''auto_update''")
    case (JObj au)
    with assms(1,3) have "fst (self_update e config params max_chars fs) = Inr d"
      by (simp add: trigger_update_def u split: if_splits)
    then have "self_update e config params max_chars fs = (Inr d, snd (self_update e config params max_chars fs))"
      by (simp add: prod_eq_iff)
    from url_update_fails [OF this assms(2,3)] show ?thesis by simp
  qed (use assms(1) in \<open>auto simp: trigger_update_def\<close>)
qed

section \<open>Examples\<close>

definition sample_update_env :: update_env where
  "sample_update_env = \<lparr>fetched = (\<lambda>u. Inr ''new''), digest_of = (\<lambda>c. c), update_verify = (\<lambda>k t g. True),
     copies = (\<lambda>n. True), check_run = (\<lambda>c t. Inr 1), updater = (\<lambda>c t. Inr (0, [])), pid_text = ''7'',
     own_binary = ''/bin/agent'', work_dir = ''/tmp/u''\<rparr>"

definition sample_disk :: "string \<Rightarrow> fnode" where
  "sample_disk = (\<lambda>p. if p = ''/new'' then File ''new'' else if p = ''/bin/agent'' then File ''old'' else NoFile)"

lemma sample_check_fails: "post_check (sample_update_env\<lparr>copies := f\<rparr>) (JStr ''check'') t = Inr False"
proof -
  have "strip ''check'' = ''check''" by code_simp
  then show ?thesis by (simp add: post_check_def str_strip_def sample_update_env_def)
qed


theorem url_update_never_works_witness:
  "getv (projr (fst (self_update sample_update_env [] [(''url'', JStr ''https://h/u'')] 100 sample_disk))) ''status'' = JStr ''ERROR''
   \<and> snd (self_update sample_update_env [] [(''url'', JStr ''https://h/u'')] 100 sample_disk) = sample_disk"
proof (rule url_update_never_works)
  show "strip ''https://h/u'' \<noteq> []" by code_simp
  have "fst (self_update sample_update_env [] [(''url'', JStr ''https://h/u'')] 100 sample_disk) =
      Inr (projr (fst (self_update sample_update_env [] [(''url'', JStr ''https://h/u'')] 100 sample_disk)))"
    by (simp add: self_update_def Let_def str_strip_def case_prod_unfold)
  then show "self_update sample_update_env [] [(''url'', JStr ''https://h/u'')] 100 sample_disk =
      (Inr (projr (fst (self_update sample_update_env [] [(''url'', JStr ''https://h/u'')] 100 sample_disk))),
       snd (self_update sample_update_env [] [(''url'', JStr ''https://h/u'')] 100 sample_disk))"
    by (simp add: prod_eq_iff)
qed simp

theorem failed_rollback_is_reported_done_witness:
  "\<exists>d. fst (apply_update_with_rollback (sample_update_env\<lparr>copies := \<lambda>n. n < 2\<rparr>) ''/new'' ''/bin/agent'' (JStr ''check'') (Fin 60) sample_disk)
       = Inr d \<and> getv d ''rolled_back'' = JBool True \<and>
    snd (apply_update_with_rollback (sample_update_env\<lparr>copies := \<lambda>n. n < 2\<rparr>) ''/new'' ''/bin/agent'' (JStr ''check'') (Fin 60) sample_disk)
       ''/bin/agent'' = File ''new''"
  by (rule failed_rollback_is_reported_done [OF _ _ _ _ _ sample_check_fails _ prod.collapse [symmetric]])
    (simp_all add: sample_disk_def backup_path_def sample_update_env_def)

end
