(* ===== verification/Remediation.thy ===== *)
theory Remediation
  imports Execute_Tool "HOL-Library.Multiset"
begin

text \<open>
  The remediation actions of the agent, \<^verbatim>\<open>colsoft_tools/remediation.py\<close>: killing
  processes, blocking an address, isolating the host and running a script of the catalogue.
  A command line is an argument of \<open>run_cmd\<close>, which gives its exit code and output with the
  new state of the machine's firewall, of any type; the file with the isolation and the timers
  that end it are state. The clock and the processes of the machine are inputs. A write of the
  state file that fails leaves the file as it was. Commands that fail to start for another
  reason than a missing program are left out.
\<close>

section \<open>Environment and state\<close>

text \<open>A command line ends with an exit code, is missing, or runs out of time.\<close>

datatype ran = Ran int string string | Missing string | TimedOut string

record 'f rem_env =
  platform :: string
  privileged :: bool
  on_path :: "string \<Rightarrow> bool"
  valid_ip :: "string \<Rightarrow> bool"
  run_cmd :: "string list \<Rightarrow> 'f \<Rightarrow> ran \<times> 'f"
  exc_text :: "py_exc \<Rightarrow> string"
  rem_now :: rat
  can_save :: bool

text \<open>The file of the isolation; a key that is missing reads as its empty value.\<close>

record isolation =
  iso_backend :: "string option"
  iso_rules :: "string list list"
  iso_windows :: "string list"
  iso_until :: "pyfloat option"
  iso_reason :: json
  iso_ts :: rat

datatype rem_timer = RemoveRules "string list list" | RemoveNetsh "string list"

record 'f rem_state =
  firewall :: 'f
  state_file :: "isolation option"
    \<comment> \<open>\<open>None\<close> when the file is missing or cannot be read\<close>
  timers :: "(pyfloat \<times> rem_timer) list"

definition rem_error :: "string \<Rightarrow> string \<Rightarrow> dict" where
  "rem_error tool_name why = [(''tool'', JStr tool_name), (''status'', JStr ''ERROR''), (''error'', JStr why)]"

definition run_tool :: "'f rem_env \<Rightarrow> string list \<Rightarrow> 'f \<Rightarrow> (int \<times> string \<times> string) res \<times> 'f" where
  \<comment> \<open>\<open>_run\<close>\<close>
  "run_tool e cmd fw =
     (case run_cmd e cmd fw of
        (Ran rc out err, fw') \<Rightarrow> (Inr (rc, out, err), fw')
      | (Missing why, fw') \<Rightarrow> (Inr (- 1, [], ''comando no encontrado: '' @ hd cmd), fw')
      | (TimedOut why, fw') \<Rightarrow> (Inl TimeoutError, fw'))"

section \<open>Killing processes\<close>

text \<open>What happens to a process on \<open>terminate\<close>, and then, with \<open>force\<close>, on \<open>kill\<close>.\<close>

datatype fate = Gone | Denied | Ends | Ignores "py_exc option"

record proc =
  p_pid :: int
  p_name :: string
  p_cmd :: string
  p_fate :: fate

definition process_name_matches :: "string \<Rightarrow> string \<Rightarrow> string \<Rightarrow> bool" where
  "process_name_matches target proc_name cmdline =
     (let t = lower (strip target); pname = lower proc_name; cl = lower cmdline;
          t_exe = (if endswith t ''.exe'' then t else t @ ''.exe'');
          p_stem = (if endswith pname ''.exe'' then take (length pname - 4) pname else pname) in
      t \<noteq> [] \<and> (contains pname t \<or> t_exe = pname \<or> t = p_stem \<or> contains cl t \<or> contains cl t_exe))"

definition terminate :: "int \<Rightarrow> bool \<Rightarrow> string \<Rightarrow> proc \<Rightarrow> int list \<times> string list \<Rightarrow> (int list \<times> string list) res" where
  \<comment> \<open>processes killed so far and errors\<close>
  "terminate my_pid force label p acc =
     (case acc of (killed, errs) \<Rightarrow>
      if p_pid p = my_pid
      then Inr (killed, errs @ [''rechazado: no se termina al propio agente (pid='' @ int_str my_pid @ '')''])
      else
       (case p_fate p of
          Gone \<Rightarrow> Inr (killed, errs @ [label @ '': proceso inexistente''])
        | Denied \<Rightarrow> Inr (killed, errs @ [label @ '': permisos insuficientes''])
        | Ends \<Rightarrow> Inr (killed @ [p_pid p], errs)
        | Ignores k \<Rightarrow>
            (if \<not> force then Inr (killed, errs @ [''pid '' @ int_str (p_pid p) @ '' no termin'' @ [CHR 0xF3] @ '' (use force=true)''])
             else (case k of None \<Rightarrow> Inr (killed @ [p_pid p], errs) | Some x \<Rightarrow> Inl x))))"

fun terminate_all :: "int \<Rightarrow> bool \<Rightarrow> string \<Rightarrow> proc list \<Rightarrow> int list \<times> string list \<Rightarrow> (int list \<times> string list) res" where
  "terminate_all my_pid force target [] acc = Inr acc"
| "terminate_all my_pid force target (p # ps) acc =
     (if process_name_matches target (p_name p) (p_cmd p) then
        res_bind (terminate my_pid force (''name='' @ str_repr target @ '' pid='' @ int_str (p_pid p)) p acc)
          (\<lambda>acc. terminate_all my_pid force target ps acc)
      else terminate_all my_pid force target ps acc)"

definition kill_report :: "string \<Rightarrow> int list \<times> string list \<Rightarrow> dict" where
  "kill_report os acc =
     [(''tool'', JStr ''kill_process''), (''status'', JStr (if fst acc \<noteq> [] then ''OK'' else ''ERROR'')), (''os'', JStr os),
      (''killed'', JList (map JInt (fst acc))), (''errors'', JList (map JStr (snd acc))),
      (''error'', if snd acc = [] then JNull else JStr (join ''; '' (snd acc)))]"

definition kill_process :: "'f rem_env \<Rightarrow> int \<Rightarrow> proc list \<Rightarrow> json \<Rightarrow> json \<Rightarrow> bool \<Rightarrow> dict" where
  \<comment> \<open>the agent's own process id, the running processes, \<open>pid\<close>, \<open>name\<close> and \<open>force\<close>\<close>
  "kill_process e my_pid procs pid nm force =
     (let finish = (\<lambda>r. case r of Inl x \<Rightarrow> rem_error ''kill_process'' (exc_text e x) | Inr acc \<Rightarrow> kill_report (platform e) acc) in
      if pid \<noteq> JNull then
        (case py_int pid of
           Inl x \<Rightarrow> rem_error ''kill_process''
             (if x = ValueError \<or> x = TypeError then ''pid inv'' @ [CHR 0xE1] @ ''lido: '' @ py_repr pid else exc_text e x)
         | Inr i \<Rightarrow>
            (if i < 0 then rem_error ''kill_process'' (''pid inv'' @ [CHR 0xE1] @ ''lido: '' @ py_repr pid) else
             case find (\<lambda>p. p_pid p = i) procs of
               None \<Rightarrow> rem_error ''kill_process'' (''proceso con pid='' @ py_str pid @ '' no existe'')
             | Some p \<Rightarrow> finish (terminate my_pid force (''pid '' @ py_str pid) p ([], []))))
      else if truthy nm then
        (let target = strip (py_str nm) in
         if target = [] then rem_error ''kill_process'' (''name vac'' @ [CHR 0xED] @ ''o'')
         else if \<not> list_ex (\<lambda>p. process_name_matches target (p_name p) (p_cmd p)) procs
         then rem_error ''kill_process'' (''no se encontr'' @ [CHR 0xF3] @ '' ning'' @ [CHR 0xFA] @ ''n proceso con name='' @ str_repr target)
         else finish (terminate_all my_pid force target procs ([], [])))
      else rem_error ''kill_process'' (''se requiere '' @ str_repr ''pid'' @ '' o '' @ str_repr ''name''))"

section \<open>Blocking an address\<close>

definition normalize_direction :: "string \<Rightarrow> string option" where
  "normalize_direction direction =
     (let raw = lower (strip (if direction = [] then ''input'' else direction));
          mapped = (case map_of [(''in'', ''input''), (''inbound'', ''input''), (''out'', ''output''), (''outbound'', ''output''),
                                 (''fwd'', ''forward'')] raw of None \<Rightarrow> raw | Some m \<Rightarrow> m) in
      if mapped \<in> set [''input'', ''output'', ''forward''] then Some mapped else None)"

definition chain_of :: "string \<Rightarrow> string" where
  "chain_of mapped = (if mapped = ''input'' then ''INPUT'' else if mapped = ''output'' then ''OUTPUT'' else ''FORWARD'')"

definition drop_rule :: "string \<Rightarrow> string \<Rightarrow> string \<Rightarrow> string list" where
  \<comment> \<open>the arguments of iptables for an action, a direction and an address\<close>
  "drop_rule action mapped ip =
     [if action = ''block'' then ''-A'' else ''-D'', chain_of mapped, if mapped \<in> set [''input'', ''forward''] then ''-s'' else ''-d'',
      ip, ''-j'', ''DROP'']"

definition block_rule_name :: "string \<Rightarrow> string \<Rightarrow> string" where
  "block_rule_name d ip = replace_char (CHR '':'') ''-'' (''robin-block-'' @ d @ ''-'' @ ip)"

definition netsh_rule :: "string \<Rightarrow> string \<Rightarrow> string \<Rightarrow> string list" where
  "netsh_rule action d ip =
     (if action = ''block'' then
        [''netsh'', ''advfirewall'', ''firewall'', ''add'', ''rule'', ''name='' @ block_rule_name d ip, ''dir='' @ d,
         ''action=block'', ''remoteip='' @ ip]
      else [''netsh'', ''advfirewall'', ''firewall'', ''delete'', ''rule'', ''name='' @ block_rule_name d ip])"

fun run_all :: "'f rem_env \<Rightarrow> string list list \<Rightarrow> 'f \<Rightarrow> (int \<times> string \<times> string) list res \<times> 'f" where
  "run_all e [] fw = (Inr [], fw)"
| "run_all e (c # cs) fw =
     (case run_tool e c fw of
        (Inl x, fw) \<Rightarrow> (Inl x, fw)
      | (Inr r, fw) \<Rightarrow> (case run_all e cs fw of (Inl x, fw) \<Rightarrow> (Inl x, fw) | (Inr rs, fw) \<Rightarrow> (Inr (r # rs), fw)))"

definition first_text :: "string \<Rightarrow> string \<Rightarrow> string \<Rightarrow> string" where
  \<comment> \<open>\<open>a or b or c\<close>\<close>
  "first_text a b c = (if a \<noteq> [] then a else if b \<noteq> [] then b else c)"

definition firewall_windows :: "'f rem_env \<Rightarrow> string \<Rightarrow> string \<Rightarrow> string \<Rightarrow> 'f \<Rightarrow> dict res \<times> 'f" where
  "firewall_windows e action ip direction fw =
     (let t = action @ ''_ip''; dirs = (if direction = ''forward'' then [''in'', ''out''] else if direction = ''input'' then [''in''] else [''out'']);
          cmds = map (\<lambda>d. netsh_rule action d ip) dirs in
      if \<not> on_path e ''netsh'' then (Inr (rem_error t (''netsh no est'' @ [CHR 0xE1] @ '' en PATH'') @ [(''os'', JStr ''Windows'')]), fw)
      else if \<not> privileged e
      then (Inr (rem_error t ''se requiere Administrador para netsh advfirewall'' @ [(''os'', JStr ''Windows'')]), fw)
      else
       (case run_all e cmds fw of
          (Inl x, fw) \<Rightarrow> (Inl x, fw)
        | (Inr rs, fw) \<Rightarrow>
           (let errs = map (\<lambda>(rc, out, err). take 300 (strip (first_text err out (''netsh fall'' @ [CHR 0xF3])))) (filter (\<lambda>r. fst r \<noteq> 0) rs);
                applied = map (\<lambda>(c, r). join '' '' c) (filter (\<lambda>(c, r). fst r = 0) (zip cmds rs)) in
            (Inr (if errs \<noteq> [] \<and> applied = []
                  then rem_error t (join ''; '' errs) @ [(''os'', JStr ''Windows''), (''backend'', JStr ''netsh''),
                         (''direction'', JStr direction), (''ip'', JStr ip)]
                  else [(''tool'', JStr t), (''status'', JStr ''OK''), (''os'', JStr ''Windows''), (''backend'', JStr ''netsh''),
                        (''action'', JStr action), (''direction'', JStr direction), (''ip'', JStr ip),
                        (''rule'', JStr (join ''; '' applied)), (''rules'', JList (map JStr applied)),
                        (''error'', if errs = [] then JNull else JStr (join ''; '' errs))]), fw))))"

definition firewall_rule :: "'f rem_env \<Rightarrow> string \<Rightarrow> string \<Rightarrow> string \<Rightarrow> 'f \<Rightarrow> dict res \<times> 'f" where
  "firewall_rule e action ip direction fw =
     (let t = action @ ''_ip'' in
      case normalize_direction direction of
        None \<Rightarrow> (Inr (rem_error t (''direction inv'' @ [CHR 0xE1] @ ''lido: '' @ str_repr direction @ '' (input|output|forward)'')), fw)
      | Some mapped \<Rightarrow>
         (if \<not> valid_ip e ip then (Inr (rem_error t (''ip inv'' @ [CHR 0xE1] @ ''lida: '' @ str_repr ip)), fw)
          else if platform e = ''Windows'' then firewall_windows e action ip mapped fw
          else if platform e \<noteq> ''Linux'' then
            (Inr [(''tool'', JStr t), (''status'', JStr ''UNSUPPORTED''), (''os'', JStr (platform e)),
                  (''error'', JStr (''firewall no implementado en '' @ platform e @ '' (Linux iptables / Windows netsh)''))], fw)
          else if \<not> privileged e then (Inr (rem_error t ''se requiere root para modificar iptables'' @ [(''os'', JStr ''Linux'')]), fw)
          else if \<not> on_path e ''iptables'' then (Inr (rem_error t (''iptables no est'' @ [CHR 0xE1] @ '' instalado'')), fw)
          else
           (let rule = drop_rule action mapped ip; line = ''iptables '' @ join '' '' rule in
            case run_tool e (''iptables'' # rule) fw of
              (Inl x, fw) \<Rightarrow> (Inl x, fw)
            | (Inr (rc, out, err), fw) \<Rightarrow>
               (Inr (if rc \<noteq> 0
                     then rem_error t (first_text (strip err) [] (''iptables fall'' @ [CHR 0xF3])) @ [(''os'', JStr ''Linux''),
                            (''direction'', JStr mapped), (''ip'', JStr ip), (''returncode'', JInt rc)]
                     else [(''tool'', JStr t), (''status'', JStr ''OK''), (''os'', JStr ''Linux''), (''backend'', JStr ''iptables''),
                           (''action'', JStr action), (''direction'', JStr mapped), (''ip'', JStr ip),
                           (''rule'', JStr line), (''rules'', JList [JStr line]), (''error'', JNull)]), fw))))"

definition block_ip :: "'f rem_env \<Rightarrow> string \<Rightarrow> string \<Rightarrow> 'f \<Rightarrow> dict res \<times> 'f" where
  "block_ip e = firewall_rule e ''block''"

definition unblock_ip :: "'f rem_env \<Rightarrow> string \<Rightarrow> string \<Rightarrow> 'f \<Rightarrow> dict res \<times> 'f" where
  "unblock_ip e = firewall_rule e ''unblock''"

section \<open>Services\<close>

definition is_eol :: "char \<Rightarrow> bool" where
  "is_eol c \<longleftrightarrow> code_point c \<in> set [10, 11, 12, 13, 28, 29, 30, 133]"

fun split_lines :: "string \<Rightarrow> string \<Rightarrow> string list" where
  \<comment> \<open>\<open>splitlines\<close>; the first argument is the current line, reversed\<close>
  "split_lines acc [] = (if acc = [] then [] else [rev acc])"
| "split_lines acc (c # s) =
     (if is_eol c
      then rev acc # split_lines [] (if code_point c = 13 \<and> s \<noteq> [] \<and> code_point (hd s) = 10 then tl s else s)
      else split_lines (c # acc) s)"

definition unit_props :: "string \<Rightarrow> (string \<times> string) list" where
  \<comment> \<open>the last line of a key counts\<close>
  "unit_props out =
     rev (map (\<lambda>l. (takeWhile (\<lambda>c. c \<noteq> CHR ''='') l, tl (dropWhile (\<lambda>c. c \<noteq> CHR ''='') l)))
       (filter (\<lambda>l. CHR ''='' \<in> set l) (split_lines [] (strip out))))"

definition opt_text :: "string option \<Rightarrow> json" where
  "opt_text t = (case t of None \<Rightarrow> JNull | Some x \<Rightarrow> JStr x)"

definition service_failed :: "string \<Rightarrow> string \<Rightarrow> int \<times> string \<times> string \<Rightarrow> string \<Rightarrow> dict" where
  "service_failed action nm r why =
     (case r of (rc, out, err) \<Rightarrow>
       [(''tool'', JStr (action @ ''_service'')), (''status'', JStr ''ERROR''), (''action'', JStr action),
        (''service_name'', JStr nm), (''returncode'', JInt rc), (''error'', JStr (first_text (strip err) (strip out) why))])"

definition service_linux :: "'f rem_env \<Rightarrow> string \<Rightarrow> string \<Rightarrow> 'f \<Rightarrow> dict res \<times> 'f" where
  "service_linux e action nm fw =
     (case run_tool e [''systemctl'', action, nm] fw of
        (Inl x, fw) \<Rightarrow> (Inl x, fw)
      | (Inr r, fw) \<Rightarrow>
        (if fst r \<noteq> 0 then (Inr (service_failed action nm r (''systemctl fall'' @ [CHR 0xF3])), fw)
         else (case run_tool e [''systemctl'', ''show'', nm, ''--no-page'', ''--property=ActiveState,SubState''] fw of
            (Inl x, fw) \<Rightarrow> (Inl x, fw)
          | (Inr (_, out, _), fw) \<Rightarrow>
             (Inr [(''tool'', JStr (action @ ''_service'')), (''status'', JStr ''OK''), (''os'', JStr ''Linux''),
                   (''backend'', JStr ''systemctl''), (''action'', JStr action), (''service_name'', JStr nm), (''returncode'', JInt 0),
                   (''active_state'', opt_text (map_of (unit_props out) ''ActiveState'')),
                   (''sub_state'', opt_text (map_of (unit_props out) ''SubState'')), (''error'', JNull)], fw))))"

definition scm_state :: "string option \<Rightarrow> string option \<times> string option" where
  \<comment> \<open>\<open>_windows_scm_state\<close>: the active state and the sub state; all texts it looks for are upper case\<close>
  "scm_state raw =
     (let has_word = (\<lambda>w. contains (lower (case raw of None \<Rightarrow> [] | Some t \<Rightarrow> t)) (lower w)) in
      if has_word ''RUNNING'' then (Some ''running'', Some ''running'')
      else if has_word ''STOPPED'' then (Some ''stopped'', Some ''dead'')
      else if has_word ''START_PENDING'' then (Some ''activating'', Some ''start-pending'')
      else if has_word ''STOP_PENDING'' then (Some ''deactivating'', Some ''stop-pending'')
      else if has_word ''PAUSED'' then (Some ''inactive'', Some ''paused'')
      else (None, None))"

definition sc_command :: "'f rem_env \<Rightarrow> string \<Rightarrow> string \<Rightarrow> 'f \<Rightarrow> (int \<times> string \<times> string) res \<times> 'f" where
  "sc_command e action nm fw =
     (if action = ''restart'' then
        (case run_all e [[''sc'', ''stop'', nm], [''sc'', ''start'', nm]] fw of
           (Inl x, fw) \<Rightarrow> (Inl x, fw)
         | (Inr rs, fw) \<Rightarrow> (Inr (if fst (rs ! 1) = 0 then rs ! 1 else rs ! 0), fw))
      else run_tool e [''sc'', action, nm] fw)"

definition service_windows :: "'f rem_env \<Rightarrow> string \<Rightarrow> string \<Rightarrow> 'f \<Rightarrow> dict res \<times> 'f" where
  "service_windows e action nm fw =
     (case sc_command e action nm fw of
        (Inl x, fw) \<Rightarrow> (Inl x, fw)
      | (Inr r, fw) \<Rightarrow>
        (if fst r \<noteq> 0 then (Inr (service_failed action nm r (''sc fall'' @ [CHR 0xF3])), fw)
         else (case run_tool e [''sc'', ''query'', nm] fw of
            (Inl x, fw) \<Rightarrow> (Inl x, fw)
          | (Inr (_, out, _), fw) \<Rightarrow>
             (let st = map_option strip (find (\<lambda>l. contains l ''STATE'') (split_lines [] out)) in
              (Inr [(''tool'', JStr (action @ ''_service'')), (''status'', JStr ''OK''), (''os'', JStr ''Windows''),
                    (''backend'', JStr ''sc''), (''action'', JStr action), (''service_name'', JStr nm), (''returncode'', JInt 0),
                    (''raw'', JStr (strip (fst (snd r)))), (''raw_state'', opt_text st),
                    (''active_state'', opt_text (fst (scm_state st))), (''sub_state'', opt_text (snd (scm_state st))),
                    (''error'', JNull)], fw)))))"

definition after_word :: "string \<Rightarrow> string" where
  "after_word s = lstrip (dropWhile (\<lambda>c. \<not> is_space c) (lstrip s))"

definition launchctl_row :: "string \<Rightarrow> string \<Rightarrow> (string \<times> string) option" where
  \<comment> \<open>the first service of \<open>_service_status_macos\<close> whose label contains the name: active state and sub state\<close>
  "launchctl_row nm out =
     (case filter (\<lambda>l. after_word (after_word l) \<noteq> [] \<and> contains (after_word (after_word l)) nm) (tl (split_lines [] (strip out))) of
        [] \<Rightarrow> None
      | l # _ \<Rightarrow> Some (if split_words l ! 0 \<noteq> ''-'' then ''running'' else ''stopped'', split_words l ! 1))"

definition service_macos :: "'f rem_env \<Rightarrow> string \<Rightarrow> string \<Rightarrow> 'f \<Rightarrow> dict res \<times> 'f" where
  "service_macos e action nm fw =
     (let cmd = (if action = ''start'' then [''launchctl'', ''load'', nm] else if action = ''stop'' then [''launchctl'', ''unload'', nm]
                 else [''launchctl'', ''kickstart'', ''-k system/'' @ nm]) in
      case run_all e [cmd, [''launchctl'', ''list'']] fw of
        (Inl x, fw) \<Rightarrow> (Inl x, fw)
      | (Inr rs, fw) \<Rightarrow>
         (let (rc, _, err) = rs ! 0; row = launchctl_row nm (fst (snd (rs ! 1))) in
          (Inr [(''tool'', JStr (action @ ''_service'')), (''status'', JStr (if rc = 0 then ''OK'' else ''ERROR'')),
                (''os'', JStr ''Darwin''), (''backend'', JStr ''launchctl''), (''action'', JStr action), (''service_name'', JStr nm),
                (''returncode'', JInt rc), (''active_state'', opt_text (map_option fst row)),
                (''sub_state'', opt_text (map_option snd row)),
                (''error'', if rc = 0 then JNull else JStr (first_text (strip err) [] (''launchctl fall'' @ [CHR 0xF3])))], fw)))"

definition control_service :: "'f rem_env \<Rightarrow> string \<Rightarrow> string \<Rightarrow> 'f \<Rightarrow> dict \<times> 'f" where
  "control_service e raw_action raw_name fw =
     (let action = lower (strip raw_action); nm = strip raw_name; t = action @ ''_service'' in
      if action \<notin> set [''start'', ''stop'', ''restart''] then (rem_error ''start_service'' (''acci'' @ [CHR 0xF3] @ ''n inv'' @ [CHR 0xE1] @ ''lida: '' @ str_repr action), fw)
      else if nm = [] then (rem_error t (''se requiere '' @ str_repr ''service_name''), fw)
      else
       (case (if platform e = ''Linux'' then service_linux e action nm fw
              else if platform e = ''Windows'' then service_windows e action nm fw
              else if platform e = ''Darwin'' then service_macos e action nm fw
              else (Inr (rem_error t (''SO no soportado: '' @ platform e)), fw)) of
          (Inl x, fw) \<Rightarrow> (rem_error t (exc_text e x), fw) | (Inr d, fw) \<Rightarrow> (d, fw)))"

section \<open>Isolating the host\<close>

subsection \<open>Rules\<close>

definition load_state :: "'f rem_state \<Rightarrow> isolation" where
  "load_state st =
     (case state_file st of
        None \<Rightarrow> \<lparr>iso_backend = None, iso_rules = [], iso_windows = [], iso_until = None, iso_reason = JNull, iso_ts = 0\<rparr>
      | Some s \<Rightarrow> s)"

definition save_state :: "'f rem_env \<Rightarrow> isolation \<Rightarrow> 'f rem_state \<Rightarrow> 'f rem_state" where
  "save_state e s st = (if can_save e then st\<lparr>state_file := Some s\<rparr> else st)"

definition iptables_safe :: "'f rem_env \<Rightarrow> string list \<Rightarrow> 'f \<Rightarrow> string \<times> 'f" where
  \<comment> \<open>only the error output counts, not the exit code\<close>
  "iptables_safe e args fw =
     (case run_cmd e (''iptables'' # args) fw of
        (Ran rc out err, fw') \<Rightarrow> (strip err, fw') | (Missing why, fw') \<Rightarrow> (why, fw') | (TimedOut why, fw') \<Rightarrow> (why, fw'))"

fun apply_rules :: "'f rem_env \<Rightarrow> string list list \<Rightarrow> 'f \<Rightarrow> string list \<times> 'f" where
  "apply_rules e [] fw = ([], fw)"
| "apply_rules e (r # rs) fw =
     (let (err, fw) = iptables_safe e r fw; (errs, fw) = apply_rules e rs fw in
      (if err = [] then errs else (join '' '' r @ '': '' @ err) # errs, fw))"

definition deletion :: "string list \<Rightarrow> string list" where
  "deletion rule = (if hd rule = ''-I'' then ''-D'' # tl rule else rule)"

definition remove_rules :: "'f rem_env \<Rightarrow> string list list \<Rightarrow> 'f \<Rightarrow> string list \<times> 'f" where
  "remove_rules e rules = apply_rules e (map deletion (filter (\<lambda>r. r \<noteq> []) (rev rules)))"

definition chain_rules :: "string \<Rightarrow> string \<Rightarrow> string list list" where
  "chain_rules manager chain =
     [[''-I'', chain, ''1'', ''-j'', ''DROP''],
      [''-I'', chain, ''1'', ''-m'', ''conntrack'', ''--ctstate'', ''ESTABLISHED,RELATED'', ''-j'', ''ACCEPT''],
      [''-I'', chain, ''1'', if chain = ''INPUT'' then ''-i'' else ''-o'', ''lo'', ''-j'', ''ACCEPT''],
      [''-I'', chain, ''1'', if chain = ''INPUT'' then ''-s'' else ''-d'', manager, ''-j'', ''ACCEPT'']]"

definition isolate_rules :: "string \<Rightarrow> string list list" where
  "isolate_rules manager = chain_rules manager ''INPUT'' @ chain_rules manager ''OUTPUT'' @ [[''-I'', ''FORWARD'', ''1'', ''-j'', ''DROP'']]"

definition netsh_ok :: "'f rem_env \<Rightarrow> string list \<Rightarrow> 'f \<Rightarrow> string res \<times> 'f" where
  "netsh_ok e args fw =
     (case run_tool e (''netsh'' # args) fw of
        (Inl x, fw) \<Rightarrow> (Inl x, fw)
      | (Inr (rc, out, err), fw) \<Rightarrow>
         (Inr (if rc \<noteq> 0 then take 400 (strip (first_text err out (''netsh fall'' @ [CHR 0xF3]))) else []), fw))"

fun netsh_all :: "'f rem_env \<Rightarrow> string list list \<Rightarrow> 'f \<Rightarrow> string list res \<times> 'f" where
  \<comment> \<open>the errors, empty for a command that worked\<close>
  "netsh_all e [] fw = (Inr [], fw)"
| "netsh_all e (c # cs) fw =
     (case netsh_ok e c fw of
        (Inl x, fw) \<Rightarrow> (Inl x, fw)
      | (Inr err, fw) \<Rightarrow> (case netsh_all e cs fw of (Inl x, fw) \<Rightarrow> (Inl x, fw) | (Inr errs, fw) \<Rightarrow> (Inr (err # errs), fw)))"

definition WIN_ISOLATE_RULES :: "string list" where
  "WIN_ISOLATE_RULES = [''robin-isolate-mgr-in'', ''robin-isolate-mgr-out'', ''robin-isolate-lo-in'', ''robin-isolate-lo-out'']"

definition remove_windows_isolate :: "'f rem_env \<Rightarrow> string list \<Rightarrow> 'f \<Rightarrow> string list res \<times> 'f" where
  "remove_windows_isolate e names fw =
     (case netsh_all e (map (\<lambda>n. [''advfirewall'', ''firewall'', ''delete'', ''rule'', ''name='' @ n]) names
                        @ [[''advfirewall'', ''set'', ''allprofiles'', ''firewallpolicy'', ''notconfigured'']]) fw of
        (Inl x, fw) \<Rightarrow> (Inl x, fw)
      | (Inr errs, fw) \<Rightarrow>
         (Inr (map (\<lambda>(n, err). n @ '': '' @ err)
                 (filter (\<lambda>(n, err). err \<noteq> [] \<and> \<not> contains err ''No rules match'' \<and> \<not> contains (lower err) ''ninguna'') (zip names errs))
               @ (if last errs \<noteq> [] then [''policy: '' @ last errs] else [])), fw))"

definition remove_previous :: "'f rem_env \<Rightarrow> bool \<Rightarrow> isolation \<Rightarrow> 'f \<Rightarrow> string list res \<times> 'f" where
  \<comment> \<open>what \<open>isolate_host\<close> and \<open>restore_isolation\<close> do with the recorded rules; Windows first, when asked\<close>
  "remove_previous e win_first s fw =
     (let linux = (\<lambda>fw. if iso_rules s = [] then (Inr [], fw) else (case remove_rules e (iso_rules s) fw of (errs, fw) \<Rightarrow> (Inr errs, fw)));
          windows = (\<lambda>fw. if iso_windows s = [] then (Inr [], fw) else remove_windows_isolate e (iso_windows s) fw);
          (first, second) = (if win_first then (windows, linux) else (linux, windows)) in
      case first fw of
        (Inl x, fw) \<Rightarrow> (Inl x, fw)
      | (Inr errs, fw) \<Rightarrow> (case second fw of (Inl x, fw) \<Rightarrow> (Inl x, fw) | (Inr errs', fw) \<Rightarrow> (Inr (errs @ errs'), fw)))"

subsection \<open>The commands\<close>

definition iso_from_unix :: "pyfloat option \<Rightarrow> json res" where
  "iso_from_unix ts =
     (case ts of
        None \<Rightarrow> Inr JNull
      | Some (Fin t) \<Rightarrow>
          (let us = round_half_even (t * 1000000) in
           if \<bar>t\<bar> \<ge> 2 ^ 63 then Inl OverflowError
           else Inr (if year_start_us \<le> us \<and> us < year_end_us then JStr (isoformat us) else JNull))
      | Some NaN \<Rightarrow> Inr JNull
      | Some _ \<Rightarrow> Inl OverflowError)"

fun later :: "rat \<Rightarrow> pyfloat \<Rightarrow> pyfloat" where
  \<comment> \<open>\<open>time.time() + dur\<close>\<close>
  "later now (Fin d) = Fin (now + d)"
| "later now d = d"

definition until_of :: "'f rem_env \<Rightarrow> pyfloat \<Rightarrow> pyfloat option" where
  "until_of e dur = (if flt (Fin 0) dur then Some (later (rem_now e) dur) else None)"

definition start_timer :: "'f rem_env \<Rightarrow> pyfloat \<Rightarrow> rem_timer \<Rightarrow> 'f rem_state \<Rightarrow> 'f rem_state" where
  \<comment> \<open>a thread that sleeps at least a second; a sleep that is infinite or NaN raises in the thread and ends it\<close>
  "start_timer e dur t st =
     (if dur = PInf \<or> dur = NaN then st else st\<lparr>timers := timers st @ [(later (rem_now e) (fmax dur (Fin 1)), t)]\<rparr>)"

definition duration_of :: "json \<Rightarrow> json \<Rightarrow> pyfloat res" where
  "duration_of duration duration_seconds =
     (case py_float (py_or (if duration \<noteq> JNull then duration else duration_seconds) (JInt 0)) of
        Inr d \<Rightarrow> Inr d
      | Inl x \<Rightarrow> if x = TypeError \<or> x = ValueError then Inr (Fin 0) else Inl x)"

definition isolation_ok :: "string \<Rightarrow> string \<Rightarrow> json \<Rightarrow> string \<Rightarrow> string list \<Rightarrow> pyfloat \<Rightarrow> json \<Rightarrow> dict" where
  "isolation_ok os backend reason manager rules dur expires =
     [(''tool'', JStr ''isolate_host''), (''status'', JStr ''OK''), (''os'', JStr os), (''backend'', JStr backend),
      (''reason'', reason), (''manager_host'', JStr manager), (''rules'', JList (map JStr rules)), (''expires_at'', expires),
      (''restore_after_s'', if flt (Fin 0) dur then JFloat dur else JNull), (''error'', JNull)]"

definition not_applied :: "string \<Rightarrow> string list \<Rightarrow> dict" where
  "not_applied os errs = rem_error ''isolate_host'' (''no se pudo aplicar el aislamiento: '' @ join ''; '' errs) @ [(''os'', JStr os)]"

definition not_saved :: "string \<Rightarrow> dict" where
  "not_saved os = rem_error ''isolate_host'' (''aislamiento aplicado pero no se pudo persistir el estado; se revirti'' @ [CHR 0xF3]) @ [(''os'', JStr os)]"

definition isolate_linux :: "'f rem_env \<Rightarrow> json \<Rightarrow> pyfloat \<Rightarrow> string \<Rightarrow> 'f rem_state \<Rightarrow> dict res \<times> 'f rem_state" where
  \<comment> \<open>\<open>isolate_host\<close> from the loading of the state on\<close>
  "isolate_linux e reason dur manager st =
     (let s = load_state st; rules = isolate_rules manager; until = until_of e dur in
      case remove_previous e False s (firewall st) of
        (Inl x, fw) \<Rightarrow> (Inl x, st\<lparr>firewall := fw\<rparr>)
      | (Inr _, fw) \<Rightarrow>
       (case apply_rules e rules fw of
          (errs, fw) \<Rightarrow>
           (if errs \<noteq> [] then (Inr (not_applied ''Linux'' errs), st\<lparr>firewall := snd (remove_rules e rules fw)\<rparr>)
            else
             (let st1 = (if until \<noteq> None then start_timer e dur (RemoveRules rules) st else st);
                  s1 = s\<lparr>iso_backend := Some ''iptables'', iso_rules := rules, iso_windows := [], iso_until := until,
                         iso_reason := reason, iso_ts := rem_now e\<rparr> in
              if \<not> can_save e then (Inr (not_saved ''Linux''), st1\<lparr>firewall := snd (remove_rules e rules fw)\<rparr>)
              else (res_bind (iso_from_unix until)
                      (\<lambda>t. Inr (isolation_ok ''Linux'' ''iptables'' reason manager (map (\<lambda>r. ''iptables '' @ join '' '' r) rules) dur t)),
                    save_state e s1 (st1\<lparr>firewall := fw\<rparr>))))))"

definition windows_commands :: "string \<Rightarrow> string list list" where
  "windows_commands manager =
     [''advfirewall'', ''set'', ''allprofiles'', ''firewallpolicy'', ''blockinbound,blockoutbound''] #
     map (\<lambda>(n, d, ip). [''advfirewall'', ''firewall'', ''add'', ''rule'', ''name='' @ n, ''dir='' @ d, ''action=allow'', ''remoteip='' @ ip])
       [(WIN_ISOLATE_RULES ! 0, ''in'', manager), (WIN_ISOLATE_RULES ! 1, ''out'', manager),
        (WIN_ISOLATE_RULES ! 2, ''in'', ''127.0.0.1''), (WIN_ISOLATE_RULES ! 3, ''out'', ''127.0.0.1'')]"

definition isolate_windows :: "'f rem_env \<Rightarrow> json \<Rightarrow> pyfloat \<Rightarrow> string \<Rightarrow> 'f rem_state \<Rightarrow> dict res \<times> 'f rem_state" where
  "isolate_windows e reason dur manager st =
     (let s = load_state st; cmds = windows_commands manager; until = until_of e dur;
          undo = (\<lambda>d st fw. case remove_windows_isolate e WIN_ISOLATE_RULES fw of
                    (Inl x, fw) \<Rightarrow> (Inl x, st\<lparr>firewall := fw\<rparr>) | (Inr _, fw) \<Rightarrow> (Inr d, st\<lparr>firewall := fw\<rparr>)) in
      if \<not> on_path e ''netsh'' then (Inr (rem_error ''isolate_host'' (''netsh no est'' @ [CHR 0xE1] @ '' en PATH'') @ [(''os'', JStr ''Windows'')]), st)
      else if \<not> privileged e
      then (Inr (rem_error ''isolate_host'' ''se requiere Administrador para aislar con Windows Firewall'' @ [(''os'', JStr ''Windows'')]), st)
      else
       (case remove_previous e True s (firewall st) of
          (Inl x, fw) \<Rightarrow> (Inl x, st\<lparr>firewall := fw\<rparr>)
        | (Inr _, fw) \<Rightarrow>
         (case netsh_all e cmds fw of
            (Inl x, fw) \<Rightarrow> (Inl x, st\<lparr>firewall := fw\<rparr>)
          | (Inr errs, fw) \<Rightarrow>
             (if filter (\<lambda>x. x \<noteq> []) errs \<noteq> []
              then undo (not_applied ''Windows'' (filter (\<lambda>x. x \<noteq> []) errs) @ [(''backend'', JStr ''netsh'')]) st fw
              else
               (let st1 = (if until \<noteq> None then start_timer e dur (RemoveNetsh WIN_ISOLATE_RULES) st else st);
                    s1 = s\<lparr>iso_backend := Some ''netsh'', iso_rules := [], iso_windows := WIN_ISOLATE_RULES, iso_until := until,
                           iso_reason := reason, iso_ts := rem_now e\<rparr> in
                if \<not> can_save e then undo (not_saved ''Windows'') st1 fw
                else (res_bind (iso_from_unix until)
                        (\<lambda>t. Inr (isolation_ok ''Windows'' ''netsh'' reason manager (map (\<lambda>c. ''netsh '' @ join '' '' c) cmds) dur t)),
                      save_state e s1 (st1\<lparr>firewall := fw\<rparr>)))))))"

definition isolate_host ::
  "'f rem_env \<Rightarrow> json \<Rightarrow> json \<Rightarrow> string \<Rightarrow> json \<Rightarrow> 'f rem_state \<Rightarrow> dict res \<times> 'f rem_state" where
  "isolate_host e reason duration manager_host duration_seconds st =
     (let manager = (if strip manager_host = [] then ''127.0.0.1'' else strip manager_host) in
      if \<not> valid_ip e manager then (Inr (rem_error ''isolate_host'' (''manager_host inv'' @ [CHR 0xE1] @ ''lido: '' @ str_repr manager)), st)
      else
       (case duration_of duration duration_seconds of
          Inl x \<Rightarrow> (Inl x, st)
        | Inr dur \<Rightarrow>
           (if platform e = ''Windows'' then isolate_windows e reason dur manager st
            else if platform e \<noteq> ''Linux'' then
              (Inr [(''tool'', JStr ''isolate_host''), (''status'', JStr ''UNSUPPORTED''), (''os'', JStr (platform e)),
                    (''error'', JStr (''aislamiento no implementado en '' @ platform e @ '' (Linux iptables / Windows netsh)''))], st)
            else if \<not> privileged e then (Inr (rem_error ''isolate_host'' ''se requiere root para aislar la red (iptables)'' @ [(''os'', JStr ''Linux'')]), st)
            else if \<not> on_path e ''iptables'' then (Inr (rem_error ''isolate_host'' (''iptables no est'' @ [CHR 0xE1] @ '' instalado'')), st)
            else isolate_linux e reason dur manager st)))"

definition restore_isolation :: "'f rem_env \<Rightarrow> 'f rem_state \<Rightarrow> dict res \<times> 'f rem_state" where
  "restore_isolation e st =
     (let s = load_state st in
      if iso_rules s = [] \<and> iso_windows s = [] then
        (Inr [(''tool'', JStr ''restore_isolation''), (''status'', JStr ''OK''), (''error'', JNull), (''restored'', JBool False)], st)
      else
       (case remove_previous e False s (firewall st) of
          (Inl x, fw) \<Rightarrow> (Inl x, st\<lparr>firewall := fw\<rparr>)
        | (Inr errs, fw) \<Rightarrow>
           (Inr [(''tool'', JStr ''restore_isolation''), (''status'', JStr (if errs = [] then ''OK'' else ''ERROR'')),
                 (''restored'', JBool True), (''error'', if errs = [] then JNull else JStr (join ''; '' errs))],
            save_state e (s\<lparr>iso_rules := [], iso_windows := [], iso_until := None, iso_backend := None\<rparr>)
              (st\<lparr>firewall := fw\<rparr>))))"

fun fire_timer :: "'f rem_env \<Rightarrow> rem_timer \<Rightarrow> 'f rem_state \<Rightarrow> 'f rem_state" where
  \<comment> \<open>\<open>_restore_isolate\<close>, \<open>_restore_isolate_windows\<close>\<close>
  "fire_timer e (RemoveRules rules) st =
     (let fw = snd (remove_rules e rules (firewall st)) in
      save_state e ((load_state st)\<lparr>iso_rules := [], iso_until := None\<rparr>) (st\<lparr>firewall := fw\<rparr>))"
| "fire_timer e (RemoveNetsh names) st =
     (case remove_windows_isolate e names (firewall st) of
        (Inl x, fw) \<Rightarrow> st\<lparr>firewall := fw\<rparr>
      | (Inr _, fw) \<Rightarrow>
         save_state e ((load_state st)\<lparr>iso_windows := [], iso_until := None, iso_backend := None\<rparr>) (st\<lparr>firewall := fw\<rparr>))"

definition resume_isolation_timer :: "'f rem_env \<Rightarrow> 'f rem_state \<Rightarrow> string option res \<times> 'f rem_state" where
  "resume_isolation_timer e st =
     (let s = load_state st in
      if iso_rules s = [] \<and> iso_windows s = [] then (Inr None, st)
      else
       (case iso_until s of
          None \<Rightarrow> (Inr (Some ''isolated_until_restore''), st)
        | Some until \<Rightarrow>
           (let remaining = later (- rem_now e) until in
            if fle remaining (Fin 0) then
              (case restore_isolation e st of (Inl x, st) \<Rightarrow> (Inl x, st) | (Inr _, st) \<Rightarrow> (Inr (Some ''expired_restored''), st))
            else
              (res_bind (int_of_float remaining) (\<lambda>i. Inr (Some (''timer_resumed_'' @ int_str i @ ''s''))),
               start_timer e remaining (if iso_windows s \<noteq> [] then RemoveNetsh (iso_windows s) else RemoveRules (iso_rules s)) st))))"

section \<open>Running a script\<close>

record script_env =
  is_file :: "string \<Rightarrow> bool"
  is_exec :: "string \<Rightarrow> bool"
  comspec :: string
    \<comment> \<open>the environment variable, empty when it is not set\<close>
  python_exe :: string
    \<comment> \<open>\<open>sys.executable\<close>, or empty\<close>
  run_script :: "string list \<Rightarrow> pyfloat \<Rightarrow> (int \<times> string \<times> string) res"

definition extension :: "string \<Rightarrow> string" where
  \<comment> \<open>\<open>os.path.splitext(p)[1]\<close>: leading dots of the base name do not start an extension\<close>
  "extension p =
     (let b = dropWhile (\<lambda>c. c = CHR ''.'') (basename p) in
      if CHR ''.'' \<in> set b then CHR ''.'' # rev (takeWhile (\<lambda>c. c \<noteq> CHR ''.'') (rev b)) else [])"

definition script_argv :: "script_env \<Rightarrow> string \<Rightarrow> string \<Rightarrow> string list \<Rightarrow> string list" where
  "script_argv e os path args =
     (let ext = lower (extension path) in
      if os = ''Windows'' then
       (if ext = ''.ps1'' then [''powershell'', ''-NoProfile'', ''-ExecutionPolicy'', ''Bypass'', ''-File'', path] @ args
        else if ext \<in> set [''.bat'', ''.cmd''] then [if comspec e = [] then ''cmd.exe'' else comspec e, ''/c'', path] @ args
        else if ext = ''.py'' then [if python_exe e = [] then ''python'' else python_exe e, path] @ args
        else path # args)
      else if is_exec e path then path # args
      else if ext = ''.py'' then [if python_exe e = [] then ''python3'' else python_exe e, path] @ args
      else [''bash'', path] @ args)"

definition script_args :: "json \<Rightarrow> string list" where
  "script_args args = (case args of JList xs \<Rightarrow> map py_str xs | JStr t \<Rightarrow> split_words t | _ \<Rightarrow> [])"

definition script_timeout :: "json \<Rightarrow> pyfloat res" where
  "script_timeout timeout =
     (case py_float (py_or timeout (JInt 120)) of
        Inr t \<Rightarrow> Inr (clampf (Fin 1) (Fin 300) t)
      | Inl x \<Rightarrow> if x = TypeError \<or> x = ValueError then Inr (Fin 120) else Inl x)"

definition execute_script ::
  "script_env \<Rightarrow> string \<Rightarrow> (py_exc \<Rightarrow> string) \<Rightarrow> string \<Rightarrow> json \<Rightarrow> json \<Rightarrow> int \<Rightarrow> int \<Rightarrow> dict res" where
  \<comment> \<open>the last argument is the duration in milliseconds; a missing interpreter is \<open>OSError\<close>\<close>
  "execute_script e os etext path args timeout chars_limit ms =
     (let argv = script_args args; fail = (\<lambda>why. Inr (rem_error ''run_script'' why)) in
      if path = [] \<or> \<not> is_file e path then fail (''script no encontrado en el cat'' @ [CHR 0xE1] @ ''logo: '' @ str_repr path)
      else
       (case script_timeout timeout of
          Inl x \<Rightarrow> Inl x
        | Inr t \<Rightarrow>
           (case run_script e (script_argv e os path argv) t of
              Inl x \<Rightarrow> fail (if x = OSError then ''int'' @ [CHR 0xE9] @ ''rprete/script no disponible para '' @ str_repr path
                             else if x = TimeoutError then ''timeout ('' @ float_repr t @ ''s) excedido ejecutando '' @ str_repr path
                             else etext x)
            | Inr (rc, out, err) \<Rightarrow>
               Inr [(''tool'', JStr ''run_script''), (''status'', JStr (if rc = 0 then ''OK'' else ''ERROR'')),
                    (''script_path'', JStr path), (''args'', JList (map JStr argv)), (''returncode'', JInt rc),
                    (''stdout'', JStr (if chars_limit > 0 \<and> int (length out) > chars_limit
                       then take (nat chars_limit) out @ NL # ''...[truncated to '' @ int_str chars_limit @ '' chars]'' else out)),
                    (''stderr'', if rc = 0 then JNull else JStr (take 2000 err)), (''duration_ms'', JInt ms),
                    (''error'', if rc = 0 then JNull else JStr (first_text (strip err) [] (''returncode='' @ int_str rc)))])))"

section \<open>Properties: processes\<close>

definition fair_kill :: "int \<Rightarrow> proc list \<Rightarrow> (proc \<Rightarrow> bool) \<Rightarrow> int list \<Rightarrow> bool" where
  "fair_kill my procs ok ks \<longleftrightarrow> (\<forall>k \<in> set ks. \<exists>p \<in> set procs. k = p_pid p \<and> k \<noteq> my \<and> ok p)"

lemma terminate_fair:
  assumes "terminate my force label p (killed, errs) = Inr (killed', errs')"
    and "fair_kill my procs ok killed" "p \<in> set procs" "ok p"
  shows "fair_kill my procs ok killed'"
  using assms by (auto simp: terminate_def fair_kill_def split: if_splits fate.splits option.splits)

lemma terminate_all_fair:
  fixes ok :: "proc \<Rightarrow> bool"
  assumes "terminate_all my force target ps acc = Inr acc'"
    and "fair_kill my procs ok (fst acc)" "set ps \<subseteq> set procs"
    and "\<And>p. process_name_matches target (p_name p) (p_cmd p) \<Longrightarrow> ok p"
  shows "fair_kill my procs ok (fst acc')"
  using assms
proof (induction my force target ps acc rule: terminate_all.induct)
  case (2 my force target p ps acc)
  show ?case
  proof (cases "process_name_matches target (p_name p) (p_cmd p)")
    case True
    with "2.prems"(1) obtain a where a: "terminate my force (''name='' @ str_repr target @ '' pid='' @ int_str (p_pid p)) p acc = Inr a"
        "terminate_all my force target ps a = Inr acc'"
      by (auto simp: res_bind_eq_Inr)
    have "fair_kill my procs ok (fst a)"
      using terminate_fair [of my force _ p "fst acc" "snd acc" "fst a" "snd a" procs ok] a(1) "2.prems" True by simp
    then show ?thesis
      using "2.IH"(1) [OF True a(2)] "2.prems" by auto
  next
    case False
    then show ?thesis using "2.IH"(2) "2.prems" by auto
  qed
qed simp

lemma killed_of_report [simp]: "getv (kill_report os acc) ''killed'' = JList (map JInt (fst acc))"
  by (simp add: kill_report_def)

lemma no_killed_in_error [simp]: "getv (rem_error t why) ''killed'' = JNull"
  by (simp add: rem_error_def)

lemma find_SomeD: "find P xs = Some x \<Longrightarrow> x \<in> set xs \<and> P x"
  by (metis find_Some_iff nth_mem)

text \<open>
  Whatever is asked for, every process that a command kills is a running one that it names,
  by its id or by a match of its name, and never the agent itself.
\<close>

theorem only_named_processes_die:
  fixes procs :: "proc list"
  assumes "getv (kill_process e my procs pid nm force) ''killed'' = JList ks" "k \<in> set ks"
  shows "\<exists>p \<in> set procs. k = JInt (p_pid p) \<and> p_pid p \<noteq> my \<and>
    (if pid \<noteq> JNull then py_int pid = Inr (p_pid p)
     else process_name_matches (strip (py_str nm)) (p_name p) (p_cmd p))"
proof -
  define ok :: "proc \<Rightarrow> bool" where "ok p \<longleftrightarrow> (if pid \<noteq> JNull then py_int pid = Inr (p_pid p)
     else process_name_matches (strip (py_str nm)) (p_name p) (p_cmd p))" for p
  have "\<exists>acc. ks = map JInt (fst acc) \<and> fair_kill my procs ok (fst acc)"
  proof (cases "pid = JNull")
    case True
    with assms(1) obtain acc where "terminate_all my force (strip (py_str nm)) procs ([], []) = Inr acc" "ks = map JInt (fst acc)"
      by (auto simp: kill_process_def Let_def split: if_splits sum.splits)
    moreover have "fair_kill my procs ok []" by (simp add: fair_kill_def)
    ultimately show ?thesis
      using terminate_all_fair [of my force _ procs "([], [])" acc procs ok] True by (auto simp: ok_def)
  next
    case False
    with assms(1) obtain i p acc where i: "py_int pid = Inr i" "find (\<lambda>p. p_pid p = i) procs = Some p"
        "terminate my force (''pid '' @ py_str pid) p ([], []) = Inr acc" "ks = map JInt (fst acc)"
      by (auto simp: kill_process_def Let_def split: if_splits sum.splits option.splits)
    moreover have "fair_kill my procs ok []" by (simp add: fair_kill_def)
    ultimately show ?thesis
      using terminate_fair [of my force _ p "[]" "[]" "fst acc" "snd acc" procs ok] find_SomeD [OF i(2)] False by (auto simp: ok_def)
  qed
  then obtain acc :: "int list \<times> string list" where "ks = map JInt (fst acc)" "fair_kill my procs ok (fst acc)" by auto
  with assms(2) obtain i p where "k = JInt i" "p \<in> set procs" "i = p_pid p" "i \<noteq> my" "ok p"
    by (auto simp: fair_kill_def)
  then show ?thesis by (auto simp: ok_def)
qed

section \<open>Properties: the firewall\<close>

definition ok_status :: "dict \<Rightarrow> bool" where "ok_status d \<longleftrightarrow> getv d ''status'' = JStr ''OK''"

lemma ok_status_simps [simp]:
  "ok_status (rem_error t w @ xs) = False" "ok_status (rem_error t w) = False"
  "ok_status (isolation_ok os b r m rs du x)"
  by (simp_all add: ok_status_def rem_error_def isolation_ok_def)

lemma linux_rule_ok:
  assumes "firewall_rule e action ip direction fw = (Inr d, fw')" "ok_status d" "platform e = ''Linux''"
  obtains mapped out err where "normalize_direction direction = Some mapped" "valid_ip e ip" "privileged e"
    "run_cmd e (''iptables'' # drop_rule action mapped ip) fw = (Ran 0 out err, fw')"
  using assms
  by (auto simp: firewall_rule_def Let_def run_tool_def split: option.splits if_splits prod.splits sum.splits ran.splits)

text \<open>
  \<open>unblock_ip\<close> takes back what \<open>block_ip\<close> has done, for every spelling of the direction: with
  an iptables that appends on \<open>-A\<close> and deletes the first equal rule on \<open>-D\<close>, the chains hold
  the same rules as before.
\<close>

theorem unblock_undoes_block:
  fixes e :: "string list list rem_env"
  assumes "\<And>r fw. run_cmd e (''iptables'' # ''-A'' # r) fw = (Ran 0 [] [], fw @ [r])"
    and "\<And>r fw. r \<in> set fw \<Longrightarrow> run_cmd e (''iptables'' # ''-D'' # r) fw = (Ran 0 [] [], remove1 r fw)"
    and "platform e = ''Linux''"
    and "block_ip e ip direction fw = (Inr d, fw1)" "ok_status d"
    and "unblock_ip e ip direction' fw1 = (r, fw2)" "normalize_direction direction' = normalize_direction direction"
  shows "mset fw2 = mset fw \<and> (\<exists>d'. r = Inr d' \<and> ok_status d')"
proof -
  obtain m out err where m: "normalize_direction direction = Some m" "valid_ip e ip" "privileged e"
      "run_cmd e (''iptables'' # drop_rule ''block'' m ip) fw = (Ran 0 out err, fw1)"
    using linux_rule_ok [OF assms(4) [unfolded block_ip_def] assms(5,3)] by metis
  have p: "on_path e ''iptables''"
    using assms(3-5) m(1-3) by (auto simp: block_ip_def firewall_rule_def Let_def split: if_splits)
  define rule where "rule = tl (drop_rule ''block'' m ip)"
  have "drop_rule ''block'' m ip = ''-A'' # rule" "drop_rule ''unblock'' m ip = ''-D'' # rule"
    by (simp_all add: drop_rule_def rule_def)
  moreover have "mset (remove1 rule (fw @ [rule])) = mset fw" by simp
  moreover from calculation have "fw1 = fw @ [rule]" using m(4) assms(1) [of rule fw] by simp
  ultimately show ?thesis
    using assms(2) [of rule fw1] assms(3,6,7) m(1-3) p
    by (auto simp: unblock_ip_def firewall_rule_def Let_def run_tool_def ok_status_def)
qed

section \<open>Properties: isolation\<close>

lemma save_state_simps [simp]:
  "firewall (save_state e s st) = firewall st"
  "timers (save_state e s st) = timers st"
  "state_file (save_state e s st) = (if can_save e then Some s else state_file st)"
  by (simp_all add: save_state_def)

lemma start_timer_simps [simp]:
  "firewall (start_timer e d t st) = firewall st"
  "state_file (start_timer e d t st) = state_file st"
  by (simp_all add: start_timer_def)

lemma isolate_linux_cases:
  assumes "isolate_linux e reason dur manager st = (Inr d, st')"
  shows "if ok_status d
    then can_save e \<and> (\<exists>s fw. state_file st' = Some s \<and> iso_rules s = isolate_rules manager \<and> iso_windows s = []
      \<and> iso_until s = until_of e dur \<and> apply_rules e (isolate_rules manager) fw = ([], firewall st'))
    else state_file st' = state_file st"
proof -
  obtain r fw where a: "remove_previous e False (load_state st) (firewall st) = (r, fw)" by fastforce
  obtain errs fw1 where b: "apply_rules e (isolate_rules manager) fw = (errs, fw1)" by fastforce
  show ?thesis
    using assms
    by (cases r) (auto simp: isolate_linux_def Let_def a b not_applied_def not_saved_def res_bind_eq_Inr
        intro!: exI [of _ fw] split: if_splits)
qed

lemma isolate_host_linux:
  assumes "isolate_host e reason dur mh ds st = (Inr d, st')" "platform e = ''Linux''"
  shows "(\<exists>t m. isolate_linux e reason t m st = (Inr d, st') \<and> duration_of dur ds = Inr t) \<or> (\<not> ok_status d \<and> st' = st)"
  using assms by (auto simp: isolate_host_def Let_def split: if_splits sum.splits)

text \<open>
  The file of the isolation follows the firewall: an isolation that answers OK has applied all
  its rules without an error and recorded exactly them with their end; any other answer leaves
  the file as it was.
\<close>

theorem isolation_is_recorded:
  assumes "isolate_host e reason dur mh ds st = (Inr d, st')" "platform e = ''Linux''"
  shows "if ok_status d
    then \<exists>m t s fw. duration_of dur ds = Inr t \<and> state_file st' = Some s \<and> iso_rules s = isolate_rules m
      \<and> iso_until s = until_of e t \<and> apply_rules e (isolate_rules m) fw = ([], firewall st')
    else state_file st' = state_file st"
proof (cases "ok_status d")
  case True
  with isolate_host_linux [OF assms] obtain t m where "isolate_linux e reason t m st = (Inr d, st')" "duration_of dur ds = Inr t"
    by auto
  then show ?thesis using isolate_linux_cases [of e reason t m st d st'] True by auto
next
  case False
  then show ?thesis using isolate_host_linux [OF assms] isolate_linux_cases [of e reason _ _ st d st'] by fastforce
qed

definition numbered_spec :: "string list \<Rightarrow> bool" where
  "numbered_spec r \<longleftrightarrow> length r > 3 \<and> r ! 0 = ''-I'' \<and> r ! 2 = ''1''"

lemma isolate_rules_numbered: "list_all numbered_spec (isolate_rules m)"
  by (simp add: isolate_rules_def chain_rules_def numbered_spec_def)

lemma isolate_rules_nonempty: "isolate_rules m \<noteq> []"
  by (simp add: isolate_rules_def)

lemma numbered_spec_deletion:
  assumes "numbered_spec r"
  shows "\<exists>c x xs. deletion r = ''-D'' # c # ''1'' # x # xs" "r \<noteq> []"
  using assms by (auto simp: numbered_spec_def deletion_def less_Suc_eq_0_disj length_Suc_conv Suc_less_eq2 numeral_3_eq_3 numeral_2_eq_2 neq_Nil_conv)

lemma refused_apply:
  assumes "\<And>c x xs fw. \<exists>err. run_cmd e (''iptables'' # ''-D'' # c # ''1'' # x # xs) fw = (Ran 2 [] err, fw) \<and> strip err \<noteq> []"
    and "list_all numbered_spec rs"
  shows "snd (apply_rules e (map deletion rs) fw) = fw \<and> (fst (apply_rules e (map deletion rs) fw) = [] \<longleftrightarrow> rs = [])"
  using assms(2)
proof (induction rs)
  case (Cons r rs)
  obtain c x xs where d: "deletion r = ''-D'' # c # ''1'' # x # xs" using numbered_spec_deletion Cons.prems by fastforce
  obtain err where "run_cmd e (''iptables'' # ''-D'' # c # ''1'' # x # xs) fw = (Ran 2 [] err, fw)" "strip err \<noteq> []"
    using assms(1) by blast
  then show ?case using Cons d by (simp add: iptables_safe_def case_prod_unfold)
qed simp

lemma refused_removal:
  assumes "\<And>c x xs fw. \<exists>err. run_cmd e (''iptables'' # ''-D'' # c # ''1'' # x # xs) fw = (Ran 2 [] err, fw) \<and> strip err \<noteq> []"
  obtains errs where "remove_rules e (isolate_rules m) fw = (errs, fw)" "errs \<noteq> []"
proof -
  have n: "list_all numbered_spec (rev (isolate_rules m))" using isolate_rules_numbered by (simp add: list_all_iff)
  then have "filter (\<lambda>r. r \<noteq> []) (rev (isolate_rules m)) = rev (isolate_rules m)"
    using numbered_spec_deletion(2) by (auto simp: list_all_iff filter_id_conv)
  then show thesis
    using refused_apply [OF assms n, of fw] isolate_rules_nonempty [of m] that
    by (simp add: remove_rules_def prod_eq_iff)
qed


text \<open>
  A timer does not know which isolation it belongs to: the timer of an isolation with a
  duration also ends the record of a later one, and drops its own end with it.
\<close>

lemma timer_forgets_any_isolation:
  assumes "can_save e"
  shows "iso_rules (load_state (fire_timer e (RemoveRules rules) st)) = [] \<and> iso_until (load_state (fire_timer e (RemoveRules rules) st)) = None"
  using assms by (simp add: load_state_def)

section \<open>Properties: scripts\<close>

text \<open>
  A script runs at most once, under a time limit between one second and five minutes (unless
  the limit is NaN), and its arguments reach the process as separate words after its path,
  never through a shell's command line.
\<close>

lemma script_argv_words:
  "\<exists>pre. script_argv e os path args = pre @ path # args \<and> (os \<noteq> ''Windows'' \<longrightarrow> length pre \<le> 1)"
proof -
  have "\<exists>pre. xs @ path # args = pre @ path # args \<and> (os \<noteq> ''Windows'' \<longrightarrow> length pre \<le> 1)"
    if "os \<noteq> ''Windows'' \<longrightarrow> length xs \<le> 1" for xs using that by blast
  from this [of "[]"] this [of "[x]" for x] this [of "[x, y]" for x y] show ?thesis
    by (auto simp: script_argv_def Let_def intro: exI [of _ "[_, _, _, _, _]"])
qed

lemma script_timeout_bounds:
  assumes "script_timeout t = Inr x" "x \<noteq> NaN"
  shows "fle (Fin 1) x \<and> fle x (Fin 300)"
proof -
  have c: "clampf (Fin 1) (Fin 300) y \<noteq> NaN \<longrightarrow> fle (Fin 1) (clampf (Fin 1) (Fin 300) y) \<and> fle (clampf (Fin 1) (Fin 300) y) (Fin 300)" for y
    by (cases y) (auto simp: clampf_def fmin_def fmax_def fle_def)
  show ?thesis
    using assms c by (auto simp: script_timeout_def fle_def split: sum.splits if_splits)
qed

section \<open>Examples\<close>

definition sample_iptables :: "bool \<Rightarrow> string list \<Rightarrow> string list list \<Rightarrow> ran \<times> string list list" where
  "sample_iptables strict cmd fw =
     (let args = tl cmd in
      if hd args = ''-A'' then (Ran 0 [] [], fw @ [tl args])
      else if hd args = ''-I'' then (Ran 0 [] [], (args ! 1 # drop 3 args) # fw)
      else if strict \<and> length args > 3 \<and> args ! 2 = ''1'' then (Ran 2 [] ''Illegal option'', fw)
      else if tl args \<in> set fw then (Ran 0 [] [], remove1 (tl args) fw)
      else (Ran 1 [] ''Bad rule'', fw))"

definition sample_rem_env :: "bool \<Rightarrow> string list list rem_env" where
  "sample_rem_env strict = \<lparr>platform = ''Linux'', privileged = True, on_path = (\<lambda>_. True), valid_ip = (\<lambda>_. True),
     run_cmd = sample_iptables strict, exc_text = (\<lambda>_. []), rem_now = 0, can_save = True\<rparr>"

definition sample_rem_state :: "string list list rem_state" where
  "sample_rem_state = \<lparr>firewall = [], state_file = None, timers = []\<rparr>"

lemma sample_apply_rules: "list_all (\<lambda>r. hd r = ''-I'') rs \<Longrightarrow> \<exists>fw'. apply_rules (sample_rem_env b) rs fw = ([], fw')"
  by (induction rs arbitrary: fw)
    (auto simp: iptables_safe_def sample_rem_env_def sample_iptables_def Let_def split: prod.splits)

lemma sample_isolated:
  "ok_status (projr (fst (isolate_host (sample_rem_env True) JNull JNull ''10.0.0.1'' JNull sample_rem_state)))"
  "isolate_host (sample_rem_env True) JNull JNull ''10.0.0.1'' JNull sample_rem_state =
   (Inr (projr (fst (isolate_host (sample_rem_env True) JNull JNull ''10.0.0.1'' JNull sample_rem_state))),
    snd (isolate_host (sample_rem_env True) JNull JNull ''10.0.0.1'' JNull sample_rem_state))"
proof -
  have "strip ''10.0.0.1'' = ''10.0.0.1''" by code_simp
  moreover have "list_all (\<lambda>r. hd r = ''-I'') (isolate_rules ''10.0.0.1'')" by (simp add: isolate_rules_def chain_rules_def)
  from sample_apply_rules [OF this] obtain fw where "apply_rules (sample_rem_env True) (isolate_rules ''10.0.0.1'') [] = ([], fw)"
    by blast
  ultimately have "\<exists>d. isolate_host (sample_rem_env True) JNull JNull ''10.0.0.1'' JNull sample_rem_state = (Inr d,
      snd (isolate_host (sample_rem_env True) JNull JNull ''10.0.0.1'' JNull sample_rem_state)) \<and> ok_status d"
    by (simp add: isolate_host_def isolate_linux_def Let_def duration_of_def until_of_def remove_previous_def load_state_def
        sample_rem_state_def iso_from_unix_def max_double_def) (simp add: sample_rem_env_def)
  then show "ok_status (projr (fst (isolate_host (sample_rem_env True) JNull JNull ''10.0.0.1'' JNull sample_rem_state)))"
    "isolate_host (sample_rem_env True) JNull JNull ''10.0.0.1'' JNull sample_rem_state =
     (Inr (projr (fst (isolate_host (sample_rem_env True) JNull JNull ''10.0.0.1'' JNull sample_rem_state))),
      snd (isolate_host (sample_rem_env True) JNull JNull ''10.0.0.1'' JNull sample_rem_state))"
    by (metis fst_conv sum.sel(2))+
qed


theorem isolation_is_recorded_witness:
  "\<exists>m s. state_file (snd (isolate_host (sample_rem_env True) JNull JNull ''10.0.0.1'' JNull sample_rem_state)) = Some s \<and>
     iso_rules s = isolate_rules m"
  using isolation_is_recorded [OF sample_isolated(2)] sample_isolated(1) by (auto simp: sample_rem_env_def)

theorem unblock_undoes_block_witness:
  "snd (unblock_ip (sample_rem_env False) ''1.2.3.4'' ''inbound''
      (snd (block_ip (sample_rem_env False) ''1.2.3.4'' ''in'' []))) = []"
proof -
  have n: "normalize_direction ''in'' = normalize_direction ''inbound''" "normalize_direction ''in'' = Some ''input''" by code_simp+
  have b: "block_ip (sample_rem_env False) ''1.2.3.4'' ''in'' [] =
      (Inr (projr (fst (block_ip (sample_rem_env False) ''1.2.3.4'' ''in'' []))), snd (block_ip (sample_rem_env False) ''1.2.3.4'' ''in'' []))"
    "ok_status (projr (fst (block_ip (sample_rem_env False) ''1.2.3.4'' ''in'' [])))"
    by code_simp+
  have "run_cmd (sample_rem_env False) (''iptables'' # ''-A'' # r) fw = (Ran 0 [] [], fw @ [r])"
    "r \<in> set fw \<longrightarrow> run_cmd (sample_rem_env False) (''iptables'' # ''-D'' # r) fw = (Ran 0 [] [], remove1 r fw)" for r fw
    by (simp_all add: sample_rem_env_def sample_iptables_def)
  then show ?thesis
    using unblock_undoes_block [OF _ _ _ b prod.collapse [symmetric] n(1) [symmetric]] by (simp add: sample_rem_env_def)
qed

theorem only_named_processes_die_witness:
  "7 \<noteq> (1 :: int) \<and> process_name_matches ''sh'' ''bash'' []"
proof -
  define ps where "ps = [\<lparr>p_pid = 7, p_name = ''bash'', p_cmd = [], p_fate = Ends\<rparr>]"
  have "getv (kill_process (sample_rem_env True) 1 ps JNull (JStr ''sh'') False) ''killed'' = JList [JInt 7]"
    unfolding ps_def by code_simp
  from only_named_processes_die [OF this] show ?thesis
    by (simp add: ps_def) (simp add: strip_def lstrip_def rstrip_def is_space_def code_point_def)
qed

end
