(* ===== verification/Cve_Correlator.thy ===== *)
theory Cve_Correlator
  imports Py_Text
begin

text \<open>
  The correlation of software inventories with a catalogue of vulnerabilities,
  \<^verbatim>\<open>server/lib/cve_correlator.py\<close>: versions, names, the matches and their score, and the
  findings of each agent in memory and on disk. The catalogue file is its parsed document; a
  file that cannot be read is absent. Version numbers longer than Python converts are left out.
\<close>

section \<open>Catalogue\<close>

definition BUILTIN_CATALOG :: "dict list" where
  "BUILTIN_CATALOG =
     [[(''cve'', JStr ''CVE-2021-44228''), (''product'', JStr ''log4j''), (''aliases'', JList [JStr ''log4j-core'', JStr ''apache-log4j'', JStr ''liblog4j'']),
       (''version_gte'', JStr ''2.0''), (''version_lt'', JStr ''2.15.0''), (''severity'', JStr ''critical''),
       (''cvss'', JFloat (Fin 10)), (''summary'', JStr ''Log4Shell JNDI RCE'')],
      [(''cve'', JStr ''CVE-2024-6387''), (''product'', JStr ''openssh''), (''aliases'', JList [JStr ''openssh-server'', JStr ''openssh-client'', JStr ''ssh'']),
       (''version_gte'', JStr ''8.5''), (''version_lt'', JStr ''9.8''), (''severity'', JStr ''critical''),
       (''cvss'', JFloat (Fin (81 / 10))), (''summary'', JStr ''regreSSHion signal handler race'')],
      [(''cve'', JStr ''CVE-2021-3156''), (''product'', JStr ''sudo''), (''aliases'', JList [JStr ''sudo-ldap'']),
       (''version_gte'', JStr ''1.8.2''), (''version_lte'', JStr ''1.9.5p1''), (''severity'', JStr ''high''),
       (''cvss'', JFloat (Fin (78 / 10))), (''summary'', JStr ''Baron Samedit heap overflow'')],
      [(''cve'', JStr ''CVE-2023-38408''), (''product'', JStr ''openssh''), (''aliases'', JList [JStr ''openssh-client'', JStr ''openssh-server'']),
       (''version_lt'', JStr ''9.3p2''), (''severity'', JStr ''high''), (''cvss'', JFloat (Fin (98 / 10))),
       (''summary'', JStr ''ssh-agent forwarded PKCS11 remote code execution'')],
      [(''cve'', JStr ''CVE-2022-0778''), (''product'', JStr ''openssl''), (''aliases'', JList [JStr ''libssl1.1'', JStr ''libssl3'', JStr ''openssl-libs'']),
       (''version_gte'', JStr ''1.0.2''), (''version_lt'', JStr ''1.1.1n''), (''severity'', JStr ''high''),
       (''cvss'', JFloat (Fin (75 / 10))), (''summary'', JStr ''Infinite loop in BN_mod_sqrt'')],
      [(''cve'', JStr ''CVE-2023-38545''), (''product'', JStr ''curl''), (''aliases'', JList [JStr ''libcurl4'', JStr ''libcurl3'', JStr ''curl-minimal'']),
       (''version_gte'', JStr ''7.69.0''), (''version_lt'', JStr ''8.4.0''), (''severity'', JStr ''high''),
       (''cvss'', JFloat (Fin (98 / 10))), (''summary'', JStr ''SOCKS5 heap overflow'')],
      [(''cve'', JStr ''CVE-2021-4034''), (''product'', JStr ''polkit''), (''aliases'', JList [JStr ''policykit-1'', JStr ''polkitd'']),
       (''version_lt'', JStr ''0.120''), (''severity'', JStr ''high''), (''cvss'', JFloat (Fin (78 / 10))),
       (''summary'', JStr ''PwnKit pkexec local privilege escalation'')],
      [(''cve'', JStr ''CVE-2022-0847''), (''product'', JStr ''linux''), (''aliases'', JList [JStr ''linux-image'', JStr ''kernel'', JStr ''linux-image-generic'']),
       (''version_gte'', JStr ''5.8''), (''version_lt'', JStr ''5.16.11''), (''severity'', JStr ''high''),
       (''cvss'', JFloat (Fin (78 / 10))), (''summary'', JStr ''Dirty Pipe'')],
      [(''cve'', JStr ''CVE-2024-3094''), (''product'', JStr ''xz-utils''), (''aliases'', JList [JStr ''xz'', JStr ''liblzma5'', JStr ''liblzma'']),
       (''version_gte'', JStr ''5.6.0''), (''version_lte'', JStr ''5.6.1''), (''severity'', JStr ''critical''),
       (''cvss'', JFloat (Fin 10)), (''summary'', JStr ''xz-utils backdoor'')],
      [(''cve'', JStr ''CVE-2023-44487''), (''product'', JStr ''nginx''), (''aliases'', JList [JStr ''nginx-core'', JStr ''nginx-full'']),
       (''version_lt'', JStr ''1.25.3''), (''severity'', JStr ''high''), (''cvss'', JFloat (Fin (75 / 10))),
       (''summary'', JStr (''HTTP/2 Rapid Reset (si HTTP/2 est'' @ [CHR 0xE1] @ '' activo)''))],
      [(''cve'', JStr ''CVE-2014-0160''), (''product'', JStr ''openssl''), (''aliases'', JList [JStr ''libssl1.0.0'']),
       (''version_gte'', JStr ''1.0.1''), (''version_lt'', JStr ''1.0.1g''), (''severity'', JStr ''high''),
       (''cvss'', JFloat (Fin (75 / 10))), (''summary'', JStr ''Heartbleed'')],
      [(''cve'', JStr ''CVE-2022-22965''), (''product'', JStr ''spring-core''), (''aliases'', JList [JStr ''spring-webmvc'', JStr ''libspring-core-java'']),
       (''version_gte'', JStr ''5.3.0''), (''version_lt'', JStr ''5.3.18''), (''severity'', JStr ''critical''),
       (''cvss'', JFloat (Fin (98 / 10))), (''summary'', JStr ''Spring4Shell'')]]"

definition load_catalog :: "json option \<Rightarrow> dict list" where
  \<comment> \<open>the document of the catalogue file, if it can be read\<close>
  "load_catalog file =
     (let extra = (case file of
                     None \<Rightarrow> JNull
                   | Some (JObj d) \<Rightarrow> py_or (py_or (getv d ''cves'') (getv d ''catalog'')) (JList [])
                   | Some j \<Rightarrow> j) in
      BUILTIN_CATALOG @
      (case extra of
         JList es \<Rightarrow> filter (\<lambda>d. truthy (getv d ''cve'')) (map obj_of (filter is_obj es))
       | _ \<Rightarrow> []))"

section \<open>Versions\<close>

definition parse_version :: "string \<Rightarrow> nat list" where
  \<comment> \<open>the first eight runs of digits\<close>
  "parse_version v =
     (let parts = filter (\<lambda>w. w \<noteq> []) (split_char (CHR '' '') (map (\<lambda>c. if is_digit c then c else CHR '' '') v)) in
      if parts = [] then [0] else map digits_val (take 8 parts))"

fun tuple_less :: "nat list \<Rightarrow> nat list \<Rightarrow> bool" where
  \<comment> \<open>\<open><\<close> of tuples\<close>
  "tuple_less [] ys = (ys \<noteq> [])"
| "tuple_less (x # xs) [] = False"
| "tuple_less (x # xs) (y # ys) = (x < y \<or> x = y \<and> tuple_less xs ys)"

definition version_cmp :: "nat list \<Rightarrow> nat list \<Rightarrow> int" where
  "version_cmp a b =
     (let n = max (length a) (length b);
          aa = a @ replicate (n - length a) 0;
          bb = b @ replicate (n - length b) 0 in
      if tuple_less aa bb then - 1 else if tuple_less bb aa then 1 else 0)"

definition VERSION_KEYS :: "string list" where
  "VERSION_KEYS = [''version_eq'', ''version_gte'', ''version_gt'', ''version_lte'', ''version_lt'']"

definition version_in_range :: "string \<Rightarrow> dict \<Rightarrow> bool" where
  "version_in_range version entry =
     (let ver = parse_version version;
          given = (\<lambda>k. getv entry k \<noteq> JNull);
          against = (\<lambda>k. version_cmp ver (parse_version (py_str (getv entry k)))) in
      if given ''version_eq'' then against ''version_eq'' = 0
      else if given ''version_gte'' \<and> against ''version_gte'' < 0 then False
      else if given ''version_gt'' \<and> against ''version_gt'' \<le> 0 then False
      else if given ''version_lte'' \<and> against ''version_lte'' > 0 then False
      else if given ''version_lt'' \<and> against ''version_lt'' \<ge> 0 then False
      else list_ex given VERSION_KEYS)"

section \<open>Names\<close>

definition product_names :: "dict \<Rightarrow> string list res" where
  "product_names entry =
     res_bind (py_iter (py_or (getv entry ''aliases'') (JList [])))
       (\<lambda>al. Inr (filter (\<lambda>n. n \<noteq> []) (lower (strip (str_or (getv entry ''product'') [])) # map (\<lambda>a. lower (strip (py_str a))) al)))"

definition pkg_matches :: "string \<Rightarrow> dict \<Rightarrow> bool res" where
  "pkg_matches pkg_name entry =
     (let nm = lower (strip pkg_name) in
      if nm = [] then Inr False
      else res_bind (product_names entry) (\<lambda>cands. Inr (list_ex (\<lambda>cand.
             (nm = cand \<or> startswith nm (cand @ ''-'') \<or> cand \<in> set (split_char (CHR ''-'') nm)) \<or> contains nm cand) cands)))"

section \<open>Correlation\<close>

definition hashable :: "json \<Rightarrow> bool" where
  "hashable v \<longleftrightarrow> (case v of JList _ \<Rightarrow> False | JObj _ \<Rightarrow> False | _ \<Rightarrow> True)"

definition match_of :: "dict \<Rightarrow> string \<Rightarrow> string \<Rightarrow> dict \<Rightarrow> dict" where
  "match_of pkg nm version entry =
     [(''cve'', getv entry ''cve''), (''product'', JStr nm), (''version'', JStr version),
      (''severity'', py_or (getv entry ''severity'') (JStr ''medium'')), (''cvss'', getv entry ''cvss''),
      (''summary'', getv entry ''summary''), (''sha256'', getv pkg ''sha256'')]"

type_synonym cve_key = "json \<times> string \<times> string"

primrec match_entries :: "dict \<Rightarrow> string \<Rightarrow> string \<Rightarrow> dict list \<Rightarrow> cve_key list \<times> dict list \<Rightarrow> (cve_key list \<times> dict list) res" where
  \<comment> \<open>one package against the catalogue; \<open>seen\<close> and the matches so far\<close>
  "match_entries pkg nm version [] acc = Inr acc"
| "match_entries pkg nm version (entry # es) acc =
     res_bind (pkg_matches nm entry) (\<lambda>hit.
       if hit \<and> version_in_range version entry then
         (let key = (getv entry ''cve'', nm, version) in
          if \<not> hashable (fst key) then Inl TypeError
          else match_entries pkg nm version es
                 (if key \<in> set (fst acc) then acc else (key # fst acc, snd acc @ [match_of pkg nm version entry])))
       else match_entries pkg nm version es acc)"

definition package_name :: "dict \<Rightarrow> string" where
  "package_name pkg = str_or (py_or (getv pkg ''name'') (getv pkg ''product'')) []"

definition package_version :: "dict \<Rightarrow> string" where
  "package_version pkg = str_or (getv pkg ''version'') []"

primrec match_packages :: "dict list \<Rightarrow> json list \<Rightarrow> cve_key list \<times> dict list \<Rightarrow> (cve_key list \<times> dict list) res" where
  "match_packages catalog [] acc = Inr acc"
| "match_packages catalog (p # ps) acc =
     (if is_obj p \<and> package_name (obj_of p) \<noteq> [] \<and> package_version (obj_of p) \<noteq> []
      then res_bind (match_entries (obj_of p) (package_name (obj_of p)) (package_version (obj_of p)) catalog acc)
             (\<lambda>acc. match_packages catalog ps acc)
      else match_packages catalog ps acc)"

definition severity_rank :: "json \<Rightarrow> int" where
  "severity_rank s =
     (case map_of [(''critical'', 4), (''high'', 3), (''medium'', 2), (''low'', 1)] (lower (py_str s)) of
        None \<Rightarrow> 1 | Some r \<Rightarrow> r)"

definition risk_score :: "dict list \<Rightarrow> int" where
  "risk_score ms = min 100 (sum_list (map (\<lambda>m. 25 * severity_rank (getv m ''severity'')) ms))"

definition correlate_packages :: "string \<Rightarrow> dict list \<Rightarrow> json list \<Rightarrow> dict res" where
  "correlate_packages now catalog packages =
     res_bind (match_packages catalog packages ([], [])) (\<lambda>acc. Inr
       [(''status'', JStr ''OK''), (''engine'', JStr ''local-catalog''), (''catalog_size'', JInt (int (length catalog))),
        (''packages'', JInt (int (length packages))), (''count'', JInt (int (length (snd acc)))),
        (''score'', JInt (risk_score (snd acc))), (''matches'', JList (map JObj (snd acc))), (''ts'', JStr now),
        (''note'', JStr ''Feed local (no NVD en vivo). Ampliar con CVE_CATALOG_PATH.'')])"

section \<open>Findings of each agent\<close>

record cve_store =
  inventory :: "(string \<times> dict) list"
    \<comment> \<open>\<open>_INVENTORY\<close>\<close>
  cve_files :: "string \<Rightarrow> json option"

definition name_char :: "char \<Rightarrow> bool" where
  "name_char c \<longleftrightarrow> (let n = code_point c in 48 \<le> n \<and> n \<le> 57 \<or> 65 \<le> n \<and> n \<le> 90 \<or> 97 \<le> n \<and> n \<le> 122 \<or> c \<in> set ''._-'')"

fun squash :: "bool \<Rightarrow> string \<Rightarrow> string" where
  \<comment> \<open>every run of other characters becomes one underscore; the flag tells whether one has just been written\<close>
  "squash b [] = []"
| "squash b (c # s) = (if name_char c then c # squash False s else if b then squash True s else CHR ''_'' # squash True s)"

definition safe_name :: "string \<Rightarrow> string" where
  "safe_name agent_id = take 80 (squash False agent_id)"

definition ingest_inventory ::
  "string \<Rightarrow> bool \<Rightarrow> json option \<Rightarrow> string \<Rightarrow> json list \<Rightarrow> json \<Rightarrow> cve_store \<Rightarrow> dict res \<times> cve_store" where
  \<comment> \<open>the time, whether the file can be written and the catalogue file are inputs\<close>
  "ingest_inventory now can_write catalog_file agent_id packages tenant_id st =
     (case correlate_packages now (load_catalog catalog_file) packages of
        Inl x \<Rightarrow> (Inl x, st)
      | Inr result \<Rightarrow>
         (let rec = [(''agent_id'', JStr agent_id), (''tenant_id'', tenant_id), (''ingested_at'', JStr now)] @ result in
          (Inr rec, st\<lparr>inventory := dset agent_id rec (inventory st),
                       cve_files := (if can_write then (cve_files st)(safe_name agent_id := Some (JObj rec)) else cve_files st)\<rparr>)))"

definition get_agent_findings :: "string \<Rightarrow> cve_store \<Rightarrow> dict option \<times> cve_store" where
  "get_agent_findings agent_id st =
     (case map_of (inventory st) agent_id of
        Some (p # rec) \<Rightarrow> (Some (p # rec), st)
      | _ \<Rightarrow>
         (case cve_files st (safe_name agent_id) of
            Some (JObj d) \<Rightarrow> (Some d, st\<lparr>inventory := dset agent_id d (inventory st)\<rparr>)
          | _ \<Rightarrow> (None, st)))"

definition cve_restart :: "cve_store \<Rightarrow> cve_store" where
  \<comment> \<open>a new process has an empty \<open>_INVENTORY\<close>\<close>
  "cve_restart st = st\<lparr>inventory := []\<rparr>"

definition packages_from_result :: "json \<Rightarrow> dict list" where
  "packages_from_result result =
     (let dicts = (\<lambda>xs. map obj_of (filter is_obj xs)); d = obj_of result in
      if \<not> is_obj result then []
      else (case getv d ''packages'' of
              JList xs \<Rightarrow> dicts xs
            | _ \<Rightarrow> (case getv (obj_of (getv d ''result'')) ''packages'' of JList xs \<Rightarrow> dicts xs | _ \<Rightarrow> [])))"

section \<open>Properties: versions\<close>

lemma tuple_less_irrefl [simp]: "\<not> tuple_less a a"
  by (induction a) auto

lemma tuple_less_trans: "tuple_less a b \<Longrightarrow> tuple_less b c \<Longrightarrow> tuple_less a c"
proof (induction a b arbitrary: c rule: tuple_less.induct)
  case (1 ys) then show ?case by (cases c; cases ys) auto
next
  case (3 x xs y ys) then show ?case by (cases c) auto
qed simp

lemma tuple_less_linear: "length a = length b \<Longrightarrow> tuple_less a b \<or> a = b \<or> tuple_less b a"
  by (induction a b rule: tuple_less.induct) auto

text \<open>The value of a version: its sequence of numbers, with zeros for the missing ones.\<close>

definition component :: "nat list \<Rightarrow> nat \<Rightarrow> nat" where
  "component v i = (if i < length v then v ! i else 0)"

definition before :: "nat list \<Rightarrow> nat list \<Rightarrow> bool" where
  \<comment> \<open>at the first difference the number is smaller\<close>
  "before a b \<longleftrightarrow> (\<exists>i. component a i < component b i \<and> (\<forall>j < i. component a j = component b j))"

lemma tuple_less_iff:
  "length a = length b \<Longrightarrow> tuple_less a b \<longleftrightarrow> (\<exists>i < length a. a ! i < b ! i \<and> (\<forall>j < i. a ! j = b ! j))"
proof (induction a b rule: list_induct2)
  case (Cons x xs y ys)
  have "(\<exists>i < Suc (length xs). (x # xs) ! i < (y # ys) ! i \<and> (\<forall>j < i. (x # xs) ! j = (y # ys) ! j)) \<longleftrightarrow>
      x < y \<or> x = y \<and> (\<exists>i < length xs. xs ! i < ys ! i \<and> (\<forall>j < i. xs ! j = ys ! j))"
    unfolding Ex_less_Suc2 by (simp add: All_less_Suc2) blast
  then show ?case using Cons.IH by simp
qed simp

lemma nth_padded: "length a \<le> n \<Longrightarrow> i < n \<Longrightarrow> (a @ replicate (n - length a) 0) ! i = component a i"
  by (auto simp: component_def nth_append)

lemma tuple_less_padded:
  assumes "length a \<le> n" "length b \<le> n"
  shows "tuple_less (a @ replicate (n - length a) 0) (b @ replicate (n - length b) 0) \<longleftrightarrow> before a b"
proof -
  define pa pb where "pa = a @ replicate (n - length a) 0" and "pb = b @ replicate (n - length b) 0"
  have n: "length pa = n" "length pb = n" using assms by (simp_all add: pa_def pb_def)
  have e: "i < n \<longrightarrow> pa ! i = component a i" "i < n \<longrightarrow> pb ! i = component b i" for i
    unfolding pa_def pb_def using nth_padded assms by auto
  have "component a i < component b i \<longrightarrow> i < n" for i using assms by (auto simp: component_def)
  then have b: "before a b \<longleftrightarrow> (\<exists>i < n. component a i < component b i \<and> (\<forall>j < i. component a j = component b j))"
    by (auto simp: before_def)
  have "pa ! i < pb ! i \<and> (\<forall>j < i. pa ! j = pb ! j) \<longleftrightarrow> component a i < component b i \<and> (\<forall>j < i. component a j = component b j)"
    if "i < n" for i using e that by simp
  with b have "(\<exists>i < n. pa ! i < pb ! i \<and> (\<forall>j < i. pa ! j = pb ! j)) \<longleftrightarrow> before a b"
    by blast
  then show ?thesis
    using tuple_less_iff [of pa pb] n by (simp add: pa_def pb_def)
qed

text \<open>
  Comparing two versions compares their numbers one by one, with zeros for the missing ones:
  the result is \<open>-1\<close> or \<open>1\<close> by the first difference, and \<open>0\<close> when there is none.
\<close>

lemma version_cmp_spec:
  "version_cmp a b = - 1 \<longleftrightarrow> before a b"
  "version_cmp a b = 1 \<longleftrightarrow> before b a"
  "version_cmp a b = 0 \<longleftrightarrow> component a = component b"
proof -
  define n where "n = max (length a) (length b)"
  define aa bb where "aa = a @ replicate (n - length a) 0" and "bb = b @ replicate (n - length b) 0"
  have n: "length a \<le> n" "length b \<le> n" by (simp_all add: n_def)
  have p: "tuple_less aa bb \<longleftrightarrow> before a b" "tuple_less bb aa \<longleftrightarrow> before b a"
    unfolding aa_def bb_def using tuple_less_padded n by blast+
  have asym: "\<not> (before a b \<and> before b a)"
    using tuple_less_trans [of aa bb aa] p tuple_less_irrefl by blast
  have e: "component a = component b \<longleftrightarrow> \<not> before a b \<and> \<not> before b a"
  proof
    assume "\<not> before a b \<and> \<not> before b a"
    moreover have "length aa = length bb" using n by (simp add: aa_def bb_def)
    ultimately have "aa = bb" using tuple_less_linear [of aa bb] p by blast
    then have "component a i = component b i" if "i < n" for i
      using nth_padded [OF n(1) that] nth_padded [OF n(2) that] by (simp add: aa_def bb_def)
    moreover have "component a i = component b i" if "\<not> i < n" for i
      using that n by (simp add: component_def)
    ultimately show "component a = component b" by blast
  next
    assume "component a = component b"
    then show "\<not> before a b \<and> \<not> before b a" unfolding before_def by simp
  qed
  have c: "version_cmp a b = (if tuple_less aa bb then - 1 else if tuple_less bb aa then 1 else 0)"
    by (simp add: version_cmp_def Let_def aa_def bb_def n_def)
  show "version_cmp a b = - 1 \<longleftrightarrow> before a b" "version_cmp a b = 1 \<longleftrightarrow> before b a"
    "version_cmp a b = 0 \<longleftrightarrow> component a = component b"
    unfolding c p e using asym by auto
qed

section \<open>Properties: names\<close>

lemma contains_iff: "contains s p \<longleftrightarrow> (\<exists>a b. s = a @ p @ b)"
proof
  show "contains s p \<Longrightarrow> \<exists>a b. s = a @ p @ b"
  proof (induction s)
    case (Cons c s)
    then consider "startswith (c # s) p" | "contains s p" by auto
    then show ?case
    proof cases
      case 1 then show ?thesis by (metis append_Nil startswith_iff)
    next
      case 2 then show ?thesis using Cons.IH by (metis append_Cons)
    qed
  qed auto
qed (auto simp: contains_append)

lemma split_char_part: "w \<in> set (split_char c s) \<Longrightarrow> contains s w \<and> (startswith s (hd (split_char c s)))"
proof (induction s arbitrary: w)
  case (Cons x s)
  show ?case
  proof (cases "x = c")
    case False
    obtain v vs where v: "split_char c s = v # vs" by (cases "split_char c s") auto
    then have "startswith s v" using Cons.IH [of v] by simp
    then have "startswith (x # s) (x # v)" by (simp add: startswith_def)
    then show ?thesis using Cons v False by auto
  qed (use Cons in \<open>auto simp: startswith_def\<close>)
qed (simp add: startswith_def)

text \<open>
  The match of names is a plain substring test: the comparisons for equality, for the prefix
  with a hyphen and for the parts of the name never add a match.
\<close>

theorem name_match_is_substring:
  assumes "product_names entry = Inr cands"
  shows "pkg_matches nm entry = Inr (\<exists>cand \<in> set cands. \<exists>a b. lower (strip nm) = a @ cand @ b)"
proof -
  have ne: "[] \<notin> set cands" using assms by (auto simp: product_names_def res_bind_eq_Inr simp del: filter.simps)
  have "(n = cand \<or> startswith n (cand @ ''-'') \<or> cand \<in> set (split_char (CHR ''-'') n)) \<or> contains n cand
      \<longleftrightarrow> (\<exists>a b. n = a @ cand @ b)" for n cand
    using split_char_part [of cand] contains_append [of "[]" cand] unfolding contains_iff startswith_iff
    by (metis append.assoc append_Nil append_Nil2)
  then show ?thesis
    using assms ne by (auto simp: pkg_matches_def Let_def list_ex_iff)
qed

section \<open>Properties: matches\<close>

definition hits :: "dict \<Rightarrow> dict \<Rightarrow> bool" where
  "hits pkg entry \<longleftrightarrow> pkg_matches (package_name pkg) entry = Inr True \<and> version_in_range (package_version pkg) entry"

definition listed :: "dict \<Rightarrow> json list \<Rightarrow> bool" where
  \<comment> \<open>a package of the inventory with a name and a version\<close>
  "listed pkg ps \<longleftrightarrow> JObj pkg \<in> set ps \<and> package_name pkg \<noteq> [] \<and> package_version pkg \<noteq> []"

definition key_of :: "dict \<Rightarrow> json \<times> json \<times> json" where
  "key_of m = (getv m ''cve'', getv m ''product'', getv m ''version'')"

definition key_json :: "cve_key \<Rightarrow> json \<times> json \<times> json" where
  "key_json k = (fst k, JStr (fst (snd k)), JStr (snd (snd k)))"

definition recorded :: "cve_key list \<times> dict list \<Rightarrow> bool" where
  "recorded acc \<longleftrightarrow> map key_of (snd acc) = map key_json (rev (fst acc)) \<and> distinct (fst acc)"

lemma key_of_match [simp]: "key_of (match_of pkg nm v entry) = key_json (getv entry ''cve'', nm, v)"
  by (simp add: key_of_def key_json_def match_of_def)

lemma match_entries_exact:
  assumes "match_entries pkg (package_name pkg) (package_version pkg) es acc = Inr acc'" "recorded acc"
  shows "recorded acc' \<and> set (fst acc') = set (fst acc) \<union>
    {(getv entry ''cve'', package_name pkg, package_version pkg) | entry. entry \<in> set es \<and> hits pkg entry}"
  using assms
proof (induction es arbitrary: acc)
  case (Cons entry es)
  obtain hit where h: "pkg_matches (package_name pkg) entry = Inr hit" using Cons.prems(1) by (auto simp: res_bind_eq_Inr)
  show ?case
  proof (cases "hits pkg entry")
    case True
    define k where "k = (getv entry ''cve'', package_name pkg, package_version pkg)"
    define acc1 where "acc1 = (if k \<in> set (fst acc) then acc
        else (k # fst acc, snd acc @ [match_of pkg (package_name pkg) (package_version pkg) entry]))"
    have "match_entries pkg (package_name pkg) (package_version pkg) es acc1 = Inr acc'"
      using Cons.prems(1) True h by (simp add: hits_def Let_def k_def acc1_def split: if_splits)
    moreover have "recorded acc1" "set (fst acc1) = insert k (set (fst acc))"
      using Cons.prems(2) by (auto simp: acc1_def recorded_def k_def)
    ultimately have "recorded acc' \<and> set (fst acc') = insert k (set (fst acc)) \<union>
        {(getv entry ''cve'', package_name pkg, package_version pkg) | entry. entry \<in> set es \<and> hits pkg entry}"
      using Cons.IH [of acc1] by simp
    then show ?thesis using True unfolding k_def by auto
  next
    case False
    then have "match_entries pkg (package_name pkg) (package_version pkg) es acc = Inr acc'"
      using Cons.prems(1) h by (auto simp: hits_def split: if_splits)
    then show ?thesis using Cons.IH [of acc] Cons.prems(2) False by auto
  qed
qed simp

lemma match_packages_exact:
  assumes "match_packages catalog ps acc = Inr acc'" "recorded acc"
  shows "recorded acc' \<and> set (fst acc') = set (fst acc) \<union>
    {(getv entry ''cve'', package_name pkg, package_version pkg) | entry pkg.
       listed pkg ps \<and> entry \<in> set catalog \<and> hits pkg entry}"
  using assms
proof (induction ps arbitrary: acc)
  case (Cons p ps)
  show ?case
  proof (cases "is_obj p \<and> package_name (obj_of p) \<noteq> [] \<and> package_version (obj_of p) \<noteq> []")
    case True
    then obtain pkg where p: "p = JObj pkg" by (cases p) auto
    obtain acc1 where a: "match_entries pkg (package_name pkg) (package_version pkg) catalog acc = Inr acc1"
        "match_packages catalog ps acc1 = Inr acc'"
      using Cons.prems(1) True p by (auto simp: res_bind_eq_Inr)
    show ?thesis
      using match_entries_exact [OF a(1) Cons.prems(2)] Cons.IH [OF a(2)] True p by (auto simp: listed_def)
  next
    case False
    then have "listed pkg (p # ps) \<longleftrightarrow> listed pkg ps" for pkg by (auto simp: listed_def)
    then show ?thesis using Cons.IH [of acc] Cons.prems False by simp
  qed
qed (simp add: listed_def)

text \<open>
  C28: A correlation finds exactly the pairs of a package with a name and a version and an entry
  whose name and range it hits, and reports each vulnerability of a name and version once.
\<close>

theorem matches_are_exact:
  assumes "correlate_packages now catalog packages = Inr d"
  shows "\<exists>ms. getv d ''matches'' = JList (map JObj ms) \<and> getv d ''count'' = JInt (int (length ms)) \<and> distinct (map key_of ms) \<and>
    set (map key_of ms) = {(getv entry ''cve'', JStr (package_name pkg), JStr (package_version pkg)) | entry pkg.
       listed pkg packages \<and> entry \<in> set catalog \<and> hits pkg entry}"
proof -
  obtain acc where a: "match_packages catalog packages ([], []) = Inr acc" "getv d ''matches'' = JList (map JObj (snd acc))"
      "getv d ''count'' = JInt (int (length (snd acc)))"
    using assms by (auto simp: correlate_packages_def res_bind_eq_Inr)
  have r: "recorded acc" and s: "set (fst acc) = {(getv entry ''cve'', package_name pkg, package_version pkg) | entry pkg.
       listed pkg packages \<and> entry \<in> set catalog \<and> hits pkg entry}"
    using match_packages_exact [OF a(1)] by (simp_all add: recorded_def listed_def)
  have "inj_on key_json (set (rev (fst acc)))" by (auto simp: inj_on_def key_json_def)
  then have "distinct (map key_of (snd acc))"
    using r by (simp add: recorded_def distinct_map)
  moreover have "set (map key_of (snd acc)) = key_json ` set (fst acc)" using r by (simp add: recorded_def)
  moreover have "key_json ` {f e p | e p. P e p} = {key_json (f e p) | e p. P e p}" for f and P :: "dict \<Rightarrow> dict \<Rightarrow> bool"
    by blast
  ultimately show ?thesis
    unfolding s using a(2,3) by (intro exI [of _ "snd acc"]) (simp add: key_json_def)
qed

text \<open>The score of a correlation is between 0 and 100, and 0 only when nothing was found.\<close>

lemma severity_rank_bounds: "1 \<le> severity_rank s"
  by (auto simp: severity_rank_def split: option.splits dest!: map_of_SomeD)

lemma risk_score_bounds: "0 \<le> risk_score ms \<and> risk_score ms \<le> 100 \<and> (risk_score ms = 0 \<longleftrightarrow> ms = [])"
proof -
  have "25 * int (length ms) \<le> sum_list (map (\<lambda>m. 25 * severity_rank (getv m ''severity'')) ms)"
  proof (induction ms)
    case (Cons m ms) then show ?case using severity_rank_bounds [of "getv m ''severity''"] by simp
  qed simp
  then show ?thesis by (cases ms) (auto simp: risk_score_def min_def)
qed

section \<open>Properties: letters in versions\<close>

lemma split_char_snoc: "split_char c (s @ [c]) = split_char c s @ [[]]"
proof (induction s)
  case (Cons x s)
  then show ?case by (cases "split_char c s") auto
qed simp

lemma trailing_letter: "\<not> is_digit c \<Longrightarrow> parse_version (v @ [c]) = parse_version v"
  by (simp add: parse_version_def split_char_snoc)

lemma same_numbers_same_range:
  "parse_version v = parse_version v' \<Longrightarrow> version_in_range v entry = version_in_range v' entry"
  by (simp add: version_in_range_def)

lemma heartbleed_empty: "filter (\<lambda>e. getv e ''cve'' = JStr ''CVE-2014-0160'' \<and> version_in_range v e) BUILTIN_CATALOG = []"
proof -
  have "parse_version ''1.0.1g'' = parse_version ''1.0.1''" using trailing_letter [of "CHR ''g''" "''1.0.1''"] by (simp add: is_digit_def code_point_def)
  then show ?thesis
    by (simp add: BUILTIN_CATALOG_def version_in_range_def Let_def)
qed

text \<open>
  Letters of versions are dropped, so the range of Heartbleed, 1.0.1 up to 1.0.1g, holds no
  version at all: the vulnerability is never reported. In the same way a trailing letter never
  changes a result, so that 1.1.1k, which CVE-2022-0778 affects, is taken for 1.1.1n.
\<close>

theorem heartbleed_is_never_found:
  "filter (\<lambda>e. getv e ''cve'' = JStr ''CVE-2014-0160'' \<and> version_in_range v e) BUILTIN_CATALOG = []
   \<and> version_in_range ''1.1.1k'' entry = version_in_range ''1.1.1n'' entry"
proof -
  have "parse_version ''1.1.1k'' = parse_version ''1.1.1n''"
    using trailing_letter [of "CHR ''k''" "''1.1.1''"] trailing_letter [of "CHR ''n''" "''1.1.1''"]
    by (simp add: is_digit_def code_point_def)
  then show ?thesis using heartbleed_empty same_numbers_same_range by blast
qed

section \<open>Properties: findings\<close>

text \<open>What was ingested is found again, also by a new process when the file was written.\<close>

theorem findings_survive_restart:
  assumes "ingest_inventory now True file a packages tenant st = (Inr rec, st')"
  shows "fst (get_agent_findings a st') = Some rec \<and> fst (get_agent_findings a (cve_restart st')) = Some rec"
  using assms by (auto simp: ingest_inventory_def Let_def get_agent_findings_def cve_restart_def split: sum.splits)

text \<open>
  The file name of an agent squeezes every other character to an underscore: after a restart
  the findings of an agent are given out as those of any agent with the same squeezed id.
\<close>

theorem findings_of_another_agent:
  assumes "ingest_inventory now True file a packages tenant st = (Inr rec, st')" "safe_name b = safe_name a"
  shows "fst (get_agent_findings b (cve_restart st')) = Some rec \<and> getv rec ''agent_id'' = JStr a"
  using assms by (auto simp: ingest_inventory_def Let_def get_agent_findings_def cve_restart_def split: sum.splits)

section \<open>Examples\<close>

definition sample_inventory :: "json list" where
  "sample_inventory = [JObj [(''name'', JStr ''xz-libs''), (''version'', JStr ''5.6.1'')]]"

definition sample_cve_store :: cve_store where
  "sample_cve_store = \<lparr>inventory = [], cve_files = (\<lambda>_. None)\<rparr>"

lemma sample_correlation:
  "correlate_packages [] (load_catalog None) [] =
   Inr [(''status'', JStr ''OK''), (''engine'', JStr ''local-catalog''), (''catalog_size'', JInt 12), (''packages'', JInt 0),
        (''count'', JInt 0), (''score'', JInt 0), (''matches'', JList []), (''ts'', JStr []),
        (''note'', JStr ''Feed local (no NVD en vivo). Ampliar con CVE_CATALOG_PATH.'')]"
  by (simp add: correlate_packages_def risk_score_def load_catalog_def BUILTIN_CATALOG_def)

definition sample_catalog :: "dict list" where
  "sample_catalog = [[(''cve'', JStr ''CVE-2024-3094''), (''product'', JStr ''xz''), (''version_lt'', JStr ''6'')]]"

theorem matches_are_exact_witness:
  "\<exists>ms. getv (projr (correlate_packages [] sample_catalog sample_inventory)) ''matches'' = JList (map JObj ms) \<and> distinct (map key_of ms)"
proof -
  have "isl (correlate_packages [] sample_catalog sample_inventory) = False" by code_simp
  then obtain d where "correlate_packages [] sample_catalog sample_inventory = Inr d"
    by (cases "correlate_packages [] sample_catalog sample_inventory") auto
  from matches_are_exact [OF this] this show ?thesis by auto
qed

theorem name_match_is_substring_witness:
  "pkg_matches ''Sudoku'' [(''product'', JStr ''sudo'')] = Inr (\<exists>a b. lower (strip ''Sudoku'') = a @ ''sudo'' @ b)"
proof -
  have "lower (strip ''sudo'') = ''sudo''" by code_simp
  then have "product_names [(''product'', JStr ''sudo'')] = Inr [''sudo'']"
    by (simp add: product_names_def py_or_def str_or_def)
  from name_match_is_substring [OF this] show ?thesis by simp
qed

theorem findings_survive_restart_witness:
  "fst (get_agent_findings ''a'' (cve_restart (snd (ingest_inventory [] True None ''a'' [] JNull sample_cve_store)))) \<noteq> None"
  using findings_survive_restart [of "[]" None "''a''" "[]" JNull sample_cve_store]
  by (simp add: ingest_inventory_def sample_correlation Let_def)

theorem findings_of_another_agent_witness:
  "\<exists>rec. fst (get_agent_findings ''web_1'' (cve_restart (snd (ingest_inventory [] True None ''web/1'' [] JNull sample_cve_store))))
     = Some rec \<and> getv rec ''agent_id'' = JStr ''web/1''"
proof -
  have "safe_name ''web_1'' = safe_name ''web/1''" by code_simp
  then show ?thesis
    using findings_of_another_agent [of "[]" None "''web/1''" "[]" JNull sample_cve_store _ _ "''web_1''"]
    by (simp add: ingest_inventory_def sample_correlation Let_def)
qed

end
