(* ===== verification/Enrollment.thy ===== *)
theory Enrollment
  imports Owner_Store Jwt_Auth Iso_Time Machine
begin

text \<open>
  The enrollment of agents at the server, \<^verbatim>\<open>server/enrollment.py\<close>: tokens for one
  use that are bound to a user, the files that remember them, and the identity that a token
  buys. The three files are state: the consumed tokens (their order is not kept), the issued
  ones, and the lines of the tokens file, each classified as the code reads it. Fresh tokens,
  keys, certificates, the clock and the success of each write are inputs.
\<close>

section \<open>Files and environment\<close>

record token_meta =
  tm_user :: string
  tm_client :: string
  tm_created :: string
  tm_expires :: string

datatype token_line =
    Minted string token_meta
  | Consumed string
  | Plain string
  | Ignored
    \<comment> \<open>a comment, a blank line or a broken record\<close>

record enroll_files =
  consumed_file :: "string list option"
    \<comment> \<open>\<open>None\<close> when a file is missing or cannot be read\<close>
  issued_file :: "(string \<times> token_meta) list option"
  tokens_file :: "token_line list option"

record enroll_env =
  en_now :: int
  tokens_env :: string
  persists :: bool
    \<comment> \<open>whether a tokens file is configured\<close>
  auto_append :: bool
  write_ok :: "nat \<Rightarrow> bool"
    \<comment> \<open>the issued file (0), the consumed file (1), the tokens file (2)\<close>
  fresh_token :: string
  ttl_default :: int

definition token_live :: "enroll_env \<Rightarrow> token_meta \<Rightarrow> bool" where
  \<comment> \<open>an entry without a readable end stays\<close>
  "token_live e m =
     (let raw = strip (tm_expires m) in
      raw = [] \<or>
      (case fromisoformat (replace_char (CHR ''Z'') ''+00:00'' raw) of
         None \<Rightarrow> True | Some d \<Rightarrow> dt_us (as_utc d) \<ge> en_now e))"

definition purge_expired_issued :: "enroll_env \<Rightarrow> (string \<times> token_meta) list \<Rightarrow> (string \<times> token_meta) list" where
  "purge_expired_issued e issued = filter (\<lambda>p. token_live e (snd p)) issued"

definition load_consumed :: "enroll_files \<Rightarrow> string list" where
  "load_consumed fs = (case consumed_file fs of None \<Rightarrow> [] | Some ts \<Rightarrow> ts)"

definition trim_meta :: "token_meta \<Rightarrow> token_meta" where
  "trim_meta m = \<lparr>tm_user = strip (tm_user m), tm_client = strip (tm_client m), tm_created = strip (tm_created m),
     tm_expires = strip (tm_expires m)\<rparr>"

fun issued_in_lines :: "string list \<Rightarrow> token_line list \<Rightarrow> (string \<times> token_meta) list \<Rightarrow> (string \<times> token_meta) list" where
  \<comment> \<open>the records of minted tokens that are not consumed; records of consumption are skipped\<close>
  "issued_in_lines gone [] issued = issued"
| "issued_in_lines gone (Minted t m # ls) issued =
     issued_in_lines gone ls
       (if strip t = [] \<or> strip t \<in> set gone then issued else dset (strip t) (trim_meta m) issued)"
| "issued_in_lines gone (l # ls) issued = issued_in_lines gone ls issued"

definition issued_from_tokens_file :: "enroll_env \<Rightarrow> enroll_files \<Rightarrow> (string \<times> token_meta) list" where
  "issued_from_tokens_file e fs =
     (case tokens_file fs of
        None \<Rightarrow> []
      | Some ls \<Rightarrow> if persists e then purge_expired_issued e (issued_in_lines (load_consumed fs) ls []) else [])"

definition load_issued :: "enroll_env \<Rightarrow> enroll_files \<Rightarrow> (string \<times> token_meta) list" where
  "load_issued e fs =
     (let on_disk = (case issued_file fs of None \<Rightarrow> [] | Some d \<Rightarrow> d) in
      purge_expired_issued e (dupdate (issued_from_tokens_file e fs) (purge_expired_issued e on_disk)))"

definition save_issued :: "enroll_env \<Rightarrow> (string \<times> token_meta) list \<Rightarrow> enroll_files \<Rightarrow> unit res \<times> enroll_files" where
  "save_issued e issued fs =
     (if write_ok e 0 then (Inr (), fs\<lparr>issued_file := Some (purge_expired_issued e issued)\<rparr>) else (Inl OSError, fs))"

definition save_consumed :: "enroll_env \<Rightarrow> string list \<Rightarrow> enroll_files \<Rightarrow> unit res \<times> enroll_files" where
  "save_consumed e ts fs = (if write_ok e 1 then (Inr (), fs\<lparr>consumed_file := Some ts\<rparr>) else (Inl OSError, fs))"

definition append_tokens_file :: "enroll_env \<Rightarrow> token_line \<Rightarrow> enroll_files \<Rightarrow> unit res \<times> enroll_files" where
  "append_tokens_file e l fs =
     (if \<not> persists e \<or> \<not> auto_append e then (Inr (), fs)
      else if write_ok e 2
      then (Inr (), fs\<lparr>tokens_file := Some ((case tokens_file fs of None \<Rightarrow> [] | Some ls \<Rightarrow> ls) @ [l])\<rparr>)
      else (Inl OSError, fs))"

definition init_enrollment_store :: "enroll_env \<Rightarrow> enroll_files \<Rightarrow> unit res \<times> enroll_files" where
  "init_enrollment_store e fs =
     (if \<not> persists e \<or> tokens_file fs \<noteq> None then (Inr (), fs)
      else if write_ok e 2 then (Inr (), fs\<lparr>tokens_file := Some []\<rparr>) else (Inl OSError, fs))"

definition issued_owner :: "enroll_env \<Rightarrow> enroll_files \<Rightarrow> string \<Rightarrow> owner option" where
  "issued_owner e fs token =
     map_option (\<lambda>m. (strip (tm_user m), strip (tm_client m))) (map_of (load_issued e fs) token)"

definition plain_tokens :: "token_line list \<Rightarrow> string list" where
  "plain_tokens ls = concat (map (\<lambda>l. case l of Plain t \<Rightarrow> [t] | _ \<Rightarrow> []) ls)"

definition load_static_tokens :: "enroll_env \<Rightarrow> enroll_files \<Rightarrow> string list" where
  "load_static_tokens e fs =
     filter (\<lambda>t. t \<noteq> []) (map strip (split_char (CHR '','') (tokens_env e)))
     @ (case tokens_file fs of Some ls \<Rightarrow> if persists e then plain_tokens ls else [] | None \<Rightarrow> [])"

section \<open>Consuming and minting\<close>

definition consume_token :: "enroll_env \<Rightarrow> string \<Rightarrow> enroll_files \<Rightarrow> (bool \<times> owner option) res \<times> enroll_files" where
  "consume_token e raw fs =
     (let token = strip raw; gone = load_consumed fs; issued = load_issued e fs; no = Inr (False, None) in
      if token = [] then (no, fs)
      else if token \<in> set gone then (no, fs)
      else if has token issued then
       (case issued_owner e fs token of
          None \<Rightarrow> (no, fs)
        | Some own \<Rightarrow>
           (if fst own = [] then (no, fs)
            else
             (case save_issued e (dpop token issued) fs of
                (Inl x, fs) \<Rightarrow> (Inl x, fs)
              | (Inr _, fs) \<Rightarrow>
                 (case save_consumed e (List.insert token gone) fs of
                    (Inl x, fs) \<Rightarrow> (Inl x, fs)
                  | (Inr _, fs) \<Rightarrow>
                     (case append_tokens_file e (Consumed token) fs of
                        (Inl x, fs) \<Rightarrow> (Inl x, fs) | (Inr _, fs) \<Rightarrow> (Inr (True, Some own), fs))))))
      else if token \<notin> set (load_static_tokens e fs) then (no, fs)
      else (case save_consumed e (List.insert token gone) fs of
              (Inl x, fs) \<Rightarrow> (Inl x, fs) | (Inr _, fs) \<Rightarrow> (Inr (True, None), fs)))"

definition minted_meta :: "int \<Rightarrow> int \<Rightarrow> string \<Rightarrow> string \<Rightarrow> token_meta" where
  "minted_meta created expires uid cid =
     \<lparr>tm_user = uid, tm_client = cid, tm_created = isoformat created, tm_expires = isoformat expires\<rparr>"

definition minted_dict :: "string \<Rightarrow> token_meta \<Rightarrow> dict" where
  "minted_dict token m =
     [(''token'', JStr token), (''expires_at'', JStr (tm_expires m)), (''user_id'', JStr (tm_user m)), (''client_id'', JStr (tm_client m))]"

definition token_ttl :: "enroll_env \<Rightarrow> int option \<Rightarrow> int" where
  "token_ttl e ttl_seconds = max 60 (case ttl_seconds of None \<Rightarrow> ttl_default e | Some t \<Rightarrow> t)"

definition mint_enrollment_token ::
  "enroll_env \<Rightarrow> string \<Rightarrow> string \<Rightarrow> int option \<Rightarrow> enroll_files \<Rightarrow> dict res \<times> enroll_files" where
  "mint_enrollment_token e user_id client_id ttl_seconds fs =
     (let uid = strip user_id; expires = en_now e + token_ttl e ttl_seconds * 1000000; token = ''enr_'' @ fresh_token e;
          m = minted_meta (en_now e) expires uid (strip client_id) in
      if uid = [] then (Inl ValueError, fs)
      else if expires \<ge> year_end_us then (Inl OverflowError, fs)
      else
       (case save_issued e (dset token m (load_issued e fs)) fs of
          (Inl x, fs) \<Rightarrow> (Inl x, fs)
        | (Inr _, fs) \<Rightarrow>
           (case append_tokens_file e (Minted token m) fs of
              (Inl x, fs) \<Rightarrow> (Inl x, fs) | (Inr _, fs) \<Rightarrow> (Inr (minted_dict token m), fs))))"

section \<open>The address of the agent's WebSocket\<close>

definition replace_first :: "string \<Rightarrow> string \<Rightarrow> string \<Rightarrow> string" where
  \<comment> \<open>\<open>s.replace(a, b, 1)\<close> for a nonempty pattern\<close>
  "replace_first a b s =
     (case find (\<lambda>i. startswith (drop i s) a) [0..<length s] of
        None \<Rightarrow> s | Some i \<Rightarrow> take i s @ b @ drop (i + length a) s)"

function format_host :: "string \<Rightarrow> string \<Rightarrow> string res" where
  \<comment> \<open>\<open>template.format(host=host)\<close>, without conversions and format specifications\<close>
  "format_host host s =
     (if s = [] then Inr []
      else if startswith s ''{{'' then res_bind (format_host host (drop 2 s)) (\<lambda>r. Inr (CHR ''{'' # r))
      else if startswith s ''}}'' then res_bind (format_host host (drop 2 s)) (\<lambda>r. Inr (CHR ''}'' # r))
      else if startswith s ''{host}'' then res_bind (format_host host (drop 6 s)) (\<lambda>r. Inr (host @ r))
      else if hd s = CHR ''{'' then Inl (if CHR ''}'' \<in> set s then KeyError else ValueError)
      else if hd s = CHR ''}'' then Inl ValueError
      else res_bind (format_host host (tl s)) (\<lambda>r. Inr (hd s # r)))"
  by pat_completeness auto
termination format_host
  by (relation "measure (\<lambda>(h, s). length s)") (auto simp: neq_Nil_conv)

declare format_host.simps [simp del]

definition ws_url_for_enrollment :: "string \<Rightarrow> string \<Rightarrow> string \<Rightarrow> string \<Rightarrow> bool \<Rightarrow> string res" where
  \<comment> \<open>the template of the environment, host, scheme of the request, forwarded scheme\<close>
  "ws_url_for_enrollment template host url_scheme forwarded_proto trust =
     (if \<not> contains template ''{host}'' then Inr template
      else
       (let proto = (if trust \<and> strip forwarded_proto \<noteq> [] then lower (strip forwarded_proto)
                     else lower (if url_scheme = [] then ''https'' else url_scheme)) in
        format_host host (if proto \<in> set [''http'', ''ws''] then replace_first ''wss://'' ''ws://'' template else template)))"

record http_request =
  req_auth :: string
    \<comment> \<open>headers; empty when missing\<close>
  req_host :: string
  req_forwarded_host :: string
  req_forwarded_proto :: string
  req_scheme :: string

definition public_host :: "string \<Rightarrow> bool \<Rightarrow> http_request \<Rightarrow> string" where
  "public_host env_host trust r =
     (let fwd = strip (hd (split_char (CHR '','') (req_forwarded_host r))) in
      if strip env_host \<noteq> [] then strip env_host
      else if trust \<and> fwd \<noteq> [] then fwd
      else if strip (req_host r) \<noteq> [] then strip (req_host r) else ''localhost:8000'')"

section \<open>The endpoints\<close>

record server_env =
  en :: enroll_env
  owner_cfg :: owner_env
  jwt :: jwt_env
  ca_ok :: bool
    \<comment> \<open>whether key and certificate of the CA load\<close>
  ca_text :: "string res"
  identity_keys :: "string \<times> string"
    \<comment> \<open>fresh private and public key\<close>
  client_cert :: "string \<Rightarrow> string \<times> string"
    \<comment> \<open>fresh key and certificate for a common name\<close>
  signing_pem :: string
  uuid_hex :: string
  default_tenant :: string
  ws_template :: string
  public_host_env :: string
  trust_forwarded :: bool

record enroll_state =
  files :: enroll_files
  stored :: inventory
  ids_cache :: id_cache
  keys :: key_cache

definition decode_bearer :: "server_env \<Rightarrow> string \<Rightarrow> key_cache \<Rightarrow> dict option \<times> key_cache" where
  \<comment> \<open>the claims of a token, with the token; \<open>None\<close> when it is refused\<close>
  "decode_bearer e bearer c =
     (case decode_robin_jwt (jwt e) bearer c of
        (Inl _, c) \<Rightarrow> (None, c) | (Inr claims, c) \<Rightarrow> (Some (with_token bearer claims), c))"

definition after_space :: "string \<Rightarrow> string" where
  \<comment> \<open>\<open>a.split(" ", 1)[1].strip()\<close>\<close>
  "after_space a = strip (tl (dropWhile (\<lambda>c. c \<noteq> CHR '' '') a))"

definition create_enrollment_token :: "server_env \<Rightarrow> string \<Rightarrow> enroll_state \<Rightarrow> dict res \<times> enroll_state" where
  \<comment> \<open>with its dependency \<open>require_jwt_to_mint_enrollment_token\<close>\<close>
  "create_enrollment_token e authorization st =
     (if \<not> startswith authorization ''Bearer '' then (Inl (HTTPException 401), st)
      else
       (case decode_bearer e (after_space authorization) (keys st) of
          (None, c) \<Rightarrow> (Inl (HTTPException 401), st\<lparr>keys := c\<rparr>)
        | (Some user, c) \<Rightarrow>
           (case owner_ids_from_user (owner_cfg e) (Some user) [] (stored st) (ids_cache st) of
              (ids, ic) \<Rightarrow>
               (let st = st\<lparr>keys := c, ids_cache := ic\<rparr> in
                if strip (fst ids) = [] then (Inl (HTTPException 400), st)
                else
                 (case mint_enrollment_token (en e) (strip (fst ids)) (snd ids) None (files st) of
                    (Inl x, fs) \<Rightarrow> (Inl (if x = ValueError then HTTPException 400 else x), st\<lparr>files := fs\<rparr>)
                  | (Inr d, fs) \<Rightarrow> (Inr d, st\<lparr>files := fs\<rparr>))))))"

definition enroll_claims :: "server_env \<Rightarrow> http_request \<Rightarrow> key_cache \<Rightarrow> dict \<times> key_cache" where
  \<comment> \<open>a refused token still leaves its text in the claims\<close>
  "enroll_claims e r c =
     (if startswith (lower (req_auth r)) ''bearer '' then
        (case decode_bearer e (after_space (req_auth r)) c of
           (Some claims, c) \<Rightarrow> (claims, c)
         | (None, c) \<Rightarrow> ([(''_access_token'', JStr (after_space (req_auth r)))], c))
      else ([], c))"

definition owner_ids_for_enroll ::
  "server_env \<Rightarrow> http_request \<Rightarrow> string \<Rightarrow> owner option \<Rightarrow> enroll_state \<Rightarrow> owner res \<times> enroll_state" where
  "owner_ids_for_enroll e r agent_id token_owner st =
     (case enroll_claims e r (keys st) of
        (claims, c) \<Rightarrow>
         (let ask = (\<lambda>user. owner_ids_from_user (owner_cfg e) user agent_id (stored st) (ids_cache st)) in
          case token_owner of
            Some (uid, cid) \<Rightarrow>
             (if uid = [] then
                (case ask (if claims = [] then None else Some claims) of (ids, ic) \<Rightarrow> (Inr ids, st\<lparr>keys := c, ids_cache := ic\<rparr>))
              else if claims = [] then (Inr (uid, cid), st\<lparr>keys := c\<rparr>)
              else
               (case ask (Some claims) of
                  (ids, ic) \<Rightarrow>
                   (let st = st\<lparr>keys := c, ids_cache := ic\<rparr>; jwt_uid = strip (fst ids); jwt_cid = strip (snd ids) in
                    if jwt_uid \<noteq> [] \<and> jwt_uid \<noteq> uid then (Inl (HTTPException 403), st)
                    else if cid \<noteq> [] \<and> jwt_cid \<noteq> [] \<and> jwt_cid \<noteq> cid then (Inl (HTTPException 403), st)
                    else (Inr (uid, cid), st))))
          | None \<Rightarrow>
             (case ask (if claims = [] then None else Some claims) of (ids, ic) \<Rightarrow> (Inr ids, st\<lparr>keys := c, ids_cache := ic\<rparr>))))"

definition new_agent_id :: "server_env \<Rightarrow> string \<Rightarrow> string" where
  "new_agent_id e client_name =
     ''agt_'' @ replace_char (CHR '' '') ''-'' (strip (lower client_name)) @ ''_'' @ take 6 (uuid_hex e)"

definition build_bundle :: "server_env \<Rightarrow> string \<Rightarrow> string \<Rightarrow> string \<Rightarrow> dict res" where
  "build_bundle e client_name tenant_id ws_url =
     (if \<not> ca_ok e then Inl (HTTPException 500)
      else res_bind (ca_text e) (\<lambda>ca. Inr
        [(''agent_id'', JStr (new_agent_id e client_name)), (''client_name'', JStr client_name),
         (''tenant_id'', JStr (if tenant_id = [] then default_tenant e else tenant_id)), (''websocket_url'', JStr ws_url),
         (''private_key'', JStr (fst (identity_keys e))), (''public_key'', JStr (snd (identity_keys e))),
         (''signing_public_key'', JStr (signing_pem e)), (''tls_ca_cert'', JStr ca),
         (''tls_client_cert'', JStr (snd (client_cert e client_name))), (''tls_client_key'', JStr (fst (client_cert e client_name)))]))"

definition opt_id :: "string \<Rightarrow> json" where "opt_id t = (if t = [] then JNull else JStr t)"

definition store_enrolled :: "server_env \<Rightarrow> dict \<Rightarrow> string \<Rightarrow> owner \<Rightarrow> inventory \<Rightarrow> inventory" where
  \<comment> \<open>an exception of the first statement skips the second; it is logged only\<close>
  "store_enrolled e bundle client_name ids st =
     (let uid = strip (fst ids);
          flds = [(''client_name'', JStr client_name), (''tenant_id'', getv bundle ''tenant_id''), (''hostname'', JStr client_name),
                  (''user_id'', opt_id uid), (''client_id'', opt_id (snd ids))] in
      case (if uid \<noteq> [] then upsert_user (owner_cfg e) uid (opt_id (snd ids)) st else (Inr (), st)) of
        (Inl _, st) \<Rightarrow> st
      | (Inr _, st) \<Rightarrow> snd (upsert_agent (owner_cfg e) (py_str (getv bundle ''agent_id'')) flds st))"

definition enroll :: "server_env \<Rightarrow> http_request \<Rightarrow> string \<Rightarrow> string \<Rightarrow> string \<Rightarrow> enroll_state \<Rightarrow> dict res \<times> enroll_state" where
  \<comment> \<open>token, client name and tenant of the request\<close>
  "enroll e r raw_token raw_name tenant_id st =
     (let token = strip raw_token; client_name = strip raw_name in
      if token = [] \<or> client_name = [] then (Inl (HTTPException 400), st)
      else if \<not> ca_ok e then (Inl (HTTPException 500), st)
      else
       (case consume_token (en e) token (files st) of
          (Inl x, fs) \<Rightarrow> (Inl x, st\<lparr>files := fs\<rparr>)
        | (Inr (ok, token_owner), fs) \<Rightarrow>
           (let st = st\<lparr>files := fs\<rparr> in
            if \<not> ok then (Inl (HTTPException 403), st)
            else
             (case res_bind (ws_url_for_enrollment (ws_template e) (public_host (public_host_env e) (trust_forwarded e) r)
                       (req_scheme r) (req_forwarded_proto r) (trust_forwarded e)) (build_bundle e client_name tenant_id) of
                Inl x \<Rightarrow> (Inl x, st)
              | Inr bundle \<Rightarrow>
                 (case owner_ids_for_enroll e r (py_str (getv bundle ''agent_id'')) token_owner st of
                    (Inl x, st) \<Rightarrow> (Inl x, st)
                  | (Inr ids, st) \<Rightarrow> (Inr bundle, st\<lparr>stored := store_enrolled e bundle client_name ids (stored st)\<rparr>))))))"

section \<open>A token enrolls once\<close>

lemma save_simps [simp]:
  "snd (save_issued e i fs) = (if write_ok e 0 then fs\<lparr>issued_file := Some (purge_expired_issued e i)\<rparr> else fs)"
  "fst (save_issued e i fs) = (if write_ok e 0 then Inr () else Inl OSError)"
  "snd (save_consumed e ts fs) = (if write_ok e 1 then fs\<lparr>consumed_file := Some ts\<rparr> else fs)"
  "fst (save_consumed e ts fs) = (if write_ok e 1 then Inr () else Inl OSError)"
  by (simp_all add: save_issued_def save_consumed_def)

lemma append_consumed [simp]: "consumed_file (snd (append_tokens_file e l fs)) = consumed_file fs"
  by (simp add: append_tokens_file_def)

lemma append_cases:
  "append_tokens_file e l fs = (r, fs') \<Longrightarrow> consumed_file fs' = consumed_file fs \<and> issued_file fs' = issued_file fs"
  by (auto simp: append_tokens_file_def split: if_splits)

text \<open>What consuming does to the consumed tokens: they only grow, and an accepted token joins.\<close>

lemma consume_token_effect:
  assumes "consume_token e raw fs = (r, fs')"
  shows "set (load_consumed fs) \<subseteq> set (load_consumed fs')"
    and "r = Inr (True, own) \<Longrightarrow> strip raw \<notin> set (load_consumed fs) \<and> strip raw \<in> set (load_consumed fs')"
proof -
  have "set (load_consumed fs) \<subseteq> set (load_consumed fs') \<and>
      ((\<exists>own. r = Inr (True, own)) \<longrightarrow> strip raw \<notin> set (load_consumed fs) \<and> strip raw \<in> set (load_consumed fs'))"
    using assms
    by (auto simp: consume_token_def Let_def save_issued_def save_consumed_def load_consumed_def
        dest!: append_cases split: if_splits option.splits prod.splits sum.splits)
  then show "set (load_consumed fs) \<subseteq> set (load_consumed fs')"
    "r = Inr (True, own) \<Longrightarrow> strip raw \<notin> set (load_consumed fs) \<and> strip raw \<in> set (load_consumed fs')" by auto
qed

lemma mint_consumed:
  assumes "mint_enrollment_token e u c t fs = (r, fs')"
  shows "consumed_file fs' = consumed_file fs"
  using assms
  by (auto simp: mint_enrollment_token_def Let_def save_issued_def dest!: append_cases split: if_splits prod.splits sum.splits)

text \<open>The store as a machine: each operation with the clock and the writes it meets.\<close>

datatype enroll_event = Mint enroll_env string string "int option" | Consume enroll_env string

fun enroll_step :: "enroll_event \<Rightarrow> enroll_files \<Rightarrow> string list \<times> enroll_files" where
  \<comment> \<open>the tokens that were accepted\<close>
  "enroll_step (Mint e u c t) fs = ([], snd (mint_enrollment_token e u c t fs))"
| "enroll_step (Consume e raw) fs =
     (case consume_token e raw fs of
        (Inr (True, own), fs') \<Rightarrow> ([strip raw], fs') | (_, fs') \<Rightarrow> ([], fs'))"

lemma enroll_step_effect:
  "distinct (fst (enroll_step ev fs)) \<and> set (fst (enroll_step ev fs)) \<inter> set (load_consumed fs) = {} \<and>
   set (load_consumed fs) \<union> set (fst (enroll_step ev fs)) \<subseteq> set (load_consumed (snd (enroll_step ev fs)))"
proof (cases ev)
  case (Mint e u c t)
  then show ?thesis
    using mint_consumed [OF prod.collapse [symmetric], of e u c t fs] by (simp add: load_consumed_def)
next
  case (Consume e raw)
  obtain r fs' where "consume_token e raw fs = (r, fs')" by fastforce
  with consume_token_effect [OF this] Consume show ?thesis
    by (cases r) (auto split: bool.splits)
qed

text \<open>
  C26: In every sequence of minting and consuming, with any clock and any failing writes, every
  token is accepted at most once, as long as the file of the consumed tokens stays.
\<close>

theorem token_enrolls_once:
  "distinct (concat (fst (run enroll_step evs fs))) \<and> set (concat (fst (run enroll_step evs fs))) \<inter> set (load_consumed fs) = {}"
proof (induction evs arbitrary: fs)
  case (Cons ev evs)
  have i: "distinct (concat (fst (run enroll_step evs (snd (enroll_step ev fs)))))"
      "set (concat (fst (run enroll_step evs (snd (enroll_step ev fs))))) \<inter> set (load_consumed (snd (enroll_step ev fs))) = {}"
    using Cons.IH by blast+
  then show ?case
    using enroll_step_effect [of ev fs] by (auto simp: case_prod_unfold Let_def)
qed simp

section \<open>The life of a minted token\<close>

lemma distinct_dupdate: "distinct (map fst d) \<Longrightarrow> distinct (map fst (dupdate d d'))"
  by (induction d' arbitrary: d) (simp_all add: dupdate_def dset_def distinct_update case_prod_unfold)

lemma distinct_purge: "distinct (map fst d) \<Longrightarrow> distinct (map fst (purge_expired_issued e d))"
  by (induction d) (auto simp: purge_expired_issued_def)

lemma distinct_issued_in_lines: "distinct (map fst d) \<Longrightarrow> distinct (map fst (issued_in_lines gone ls d))"
  by (induction gone ls d rule: issued_in_lines.induct) (simp_all add: dset_def distinct_update)

lemma distinct_load_issued: "distinct (map fst (load_issued e fs))"
proof -
  have "distinct (map fst (issued_from_tokens_file e fs))"
    using distinct_purge [OF distinct_issued_in_lines [of "[]"]] by (simp add: issued_from_tokens_file_def split: option.split)
  then show ?thesis by (simp add: load_issued_def Let_def distinct_purge distinct_dupdate)
qed

lemma map_of_purge: "map_of d t = Some m \<Longrightarrow> token_live e m \<Longrightarrow> map_of (purge_expired_issued e d) t = Some m"
  by (induction d) (auto simp: purge_expired_issued_def split: if_splits)

lemma purge_live: "map_of (purge_expired_issued e d) t = Some m \<Longrightarrow> token_live e m"
  by (auto simp: purge_expired_issued_def dest!: map_of_SomeD)

lemma issued_is_live: "map_of (load_issued e fs) t = Some m \<Longrightarrow> token_live e m"
  using purge_live by (auto simp: load_issued_def Let_def)

lemma on_disk_is_issued:
  assumes "issued_file fs = Some d" "distinct (map fst d)" "map_of d t = Some m" "token_live e m"
  shows "map_of (load_issued e fs) t = Some m"
proof -
  have x: "distinct (map fst (rev (purge_expired_issued e d)))"
    using distinct_purge [OF assms(2)] by (simp add: rev_map [symmetric])
  then have "map_of (rev (purge_expired_issued e d)) t = Some m"
    unfolding map_of_eq_Some_iff [OF x] using map_of_SomeD [OF map_of_purge [OF assms(3,4)]] by simp
  then show ?thesis
    using assms(1,4) by (simp add: load_issued_def Let_def map_of_purge map_of_dupdate)
qed

lemma strip_isoformat [simp]: "strip (isoformat us) = isoformat us"
proof (rule strip_no_space)
  have d: "is_digit c \<Longrightarrow> \<not> is_space c" for c by (auto simp: is_digit_def is_space_def)
  have "\<forall>c \<in> set (pad w n). \<not> is_space c" for w n using pad_digits d by blast
  then show "\<forall>c \<in> set (isoformat us). \<not> is_space c"
    by (auto simp: isoformat_def date_text_def clock_text_def Let_def is_space_def code_point_def split: prod.splits if_splits)
qed

lemma minted_live:
  assumes "year_start_us \<le> expires" "expires < year_end_us"
  shows "token_live e (minted_meta created expires uid cid) \<longleftrightarrow> en_now e \<le> expires"
  using fromisoformat_isoformat [OF assms]
  by (simp add: token_live_def Let_def minted_meta_def replace_char_id isoformat_no_Z as_utc_def)

lemma mint_result:
  assumes "mint_enrollment_token e user_id client_id ttl fs = (Inr d, fs1)"
  defines "token \<equiv> ''enr_'' @ fresh_token e" and "expires \<equiv> en_now e + token_ttl e ttl * 1000000"
  shows "d = minted_dict token (minted_meta (en_now e) expires (strip user_id) (strip client_id))" "strip user_id \<noteq> []"
    "expires < year_end_us"
    "issued_file fs1 = Some (purge_expired_issued e (dset token (minted_meta (en_now e) expires (strip user_id) (strip client_id)) (load_issued e fs)))"
    "consumed_file fs1 = consumed_file fs"
  using assms(1) unfolding token_def expires_def
  by (auto simp: mint_enrollment_token_def Let_def save_issued_def dest!: append_cases split: if_splits prod.splits sum.splits)

text \<open>
  A minted token enrolls its owner: until the end it was minted with, on any later occasion
  where it has not been used yet and the files can be written, it is accepted for the user and
  the client it was minted for.
\<close>

theorem minted_token_enrolls_owner:
  assumes "mint_enrollment_token e user_id client_id ttl fs = (Inr d, fs1)"
    and "year_start_us \<le> en_now e" "en_now e2 \<le> en_now e + token_ttl e ttl * 1000000"
    and "write_ok e2 0" "write_ok e2 1" "write_ok e2 2"
    and "strip (''enr_'' @ fresh_token e) = ''enr_'' @ fresh_token e" "''enr_'' @ fresh_token e \<notin> set (load_consumed fs)"
  shows "fst (consume_token e2 (''enr_'' @ fresh_token e) fs1) = Inr (True, Some (strip user_id, strip client_id))"
proof -
  define token expires m where "token = ''enr_'' @ fresh_token e" and "expires = en_now e + token_ttl e ttl * 1000000"
    and "m = minted_meta (en_now e) expires (strip user_id) (strip client_id)"
  note r = mint_result [OF assms(1), folded token_def expires_def m_def]
  have ttl: "token_ttl e ttl \<ge> 60" by (simp add: token_ttl_def)
  then have x: "year_start_us \<le> expires" using assms(2) by (simp add: expires_def)
  have live: "token_live e m" "token_live e2 m"
    using minted_live [OF x r(3)] ttl assms(3) by (simp_all add: m_def expires_def)
  have "distinct (map fst (purge_expired_issued e (dset token m (load_issued e fs))))"
    using distinct_load_issued by (simp add: distinct_purge dset_def distinct_update)
  moreover have "map_of (purge_expired_issued e (dset token m (load_issued e fs))) token = Some m"
    using live(1) by (simp add: map_of_purge)
  ultimately have i: "map_of (load_issued e2 fs1) token = Some m"
    using on_disk_is_issued [OF r(4)] live(2) by blast
  then have "has token (load_issued e2 fs1)" by (force simp: has_def dest: map_of_SomeD)
  moreover have "token \<notin> set (load_consumed fs1)" "token \<noteq> []" "strip token = token"
    using assms(7,8) r(5) by (simp_all add: load_consumed_def token_def)
  ultimately show ?thesis
    using i r(2) assms(4-6)
    by (auto simp: consume_token_def Let_def issued_owner_def m_def minted_meta_def save_issued_def save_consumed_def
        append_tokens_file_def token_def)
qed

text \<open>A token that enrolls a user has not reached the end that its files give.\<close>

lemma accepted_token_is_live:
  assumes "consume_token e raw fs = (Inr (True, Some o1), fs')"
  shows "\<exists>m. map_of (load_issued e fs) (strip raw) = Some m \<and> token_live e m \<and> o1 = (strip (tm_user m), strip (tm_client m)) \<and> fst o1 \<noteq> []"
proof -
  have "issued_owner e fs (strip raw) = Some o1 \<and> fst o1 \<noteq> []"
    using assms by (auto simp: consume_token_def Let_def split: if_splits option.splits prod.splits sum.splits)
  then show ?thesis using issued_is_live by (auto simp: issued_owner_def)
qed

section \<open>Records of consumption are not read\<close>

lemma issued_in_lines_snoc:
  "issued_in_lines gone (ls @ [Minted t m, Consumed t']) d =
     (let d' = issued_in_lines gone ls d in if strip t = [] \<or> strip t \<in> set gone then d' else dset (strip t) (trim_meta m) d')"
  by (induction gone ls d rule: issued_in_lines.induct) (simp_all add: Let_def)

lemma trim_minted [simp]: "strip uid = uid \<Longrightarrow> strip cid = cid \<Longrightarrow> trim_meta (minted_meta c x uid cid) = minted_meta c x uid cid"
  by (simp add: trim_meta_def minted_meta_def)

text \<open>
  The tokens file gets a record of every consumption, but reading it skips them: when the other
  two files are lost, a token that has been used is accepted again, although the tokens file
  says that it was consumed.
\<close>

theorem consumption_record_is_ignored:
  assumes "mint_enrollment_token e user_id client_id ttl fs = (Inr d, fs1)"
    and "consume_token e (''enr_'' @ fresh_token e) fs1 = (Inr (True, own), fs2)"
    and "persists e" "auto_append e" "year_start_us \<le> en_now e" "write_ok e 0" "write_ok e 1" "write_ok e 2"
    and "strip (''enr_'' @ fresh_token e) = ''enr_'' @ fresh_token e"
  shows "\<exists>ls. tokens_file fs2 = Some ls \<and> Consumed (''enr_'' @ fresh_token e) \<in> set ls \<and>
    fst (consume_token e (''enr_'' @ fresh_token e) (fs2\<lparr>consumed_file := None, issued_file := None\<rparr>))
      = Inr (True, Some (strip user_id, strip client_id))"
proof -
  define token expires m where "token = ''enr_'' @ fresh_token e" and "expires = en_now e + token_ttl e ttl * 1000000"
    and "m = minted_meta (en_now e) expires (strip user_id) (strip client_id)"
  note r = mint_result [OF assms(1), folded token_def expires_def m_def]
  have ttl: "token_ttl e ttl \<ge> 60" by (simp add: token_ttl_def)
  then have live: "token_live e m"
    using minted_live [of expires e] r(3) assms(5) by (simp add: m_def expires_def)
  define ls0 where "ls0 = (case tokens_file fs of None \<Rightarrow> [] | Some ls \<Rightarrow> ls)"
  have t1: "tokens_file fs1 = Some (ls0 @ [Minted token m])"
    using assms(1,3,4,6,8)
    by (auto simp: mint_enrollment_token_def Let_def save_issued_def append_tokens_file_def token_def m_def expires_def ls0_def
        split: if_splits prod.splits sum.splits)
  have i1: "has token (load_issued e fs1)"
  proof -
    have "distinct (map fst (purge_expired_issued e (dset token m (load_issued e fs))))"
      using distinct_load_issued by (simp add: distinct_purge dset_def distinct_update)
    moreover have "map_of (purge_expired_issued e (dset token m (load_issued e fs))) token = Some m"
      using live by (simp add: map_of_purge)
    ultimately show ?thesis using on_disk_is_issued [OF r(4)] live by (force simp: has_def dest: map_of_SomeD)
  qed
  have tk: "token \<noteq> []" "strip token = token" using assms(9) by (simp_all add: token_def)
  have t2: "tokens_file fs2 = Some (ls0 @ [Minted token m, Consumed token])"
    using assms(2) [folded token_def] i1 tk t1 assms(3,4,6-8)
    by (auto simp: consume_token_def Let_def save_issued_def save_consumed_def append_tokens_file_def split: if_splits option.splits)
  define fs3 where "fs3 = fs2\<lparr>consumed_file := None, issued_file := None\<rparr>"
  have "map_of (issued_in_lines [] (ls0 @ [Minted token m, Consumed token]) []) token = Some m"
    using tk by (simp add: issued_in_lines_snoc Let_def) (simp add: m_def)
  then have "map_of (load_issued e fs3) token = Some m"
    using live assms(3)
    by (simp add: load_issued_def issued_from_tokens_file_def fs3_def t2 load_consumed_def purge_expired_issued_def [of _ "[]"]
        dupdate_def map_of_purge)
  moreover from this have "has token (load_issued e fs3)" by (force simp: has_def dest: map_of_SomeD)
  ultimately have "fst (consume_token e token fs3) = Inr (True, Some (strip user_id, strip client_id))"
    using r(2) tk assms(6-8)
    by (auto simp: consume_token_def Let_def issued_owner_def m_def minted_meta_def save_issued_def save_consumed_def
        append_tokens_file_def fs3_def load_consumed_def)
  then show ?thesis using t2 by (auto simp: fs3_def token_def)
qed

section \<open>Enrolling\<close>

text \<open>
  The token is consumed before the JWT is compared with its owner, so that a request with the
  JWT of somebody else is refused and still uses the token up.
\<close>

theorem foreign_jwt_uses_token_up:
  assumes "consume_token (en e) (strip token) (files st) = (Inr (True, Some (uid, cid)), fs)" "uid \<noteq> []"
    and "strip token \<noteq> []" "strip nm \<noteq> []" "ca_ok e" "ca_text e = Inr ca"
    and "ws_url_for_enrollment (ws_template e) (public_host (public_host_env e) (trust_forwarded e) r)
           (req_scheme r) (req_forwarded_proto r) (trust_forwarded e) = Inr url"
    and "enroll_claims e r (keys st) = (claims, c)" "claims \<noteq> []"
    and "fst (fst (owner_ids_from_user (owner_cfg e) (Some claims) (new_agent_id e (strip nm)) (stored st) (ids_cache st))) = jwt_uid"
    and "strip jwt_uid \<noteq> []" "strip jwt_uid \<noteq> uid"
    and "enroll e r token nm tenant st = (reply, st')"
  shows "reply = Inl (HTTPException 403) \<and> strip token \<in> set (load_consumed (files st')) \<and> stored st' = stored st"
proof -
  have "strip token \<in> set (load_consumed fs)"
    using consume_token_effect(2) [OF assms(1)] by simp
  then show ?thesis
    using assms(13) unfolding enroll_def Let_def
    by (simp add: assms(1-12) build_bundle_def owner_ids_for_enroll_def case_prod_unfold Let_def)
      (auto simp: assms(2-12) Let_def split: if_splits)
qed

lemma upsert_agent_owner:
  assumes "db_on e" "db_ok e" "strip agent \<noteq> []" "texts_only flds" "getv flds ''user_id'' = JStr uid" "strip uid = uid" "uid \<noteq> []"
  shows "\<exists>r. map_of (inv_agents (snd (upsert_agent e agent flds st))) (strip agent) = Some r \<and> getv r ''user_id'' = JStr uid"
proof (cases "map_of (inv_agents st) (strip agent)")
  case None
  then show ?thesis
    using assms by (simp add: upsert_agent_def Let_def new_agent_row_def STR_KEYS_def map_add_def)
next
  case (Some row)
  then obtain r where r: "map_of (inv_agents (snd (upsert_agent e agent flds st))) (strip agent) = Some r"
      "\<forall>k \<in> set STR_KEYS. keep_str (getv flds k) (getv row k) = Inr (getv r k)"
    using upsert_agent_row [OF assms(1-3) Some assms(4)] by blast
  have "''user_id'' \<in> set STR_KEYS" by (simp add: STR_KEYS_def)
  then have "getv r ''user_id'' = JStr uid"
    using r(2) assms(5-7) keep_str_new [of uid "getv row ''user_id''"] by fastforce
  with r(1) show ?thesis by blast
qed

lemma enrolled_user_stored:
  assumes "strip uid \<noteq> []" "db_on e" "db_ok e"
  shows "\<exists>st'. upsert_user e uid (opt_id cid) st = (Inr (), st')"
proof -
  obtain c where c: "str_strip (py_or (opt_id cid) (JStr [])) = Inr c"
    by (cases "cid = []") (auto simp: opt_id_def str_strip_def py_or_def)
  obtain v where v: "keep_str (opt_id cid) (getv (the (map_of (inv_users st) (strip uid))) ''client_id'') = Inr v"
    by (cases "cid = []") (auto simp: keep_str_def opt_id_def str_strip_def py_or_def)
  show ?thesis
    using assms c v by (cases "map_of (inv_users st) (strip uid)") (simp_all add: upsert_user_def Let_def)
qed

lemma strip_Cons_nonspace: "\<not> is_space c \<Longrightarrow> strip (c # s) \<noteq> []"
  by (simp add: strip_def lstrip_def rstrip_def)

lemma stored_owner:
  assumes "db_on (owner_cfg e)" "db_ok (owner_cfg e)" "getv bundle ''agent_id'' = JStr (CHR ''a'' # rest)"
    and "is_str (getv bundle ''tenant_id'')" "strip uid = uid" "uid \<noteq> []"
  shows "\<exists>r. map_of (inv_agents (store_enrolled e bundle nm (uid, cid) st)) (strip (CHR ''a'' # rest)) = Some r \<and>
    getv r ''user_id'' = JStr uid"
proof -
  obtain st' where u: "upsert_user (owner_cfg e) uid (opt_id cid) st = (Inr (), st')"
    using enrolled_user_stored [of uid "owner_cfg e" cid st] assms by auto
  define flds where "flds = [(''client_name'', JStr nm), (''tenant_id'', getv bundle ''tenant_id''), (''hostname'', JStr nm),
      (''user_id'', opt_id uid), (''client_id'', opt_id cid)]"
  have f: "texts_only flds" "getv flds ''user_id'' = JStr uid"
    using assms(4,6) by (simp_all add: flds_def texts_only_def opt_id_def)
  have "\<not> is_space (CHR ''a'')" by (simp add: is_space_def code_point_def)
  then have "strip (CHR ''a'' # rest) \<noteq> []" by (rule strip_Cons_nonspace)
  from upsert_agent_owner [OF assms(1,2) this f assms(5,6)] show ?thesis
    using assms(3,5,6) u by (simp add: store_enrolled_def Let_def flds_def)
qed

text \<open>
  An agent that enrolls with a minted token is stored as an agent of the user the token was
  minted for, whatever the request says.
\<close>

theorem enrolled_agent_belongs_to_minter:
  assumes "consume_token (en e) (strip token) (files st) = (Inr (True, Some (uid, cid)), fs)"
    and "enroll e r token nm tenant st = (Inr bundle, st')"
    and "db_on (owner_cfg e)" "db_ok (owner_cfg e)"
  shows "\<exists>row. map_of (inv_agents (stored st')) (strip (py_str (getv bundle ''agent_id''))) = Some row \<and>
    getv row ''user_id'' = JStr uid"
proof -
  obtain m :: token_meta where "(uid, cid) = (strip (tm_user m), strip (tm_client m))" "fst (uid, cid) \<noteq> []"
    using accepted_token_is_live [OF assms(1)] by blast
  then have m: "uid = strip (tm_user m)" "uid \<noteq> []" by simp_all
  then have u: "strip uid = uid" by simp
  obtain url ca where b: "build_bundle e (strip nm) tenant url = Inr bundle"
    and o: "owner_ids_for_enroll e r (py_str (getv bundle ''agent_id'')) (Some (uid, cid)) (st\<lparr>files := fs\<rparr>) =
        (Inr (uid, cid), st'\<lparr>stored := stored st\<rparr>)"
    and s: "stored st' = store_enrolled e bundle (strip nm) (uid, cid) (stored st)"
  proof -
    from assms(2) obtain url ids st1 where 1: "build_bundle e (strip nm) tenant url = Inr bundle"
        "owner_ids_for_enroll e r (py_str (getv bundle ''agent_id'')) (Some (uid, cid)) (st\<lparr>files := fs\<rparr>) = (Inr ids, st1)"
        "st' = st1\<lparr>stored := store_enrolled e bundle (strip nm) ids (stored st1)\<rparr>"
      by (auto simp: enroll_def Let_def assms(1) res_bind_eq_Inr split: if_splits sum.splits prod.splits)
    moreover have "ids = (uid, cid)" "stored st1 = stored st"
      using 1(2) m(2) by (auto simp: owner_ids_for_enroll_def Let_def split: if_splits prod.splits)
    ultimately show thesis using that [of url] by simp
  qed
  have "getv bundle ''agent_id'' = JStr (CHR ''a'' # tl (new_agent_id e (strip nm)))" "is_str (getv bundle ''tenant_id'')"
    using b by (auto simp: build_bundle_def res_bind_eq_Inr new_agent_id_def split: if_splits)
  from stored_owner [OF assms(3,4) this u m(2)] s this show ?thesis by simp
qed

section \<open>Examples\<close>

definition sample_enroll_env :: enroll_env where
  "sample_enroll_env = \<lparr>en_now = 0, tokens_env = [], persists = True, auto_append = True, write_ok = (\<lambda>_. True),
     fresh_token = ''x'', ttl_default = 60\<rparr>"

definition no_files :: enroll_files where
  "no_files = \<lparr>consumed_file = None, issued_file = None, tokens_file = None\<rparr>"

lemma sample_strips [simp]: "strip ''enr_x'' = ''enr_x''" "strip ''u1'' = ''u1''"
  by (rule strip_no_space, simp add: is_space_def code_point_def)+

lemma sample_minted:
  "mint_enrollment_token sample_enroll_env ''u1'' [] None no_files =
     (Inr (projr (fst (mint_enrollment_token sample_enroll_env ''u1'' [] None no_files))),
      snd (mint_enrollment_token sample_enroll_env ''u1'' [] None no_files))"
  by (simp add: mint_enrollment_token_def sample_enroll_env_def no_files_def Let_def save_issued_def append_tokens_file_def
      token_ttl_def year_bounds)

theorem minted_token_enrolls_owner_witness:
  "fst (consume_token sample_enroll_env ''enr_x'' (snd (mint_enrollment_token sample_enroll_env ''u1'' [] None no_files)))
     = Inr (True, Some (''u1'', []))"
  using minted_token_enrolls_owner [OF sample_minted, of sample_enroll_env]
  by (simp add: sample_enroll_env_def no_files_def load_consumed_def year_bounds token_ttl_def)

theorem consumption_record_is_ignored_witness:
  "fst (consume_token sample_enroll_env ''enr_x''
     ((snd (consume_token sample_enroll_env ''enr_x'' (snd (mint_enrollment_token sample_enroll_env ''u1'' [] None no_files))))
       \<lparr>consumed_file := None, issued_file := None\<rparr>)) = Inr (True, Some (''u1'', []))"
proof -
  obtain fs2 where c: "consume_token sample_enroll_env ''enr_x'' (snd (mint_enrollment_token sample_enroll_env ''u1'' [] None no_files))
      = (Inr (True, Some (''u1'', [])), fs2)"
    using minted_token_enrolls_owner_witness by (metis prod.collapse)
  have f: "''enr_'' @ fresh_token sample_enroll_env = ''enr_x''" by (simp add: sample_enroll_env_def)
  have "\<exists>ls. tokens_file fs2 = Some ls \<and> Consumed ''enr_x'' \<in> set ls \<and>
      fst (consume_token sample_enroll_env ''enr_x'' (fs2\<lparr>consumed_file := None, issued_file := None\<rparr>)) = Inr (True, Some (''u1'', []))"
    using consumption_record_is_ignored [OF sample_minted, of "Some (''u1'', [])" fs2, unfolded f, OF c]
    by (simp add: year_bounds) (simp add: sample_enroll_env_def)
  then show ?thesis by (auto simp: c)
qed

text \<open>A server with the token of user \<open>u1\<close>, and the JWT of user \<open>u2\<close>.\<close>

definition sample_server_env :: server_env where
  "sample_server_env = \<lparr>en = sample_enroll_env, owner_cfg = sample_owner_env,
     jwt = sample_jwt_env\<lparr>jwt_decode := (\<lambda>t k al i rq. Inr [(''sub'', JStr ''u2'')])\<rparr>,
     ca_ok = True, ca_text = Inr ''CA'', identity_keys = (''k'', ''K''), client_cert = (\<lambda>n. (''ck'', ''cc'')), signing_pem = ''S'',
     uuid_hex = ''abcdef01'', default_tenant = [], ws_template = ''wss://h/ws'', public_host_env = [], trust_forwarded = False\<rparr>"

definition sample_enroll_state :: enroll_state where
  "sample_enroll_state = \<lparr>files = snd (mint_enrollment_token sample_enroll_env ''u1'' [] None no_files),
     stored = \<lparr>inv_users = [], inv_agents = []\<rparr>, ids_cache = [], keys = key_cache_init\<rparr>"

definition sample_request :: "string \<Rightarrow> http_request" where
  "sample_request auth = \<lparr>req_auth = auth, req_host = ''h'', req_forwarded_host = [], req_forwarded_proto = [], req_scheme = ''https''\<rparr>"

lemma sample_server_simps [simp]:
  "en sample_server_env = sample_enroll_env" "owner_cfg sample_server_env = sample_owner_env" "ca_ok sample_server_env"
  "ca_text sample_server_env = Inr ''CA''" "ws_template sample_server_env = ''wss://h/ws''"
  "db_on sample_owner_env" "db_ok sample_owner_env"
  by (simp_all add: sample_server_env_def sample_owner_env_def)

lemma sample_ws_url [simp]: "ws_url_for_enrollment ''wss://h/ws'' h s p t = Inr ''wss://h/ws''"
  by (simp add: ws_url_for_enrollment_def startswith_def)

lemma sample_consumed:
  "consume_token (en sample_server_env) (strip ''enr_x'') (files sample_enroll_state) = (Inr (True, Some (''u1'', [])),
     snd (consume_token sample_enroll_env ''enr_x'' (files sample_enroll_state)))"
  using minted_token_enrolls_owner_witness by (simp add: prod_eq_iff sample_enroll_state_def)

theorem enrolled_agent_belongs_to_minter_witness:
  "\<exists>bundle row. fst (enroll sample_server_env (sample_request []) ''enr_x'' ''pc'' [] sample_enroll_state) = Inr bundle \<and>
     map_of (inv_agents (stored (snd (enroll sample_server_env (sample_request []) ''enr_x'' ''pc'' [] sample_enroll_state))))
       (strip (py_str (getv bundle ''agent_id''))) = Some row \<and> getv row ''user_id'' = JStr ''u1''"
proof -
  have s: "strip ''pc'' = ''pc''" by (rule strip_no_space) (simp add: is_space_def code_point_def)
  obtain fs where "consume_token (en sample_server_env) (strip ''enr_x'') (files sample_enroll_state) = (Inr (True, Some (''u1'', [])), fs)"
    using sample_consumed by blast
  then have "\<exists>bundle. fst (enroll sample_server_env (sample_request []) ''enr_x'' ''pc'' [] sample_enroll_state) = Inr bundle"
    by (simp add: enroll_def Let_def s build_bundle_def owner_ids_for_enroll_def enroll_claims_def sample_request_def startswith_def lower_def)
  then obtain b st' where e: "enroll sample_server_env (sample_request []) ''enr_x'' ''pc'' [] sample_enroll_state = (Inr b, st')"
    by (metis prod.collapse)
  from enrolled_agent_belongs_to_minter [OF sample_consumed e] show ?thesis
    by (simp add: e)
qed

theorem foreign_jwt_uses_token_up_witness:
  "fst (enroll sample_server_env (sample_request ''Bearer tok'') ''enr_x'' ''pc'' [] sample_enroll_state) = Inl (HTTPException 403)"
proof -
  define cl where "cl = fst (enroll_claims sample_server_env (sample_request ''Bearer tok'') (keys sample_enroll_state))"
  have s: "strip ''pc'' = ''pc''" "strip ''u2'' = ''u2''" by (rule strip_no_space, simp add: is_space_def code_point_def)+
  have cl: "cl = [(''sub'', JStr ''u2''), (''_access_token'', JStr ''tok'')]" unfolding cl_def by code_simp
  show ?thesis
    using foreign_jwt_uses_token_up [OF sample_consumed, of "''pc''" "''CA''" "sample_request ''Bearer tok''" "''wss://h/ws''" cl
        "snd (enroll_claims sample_server_env (sample_request ''Bearer tok'') (keys sample_enroll_state))" "''u2''" "[]"
        "fst (enroll sample_server_env (sample_request ''Bearer tok'') ''enr_x'' ''pc'' [] sample_enroll_state)"
        "snd (enroll sample_server_env (sample_request ''Bearer tok'') ''enr_x'' ''pc'' [] sample_enroll_state)"]
    by (simp add: s cl cl_def [symmetric] prod_eq_iff owner_ids_from_user_def sub_of_def str_or_def owner_ids_from_jwt_def
        case_prod_unfold Let_def)
qed

end
