(* ===== verification/Identity.thy ===== *)
theory Identity
  imports Config_Manager
begin

text \<open>
  The identity of an agent on its machine, \<^verbatim>\<open>colsoft_tools/enrollment.py\<close>: the directory
  and the pointer of the active identity, loading and saving it, the enrollment against the
  server and the merge of an identity with the local configuration. Paths are POSIX paths; a
  file holds a JSON document or another text; the server, fresh suffixes and the success of
  each write are inputs.
\<close>

section \<open>POSIX paths\<close>

definition is_abs :: "string \<Rightarrow> bool" where "is_abs p \<longleftrightarrow> startswith p ''/''"

definition path_join :: "string \<Rightarrow> string \<Rightarrow> string" where
  \<comment> \<open>\<open>os.path.join\<close>\<close>
  "path_join a b = (if is_abs b then b else if a = [] \<or> endswith a ''/'' then a @ b else a @ ''/'' @ b)"

fun norm_parts :: "bool \<Rightarrow> string list \<Rightarrow> string list \<Rightarrow> string list" where
  \<comment> \<open>the parts kept so far, reversed\<close>
  "norm_parts ab kept [] = rev kept"
| "norm_parts ab kept (c # cs) =
     (if c = [] \<or> c = ''.'' then norm_parts ab kept cs
      else if c \<noteq> ''..'' \<or> \<not> ab \<and> kept = [] \<or> kept \<noteq> [] \<and> hd kept = ''..'' then norm_parts ab (c # kept) cs
      else norm_parts ab (tl kept) cs)"

definition normpath :: "string \<Rightarrow> string" where
  "normpath p =
     (let slashes = (if startswith p ''//'' \<and> \<not> startswith p ''///'' then ''//'' else if is_abs p then ''/'' else []);
          r = slashes @ join ''/'' (norm_parts (slashes \<noteq> []) [] (split_char (CHR ''/'') p)) in
      if r = [] then ''.'' else r)"

definition abspath :: "string \<Rightarrow> string \<Rightarrow> string" where
  "abspath cwd p = normpath (if is_abs p then p else path_join cwd p)"

fun strip_common :: "string list \<Rightarrow> string list \<Rightarrow> string list \<times> string list" where
  "strip_common (a # as) (b # bs) = (if a = b then strip_common as bs else (a # as, b # bs))"
| "strip_common as bs = (as, bs)"

definition path_parts :: "string \<Rightarrow> string list" where
  "path_parts p = filter (\<lambda>c. c \<noteq> []) (split_char (CHR ''/'') p)"

definition relpath :: "string \<Rightarrow> string \<Rightarrow> string \<Rightarrow> string" where
  "relpath cwd p start =
     (let (up, down) = strip_common (path_parts (abspath cwd start)) (path_parts (abspath cwd p));
          parts = replicate (length up) ''..'' @ down in
      if parts = [] then ''.'' else join ''/'' parts)"

definition dirname :: "string \<Rightarrow> string" where
  "dirname p =
     (let h = rev (dropWhile (\<lambda>c. c \<noteq> CHR ''/'') (rev p)) in
      if h = [] \<or> list_all (\<lambda>c. c = CHR ''/'') h then h else rev (dropWhile (\<lambda>c. c = CHR ''/'') (rev h)))"

section \<open>Disk\<close>

datatype content = Doc json | Text string

record id_env =
  cwd :: string
  default_root :: string
    \<comment> \<open>\<open>default_identity_location()\<close>\<close>
  env_identity_dir :: string
  suffixes :: "string list"
    \<comment> \<open>fresh suffixes, 128 of them\<close>
  id_write_ok :: "string \<Rightarrow> bool"

type_synonym id_disk = "string \<Rightarrow> content option"

definition enrollment_root :: "id_env \<Rightarrow> string \<Rightarrow> string" where
  \<comment> \<open>an empty base stands for none\<close>
  "enrollment_root e base = abspath (cwd e) (if base = [] then default_root e else base)"

definition identity_path :: "string \<Rightarrow> string" where
  "identity_path out = path_join (if out = [] then ''enrollment'' else out) ''identity.json''"

definition read_file :: "id_env \<Rightarrow> id_disk \<Rightarrow> string \<Rightarrow> content option" where
  "read_file e fs p = fs (path_join (cwd e) p)"

definition identity_exists :: "id_env \<Rightarrow> id_disk \<Rightarrow> string \<Rightarrow> bool" where
  "identity_exists e fs out \<longleftrightarrow> read_file e fs (identity_path out) \<noteq> None"

definition word_char :: "char \<Rightarrow> bool" where
  \<comment> \<open>\<open>\\w\<close> of Python's Unicode patterns, below 256\<close>
  "word_char c \<longleftrightarrow>
     (let n = code_point c in
      48 \<le> n \<and> n \<le> 57 \<or> 65 \<le> n \<and> n \<le> 90 \<or> n = 95 \<or> 97 \<le> n \<and> n \<le> 122 \<or>
      n \<in> set [170, 178, 179, 181, 185, 186, 188, 189, 190] \<or> 192 \<le> n \<and> n \<noteq> 215 \<and> n \<noteq> 247)"

fun dash_runs :: "bool \<Rightarrow> string \<Rightarrow> string" where
  \<comment> \<open>every run of other characters becomes one hyphen\<close>
  "dash_runs b [] = []"
| "dash_runs b (c # s) =
     (if word_char c \<or> c \<in> set ''.-'' then c # dash_runs False s
      else if b then dash_runs True s else CHR ''-'' # dash_runs True s)"

definition strip_set :: "string \<Rightarrow> string \<Rightarrow> string" where
  \<comment> \<open>\<open>s.strip(chars)\<close>\<close>
  "strip_set chars s = rev (dropWhile (\<lambda>c. c \<in> set chars) (rev (dropWhile (\<lambda>c. c \<in> set chars) s)))"

definition sanitize_enrollment_dirname :: "string \<Rightarrow> string" where
  "sanitize_enrollment_dirname client_name =
     (let raw = (if strip client_name = [] then ''host'' else strip client_name);
          safe = strip_set ''.-_'' (dash_runs False raw) in
      take 96 (if safe = [] then ''host'' else safe))"

definition allocate_identity_dir :: "id_env \<Rightarrow> id_disk \<Rightarrow> string \<Rightarrow> string \<Rightarrow> string res" where
  "allocate_identity_dir e fs client_name base_root =
     (let top_dir = enrollment_root e base_root; base = sanitize_enrollment_dirname client_name;
          free = (\<lambda>d. \<not> identity_exists e fs d) in
      if free (path_join top_dir base) then Inr (path_join top_dir base)
      else (case find free (map (\<lambda>x. path_join top_dir (base @ ''_'' @ x)) (take 128 (suffixes e))) of
              None \<Rightarrow> Inl RuntimeError | Some d \<Rightarrow> Inr d))"

section \<open>The pointer to the active identity\<close>

definition pointer_path :: "id_env \<Rightarrow> string \<Rightarrow> string" where
  "pointer_path e base_root = path_join (enrollment_root e base_root) ''active.json''"

definition write_file :: "id_env \<Rightarrow> string \<Rightarrow> content \<Rightarrow> id_disk \<Rightarrow> unit res \<times> id_disk" where
  "write_file e p c fs = (if id_write_ok e p then (Inr (), fs(path_join (cwd e) p := Some c)) else (Inl OSError, fs))"

definition write_active_identity_pointer ::
  "id_env \<Rightarrow> string \<Rightarrow> string \<Rightarrow> string \<Rightarrow> string \<Rightarrow> id_disk \<Rightarrow> unit res \<times> id_disk" where
  "write_active_identity_pointer e identity_dir base_root client_name agent_id fs =
     (let rel = relpath (cwd e) (abspath (cwd e) identity_dir) (enrollment_root e base_root) in
      write_file e (pointer_path e base_root)
        (Doc (JObj ([(''identity_dir'', JStr rel)]
           @ (if client_name = [] then [] else [(''client_name'', JStr client_name)])
           @ (if agent_id = [] then [] else [(''agent_id'', JStr agent_id)])))) fs)"

definition read_active_identity_pointer :: "id_env \<Rightarrow> id_disk \<Rightarrow> string \<Rightarrow> string option res" where
  "read_active_identity_pointer e fs base_root =
     (let top_dir = enrollment_root e base_root in
      case read_file e fs (pointer_path e base_root) of
        Some (Doc (JObj d)) \<Rightarrow>
          res_bind (str_strip (py_or (getv d ''identity_dir'') (JStr []))) (\<lambda>rel.
            let candidate = normpath (path_join top_dir rel) in
            Inr (if rel = [] then None
                 else if \<not> startswith candidate (abspath (cwd e) top_dir @ ''/'') then None
                 else if identity_exists e fs candidate then Some candidate else None))
      | _ \<Rightarrow> Inr None)"

definition resolve_identity_dir :: "id_env \<Rightarrow> id_disk \<Rightarrow> dict \<Rightarrow> string \<Rightarrow> string \<Rightarrow> string option res" where
  "resolve_identity_dir e fs config explicit base_root =
     (let top_dir = enrollment_root e base_root;
          place = (\<lambda>raw. if is_abs raw then raw else normpath (path_join top_dir raw));
          given = filter (\<lambda>raw. raw \<noteq> [] \<and> identity_exists e fs (place raw))
            [explicit, strip (env_identity_dir e), strip (str_or (getv config ''identity_dir'') [])];
          client = strip (str_or (getv config ''client_name'') []);
          by_name = path_join top_dir (sanitize_enrollment_dirname client) in
      case given of
        raw # _ \<Rightarrow> Inr (Some (abspath (cwd e) (place raw)))
      | [] \<Rightarrow>
         res_bind (read_active_identity_pointer e fs base_root) (\<lambda>active. Inr
           (if active \<noteq> None then active
            else if client \<noteq> [] \<and> identity_exists e fs by_name then Some (abspath (cwd e) by_name)
            else if read_file e fs (path_join top_dir ''identity.json'') \<noteq> None then Some (abspath (cwd e) top_dir)
            else None)))"

section \<open>Loading and saving an identity\<close>

definition PEM_KEYS :: "string list" where
  "PEM_KEYS = [''tls_ca_cert'', ''tls_client_cert'', ''tls_client_key'', ''signing_public_key'', ''private_key'', ''public_key'']"

definition resolve_pem_path :: "id_env \<Rightarrow> id_disk \<Rightarrow> string \<Rightarrow> json \<Rightarrow> json" where
  \<comment> \<open>the new value of one key\<close>
  "resolve_pem_path e fs top_dir v =
     (case v of
        JStr t \<Rightarrow>
          (let rel = normpath (path_join top_dir t) in
           if t = [] \<or> contains t ''-----BEGIN'' then v
           else if is_abs t \<and> read_file e fs t \<noteq> None then v
           else if read_file e fs t \<noteq> None then JStr (abspath (cwd e) t)
           else if read_file e fs rel \<noteq> None then JStr rel
           else v)
      | _ \<Rightarrow> v)"

definition resolve_pem_paths :: "id_env \<Rightarrow> id_disk \<Rightarrow> dict \<Rightarrow> string \<Rightarrow> dict" where
  "resolve_pem_paths e fs d base_dir =
     (let top_dir = abspath (cwd e) (if base_dir = [] then ''.'' else base_dir) in
      fold (\<lambda>k d. if has k d then dset k (resolve_pem_path e fs top_dir (getv d k)) d else d) PEM_KEYS d)"

definition load_identity :: "id_env \<Rightarrow> id_disk \<Rightarrow> string \<Rightarrow> dict option" where
  "load_identity e fs out_dir =
     (case read_file e fs (identity_path out_dir) of
        Some (Doc (JObj d)) \<Rightarrow> Some (resolve_pem_paths e fs d (dirname (abspath (cwd e) (identity_path out_dir))))
      | _ \<Rightarrow> None)"

definition PEM_FILES :: "(string \<times> string) list" where
  "PEM_FILES = [(''tls_ca_cert'', ''ca.crt''), (''tls_client_cert'', ''agent.crt''), (''tls_client_key'', ''agent.key''),
     (''signing_public_key'', ''signing.pub''), (''private_key'', ''identity.key''), (''public_key'', ''identity.pub'')]"

fun save_pems :: "id_env \<Rightarrow> string \<Rightarrow> (string \<times> string) list \<Rightarrow> dict \<Rightarrow> id_disk \<Rightarrow> dict res \<times> id_disk" where
  \<comment> \<open>a value that is no text is not written: \<open>f.write\<close> raises\<close>
  "save_pems e certs [] d fs = (Inr d, fs)"
| "save_pems e certs ((k, f) # ks) d fs =
     (let path = path_join certs f in
      if \<not> truthy (getv d k) then save_pems e certs ks d fs
      else
       (case getv d k of
          JStr t \<Rightarrow>
           (case write_file e path (Text t) fs of
              (Inl x, fs) \<Rightarrow> (Inl x, fs)
            | (Inr _, fs) \<Rightarrow> save_pems e certs ks (dset k (JStr path) d) fs)
        | _ \<Rightarrow> (case write_file e path (Text []) fs of (Inl x, fs) \<Rightarrow> (Inl x, fs) | (Inr _, fs) \<Rightarrow> (Inl TypeError, fs))))"

definition save_identity :: "id_env \<Rightarrow> dict \<Rightarrow> string \<Rightarrow> id_disk \<Rightarrow> dict res \<times> id_disk" where
  \<comment> \<open>the bundle is changed in place: the new one is the result\<close>
  "save_identity e d out_dir fs =
     (let out = abspath (cwd e) (if out_dir = [] then ''enrollment'' else out_dir) in
      case save_pems e (path_join out ''certs'') PEM_FILES d fs of
        (Inl x, fs) \<Rightarrow> (Inl x, fs)
      | (Inr d, fs) \<Rightarrow>
         (case write_file e (identity_path out) (Doc (JObj d)) fs of (Inl x, fs) \<Rightarrow> (Inl x, fs) | (Inr _, fs) \<Rightarrow> (Inr d, fs)))"

section \<open>Enrolling\<close>

text \<open>The answer to a POST: no contact, or a status with the document of the body.\<close>

datatype http_reply = NoContact | Reply int "json res"

fun first_reply :: "(string \<Rightarrow> http_reply) \<Rightarrow> string list \<Rightarrow> (int \<times> json res) option \<Rightarrow> string list \<Rightarrow> (int \<times> json res) option \<times> string list" where
  \<comment> \<open>the paths to try, the last answer so far and the addresses asked, in order\<close>
  "first_reply post [] last_one asked = (last_one, asked)"
| "first_reply post (u # us) last_one asked =
     (case post u of
        NoContact \<Rightarrow> first_reply post us last_one (asked @ [u])
      | Reply code body \<Rightarrow>
          (if code \<noteq> 404 then (Some (code, body), asked @ [u]) else first_reply post us (Some (code, body)) (asked @ [u])))"

definition rstrip_slash :: "string \<Rightarrow> string" where
  "rstrip_slash s = rev (dropWhile (\<lambda>c. c = CHR ''/'') (rev s))"

definition store_reply :: "id_env \<Rightarrow> string \<Rightarrow> string \<Rightarrow> json \<Rightarrow> id_disk \<Rightarrow> dict res \<times> id_disk" where
  "store_reply e out client_name reply fs =
     (case reply of
        JObj d \<Rightarrow>
         (if \<not> truthy (getv d ''agent_id'') then (Inl RuntimeError, fs)
          else
           (case save_identity e d out fs of
              (Inl x, fs) \<Rightarrow> (Inl x, fs)
            | (Inr d, fs) \<Rightarrow>
               (case write_active_identity_pointer e (abspath (cwd e) out) [] (str_or (getv d ''client_name'') client_name)
                       (str_or (getv d ''agent_id'') []) fs of
                  (Inl x, fs) \<Rightarrow> (Inl x, fs) | (Inr _, fs) \<Rightarrow> (Inr d, fs))))
      | _ \<Rightarrow> (Inl AttributeError, fs))"

definition enroll_agent ::
  "id_env \<Rightarrow> (string \<Rightarrow> http_reply) \<Rightarrow> string \<Rightarrow> string \<Rightarrow> string \<Rightarrow> string option \<Rightarrow> string \<Rightarrow> id_disk
    \<Rightarrow> dict res \<times> id_disk \<times> string list" where
  \<comment> \<open>\<open>enroll\<close>: server address, token, client name, directory and CA file (empty for the system's store);
     the last component is the list of addresses asked\<close>
  "enroll_agent e post server_url token client_name out_dir verify fs =
     (case (case out_dir of None \<Rightarrow> allocate_identity_dir e fs client_name [] | Some d \<Rightarrow> Inr (abspath (cwd e) d)) of
        Inl x \<Rightarrow> (Inl x, fs, [])
      | Inr out \<Rightarrow>
         (case load_identity e fs out of
            Some (p # d) \<Rightarrow> (Inr (p # d), fs, [])
          | _ \<Rightarrow>
             (let base = rstrip_slash server_url in
              if \<not> (startswith base ''http://'' \<or> startswith base ''https://'') then (Inl ValueError, fs, [])
              else if strip token = [] then (Inl ValueError, fs, [])
              else if strip verify \<noteq> [] \<and> read_file e fs verify = None then (Inl ValueError, fs, [])
              else
               (case first_reply post [base @ ''/api/enroll'', base @ ''/enroll''] None [] of
                  (None, asked) \<Rightarrow> (Inl RuntimeError, fs, asked)
                | (Some (code, body), asked) \<Rightarrow>
                   (if code \<noteq> 200 then (Inl RuntimeError, fs, asked)
                    else (case body of
                            Inl x \<Rightarrow> (Inl x, fs, asked)
                          | Inr reply \<Rightarrow> (case store_reply e out client_name reply fs of (r, fs) \<Rightarrow> (r, fs, asked))))))))"

definition resolve_enroll_verify :: "id_env \<Rightarrow> id_disk \<Rightarrow> string \<Rightarrow> string \<Rightarrow> dict \<Rightarrow> string \<Rightarrow> string option" where
  \<comment> \<open>the CA file, or \<open>None\<close> for the system's store\<close>
  "resolve_enroll_verify e fs server_url ca_path config identity_dir =
     (let top_dir = abspath (cwd e) (if identity_dir = [] then default_root e else identity_dir) in
      if strip ca_path \<noteq> [] then Some (strip ca_path)
      else if \<not> startswith (lower (strip server_url)) ''https://'' then None
      else find (\<lambda>p. p \<noteq> [] \<and> read_file e fs p \<noteq> None)
             [strip (str_or (getv config ''tls_ca_cert'') []), path_join (path_join top_dir ''certs'') ''ca.crt'', path_join top_dir ''ca.crt''])"

section \<open>Merging an identity with the configuration\<close>

definition IDENTITY_OVERLAY_KEYS :: "string list" where
  "IDENTITY_OVERLAY_KEYS =
     [''agent_id'', ''client_name'', ''tenant_id'', ''websocket_url'', ''private_key'', ''public_key'', ''signing_public_key'',
      ''tls_ca_cert'', ''tls_client_cert'', ''tls_client_key'', ''allow_insecure_ws'']"

definition IDENTITY_DEFAULTS :: dict where
  "IDENTITY_DEFAULTS =
     [(''require_command_signature'', JBool True), (''allow_insecure_ws'', JBool False), (''heartbeat_interval'', JInt 30),
      (''scheduler'', JObj []), (''policy'', JObj [(''allowed_commands'', JList []), (''allow_high_risk'', JBool False)]),
      (''scripts_catalog'', JObj []), (''audit_log_path'', JStr ''results_logs/agent_audit.jsonl''), (''max_command_rate'', JInt 20)]"

definition with_defaults :: "dict \<Rightarrow> dict" where
  "with_defaults d = fold (\<lambda>(k, v) m. setdefault k v m) IDENTITY_DEFAULTS d"

definition identity_to_config :: "dict \<Rightarrow> dict" where
  "identity_to_config d = with_defaults d"

definition overlays :: "string \<times> json \<Rightarrow> bool" where
  "overlays p \<longleftrightarrow> fst p \<in> set IDENTITY_OVERLAY_KEYS \<and> snd p \<noteq> JNull \<and> snd p \<noteq> JStr []"

definition overlay :: "dict \<Rightarrow> dict \<Rightarrow> dict" where
  "overlay disk_cfg ident = dupdate disk_cfg (filter overlays ident)"

definition insecure_ws :: "dict \<Rightarrow> dict \<Rightarrow> dict" where
  \<comment> \<open>what becomes of \<open>allow_insecure_ws\<close>\<close>
  "insecure_ws ident m =
     (if ident = [] then m
      else if getv ident ''allow_insecure_ws'' \<noteq> JNull
      then dset ''allow_insecure_ws'' (JBool (truthy (getv ident ''allow_insecure_ws''))) m
      else
       (let has_mtls = strip (str_or (getv m ''tls_client_cert'') []) \<noteq> [] \<and> strip (str_or (getv m ''tls_client_key'') []) \<noteq> [] in
        if has_mtls \<and> startswith (str_or (getv m ''websocket_url'') []) ''wss://''
        then dset ''allow_insecure_ws'' (JBool False) m else m))"

definition drop_tls :: "dict \<Rightarrow> dict" where
  "drop_tls m =
     (if truthy (getv m ''allow_insecure_ws'')
      then fold (\<lambda>k m. dset k (JStr []) m) [''tls_ca_cert'', ''tls_client_cert'', ''tls_client_key''] m else m)"

definition merge_runtime_config :: "dict \<Rightarrow> dict \<Rightarrow> dict" where
  "merge_runtime_config disk_cfg ident = with_defaults (drop_tls (insecure_ws ident (overlay disk_cfg ident)))"

section \<open>Properties: paths\<close>

definition plain_part :: "string \<Rightarrow> bool" where
  "plain_part c \<longleftrightarrow> c \<noteq> [] \<and> c \<noteq> ''.'' \<and> c \<noteq> ''..'' \<and> CHR ''/'' \<notin> set c"

definition abs_path :: "string list \<Rightarrow> string" where
  \<comment> \<open>the absolute path with the given parts\<close>
  "abs_path cs = ''/'' @ join ''/'' cs"

lemma startswith_slash: "startswith s ''/'' \<longleftrightarrow> s \<noteq> [] \<and> hd s = CHR ''/''"
  by (cases s) (auto simp: startswith_def)

lemma is_abs_abs_path [simp]: "is_abs (abs_path cs)"
  by (simp add: is_abs_def abs_path_def startswith_def)

lemma join_Cons: "xs \<noteq> [] \<Longrightarrow> join sep (x # xs) = x @ sep @ join sep xs"
  by (cases xs) auto

lemma join_append: "xs \<noteq> [] \<Longrightarrow> ys \<noteq> [] \<Longrightarrow> join sep (xs @ ys) = join sep xs @ sep @ join sep ys"
proof (induction xs)
  case (Cons x xs)
  then show ?case by (cases "xs = []") (simp_all add: join_Cons)
qed simp

lemma join_hd:
  assumes "cs \<noteq> []" "\<forall>c \<in> set cs. c \<noteq> [] \<and> CHR ''/'' \<notin> set c"
  obtains c s where "join ''/'' cs = c # s" "c \<noteq> CHR ''/''"
proof -
  obtain x xs where x: "cs = x # xs" "x \<noteq> []" "CHR ''/'' \<notin> set x" using assms by (cases cs) auto
  then obtain c s where "x = c # s" "c \<noteq> CHR ''/''" by (cases x) auto
  then show thesis using that x(1) by (cases "xs = []") (simp_all add: join_Cons)
qed

lemma join_last:
  assumes "cs \<noteq> []" "\<forall>c \<in> set cs. c \<noteq> [] \<and> CHR ''/'' \<notin> set c"
  obtains c s where "join ''/'' cs = s @ [c]" "c \<noteq> CHR ''/''"
proof -
  obtain x xs where x: "cs = xs @ [x]" "x \<noteq> []" "CHR ''/'' \<notin> set x" using assms by (cases cs rule: rev_cases) auto
  then obtain c s where "x = s @ [c]" "c \<noteq> CHR ''/''" by (cases x rule: rev_cases) auto
  then show thesis using that x(1) by (cases "xs = []") (simp_all add: join_append)
qed

lemma plain_parts_ok: "list_all plain_part cs \<Longrightarrow> \<forall>c \<in> set cs. c \<noteq> [] \<and> CHR ''/'' \<notin> set c"
  by (simp add: list_all_iff plain_part_def)

lemma split_parts:
  assumes "\<forall>c \<in> set cs. c \<noteq> [] \<and> CHR ''/'' \<notin> set c"
  shows "filter (\<lambda>c. c \<noteq> []) (split_char (CHR ''/'') (''/'' @ join ''/'' cs)) = cs"
proof (cases "cs = []")
  case False
  have "split_char (CHR ''/'') (''/'' @ join ''/'' cs) = [] # cs"
    using split_char_join [OF False, of "CHR ''/''"] assms by simp
  then show ?thesis using assms by (simp add: filter_id_conv)
qed simp

lemma no_double_slash:
  assumes "\<forall>c \<in> set cs. c \<noteq> [] \<and> CHR ''/'' \<notin> set c"
  shows "\<not> startswith (''/'' @ join ''/'' cs) ''//''"
proof (cases "cs = []")
  case False
  obtain c t where "join ''/'' cs = c # t" "c \<noteq> CHR ''/''" using join_hd [OF False assms] .
  then show ?thesis by (simp add: startswith_def)
qed (simp add: startswith_def)

lemma split_abs_path: "list_all plain_part cs \<Longrightarrow> filter (\<lambda>c. c \<noteq> []) (split_char (CHR ''/'') (abs_path cs)) = cs"
  unfolding abs_path_def by (rule split_parts) (rule plain_parts_ok)

lemma norm_parts_filter: "norm_parts ab kept cs = norm_parts ab kept (filter (\<lambda>c. c \<noteq> []) cs)"
  by (induction ab kept cs rule: norm_parts.induct) auto

lemma norm_parts_plain: "list_all plain_part cs \<Longrightarrow> norm_parts ab kept (cs @ ds) = norm_parts ab (rev cs @ kept) ds"
  by (induction cs arbitrary: kept) (auto simp: plain_part_def)

lemma norm_parts_up:
  "list_all plain_part up \<Longrightarrow> list_all plain_part p \<Longrightarrow>
     norm_parts True (rev up @ rev p) (replicate (length up) ''..'' @ ds) = norm_parts True (rev p) ds"
proof (induction up arbitrary: ds rule: rev_induct)
  case (snoc u up)
  then have "u \<noteq> ''..''" by (simp add: plain_part_def)
  then show ?case using snoc by (simp add: replicate_app_Cons_same)
qed simp

lemma normpath_abs:
  assumes "is_abs p" "\<not> startswith p ''//''"
  shows "normpath p = ''/'' @ join ''/'' (norm_parts True [] (split_char (CHR ''/'') p))"
  using assms by (simp add: normpath_def Let_def)

lemma normpath_parts:
  assumes "\<forall>c \<in> set cs. c \<noteq> [] \<and> CHR ''/'' \<notin> set c"
  shows "normpath (''/'' @ join ''/'' cs) = ''/'' @ join ''/'' (norm_parts True [] cs)"
proof -
  have "is_abs (''/'' @ join ''/'' cs)" by (simp add: is_abs_def startswith_def)
  then show ?thesis
    using normpath_abs no_double_slash [OF assms] norm_parts_filter [of True "[]" "split_char _ _"] split_parts [OF assms] by metis
qed

lemma normpath_abs_path [simp]: "list_all plain_part cs \<Longrightarrow> normpath (abs_path cs) = abs_path cs"
  using normpath_parts [OF plain_parts_ok] norm_parts_plain [of cs True "[]" "[]"] by (simp add: abs_path_def)

lemma abspath_abs_path [simp]: "list_all plain_part cs \<Longrightarrow> abspath w (abs_path cs) = abs_path cs"
  by (simp add: abspath_def)

lemma strip_common_parts: "strip_common as bs = (up, down) \<Longrightarrow> \<exists>p. as = p @ up \<and> bs = p @ down"
proof (induction as bs arbitrary: up down rule: strip_common.induct)
  case (1 a as b bs)
  then show ?case by (cases "a = b") (auto intro: exI [of _ "a # _"])
qed auto

text \<open>Going from a directory along the relative path to another one leads to the other one.\<close>

lemma join_relpath:
  assumes "list_all plain_part rs" "list_all plain_part cs"
  shows "normpath (path_join (abs_path rs) (relpath w (abs_path cs) (abs_path rs))) = abs_path cs"
proof -
  obtain up down where ud: "strip_common rs cs = (up, down)" by fastforce
  then obtain p where p: "rs = p @ up" "cs = p @ down" using strip_common_parts by blast
  define parts where "parts = (if up = [] \<and> down = [] then [''.''] else replicate (length up) ''..'' @ down)"
  have rel: "relpath w (abs_path cs) (abs_path rs) = join ''/'' parts"
    using ud assms by (simp add: relpath_def path_parts_def split_abs_path parts_def)
  have pp: "list_all plain_part p" "list_all plain_part up" "list_all plain_part down" using assms p by auto
  have ne: "\<forall>c \<in> set parts. c \<noteq> [] \<and> CHR ''/'' \<notin> set c" "parts \<noteq> []"
  proof -
    have "c = ''.'' \<or> c = ''..'' \<or> c \<in> set down" if "c \<in> set parts" for c
      using that by (simp add: parts_def split: if_splits) blast
    then show "\<forall>c \<in> set parts. c \<noteq> [] \<and> CHR ''/'' \<notin> set c" using plain_parts_ok [OF pp(3)] by fastforce
    show "parts \<noteq> []" by (simp add: parts_def)
  qed
  obtain a s where as: "join ''/'' parts = a # s" "a \<noteq> CHR ''/''" using join_hd [OF ne(2,1)] .
  have ab: "\<not> is_abs (join ''/'' parts)" using as by (simp add: is_abs_def startswith_def)
  have j: "path_join (abs_path rs) (join ''/'' parts) = ''/'' @ join ''/'' (rs @ parts)"
  proof (cases "rs = []")
    case False
    obtain c t where "join ''/'' rs = t @ [c]" "c \<noteq> CHR ''/''" using join_last [OF False plain_parts_ok [OF assms(1)]] .
    then have "\<not> endswith (abs_path rs) ''/''" by (simp add: abs_path_def endswith_def startswith_def)
    moreover have "abs_path rs \<noteq> []" by (simp add: abs_path_def)
    ultimately show ?thesis using ab False ne(2) by (simp add: path_join_def join_append) (simp add: abs_path_def)
  qed (use ab in \<open>simp add: path_join_def abs_path_def endswith_def startswith_def\<close>)
  have "\<forall>c \<in> set (rs @ parts). c \<noteq> [] \<and> CHR ''/'' \<notin> set c" using ne(1) plain_parts_ok [OF assms(1)] by auto
  from normpath_parts [OF this] have n: "normpath (''/'' @ join ''/'' (rs @ parts)) = ''/'' @ join ''/'' (norm_parts True [] (rs @ parts))" .
  have "norm_parts True [] (rs @ parts) = cs"
  proof (cases "up = [] \<and> down = []")
    case True
    then show ?thesis using norm_parts_plain [OF pp(1), of True "[]" "[''.'']"] p by (simp add: parts_def)
  next
    case False
    then have pe: "parts = replicate (length up) ''..'' @ down" unfolding parts_def by (rule if_not_P)
    have "norm_parts True [] (rs @ parts) = norm_parts True (rev up @ rev p) (replicate (length up) ''..'' @ down)"
      using norm_parts_plain [OF assms(1), of True "[]" parts] p(1) pe by simp
    also have "\<dots> = norm_parts True (rev p) down" by (rule norm_parts_up [OF pp(2,1)])
    also have "\<dots> = cs" using norm_parts_plain [OF pp(3), of True "rev p" "[]"] p(2) by simp
    finally show ?thesis .
  qed
  with n show ?thesis unfolding rel j by (simp add: abs_path_def)
qed

section \<open>Properties: the pointer\<close>

lemma path_join_abs [simp]: "is_abs b \<Longrightarrow> path_join a b = b"
  by (simp add: path_join_def)

text \<open>
  Reading the pointer gives back the directory it was written for exactly when that lies below
  the enrollment directory and holds an identity. A pointer to any other directory, as
  \<open>enroll\<close> writes it for an explicit directory elsewhere, is ignored.
\<close>

theorem pointer_roundtrip:
  assumes "write_active_identity_pointer e dir base nm aid fs = (Inr (), fs')"
    and "enrollment_root e base = abs_path rs" "list_all plain_part rs" "is_abs (pointer_path e base)"
    and "abspath (cwd e) dir = abs_path cs" "list_all plain_part cs"
    and "strip (relpath (cwd e) (abs_path cs) (abs_path rs)) = relpath (cwd e) (abs_path cs) (abs_path rs)"
  shows "read_active_identity_pointer e fs' base =
    Inr (if startswith (abs_path cs) (abs_path rs @ ''/'') \<and> identity_exists e fs' (abs_path cs) then Some (abs_path cs) else None)"
proof -
  define rel where "rel = relpath (cwd e) (abs_path cs) (abs_path rs)"
  have "rel \<noteq> []"
  proof
    assume "rel = []"
    with join_relpath [OF assms(3,6), of "cwd e"] have j: "normpath (path_join (abs_path rs) []) = abs_path cs" by (simp add: rel_def)
    obtain up down where ud: "strip_common rs cs = (up, down)" by fastforce
    define parts where "parts = replicate (length up) ''..'' @ down"
    have "rel = (if parts = [] then ''.'' else join ''/'' parts)"
      using ud assms(3,6) by (simp add: rel_def relpath_def path_parts_def split_abs_path parts_def Let_def)
    moreover have "\<forall>c \<in> set parts. c \<noteq> [] \<and> CHR ''/'' \<notin> set c"
    proof -
      obtain p where "cs = p @ down" using strip_common_parts [OF ud] by blast
      then have "list_all plain_part down" using assms(6) by simp
      then show ?thesis using plain_parts_ok by (fastforce simp: parts_def)
    qed
    ultimately show False using \<open>rel = []\<close> join_hd [of parts] by (auto split: if_splits)
  qed
  then have "read_file e fs' (pointer_path e base) = Some (Doc (JObj ([(''identity_dir'', JStr rel)]
        @ (if nm = [] then [] else [(''client_name'', JStr nm)]) @ (if aid = [] then [] else [(''agent_id'', JStr aid)]))))"
    using assms(1,2,5) by (auto simp: write_active_identity_pointer_def Let_def write_file_def read_file_def rel_def split: if_splits)
  moreover have "str_strip (py_or (JStr rel) (JList [])) = Inr rel \<and> str_strip (py_or (JStr rel) (JStr [])) = Inr rel"
    using \<open>rel \<noteq> []\<close> assms(7) by (simp add: str_strip_def py_or_def rel_def)
  ultimately show ?thesis
    using assms(2,3) \<open>rel \<noteq> []\<close> join_relpath [OF assms(3,6), of "cwd e"]
    by (simp add: read_active_identity_pointer_def Let_def rel_def [symmetric] getv_def)
qed

text \<open>Whatever the file holds, the active identity lies below the enrollment directory.\<close>

lemma pointer_stays_inside:
  assumes "read_active_identity_pointer e fs base = Inr (Some d)"
  shows "startswith d (abspath (cwd e) (enrollment_root e base) @ ''/'') \<and> identity_exists e fs d"
  using assms
  by (auto simp: read_active_identity_pointer_def Let_def res_bind_eq_Inr split: option.splits content.splits json.splits if_splits)

section \<open>Properties: enrolling\<close>

lemma resolve_pem_paths_keys: "fst ` set (resolve_pem_paths e fs d b) = fst ` set d"
proof -
  have "fst ` set (fold (\<lambda>k d. if has k d then dset k (f (getv d k)) d else d) ks d) = fst ` set d" for f ks
  proof (induction ks arbitrary: d)
    case (Cons k ks)
    have "fst ` set (if has k d then dset k (f (getv d k)) d else d) = fst ` set d"
      by (auto simp: has_def dset_def dom_update)
    then show ?case using Cons by simp
  qed simp
  then show ?thesis by (simp add: resolve_pem_paths_def Let_def)
qed

lemma resolve_pem_paths_Nil [simp]: "resolve_pem_paths e fs d b = [] \<longleftrightarrow> d = []"
  using resolve_pem_paths_keys [of e fs d b] by auto

lemma save_pems_keys: "save_pems e c ks d fs = (Inr d', fs') \<Longrightarrow> fst ` set d \<subseteq> fst ` set d'"
proof (induction e c ks d fs rule: save_pems.induct)
  case (2 e certs k f ks d fs)
  then show ?case
    by (auto simp: Let_def write_file_def dset_def dom_update split: if_splits json.splits)
qed simp

lemma different_files: "path_join (cwd e) (pointer_path e base) \<noteq> path_join (cwd e) (identity_path out)"
proof -
  have e: "\<not> is_abs b \<Longrightarrow> endswith (path_join a b) b" for a b
    by (simp add: path_join_def endswith_def)
  have n: "\<not> is_abs ''active.json''" "\<not> is_abs ''identity.json''" by (simp_all add: is_abs_def startswith_def)
  have j: "path_join a (path_join c b) = path_join (path_join a c) b \<or> endswith (path_join a (path_join c b)) b" if "\<not> is_abs b" for a b c
    using that by (auto simp: path_join_def endswith_def is_abs_def startswith_def split: if_splits)
  have "endswith (path_join (cwd e) (path_join c b)) b" if "\<not> is_abs b" for b c
    using j [OF that, of "cwd e" c] e [OF that] by metis
  then have "endswith (path_join (cwd e) (pointer_path e base)) ''active.json''" "endswith (path_join (cwd e) (identity_path out)) ''identity.json''"
    using n unfolding pointer_path_def identity_path_def by blast+
  then show ?thesis by (auto simp: endswith_def startswith_iff)
qed

text \<open>The document and the pointer after an enrollment that worked.\<close>

lemma store_reply_saved:
  assumes "store_reply e out nm reply fs = (Inr d, fs')" "is_abs out"
  shows "d \<noteq> [] \<and> read_file e fs' (identity_path (abspath (cwd e) (if out = [] then ''enrollment'' else out))) = Some (Doc (JObj d))"
proof -
  obtain r where r: "reply = JObj r" "truthy (getv r ''agent_id'')"
    using assms(1) by (cases reply) (auto simp: store_reply_def split: if_splits)
  obtain fs1 where s: "save_identity e r out fs = (Inr d, fs1)"
    and w: "write_active_identity_pointer e (abspath (cwd e) out) [] (str_or (getv d ''client_name'') nm) (str_or (getv d ''agent_id'') []) fs1 = (Inr (), fs')"
    using assms(1) r by (auto simp: store_reply_def split: prod.splits sum.splits)
  let ?o = "abspath (cwd e) (if out = [] then ''enrollment'' else out)"
  obtain fs2 where p: "save_pems e (path_join ?o ''certs'') PEM_FILES r fs = (Inr d, fs2)"
    and f: "fs1 = fs2(path_join (cwd e) (identity_path ?o) := Some (Doc (JObj d)))"
    using s by (auto simp: save_identity_def Let_def write_file_def split: prod.splits sum.splits if_splits)
  have "r \<noteq> []" using r(2) by auto
  then have "d \<noteq> []" using save_pems_keys [OF p] by (cases d) auto
  moreover have "read_file e fs' (identity_path ?o) = Some (Doc (JObj d))"
    using w f different_files [of e "[]" ?o]
    by (auto simp: write_active_identity_pointer_def Let_def write_file_def read_file_def split: if_splits)
  ultimately show ?thesis by blast
qed

text \<open>
  An enrollment is repeated without a request: once it has worked for a directory, enrolling
  there again returns the stored identity and asks the server nothing, whatever the token is.
\<close>

theorem second_enrollment_asks_nothing:
  assumes "enroll_agent e post url token nm (Some dir) verify fs = (Inr d, fs1, asked)" "asked \<noteq> []"
    and "abspath (cwd e) dir = abs_path cs" "list_all plain_part cs"
  shows "\<exists>d2. enroll_agent e post' url' token' nm' (Some dir) verify' fs1 = (Inr d2, fs1, []) \<and> fst ` set d2 = fst ` set d"
proof -
  obtain reply fs0 where s: "store_reply e (abs_path cs) nm reply fs = (Inr d, fs1)"
    using assms by (auto simp: enroll_agent_def Let_def split: option.splits list.splits if_splits prod.splits sum.splits)
  have "abs_path cs \<noteq> []" by (simp add: abs_path_def)
  with store_reply_saved [OF s] assms(4) have f: "d \<noteq> []" "read_file e fs1 (identity_path (abs_path cs)) = Some (Doc (JObj d))" by auto
  define d2 where "d2 = resolve_pem_paths e fs1 d (dirname (abspath (cwd e) (identity_path (abs_path cs))))"
  have "load_identity e fs1 (abs_path cs) = Some d2" using f(2) by (simp add: load_identity_def d2_def)
  moreover have "d2 \<noteq> []" using f(1) by (simp add: d2_def)
  moreover have "fst ` set d2 = fst ` set d" unfolding d2_def by (rule resolve_pem_paths_keys)
  ultimately show ?thesis
    using assms(3) by (cases d2) (simp_all add: enroll_agent_def)
qed

section \<open>Properties: the merged configuration\<close>

lemma map_of_with_defaults:
  "map_of (with_defaults d) k = (case map_of d k of None \<Rightarrow> map_of IDENTITY_DEFAULTS k | Some v \<Rightarrow> Some v)"
  by (simp add: with_defaults_def IDENTITY_DEFAULTS_def map_of_setdefault split: option.split)

definition TLS_KEYS :: "string list" where
  "TLS_KEYS = [''tls_ca_cert'', ''tls_client_cert'', ''tls_client_key'']"

lemma map_of_drop_tls:
  "map_of (drop_tls m) k = (if truthy (getv m ''allow_insecure_ws'') \<and> k \<in> set TLS_KEYS then Some (JStr []) else map_of m k)"
  by (auto simp: drop_tls_def TLS_KEYS_def)

lemma map_of_insecure_other: "k \<noteq> ''allow_insecure_ws'' \<Longrightarrow> map_of (insecure_ws ident m) k = map_of m k"
  by (simp add: insecure_ws_def Let_def)

lemma map_of_overlay:
  "map_of (overlay d ident) k = (case map_of (rev (filter overlays ident)) k of None \<Rightarrow> map_of d k | Some v \<Rightarrow> Some v)"
  by (simp add: overlay_def map_of_dupdate)

lemma overlay_keys: "map_of (rev (filter overlays ident)) k = Some v \<Longrightarrow> k \<in> set IDENTITY_OVERLAY_KEYS"
  by (auto dest!: map_of_SomeD simp: overlays_def)

text \<open>
  The identity that the server hands out changes its own keys only: every other key, such as
  the local policy, the catalogue of scripts and the duty to verify signatures, has the value
  of the local file or its default.
\<close>

theorem identity_keeps_local_keys:
  assumes "k \<notin> set IDENTITY_OVERLAY_KEYS"
  shows "getv (merge_runtime_config disk_cfg ident) k = getv (with_defaults disk_cfg) k"
proof -
  have "k \<noteq> ''allow_insecure_ws''" "k \<notin> set TLS_KEYS"
    using assms by (auto simp: IDENTITY_OVERLAY_KEYS_def TLS_KEYS_def)
  moreover have "map_of (overlay disk_cfg ident) k = map_of disk_cfg k"
    using overlay_keys assms by (auto simp: map_of_overlay split: option.split)
  ultimately have "map_of (merge_runtime_config disk_cfg ident) k = map_of (with_defaults disk_cfg) k"
    by (simp add: merge_runtime_config_def map_of_with_defaults map_of_drop_tls map_of_insecure_other)
  then show ?thesis by (simp add: getv_def)
qed

text \<open>
  An insecure WebSocket drops the certificates; an identity with a client certificate for a
  \<open>wss\<close> address that does not ask for it turns the insecure WebSocket of the file off.
\<close>

lemma insecure_drops_certificates:
  assumes "truthy (getv (merge_runtime_config disk_cfg ident) ''allow_insecure_ws'')" "k \<in> set TLS_KEYS"
  shows "getv (merge_runtime_config disk_cfg ident) k = JStr []"
proof -
  define m where "m = insecure_ws ident (overlay disk_cfg ident)"
  have "''allow_insecure_ws'' \<notin> set TLS_KEYS" by (simp add: TLS_KEYS_def)
  then have "getv (merge_runtime_config disk_cfg ident) ''allow_insecure_ws'' =
      (case map_of m ''allow_insecure_ws'' of None \<Rightarrow> JBool False | Some v \<Rightarrow> v)"
    by (simp add: merge_runtime_config_def m_def [symmetric] getv_def map_of_with_defaults map_of_drop_tls IDENTITY_DEFAULTS_def
        split: option.split)
  then have "truthy (getv m ''allow_insecure_ws'')" using assms(1) by (auto simp: getv_def split: option.splits)
  then show ?thesis
    using assms(2) by (simp add: merge_runtime_config_def m_def [symmetric] getv_def map_of_with_defaults map_of_drop_tls)
qed

text \<open>What a merge puts at each key.\<close>

definition has_mtls :: "dict \<Rightarrow> bool" where
  "has_mtls m \<longleftrightarrow> strip (str_or (getv m ''tls_client_cert'') []) \<noteq> [] \<and> strip (str_or (getv m ''tls_client_key'') []) \<noteq> []
     \<and> startswith (str_or (getv m ''websocket_url'') []) ''wss://''"

definition insecure_value :: "dict \<Rightarrow> dict \<Rightarrow> json" where
  "insecure_value ident m =
     (if ident \<noteq> [] \<and> getv ident ''allow_insecure_ws'' \<noteq> JNull then JBool (truthy (getv ident ''allow_insecure_ws''))
      else if ident \<noteq> [] \<and> has_mtls m then JBool False
      else (case map_of m ''allow_insecure_ws'' of None \<Rightarrow> JBool False | Some v \<Rightarrow> v))"

lemma merge_at:
  fixes disk_cfg ident
  defines "m \<equiv> overlay disk_cfg ident"
  shows "map_of (merge_runtime_config disk_cfg ident) k =
    (if k = ''allow_insecure_ws'' then Some (insecure_value ident m)
     else if k \<in> set TLS_KEYS then (if truthy (insecure_value ident m) then Some (JStr []) else map_of m k)
     else (case map_of m k of None \<Rightarrow> map_of IDENTITY_DEFAULTS k | Some v \<Rightarrow> Some v))"
proof -
  define x where "x = insecure_ws ident m"
  have a: "(case map_of x ''allow_insecure_ws'' of None \<Rightarrow> JBool False | Some v \<Rightarrow> v) = insecure_value ident m"
    by (auto simp: x_def insecure_ws_def insecure_value_def has_mtls_def Let_def)
  have t: "truthy (getv x ''allow_insecure_ws'') \<longleftrightarrow> truthy (insecure_value ident m)"
    unfolding a [symmetric] by (simp add: getv_def split: option.split)
  have n: "''allow_insecure_ws'' \<notin> set TLS_KEYS" "map_of IDENTITY_DEFAULTS ''allow_insecure_ws'' = Some (JBool False)"
    by (simp_all add: TLS_KEYS_def IDENTITY_DEFAULTS_def)
  have "list_all (\<lambda>k. map_of IDENTITY_DEFAULTS k = None) TLS_KEYS" by (simp add: TLS_KEYS_def IDENTITY_DEFAULTS_def)
  then have d: "k \<in> set TLS_KEYS \<Longrightarrow> map_of IDENTITY_DEFAULTS k = None" by (simp add: list_all_iff)
  have "map_of (merge_runtime_config disk_cfg ident) k =
      (case map_of (drop_tls x) k of None \<Rightarrow> map_of IDENTITY_DEFAULTS k | Some v \<Rightarrow> Some v)"
    by (simp add: merge_runtime_config_def map_of_with_defaults x_def m_def)
  note M = this [unfolded map_of_drop_tls t]
  consider "k = ''allow_insecure_ws''" | "k \<in> set TLS_KEYS" "k \<noteq> ''allow_insecure_ws''" | "k \<notin> set TLS_KEYS" "k \<noteq> ''allow_insecure_ws''"
    by blast
  then show ?thesis
  proof cases
    case 1
    then show ?thesis using M n a by (simp split: option.splits)
  next
    case 2
    then have "map_of x k = map_of m k" using map_of_insecure_other by (simp add: x_def)
    then show ?thesis using M 2 d by (simp split: option.split)
  next
    case 3
    then have "map_of x k = map_of m k" using map_of_insecure_other by (simp add: x_def)
    then show ?thesis using M 3 by simp
  qed
qed

text \<open>Merging the same identity twice is merging it once.\<close>

theorem merge_is_idempotent:
  "map_of (merge_runtime_config (merge_runtime_config disk_cfg ident) ident) = map_of (merge_runtime_config disk_cfg ident)"
proof
  define g where "g = map_of (rev (filter overlays ident))"
  define m where "m = overlay disk_cfg ident"
  define n where "n = overlay (merge_runtime_config disk_cfg ident) ident"
  have m: "map_of m k = (case g k of None \<Rightarrow> map_of disk_cfg k | Some v \<Rightarrow> Some v)" for k
    by (simp add: m_def g_def map_of_overlay)
  have n: "map_of n k = (case g k of None \<Rightarrow> map_of (merge_runtime_config disk_cfg ident) k | Some v \<Rightarrow> Some v)" for k
    by (simp add: n_def g_def map_of_overlay)
  note at = merge_at [of disk_cfg ident, folded m_def]
  have plain: "map_of n k = (case map_of m k of None \<Rightarrow> map_of IDENTITY_DEFAULTS k | Some v \<Rightarrow> Some v)"
    if "k \<noteq> ''allow_insecure_ws''" "k \<notin> set TLS_KEYS" for k
    using that by (simp add: n at m split: option.split)
  have tls: "map_of n k = (if truthy (insecure_value ident m) then Some (case g k of None \<Rightarrow> JStr [] | Some v \<Rightarrow> v) else map_of m k)"
    if "k \<in> set TLS_KEYS" for k
    using that at [of k] by (auto simp: n m TLS_KEYS_def split: option.split)
  have url: "getv n ''websocket_url'' = getv m ''websocket_url''"
    using plain [of "''websocket_url''"] by (simp add: TLS_KEYS_def getv_def IDENTITY_DEFAULTS_def split: option.split)
  have t2: "''tls_client_cert'' \<in> set TLS_KEYS" "''tls_client_key'' \<in> set TLS_KEYS" by (simp_all add: TLS_KEYS_def)
  have same: "has_mtls n \<longleftrightarrow> has_mtls m" if "\<not> truthy (insecure_value ident m)"
  proof -
    have "getv n k = getv m k" if "k \<in> set TLS_KEYS" for k
      using tls [OF that] \<open>\<not> truthy _\<close> by (simp add: getv_def)
    then show ?thesis using t2 url by (simp add: has_mtls_def)
  qed
  have less: "has_mtls m" if "has_mtls n"
  proof -
    have "getv m k = getv n k" if "k \<in> set TLS_KEYS" "strip (str_or (getv n k) []) \<noteq> []" for k
      using tls [OF that(1)] that(2) m [of k] by (auto simp: getv_def str_or_def split: if_splits option.splits)
    then show ?thesis using that t2 url by (auto simp: has_mtls_def)
  qed
  have same_value: "insecure_value ident n = insecure_value ident m"
  proof (cases "ident \<noteq> [] \<and> getv ident ''allow_insecure_ws'' \<noteq> JNull")
    case False
    show ?thesis
    proof (cases "ident \<noteq> [] \<and> has_mtls m")
      case True
      then have "\<not> truthy (insecure_value ident m)" using False by (simp add: insecure_value_def)
      then show ?thesis using same True False by (simp add: insecure_value_def)
    next
      case f: False
      then have "\<not> (ident \<noteq> [] \<and> has_mtls n)" using less by blast
      moreover have "insecure_value ident m = (case map_of m ''allow_insecure_ws'' of None \<Rightarrow> JBool False | Some v \<Rightarrow> v)"
        unfolding insecure_value_def using f False by (metis (full_types))
      ultimately show ?thesis
        using f False at [of "''allow_insecure_ws''"] n [of "''allow_insecure_ws''"] m [of "''allow_insecure_ws''"]
        by (auto simp: insecure_value_def split: option.splits)
    qed
  qed (simp add: insecure_value_def)
  fix k
  show "map_of (merge_runtime_config (merge_runtime_config disk_cfg ident) ident) k = map_of (merge_runtime_config disk_cfg ident) k"
    using merge_at [of "merge_runtime_config disk_cfg ident" ident k, folded n_def] at [of k] same_value plain [of k] tls [of k]
    by (auto split: option.splits)
qed

section \<open>Examples\<close>

definition sample_id_env :: id_env where
  "sample_id_env = \<lparr>cwd = ''/w'', default_root = ''enrollment'', env_identity_dir = [], suffixes = [], id_write_ok = (\<lambda>_. True)\<rparr>"

definition sample_post :: "string \<Rightarrow> http_reply" where
  "sample_post u = Reply 200 (Inr (JObj [(''agent_id'', JStr ''a1'')]))"

lemma sample_plain: "list_all plain_part [''w'', ''enrollment'', ''pc'']" "list_all plain_part [''w'', ''enrollment'']"
  by (simp_all add: plain_part_def)

lemma sample_paths:
  "abspath ''/w'' ''/w/enrollment/pc'' = abs_path [''w'', ''enrollment'', ''pc'']"
  "enrollment_root sample_id_env [] = abs_path [''w'', ''enrollment'']"
  by code_simp+

lemma sample_cwd [simp]: "cwd sample_id_env = ''/w''"
  by (simp add: sample_id_env_def)

definition sample_first :: "dict res \<times> id_disk \<times> string list" where
  "sample_first = enroll_agent sample_id_env sample_post ''https://h'' ''t'' ''pc'' (Some ''/w/enrollment/pc'') [] (\<lambda>_. None)"

lemma sample_enrolled: "\<not> isl (fst sample_first)" "snd (snd sample_first) = [''https://h/api/enroll'']"
  by code_simp+

theorem second_enrollment_asks_nothing_witness:
  "snd (snd (enroll_agent sample_id_env sample_post ''https://h'' ''t'' ''pc'' (Some ''/w/enrollment/pc'') [] (fst (snd sample_first)))) = []"
proof -
  obtain d where "fst sample_first = Inr d" using sample_enrolled(1) by (cases "fst sample_first") auto
  moreover define fs asked where "fs = fst (snd sample_first)" and "asked = snd (snd sample_first)"
  ultimately have f: "sample_first = (Inr d, fs, asked)" "asked \<noteq> []"
    using sample_enrolled(2) by (simp_all add: prod_eq_iff)
  have "enroll_agent sample_id_env sample_post ''https://h'' ''t'' ''pc'' (Some ''/w/enrollment/pc'') [] (\<lambda>_. None) = (Inr d, fs, asked)"
    using f(1) by (simp add: sample_first_def)
  from second_enrollment_asks_nothing [OF this f(2), of "[''w'', ''enrollment'', ''pc'']" sample_post "''https://h''" "''t''" "''pc''" "[]"]
  obtain d2 where "enroll_agent sample_id_env sample_post ''https://h'' ''t'' ''pc'' (Some ''/w/enrollment/pc'') [] fs = (Inr d2, fs, [])"
    using sample_paths(1) sample_plain(1) by auto
  then show ?thesis by (simp add: fs_def)
qed

theorem identity_keeps_local_keys_witness:
  "getv (merge_runtime_config [] [(''policy'', JObj [(''allow_high_risk'', JBool True)])]) ''policy'' = getv (with_defaults []) ''policy''"
  by (rule identity_keeps_local_keys) (simp add: IDENTITY_OVERLAY_KEYS_def)

theorem pointer_roundtrip_witness:
  "read_active_identity_pointer sample_id_env (snd (write_active_identity_pointer sample_id_env ''/x'' [] [] [] (\<lambda>_. None))) [] = Inr None"
proof -
  have "isl (fst (write_active_identity_pointer sample_id_env ''/x'' [] [] [] (\<lambda>_. None))) = False" by code_simp
  then have w: "write_active_identity_pointer sample_id_env ''/x'' [] [] [] (\<lambda>_. None) =
      (Inr (), snd (write_active_identity_pointer sample_id_env ''/x'' [] [] [] (\<lambda>_. None)))"
    by (cases "fst (write_active_identity_pointer sample_id_env ''/x'' [] [] [] (\<lambda>_. None))") (auto simp: prod_eq_iff)
  have "is_abs (pointer_path sample_id_env [])" "abspath (cwd sample_id_env) ''/x'' = abs_path [''x'']"
    "strip (relpath (cwd sample_id_env) (abs_path [''x'']) (abs_path [''w'', ''enrollment''])) =
     relpath (cwd sample_id_env) (abs_path [''x'']) (abs_path [''w'', ''enrollment''])"
    "\<not> startswith (abs_path [''x'']) (abs_path [''w'', ''enrollment''] @ ''/'')"
    by code_simp+
  then show ?thesis
    using pointer_roundtrip [OF w sample_paths(2) sample_plain(2), of "[''x'']"] by (simp add: plain_part_def)
qed

end
