(* ===== verification/Otlp_Metrics.thy ===== *)
theory Otlp_Metrics
  imports Otlp_Compact Protocol
begin

text \<open>
  The gauges that the agent derives from tool results,
  \<open>events_to_otlp_metrics\<close> of \<^verbatim>\<open>colsoft_tools/data_plane.py\<close> with its helpers, up to
  the list of metrics of one event. A conversion that raises outside of a \<open>try\<close> is an
  exception of the whole function.
\<close>

section \<open>Gauges\<close>

definition gauge :: "string \<Rightarrow> json \<Rightarrow> string \<Rightarrow> string \<Rightarrow> dict option res" where
  \<comment> \<open>\<open>float\<close> of a huge integer is the exception that \<open>_gauge\<close> does not catch\<close>
  "gauge name v ts unit =
     (case py_float v of
        Inl OverflowError \<Rightarrow> Inl OverflowError
      | Inl e \<Rightarrow> Inr None
      | Inr num \<Rightarrow> Inr (Some (dput_if (unit \<noteq> []) ''unit'' (JStr unit)
          [(''name'', JStr name),
           (''gauge'', JObj [(''dataPoints'', JList [JObj [(''asDouble'', JFloat num), (''timeUnixNano'', JStr ts)]])])])))"

definition float_if_num :: "json \<Rightarrow> json res" where
  \<comment> \<open>\<open>float(x)\<close> of a number that is no boolean, else \<open>None\<close>\<close>
  "float_if_num v = (if is_num v then res_bind (py_float v) (\<lambda>f. Inr (JFloat f)) else Inr JNull)"

definition cpu_load_avg :: "dict \<Rightarrow> nat \<Rightarrow> json res" where
  "cpu_load_avg cpu minutes =
     (case map_of [(1, 0), (5, 1), (15, 2)] minutes of
        None \<Rightarrow> Inr JNull
      | Some idx \<Rightarrow>
         (let raw = getv cpu (''load_avg_'' @ nat_digits minutes) in
          if is_num raw then float_if_num raw
          else (case getv cpu ''load_avg_1_5_15'' of
              JList series \<Rightarrow> if length series > idx then float_if_num (series ! idx) else Inr JNull
            | _ \<Rightarrow> Inr JNull)))"

section \<open>Network totals\<close>

primrec add_rows :: "(dict \<Rightarrow> int res) \<Rightarrow> json list \<Rightarrow> int res" where
  \<comment> \<open>the sum over the rows that are dictionaries\<close>
  "add_rows f [] = Inr 0"
| "add_rows f (r # rs) = (case r of
     JObj d \<Rightarrow> res_bind (f d) (\<lambda>x. res_bind (add_rows f rs) (\<lambda>y. Inr (x + y)))
   | _ \<Rightarrow> add_rows f rs)"

definition caught :: "py_exc \<Rightarrow> bool" where
  \<comment> \<open>\<open>except (TypeError, ValueError)\<close>\<close>
  "caught e \<longleftrightarrow> e \<in> {TypeError, ValueError}"

definition net_section :: "dict \<Rightarrow> json" where
  "net_section result = (if getv result ''network_io'' = JNull then getv result ''net'' else getv result ''network_io'')"

definition int_either :: "dict \<Rightarrow> string \<Rightarrow> string \<Rightarrow> int res" where
  \<comment> \<open>\<open>int(row.get(a) or row.get(b) or 0)\<close>\<close>
  "int_either row a b = int_or_zero (py_or (getv row a) (getv row b))"

definition int_both :: "dict \<Rightarrow> string \<Rightarrow> string \<Rightarrow> int res" where
  \<comment> \<open>\<open>int(row.get(a) or 0) + int(row.get(b) or 0)\<close>\<close>
  "int_both row a b = res_bind (int_or_zero (getv row a)) (\<lambda>x. res_bind (int_or_zero (getv row b)) (\<lambda>y. Inr (x + y)))"

definition net_byte_rows :: "json \<Rightarrow> (json \<times> json) res" where
  "net_byte_rows net = (case net of
      JList rows \<Rightarrow>
        res_bind (add_rows (\<lambda>r. int_either r ''tx_bytes'' ''bytes_sent'') rows) (\<lambda>sent.
        res_bind (add_rows (\<lambda>r. int_either r ''rx_bytes'' ''bytes_recv'') rows) (\<lambda>recv.
        Inr (if list_ex is_obj rows then (JInt sent, JInt recv) else (JNull, JNull))))
    | _ \<Rightarrow> Inr (JNull, JNull))"

definition network_byte_totals :: "dict \<Rightarrow> (json \<times> json) res" where
  "network_byte_totals result = (case net_section result of
      JObj net \<Rightarrow>
       (let sent = getv net ''bytes_sent''; recv = getv net ''bytes_recv'' in
        if sent \<noteq> JNull \<or> recv \<noteq> JNull then
         (case res_bind (int_or_zero sent) (\<lambda>s. res_bind (int_or_zero recv) (\<lambda>r. Inr (JInt s, JInt r))) of
            Inl e \<Rightarrow> if caught e then Inr (sent, recv) else Inl e
          | Inr t \<Rightarrow> Inr t)
        else net_byte_rows (getv net ''interfaces''))
    | v \<Rightarrow> net_byte_rows v)"

type_synonym packets = "int \<times> int \<times> int \<times> int"

definition packet_try :: "dict \<Rightarrow> packets \<times> py_exc option" where
  \<comment> \<open>the assignments of the \<open>try\<close> block up to the first that raises\<close>
  "packet_try net = (case int_or_zero (getv net ''packets_sent'') of
      Inl e \<Rightarrow> ((0, 0, 0, 0), Some e)
    | Inr s \<Rightarrow> (case int_or_zero (getv net ''packets_recv'') of
        Inl e \<Rightarrow> ((s, 0, 0, 0), Some e)
      | Inr r \<Rightarrow> (case int_both net ''errin'' ''errout'' of
          Inl e \<Rightarrow> ((s, r, 0, 0), Some e)
        | Inr er \<Rightarrow> (case int_both net ''dropin'' ''dropout'' of
            Inl e \<Rightarrow> ((s, r, er, 0), Some e)
          | Inr dr \<Rightarrow> ((s, r, er, dr), None)))))"

definition four :: "packets \<Rightarrow> json list" where
  "four p = (case p of (a, b, c, d) \<Rightarrow> [JInt a, JInt b, JInt c, JInt d])"

definition packet_rows :: "packets \<Rightarrow> json \<Rightarrow> json list res" where
  \<comment> \<open>the counters start from what the \<open>try\<close> block left\<close>
  "packet_rows start net = (case net of
      JList rows \<Rightarrow>
        res_bind (add_rows (\<lambda>r. int_either r ''tx_packets'' ''packets_sent'') rows) (\<lambda>s.
        res_bind (add_rows (\<lambda>r. int_either r ''rx_packets'' ''packets_recv'') rows) (\<lambda>v.
        res_bind (add_rows (\<lambda>r. res_bind (int_both r ''tx_errors'' ''rx_errors'') (\<lambda>x.
                     res_bind (int_both r ''errin'' ''errout'') (\<lambda>y. Inr (x + y)))) rows) (\<lambda>er.
        res_bind (add_rows (\<lambda>r. res_bind (int_both r ''tx_dropped'' ''rx_dropped'') (\<lambda>x.
                     res_bind (int_both r ''dropin'' ''dropout'') (\<lambda>y. Inr (x + y)))) rows) (\<lambda>dr.
        Inr (if list_ex is_obj rows
             then (case start of (a, b, c, d) \<Rightarrow> four (a + s, b + v, c + er, d + dr))
             else [JNull, JNull, JNull, JNull])))))
    | _ \<Rightarrow> Inr [JNull, JNull, JNull, JNull])"

definition network_packet_totals :: "dict \<Rightarrow> json list res" where
  "network_packet_totals result = (case net_section result of
      JObj net \<Rightarrow>
        (if getv net ''packets_sent'' \<noteq> JNull \<or> getv net ''packets_recv'' \<noteq> JNull then
          (case packet_try net of
             (p, None) \<Rightarrow> Inr (four p)
           | (p, Some e) \<Rightarrow> if caught e then packet_rows p (getv net ''interfaces'') else Inl e)
         else packet_rows (0, 0, 0, 0) (getv net ''interfaces''))
    | v \<Rightarrow> packet_rows (0, 0, 0, 0) v)"

section \<open>Disks and file systems\<close>

definition get_first :: "dict \<Rightarrow> string \<Rightarrow> string \<Rightarrow> json" where
  \<comment> \<open>the second key when the first gives \<open>None\<close>\<close>
  "get_first row a b = (if getv row a = JNull then getv row b else getv row a)"

definition int_if_num :: "json \<Rightarrow> int res" where
  "int_if_num v = (if is_num v then py_int v else Inr 0)"

definition disk_rows :: "dict \<Rightarrow> json list" where
  "disk_rows result = concat (map (\<lambda>k. case getv result k of
      JList rows \<Rightarrow> rows
    | JObj d \<Rightarrow> if getv d ''read_count'' \<noteq> JNull \<or> getv d ''reads'' \<noteq> JNull then [JObj d] else []
    | _ \<Rightarrow> []) [''disk_io'', ''disks''])"

definition volume_row :: "dict \<Rightarrow> bool" where
  \<comment> \<open>a row about the use of a file system, which the totals skip\<close>
  "volume_row row \<longleftrightarrow> get_first row ''reads'' ''read_count'' = JNull
     \<and> get_first row ''writes'' ''write_count'' = JNull \<and> getv row ''percent'' \<noteq> JNull"

definition disk_bytes :: "dict \<Rightarrow> string \<Rightarrow> string \<Rightarrow> int res" where
  "disk_bytes row b s =
     (if is_num (getv row b) then py_int (getv row b)
      else if is_num (getv row s) then res_bind (py_int (getv row s)) (\<lambda>n. Inr (n * 512))
      else Inr 0)"

definition disk_io_totals :: "dict \<Rightarrow> json list res" where
  "disk_io_totals result =
     (let rows = filter (\<lambda>r. case r of JObj d \<Rightarrow> \<not> volume_row d | _ \<Rightarrow> False) (disk_rows result);
          any_ops = list_ex (\<lambda>r. is_num (get_first (obj_of r) ''reads'' ''read_count'')
                              \<or> is_num (get_first (obj_of r) ''writes'' ''write_count'')) rows;
          any_bytes = list_ex (\<lambda>r. list_ex (\<lambda>k. is_num (getv (obj_of r) k))
                       [''read_bytes'', ''read_sectors'', ''write_bytes'', ''write_sectors'']) rows in
      res_bind (add_rows (\<lambda>r. int_if_num (get_first r ''reads'' ''read_count'')) rows) (\<lambda>rd.
      res_bind (add_rows (\<lambda>r. int_if_num (get_first r ''writes'' ''write_count'')) rows) (\<lambda>wr.
      res_bind (add_rows (\<lambda>r. disk_bytes r ''read_bytes'' ''read_sectors'') rows) (\<lambda>rb.
      res_bind (add_rows (\<lambda>r. disk_bytes r ''write_bytes'' ''write_sectors'') rows) (\<lambda>wb.
      Inr [if any_ops then JInt rd else JNull, if any_ops then JInt wr else JNull,
           if any_bytes then JInt rb else JNull, if any_bytes then JInt wb else JNull])))))"

fun fadd :: "pyfloat \<Rightarrow> pyfloat \<Rightarrow> pyfloat" where
  "fadd (Fin a) (Fin b) = Fin (a + b)"
| "fadd NaN _ = NaN"
| "fadd _ NaN = NaN"
| "fadd PInf NInf = NaN"
| "fadd NInf PInf = NaN"
| "fadd PInf _ = PInf"
| "fadd _ PInf = PInf"
| "fadd NInf _ = NInf"
| "fadd _ NInf = NInf"

definition queue_cells :: "dict \<Rightarrow> json list" where
  \<comment> \<open>the numbers in progress of the rows of \<open>disk_io\<close> and \<open>disks\<close>\<close>
  "queue_cells result = filter is_num (concat (map (\<lambda>k. case getv result k of
      JList rows \<Rightarrow> map (\<lambda>r. get_first (obj_of r) ''in_progress'' ''ios_in_progress'') (filter is_obj rows)
    | _ \<Rightarrow> []) [''disk_io'', ''disks'']))"

definition disk_queue_length :: "dict \<Rightarrow> json res" where
  "disk_queue_length result =
     (let raw = (case getv result ''disk_io'' of JObj d \<Rightarrow> getv d ''queue_length'' | _ \<Rightarrow> JNull);
          cells = queue_cells result in
      if is_num raw then float_if_num raw
      else res_bind (all_res (map py_float cells)) (\<lambda>fs.
           Inr (if fs = [] then JNull else JFloat (fold (\<lambda>f t. fadd t f) fs (Fin 0)))))"

primrec float_max :: "pyfloat list \<Rightarrow> json" where
  \<comment> \<open>the running maximum of Python's \<open>max\<close>, \<open>None\<close> of nothing\<close>
  "float_max [] = JNull"
| "float_max (f # fs) = JFloat (fold (\<lambda>x best. fmax best x) fs f)"

definition fs_percent_max :: "dict \<Rightarrow> json res" where
  "fs_percent_max result =
     (let raw = getv result ''filesystem_percent_max'';
          rows = concat (map (\<lambda>k. case getv result k of JList rows \<Rightarrow> filter is_obj rows | _ \<Rightarrow> []) [''volumes'', ''disks'']);
          ps = filter is_num (map (\<lambda>r. getv (obj_of r) ''percent'') rows) in
      if is_num raw then float_if_num raw
      else res_bind (all_res (map py_float ps)) (\<lambda>fs. Inr (float_max fs)))"

section \<open>Services, connections and probes\<close>

definition systemd_failed :: "dict \<Rightarrow> json res" where
  "systemd_failed result =
     (if is_num (getv result ''failed'') then res_bind (py_int (getv result ''failed'')) (\<lambda>n. Inr (JInt n))
      else (case getv result ''units'' of
          JList units \<Rightarrow> Inr (JInt (int (length (filter
             (\<lambda>u. is_obj u \<and> lower (str_or (getv (obj_of u) ''active'') []) = ''failed'') units))))
        | _ \<Rightarrow> Inr JNull))"

definition tcp_connection_gauge_table :: "(string \<times> string) list" where
  "tcp_connection_gauge_table = [
     (''tcp'', ''system.network.connections''), (''listen'', ''system.network.connections.listen''),
     (''established'', ''system.network.connections.established''),
     (''time_wait'', ''system.network.connections.time_wait''),
     (''syn_recv'', ''system.network.connections.syn_recv''),
     (''syn_sent'', ''system.network.connections.syn_sent''),
     (''close_wait'', ''system.network.connections.close_wait''),
     (''udp'', ''system.network.connections.udp'')]"

definition tcp_connections_block :: "dict \<Rightarrow> dict" where
  \<comment> \<open>empty when there is no such section\<close>
  "tcp_connections_block result = obj_of (getv result ''tcp_connections'')"

definition tcp_connection_gauges :: "dict \<Rightarrow> string \<Rightarrow> dict option list res" where
  "tcp_connection_gauges result ts =
     (let block = tcp_connections_block result in
      if block = [] then Inr []
      else all_res (map (\<lambda>(k, name). gauge name (getv block k) ts ''{connections}'') tcp_connection_gauge_table))"

definition probe_times :: "json \<Rightarrow> pyfloat list res" where
  \<comment> \<open>the response times of the checks that are up\<close>
  "probe_times checks =
     res_bind (py_iter (py_or checks (JList []))) (\<lambda>recs.
       all_res (map py_float (filter is_num (map (\<lambda>r. getv (obj_of r) ''response_time'')
         (filter (\<lambda>r. is_obj r \<and> getv (obj_of r) ''status'' = JStr ''UP'') recs)))))"

definition probe_latency :: "dict \<Rightarrow> (json \<times> json) res" where
  "probe_latency result =
     res_bind (float_if_num (getv result ''response_time'')) (\<lambda>avg.
     res_bind (float_if_num (getv result ''response_time_max'')) (\<lambda>mx.
     if avg \<noteq> JNull \<and> mx \<noteq> JNull then Inr (avg, mx)
     else res_bind (probe_times (getv result ''checks'')) (\<lambda>times.
       Inr (if times = [] then (avg, mx)
            else (if avg \<noteq> JNull then avg
                  else JFloat (fscale (1 / of_nat (length times)) (fold (\<lambda>f t. fadd t f) times (Fin 0))),
                  if mx \<noteq> JNull then mx else float_max times)))))"

section \<open>The metrics of one event\<close>

definition memory_used :: "dict \<Rightarrow> json res" where
  "memory_used mem =
     (if getv mem ''used'' = JNull \<and> getv mem ''total'' \<noteq> JNull \<and> getv mem ''available'' \<noteq> JNull
      then (case res_bind (py_int (getv mem ''total'')) (\<lambda>t.
               res_bind (py_int (getv mem ''available'')) (\<lambda>a. Inr (JInt (t - a)))) of
              Inl e \<Rightarrow> if caught e then Inr JNull else Inl e
            | Inr v \<Rightarrow> Inr v)
      else Inr (getv mem ''used''))"

definition available_mib :: "dict \<Rightarrow> json res" where
  "available_mib mem =
     (if is_num (getv mem ''available'')
      then res_bind (py_float (getv mem ''available'')) (\<lambda>f. Inr (JFloat (fscale (1 / 1048576) f)))
      else Inr JNull)"

definition system_values :: "dict \<Rightarrow> (string \<times> json \<times> string) list res" where
  \<comment> \<open>name, value and unit of the gauges of \<open>system_metrics\<close>\<close>
  "system_values result =
     (let cpu = obj_of (getv result ''cpu''); mem = obj_of (getv result ''memory'') in
      res_bind (network_byte_totals result) (\<lambda>(sent, recv).
      res_bind (disk_io_totals result) (\<lambda>disk.
      res_bind (network_packet_totals result) (\<lambda>pkt.
      res_bind (fs_percent_max result) (\<lambda>fs_max.
      res_bind (memory_used mem) (\<lambda>used.
      res_bind (available_mib mem) (\<lambda>mib.
      res_bind (all_res (map (cpu_load_avg cpu) [1, 5, 15])) (\<lambda>load.
      res_bind (disk_queue_length result) (\<lambda>queue.
      Inr [(''system.cpu.utilization'', getv cpu ''percent'', ''%''),
           (''system.cpu.logical.count'', getv cpu ''logical_cores'', ''{cpu}''),
           (''system.cpu.load_average.1m'', load ! 0, ''1''),
           (''system.cpu.load_average.5m'', load ! 1, ''1''),
           (''system.cpu.load_average.15m'', load ! 2, ''1''),
           (''system.memory.utilization'', getv mem ''percent'', ''%''),
           (''system.memory.usage'', used, ''By''),
           (''system.memory.available'', getv mem ''available'', ''By''),
           (''system.memory.available.mbytes'', mib, ''MiBy''),
           (''system.memory.swap.utilization'', getv mem ''swap_percent'', ''%''),
           (''system.memory.swap.usage'', getv mem ''swap_used'', ''By''),
           (''system.filesystem.utilization'', fs_max, ''%''),
           (''system.uptime'', get_first result ''uptime_seconds'' ''uptime_s'', ''s''),
           (''system.processor.queue.length'', getv cpu ''processor_queue_length'', ''{threads}''),
           (''system.processor.system_queue.length'',
              py_or (getv cpu ''system_processor_queue_length'') (getv cpu ''processor_queue_length''), ''{threads}''),
           (''system.disk.queue.length'', queue, ''{queue}''),
           (''system.network.io.bytes_sent'', sent, ''By''),
           (''system.network.io.bytes_recv'', recv, ''By''),
           (''system.network.packets.sent'', pkt ! 0, ''{packets}''),
           (''system.network.packets.recv'', pkt ! 1, ''{packets}''),
           (''system.network.errors'', pkt ! 2, ''{errors}''),
           (''system.network.dropped'', pkt ! 3, ''{packets}''),
           (''system.disk.operations.read'', disk ! 0, ''{ops}''),
           (''system.disk.operations.write'', disk ! 1, ''{ops}''),
           (''system.disk.io.read'', disk ! 2, ''By''),
           (''system.disk.io.write'', disk ! 3, ''By'')])))))))))"

definition gauges_of :: "string \<Rightarrow> (string \<times> json \<times> string) list \<Rightarrow> dict option list res" where
  "gauges_of ts vs = all_res (map (\<lambda>(name, v, unit). gauge name v ts unit) vs)"

definition inner_event :: "dict \<Rightarrow> dict" where
  "inner_event ev = obj_of (getv ev ''event'')"

definition inner_result :: "dict \<Rightarrow> dict" where
  "inner_result inner = (case getv inner ''result'' of JObj r \<Rightarrow> r | _ \<Rightarrow> inner)"

definition is_tool :: "string \<Rightarrow> json \<Rightarrow> dict \<Rightarrow> bool" where
  "is_tool name tool result \<longleftrightarrow> tool = JStr name \<or> getv result ''tool'' = JStr name"

definition metric_candidates :: "json \<Rightarrow> dict \<Rightarrow> string \<Rightarrow> dict option list res" where
  \<comment> \<open>no candidates where the code goes on with the next event\<close>
  "metric_candidates tool result ts =
     (if is_tool ''health_probes'' tool result then
        (if getv result ''count'' = JNull then Inr []
         else res_bind (probe_latency result) (\<lambda>(avg, mx).
           gauges_of ts [(''health.probe.count'', getv result ''count'', ''{checks}''),
                         (''health.probe.down'', getv result ''down'', ''{checks}''),
                         (''health.probe.response_time'', avg, ''s''),
                         (''health.probe.response_time.max'', mx, ''s'')]))
      else if is_tool ''linux_systemd_units'' tool result then
        res_bind (systemd_failed result) (\<lambda>n. gauges_of ts [(''system.systemd.units.failed'', n, ''{units}'')])
      else if tool \<in> {JStr ''system_metrics'', JStr ''network_connections'', JStr ''linux_proc_metrics''}
           \<or> has ''cpu'' result \<or> tcp_connections_block result \<noteq> [] then
        res_bind (if tool = JStr ''system_metrics'' \<or> has ''cpu'' result
                  then res_bind (system_values result) (gauges_of ts) else Inr []) (\<lambda>sys.
        res_bind (tcp_connection_gauges result ts) (\<lambda>tcp. Inr (sys @ tcp)))
      else Inr [])"

definition event_metrics :: "(json \<Rightarrow> string) \<Rightarrow> dict \<Rightarrow> dict list res" where
  \<comment> \<open>\<open>nano\<close> renders a time stamp\<close>
  "event_metrics nano ev =
     (let inner = inner_event ev; result = inner_result inner;
          tool = py_or (getv inner ''tool'') (getv result ''tool'');
          ts = nano (py_or (py_or (getv ev ''ts'') (getv result ''timestamp'')) (getv result ''ts'')) in
      res_bind (metric_candidates tool result ts) (\<lambda>ms. Inr (List.map_filter (\<lambda>m. m) ms)))"

section \<open>Properties\<close>

lemma gauge_shape: "gauge name v ts unit = Inr (Some m) \<Longrightarrow> \<exists>num. py_float v = Inr num \<and> getv m ''name'' = JStr name"
  by (auto simp: gauge_def dict_simps split: sum.splits py_exc.splits)

lemma gauge_null [simp]: "gauge name JNull ts unit = Inr None"
  by (simp add: gauge_def)

lemma all_res_Inr: "all_res rs = Inr xs \<longleftrightarrow> rs = map Inr xs"
  by (induction rs arbitrary: xs) (auto simp: res_bind_eq_Inr)

text \<open>A row whose fields the compaction leaves alone.\<close>

definition small_row :: "json \<Rightarrow> bool" where
  "small_row v = (case v of
      JObj d \<Rightarrow> distinct (map fst d) \<and> length d \<le> 12 \<and> list_all (\<lambda>(k, x). slim_field x = x) d
    | _ \<Rightarrow> False)"

lemma slim_small_row: "small_row v \<Longrightarrow> slim_record v = v"
  using fold_dset_new [of "[]" _ slim_field]
  by (cases v) (auto simp: small_row_def slim_record_def)

lemma map_slim_small: "list_all small_row rows \<Longrightarrow> map slim_record rows = rows"
  by (simp add: list_all_iff slim_small_row map_idI)

definition proc_result :: "dict \<Rightarrow> json list \<Rightarrow> dict" where
  \<comment> \<open>the part of a result of \<open>linux_proc_metrics\<close> that the totals read\<close>
  "proc_result cpu rows = [(''tool'', JStr ''linux_proc_metrics''), (''cpu'', JObj cpu), (''disks'', JList rows)]"

text \<open>
  Scheduled results are compacted before the gauges are derived from them, and the
  compaction keeps twelve disks: the disk totals that are exported for a host with more disks
  are the totals of the first twelve.
\<close>

theorem disk_totals_count_sample:
  assumes "list_all small_row rows" "otlp_list_sample < length rows"
  shows "disk_io_totals (compact_result otlp_list_sample (proc_result cpu rows))
       = disk_io_totals (proc_result cpu (take otlp_list_sample rows))"
proof -
  have t: "map slim_record (take otlp_list_sample rows) = take otlp_list_sample rows"
    using assms(1) by (intro map_slim_small) (auto simp: list_all_iff dest: in_set_takeD)
  have "disk_rows (compact_result otlp_list_sample (proc_result cpu rows)) = take otlp_list_sample rows"
    using assms(2)
    by (simp add: proc_result_def compact_result_items item_of_def list_item_def sampled_def sample_list_def
        bulky_list_keys_def gather_def disk_rows_def dict_simps t take_map Let_def)
  moreover have "disk_rows (proc_result cpu (take otlp_list_sample rows)) = take otlp_list_sample rows"
    by (simp add: disk_rows_def proc_result_def)
  ultimately show ?thesis by (simp add: disk_io_totals_def)
qed

definition sample_disks :: "json list" where
  "sample_disks = replicate 13 (JObj [(''name'', JStr ''dm-0''), (''reads'', JInt 5), (''writes'', JInt 1)])"

lemma disk_totals_count_sample_witness:
  "disk_io_totals (compact_result otlp_list_sample (proc_result [] sample_disks)) = Inr [JInt 60, JInt 12, JNull, JNull]
   \<and> disk_io_totals (proc_result [] sample_disks) = Inr [JInt 65, JInt 13, JNull, JNull]"
proof -
  have "disk_io_totals (proc_result [] (take otlp_list_sample sample_disks)) = Inr [JInt 60, JInt 12, JNull, JNull]"
    "disk_io_totals (proc_result [] sample_disks) = Inr [JInt 65, JInt 13, JNull, JNull]"
    by (simp_all add: disk_io_totals_def disk_rows_def proc_result_def sample_disks_def otlp_list_sample_def
        volume_row_def get_first_def int_if_num_def disk_bytes_def eval_nat_numeral)
  moreover have "list_all small_row sample_disks" "otlp_list_sample < length sample_disks"
    by (simp_all add: sample_disks_def small_row_def otlp_list_sample_def eval_nat_numeral)
  ultimately show ?thesis by (simp add: disk_totals_count_sample)
qed

end
