(* ===== verification/Otlp_Export.thy ===== *)
theory Otlp_Export
  imports Otlp_Metrics Telemetry_Buffer
begin

text \<open>
  The data plane of the agent, the second half of \<^verbatim>\<open>colsoft_tools/data_plane.py\<close>: the
  URL of the receiver, the OTLP log records, and the exporter that drains the telemetry
  buffer. The clock, the local time zone, the cloud tags and the answers of the server are
  inputs of a round; the compression of a body is left out, so a request is its URL and its
  JSON value.
\<close>

section \<open>URLs\<close>

definition url_junk :: "char \<Rightarrow> bool" where
  \<comment> \<open>leading control characters and blanks, which \<open>urlsplit\<close> strips\<close>
  "url_junk c \<longleftrightarrow> code_point c \<le> 32"

definition alpha :: "char \<Rightarrow> bool" where
  "alpha c \<longleftrightarrow> (65 \<le> code_point c \<and> code_point c \<le> 90) \<or> (97 \<le> code_point c \<and> code_point c \<le> 122)"

definition scheme_char :: "char \<Rightarrow> bool" where
  "scheme_char c \<longleftrightarrow> alpha c \<or> is_digit c \<or> c \<in> {CHR ''+'', CHR ''-'', CHR ''.''}"

definition split_scheme :: "string \<Rightarrow> string \<times> string" where
  "split_scheme u =
     (let pre = takeWhile (\<lambda>c. c \<noteq> CHR '':'') u in
      if length pre < length u \<and> pre \<noteq> [] \<and> alpha (hd pre) \<and> list_all scheme_char pre
      then (lower pre, drop (Suc (length pre)) u) else ([], u))"

definition url_break :: "char \<Rightarrow> bool" where
  "url_break c \<longleftrightarrow> c \<in> {CHR ''/'', CHR ''?'', CHR ''#''}"

definition urlsplit :: "string \<Rightarrow> (string \<times> string \<times> string) res" where
  \<comment> \<open>scheme, network location and path\<close>
  "urlsplit u =
     (let u = filter (\<lambda>c. c \<notin> {CHR 0x09, CHR 0x0A, CHR 0x0D}) (dropWhile url_junk u);
          (scheme, rest) = split_scheme u;
          netloc = (if startswith rest ''//'' then takeWhile (\<lambda>c. \<not> url_break c) (drop 2 rest) else []);
          path = takeWhile (\<lambda>c. c \<notin> {CHR ''?'', CHR ''#''})
                   (if startswith rest ''//'' then dropWhile (\<lambda>c. \<not> url_break c) (drop 2 rest) else rest) in
      if (CHR ''['' \<in> set netloc) \<noteq> (CHR '']'' \<in> set netloc) then Inl ValueError
      else Inr (scheme, netloc, path))"

fun before_last :: "string \<Rightarrow> string \<Rightarrow> string" where
  \<comment> \<open>\<open>s.rsplit(sep, 1)[0]\<close>\<close>
  "before_last sep [] = []"
| "before_last sep (c # s) =
     (if contains s sep then c # before_last sep s
      else if startswith (c # s) sep then [] else c # s)"

definition strip_slashes :: "string \<Rightarrow> string" where
  "strip_slashes s = rev (dropWhile (\<lambda>c. c = CHR ''/'') (rev s))"

definition derive_otlp_base :: "string \<Rightarrow> string" where
  "derive_otlp_base ws_url = (case urlsplit ws_url of
      Inl e \<Rightarrow> []
    | Inr (scheme, netloc, path) \<Rightarrow>
       (if scheme = [] \<or> netloc = [] then []
        else (let path = strip_slashes (if contains path ''/ws/'' then before_last ''/ws/'' path else []) in
          (if scheme \<in> {''wss'', ''https''} then ''https'' else ''http'') @ ''://'' @ netloc
            @ (if path \<noteq> [] \<and> hd path \<noteq> CHR ''/'' then ''/'' @ path else path))))"

definition data_plane_section :: "dict \<Rightarrow> dict" where
  "data_plane_section conf = obj_of (getv conf ''data_plane'')"

definition otlp_suffixes :: "string list" where
  "otlp_suffixes = [''/v1/logs'', ''/v1/metrics'', ''/v1/traces'']"

definition without_suffix :: "string \<Rightarrow> string \<Rightarrow> string" where
  "without_suffix s suf = take (length s - length suf) s"

definition otlp_base_url :: "dict \<Rightarrow> string" where
  "otlp_base_url conf =
     (let endpoint = strip_slashes (strip (str_or (getv (data_plane_section conf) ''endpoint'') [])) in
      if endpoint = [] then derive_otlp_base (str_or (getv conf ''websocket_url'') [])
      else (case find (endswith endpoint) otlp_suffixes of
              Some suf \<Rightarrow> without_suffix endpoint suf
            | None \<Rightarrow> endpoint))"

definition data_plane_enabled :: "dict \<Rightarrow> bool" where
  "data_plane_enabled conf =
     (case map_of (data_plane_section conf) ''enabled'' of
        Some v \<Rightarrow> truthy v
      | None \<Rightarrow> otlp_base_url conf \<noteq> [])"

section \<open>Attributes and resources\<close>

definition kv :: "string \<Rightarrow> json \<Rightarrow> dict option" where
  "kv key v =
     (if v = JNull \<or> v = JStr [] then None
      else Some [(''key'', JStr key), (''value'', JObj [case v of
          JBool b \<Rightarrow> (''boolValue'', v)
        | JInt i \<Rightarrow> (''intValue'', JStr (int_str i))
        | JFloat f \<Rightarrow> (''doubleValue'', v)
        | _ \<Rightarrow> (''stringValue'', JStr (take 2048 (py_str v)))])])"

definition attrs :: "dict \<Rightarrow> json list" where
  "attrs pairs = List.map_filter (\<lambda>(k, v). map_option JObj (kv k v)) pairs"

definition cloud_otlp_attributes :: "dict \<Rightarrow> dict" where
  \<comment> \<open>of \<^verbatim>\<open>colsoft_tools/cloud_metadata.py\<close>\<close>
  "cloud_otlp_attributes info = concat (map (\<lambda>(key, name).
     if truthy (getv info key) then [(name, getv info key)] else [])
     [(''cloud_provider'', ''cloud.provider''), (''region'', ''cloud.region''),
      (''availability_zone'', ''cloud.availability_zone''), (''account_id'', ''cloud.account.id''),
      (''instance_id'', ''host.id''), (''instance_type'', ''host.type'')])"

record export_env =
  take_io :: io
  back_io :: io
  now_us :: int
  local_us :: "int \<Rightarrow> int"
  cloud :: dict
  accepts :: "string \<Rightarrow> json \<Rightarrow> bool"

definition nano :: "export_env \<Rightarrow> json \<Rightarrow> string" where
  \<comment> \<open>a time stamp without zone is local time\<close>
  "nano e v = (case parse_iso v of
      Some (DT us aware) \<Rightarrow> int_str ((if aware then us else local_us e us) * 1000)
    | None \<Rightarrow> int_str (now_us e * 1000))"

definition agent_of :: "dict \<Rightarrow> dict \<Rightarrow> json" where
  "agent_of conf ev = py_or (getv ev ''agent_id'') (getv conf ''agent_id'')"

definition tenant_of :: "dict \<Rightarrow> dict \<Rightarrow> json" where
  "tenant_of conf ev = py_or (getv ev ''tenant_id'') (getv conf ''tenant_id'')"

definition or_self :: "dict \<Rightarrow> dict" where
  \<comment> \<open>the inner event, or the event itself when it has none\<close>
  "or_self ev = (case getv ev ''event'' of JObj inner \<Rightarrow> inner | _ \<Rightarrow> ev)"

definition resource_of :: "export_env \<Rightarrow> dict \<Rightarrow> dict \<Rightarrow> json" where
  "resource_of e conf ev =
     (let host = py_or (py_or (py_or (getv conf ''client_name'') (getv ev ''agent_id'')) (getv conf ''agent_id'')) (JStr []);
          tags = obj_of (getv (or_self ev) ''host'') in
      JObj [(''attributes'', JList (attrs
        ([(''service.name'', JStr ''robin-client-monitor''), (''service.instance.id'', agent_of conf ev),
          (''tenant.id'', tenant_of conf ev), (''host.name'', host), (''agent.id'', agent_of conf ev)]
         @ cloud_otlp_attributes (if tags = [] then cloud e else tags))))])"

section \<open>Log records\<close>

definition severity_table :: "(string \<times> int \<times> string) list" where
  "severity_table = [(''trace'', 1, ''TRACE''), (''debug'', 5, ''DEBUG''), (''info'', 9, ''INFO''),
     (''warn'', 13, ''WARN''), (''warning'', 13, ''WARN''), (''error'', 17, ''ERROR''), (''fatal'', 21, ''FATAL''),
     (''critical'', 21, ''FATAL''), (''high'', 17, ''ERROR''), (''medium'', 13, ''WARN''), (''low'', 9, ''INFO'')]"

definition severity_of :: "dict \<Rightarrow> int \<times> string" where
  "severity_of ev =
     (let raw = lower (strip (str_or (py_or (getv (inner_event ev) ''severity'') (getv ev ''severity'')) ''info'')) in
      case map_of severity_table raw of Some x \<Rightarrow> x | None \<Rightarrow> (9, ''INFO''))"

definition event_body :: "dict \<Rightarrow> string" where
  "event_body ev =
     (let inner = or_self ev;
          et = str_or (py_or (getv inner ''event_type'') (getv ev ''type'')) ''telemetry'';
          tool = getv inner ''tool'' in
      et @ (if truthy tool then '' '' @ py_str tool else []))"

definition payload_text :: "dict \<Rightarrow> dict \<Rightarrow> string" where
  "payload_text inner packed =
     (if payload_fits packed then dump (JObj packed)
      else dump (JObj (compact_event [(''tool'', getv inner ''tool''), (''truncated'', JBool True)])))"

definition log_record :: "export_env \<Rightarrow> dict \<Rightarrow> dict \<Rightarrow> json" where
  "log_record e conf ev =
     (let inner = inner_event ev; (sev_n, sev_t) = severity_of ev;
          packed = compact_event (if inner = [] then ev else inner) in
      JObj [(''timeUnixNano'', JStr (nano e (py_or (getv ev ''ts'') (getv inner ''timestamp'')))),
        (''severityNumber'', JInt sev_n), (''severityText'', JStr sev_t),
        (''body'', JObj [(''stringValue'', JStr (event_body ev))]),
        (''attributes'', JList (attrs
          [(''event.type'', py_or (getv inner ''event_type'') (getv ev ''type'')), (''tool'', getv inner ''tool''),
           (''category'', py_or (getv inner ''category'') (getv packed ''category'')),
           (''request_id'', getv inner ''request_id''), (''scheduled'', getv inner ''scheduled''),
           (''tenant.id'', JStr (str_or (tenant_of conf ev) [])), (''agent.id'', JStr (str_or (agent_of conf ev) []))]
          @ [JObj [(''key'', JStr ''event.payload''),
                   (''value'', JObj [(''stringValue'', JStr (payload_text inner packed))])]]))])"

definition resource_key :: "dict \<Rightarrow> dict \<Rightarrow> string" where
  "resource_key conf ev = str_or (agent_of conf ev) [] @ ''|'' @ str_or (tenant_of conf ev) []"

type_synonym groups = "(string \<times> json \<times> json list) list"

definition add_record :: "export_env \<Rightarrow> dict \<Rightarrow> dict \<Rightarrow> groups \<Rightarrow> groups" where
  \<comment> \<open>\<open>by_resource\<close> and \<open>resources\<close>, which have the same keys in the same order\<close>
  "add_record e conf ev gs =
     (let k = resource_key conf ev; rec = log_record e conf ev in
      case map_of gs k of
        None \<Rightarrow> gs @ [(k, resource_of e conf ev, [rec])]
      | Some (res, recs) \<Rightarrow> dset k (res, recs @ [rec]) gs)"

definition scope :: json where
  "scope = JObj [(''name'', JStr ''robin.agent''), (''version'', JStr ''0.9.0'')]"

definition group_entry :: "string \<times> json \<times> json list \<Rightarrow> json" where
  "group_entry = (\<lambda>(k, res, recs). JObj [(''resource'', res),
     (''scopeLogs'', JList [JObj [(''scope'', scope), (''logRecords'', JList recs)]])])"

definition events_to_otlp_logs :: "export_env \<Rightarrow> dict \<Rightarrow> dict list \<Rightarrow> json" where
  "events_to_otlp_logs e conf evs =
     JObj [(''resourceLogs'', JList (map group_entry (fold (add_record e conf) evs [])))]"

definition metrics_entry :: "export_env \<Rightarrow> dict \<Rightarrow> dict \<times> dict list \<Rightarrow> json" where
  "metrics_entry e conf = (\<lambda>(ev, ms). JObj [(''resource'', resource_of e conf ev),
     (''scopeMetrics'', JList [JObj [(''scope'', scope), (''metrics'', JList (map JObj ms))]])])"

definition events_to_otlp_metrics :: "export_env \<Rightarrow> dict \<Rightarrow> dict list \<Rightarrow> json option res" where
  "events_to_otlp_metrics e conf evs =
     res_bind (all_res (map (event_metrics (nano e)) evs)) (\<lambda>mss.
       let entries = filter (\<lambda>(ev, ms). ms \<noteq> []) (zip evs mss) in
       Inr (if entries = [] then None
            else Some (JObj [(''resourceMetrics'', JList (map (metrics_entry e conf) entries))])))"

section \<open>The exporter\<close>

record exporter =
  econf :: dict
  batch_size :: nat
  interval :: pyfloat
  etimeout :: pyfloat
  use_gzip :: bool
  base :: string
  enabled :: bool
  insecure :: bool

definition exporter_of :: "dict \<Rightarrow> exporter res" where
  "exporter_of conf =
     (let cfg = data_plane_section conf in
      res_bind (py_int (py_or (getv cfg ''batch_size'') (JInt 32))) (\<lambda>n.
      res_bind (py_float (py_or (getv cfg ''batch_interval_seconds'') (JInt 5))) (\<lambda>i.
      res_bind (py_float (py_or (getv cfg ''timeout_seconds'') (JInt 15))) (\<lambda>t.
      Inr \<lparr>econf = conf, batch_size = nat (max 1 n), interval = fmax (Fin 1) i, etimeout = fmax (Fin 3) t,
           use_gzip = (lower (strip (str_or (getv cfg ''compression'') ''gzip'')) \<noteq> ''none''),
           base = otlp_base_url conf, enabled = data_plane_enabled conf \<and> otlp_base_url conf \<noteq> [],
           insecure = truthy (if getv cfg ''insecure'' = JNull then JBool (truthy (getv conf ''allow_insecure_ws''))
                              else getv cfg ''insecure'')\<rparr>))))"

definition exporter_status :: "exporter \<Rightarrow> buffer \<Rightarrow> dict" where
  "exporter_status x b = [(''enabled'', JBool (enabled x)),
     (''endpoint'', JStr (if base x = [] then [] else base x @ ''/v1/logs'')),
     (''compression'', JStr (if use_gzip x then ''gzip'' else ''none'')), (''batch_size'', JInt (int (batch_size x))),
     (''batch_interval_seconds'', JFloat (interval x)), (''pending'', JInt (buf_count b))]"

definition connector :: "exporter \<Rightarrow> bool res" where
  \<comment> \<open>whether the connection uses TLS; plain HTTP is refused\<close>
  "connector x =
     res_bind (urlsplit (base x @ ''/v1/logs'')) (\<lambda>(scheme, rest).
     if scheme = ''http'' then (if insecure x then Inr False else Inl RuntimeError) else Inr True)"

type_synonym requests = "(string \<times> json) list"

definition post :: "export_env \<Rightarrow> string \<Rightarrow> json \<Rightarrow> requests \<Rightarrow> unit res \<times> requests" where
  "post e url payload sent =
     (if accepts e url payload then Inr () else Inl RuntimeError, sent @ [(url, payload)])"

definition export_batch :: "export_env \<Rightarrow> exporter \<Rightarrow> dict list \<Rightarrow> requests \<Rightarrow> unit res \<times> requests" where
  \<comment> \<open>\<open>_export\<close>: a failed post of the metrics is only logged\<close>
  "export_batch e x batch sent =
     (case post e (base x @ ''/v1/logs'') (events_to_otlp_logs e (econf x) batch) sent of
        (Inl err, sent) \<Rightarrow> (Inl err, sent)
      | (Inr u, sent) \<Rightarrow>
         (case events_to_otlp_metrics e (econf x) batch of
            Inl err \<Rightarrow> (Inl err, sent)
          | Inr None \<Rightarrow> (Inr (), sent)
          | Inr (Some metrics) \<Rightarrow> (Inr (), snd (post e (base x @ ''/v1/metrics'') metrics sent))))"

definition export_round :: "buf_conf \<Rightarrow> exporter \<Rightarrow> export_env \<Rightarrow> buffer \<times> requests \<Rightarrow> buffer \<times> requests" where
  \<comment> \<open>one pass of \<open>run_forever\<close> after its sleep\<close>
  "export_round c x e = (\<lambda>(b, sent).
     (case buf_take c (take_io e) (batch_size x) b of
        (batch, b) \<Rightarrow>
          if batch = [] then (b, sent)
          else (case export_batch e x batch sent of
                  (Inr u, sent) \<Rightarrow> (b, sent)
                | (Inl err, sent) \<Rightarrow> (buf_restore c (back_io e) batch b, sent))))"

definition export_rounds :: "buf_conf \<Rightarrow> exporter \<Rightarrow> export_env list \<Rightarrow> buffer \<times> requests \<Rightarrow> buffer \<times> requests" where
  \<comment> \<open>a disabled exporter, and one whose connection is refused, only sleep\<close>
  "export_rounds c x es s =
     (case connector x of
        Inl err \<Rightarrow> s
      | Inr tls \<Rightarrow> if enabled x then fold (export_round c x) es s else s)"

section \<open>Every event in one record\<close>

definition group_records :: "string \<Rightarrow> groups \<Rightarrow> json list" where
  "group_records k gs = (case map_of gs k of None \<Rightarrow> [] | Some (res, recs) \<Rightarrow> recs)"

lemma add_record_lookup:
  "group_records k (add_record e conf ev gs)
   = group_records k gs @ (if resource_key conf ev = k then [log_record e conf ev] else [])"
  by (auto simp: add_record_def group_records_def Let_def dict_simps map_of_append map_add_def
      split: option.splits prod.splits)

lemma groups_lookup:
  "group_records k (fold (add_record e conf) evs gs)
   = group_records k gs @ map (log_record e conf) (filter (\<lambda>ev. resource_key conf ev = k) evs)"
  by (induction evs arbitrary: gs) (simp_all add: add_record_lookup)

lemma add_record_keys:
  "distinct (map fst gs) \<Longrightarrow> distinct (map fst (add_record e conf ev gs))"
  "fst ` set (add_record e conf ev gs) = insert (resource_key conf ev) (fst ` set gs)"
proof -
  have n: "map_of gs (resource_key conf ev) = None \<longleftrightarrow> resource_key conf ev \<notin> fst ` set gs"
    by (simp add: map_of_eq_None_iff)
  show "distinct (map fst gs) \<Longrightarrow> distinct (map fst (add_record e conf ev gs))"
    using n by (auto simp: add_record_def Let_def split: option.split)
  show "fst ` set (add_record e conf ev gs) = insert (resource_key conf ev) (fst ` set gs)"
    using n by (auto simp: add_record_def Let_def keys_dset split: option.split)
qed

lemma groups_keys:
  "distinct (map fst gs) \<Longrightarrow> distinct (map fst (fold (add_record e conf) evs gs))"
  "fst ` set (fold (add_record e conf) evs gs) = resource_key conf ` set evs \<union> fst ` set gs"
  by (induction evs arbitrary: gs) (auto simp: add_record_keys)

text \<open>
  C22: The log payload has one group for each agent and tenant of the batch, and the records
  of a group are exactly the records of its events, in their order: no event is lost, none is
  sent twice.
\<close>

theorem logs_partition_batch:
  "\<exists>gs. events_to_otlp_logs e conf evs = JObj [(''resourceLogs'', JList (map group_entry gs))]
    \<and> distinct (map fst gs) \<and> set (map fst gs) = set (map (resource_key conf) evs)
    \<and> list_all (\<lambda>(k, res, recs). recs = map (log_record e conf) (filter (\<lambda>ev. resource_key conf ev = k) evs)) gs"
proof (intro exI conjI)
  let ?gs = "fold (add_record e conf) evs []"
  show "events_to_otlp_logs e conf evs = JObj [(''resourceLogs'', JList (map group_entry ?gs))]"
    by (simp add: events_to_otlp_logs_def)
  show d: "distinct (map fst ?gs)" by (rule groups_keys) simp
  show "set (map fst ?gs) = set (map (resource_key conf) evs)" by (simp add: groups_keys(2))
  show "list_all (\<lambda>(k, res, recs). recs = map (log_record e conf) (filter (\<lambda>ev. resource_key conf ev = k) evs)) ?gs"
    unfolding list_all_iff
  proof (rule ballI, clarify)
    fix k res recs assume "(k, res, recs) \<in> set ?gs"
    then have "group_records k ?gs = recs" using d by (simp add: group_records_def map_of_is_SomeI)
    then show "recs = map (log_record e conf) (filter (\<lambda>ev. resource_key conf ev = k) evs)"
      by (simp add: groups_lookup) (simp add: group_records_def)
  qed
qed

section \<open>Rounds of the exporter\<close>

lemma export_batch_posts_logs:
  "\<exists>rest. snd (export_batch e x batch sent) =
     sent @ (base x @ ''/v1/logs'', events_to_otlp_logs e (econf x) batch) # rest"
  by (simp add: export_batch_def post_def split: sum.split option.split)

lemma export_round_cases:
  assumes "buf_inv c b"
  obtains (idle) "take (batch_size x) (contents b) = []" "fst (export_round c x e (b, sent)) = snd (buf_take c (take_io e) (batch_size x) b)"
      "snd (export_round c x e (b, sent)) = sent"
  | (delivered) sent' where "export_batch e x (take (batch_size x) (contents b)) sent = (Inr (), sent')"
      "export_round c x e (b, sent) = (snd (buf_take c (take_io e) (batch_size x) b), sent')"
  | (failed) err sent' where "export_batch e x (take (batch_size x) (contents b)) sent = (Inl err, sent')"
      "export_round c x e (b, sent) =
        (buf_restore c (back_io e) (take (batch_size x) (contents b)) (snd (buf_take c (take_io e) (batch_size x) b)), sent')"
proof -
  obtain b1 where t: "buf_take c (take_io e) (batch_size x) b = (take (batch_size x) (contents b), b1)"
    using tb.take_batch [OF assms, of "take_io e" "batch_size x"] by (cases "buf_take c (take_io e) (batch_size x) b") simp
  show ?thesis
  proof (cases "take (batch_size x) (contents b) = []")
    case True
    then show ?thesis using t by (intro idle) (simp_all add: export_round_def)
  next
    case False
    obtain r sent' where r: "export_batch e x (take (batch_size x) (contents b)) sent = (r, sent')" by (cases "export_batch e x (take (batch_size x) (contents b)) sent")
    show ?thesis
    proof (cases r)
      case (Inl err)
      then show ?thesis using t r False by (intro failed) (simp_all add: export_round_def)
    next
      case (Inr u)
      then show ?thesis using t r False by (intro delivered) (simp_all add: export_round_def)
    qed
  qed
qed

definition room :: "buf_conf \<Rightarrow> exporter \<Rightarrow> export_env \<Rightarrow> buffer \<Rightarrow> bool" where
  \<comment> \<open>the batch at the front could be put back within the limits\<close>
  "room c x e b \<longleftrightarrow> append_ok (back_io e) \<and> fits c (back_io e)
     (restore_insert c (back_io e) (take (batch_size x) (contents b)) (snd (buf_take c (take_io e) (batch_size x) b)))"

primrec room_run :: "buf_conf \<Rightarrow> exporter \<Rightarrow> export_env list \<Rightarrow> buffer \<times> requests \<Rightarrow> bool" where
  "room_run c x [] s \<longleftrightarrow> True"
| "room_run c x (e # es) s \<longleftrightarrow> room c x e (fst s) \<and> room_run c x es (export_round c x e s)"

lemma front_taken:
  assumes "buf_inv c b"
  shows "buf_inv c (snd (buf_take c e n b))" "contents (snd (buf_take c e n b)) = drop n (contents b)"
  using tb.take_inv [OF assms] tb.take_rest [OF assms] by blast+

lemma put_back_round:
  fixes x e
  assumes "buf_inv c b"
  defines "b' \<equiv> buf_restore c (back_io e) (take (batch_size x) (contents b)) (snd (buf_take c (take_io e) (batch_size x) b))"
  shows "buf_inv c b' \<and> subseq (contents b') (contents b) \<and> (room c x e b \<longrightarrow> contents b' = contents b)"
  using buf_restore_spec [OF front_taken(1) [OF assms(1)], of "back_io e" "take (batch_size x) (contents b)" "take_io e" "batch_size x"]
  by (simp add: b'_def room_def front_taken(2) [OF assms(1)])

definition acked_logs :: "exporter \<Rightarrow> export_env set \<Rightarrow> requests \<Rightarrow> dict list \<Rightarrow> bool" where
  \<comment> \<open>the server took the log payload of the batch in one of the rounds\<close>
  "acked_logs x es sent batch \<longleftrightarrow> (\<exists>e \<in> es. accepts e (base x @ ''/v1/logs'') (events_to_otlp_logs e (econf x) batch)
     \<and> (base x @ ''/v1/logs'', events_to_otlp_logs e (econf x) batch) \<in> set sent)"

lemma export_batch_acked:
  "export_batch e x batch sent = (Inr u, sent') \<Longrightarrow> acked_logs x {e} sent' batch"
  by (auto simp: export_batch_def post_def acked_logs_def split: sum.splits option.splits if_splits)

lemma export_batch_extends: "\<exists>ps. snd (export_batch e x batch sent) = sent @ ps"
  by (metis export_batch_posts_logs)

lemma export_round_extends: "\<exists>ps. snd (export_round c x e (b, sent)) = sent @ ps"
proof -
  obtain batch b1 where t: "buf_take c (take_io e) (batch_size x) b = (batch, b1)" by fastforce
  obtain r s1 where r: "export_batch e x batch sent = (r, s1)" by fastforce
  then show ?thesis
    using export_batch_extends [of e x batch sent] by (cases r) (simp_all add: export_round_def t)
qed

lemma export_fold_extends: "\<exists>ps. snd (fold (export_round c x) es s) = snd s @ ps"
proof (induction es arbitrary: s)
  case (Cons e es)
  obtain ps where "snd (export_round c x e s) = snd s @ ps"
    using export_round_extends [of c x e "fst s" "snd s"] by auto
  then show ?case using Cons.IH [of "export_round c x e s"] by auto
qed simp

lemma acked_mono: "acked_logs x es sent batch \<Longrightarrow> es \<subseteq> es' \<Longrightarrow> acked_logs x es' (sent @ ps) batch"
  by (auto simp: acked_logs_def)

lemma export_round_step:
  assumes "buf_inv c b" "export_round c x e (b, sent) = (b', sent')"
  shows "buf_inv c b' \<and> (\<exists>delivered. subseq (concat delivered @ contents b') (contents b)
    \<and> (\<forall>batch \<in> set delivered. acked_logs x {e} sent' batch)
    \<and> (room c x e b \<longrightarrow> concat delivered @ contents b' = contents b))"
  using assms(1)
proof (cases rule: export_round_cases [where e = e and x = x and sent = sent])
  case idle
  then have "b' = snd (buf_take c (take_io e) (batch_size x) b)" using assms(2) by simp
  then show ?thesis
    using front_taken [OF assms(1), of "take_io e" "batch_size x"] idle(1) append_take_drop_id [of "batch_size x" "contents b"]
    by (intro conjI exI [of _ "[]"]) auto
next
  case (delivered s1)
  then have e: "b' = snd (buf_take c (take_io e) (batch_size x) b)" "s1 = sent'" using assms(2) by simp_all
  then have "acked_logs x {e} sent' (take (batch_size x) (contents b))"
    using delivered(1) export_batch_acked by blast
  then show ?thesis
    using front_taken [OF assms(1), of "take_io e" "batch_size x"] e
    by (intro conjI exI [of _ "[take (batch_size x) (contents b)]"]) simp_all
next
  case (failed err s1)
  then have "b' = buf_restore c (back_io e) (take (batch_size x) (contents b)) (snd (buf_take c (take_io e) (batch_size x) b))"
    using assms(2) by simp
  then show ?thesis using put_back_round [OF assms(1), of e x] by (intro conjI exI [of _ "[]"]) auto
qed

lemma export_fold:
  assumes "buf_inv c b" "fold (export_round c x) es (b, sent) = (b', sent')"
  shows "buf_inv c b' \<and> (\<exists>delivered. subseq (concat delivered @ contents b') (contents b)
    \<and> (\<forall>batch \<in> set delivered. acked_logs x (set es) sent' batch)
    \<and> (room_run c x es (b, sent) \<longrightarrow> concat delivered @ contents b' = contents b))"
  using assms
proof (induction es arbitrary: b sent)
  case Nil
  then show ?case by (intro conjI exI [of _ "[]"]) auto
next
  case (Cons e es)
  obtain b1 s1 where r: "export_round c x e (b, sent) = (b1, s1)" by fastforce
  obtain d1 where d1: "buf_inv c b1" "subseq (concat d1 @ contents b1) (contents b)"
    "\<forall>batch \<in> set d1. acked_logs x {e} s1 batch" "room c x e b \<longrightarrow> concat d1 @ contents b1 = contents b"
    using export_round_step [OF Cons.prems(1) r] by blast
  have f: "fold (export_round c x) es (b1, s1) = (b', sent')" using Cons.prems(2) r by simp
  obtain d2 where d2: "buf_inv c b'" "subseq (concat d2 @ contents b') (contents b1)"
    "\<forall>batch \<in> set d2. acked_logs x (set es) sent' batch" "room_run c x es (b1, s1) \<longrightarrow> concat d2 @ contents b' = contents b1"
    using Cons.IH [OF d1(1) f] by blast
  obtain ps where ps: "sent' = s1 @ ps" using export_fold_extends [of c x es "(b1, s1)"] f by auto
  have "subseq (concat d1 @ concat d2 @ contents b') (concat d1 @ contents b1)"
    using d2(2) by (simp add: subseq_append')
  then have "subseq (concat (d1 @ d2) @ contents b') (contents b)"
    using d1(2) subseq_order.order_trans by simp
  moreover have "\<forall>batch \<in> set (d1 @ d2). acked_logs x (set (e # es)) sent' batch"
    using d1(3) d2(3) acked_mono [of x "{e}" s1 _ "set (e # es)" ps] acked_mono [of x "set es" sent' _ "set (e # es)" "[]"]
    by (auto simp: ps)
  moreover have "room_run c x (e # es) (b, sent) \<longrightarrow> concat (d1 @ d2) @ contents b' = contents b"
    using d1(4) d2(4) by (simp add: r)
  ultimately show ?case using d2(1) by blast
qed


text \<open>Concrete rounds: one event, and a receiver that answers or fails.\<close>

definition sample_export_env :: "bool \<Rightarrow> export_env" where
  "sample_export_env ok = \<lparr>take_io = sample_io, back_io = sample_io, now_us = 0, local_us = (\<lambda>t. t), cloud = [],
     accepts = (\<lambda>url v. ok)\<rparr>"

definition sample_exporter :: exporter where
  "sample_exporter = \<lparr>econf = [], batch_size = 1, interval = Fin 5, etimeout = Fin 15, use_gzip = True,
     base = ''https://r'', enabled = True, insecure = False\<rparr>"

definition one_event :: "dict \<Rightarrow> buffer" where
  "one_event ev = \<lparr>files = [(''/b/buffer.jsonl'', [JLine (JObj ev)], 0)], fqueue = [(''/b/buffer.jsonl'', 0)],
     pending = 1, state_file = None\<rparr>"

lemma sample_export_fields [simp]:
  "take_io (sample_export_env ok) = sample_io" "back_io (sample_export_env ok) = sample_io"
  "accepts (sample_export_env ok) url v = ok" "batch_size sample_exporter = 1" "enabled sample_exporter"
  "base sample_exporter = ''https://r''" "econf sample_exporter = []"
  by (simp_all add: sample_export_env_def sample_exporter_def)

lemma sample_connector [simp]: "connector sample_exporter = Inr True"
proof -
  have "urlsplit (''https://r'' @ ''/v1/logs'') = Inr (''https'', ''r'', ''/v1/logs'')" by code_simp
  then show ?thesis by (simp add: connector_def)
qed

lemma one_event_inv: "buf_inv sample_conf (one_event ev)"
  by (simp add: buf_inv_def paths_def sample_conf_def one_event_def active_file_def buf_path_def lines_of_def)

lemma one_event_contents [simp]: "contents (one_event ev) = [ev]"
  by (simp add: contents_def one_event_def unread_def lines_of_def List.map_filter_simps)

definition one_taken :: "dict \<Rightarrow> buffer" where
  "one_taken ev = write_state sample_io ((one_event ev)\<lparr>fqueue := [(''/b/buffer.jsonl'', 1)], pending := 0\<rparr>)"

lemma one_event_take: "buf_take sample_conf sample_io 1 (one_event ev) = ([ev], one_taken ev)"
  by (simp add: buf_take_def one_event_def one_taken_def lines_of_def One_nat_def)

lemma one_restored:
  "restore_insert sample_conf sample_io [ev] (one_taken ev) =
      (one_taken ev)\<lparr>files := [(''/b/buffer.jsonl'', [JLine (JObj ev)], 0),
         (''/b/buffer.restore.20260101.jsonl'', [JLine (JObj ev)], 0)],
       fqueue := [(''/b/buffer.restore.20260101.jsonl'', 0), (''/b/buffer.jsonl'', 1)], pending := 1\<rparr>"
  by (simp add: restore_insert_def one_taken_def one_event_def sample_io_def Let_def write_state_def sample_name dset_def)

lemma one_restored_fits: "fits sample_conf sample_io (restore_insert sample_conf sample_io [ev] (one_taken ev))"
  unfolding one_restored
  by (simp add: fits_def sample_conf_def sample_io_def paths_def stale_def total_bytes_def
      file_bytes_def lines_of_def active_file_def buf_path_def)

lemma sample_room: "room sample_conf sample_exporter (sample_export_env ok) (one_event ev)"
  unfolding room_def sample_export_fields one_event_contents one_event_take snd_conv
  by (simp add: one_restored_fits sample_restored(1))


text \<open>
  A batch whose gauges cannot be computed is never delivered and never dropped: its logs
  are accepted by the server in every round, the exception then puts the batch back, and the
  next round sends the same logs again, before any later event.
\<close>

theorem poison_batch_is_resent:
  assumes "buf_inv c b" "enabled x" "connector x = Inr tls" "room_run c x es (b, sent)"
    and "take (batch_size x) (contents b) \<noteq> []"
    and "list_all (\<lambda>e. accepts e (base x @ ''/v1/logs'') (events_to_otlp_logs e (econf x) (take (batch_size x) (contents b)))) es"
    and "list_all (\<lambda>e. \<exists>err. events_to_otlp_metrics e (econf x) (take (batch_size x) (contents b)) = Inl err) es"
  shows "contents (fst (export_rounds c x es (b, sent))) = contents b
    \<and> snd (export_rounds c x es (b, sent)) =
        sent @ map (\<lambda>e. (base x @ ''/v1/logs'', events_to_otlp_logs e (econf x) (take (batch_size x) (contents b)))) es"
proof -
  define front where "front = take (batch_size x) (contents b)"
  have "contents (fst (fold (export_round c x) es (b, sent))) = contents b
    \<and> snd (fold (export_round c x) es (b, sent)) =
        sent @ map (\<lambda>e. (base x @ ''/v1/logs'', events_to_otlp_logs e (econf x) front)) es"
    using assms(1,4,5,6,7) front_def
  proof (induction es arbitrary: b sent)
    case (Cons e es)
    have b: "export_batch e x front sent = (Inl err, sent @ [(base x @ ''/v1/logs'', events_to_otlp_logs e (econf x) front)])"
      if "events_to_otlp_metrics e (econf x) front = Inl err" for err
      using Cons.prems that by (simp add: export_batch_def post_def)
    then obtain err where err: "export_batch e x front sent = (Inl err, sent @ [(base x @ ''/v1/logs'', events_to_otlp_logs e (econf x) front)])"
      using Cons.prems by auto
    define b1 where "b1 = buf_restore c (back_io e) front (snd (buf_take c (take_io e) (batch_size x) b))"
    have r: "export_round c x e (b, sent) = (b1, sent @ [(base x @ ''/v1/logs'', events_to_otlp_logs e (econf x) front)])"
      using Cons.prems(1)
    proof (cases rule: export_round_cases [where e = e and x = x and sent = sent])
      case (failed err' s1)
      then show ?thesis using err Cons.prems(6) by (simp add: b1_def)
    qed (use err Cons.prems in auto)
    have b1: "buf_inv c b1" "contents b1 = contents b"
      using put_back_round [OF Cons.prems(1), of e x] Cons.prems(2,6) by (simp_all add: b1_def)
    show ?case
      using Cons.IH [OF b1(1), of "sent @ [(base x @ ''/v1/logs'', events_to_otlp_logs e (econf x) front)]"]
        Cons.prems b1(2) by (simp add: r)
  qed simp
  then show ?thesis using assms(2,3) by (simp add: export_rounds_def front_def)
qed

definition poison_event :: dict where
  "poison_event = [(''event'', JObj [(''tool'', JStr ''system_metrics''),
     (''result'', JObj [(''network_io'', JList [JObj [(''tx_bytes'', JStr ''n/a'')]])])])]"

lemma poison_raises: "events_to_otlp_metrics e conf [poison_event] = Inl ValueError"
proof -
  have "parse_int ''n/a'' = None" by code_simp
  then have "network_byte_totals [(''network_io'', JList [JObj [(''tx_bytes'', JStr ''n/a'')]])] = Inl ValueError"
    by (simp add: network_byte_totals_def net_section_def net_byte_rows_def int_either_def int_or_zero_def)
  then show ?thesis
    by (simp add: events_to_otlp_metrics_def event_metrics_def poison_event_def inner_event_def inner_result_def
        metric_candidates_def is_tool_def system_values_def)
qed

theorem poison_batch_is_resent_witness:
  "contents (fst (export_rounds sample_conf sample_exporter [sample_export_env True] (one_event poison_event, []))) = [poison_event]
   \<and> length (snd (export_rounds sample_conf sample_exporter [sample_export_env True] (one_event poison_event, []))) = 1"
  using poison_batch_is_resent [OF one_event_inv, of sample_exporter True "[sample_export_env True]" poison_event "[]"]
  by (simp add: sample_room poison_raises)

end
