(* ===== verification/Server_Logs.thy ===== *)
theory Server_Logs
  imports Otlp_Compact Log_Range Tool_Catalog
begin

text \<open>
  The log service and the result files of the server, \<^verbatim>\<open>server/lib/metrics_logger.py\<close> and
  \<^verbatim>\<open>server/save_result.py\<close>: the records that are sent to the service, the queries of it, and
  the path and contents of a result file. The environment variables, the clock, the answers of
  the service and whether a file can be written are inputs; a sent record is kept in a list.
\<close>

section \<open>Values and levels\<close>

fun sanitize :: "json \<Rightarrow> json" where
  "sanitize (JFloat NaN) = JStr ''NaN''"
| "sanitize (JFloat PInf) = JStr ''Infinity''"
| "sanitize (JFloat NInf) = JStr ''-Infinity''"
| "sanitize (JObj d) = JObj (map (\<lambda>(k, v). (k, sanitize v)) d)"
| "sanitize (JList xs) = JList (map sanitize xs)"
| "sanitize v = v"

definition valid_levels :: "string list" where
  "valid_levels = [''debug'', ''info'', ''warn'', ''error'', ''fatal'']"

definition normalize_level :: "string \<Rightarrow> string" where
  "normalize_level level =
     (let l = lower (strip (if level = [] then ''info'' else level)) in
      if l = ''warning'' then ''warn'' else if l \<in> set valid_levels then l else ''info'')"

definition normalize_command_status :: "json \<Rightarrow> bool \<Rightarrow> string res" where
  "normalize_command_status v success =
     res_bind (str_strip (py_or v (JStr []))) (\<lambda>s.
       let raw = lower s; raw = (if raw = ''failed'' then ''error'' else raw) in
       Inr (if raw \<in> {''success'', ''error'', ''rejected'', ''expired''} then raw
            else if success then ''success'' else ''error''))"

definition severity_to_level :: "(string \<times> string) list" where
  "severity_to_level = [(''debug'', ''debug''), (''info'', ''info''), (''low'', ''info''), (''medium'', ''warn''),
     (''warn'', ''warn''), (''warning'', ''warn''), (''high'', ''error''), (''error'', ''error''),
     (''critical'', ''fatal''), (''fatal'', ''fatal'')]"

section \<open>Records\<close>

record log_entry =
  log_type :: string
  log_category :: string
  log_subcategory :: string
  log_level :: string
  log_data :: dict

definition log_agent_event :: "bool \<Rightarrow> string \<Rightarrow> string \<Rightarrow> string \<Rightarrow> string \<Rightarrow> string \<Rightarrow> dict \<Rightarrow> json \<Rightarrow> log_entry list" where
  \<comment> \<open>nothing is sent when the service is not configured\<close>
  "log_agent_event configured agent_id etype category sub level data tenant =
     (if \<not> configured then []
      else (let d = dupdate [(''agent_id'', JStr agent_id)] (obj_of (sanitize (JObj data)));
                d = dput_if (truthy tenant) ''tenant_id'' tenant d;
                d = dput_if (truthy (getv d ''issued_by'') \<and> \<not> truthy (getv d ''user_id''))
                      ''user_id'' (getv d ''issued_by'') d in
            [\<lparr>log_type = etype, log_category = category, log_subcategory = sub, log_level = normalize_level level,
              log_data = compact_logger_data (JObj d)\<rparr>]))"

record tool_log =
  tl_message_id :: json
  tl_status :: json
  tl_success :: bool
  tl_target :: json
  tl_summary :: json
  tl_result :: json
  tl_error :: json
  tl_params :: json
  tl_duration :: json
  tl_tenant :: json
  tl_issuer :: json

definition params_preview :: "json \<Rightarrow> string" where
  "params_preview ps =
     (let preview = dump (sanitize ps) in
      if length preview \<le> 600 then preview else take 600 preview @ ''...[truncated]'')"

definition log_tool_execution :: "bool \<Rightarrow> string \<Rightarrow> string \<Rightarrow> tool_log \<Rightarrow> log_entry list res" where
  "log_tool_execution configured agent_id tool x =
     (let requested = (if strip tool = [] then ''tool_executed'' else strip tool);
          tool = resolve_command requested; category = tool_category tool in
      res_bind (normalize_command_status (tl_status x) (tl_success x)) (\<lambda>status.
      let d = [(''message_id'', tl_message_id x), (''tool'', JStr tool), (''tool_family'', JStr category)];
          d = dput_if (requested \<noteq> tool) ''command'' (JStr requested) d;
          d = dput_if (tl_target x \<noteq> JNull) ''target'' (tl_target x) d;
          d = dset ''success'' (JBool (tl_success x)) (dset ''command_status'' (JStr status) d);
          d = dput_if (tl_summary x \<noteq> JNull) ''result_summary'' (tl_summary x) d;
          d = dput_if (tl_result x \<noteq> JNull) ''result'' (tl_result x) d;
          d = dput_if (tl_duration x \<noteq> JNull) ''duration_ms'' (tl_duration x) d;
          d = dput_if (tl_error x \<noteq> JNull) ''error'' (tl_error x) d;
          d = dput_if (tl_params x \<noteq> JNull) ''params'' (JStr (params_preview (tl_params x))) d;
          d = (if truthy (tl_issuer x) then dset ''user_id'' (tl_issuer x) (dset ''issued_by'' (tl_issuer x) d) else d) in
      Inr (log_agent_event configured agent_id ''audit'' category tool
             (if tl_success x \<and> tl_error x = JNull then ''info'' else ''error'') d (tl_tenant x))))"

definition subtype_of :: "string \<Rightarrow> string" where
  \<comment> \<open>what follows the first point: \<open>partition(".")[2]\<close>\<close>
  "subtype_of et = drop 1 (dropWhile (\<lambda>c. c \<noteq> CHR ''.'') et)"

definition or_text :: "string \<Rightarrow> string \<Rightarrow> string" where
  "or_text a b = (if a = [] then b else a)"

definition severe :: "json \<Rightarrow> bool" where
  "severe v \<longleftrightarrow> lower (str_or v []) \<in> {''high'', ''critical'', ''error''}"

definition push_taxonomy :: "dict \<Rightarrow> string \<Rightarrow> string \<times> json \<times> string" where
  \<comment> \<open>type, category and subcategory of an \<open>event_push\<close>\<close>
  "push_taxonomy event et =
     (let sub = subtype_of et; cat = (\<lambda>c. py_or (getv event ''category'') (JStr c)) in
      if startswith et ''security.'' then (''audit'', cat ''security'', or_text sub ''detection'')
      else if startswith et ''windows.'' then
        (if et \<in> {''windows.sysmon'', ''windows.autorun_change''} \<or> severe (getv event ''severity'')
         then (''audit'', cat ''security'', or_text sub ''eventlog'')
         else (''activity'', cat ''windows'', or_text sub ''eventlog''))
      else if startswith et ''linux.'' then
        (if et = ''linux.unit_change'' \<or> severe (getv event ''severity'')
         then (''audit'', cat ''security'', or_text sub ''audit'')
         else (''activity'', cat ''linux'', or_text sub ''audit''))
      else if startswith et ''alert.'' \<or> et = ''health.probe'' then
        (''activity'', cat ''observability'', or_text sub et)
      else if startswith et ''telemetry.'' then
        (''metrics'', cat ''observability'',
         (case getv event ''tool'' of
            JStr t \<Rightarrow> if strip t \<noteq> [] then or_text (resolve_command (strip t)) (strip t) else or_text sub ''event_push''
          | _ \<Rightarrow> or_text sub ''event_push''))
      else (''activity'', cat ''observability'', or_text (or_text sub et) ''event_push''))"

definition push_keys :: "string list" where
  "push_keys = [''rule_id'', ''metric'', ''op'', ''value'', ''threshold'', ''check_id'', ''status'', ''changed'', ''pid'',
     ''name'', ''path'', ''sha256'', ''user'', ''username'', ''action'', ''change'', ''domain'', ''query'',
     ''mitre_technique'', ''technique'', ''summary'', ''score'', ''findings_count'', ''channel'', ''event_id'',
     ''provider'', ''computer'', ''record_id'', ''command'', ''event_data'', ''ts'', ''audit_type'', ''exe'', ''comm'',
     ''success'', ''unit'', ''active'', ''sub'', ''iface'', ''socket'', ''check_type'']"

definition push_level :: "dict \<Rightarrow> string" where
  "push_level event =
     (let severity = lower (strip (str_or (getv event ''severity'') ''info'')) in
      case map_of severity_to_level severity of Some l \<Rightarrow> l | None \<Rightarrow> normalize_level severity)"

definition log_event_push :: "bool \<Rightarrow> string \<Rightarrow> dict \<Rightarrow> json \<Rightarrow> log_entry list" where
  "log_event_push configured agent_id payload tenant =
     (let event = obj_of (getv payload ''event'');
          et = str_or (getv event ''event_type'') ''event_push'';
          d = [(''event_type'', JStr et), (''tool'', getv event ''tool''), (''request_id'', getv event ''request_id''),
               (''scheduled'', getv event ''scheduled''), (''tampered'', getv event ''tampered'')];
          d = fold (\<lambda>k d. dput_if (getv event k \<noteq> JNull) k (getv event k) d) push_keys d;
          d = dput_if (truthy (getv event ''error'')) ''error'' (JStr (take 400 (py_str (getv event ''error'')))) d;
          d = dput_if (getv event ''changes'' \<noteq> JNull) ''changes'' (getv event ''changes'') d;
          d = dput_if (getv event ''result'' \<noteq> JNull) ''result'' (getv event ''result'') d in
      case push_taxonomy event et of
        (t, cat, sub) \<Rightarrow> log_agent_event configured agent_id t (py_str cat) sub (push_level event) d tenant)"

section \<open>Queries\<close>

type_synonym os_env = "string \<Rightarrow> string option"

definition env_text :: "os_env \<Rightarrow> string \<Rightarrow> string" where
  "env_text env k = (case env k of None \<Rightarrow> [] | Some s \<Rightarrow> s)"

definition strip_tail :: "string \<Rightarrow> string" where
  \<comment> \<open>\<open>rstrip("/")\<close>\<close>
  "strip_tail s = rev (dropWhile (\<lambda>c. c = CHR ''/'') (rev s))"

definition cut_suffix :: "string \<Rightarrow> string \<Rightarrow> string" where
  "cut_suffix s suf = take (length s - length suf) s"

definition ingest_url :: "string \<Rightarrow> string" where
  "ingest_url url =
     (if endswith (strip_tail url) ''/api/logs''
      then cut_suffix (strip_tail url) ''/api/logs'' @ ''/api/robin-logger/store'' else url)"

definition query_url :: "os_env \<Rightarrow> string option" where
  "query_url env =
     (let explicit = strip_tail (strip (env_text env ''ROBIN_LOGGER_QUERY_URL''));
          raw = strip_tail (strip (env_text env ''ROBIN_LOGGER_URL'')) in
      if explicit \<noteq> [] then Some (if endswith explicit ''/api/logs'' then explicit else explicit @ ''/api/logs'')
      else if raw = [] then None
      else if endswith raw ''/api/logs'' then Some raw
      else if endswith raw ''/api/robin-logger/store'' then Some (cut_suffix raw ''/api/robin-logger/store'' @ ''/api/logs'')
      else if endswith raw ''/api'' then Some (raw @ ''/logs'')
      else Some (raw @ ''/api/logs''))"

definition query_headers :: "os_env \<Rightarrow> (string \<times> string) list" where
  "query_headers env =
     (let api_key = strip (env_text env ''ROBIN_LOGGER_API_KEY'');
          jwt = strip (case env ''ROBIN_LOGGER_JWT'' of
                  Some (c # s) \<Rightarrow> c # s | _ \<Rightarrow> env_text env ''ROBIN_LOGGER_JWT_TOKEN'');
          h = (if jwt \<noteq> [] then [(''Authorization'', ''Bearer '' @ jwt)] else []) in
      if api_key = [] then h
      else setdefault ''Authorization'' (''Bearer '' @ api_key) (dset ''X-API-Key'' api_key h))"

definition logs_query_params :: "string list" where
  "logs_query_params = [''date'', ''startDate'', ''endDate'', ''startHour'', ''endHour'', ''hour'', ''page'', ''limit'',
     ''per_page'', ''type'', ''category'', ''subcategory'', ''level'', ''agentId'', ''source'', ''tags'', ''search'',
     ''ip_dominio'', ''servicio_afectado'', ''userId'', ''user_id'', ''targetUserId'']"

definition clean_param :: "string \<times> json \<Rightarrow> dict \<Rightarrow> dict" where
  "clean_param = (\<lambda>(k, v) out.
     if k \<notin> set logs_query_params \<or> v = JNull \<or> v = JStr [] then out
     else if k = ''level'' \<and> lower (strip (py_str v)) = ''warning'' then dset k (JStr ''warn'') out
     else if k = ''subcategory'' \<and> is_str v then
       (case resolve_command (strip (py_str v)) of [] \<Rightarrow> dset k v out | c # s \<Rightarrow> dset k (JStr (c # s)) out)
     else dset k v out)"

definition clean_logs_params :: "int \<Rightarrow> dict \<Rightarrow> dict res" where
  "clean_logs_params now params =
     (let out = fold clean_param params [] in
      expand_query_window now (if has ''per_page'' out \<and> has ''limit'' out then dpop ''limit'' out else out))"

datatype log_reply = No_Reply | Reply int "json option"

definition fetch_logs :: "int \<Rightarrow> os_env \<Rightarrow> (string \<Rightarrow> (string \<times> string) list \<Rightarrow> dict \<Rightarrow> log_reply) \<Rightarrow> dict \<Rightarrow> dict res" where
  "fetch_logs now env server params =
     (case query_url env of
        None \<Rightarrow> Inl (HTTPException 503)
      | Some url \<Rightarrow>
          if query_headers env = [] then Inl (HTTPException 503)
          else res_bind (clean_logs_params now params) (\<lambda>q.
            (case server url (query_headers env) q of
               No_Reply \<Rightarrow> Inl (HTTPException 502)
             | Reply status body \<Rightarrow>
                 if status \<ge> 400 then Inl (HTTPException 502)
                 else (case body of Some (JObj d) \<Rightarrow> Inr d | _ \<Rightarrow> Inl (HTTPException 502)))))"

section \<open>Result files\<close>

record result_file =
  file_dir :: string
  file_name :: string
  file_record :: dict

definition path_join :: "string \<Rightarrow> string \<Rightarrow> string" where
  \<comment> \<open>\<open>os.path.join\<close> of POSIX: an absolute second part replaces the first\<close>
  "path_join a b = (if startswith b ''/'' then b else if a = [] \<or> endswith a ''/'' then a @ b else a @ ''/'' @ b)"

definition save_execution_result_to_json :: "string \<Rightarrow> string \<Rightarrow> string \<Rightarrow> dict \<Rightarrow> result_file res" where
  \<comment> \<open>the stamp of the file name and the time; any exception gives no file\<close>
  "save_execution_result_to_json stamp now agent_id payload =
     res_bind (if truthy (getv payload ''tool'') then Inr (getv payload ''tool'')
               else res_bind (py_get (py_or (getv payload ''event'') (JObj [])) ''tool'')
                      (\<lambda>t. Inr (py_or t (JStr ''unknown_tool'')))) (\<lambda>tool.
     let req = py_or (py_or (py_or (getv payload ''message_id'') (getv payload ''request_id'')) (getv payload ''id''))
                 (JStr ''no_id'') in
     Inr \<lparr>file_dir = path_join ''results_logs'' agent_id,
          file_name = agent_id @ ''_'' @ py_str tool @ ''_'' @ stamp @ ''.json'',
          file_record = [(''agent_id'', JStr agent_id), (''received_at'', JStr now),
            (''execution_type'', JStr (if startswith (py_str req) ''auto-'' then ''scheduled'' else ''manual'')),
            (''request_id'', req), (''data'', JObj payload)]\<rparr>)"

definition file_path :: "result_file \<Rightarrow> string" where
  "file_path f = path_join (file_dir f) (file_name f)"

end
