(* ===== verification/Otlp_Receiver.thy ===== *)
theory Otlp_Receiver
  imports Otlp_Export Server_Logs Cve_Correlator
begin

text \<open>
  The receiver of the data plane on the server, \<^verbatim>\<open>server/otlp.py\<close>: reading the attributes,
  filing each log record with the log service, the result files and the CVE inventory, and
  collecting the points of the gauges. A request is the text of its body after decompression,
  or \<open>None\<close> when it could not be decoded; no credentials are part of it, since the endpoints
  ask for none.
\<close>

section \<open>Reading values\<close>

definition any_value :: "json \<Rightarrow> json res" where
  "any_value v = (case v of
      JObj d \<Rightarrow>
       (if has ''stringValue'' d then Inr (getv d ''stringValue'')
        else if has ''intValue'' d then
          (case py_int (getv d ''intValue'') of
             Inr i \<Rightarrow> Inr (JInt i)
           | Inl x \<Rightarrow> if caught x then Inr (getv d ''intValue'') else Inl x)
        else if has ''doubleValue'' d then Inr (getv d ''doubleValue'')
        else if has ''boolValue'' d then Inr (JBool (truthy (getv d ''boolValue'')))
        else Inr v)
    | _ \<Rightarrow> Inr v)"

definition add_attr :: "json \<Rightarrow> dict \<Rightarrow> dict res" where
  "add_attr item out = (case item of
      JObj d \<Rightarrow>
       (let key = str_or (getv d ''key'') [] in
        if key = [] then Inr out else res_bind (any_value (getv d ''value'')) (\<lambda>v. Inr (dset key v out)))
    | _ \<Rightarrow> Inr out)"

primrec add_attrs :: "json list \<Rightarrow> dict \<Rightarrow> dict res" where
  "add_attrs [] out = Inr out"
| "add_attrs (x # xs) out = res_bind (add_attr x out) (add_attrs xs)"

definition attrs_in :: "json \<Rightarrow> dict res" where
  "attrs_in items = (case items of JList xs \<Rightarrow> add_attrs xs [] | _ \<Rightarrow> Inr [])"

definition read_otlp_json :: "string option \<Rightarrow> dict" where
  "read_otlp_json body = (case body of
      None \<Rightarrow> []
    | Some s \<Rightarrow> (case json_loads s of Some (JObj d) \<Rightarrow> d | _ \<Rightarrow> []))"

section \<open>Log records\<close>

record receiver =
  entries :: "log_entry list"
  result_files :: "result_file res list"
  cves :: cve_store

record receive_env =
  configured :: bool
  file_stamp :: "nat \<Rightarrow> string"
  time_text :: string
  cve_can_write :: bool
  cve_catalog :: "json option"

definition level_from_sev :: "(string \<times> string) list" where
  "level_from_sev = [(''TRACE'', ''debug''), (''DEBUG'', ''debug''), (''INFO'', ''info''), (''WARN'', ''warn''),
     (''WARNING'', ''warn''), (''ERROR'', ''error''), (''FATAL'', ''fatal''), (''CRITICAL'', ''fatal'')]"

definition otlp_level :: "dict \<Rightarrow> string" where
  "otlp_level rec =
     (case map_of level_from_sev (map upper_char (str_or (getv rec ''severityText'') ''INFO'')) of
        Some l \<Rightarrow> l | None \<Rightarrow> ''info'')"

definition event_payload_of :: "json \<Rightarrow> json" where
  \<comment> \<open>the parsed payload; a text that is no JSON is replaced by a preview\<close>
  "event_payload_of raw = (case raw of
      JStr s \<Rightarrow> (case json_loads s of
          Some v \<Rightarrow> v
        | None \<Rightarrow> JObj [(''truncated'', JBool True), (''parse_error'', JBool True), (''preview'', JStr (take 240 s))])
    | _ \<Rightarrow> raw)"

definition starts_any :: "string \<Rightarrow> string list \<Rightarrow> bool" where
  "starts_any s ps \<longleftrightarrow> list_ex (startswith s) ps"

definition otlp_taxonomy :: "dict \<Rightarrow> string \<Rightarrow> json \<Rightarrow> string \<times> json" where
  \<comment> \<open>type and category of a record\<close>
  "otlp_taxonomy a et payload =
     (let payload_sev = (case payload of JObj p \<Rightarrow> lower (str_or (getv p ''severity'') []) | _ \<Rightarrow> []);
          os_high = getv a ''category'' = JStr ''security'' \<or> payload_sev \<in> {''high'', ''critical'', ''error''};
          cat = (\<lambda>c. py_or (getv a ''category'') (JStr c)) in
      if startswith et ''security.'' \<or> et \<in> {''windows.sysmon'', ''windows.autorun_change'', ''linux.unit_change''}
         \<or> (starts_any et [''linux.'', ''windows.''] \<and> os_high) then (''audit'', cat ''security'')
      else if startswith et ''windows.'' then (''activity'', cat ''windows'')
      else if startswith et ''linux.'' then (''activity'', cat ''linux'')
      else if startswith et ''alert.'' \<or> et \<in> {''health.probe'', ''process.created'', ''process.exited''}
        then (''activity'', JStr ''observability'')
      else if startswith et ''telemetry.'' then
        (''metrics'', py_or (py_or (getv a ''category'') (getv (obj_of payload) ''category'')) (JStr ''observability''))
      else (''activity'', cat ''observability''))"

definition last_part :: "string \<Rightarrow> string" where
  \<comment> \<open>\<open>split(".")[-1]\<close>\<close>
  "last_part s = last (split_char (CHR ''.'') s)"

definition otlp_subcategory :: "json \<Rightarrow> string \<Rightarrow> string" where
  "otlp_subcategory tool et =
     (if starts_any et [''linux.'', ''windows.'', ''security.'', ''alert.'']
      then (if last_part et = [] then str_or tool ''otlp'' else last_part et)
      else str_or (py_or tool (JStr (last_part et))) ''otlp'')"

definition record_agent :: "dict \<Rightarrow> dict \<Rightarrow> string" where
  "record_agent ra a = str_or (py_or (py_or (getv a ''agent.id'') (getv ra ''agent.id'')) (getv ra ''service.instance.id'')) ''unknown''"

definition record_tenant :: "dict \<Rightarrow> dict \<Rightarrow> json" where
  "record_tenant ra a = py_or (py_or (getv a ''tenant.id'') (getv ra ''tenant.id'')) JNull"

definition tenant_text :: "json \<Rightarrow> json" where
  "tenant_text t = (if truthy t then JStr (py_str t) else JNull)"

definition ingest_packages :: "receive_env \<Rightarrow> string \<Rightarrow> json \<Rightarrow> json \<Rightarrow> json \<Rightarrow> receiver \<Rightarrow> unit res \<times> receiver" where
  "ingest_packages e agent_id tool payload tenant st =
     (if tool \<in> {JStr ''cve_inventory'', JStr ''installed_software'', JStr ''linux_packages''} \<and> is_obj payload
         \<and> packages_from_result payload \<noteq> []
      then (case ingest_inventory (time_text e) (cve_can_write e) (cve_catalog e) agent_id
                   (map JObj (packages_from_result payload)) (tenant_text tenant) (cves st) of
              (Inl x, c) \<Rightarrow> (Inl x, st\<lparr>cves := c\<rparr>)
            | (Inr r, c) \<Rightarrow> (Inr (), st\<lparr>cves := c\<rparr>))
      else (Inr (), st))"

definition save_result :: "receive_env \<Rightarrow> string \<Rightarrow> dict \<Rightarrow> receiver \<Rightarrow> receiver" where
  "save_result e agent_id payload st = st\<lparr>result_files := result_files st
     @ [save_execution_result_to_json (file_stamp e (length (result_files st))) (time_text e) agent_id payload]\<rparr>"

definition otlp_data :: "dict \<Rightarrow> dict \<Rightarrow> string \<Rightarrow> json \<Rightarrow> dict" where
  \<comment> \<open>the data of the entry: attributes, record, event type, payload\<close>
  "otlp_data a rec et payload =
     dput_if (is_obj payload) ''payload'' payload
       [(''event_type'', JStr et), (''tool'', getv a ''tool''), (''request_id'', getv a ''request_id''),
        (''scheduled'', getv a ''scheduled''), (''otlp'', JBool True),
        (''body'', py_or (getv (obj_of (getv rec ''body'')) ''stringValue'') (JStr et))]"

definition ingest_log_record :: "receive_env \<Rightarrow> dict \<Rightarrow> dict \<Rightarrow> receiver \<Rightarrow> unit res \<times> receiver" where
  "ingest_log_record e ra rec st =
     (case attrs_in (getv rec ''attributes'') of
        Inl x \<Rightarrow> (Inl x, st)
      | Inr a \<Rightarrow>
         (let agent_id = record_agent ra a; tenant = record_tenant ra a;
              et = str_or (getv a ''event.type'') ''telemetry''; tool = getv a ''tool'';
              payload = event_payload_of (getv a ''event.payload'');
              (etype, category) = otlp_taxonomy a et payload in
          (case ingest_packages e agent_id tool payload tenant st of
             (Inl x, st) \<Rightarrow> (Inl x, st)
           | (Inr u, st) \<Rightarrow>
              (Inr (), save_result e agent_id
                 [(''type'', JStr ''otlp_log''), (''event_type'', JStr et),
                  (''tool'', py_or (py_or tool (JStr (last_part et))) (JStr ''otlp'')), (''tenant_id'', tenant),
                  (''event'', if is_obj payload then payload else JObj rec)]
                 (st\<lparr>entries := entries st @ log_agent_event (configured e) agent_id etype (py_str category)
                      (otlp_subcategory tool et) (otlp_level rec) (otlp_data a rec et payload) (tenant_text tenant)\<rparr>)))))"

section \<open>Requests\<close>

primrec for_each :: "(json \<Rightarrow> 's \<Rightarrow> unit res \<times> 's) \<Rightarrow> json list \<Rightarrow> 's \<Rightarrow> unit res \<times> 's" where
  \<comment> \<open>a loop that an exception leaves\<close>
  "for_each f [] s = (Inr (), s)"
| "for_each f (x # xs) s = (case f x s of (Inl e, s) \<Rightarrow> (Inl e, s) | (Inr u, s) \<Rightarrow> for_each f xs s)"

definition loop_over :: "json \<Rightarrow> (dict \<Rightarrow> 's \<Rightarrow> unit res \<times> 's) \<Rightarrow> 's \<Rightarrow> unit res \<times> 's" where
  \<comment> \<open>\<open>for x in v or []\<close>, skipping what is no dictionary\<close>
  "loop_over v f s = (case py_iter (py_or v (JList [])) of
      Inl e \<Rightarrow> (Inl e, s)
    | Inr xs \<Rightarrow> for_each (\<lambda>x s. case x of JObj d \<Rightarrow> f d s | _ \<Rightarrow> (Inr (), s)) xs s)"

definition ingest_logs :: "receive_env \<Rightarrow> dict \<Rightarrow> receiver \<Rightarrow> unit res \<times> receiver" where
  "ingest_logs e payload = loop_over (getv payload ''resourceLogs'') (\<lambda>rl st.
     (case attrs_in (getv (obj_of (getv rl ''resource'')) ''attributes'') of
        Inl x \<Rightarrow> (Inl x, st)
      | Inr ra \<Rightarrow> loop_over (getv rl ''scopeLogs'') (\<lambda>sl.
                  loop_over (getv sl ''logRecords'') (ingest_log_record e ra)) st))"

definition otlp_logs :: "receive_env \<Rightarrow> string option \<Rightarrow> receiver \<Rightarrow> unit res \<times> receiver" where
  "otlp_logs e body = ingest_logs e (read_otlp_json body)"

definition data_point :: "dict \<Rightarrow> dict \<Rightarrow> json" where
  "data_point metric dp = JObj [(''name'', getv metric ''name''),
     (''value'', getd dp ''asDouble'' (getv dp ''asInt'')), (''unit'', getv metric ''unit''),
     (''timeUnixNano'', getv dp ''timeUnixNano'')]"

definition metric_points :: "dict \<Rightarrow> json list \<Rightarrow> unit res \<times> json list" where
  \<comment> \<open>the points of one resource, in order\<close>
  "metric_points rm = loop_over (getv rm ''scopeMetrics'') (\<lambda>sm.
     loop_over (getv sm ''metrics'') (\<lambda>metric.
       loop_over (getv (obj_of (getv metric ''gauge'')) ''dataPoints'') (\<lambda>dp ps. (Inr (), ps @ [data_point metric dp]))))"

definition ingest_metrics :: "receive_env \<Rightarrow> dict \<Rightarrow> receiver \<Rightarrow> unit res \<times> receiver" where
  "ingest_metrics e payload = loop_over (getv payload ''resourceMetrics'') (\<lambda>rm st.
     (case attrs_in (getv (obj_of (getv rm ''resource'')) ''attributes'') of
        Inl x \<Rightarrow> (Inl x, st)
      | Inr ra \<Rightarrow>
         (let agent_id = str_or (py_or (getv ra ''agent.id'') (getv ra ''service.instance.id'')) ''unknown'';
              tenant = getv ra ''tenant.id'' in
          (case metric_points rm [] of
             (Inl x, ps) \<Rightarrow> (Inl x, st)
           | (Inr u, ps) \<Rightarrow> (Inr (),
               if ps = [] then st
               else save_result e agent_id
                 [(''type'', JStr ''otlp_metrics''), (''tool'', JStr ''otlp_metrics''), (''tenant_id'', tenant),
                  (''points'', JList ps)]
                 (st\<lparr>entries := entries st @ log_agent_event (configured e) agent_id ''metrics'' ''observability''
                      ''otlp_metrics'' ''info'' [(''points'', JList ps), (''otlp'', JBool True)] (tenant_text tenant)\<rparr>))))))"

definition otlp_metrics :: "receive_env \<Rightarrow> string option \<Rightarrow> receiver \<Rightarrow> unit res \<times> receiver" where
  "otlp_metrics e body = ingest_metrics e (read_otlp_json body)"

section \<open>Attributes between agent and server\<close>

lemma digit_no_space: "is_digit c \<Longrightarrow> \<not> is_space c"
  by (auto simp: is_digit_def is_space_def Let_def)

lemma take_digits_all: "\<forall>c \<in> set ds. is_digit c \<Longrightarrow> take_digits p ds = (ds, [])"
  by (induction ds arbitrary: p) simp_all

lemma parse_int_str [simp]: "parse_int (int_str i) = Some i"
proof -
  have d: "\<forall>c \<in> set (nat_digits n). is_digit c" for n by (rule nat_digits_all_digits)
  have "\<forall>c \<in> set (int_str i). \<not> is_space c"
    using d digit_no_space by (auto simp: int_str_def is_space_def code_point_def)
  then have st: "strip (int_str i) = int_str i" by (rule strip_no_space)
  show ?thesis
  proof (cases "i < 0")
    case True
    then show ?thesis using d by (simp add: parse_int_def st) (simp add: int_str_def take_sign_def take_digits_all)
  next
    case False
    obtain c t where ct: "nat_digits (nat i) = c # t" by (cases "nat_digits (nat i)") auto
    have "is_digit c" using d [of "nat i"] ct by simp
    then have "take_sign (nat_digits (nat i)) = (1, nat_digits (nat i))"
      by (auto simp: take_sign_def ct is_digit_def code_point_def)
    with False show ?thesis using d by (simp add: parse_int_def st) (simp add: int_str_def take_digits_all)
  qed
qed

definition read_back :: "json \<Rightarrow> json" where
  \<comment> \<open>what the server sees of an attribute: texts are cut, structures arrive as text\<close>
  "read_back v = (case v of JList xs \<Rightarrow> JStr (take 2048 (py_str v)) | JObj d \<Rightarrow> JStr (take 2048 (py_str v))
     | JStr s \<Rightarrow> JStr (take 2048 s) | _ \<Rightarrow> v)"

definition sent_attr :: "json \<Rightarrow> bool" where
  "sent_attr v \<longleftrightarrow> v \<noteq> JNull \<and> v \<noteq> JStr []"

lemma kv_read:
  "k \<noteq> [] \<Longrightarrow> kv k v = (if sent_attr v then Some d else None) \<Longrightarrow> sent_attr v \<Longrightarrow>
   add_attr (JObj d) out = Inr (dset k (read_back v) out)"
  by (cases v) (auto simp: kv_def sent_attr_def add_attr_def any_value_def read_back_def has_def)

lemma kv_some: "kv k v = (if sent_attr v then Some (the (kv k v)) else None)"
  by (auto simp: kv_def sent_attr_def)

lemma add_attrs_append: "add_attrs (xs @ ys) out = res_bind (add_attrs xs out) (add_attrs ys)"
proof (induction xs arbitrary: out)
  case (Cons x xs)
  then show ?case by (cases "add_attr x out") simp_all
qed simp

lemma attrs_back:
  assumes "list_all (\<lambda>(k, v). k \<noteq> []) pairs" "distinct (map fst (out @ pairs))"
  shows "add_attrs (attrs pairs) out = Inr (out @ map (\<lambda>(k, v). (k, read_back v)) (filter (sent_attr \<circ> snd) pairs))"
  using assms
proof (induction pairs arbitrary: out)
  case (Cons x pairs)
  obtain k v where x: "x = (k, v)" by (cases x)
  show ?case
  proof (cases "sent_attr v")
    case True
    obtain d where d: "kv k v = Some d" using kv_some [of k v] True by auto
    have "add_attr (JObj d) out = Inr (out @ [(k, read_back v)])"
      using kv_read [of k v d out] True d Cons.prems by (simp add: x dset_new)
    then show ?thesis
      using Cons.IH [of "out @ [(k, read_back v)]"] Cons.prems True d
      by (simp add: x attrs_def List.map_filter_simps)
  next
    case False
    then have "kv k v = None" using kv_some [of k v] by simp
    then show ?thesis using Cons.IH [of out] Cons.prems False by (simp add: x attrs_def List.map_filter_simps)
  qed
qed (simp add: attrs_def List.map_filter_simps)

text \<open>
  The server reads the attributes of an exported record back: every attribute whose value is
  present arrives under its key with its value, integers and booleans included; only texts are
  cut at 2048 characters, and structures arrive as their text.
\<close>

theorem attributes_read_back:
  assumes "list_all (\<lambda>(k, v). k \<noteq> []) pairs" "distinct (map fst pairs)"
  shows "attrs_in (JList (attrs pairs)) = Inr (map (\<lambda>(k, v). (k, read_back v)) (filter (sent_attr \<circ> snd) pairs))"
  using attrs_back [of pairs "[]"] assms by (simp add: attrs_in_def)

theorem attributes_read_back_witness:
  "attrs_in (JList (attrs [(''tool'', JStr ''ping''), (''count'', JInt (- 3)), (''none'', JNull)]))
   = Inr [(''tool'', JStr ''ping''), (''count'', JInt (- 3))]"
  using attributes_read_back [of "[(''tool'', JStr ''ping''), (''count'', JInt (- 3)), (''none'', JNull)]"]
  by (simp add: sent_attr_def read_back_def)

section \<open>What the server files\<close>

lemma log_agent_event_data:
  "log_agent_event True agent_id t c sub l data tenant = [en] \<Longrightarrow> log_type en = t \<and> log_category en = c \<and> log_subcategory en = sub"
  by (auto simp: log_agent_event_def Let_def)

lemma kv_str: "s \<noteq> [] \<Longrightarrow> kv k (JStr s) = Some [(''key'', JStr k), (''value'', JObj [(''stringValue'', JStr (take 2048 s))])]"
  by (simp add: kv_def)

text \<open>
  The attributes of an exported event, as the server sees them. The payload attribute is
  appended without the limit of 2048 characters.
\<close>

definition sent_pairs :: "dict \<Rightarrow> dict \<Rightarrow> dict" where
  "sent_pairs conf ev =
     (let inner = inner_event ev; packed = compact_event (if inner = [] then ev else inner) in
      [(''event.type'', py_or (getv inner ''event_type'') (getv ev ''type'')), (''tool'', getv inner ''tool''),
       (''category'', py_or (getv inner ''category'') (getv packed ''category'')),
       (''request_id'', getv inner ''request_id''), (''scheduled'', getv inner ''scheduled''),
       (''tenant.id'', JStr (str_or (tenant_of conf ev) [])), (''agent.id'', JStr (str_or (agent_of conf ev) []))])"

definition seen_attrs :: "dict \<Rightarrow> dict \<Rightarrow> dict" where
  "seen_attrs conf ev = map (\<lambda>(k, v). (k, read_back v)) (filter (sent_attr \<circ> snd) (sent_pairs conf ev))
     @ [(''event.payload'', JStr (payload_text (inner_event ev)
          (compact_event (if inner_event ev = [] then ev else inner_event ev))))]"

lemma log_record_attrs:
  "getv (obj_of (log_record e conf ev)) ''attributes'' = JList (attrs (sent_pairs conf ev)
     @ [JObj [(''key'', JStr ''event.payload''), (''value'', JObj [(''stringValue'',
          JStr (payload_text (inner_event ev) (compact_event (if inner_event ev = [] then ev else inner_event ev))))])]])"
  by (simp add: log_record_def sent_pairs_def Let_def split: prod.split)

lemma server_sees:
  "attrs_in (getv (obj_of (log_record e conf ev)) ''attributes'') = Inr (seen_attrs conf ev)"
proof -
  have "add_attrs (attrs (sent_pairs conf ev)) [] = Inr (map (\<lambda>(k, v). (k, read_back v)) (filter (sent_attr \<circ> snd) (sent_pairs conf ev)))"
    using attrs_back [of "sent_pairs conf ev" "[]"] by (simp add: sent_pairs_def Let_def)
  moreover have "add_attr (JObj [(''key'', JStr ''event.payload''), (''value'', JObj [(''stringValue'', JStr s)])]) out
      = Inr (dset ''event.payload'' (JStr s) out)" for s out
    by (simp add: add_attr_def any_value_def has_def)
  moreover have "''event.payload'' \<notin> fst ` set (map (\<lambda>(k, v). (k, read_back v)) (filter (sent_attr \<circ> snd) (sent_pairs conf ev)))"
    by (auto simp: sent_pairs_def Let_def)
  ultimately show ?thesis
    by (simp add: log_record_attrs attrs_in_def add_attrs_append seen_attrs_def dset_new)
qed

definition packed_of :: "dict \<Rightarrow> dict" where
  \<comment> \<open>the payload that is sent for an event\<close>
  "packed_of ev = compact_event (if inner_event ev = [] then ev else inner_event ev)"

lemma map_of_kept:
  assumes "distinct (map fst pairs)" "(k, v) \<in> set pairs" "P v"
  shows "map_of (map (\<lambda>(k, v). (k, f v)) (filter (P \<circ> snd) pairs) @ ys) k = Some (f v)"
proof -
  let ?m = "map (\<lambda>(k, v). (k, f v)) (filter (P \<circ> snd) pairs)"
  have "map fst ?m = map fst (filter (P \<circ> snd) pairs)" by auto
  then have "distinct (map fst ?m)" using assms(1) by (simp only: distinct_map_filter)
  moreover have "(k, f v) \<in> set ?m" using assms(2,3) by force
  ultimately have "map_of ?m k = Some (f v)" by (rule map_of_is_SomeI)
  then show ?thesis by (simp add: map_add_def)
qed

lemma sent_pairs_keys:
  "map fst (sent_pairs conf ev) =
     [''event.type'', ''tool'', ''category'', ''request_id'', ''scheduled'', ''tenant.id'', ''agent.id'']"
  by (simp add: sent_pairs_def Let_def)

lemma seen_payload: "getv (seen_attrs conf ev) ''event.payload'' = JStr (payload_text (inner_event ev) (packed_of ev))"
proof -
  have "''event.payload'' \<notin> set (map fst (sent_pairs conf ev))" by (simp add: sent_pairs_keys)
  moreover have "fst ` set (map (\<lambda>(k, v). (k, read_back v)) (filter (sent_attr \<circ> snd) (sent_pairs conf ev)))
      \<subseteq> set (map fst (sent_pairs conf ev))" by force
  ultimately have "''event.payload'' \<notin> fst ` set (map (\<lambda>(k, v). (k, read_back v)) (filter (sent_attr \<circ> snd) (sent_pairs conf ev)))"
    by blast
  then have "map_of (map (\<lambda>(k, v). (k, read_back v)) (filter (sent_attr \<circ> snd) (sent_pairs conf ev))) ''event.payload'' = None"
    by (simp add: map_of_eq_None_iff)
  then show ?thesis by (simp add: seen_attrs_def getv_def packed_of_def map_add_def)
qed

lemma seen_agent:
  assumes "agent_of conf ev = JStr a" "a \<noteq> []" "length a \<le> 2048"
  shows "getv (seen_attrs conf ev) ''agent.id'' = JStr a"
proof -
  have "(''agent.id'', JStr a) \<in> set (sent_pairs conf ev)" using assms(1,2) by (simp add: sent_pairs_def Let_def)
  then have "map_of (seen_attrs conf ev) ''agent.id'' = Some (read_back (JStr a))"
    unfolding seen_attrs_def using assms(2) by (intro map_of_kept) (simp_all add: sent_pairs_keys sent_attr_def)
  then show ?thesis using assms(3) by (simp add: getv_def read_back_def)
qed


definition sample_alert :: dict where
  "sample_alert = [(''agent_id'', JStr ''a1''), (''event'', JObj [(''event_type'', JStr ''alert.cpu''), (''value'', JInt 97)])]"

definition sample_receive_env :: receive_env where
  "sample_receive_env = \<lparr>configured = True, file_stamp = (\<lambda>n. ''t''), time_text = ''now'', cve_can_write = True,
     cve_catalog = None\<rparr>"

lemma sample_packed: "packed_of sample_alert = [(''event_type'', JStr ''alert.cpu''), (''value'', JInt 97)]"
proof -
  have "payload_fits [(''event_type'', JStr ''alert.cpu''), (''value'', JInt 97)]" by code_simp
  then show ?thesis by (simp add: packed_of_def sample_alert_def inner_event_def compact_event_def)
qed


text \<open>A request that anyone can write.\<close>

definition forged_record :: "string \<Rightarrow> dict" where
  "forged_record a = [(''attributes'', JList [JObj [(''key'', JStr ''agent.id''),
     (''value'', JObj [(''stringValue'', JStr a)])]])]"

definition forged :: "string \<Rightarrow> json" where
  "forged a = JObj [(''resourceLogs'', JList [JObj [(''scopeLogs'', JList [JObj [(''logRecords'',
     JList [JObj (forged_record a)])]])]])]"

lemma forged_read: "read_otlp_json (Some (dumps_default (forged a))) = obj_of (forged a)"
proof -
  have "plain (forged a)" by (simp add: forged_def forged_record_def)
  then show ?thesis by (simp add: read_otlp_json_def loads_dumps) (simp add: forged_def)
qed

lemma forged_filed:
  assumes "a \<noteq> []"
  shows "\<exists>f. ingest_log_record r [] (forged_record a) st = (Inr (), st\<lparr>
       entries := entries st @ log_agent_event (configured r) a ''activity'' ''observability'' ''telemetry'' ''info''
          [(''event_type'', JStr ''telemetry''), (''tool'', JNull), (''request_id'', JNull), (''scheduled'', JNull),
           (''otlp'', JBool True), (''body'', JStr ''telemetry'')] JNull,
       result_files := result_files st @ [Inr f]\<rparr>)
    \<and> file_dir f = path_join ''results_logs'' a
    \<and> file_name f = a @ ''_telemetry_'' @ file_stamp r (length (result_files st)) @ ''.json''"
proof -
  have at: "attrs_in (getv (forged_record a) ''attributes'') = Inr [(''agent.id'', JStr a)]"
    by (simp add: forged_record_def attrs_in_def add_attr_def any_value_def has_def dset_def)
  have lp: "last_part ''telemetry'' = ''telemetry''" by code_simp
  have tx: "otlp_taxonomy [(''agent.id'', JStr a)] ''telemetry'' JNull = (''activity'', JStr ''observability'')"
    by (simp add: otlp_taxonomy_def startswith_def starts_any_def)
  have sb: "otlp_subcategory JNull ''telemetry'' = ''telemetry''"
    by (simp add: otlp_subcategory_def lp startswith_def starts_any_def)
  have lv: "otlp_level (forged_record a) = ''info''"
  proof -
    have "map upper_char ''INFO'' = ''INFO''" by code_simp
    then show ?thesis by (simp add: otlp_level_def forged_record_def level_from_sev_def)
  qed
  have bd: "getv (forged_record a) ''body'' = JNull" by (simp add: forged_record_def)
  show ?thesis
    using assms
    by (simp add: bd ingest_log_record_def at tx sb lv lp Let_def record_agent_def record_tenant_def event_payload_of_def
        ingest_packages_def save_result_def save_execution_result_to_json_def otlp_data_def tenant_text_def
        dput_if_def startswith_def) (intro exI conjI, rule refl, simp_all)
qed

text \<open>
  The receiver asks for no credentials and uses the agent id of the request as a path: for
  every text there is a request that is filed under it as agent id, and when the text is an
  absolute path the result file is written there, outside of the directory of the results.
\<close>

theorem receiver_writes_where_told:
  "\<exists>body f. otlp_logs r (Some body) st = (Inr (), st\<lparr>
       entries := entries st @ log_agent_event (configured r) (CHR ''/'' # s) ''activity'' ''observability'' ''telemetry'' ''info''
          [(''event_type'', JStr ''telemetry''), (''tool'', JNull), (''request_id'', JNull), (''scheduled'', JNull),
           (''otlp'', JBool True), (''body'', JStr ''telemetry'')] JNull,
       result_files := result_files st @ [Inr f]\<rparr>)
    \<and> file_path f = CHR ''/'' # s @ ''_telemetry_'' @ file_stamp r (length (result_files st)) @ ''.json''"
proof -
  let ?a = "CHR ''/'' # s"
  obtain f where f: "ingest_log_record r [] (forged_record ?a) st = (Inr (), st\<lparr>
       entries := entries st @ log_agent_event (configured r) ?a ''activity'' ''observability'' ''telemetry'' ''info''
          [(''event_type'', JStr ''telemetry''), (''tool'', JNull), (''request_id'', JNull), (''scheduled'', JNull),
           (''otlp'', JBool True), (''body'', JStr ''telemetry'')] JNull,
       result_files := result_files st @ [Inr f]\<rparr>)"
    "file_name f = ?a @ ''_telemetry_'' @ file_stamp r (length (result_files st)) @ ''.json''"
    using forged_filed [of ?a r st] by auto
  have "otlp_logs r (Some (dumps_default (forged ?a))) st = ingest_log_record r [] (forged_record ?a) st"
    unfolding otlp_logs_def forged_read
    by (simp add: forged_def ingest_logs_def loop_over_def attrs_in_def split: prod.split sum.split)
  moreover have "file_path f = ?a @ ''_telemetry_'' @ file_stamp r (length (result_files st)) @ ''.json''"
    by (simp add: file_path_def path_join_def f(2) startswith_def)
  ultimately show ?thesis using f(1) by (intro exI [of _ "dumps_default (forged ?a)"] exI [of _ f]) simp
qed

end
