(* ===== verification/Py_Regex.thy ===== *)
theory Py_Regex
  imports Py_Text
begin

text \<open>
  The part of Python's \<^verbatim>\<open>re\<close> that the program's patterns use: character classes with
  greedy repetition, groups, alternatives, optional parts, anchors and word boundaries, with
  the backtracking order of the library, so the groups are the ones that \<open>search\<close> gives. No
  pattern repeats a group, hence the size of the pattern bounds the recursion.
\<close>

section \<open>Patterns\<close>

datatype cls =
    AnyChar | NoNewline | Space | NonSpace | Digit | Word | OneOf string | NoneOf string | Ranges "(char \<times> char) list" string

datatype rx =
    Chars cls nat "nat option"
    \<comment> \<open>a class, repeated at least and at most so often, as often as possible\<close>
  | Alt "rx list list"
  | Opt "rx list"
  | Grp nat "rx list"
  | End nat string
    \<comment> \<open>the end of a group, with the text at its start\<close>
  | LineStart | LineEnd | WordEdge

definition lit :: "string \<Rightarrow> rx list" where
  "lit s = map (\<lambda>c. Chars (OneOf [c]) 1 (Some 1)) s"

abbreviation one :: "cls \<Rightarrow> rx" where "one c \<equiv> Chars c 1 (Some 1)"
abbreviation many :: "cls \<Rightarrow> rx" where "many c \<equiv> Chars c 0 None"
abbreviation some_of :: "cls \<Rightarrow> rx" where "some_of c \<equiv> Chars c 1 None"

definition word_char :: "char \<Rightarrow> bool" where
  "word_char c \<longleftrightarrow> (let n = code_point c in is_digit c \<or> (65 \<le> n \<and> n \<le> 90) \<or> (97 \<le> n \<and> n \<le> 122) \<or> n = 95
     \<or> n \<in> {170, 178, 179, 181, 185, 186, 188, 189, 190} \<or> (192 \<le> n \<and> n \<noteq> 215 \<and> n \<noteq> 247))"

fun in_class :: "bool \<Rightarrow> cls \<Rightarrow> char \<Rightarrow> bool" where
  \<comment> \<open>the flag ignores the case of letters\<close>
  "in_class ci AnyChar c = True"
| "in_class ci NoNewline c = (c \<noteq> CHR 0x0A)"
| "in_class ci Space c = is_space c"
| "in_class ci NonSpace c = (\<not> is_space c)"
| "in_class ci Digit c = is_digit c"
| "in_class ci Word c = word_char c"
| "in_class ci (OneOf s) c = (if ci then lower_char c \<in> set (map lower_char s) else c \<in> set s)"
| "in_class ci (NoneOf s) c = (\<not> (if ci then lower_char c \<in> set (map lower_char s) else c \<in> set s))"
| "in_class ci (Ranges rs s) c = (c \<in> set s \<or> list_ex (\<lambda>(a, b). code_point a \<le> code_point c \<and> code_point c \<le> code_point b) rs
     \<or> (ci \<and> list_ex (\<lambda>(a, b). code_point a \<le> code_point (lower_char c) \<and> code_point (lower_char c) \<le> code_point b) rs))"

section \<open>Matching\<close>

type_synonym caps = "(nat \<times> string) list"

fun first_some :: "('a \<Rightarrow> 'b option) \<Rightarrow> 'a list \<Rightarrow> 'b option" where
  "first_some f [] = None"
| "first_some f (x # xs) = (case f x of Some y \<Rightarrow> Some y | None \<Rightarrow> first_some f xs)"

lemma first_some_cong [fundef_cong]:
  "xs = ys \<Longrightarrow> (\<And>x. x \<in> set ys \<Longrightarrow> f x = g x) \<Longrightarrow> first_some f xs = first_some g ys"
  by (induction ys arbitrary: xs) (auto split: option.split)

fun weight :: "rx \<Rightarrow> nat" where
  "weight (Chars c lo hi) = 1"
| "weight (Alt bs) = Suc (sum_list (map (\<lambda>b. sum_list (map weight b)) bs))"
| "weight (Opt b) = Suc (sum_list (map weight b))"
| "weight (Grp i b) = Suc (Suc (sum_list (map weight b)))"
| "weight (End i s) = 1"
| "weight LineStart = 1"
| "weight LineEnd = 1"
| "weight WordEdge = 1"

definition load :: "rx list \<Rightarrow> nat" where
  "load rs = sum_list (map weight rs)"

lemma load_simps [simp]:
  "load [] = 0" "load (r # rs) = weight r + load rs" "load (a @ b) = load a + load b"
  by (simp_all add: load_def)

lemma load_branch: "b \<in> set bs \<Longrightarrow> load b \<le> sum_list (map (\<lambda>b. sum_list (map weight b)) bs)"
  unfolding load_def by (rule member_le_sum_list) auto

lemma load_body: "load b \<le> sum_list (map weight b)"
  unfolding load_def by (rule order_refl)

definition run_length :: "bool \<Rightarrow> cls \<Rightarrow> nat option \<Rightarrow> string \<Rightarrow> nat" where
  "run_length ci c hi s =
     (let n = length (takeWhile (in_class ci c) s) in case hi of None \<Rightarrow> n | Some h \<Rightarrow> min n h)"

definition before :: "char option \<Rightarrow> nat \<Rightarrow> string \<Rightarrow> char option" where
  \<comment> \<open>the character in front of what remains after \<open>k\<close> characters\<close>
  "before p k s = (if k = 0 then p else Some (s ! (k - 1)))"

definition is_word :: "char option \<Rightarrow> bool" where
  "is_word p \<longleftrightarrow> (case p of None \<Rightarrow> False | Some c \<Rightarrow> word_char c)"

definition head :: "string \<Rightarrow> char option" where
  "head s = (case s of [] \<Rightarrow> None | c # t \<Rightarrow> Some c)"

function mt :: "bool \<Rightarrow> rx list \<Rightarrow> char option \<Rightarrow> string \<Rightarrow> caps \<Rightarrow> (caps \<times> string) option" where
  \<comment> \<open>the groups and the rest of the text of the first match at this place\<close>
  "mt ci [] p s cs = Some (cs, s)"
| "mt ci (Chars c lo hi # rs) p s cs =
     first_some (\<lambda>k. mt ci rs (before p k s) (drop k s) cs) (rev [lo..<Suc (run_length ci c hi s)])"
| "mt ci (Alt bs # rs) p s cs = first_some (\<lambda>b. mt ci (b @ rs) p s cs) bs"
| "mt ci (Opt b # rs) p s cs =
     (case mt ci (b @ rs) p s cs of Some m \<Rightarrow> Some m | None \<Rightarrow> mt ci rs p s cs)"
| "mt ci (Grp i b # rs) p s cs = mt ci (b @ End i s # rs) p s cs"
| "mt ci (End i t # rs) p s cs = mt ci rs p s (dset i (take (length t - length s) t) cs)"
| "mt ci (LineStart # rs) p s cs = (if p \<in> {None, Some (CHR 0x0A)} then mt ci rs p s cs else None)"
| "mt ci (LineEnd # rs) p s cs = (if s = [] \<or> s = [CHR 0x0A] then mt ci rs p s cs else None)"
| "mt ci (WordEdge # rs) p s cs = (if is_word p \<noteq> is_word (head s) then mt ci rs p s cs else None)"
  by pat_completeness auto

termination mt
  by (relation "measure (\<lambda>(ci, rs, p, s, cs). load rs)") (auto simp: less_Suc_eq_le load_body dest: load_branch)

declare mt.simps [simp del]

fun search_from :: "bool \<Rightarrow> rx list \<Rightarrow> char option \<Rightarrow> string \<Rightarrow> (caps \<times> string) option" where
  \<comment> \<open>the groups, and under 0 the whole match\<close>
  "search_from ci rs p [] = mt ci [Grp 0 rs] p [] []"
| "search_from ci rs p (c # s) =
     (case mt ci [Grp 0 rs] p (c # s) [] of Some m \<Rightarrow> Some m | None \<Rightarrow> search_from ci rs (Some c) s)"

definition rx_search :: "bool \<Rightarrow> rx list \<Rightarrow> string \<Rightarrow> caps option" where
  "rx_search ci rs s = map_option fst (search_from ci rs None s)"

definition found :: "bool \<Rightarrow> rx list \<Rightarrow> string \<Rightarrow> bool" where
  "found ci rs s \<longleftrightarrow> rx_search ci rs s \<noteq> None"

section \<open>Literal texts\<close>

text \<open>A pattern of plain characters is found exactly where the text occurs.\<close>

lemma mt_one:
  "mt ci (one c # rs) p s cs =
     (case s of [] \<Rightarrow> None | x # t \<Rightarrow> if in_class ci c x then mt ci rs (Some x) t cs else None)"
  by (cases s) (auto simp: mt.simps run_length_def before_def split: option.split)

lemma mt_lit:
  "mt False (lit w @ rs) p s cs =
     (if startswith s w then mt False rs (if w = [] then p else Some (last w)) (drop (length w) s) cs else None)"
proof (induction w arbitrary: p s)
  case (Cons c w)
  show ?case
  proof (cases s)
    case (Cons x t)
    then show ?thesis using Cons.IH [of "Some x" t] by (auto simp: lit_def mt_one [simplified One_nat_def] startswith_def)
  qed (simp add: lit_def mt_one [simplified One_nat_def] startswith_def)
qed (simp add: lit_def startswith_def)

lemma mt_group_lit: "mt False [Grp 0 (lit w)] p s [] \<noteq> None \<longleftrightarrow> startswith s w"
  using mt_lit [of w "[End 0 s]" p s "[]"] by (simp add: mt.simps)

theorem search_lit: "found False (lit w) s \<longleftrightarrow> contains s w"
proof -
  have "search_from False (lit w) p s \<noteq> None \<longleftrightarrow> contains s w" for p
  proof (induction s arbitrary: p)
    case Nil
    then show ?case using mt_group_lit [of w p "[]"] by (auto simp: startswith_def)
  next
    case (Cons c s)
    show ?case using mt_group_lit [of w p "c # s"] Cons [of "Some c"]
      by (cases "mt False [Grp 0 (lit w)] p (c # s) []") auto
  qed
  then show ?thesis by (simp add: found_def rx_search_def)
qed

end
