(* ===== verification/Endpoint_Scan.thy ===== *)
theory Endpoint_Scan
  imports Py_Regex Protocol
begin

text \<open>
  The security collectors of the agent as far as they compute something,
  \<^verbatim>\<open>colsoft_tools/endpoint_security.py\<close>: the integrity baseline and its differences,
  the fingerprint of persistence entries, the reading of authentication logs, the detection
  rules, the package inventory, the hardening score and the rootkit heuristics. What the
  operating system answers (files, commands, process lists) is an argument. The scans hold
  lists of dictionaries, as the collectors write them.
\<close>

section \<open>The system\<close>

record system =
  read_text :: "string \<Rightarrow> string option"
  which :: "string \<Rightarrow> string option"
  run_cmd :: "string list \<Rightarrow> int \<times> string \<times> string"
    \<comment> \<open>return code, output, errors\<close>
  list_dir :: "string \<Rightarrow> string list option"
  file_mode :: "string \<Rightarrow> int + string"
    \<comment> \<open>the permission bits, or the text of the error\<close>
  clock_text :: string

definition recs :: "dict \<Rightarrow> string \<Rightarrow> dict list" where
  \<comment> \<open>\<open>scan.get(k) or []\<close>\<close>
  "recs scan k = (case getv scan k of JList xs \<Rightarrow> map obj_of xs | _ \<Rightarrow> [])"

definition stdout_of :: "system \<Rightarrow> string list \<Rightarrow> string" where
  "stdout_of h c = fst (snd (run_cmd h c))"

definition stderr_of :: "system \<Rightarrow> string list \<Rightarrow> string" where
  "stderr_of h c = snd (snd (run_cmd h c))"

definition text_at :: "system \<Rightarrow> string \<Rightarrow> string" where
  \<comment> \<open>\<open>_read_text(path) or ""\<close>\<close>
  "text_at h p = (case read_text h p of None \<Rightarrow> [] | Some s \<Rightarrow> s)"

definition line_break :: "char \<Rightarrow> bool" where
  "line_break c \<longleftrightarrow> code_point c \<in> {10, 11, 12, 13, 28, 29, 30, 133}"

fun splitlines :: "string \<Rightarrow> string list" where
  "splitlines [] = []"
| "splitlines (c # s) =
     (if c = CHR 0x0D \<and> s \<noteq> [] \<and> hd s = CHR 0x0A then [] # splitlines (tl s)
      else if line_break c then [] # splitlines s
      else (case splitlines s of
              [] \<Rightarrow> [[c]]
            | l # ls \<Rightarrow> (c # l) # ls))"

section \<open>File integrity\<close>

type_synonym baseline = "(string \<times> dict) list"

definition fim_entry :: "dict \<Rightarrow> dict" where
  "fim_entry rec = map (\<lambda>k. (k, getv rec k)) [''sha256'', ''mtime'', ''uid'', ''user'', ''size'', ''exists'']"

definition fim_baseline_from_scan :: "dict \<Rightarrow> baseline" where
  "fim_baseline_from_scan scan = fold (\<lambda>rec out.
     if truthy (getv rec ''path'') then dset (py_str (getv rec ''path'')) (fim_entry rec) out else out) (recs scan ''files'') []"

definition keys :: "('k \<times> 'v) list \<Rightarrow> 'k list" where
  "keys d = map fst d"

definition entry :: "baseline \<Rightarrow> string \<Rightarrow> dict" where
  "entry b p = (case map_of b p of Some r \<Rightarrow> r | None \<Rightarrow> [])"

definition fim_changed :: "baseline \<Rightarrow> baseline \<Rightarrow> string \<Rightarrow> bool" where
  "fim_changed prev cur p \<longleftrightarrow> getv (entry prev p) ''sha256'' \<noteq> getv (entry cur p) ''sha256''
     \<or> getv (entry prev p) ''exists'' \<noteq> getv (entry cur p) ''exists''"

definition fim_event :: "string \<Rightarrow> string \<Rightarrow> dict \<Rightarrow> dict \<Rightarrow> dict" where
  \<comment> \<open>the last argument holds the previous hash of a modification\<close>
  "fim_event change p rec prev = [(''change'', JStr change), (''path'', JStr p), (''sha256'', getv rec ''sha256'')] @ prev
     @ [(''user'', getv rec ''user''), (''uid'', getv rec ''uid'')]"

definition fim_diff :: "baseline \<Rightarrow> baseline \<Rightarrow> dict list" where
  "fim_diff prev cur =
     map (\<lambda>p. fim_event ''created'' p (entry cur p) []) (sort (filter (\<lambda>p. \<not> has p prev) (keys cur)))
   @ map (\<lambda>p. fim_event ''deleted'' p (entry prev p) []) (sort (filter (\<lambda>p. \<not> has p cur) (keys prev)))
   @ map (\<lambda>p. fim_event ''modified'' p (entry cur p) [(''prev_sha256'', getv (entry prev p) ''sha256'')])
       (filter (fim_changed prev cur) (sort (filter (\<lambda>p. has p cur) (keys prev))))"

section \<open>Persistence\<close>

definition fp_name :: "dict \<Rightarrow> string" where
  \<comment> \<open>an entry without any of the four fields gets the address of its object, here the empty text\<close>
  "fp_name rec = str_or (py_or (py_or (py_or (getv rec ''path'') (getv rec ''name'')) (getv rec ''raw'')) (getv rec ''sha256'')) []"

definition fp_key :: "dict \<Rightarrow> string" where
  "fp_key rec = py_str (getv rec ''kind'') @ '':'' @ fp_name rec"

definition persistence_fingerprint :: "dict \<Rightarrow> baseline" where
  "persistence_fingerprint scan = fold (\<lambda>rec. dset (fp_key rec) rec) (recs scan ''items'') []"

fun split_on :: "string \<Rightarrow> nat \<Rightarrow> string \<Rightarrow> string list" where
  \<comment> \<open>\<open>str.split\<close> with a separator; the number counts characters of it still to skip\<close>
  "split_on sep k [] = [[]]"
| "split_on sep (Suc k) (c # s) = split_on sep k s"
| "split_on sep 0 (c # s) =
     (if startswith (c # s) sep then [] # split_on sep (length sep - 1) s
      else (case split_on sep 0 s of l # ls \<Rightarrow> (c # l) # ls | [] \<Rightarrow> [[c]]))"

definition strip_quotes :: "string \<Rightarrow> string" where
  "strip_quotes s = (let f = dropWhile (\<lambda>c. c = CHR 0x22) in rev (f (rev (f s))))"

definition parse_schtasks_csv_line :: "string \<Rightarrow> string \<times> string \<times> string" where
  \<comment> \<open>name, next run, status\<close>
  "parse_schtasks_csv_line line =
     (let stripped = strip_quotes (strip line);
          parts = map (\<lambda>p. strip_quotes (strip p)) (split_on [CHR 0x22, CHR '','', CHR 0x22] 0 stripped);
          parts = (if length parts = 1 then map strip (split_char (CHR '','') stripped) else parts);
          part = (\<lambda>i. if i < length parts then parts ! i else []) in
      (part 0, part 1, part 2))"

section \<open>Authentication logs\<close>

definition auth_patterns :: "(string \<times> string \<times> rx list \<times> string) list" where
  "auth_patterns = [
     (''login_success'', ''low'', lit ''Accepted'' @ [some_of Space,
        Grp 1 [Alt [lit ''password'', lit ''publickey'', lit ''keyboard-interactive'']], some_of NoNewline] @ lit ''for''
        @ [some_of Space, Grp 2 [some_of NonSpace]], ''T1078''),
     (''login_failure'', ''medium'', lit ''Failed'' @ [some_of Space, Grp 1 [Alt [lit ''password'', lit ''publickey'']],
        some_of NoNewline] @ lit ''for'' @ [some_of Space, Opt [Grp 2 (lit ''invalid user'' @ [some_of Space])],
        Grp 3 [some_of NonSpace]], ''T1110''),
     (''login_failure'', ''medium'', lit ''authentication failure'' @ [some_of NoNewline] @ lit ''user=''
        @ [Grp 1 [some_of NonSpace]], ''T1110''),
     (''sudo'', ''medium'', lit ''sudo:'' @ [some_of NoNewline] @ lit ''USER='' @ [Grp 1 [some_of NonSpace], some_of NoNewline]
        @ lit ''COMMAND='' @ [Grp 2 [some_of NoNewline], LineEnd], ''T1548.003''),
     (''su'', ''medium'', lit ''su:'' @ [some_of Space] @ lit ''(to'' @ [some_of Space, Grp 1 [some_of NonSpace]] @ lit '')''
        @ [some_of NoNewline] @ lit ''session '' @ [Grp 2 [Alt [lit ''opened'', lit ''closed'']]], ''T1548''),
     (''session_open'', ''low'', lit ''session opened for user '' @ [Grp 1 [some_of NonSpace]], ''T1078''),
     (''session_close'', ''low'', lit ''session closed for user '' @ [Grp 1 [some_of NonSpace]], ''T1078'')]"

definition auth_words :: "string list" where
  "auth_words = [''password'', ''publickey'', ''keyboard-interactive'', ''invalid user'', ''opened'', ''closed'']"

definition auth_user :: "caps \<Rightarrow> json" where
  \<comment> \<open>the first group that is not one of the known words\<close>
  "auth_user cs =
     (case find (\<lambda>i. case map_of cs i of Some g \<Rightarrow> g \<noteq> [] \<and> lower g \<notin> set auth_words | None \<Rightarrow> False) [1, 2, 3] of
        None \<Rightarrow> JNull
      | Some i \<Rightarrow> JStr (the (map_of cs i)))"

definition parse_auth_line :: "string \<Rightarrow> string \<Rightarrow> dict option" where
  "parse_auth_line line source =
     (let text = rstrip line in
      if text = [] then None
      else first_some (\<lambda>(action, severity, pat, mitre).
        map_option (\<lambda>cs. [(''action'', JStr action), (''severity'', JStr severity), (''user'', auth_user cs),
           (''mitre_technique'', JStr mitre), (''source'', JStr source), (''message'', JStr (take 400 text))])
          (rx_search True pat text)) auth_patterns)"

definition windows_auth_action :: "string \<Rightarrow> (string \<times> string \<times> string) option" where
  "windows_auth_action line =
     (let low = lower line in
      if contains line ''4624'' \<or> contains low ''successfully logged on'' then Some (''login_success'', ''low'', ''T1078'')
      else if contains line ''4625'' \<or> contains low ''failed'' then Some (''login_failure'', ''medium'', ''T1110'')
      else if contains line ''4634'' \<or> contains low ''logoff'' then Some (''logoff'', ''low'', ''T1078'')
      else if contains line ''4672'' \<or> contains low ''special privileges'' then Some (''privilege_escalation'', ''high'', ''T1548'')
      else None)"

definition auth_event :: "bool \<Rightarrow> string \<times> string \<Rightarrow> dict option" where
  "auth_event windows = (\<lambda>(line, source).
     case parse_auth_line line source of
       Some ev \<Rightarrow> Some ev
     | None \<Rightarrow> (if windows then map_option (\<lambda>(action, sev, mitre).
           [(''action'', JStr action), (''severity'', JStr sev), (''mitre_technique'', JStr mitre),
            (''source'', JStr source), (''message'', JStr (take 400 (strip line)))]) (windows_auth_action line)
         else None))"

definition auth_audit :: "bool \<Rightarrow> system \<Rightarrow> (string \<times> string) list \<Rightarrow> int \<Rightarrow> dict" where
  \<comment> \<open>of the raw lines with their sources\<close>
  "auth_audit windows h raw max_entries =
     (let n = nat (max 1 (min (if max_entries = 0 then 80 else max_entries) 500));
          evs = take n (List.map_filter (auth_event windows) raw) in
      [(''tool'', JStr ''auth_audit''), (''status'', JStr ''OK''), (''count'', JInt (int (length evs))),
       (''events'', JList (map JObj evs)), (''ts'', JStr (clock_text h)), (''error'', JNull)])"

section \<open>Detection rules\<close>

datatype rule_test = Cmdline bool "rx list" | Prefixes "string list"

record rule =
  rule_id :: string
  rule_name :: string
  rule_summary :: string
  rule_severity :: string
  rule_mitre :: string
  rule_test :: rule_test

definition alnum_b64 :: cls where
  "alnum_b64 = Ranges [(CHR ''A'', CHR ''Z''), (CHR ''a'', CHR ''z''), (CHR ''0'', CHR ''9'')] ''+/=''"

definition detection_rules :: "rule list" where
  "detection_rules = [
     \<lparr>rule_id = ''SEC-001'', rule_name = ''encoded_powershell'', rule_summary = ''PowerShell con comando codificado'',
      rule_severity = ''high'', rule_mitre = ''T1059.001'', rule_test = Cmdline True
        [Grp 1 [Alt [lit ''powershell'', lit ''pwsh'']], many AnyChar,
         Grp 2 [Alt [lit ''-enc'' @ [Opt [Grp 3 (lit ''odedcommand'')], some_of Space], lit ''FromBase64String'',
           lit ''-e'' @ [Opt [Grp 4 [Alt [lit ''c'', lit ''n'']]], some_of Space, Chars alnum_b64 12 None]]]]\<rparr>,
     \<lparr>rule_id = ''SEC-002'', rule_name = ''curl_pipe_shell'', rule_summary = ''curl|sh / wget|sh (ejecuci'' @ [CHR 0xF3] @ ''n remota)'',
      rule_severity = ''high'', rule_mitre = ''T1059.004'', rule_test = Cmdline True
        ([Grp 1 [Alt [lit ''curl'', lit ''wget'']], some_of Space, Chars (NoneOf [CHR 0x0A, CHR ''|'']) 0 (Some 200)] @ lit ''|''
         @ [many Space, Opt [Grp 2 (lit ''sudo'' @ [some_of Space])],
            Grp 3 [Alt [Opt [Grp 4 (lit ''ba'')] # lit ''sh'', lit ''zsh'', lit ''ksh'', lit ''dash'', lit ''python'']]])\<rparr>,
     \<lparr>rule_id = ''SEC-003'', rule_name = ''exec_from_tmp'',
      rule_summary = ''Ejecuci'' @ [CHR 0xF3] @ ''n desde ruta temporal (/tmp, %TEMP%)'', rule_severity = ''medium'', rule_mitre = ''T1036.005'',
      rule_test = Prefixes [''/tmp/'', ''/var/tmp/'', ''/dev/shm/'', [CHR 0x5C] @ ''temp'' @ [CHR 0x5C], ''/temp/'',
         [CHR 0x5C] @ ''appdata'' @ [CHR 0x5C] @ ''local'' @ [CHR 0x5C] @ ''temp'' @ [CHR 0x5C]]\<rparr>,
     \<lparr>rule_id = ''SEC-004'', rule_name = ''bash_reverse_i'', rule_summary = ''Shell interactivo invertido / bind'',
      rule_severity = ''high'', rule_mitre = ''T1059.004'', rule_test = Cmdline True
        [Grp 1 [Alt [lit ''bash'' @ [some_of Space] @ lit ''-i'' @ [some_of Space] @ lit ''>&'' @ [many Space] @ lit ''/dev/tcp/'',
           lit ''nc'' @ [some_of Space, Grp 2 [Alt [lit ''-e'', lit ''--exec'']], some_of Space],
           lit ''ncat'' @ [some_of Space, many NoNewline] @ lit ''-e'' @ [some_of Space]]]]\<rparr>]"

definition proc_cmdline :: "dict \<Rightarrow> string" where
  "proc_cmdline proc =
     (let cmd = (case py_or (getv proc ''cmdline'') (JStr []) of
            JList xs \<Rightarrow> join '' '' (map py_str xs) | v \<Rightarrow> py_str v);
          exe = str_or (py_or (getv proc ''exe'') (getv proc ''cwd'')) [];
          name = str_or (getv proc ''name'') [] in
      strip (name @ '' '' @ exe @ '' '' @ cmd))"

definition detection_hit :: "rule \<Rightarrow> dict \<Rightarrow> dict" where
  "detection_hit r proc =
     [(''rule_id'', JStr (rule_id r)), (''name'', JStr (rule_name r)), (''summary'', JStr (rule_summary r)),
      (''severity'', JStr (rule_severity r)), (''mitre_technique'', JStr (rule_mitre r)), (''pid'', getv proc ''pid''),
      (''ppid'', getv proc ''ppid''), (''process'', getv proc ''name''),
      (''user'', py_or (getv proc ''username'') (getv proc ''user'')), (''cmdline'', JStr (take 500 (proc_cmdline proc)))]"

definition from_tmp :: "string list \<Rightarrow> string \<Rightarrow> string \<Rightarrow> bool" where
  \<comment> \<open>of the path of the program and the command line, both in lower case\<close>
  "from_tmp ps exe cmd \<longleftrightarrow> list_ex (\<lambda>p. contains (exe @ '' '' @ cmd) (lower p)) ps
     \<and> (list_ex (contains exe) [''/tmp/'', [CHR 0x5C] @ ''temp'' @ [CHR 0x5C], ''/var/tmp/'', ''/dev/shm/'']
        \<or> list_ex (\<lambda>token. list_ex (\<lambda>p. startswith token (lower p)) ps) (split_words cmd))"

definition rule_hits :: "dict \<Rightarrow> rule \<Rightarrow> bool" where
  "rule_hits proc r = (case rule_test r of
      Cmdline ci pat \<Rightarrow> found ci pat (proc_cmdline proc)
    | Prefixes ps \<Rightarrow> from_tmp ps (lower (str_or (getv proc ''exe'') [])) (lower (proc_cmdline proc)))"

definition match_detection_rules :: "dict \<Rightarrow> dict list" where
  "match_detection_rules proc = map (\<lambda>r. detection_hit r proc) (filter (rule_hits proc) detection_rules)"

definition detection_scan :: "system \<Rightarrow> dict list \<Rightarrow> dict" where
  "detection_scan h procs =
     (let hits = concat (map match_detection_rules procs) in
      [(''tool'', JStr ''detection_scan''), (''status'', JStr ''OK''), (''count'', JInt (int (length hits))),
       (''detections'', JList (map JObj hits)),
       (''rules'', JList (map (\<lambda>r. JObj [(''id'', JStr (rule_id r)), (''name'', JStr (rule_name r)),
          (''mitre_technique'', JStr (rule_mitre r)), (''severity'', JStr (rule_severity r))]) detection_rules)),
       (''ts'', JStr (clock_text h)), (''error'', JNull)])"

section \<open>Package inventory\<close>

definition inventory_package :: "dict \<Rightarrow> dict option" where
  "inventory_package pkg =
     (let name = strip (str_or (getv pkg ''name'') []); version = strip (str_or (getv pkg ''version'') []) in
      if name = [] then None
      else Some (dput_if (truthy (getv pkg ''path'')) ''path'' (getv pkg ''path'')
                (dput_if (truthy (getv pkg ''sha256'')) ''sha256'' (getv pkg ''sha256'')
             [(''name'', JStr (lower name)), (''version'', JStr version), (''product'', JStr (lower name))])))"

definition cve_inventory :: "system \<Rightarrow> string \<Rightarrow> string \<Rightarrow> dict \<Rightarrow> dict" where
  \<comment> \<open>of the installed software, with the name and the version of the platform\<close>
  "cve_inventory h os os_version raw =
     (let packages = List.map_filter inventory_package (recs raw ''packages'') in
      [(''tool'', JStr ''cve_inventory''), (''status'', py_or (getv raw ''status'') (JStr ''OK'')), (''os'', JStr os),
       (''os_version'', JStr os_version), (''package_manager'', getv raw ''package_manager''),
       (''count'', JInt (int (length packages))), (''packages'', JList (map JObj packages)),
       (''note'', JStr (''Insumo RF-SEC-05; la correlaci'' @ [CHR 0xF3] @ ''n CVE vive en el backend.'')),
       (''ts'', JStr (clock_text h)), (''error'', getv raw ''error'')])"

section \<open>Hardening score\<close>

definition cis_ok :: "bool \<Rightarrow> string \<Rightarrow> string \<Rightarrow> string \<Rightarrow> dict" where
  "cis_ok passed check title evidence = [(''id'', JStr check), (''title'', JStr title), (''passed'', JBool passed),
     (''evidence'', JStr (take 240 evidence))]"

definition oct_text :: "int \<Rightarrow> string" where
  \<comment> \<open>\<open>oct\<close> of the nine permission bits and the three special ones\<close>
  "oct_text n = ''0o'' @ (let ds = map (\<lambda>k. digit_char (nat (n div 8 ^ k mod 8))) [3, 2, 1, 0] in
     (case dropWhile (\<lambda>c. c = CHR ''0'') ds of [] \<Rightarrow> ''0'' | d # r \<Rightarrow> d # r))"

definition mode_check :: "system \<Rightarrow> string \<times> int \<times> string \<times> string \<Rightarrow> dict" where
  "mode_check h = (\<lambda>(path, mode_ok, cid, title).
     case file_mode h path of
       Inl mode \<Rightarrow> cis_ok (mode \<le> mode_ok) cid title (oct_text mode)
     | Inr err \<Rightarrow> cis_ok False cid title err)"

definition root_login_pattern :: "rx list" where
  "root_login_pattern = [LineStart, many Space] @ lit ''PermitRootLogin'' @ [some_of Space] @ lit ''yes'' @ [WordEdge]"

definition password_pattern :: "rx list" where
  "password_pattern = [LineStart, many Space] @ lit ''PasswordAuthentication'' @ [some_of Space, Grp 1 [some_of NonSpace]]"

definition max_days_pattern :: "rx list" where
  "max_days_pattern = [LineStart, many Space] @ lit ''PASS_MAX_DAYS'' @ [some_of Space, Grp 1 [some_of Digit]]"

definition group_of :: "caps \<Rightarrow> nat \<Rightarrow> string" where
  "group_of cs i = (case map_of cs i of Some g \<Rightarrow> g | None \<Rightarrow> [])"

definition ssh_checks :: "system \<Rightarrow> dict list" where
  "ssh_checks h =
     (let ssh = text_at h ''/etc/ssh/sshd_config''; mentioned = contains (lower ssh) ''permitrootlogin'';
          pw = rx_search True password_pattern ssh in
      [cis_ok (\<not> mentioned \<or> \<not> found True root_login_pattern ssh) ''5.2.10'' ''SSH PermitRootLogin no es yes''
         (if mentioned then ''PermitRootLogin presente'' else ''sin sshd_config''),
       cis_ok (case pw of Some cs \<Rightarrow> lower (group_of cs 1) \<noteq> ''yes'' | None \<Rightarrow> True) ''5.2.7''
         ''SSH PasswordAuthentication no es yes (preferible claves)''
         (case pw of Some cs \<Rightarrow> group_of cs 0 | None \<Rightarrow> ''default'')])"

definition max_days_check :: "system \<Rightarrow> dict" where
  "max_days_check h =
     (let m = rx_search False max_days_pattern (text_at h ''/etc/login.defs'') in
      cis_ok (case m of Some cs \<Rightarrow> 0 < digits_val (group_of cs 1) \<and> digits_val (group_of cs 1) \<le> 365 | None \<Rightarrow> False)
        ''5.4.1.1'' ''PASS_MAX_DAYS <= 365'' (case m of Some cs \<Rightarrow> group_of cs 0 | None \<Rightarrow> ''ausente''))"

definition mode_table :: "(string \<times> int \<times> string \<times> string) list" where
  "mode_table = [(''/etc/passwd'', 420, ''6.1.2'', ''Permisos /etc/passwd 0644 o m'' @ [CHR 0xE1] @ ''s estrictos''),
     (''/etc/shadow'', 416, ''6.1.3'', ''Permisos /etc/shadow 0640 o m'' @ [CHR 0xE1] @ ''s estrictos''),
     (''/etc/group'', 420, ''6.1.4'', ''Permisos /etc/group 0644 o m'' @ [CHR 0xE1] @ ''s estrictos'')]"

definition firewall_check :: "system \<Rightarrow> dict" where
  "firewall_check h =
     (let fw = list_ex (\<lambda>t. which h t \<noteq> None) [''ufw'', ''nft'', ''iptables'', ''firewall-cmd''];
          ufw = (which h ''ufw'' \<noteq> None); out = stdout_of h [''ufw'', ''status''] in
      cis_ok (if ufw then contains (lower out) ''active'' \<or> fw else fw) ''3.5'' ''Firewall local presente (ufw/nft/iptables)''
        (if ufw then take 120 (if out = [] then stderr_of h [''ufw'', ''status''] else out)
         else if fw then ''presente'' else ''no se encontr'' @ [CHR 0xF3] @ '' ufw/nft/iptables''))"

definition shadow_check :: "system \<Rightarrow> dict list" where
  "shadow_check h = (case read_text h ''/etc/shadow'' of
      Some (c # s) \<Rightarrow>
       (let vacant = list_ex (\<lambda>l. let ps = split_char (CHR '':'') l in length ps \<ge> 2 \<and> ps ! 0 \<noteq> [] \<and> ps ! 1 = [])
              (splitlines (c # s)) in
        [cis_ok (\<not> vacant) ''6.2.1'' (''Ninguna cuenta con contrase'' @ [CHR 0xF1] @ ''a vac'' @ [CHR 0xED] @ ''a en /etc/shadow'')
           (if vacant then ''vacia'' else ''ok'')])
    | _ \<Rightarrow> [])"

definition unused_fs :: "string list" where
  "unused_fs = [''cramfs'', ''freevxfs'', ''jffs2'', ''hfs'', ''hfsplus'', ''udf'']"

definition modprobe_check :: "system \<Rightarrow> dict" where
  "modprobe_check h =
     (let names = (case list_dir h ''/etc/modprobe.d'' of Some ns \<Rightarrow> ns | None \<Rightarrow> []);
          blob = concat (map (\<lambda>n. text_at h (''/etc/modprobe.d/'' @ n)) names);
          disabled = length (filter (\<lambda>fs. found False
             (lit ''install'' @ [some_of Space] @ lit fs @ [some_of Space] @ lit ''/bin/true'') blob) unused_fs) in
      cis_ok (disabled \<ge> 1) ''1.1.1'' ''Al menos un FS innecesario bloqueado en modprobe.d''
        (nat_digits disabled @ ''/6''))"

definition cis_linux :: "system \<Rightarrow> dict list" where
  "cis_linux h =
     [cis_ok (strip (text_at h ''/proc/sys/kernel/randomize_va_space'') = ''2'') ''1.5.1''
        ''ASLR habilitado (randomize_va_space=2)'' (strip (text_at h ''/proc/sys/kernel/randomize_va_space''))]
     @ ssh_checks h @ [max_days_check h] @ map (mode_check h) mode_table @ [firewall_check h,
        cis_ok (which h ''sudo'' \<noteq> None) ''5.3.1'' ''sudo instalado''
          (case which h ''sudo'' of Some (c # s) \<Rightarrow> c # s | _ \<Rightarrow> ''ausente'')]
     @ shadow_check h @ [modprobe_check h]"

definition firewall_profile_cmd :: "string list" where
  "firewall_profile_cmd = [''powershell'', ''-NoProfile'', ''-Command'', ''Get-NetFirewallProfile | ConvertTo-Json'']"

definition uac_cmd :: "string list" where
  "uac_cmd = [''reg'', ''query'', ''HKLM'' @ [CHR 0x5C] @ ''SOFTWARE'' @ [CHR 0x5C] @ ''Microsoft'' @ [CHR 0x5C] @ ''Windows''
     @ [CHR 0x5C] @ ''CurrentVersion'' @ [CHR 0x5C] @ ''Policies'' @ [CHR 0x5C] @ ''System'', ''/v'', ''EnableLUA'']"

definition smb_cmd :: "string list" where
  "smb_cmd = [''powershell'', ''-NoProfile'', ''-Command'',
     ''(Get-WindowsOptionalFeature -Online -FeatureName SMB1Protocol).State'']"

definition cis_windows :: "system \<Rightarrow> dict list" where
  "cis_windows h =
     (let fw = stdout_of h firewall_profile_cmd; uac = stdout_of h uac_cmd; state = strip (stdout_of h smb_cmd) in
      [cis_ok ((contains (lower fw) ''true'' \<and> contains (lower fw) ''enabled'')
                \<or> contains (stdout_of h [''netsh'', ''advfirewall'', ''show'', ''allprofiles'']) ''ON'')
         ''9.1'' ''Firewall de Windows habilitado'' (take 120 fw),
       cis_ok (contains uac ''0x1'') ''2.3.17'' ''UAC (EnableLUA) activo'' (take 120 (if uac = [] then stderr_of h uac_cmd else uac)),
       cis_ok (lower state \<in> {''disabled'', ''disablepending'', []}) ''18.3.1'' ''SMBv1 deshabilitado''
         (if state = [] then ''desconocido'' else state)])"

definition cis_score :: "system \<Rightarrow> string \<Rightarrow> dict list \<Rightarrow> dict" where
  "cis_score h os checks =
     (let n = max 1 (length checks); passed = length (filter (\<lambda>c. truthy (getv c ''passed'')) checks) in
      [(''tool'', JStr ''cis_score''), (''status'', JStr ''OK''), (''os'', JStr os),
       (''benchmark'', JStr ''CIS subset Level 1 (agente)''),
       (''score'', JFloat (Fin (rat_of_int (round_half_even (1000 * of_nat passed / of_nat n)) / 10))),
       (''passed'', JInt (int passed)), (''total'', JInt (int n)), (''checks'', JList (map JObj checks)),
       (''ts'', JStr (clock_text h)), (''error'', JNull)])"

section \<open>Rootkit heuristics\<close>

record rootkit_input =
  proc_pids :: "int list"
  ps_pids :: "int list"
  modules_file :: bool
  suid_files :: "string list"

definition first_word :: "string \<Rightarrow> string" where
  "first_word l = (case split_words l of [] \<Rightarrow> [] | w # ws \<Rightarrow> w)"

definition first_words :: "string list \<Rightarrow> string list" where
  "first_words ls = filter (\<lambda>w. w \<noteq> []) (map first_word ls)"

definition finding :: "string \<Rightarrow> string \<Rightarrow> string \<Rightarrow> string \<Rightarrow> json \<Rightarrow> dict" where
  "finding fid severity summary key v = [(''id'', JStr fid), (''severity'', JStr severity), (''summary'', JStr summary), (key, v)]"

definition pid_findings :: "rootkit_input \<Rightarrow> dict list" where
  "pid_findings i =
     (let hidden = take 30 (sort (filter (\<lambda>p. p \<notin> set (ps_pids i)) (remdups (proc_pids i))));
          missing = take 30 (sort (filter (\<lambda>p. p \<notin> set (proc_pids i)) (remdups (ps_pids i)))) in
      if proc_pids i = [] \<or> ps_pids i = [] then []
      else (if hidden \<noteq> [] then [finding ''RK-01'' ''high'' ''PIDs en /proc no visibles para psutil'' ''pids'' (JList (map JInt hidden))] else [])
         @ (if missing \<noteq> [] then [finding ''RK-02'' ''medium'' ''PIDs de psutil ausentes en /proc'' ''pids'' (JList (map JInt missing))] else []))"

definition module_findings :: "system \<Rightarrow> rootkit_input \<Rightarrow> dict list" where
  "module_findings h i =
     (let listed = first_words (splitlines (text_at h ''/proc/modules''));
          shown = first_words (drop 1 (splitlines (stdout_of h [''lsmod''])));
          extra = take 20 (sort (filter (\<lambda>m. m \<notin> set shown) (remdups listed))) in
      if modules_file i \<and> which h ''lsmod'' \<noteq> None \<and> extra \<noteq> []
      then [finding ''RK-04'' ''high'' (''M'' @ [CHR 0xF3] @ ''dulos en /proc/modules no listados por lsmod'') ''modules'' (JList (map JStr extra))]
      else [])"

definition rootkit_check :: "system \<Rightarrow> rootkit_input \<Rightarrow> dict" where
  "rootkit_check h i =
     (let taint = strip (text_at h ''/proc/sys/kernel/tainted'');
          fs = pid_findings i
            @ (if taint \<notin> {''0'', []} then [finding ''RK-03'' ''medium'' (''Kernel tainted (m'' @ [CHR 0xF3] @ ''dulos/oops)'') ''taint'' (JStr taint)] else [])
            @ module_findings h i
            @ (if suid_files i \<noteq> [] then [finding ''RK-05'' ''high'' ''Binarios SUID en directorios temporales'' ''paths''
                 (JList (map JStr (take 20 (suid_files i))))] else []) in
      [(''tool'', JStr ''rootkit_check''), (''status'', JStr ''OK''), (''count'', JInt (int (length fs))),
       (''findings'', JList (map JObj fs)), (''proc_pids'', JInt (int (length (remdups (proc_pids i))))),
       (''psutil_pids'', JInt (int (length (remdups (ps_pids i))))), (''ts'', JStr (clock_text h)), (''error'', JNull)])"

section \<open>Cached names\<close>

definition letter_cls :: "char list \<Rightarrow> cls" where
  "letter_cls extra = Ranges [(CHR ''a'', CHR ''z''), (CHR ''A'', CHR ''Z'')] extra"

definition fqdn_pattern :: "rx list" where
  "fqdn_pattern = [Grp 1 [some_of (Ranges [(CHR ''a'', CHR ''z''), (CHR ''A'', CHR ''Z''), (CHR ''0'', CHR ''9'')] ''_.-''),
     one (OneOf ''.''), Chars (letter_cls []) 2 None]]"

definition dns_cache_linux :: "system \<Rightarrow> dict list" where
  "dns_cache_linux h =
     (if which h ''resolvectl'' = None then []
      else take 80 (List.map_filter (\<lambda>l. let line = strip l in
         if line = [] \<or> startswith line ''Query'' \<or> (contains (lower line) ''cache'' \<and> CHR '':'' \<notin> set line) then None
         else map_option (\<lambda>cs. [(''domain'', JStr (group_of cs 1)), (''raw'', JStr (take 200 line)), (''source'', JStr ''resolvectl'')])
                (rx_search False fqdn_pattern line)) (splitlines (stdout_of h [''resolvectl'', ''show-cache'']))))"

section \<open>Properties: integrity\<close>

definition fim_state :: "baseline \<Rightarrow> string \<Rightarrow> (json \<times> json) option" where
  \<comment> \<open>what the comparison looks at: presence, hash and existence\<close>
  "fim_state b p = map_option (\<lambda>r. (getv r ''sha256'', getv r ''exists'')) (map_of b p)"

lemma fim_event_path [simp]: "getv (fim_event c p r v) ''path'' = JStr p"
  by (simp add: fim_event_def)

lemma sort_filter_set: "set (sort (filter P xs)) = {x \<in> set xs. P x}"
  by auto

lemma fim_paths:
  "map (\<lambda>ev. getv ev ''path'') (fim_diff prev cur) = map JStr
     (sort (filter (\<lambda>p. \<not> has p prev) (keys cur)) @ sort (filter (\<lambda>p. \<not> has p cur) (keys prev))
      @ filter (fim_changed prev cur) (sort (filter (\<lambda>p. has p cur) (keys prev))))"
  by (simp add: fim_diff_def o_def)

lemma has_keys: "has p b \<longleftrightarrow> p \<in> set (keys b)"
  by (auto simp: has_map_of keys_def map_of_eq_None_iff)

lemma fim_changed_state:
  "has p prev \<Longrightarrow> has p cur \<Longrightarrow> fim_changed prev cur p \<longleftrightarrow> fim_state prev p \<noteq> fim_state cur p"
  by (auto simp: fim_changed_def fim_state_def entry_def has_map_of)

text \<open>
  C29: The comparison of two integrity baselines reports exactly the paths that were added,
  removed, or whose hash or existence differs, and no path twice. A change of the owner alone is
  not reported, although the baseline records the owner.
\<close>

theorem fim_diff_reports_exactly:
  assumes "distinct (map fst prev)" "distinct (map fst cur)"
  shows "{p. JStr p \<in> set (map (\<lambda>ev. getv ev ''path'') (fim_diff prev cur))} = {p. fim_state prev p \<noteq> fim_state cur p}
    \<and> distinct (map (\<lambda>ev. getv ev ''path'') (fim_diff prev cur))"
proof
  have st: "fim_state b p = None \<longleftrightarrow> \<not> has p b" for b p by (simp add: fim_state_def has_map_of)
  have "JStr p \<in> set (map (\<lambda>ev. getv ev ''path'') (fim_diff prev cur)) \<longleftrightarrow> fim_state prev p \<noteq> fim_state cur p" for p
  proof -
    have "JStr p \<in> set (map (\<lambda>ev. getv ev ''path'') (fim_diff prev cur)) \<longleftrightarrow>
        (has p cur \<and> \<not> has p prev) \<or> (has p prev \<and> \<not> has p cur) \<or> (has p prev \<and> has p cur \<and> fim_changed prev cur p)"
      unfolding fim_paths by (auto simp: has_keys)
    also have "\<dots> \<longleftrightarrow> fim_state prev p \<noteq> fim_state cur p"
      using st [of prev p] st [of cur p] fim_changed_state [of p prev cur] by (cases "has p prev"; cases "has p cur") auto
    finally show ?thesis .
  qed
  then show "{p. JStr p \<in> set (map (\<lambda>ev. getv ev ''path'') (fim_diff prev cur))} = {p. fim_state prev p \<noteq> fim_state cur p}"
    by blast
  show "distinct (map (\<lambda>ev. getv ev ''path'') (fim_diff prev cur))"
    unfolding fim_paths using assms
    by (subst distinct_map) (auto simp: keys_def has_keys inj_on_def)
qed

definition sample_baseline :: "string \<Rightarrow> baseline" where
  "sample_baseline h = [(''/etc/passwd'', [(''sha256'', JStr h), (''exists'', JBool True)])]"

theorem fim_diff_reports_exactly_witness:
  "{p. JStr p \<in> set (map (\<lambda>ev. getv ev ''path'') (fim_diff (sample_baseline ''aa'') (sample_baseline ''bb'')))}
     = {p. fim_state (sample_baseline ''aa'') p \<noteq> fim_state (sample_baseline ''bb'') p}
   \<and> distinct (map (\<lambda>ev. getv ev ''path'') (fim_diff (sample_baseline ''aa'') (sample_baseline ''bb'')))"
  by (rule fim_diff_reports_exactly) (simp_all add: sample_baseline_def)

section \<open>Properties: persistence\<close>

lemma dset_single [simp]: "dset k v [] = [(k, v)]" "dset k v [(k, w)] = [(k, v)]"
  by (simp_all add: dset_def)

text \<open>
  Entries with the same kind and path share one fingerprint, and the values of a registry run
  key all have the path of the key: only the last value is seen. Adding or changing any other
  value leaves the fingerprint as it was.
\<close>

theorem run_key_values_collide:
  assumes "list_all (\<lambda>rec. fp_key rec = fp_key x) (xs @ ys)"
  shows "persistence_fingerprint [(''items'', JList (map JObj (xs @ [x])))]
       = persistence_fingerprint [(''items'', JList (map JObj (ys @ [x])))]"
proof -
  have one: "\<exists>r. fold (\<lambda>rec. dset (fp_key rec) rec) zs [] \<in> {[], [(fp_key x, r)]}"
    if "list_all (\<lambda>rec. fp_key rec = fp_key x) zs" for zs
    using that
  proof (induction zs rule: rev_induct)
    case (snoc z zs)
    then obtain r where "fold (\<lambda>rec. dset (fp_key rec) rec) zs [] \<in> {[], [(fp_key x, r)]}" by auto
    then show ?case using snoc.prems by auto
  qed simp
  have fp: "persistence_fingerprint [(''items'', JList (map JObj (zs @ [x])))] = [(fp_key x, x)]"
    if z: "list_all (\<lambda>rec. fp_key rec = fp_key x) zs" for zs
  proof -
    obtain r where "fold (\<lambda>rec. dset (fp_key rec) rec) zs [] \<in> {[], [(fp_key x, r)]}" using one [OF z] by blast
    then show ?thesis by (elim insertE) (simp_all add: persistence_fingerprint_def recs_def o_def)
  qed
  show ?thesis using fp [of xs] fp [of ys] assms by (simp add: list_all_iff)
qed

definition run_value :: "string \<Rightarrow> string \<Rightarrow> dict" where
  "run_value name v = [(''kind'', JStr ''registry_run''), (''path'', JStr ''HKLM Run''), (''name'', JStr name),
     (''value'', JStr v), (''sha256'', JStr (name @ v))]"

theorem run_key_values_collide_witness:
  "persistence_fingerprint [(''items'', JList (map JObj ([run_value ''evil'' ''m.exe''] @ [run_value ''zz'' ''ok.exe''])))]
   = persistence_fingerprint [(''items'', JList (map JObj ([] @ [run_value ''zz'' ''ok.exe''])))]"
  by (rule run_key_values_collide) (simp add: run_value_def fp_key_def fp_name_def)

section \<open>Properties: logs, rules and checks\<close>

text \<open>
  The user of a failed login for an unknown account is reported as the words before its name:
  the optional group keeps its trailing blank, so it is not among the words that are skipped.
\<close>

lemma invalid_user_misread:
  "auth_user [(1, ''password''), (2, ''invalid user ''), (3, u)] = JStr ''invalid user ''"
proof -
  have "lower ''password'' = ''password''" "lower ''invalid user '' = ''invalid user ''" by code_simp+
  then show ?thesis by (simp add: auth_user_def auth_words_def)
qed

lemma contains_left: "contains a p \<Longrightarrow> contains (a @ b) p"
proof (induction a)
  case Nil
  then show ?case by (cases b) (simp_all add: startswith_def)
next
  case (Cons c a)
  then show ?case by (auto simp: startswith_iff) (metis append_assoc append_Cons)
qed

text \<open>
  A process whose program lies below \<open>/tmp/\<close> is always reported by the detection rules.
\<close>

theorem tmp_programs_are_detected:
  assumes "getv proc ''exe'' = JStr e" "contains (lower e) ''/tmp/''"
  shows "\<exists>hit \<in> set (match_detection_rules proc). getv hit ''rule_id'' = JStr ''SEC-003'' \<and> getv hit ''pid'' = getv proc ''pid''"
proof -
  have l: "lower ''/tmp/'' = ''/tmp/''" by code_simp
  have ex: "lower (str_or (getv proc ''exe'') []) = lower e" using assms by (cases e) (simp_all add: lower_def)
  let ?r = "detection_rules ! 2"
  have r: "?r \<in> set detection_rules" "rule_id ?r = ''SEC-003''" by (simp_all add: detection_rules_def eval_nat_numeral)
  have t: "\<exists>ps. rule_test ?r = Prefixes (''/tmp/'' # ps)" by (simp add: detection_rules_def eval_nat_numeral)
  then obtain ps where ps: "rule_test ?r = Prefixes (''/tmp/'' # ps)" by blast
  have "contains (lower e @ '' '' @ lower (proc_cmdline proc)) ''/tmp/''" by (rule contains_left [OF assms(2)])
  then have "rule_hits proc ?r" using assms(2) by (simp add: rule_hits_def ps from_tmp_def ex l)
  then have "detection_hit ?r proc \<in> set (match_detection_rules proc)" using r(1) by (simp add: match_detection_rules_def)
  then show ?thesis using r(2) by (intro bexI [of _ "detection_hit ?r proc"]) (simp_all add: detection_hit_def)
qed

definition sample_proc :: dict where
  "sample_proc = [(''pid'', JInt 7), (''exe'', JStr ''/tmp/x''), (''name'', JStr ''x'')]"

theorem tmp_programs_are_detected_witness:
  "\<exists>hit \<in> set (match_detection_rules sample_proc). getv hit ''rule_id'' = JStr ''SEC-003'' \<and> getv hit ''pid'' = JInt 7"
proof -
  have "contains (lower ''/tmp/x'') ''/tmp/''" by code_simp
  then show ?thesis using tmp_programs_are_detected [of sample_proc "''/tmp/x''"] by (simp add: sample_proc_def)
qed

text \<open>
  Permission bits are compared as numbers: a shadow file with mode 0604, which everybody may
  read, passes the check for 0640 or stricter, and with \<open>ufw\<close> installed the firewall check
  passes whatever its status is.
\<close>

theorem hardening_checks_are_too_weak:
  assumes "file_mode h ''/etc/shadow'' = Inl m" "m \<le> 416" "which h ''ufw'' = Some w"
  shows "getv (mode_check h (mode_table ! 1)) ''passed'' = JBool True \<and> getv (firewall_check h) ''passed'' = JBool True"
  using assms by (simp add: mode_check_def mode_table_def cis_ok_def firewall_check_def Let_def)

definition open_system :: system where
  "open_system = \<lparr>read_text = (\<lambda>p. None), which = (\<lambda>t. Some t), run_cmd = (\<lambda>c. (0, ''Status: inactive'', [])),
     list_dir = (\<lambda>p. None), file_mode = (\<lambda>p. Inl 388), clock_text = []\<rparr>"

theorem hardening_checks_are_too_weak_witness:
  "getv (mode_check open_system (mode_table ! 1)) ''passed'' = JBool True
   \<and> getv (firewall_check open_system) ''passed'' = JBool True \<and> oct_text 388 = ''0o604''"
proof -
  have "oct_text 388 = ''0o604''" by code_simp
  then show ?thesis using hardening_checks_are_too_weak [of open_system 388 "''ufw''"] by (simp add: open_system_def)
qed

end
