(* ===== verification/Watcher.thy ===== *)
theory Watcher
  imports Py_Prelude
begin

text \<open>
  What the watch loops of the monitors share: a tick compares a snapshot with the one of the tick
  before, the first tick only remembers its snapshot, and a cap bounds the events of a tick. The
  loops are interpreted by the security, observability, Linux and Windows monitors.
\<close>

section \<open>Capped loops\<close>

primrec capped :: "nat \<Rightarrow> 'e list \<Rightarrow> 'e list \<Rightarrow> 'e list" where
  \<comment> \<open>the loop that breaks when the collected events have reached the cap\<close>
  "capped n [] acc = acc"
| "capped n (e # es) acc = (if length acc \<ge> n then acc else capped n es (acc @ [e]))"

lemma capped_take: "length acc \<le> n \<Longrightarrow> capped n es acc = acc @ take (n - length acc) es"
proof (induction es arbitrary: acc)
  case (Cons e es)
  then show ?case by (cases "length acc = n") (simp_all add: Suc_diff_Suc take_Cons')
qed simp

lemma capped_Nil [simp]: "capped n es [] = take n es"
  by (simp add: capped_take)

definition iter_by :: "('k \<Rightarrow> nat) \<Rightarrow> 'k list \<Rightarrow> 'k list" where
  \<comment> \<open>the elements of a set in its order of iteration, given by the rank of each element\<close>
  "iter_by rank xs = sort_key rank xs"

lemma iter_by_simps [simp]: "set (iter_by rank xs) = set xs" "iter_by rank [] = []" "length (iter_by rank xs) = length xs"
  "distinct (iter_by rank xs) = distinct xs"
  by (simp_all add: iter_by_def)

section \<open>Ticks against a remembered snapshot\<close>

locale watcher =
  fixes tick :: "'cur \<Rightarrow> 's option \<Rightarrow> 'ev list \<times> 's option"
    and view :: "'cur \<Rightarrow> 's"
    and diff :: "'cur \<Rightarrow> 's \<Rightarrow> 'ev list"
  assumes first_tick: "tick c None = ([], Some (view c))"
    and later_tick: "tick c (Some s) = (diff c s, Some (view c))"
begin

primrec watch :: "'cur list \<Rightarrow> 's option \<Rightarrow> 'ev list list \<times> 's option" where
  "watch [] s = ([], s)"
| "watch (c # cs) s = (case tick c s of (evs, s) \<Rightarrow> (case watch cs s of (rest, s) \<Rightarrow> (evs # rest, s)))"

lemma watch_state: "cs \<noteq> [] \<Longrightarrow> snd (watch cs s) = Some (view (last cs))"
proof (induction cs arbitrary: s)
  case (Cons c cs)
  have "snd (tick c s) = Some (view c)" by (cases s) (simp_all add: first_tick later_tick)
  then show ?case using Cons.IH [of "snd (tick c s)"] by (cases cs) (auto simp: case_prod_unfold)
qed simp

lemma watch_events: "fst (watch cs (Some s)) = map2 diff cs (s # map view cs)"
  by (induction cs arbitrary: s) (simp_all add: later_tick case_prod_unfold)

lemma watch_from_start: "fst (watch (c # cs) None) = [] # map2 diff cs (view c # map view cs)"
  by (simp add: first_tick case_prod_unfold watch_events)

end

locale quiet_watcher = watcher tick view diff
  for tick :: "'cur \<Rightarrow> 's option \<Rightarrow> 'ev list \<times> 's option" and view :: "'cur \<Rightarrow> 's" and diff :: "'cur \<Rightarrow> 's \<Rightarrow> 'ev list" +
  assumes quiet: "diff c (view c) = []"
begin

lemma unreported_is_lost: "fst (tick c (snd (tick c s))) = []"
  by (cases s) (simp_all add: first_tick later_tick quiet)

lemma repeated_snapshots_are_silent: "fst (watch (replicate n c) (Some (view c))) = replicate n []"
  by (induction n) (simp_all add: later_tick quiet case_prod_unfold)

end

locale capped_watcher = quiet_watcher tick view diff
  for tick :: "'cur \<Rightarrow> 's option \<Rightarrow> 'ev list \<times> 's option" and view :: "'cur \<Rightarrow> 's" and diff :: "'cur \<Rightarrow> 's \<Rightarrow> 'ev list" +
  fixes cap :: nat and full :: "'cur \<Rightarrow> 's \<Rightarrow> 'ev list"
  assumes capped: "diff c s = take cap (full c s)"
begin

lemma complete_below_cap: "length (full c s) \<le> cap \<Longrightarrow> fst (tick c (Some s)) = full c s"
  by (simp add: later_tick capped)

lemma rest_is_lost:
  "fst (tick c (Some s)) = take cap (full c s) \<and> fst (tick c (snd (tick c (Some s)))) = []"
  using unreported_is_lost [of c "Some s"] by (simp add: later_tick capped)

end

end
