(* ===== verification/Sec_Monitors.thy ===== *)
theory Sec_Monitors
  imports Endpoint_Scan Security Watcher
begin

text \<open>
  The security monitors of the agent, \<^verbatim>\<open>colsoft_tools/sec_monitors.py\<close>: the state
  each watcher keeps between its ticks and the events of a tick, the passes that hand the events
  to the sink, the active response, and the choice of the monitors that are started. Scans,
  process lists, clocks, the sink and the executor are inputs; the sink and the executor act on
  a state of their own.
\<close>

section \<open>Events and configuration\<close>

definition interval_of :: "json \<Rightarrow> rat \<Rightarrow> rat \<Rightarrow> pyfloat res" where
  "interval_of v dflt minimum =
     (case py_float v of
        Inr n \<Rightarrow> Inr (fmax (Fin minimum) n)
      | Inl e \<Rightarrow> if e \<in> {TypeError, ValueError} then Inr (fmax (Fin minimum) (Fin dflt)) else Inl e)"

definition sec_block :: "dict \<Rightarrow> dict" where
  "sec_block conf = obj_of (getv conf ''security'')"

definition sec_sub :: "dict \<Rightarrow> string \<Rightarrow> dict" where
  "sec_sub conf k = obj_of (getv (sec_block conf) k)"

definition sec_event :: "string \<Rightarrow> string \<Rightarrow> string \<Rightarrow> string \<Rightarrow> string \<Rightarrow> dict \<Rightarrow> dict" where
  \<comment> \<open>time, type, severity, tool, summary and the further fields that are not \<open>None\<close>\<close>
  "sec_event ts et severity tool summary extra =
     dupdate [(''event_type'', JStr et), (''category'', JStr ''security''), (''severity'', JStr severity),
        (''tool'', JStr tool), (''summary'', JStr summary), (''ts'', JStr ts)] (filter (\<lambda>(k, v). v \<noteq> JNull) extra)"

primrec emit_all :: "(dict \<Rightarrow> 's \<Rightarrow> unit res \<times> 's) \<Rightarrow> dict list \<Rightarrow> 's \<Rightarrow> unit res \<times> 's" where
  \<comment> \<open>the loop of a pass over its events; an exception ends the pass and is logged\<close>
  "emit_all sink [] s = (Inr (), s)"
| "emit_all sink (e # es) s = (case sink e s of (Inl x, s) \<Rightarrow> (Inl x, s) | (Inr u, s) \<Rightarrow> emit_all sink es s)"

section \<open>Integrity of files\<close>

definition rec_of_path :: "dict \<Rightarrow> string \<Rightarrow> dict" where
  \<comment> \<open>the last record of the scan with this path\<close>
  "rec_of_path scan p = (case find (\<lambda>r. getv r ''path'' = JStr p) (rev (recs scan ''files'')) of Some r \<Rightarrow> r | None \<Rightarrow> [])"

definition fim_notice :: "string \<Rightarrow> (string \<Rightarrow> json) \<Rightarrow> dict \<Rightarrow> dict \<Rightarrow> dict" where
  "fim_notice ts proc_for scan diff =
     (let p = py_str (getv diff ''path''); rec = rec_of_path scan p; process = py_or (getv rec ''process'') (proc_for p) in
      sec_event ts ''security.fim_change'' ''high'' ''fim_scan''
        (''FIM '' @ py_str (getv diff ''change'') @ '': '' @ p)
        [(''change'', getv diff ''change''), (''path'', getv diff ''path''), (''sha256'', getv diff ''sha256''),
         (''prev_sha256'', getv diff ''prev_sha256''), (''user'', py_or (getv diff ''user'') (getv rec ''user'')),
         (''uid'', py_or (getv diff ''uid'') (getv rec ''uid'')), (''process'', process),
         (''pid'', getv (obj_of process) ''pid''), (''name'', getv (obj_of process) ''name'')])"

definition fim_tick :: "string \<Rightarrow> (string \<Rightarrow> json) \<Rightarrow> dict \<Rightarrow> baseline option \<Rightarrow> dict list \<times> baseline option" where
  "fim_tick ts proc_for scan base =
     (let cur = fim_baseline_from_scan scan in
      case base of
        None \<Rightarrow> ([], Some cur)
      | Some b \<Rightarrow> (map (fim_notice ts proc_for scan) (fim_diff b cur), Some cur))"

section \<open>Persistence\<close>

definition persistence_event :: "string \<Rightarrow> string \<Rightarrow> string \<Rightarrow> string \<Rightarrow> string \<times> dict \<Rightarrow> dict" where
  \<comment> \<open>time, severity, words of the summary, change\<close>
  "persistence_event ts severity word change = (\<lambda>(k, rec).
     sec_event ts ''security.persistence_detected'' severity ''persistence_scan''
       (word @ '' '' @ py_str (getv rec ''kind'') @ '': '' @ k)
       ([(''change'', JStr change), (''kind'', getv rec ''kind''), (''path'', py_or (getv rec ''path'') (getv rec ''name''))]
        @ (if change = ''deleted'' then [] else [(''sha256'', getv rec ''sha256'')]) @ [(''item'', JObj rec)]))"

definition pick_keys :: "baseline \<Rightarrow> (string \<Rightarrow> bool) \<Rightarrow> (string \<times> dict) list" where
  \<comment> \<open>the entries whose key satisfies the test, by key\<close>
  "pick_keys b P = map (\<lambda>k. (k, entry b k)) (sort (filter P (keys b)))"

definition persistence_tick :: "string \<Rightarrow> dict \<Rightarrow> baseline option \<Rightarrow> dict list \<times> baseline option" where
  "persistence_tick ts scan seen =
     (let cur = persistence_fingerprint scan in
      case seen of
        None \<Rightarrow> ([], Some cur)
      | Some old \<Rightarrow>
         (map (persistence_event ts ''high'' ''Nueva persistencia'' ''created'') (pick_keys cur (\<lambda>k. \<not> has k old))
        @ map (persistence_event ts ''high'' ''Persistencia modificada'' ''modified'')
            (pick_keys cur (\<lambda>k. has k old \<and> getv (entry cur k) ''sha256'' \<noteq> getv (entry old k) ''sha256''))
        @ map (persistence_event ts ''medium'' ''Persistencia eliminada'' ''deleted'') (pick_keys old (\<lambda>k. \<not> has k cur)),
          Some cur))"

section \<open>Authentication\<close>

type_synonym auth_key = "json \<times> json \<times> json"

definition auth_key :: "dict \<Rightarrow> auth_key" where
  "auth_key rec = (getv rec ''action'', getv rec ''user'', getv rec ''message'')"

definition auth_notice :: "string \<Rightarrow> dict \<Rightarrow> dict" where
  "auth_notice ts rec = sec_event ts ''security.auth'' (str_or (getv rec ''severity'') ''medium'') ''auth_audit''
     (py_str (getv rec ''action'') @ '' user='' @ py_str (getv rec ''user''))
     [(''action'', getv rec ''action''), (''user'', getv rec ''user''), (''mitre_technique'', getv rec ''mitre_technique''),
      (''message'', getv rec ''message''), (''source'', getv rec ''source'')]"

definition auth_tick :: "string \<Rightarrow> dict \<Rightarrow> auth_key set option \<Rightarrow> dict list \<times> auth_key set option" where
  \<comment> \<open>\<open>None\<close> until the first tick\<close>
  "auth_tick ts snap seen =
     (let evs = recs snap ''events'' in
      ((case seen of None \<Rightarrow> [] | Some old \<Rightarrow> map (auth_notice ts) (filter (\<lambda>r. auth_key r \<notin> old) evs)),
       Some (set (map auth_key evs))))"

section \<open>Detection\<close>

record engine =
  per_tick :: nat
  cooldown :: pyfloat

type_synonym fires = "(string \<times> rat) list"

definition last_fire :: "fires \<Rightarrow> string \<Rightarrow> rat" where
  \<comment> \<open>\<open>get(key, 0.0)\<close>\<close>
  "last_fire f k = (case map_of f k of Some t \<Rightarrow> t | None \<Rightarrow> 0)"

definition cooling :: "pyfloat \<Rightarrow> rat \<Rightarrow> fires \<Rightarrow> string \<Rightarrow> bool" where
  "cooling cd now f k \<longleftrightarrow> flt (Fin (now - last_fire f k)) cd"

definition hit_key :: "dict \<Rightarrow> string" where
  "hit_key hit = py_str (getv hit ''rule_id'') @ '':'' @ py_str (getv hit ''pid'') @ '':'' @ py_str (getv hit ''cmdline'')"

definition detection_notice :: "string \<Rightarrow> dict \<Rightarrow> dict" where
  "detection_notice ts hit = sec_event ts ''security.detection'' (str_or (getv hit ''severity'') ''high'') ''detection_scan''
     (py_str (py_or (getv hit ''summary'') (getv hit ''name'')))
     [(''rule_id'', getv hit ''rule_id''), (''mitre_technique'', getv hit ''mitre_technique''),
      (''technique'', getv hit ''mitre_technique''), (''pid'', getv hit ''pid''), (''ppid'', getv hit ''ppid''),
      (''name'', getv hit ''process''),
      (''process'', JObj [(''pid'', getv hit ''pid''), (''name'', getv hit ''process''),
         (''command_line'', getv hit ''cmdline''), (''parent'', getv hit ''ppid'')]),
      (''user'', getv hit ''user''), (''cmdline'', getv hit ''cmdline''),
      (''detection'', JObj [(''rule_id'', getv hit ''rule_id''), (''mitre_technique'', getv hit ''mitre_technique'')])]"

primrec fire_hits :: "engine \<Rightarrow> rat \<Rightarrow> dict list \<Rightarrow> dict list \<times> fires \<Rightarrow> dict list \<times> fires" where
  \<comment> \<open>the hits of one process; the state holds the hits that fire\<close>
  "fire_hits x now [] st = st"
| "fire_hits x now (h # hs) st =
     (if cooling (cooldown x) now (snd st) (hit_key h) then fire_hits x now hs st
      else (let st' = (fst st @ [h], dset (hit_key h) now (snd st)) in
            if length (fst st') \<ge> per_tick x then st' else fire_hits x now hs st'))"

primrec fire_procs :: "engine \<Rightarrow> rat \<Rightarrow> dict list list \<Rightarrow> dict list \<times> fires \<Rightarrow> dict list \<times> fires" where
  "fire_procs x now [] st = st"
| "fire_procs x now (hs # ps) st =
     (if length (fst st) \<ge> per_tick x then st else fire_procs x now ps (fire_hits x now hs st))"

definition fired :: "engine \<Rightarrow> rat \<Rightarrow> dict list \<Rightarrow> fires \<Rightarrow> dict list \<times> fires" where
  "fired x now procs f = fire_procs x now (map match_detection_rules procs) ([], f)"

definition detection_tick :: "engine \<Rightarrow> string \<Rightarrow> rat \<Rightarrow> dict list \<Rightarrow> fires \<Rightarrow> dict list \<times> fires" where
  "detection_tick x ts now procs f = (case fired x now procs f of (hits, f') \<Rightarrow> (map (detection_notice ts) hits, f'))"

section \<open>Names, rootkits, score and inventory\<close>

type_synonym dns_key = "json \<times> json \<times> json"

definition dns_key :: "dict \<Rightarrow> dns_key" where
  "dns_key rec = (py_or (getv rec ''domain'') (getv rec ''resolver''), getv rec ''pid'', getv rec ''process'')"

definition dns_notice :: "string \<Rightarrow> dict \<Rightarrow> dict" where
  "dns_notice ts rec =
     (let domain = py_or (getv rec ''domain'') (getv rec ''resolver'') in
      sec_event ts ''security.dns_query'' ''low'' ''dns_monitor''
        (''DNS '' @ py_str domain @ '' pid='' @ py_str (getv rec ''pid''))
        [(''domain'', domain), (''query'', getv rec ''domain''), (''resolver'', getv rec ''resolver''),
         (''pid'', getv rec ''pid''), (''name'', getv rec ''process''), (''user'', getv rec ''user''),
         (''cmdline'', getv rec ''cmdline''),
         (''process'', JObj [(''pid'', getv rec ''pid''), (''name'', getv rec ''process''), (''command_line'', getv rec ''cmdline'')]),
         (''network'', JObj [(''domain'', getv rec ''domain''), (''dst'', getv rec ''resolver'')])])"

definition dns_tick :: "string \<Rightarrow> dict \<Rightarrow> dns_key set option \<Rightarrow> dict list \<times> dns_key set option" where
  "dns_tick ts snap seen =
     (let qs = recs snap ''queries'' in
      ((case seen of None \<Rightarrow> [] | Some old \<Rightarrow> map (dns_notice ts) (filter (\<lambda>r. dns_key r \<notin> old) qs)),
       Some (set (map dns_key qs))))"

definition rootkit_notice :: "string \<Rightarrow> dict \<Rightarrow> dict" where
  "rootkit_notice ts rec =
     (let fid = py_str (py_or (getv rec ''id'') (getv rec ''summary'')) in
      sec_event ts ''security.rootkit_heuristic'' (str_or (getv rec ''severity'') ''high'') ''rootkit_check''
        (str_or (getv rec ''summary'') fid)
        [(''rule_id'', JStr fid), (''finding'', JObj rec), (''pids'', getv rec ''pids''),
         (''path'', (case getv rec ''paths'' of JList (p # ps) \<Rightarrow> p | _ \<Rightarrow> JNull))])"

definition rootkit_step :: "pyfloat \<Rightarrow> rat \<Rightarrow> dict \<Rightarrow> dict list \<times> fires \<Rightarrow> dict list \<times> fires" where
  "rootkit_step cd now rec st =
     (let fid = py_str (py_or (getv rec ''id'') (getv rec ''summary'')) in
      if cooling cd now (snd st) fid then st else (fst st @ [rec], dset fid now (snd st)))"

definition rootkit_tick :: "pyfloat \<Rightarrow> string \<Rightarrow> rat \<Rightarrow> dict \<Rightarrow> fires \<Rightarrow> dict list \<times> fires" where
  "rootkit_tick cd ts now snap f =
     (case fold (rootkit_step cd now) (recs snap ''findings'') ([], f) of (rs, f') \<Rightarrow> (map (rootkit_notice ts) rs, f'))"

definition cis_tick :: "pyfloat \<Rightarrow> string \<Rightarrow> dict \<Rightarrow> pyfloat option \<Rightarrow> dict list res \<times> pyfloat option" where
  \<comment> \<open>the least score, the time, the snapshot and the last score\<close>
  "cis_tick least ts snap prev =
     (case py_float (getv snap ''score'') of
        Inl e \<Rightarrow> (if e \<in> {TypeError, ValueError} then Inr [] else Inl e, prev)
      | Inr score \<Rightarrow>
         (let failed = filter (\<lambda>c. case c of JObj d \<Rightarrow> \<not> truthy (getv d ''passed'') | _ \<Rightarrow> False)
                (case getv snap ''checks'' of JList cs \<Rightarrow> cs | _ \<Rightarrow> []);
              dropped = (case prev of Some p \<Rightarrow> flt score p | None \<Rightarrow> False); below = flt score least in
          (Inr (if below \<or> dropped
             then [sec_event ts ''security.cis_finding'' (if below then ''medium'' else ''low'') ''cis_score''
                     (''CIS score '' @ float_repr score @ '' (m'' @ [CHR 0xED] @ ''n. '' @ float_repr least @ '')'')
                     [(''score'', JFloat score), (''findings_count'', JInt (int (length failed))),
                      (''checks'', JList (take 20 failed))]]
             else []), Some score)))"

definition cve_tick :: "string \<Rightarrow> dict \<Rightarrow> dict" where
  "cve_tick ts stock = [(''event_type'', JStr ''telemetry.tool_result''), (''category'', JStr ''security''),
     (''severity'', JStr ''info''), (''scheduled'', JBool True), (''tool'', JStr ''cve_inventory''),
     (''result'', JObj stock), (''ts'', JStr ts)]"

section \<open>Active response\<close>

record 's responder =
  active :: bool
  actions :: "dict list"
  policy_rules :: command_policy
  exec :: "(string \<Rightarrow> dict \<Rightarrow> 's \<Rightarrow> json res \<times> 's) option"
  manager :: string
    \<comment> \<open>\<open>manager_host_from_config\<close>\<close>

definition responder_of :: "dict \<Rightarrow> command_policy \<Rightarrow> (string \<Rightarrow> dict \<Rightarrow> 's \<Rightarrow> json res \<times> 's) option \<Rightarrow> string \<Rightarrow> 's responder" where
  "responder_of conf pol ex host =
     (let block = sec_sub conf ''auto_response'' in
      \<lparr>active = truthy (getv block ''enabled''),
       actions = map obj_of (filter is_obj (case getv block ''actions'' of JList xs \<Rightarrow> xs | _ \<Rightarrow> [])),
       policy_rules = pol, exec = ex, manager = host\<rparr>)"

definition action_for :: "'s responder \<Rightarrow> json \<Rightarrow> dict option" where
  "action_for x rid =
     (if \<not> truthy rid then None else find (\<lambda>rec. str_or (getv rec ''rule_id'') [] = py_str rid) (actions x))"

definition params_for :: "'s responder \<Rightarrow> dict \<Rightarrow> dict \<Rightarrow> dict" where
  "params_for x action event =
     (let ps = obj_of (getv action ''params''); cmd = str_or (getv action ''command'') [];
          ps = (if cmd = ''kill_process''
                then setdefault ''name'' (getv event ''name'') (setdefault ''pid'' (getv event ''pid'') ps) else ps);
          ps = (if cmd = ''block_ip''
                then setdefault ''direction'' (JStr ''output'') (setdefault ''ip'' (py_or (py_or (getv ps ''ip'')
                       (getv (obj_of (getv event ''network'')) ''dst'')) (getv event ''resolver'')) ps) else ps) in
      if cmd = ''isolate_host''
      then (let ps = setdefault ''reason'' (py_or (getv event ''summary'') (getv event ''rule_id'')) ps in
            dput_if (\<not> truthy (getv ps ''manager_host'') \<and> manager x \<noteq> []) ''manager_host'' (JStr (manager x)) ps)
      else ps)"

definition response_commands :: "string list" where
  "response_commands = [''kill_process'', ''block_ip'', ''isolate_host'']"

datatype response =
    Ignored
  | Blocked dict
  | Executed string dict dict
    \<comment> \<open>command, parameters and the event that reports it\<close>

definition maybe_respond :: "(py_exc \<Rightarrow> string) \<Rightarrow> string \<Rightarrow> 's responder \<Rightarrow> dict \<Rightarrow> 's \<Rightarrow> response \<times> 's" where
  "maybe_respond exc_text ts x event s =
     (case (exec x, action_for x (getv event ''rule_id'')) of
        (Some run, Some action) \<Rightarrow>
         (let cmd = strip (str_or (getv action ''command'') []) in
          if \<not> active x \<or> cmd \<notin> set response_commands then (Ignored, s)
          else if \<not> fst (policy_check (policy_rules x) cmd) then
            (Blocked (sec_event ts ''security.response_blocked'' ''medium'' cmd
               (''Respuesta activa bloqueada por pol'' @ [CHR 0xED] @ ''tica: '' @ cmd)
               [(''rule_id'', getv event ''rule_id''), (''action'', JStr cmd), (''error'', JStr (snd (policy_check (policy_rules x) cmd)))]), s)
          else (case run cmd (params_for x action event) s of
                  (r, s) \<Rightarrow> (Executed cmd (params_for x action event)
                    (sec_event ts ''security.response_executed'' ''high'' cmd
                       (''Respuesta activa '' @ cmd @ '' por '' @ py_str (getv event ''rule_id''))
                       [(''rule_id'', getv event ''rule_id''), (''action'', JStr cmd), (''pid'', getv event ''pid''),
                        (''name'', getv event ''name''),
                        (''result'', (case r of Inr v \<Rightarrow> v
                           | Inl e \<Rightarrow> JObj [(''status'', JStr ''ERROR''), (''error'', JStr (exc_text e))]))]), s)))
      | _ \<Rightarrow> (Ignored, s))"

primrec detect_all :: "(dict \<Rightarrow> 's \<Rightarrow> unit res \<times> 's) \<Rightarrow> (dict \<Rightarrow> 's \<Rightarrow> unit res \<times> 's) option \<Rightarrow>
    dict list \<Rightarrow> 's \<Rightarrow> unit res \<times> 's" where
  \<comment> \<open>the loop of a pass of the detection engine: the sink and, with active response, the responder\<close>
  "detect_all sink on_detection [] s = (Inr (), s)"
| "detect_all sink on_detection (e # es) s =
     (case sink e s of
        (Inl x, s) \<Rightarrow> (Inl x, s)
      | (Inr u, s) \<Rightarrow>
         (case (case on_detection of None \<Rightarrow> (Inr (), s) | Some react \<Rightarrow> react e s) of
            (Inl x, s) \<Rightarrow> (Inl x, s)
          | (Inr u, s) \<Rightarrow> detect_all sink on_detection es s))"

definition respond_and_emit :: "(py_exc \<Rightarrow> string) \<Rightarrow> string \<Rightarrow> 's responder \<Rightarrow> (dict \<Rightarrow> 's \<Rightarrow> unit res \<times> 's) \<Rightarrow>
    dict \<Rightarrow> 's \<Rightarrow> unit res \<times> 's" where
  "respond_and_emit exc_text ts x sink event s =
     (case maybe_respond exc_text ts x event s of
        (Ignored, s) \<Rightarrow> (Inr (), s)
      | (Blocked ev, s) \<Rightarrow> sink ev s
      | (Executed cmd ps ev, s) \<Rightarrow> sink ev s)"

section \<open>Start\<close>

datatype monitor =
    Fim "string list" pyfloat
  | Persistence pyfloat
  | Auth pyfloat int
  | Detection pyfloat engine bool
    \<comment> \<open>whether detections are handed to the active response\<close>
  | Dns pyfloat
  | Rootkit pyfloat pyfloat
  | Cis pyfloat pyfloat
  | Cve pyfloat

definition when_enabled :: "dict \<Rightarrow> string \<Rightarrow> (dict \<Rightarrow> monitor res) \<Rightarrow> monitor list res" where
  "when_enabled conf k mk = (if truthy (getv (sec_sub conf k) ''enabled'')
     then res_bind (mk (sec_sub conf k)) (\<lambda>m. Inr [m]) else Inr [])"

definition num_or :: "dict \<Rightarrow> string \<Rightarrow> int \<Rightarrow> json" where
  "num_or d k n = py_or (getv d k) (JInt n)"

definition cooldown_of :: "json \<Rightarrow> pyfloat res" where
  "cooldown_of v = res_bind (py_float v) (\<lambda>f. Inr (fmax (Fin 0) f))"

definition spawn_sec_tasks :: "dict \<Rightarrow> monitor list res" where
  \<comment> \<open>the monitors that are started; no task starts when a later one raises\<close>
  "spawn_sec_tasks conf =
     (if sec_block conf = [] then Inr []
      else
      res_bind (when_enabled conf ''fim'' (\<lambda>c. res_bind (interval_of (num_or c ''interval_seconds'' 60) 60 1) (\<lambda>i.
        Inr (Fim (case getv c ''paths'' of JList ps \<Rightarrow> map py_str ps | _ \<Rightarrow> []) i)))) (\<lambda>m1.
      res_bind (when_enabled conf ''persistence'' (\<lambda>c. res_bind (interval_of (num_or c ''interval_seconds'' 120) 120 1) (\<lambda>i.
        Inr (Persistence i)))) (\<lambda>m2.
      res_bind (when_enabled conf ''auth_audit'' (\<lambda>c. res_bind (py_int (num_or c ''max_entries'' 80)) (\<lambda>n.
        res_bind (interval_of (num_or c ''interval_seconds'' 30) 30 1) (\<lambda>i. Inr (Auth i (max 1 (if n = 0 then 80 else n))))))) (\<lambda>m3.
      res_bind (when_enabled conf ''detection'' (\<lambda>c. res_bind (py_int (num_or c ''max_events_per_tick'' 20)) (\<lambda>n.
        res_bind (interval_of (num_or c ''interval_seconds'' 5) 5 1) (\<lambda>i.
        res_bind (cooldown_of (num_or c ''cooldown_seconds'' 300)) (\<lambda>cd.
        Inr (Detection i \<lparr>per_tick = nat (max 1 (if n = 0 then 20 else n)), cooldown = cd\<rparr>
               (truthy (getv (sec_sub conf ''auto_response'') ''enabled''))))))) ) (\<lambda>m4.
      res_bind (when_enabled conf ''dns'' (\<lambda>c. res_bind (interval_of (num_or c ''interval_seconds'' 15) 15 1) (\<lambda>i. Inr (Dns i)))) (\<lambda>m5.
      res_bind (when_enabled conf ''rootkit'' (\<lambda>c. res_bind (interval_of (num_or c ''interval_seconds'' 300) 300 30) (\<lambda>i.
        res_bind (cooldown_of (num_or c ''cooldown_seconds'' 1800)) (\<lambda>cd. Inr (Rootkit i cd))))) (\<lambda>m6.
      res_bind (when_enabled conf ''cis'' (\<lambda>c. res_bind (py_float (num_or c ''min_score'' 70)) (\<lambda>ms.
        res_bind (interval_of (num_or c ''interval_seconds'' 3600) 3600 60) (\<lambda>i. Inr (Cis i ms))))) (\<lambda>m7.
      res_bind (when_enabled conf ''cve_inventory'' (\<lambda>c. res_bind (interval_of (num_or c ''interval_seconds'' 86400) 86400 300) (\<lambda>i.
        Inr (Cve i)))) (\<lambda>m8.
      Inr (m1 @ m2 @ m3 @ m4 @ m5 @ m6 @ m7 @ m8))))))))))"


section \<open>The watchers\<close>

text \<open>
  The ticks that compare two scans are watchers: they report what changed since the scan before,
  start silently, and say nothing twice.
\<close>

lemma fim_diff_same: "fim_diff b b = []"
  by (simp add: fim_diff_def fim_changed_def has_keys filter_empty_conv)

lemma pick_none [simp]: "(\<And>k. k \<in> set (keys b) \<Longrightarrow> \<not> P k) \<Longrightarrow> pick_keys b P = []"
  by (simp add: pick_keys_def filter_empty_conv)

interpretation fim_watch: quiet_watcher "fim_tick ts proc" fim_baseline_from_scan
    "\<lambda>scan b. map (fim_notice ts proc scan) (fim_diff b (fim_baseline_from_scan scan))" for ts proc
  by unfold_locales (simp_all add: fim_tick_def fim_diff_same Let_def)

interpretation persistence_watch: quiet_watcher "persistence_tick ts" persistence_fingerprint
    "\<lambda>scan b. fst (persistence_tick ts scan (Some b))" for ts
  by unfold_locales (simp_all add: persistence_tick_def has_keys Let_def)

interpretation auth_watch: quiet_watcher "auth_tick ts" "\<lambda>snap. set (map auth_key (recs snap ''events''))"
    "\<lambda>snap seen. map (auth_notice ts) (filter (\<lambda>r. auth_key r \<notin> seen) (recs snap ''events''))" for ts
  by unfold_locales (simp_all add: auth_tick_def Let_def filter_empty_conv)

interpretation dns_watch: quiet_watcher "dns_tick ts" "\<lambda>snap. set (map dns_key (recs snap ''queries''))"
    "\<lambda>snap seen. map (dns_notice ts) (filter (\<lambda>r. dns_key r \<notin> seen) (recs snap ''queries''))" for ts
  by unfold_locales (simp_all add: dns_tick_def Let_def filter_empty_conv)

section \<open>What the monitors promise\<close>

fun detection_run :: "engine \<Rightarrow> (rat \<times> dict list) list \<Rightarrow> fires \<Rightarrow> (rat \<times> string) list" where
  \<comment> \<open>time and key of what fires in a sequence of ticks\<close>
  "detection_run x [] f = []"
| "detection_run x ((now, procs) # ticks) f =
     map (\<lambda>h. (now, hit_key h)) (fst (fired x now procs f)) @ detection_run x ticks (snd (fired x now procs f))"

definition spaced :: "rat \<Rightarrow> (rat \<times> string) list \<Rightarrow> bool" where
  "spaced c = sorted_wrt (\<lambda>(t, k) (t', k'). k = k' \<longrightarrow> c \<le> t' - t)"

definition recorded :: "rat \<Rightarrow> rat \<Rightarrow> (rat \<times> string) list \<Rightarrow> fires \<Rightarrow> bool" where
  \<comment> \<open>invariant between the past fires and the table of last fires\<close>
  "recorded c now H f \<longleftrightarrow> spaced c H \<and> (\<forall>(t, k) \<in> set H. t \<le> last_fire f k \<and> t \<le> now)"

lemma last_fire_dset: "last_fire (dset k t f) k' = (if k' = k then t else last_fire f k')"
  by (simp add: last_fire_def)

lemma recorded_fire:
  assumes "recorded c now H f" "\<not> cooling (Fin c) now f k"
  shows "recorded c now (H @ [(now, k)]) (dset k now f)"
  using assms by (fastforce simp: recorded_def spaced_def sorted_wrt_append cooling_def last_fire_dset)

lemma recorded_hits:
  assumes "cooldown x = Fin c" "recorded c now (H @ map (\<lambda>h. (now, hit_key h)) (fst st)) (snd st)"
  shows "recorded c now (H @ map (\<lambda>h. (now, hit_key h)) (fst (fire_hits x now hs st))) (snd (fire_hits x now hs st))"
  using assms(2)
proof (induction hs arbitrary: st)
  case (Cons h hs)
  then show ?case using recorded_fire [OF Cons.prems] by (auto simp: Let_def assms(1))
qed simp

lemma recorded_procs:
  assumes "cooldown x = Fin c" "recorded c now (H @ map (\<lambda>h. (now, hit_key h)) (fst st)) (snd st)"
  shows "recorded c now (H @ map (\<lambda>h. (now, hit_key h)) (fst (fire_procs x now ps st))) (snd (fire_procs x now ps st))"
  using assms(2)
proof (induction ps arbitrary: st)
  case (Cons p ps)
  then show ?case using recorded_hits [OF assms(1) Cons.prems] by auto
qed simp

lemma recorded_run:
  assumes "cooldown x = Fin c" "sorted (map fst ticks)" "recorded c past H f" "\<forall>(t, ps) \<in> set ticks. past \<le> t"
  shows "spaced c (H @ detection_run x ticks f)"
  using assms(2-4)
proof (induction ticks arbitrary: H f past)
  case Nil
  then show ?case by (simp add: recorded_def)
next
  case (Cons tick ticks)
  obtain now procs where tick: "tick = (now, procs)" by (cases tick)
  let ?H = "H @ map (\<lambda>h. (now, hit_key h)) (fst (fired x now procs f))"
  have "recorded c now H f" using Cons.prems by (fastforce simp: recorded_def tick)
  then have "recorded c now ?H (snd (fired x now procs f))"
    using recorded_procs [OF assms(1), of now H "([], f)"] by (simp add: fired_def)
  then have "spaced c (?H @ detection_run x ticks (snd (fired x now procs f)))"
    using Cons.prems by (intro Cons.IH) (auto simp: tick)
  then show ?case by (simp add: tick)
qed

lemma fire_hits_bound:
  assumes "length (fst st) < per_tick x"
  shows "length (fst (fire_hits x now hs st)) \<le> per_tick x"
  using assms by (induction hs arbitrary: st) (auto simp: Let_def)

lemma fire_procs_bound:
  assumes "length (fst st) \<le> per_tick x"
  shows "length (fst (fire_procs x now ps st)) \<le> per_tick x"
  using assms fire_hits_bound by (induction ps arbitrary: st) auto

text \<open>
  C30: In any run of the detection engine on a clock that does not go back, two reports of one rule
  for one process are at least the cool-down apart, and no tick reports more than the configured
  number of detections.
\<close>

theorem detections_are_spaced:
  assumes "cooldown x = Fin c" "sorted (map fst ticks)"
  shows "spaced c (detection_run x ticks []) \<and> length (fst (detection_tick x ts now procs f)) \<le> per_tick x"
proof -
  have "spaced c (detection_run x ticks [])"
  proof (cases ticks)
    case Nil
    then show ?thesis by (simp add: spaced_def)
  next
    case (Cons tick rest)
    then have "\<forall>(t, ps) \<in> set ticks. fst tick \<le> t" using assms(2) by auto
    then show ?thesis using recorded_run [OF assms, of "fst tick" "[]" "[]"] by (simp add: recorded_def spaced_def)
  qed
  then show ?thesis using fire_procs_bound [of "([], f)" x]
    by (simp add: detection_tick_def fired_def split_beta)
qed

lemma fire_hits_boot:
  assumes "flt (Fin now) (cooldown x)" shows "fire_hits x now hs (es, []) = (es, [])"
  using assms by (induction hs) (simp_all add: cooling_def last_fire_def)

lemma fire_procs_boot:
  assumes "flt (Fin now) (cooldown x)" shows "fire_procs x now ps (es, []) = (es, [])"
  using assms by (induction ps) (simp_all add: fire_hits_boot)

lemma rootkit_boot:
  assumes "flt (Fin now) cd" shows "fold (rootkit_step cd now) rs (es, []) = (es, [])"
  using assms by (induction rs) (simp_all add: rootkit_step_def cooling_def last_fire_def Let_def)

text \<open>
  The cool-down counts from time 0 of the monotonic clock for what never fired: in the first
  cool-down after the boot of the host, whatever is found, the detection engine and the rootkit
  monitor report nothing.
\<close>

theorem boot_silences_detection:
  assumes "flt (Fin now) (cooldown x)" "flt (Fin now) cd"
  shows "detection_tick x ts now procs [] = ([], []) \<and> rootkit_tick cd ts now snap [] = ([], [])"
  using assms by (simp add: detection_tick_def fired_def fire_procs_boot rootkit_tick_def rootkit_boot)

definition default_engine :: engine where
  "default_engine = \<lparr>per_tick = 20, cooldown = Fin 300\<rparr>"

lemma sample_proc_hits: "match_detection_rules sample_proc \<noteq> []"
  by code_simp

theorem boot_silences_detection_witness:
  "match_detection_rules sample_proc \<noteq> []
   \<and> detection_tick default_engine [] 299 [sample_proc] [] = ([], [])
   \<and> rootkit_tick (Fin 1800) [] 299 [(''findings'', JList [JObj [(''id'', JStr ''hidden_process'')]])] [] = ([], [])"
  using boot_silences_detection [of 299 default_engine "Fin 1800" "[]" "[sample_proc]"] sample_proc_hits
  by (simp add: default_engine_def)

theorem detections_are_spaced_witness:
  "spaced 300 (detection_run default_engine [(299, [sample_proc]), (300, [sample_proc]), (305, [sample_proc]), (600, [sample_proc])] [])
   \<and> length (fst (detection_tick default_engine [] 300 [sample_proc] [])) \<le> 20
   \<and> detection_run default_engine [(299, [sample_proc]), (300, [sample_proc]), (305, [sample_proc]), (600, [sample_proc])] [] \<noteq> []"
proof -
  have "match_detection_rules sample_proc = [hd (match_detection_rules sample_proc)]" by code_simp
  then obtain h where h: "match_detection_rules sample_proc = [h]" by blast
  then show ?thesis
    using detections_are_spaced [of default_engine 300 "[(299, [sample_proc]), (300, [sample_proc]), (305, [sample_proc]), (600, [sample_proc])]"
      "[]" 300 "[sample_proc]" "[]"]
    by (simp add: default_engine_def fired_def cooling_def last_fire_def Let_def)
qed

section \<open>What the active response may do\<close>

lemma response_command_facts:
  assumes "cmd \<in> set response_commands"
  shows "strip cmd = cmd" "resolve_command cmd = cmd" "cmd \<in> set DEFAULT_DISABLED"
proof -
  have "\<forall>cmd \<in> set response_commands. strip cmd = cmd \<and> resolve_command cmd = cmd \<and> cmd \<in> set DEFAULT_DISABLED"
    by code_simp
  with assms show "strip cmd = cmd" "resolve_command cmd = cmd" "cmd \<in> set DEFAULT_DISABLED" by blast+
qed

text \<open>
  C31: The active response touches the host only when it is enabled, an action of the configuration
  names the rule that fired, its command is one of the three of the response, and the local policy
  both allows high risk and lists the command; then it runs exactly that command, once.
\<close>

theorem responses_are_guarded:
  assumes "maybe_respond exc_text ts x event s = (r, s')" "s' \<noteq> s"
  shows "active x \<and> (\<exists>action \<in> set (actions x). \<exists>cmd \<in> set response_commands. \<exists>run res ev.
      str_or (getv action ''rule_id'') [] = py_str (getv event ''rule_id'') \<and> truthy (getv event ''rule_id'')
      \<and> cmd = strip (str_or (getv action ''command'') []) \<and> allow_high_risk (policy_rules x) \<and> cmd \<in> set (allowed (policy_rules x))
      \<and> exec x = Some run \<and> run cmd (params_for x action event) s = (res, s') \<and> r = Executed cmd (params_for x action event) ev)"
proof -
  obtain run action where some: "exec x = Some run" "action_for x (getv event ''rule_id'') = Some action"
    using assms by (auto simp: maybe_respond_def split: option.splits)
  define cmd where "cmd = strip (str_or (getv action ''command'') [])"
  have g: "active x" "cmd \<in> set response_commands" "fst (policy_check (policy_rules x) cmd)"
    using assms by (auto simp: maybe_respond_def some Let_def cmd_def split: if_splits)
  have pol: "allow_high_risk (policy_rules x) \<and> cmd \<in> set (allowed (policy_rules x))"
    using policy_check_high_risk [OF g(3)] response_command_facts [OF g(2)] by simp
  have act: "action \<in> set (actions x)" "str_or (getv action ''rule_id'') [] = py_str (getv event ''rule_id'')"
     "truthy (getv event ''rule_id'')"
    using some(2) by (auto simp: action_for_def find_Some_iff split: if_splits)
  have "\<exists>res ev. run cmd (params_for x action event) s = (res, s') \<and> r = Executed cmd (params_for x action event) ev"
    using assms(1) g by (auto simp: maybe_respond_def some Let_def simp flip: cmd_def split: prod.splits)
  then show ?thesis using g some pol act cmd_def by blast
qed

definition kill_rule :: dict where
  "kill_rule = [(''rule_id'', JStr ''SEC-003''), (''command'', JStr ''kill_process'')]"

definition counting_responder :: "nat responder" where
  "counting_responder = \<lparr>active = True, actions = [kill_rule],
     policy_rules = \<lparr>allowed = [''kill_process''], allow_high_risk = True\<rparr>,
     exec = Some (\<lambda>cmd ps n. (Inr (JObj []), n + 1)), manager = []\<rparr>"

theorem responses_are_guarded_witness:
  "allow_high_risk (policy_rules counting_responder)
   \<and> snd (maybe_respond (\<lambda>e. []) [] counting_responder [(''rule_id'', JStr ''SEC-003'')] 4) = 5"
proof -
  let ?ev = "[(''rule_id'', JStr ''SEC-003'')]"
  have five: "snd (maybe_respond (\<lambda>e. []) [] counting_responder ?ev 4) = 5" by code_simp
  then have "maybe_respond (\<lambda>e. []) [] counting_responder ?ev 4
      = (fst (maybe_respond (\<lambda>e. []) [] counting_responder ?ev 4), 5)" by (metis prod.collapse)
  from responses_are_guarded [OF this] five show ?thesis by auto
qed

end
