(* ===== verification/Agent_Socket.thy ===== *)
theory Agent_Socket
  imports Otlp_Receiver Rest_Api
begin

text \<open>
  The WebSocket of the agents, \<^verbatim>\<open>websocket_endpoint\<close> of \<^verbatim>\<open>server/controllers.py\<close>: the
  challenge, the choice of the agent id, the registration, the messages of a session and its end,
  and the hardware snapshots of \<^verbatim>\<open>server/lib/agent_store.py\<close>. The verification of an RSA
  signature, the texts that arrive and the sockets that accept a text are inputs.
\<close>

section \<open>Hardware snapshots\<close>

definition as_int :: "json \<Rightarrow> json res" where
  "as_int v = (if v = JNull \<or> v = JStr [] then Inr JNull
     else (case py_int v of Inr n \<Rightarrow> Inr (JInt n) | Inl x \<Rightarrow> if caught x then Inr JNull else Inl x))"

definition as_float :: "json \<Rightarrow> pyfloat option res" where
  "as_float v = (if v = JNull \<or> v = JStr [] then Inr None
     else (case py_float v of
         Inr f \<Rightarrow> Inr (if f = NaN then None else Some f)
       | Inl x \<Rightarrow> if caught x then Inr None else Inl x))"

definition float_cell :: "pyfloat option \<Rightarrow> json" where
  "float_cell f = (case f of None \<Rightarrow> JNull | Some x \<Rightarrow> JFloat x)"

fun gb_of :: "pyfloat option \<Rightarrow> json" where
  "gb_of (Some (Fin n)) = (if n \<le> 0 then JNull
     else JFloat (Fin (rat_of_int (round_half_even (n / 1073741824 * 100)) / 100)))"
| "gb_of (Some PInf) = JFloat PInf"
| "gb_of _ = JNull"

definition bytes_to_gb :: "json \<Rightarrow> json res" where
  "bytes_to_gb v = res_bind (as_float v) (\<lambda>f. Inr (gb_of f))"

definition text_cell :: "dict \<Rightarrow> string \<Rightarrow> json res" where
  \<comment> \<open>\<open>(d.get(k) or "").strip() or None\<close>\<close>
  "text_cell d k = res_bind (str_strip (py_or (getv d k) (JStr []))) (\<lambda>s. Inr (if s = [] then JNull else JStr s))"

primrec disk_sizes :: "json list \<Rightarrow> (string \<times> int) list \<Rightarrow> (string \<times> int) list res" where
  \<comment> \<open>the first size of each device\<close>
  "disk_sizes [] seen = Inr seen"
| "disk_sizes (v # vs) seen = (case v of
     JObj d \<Rightarrow>
       (case py_int (getv d ''total'') of
          Inl x \<Rightarrow> if caught x then disk_sizes vs seen else Inl x
        | Inr n \<Rightarrow> disk_sizes vs (setdefault
            (py_str (py_or (py_or (getv d ''device'') (getv d ''mountpoint'')) (JInt (int (length seen))))) n seen))
   | _ \<Rightarrow> disk_sizes vs seen)"

definition snapshot_from_hardware :: "dict \<Rightarrow> dict res" where
  "snapshot_from_hardware r =
     (let cpu = obj_of (getv r ''cpu''); mem = obj_of (getv r ''memory''); fw = obj_of (getv r ''firmware'');
          freq = obj_of (getv cpu ''freq''); mhz = py_or (getv freq ''max_mhz'') (getv freq ''current_mhz'') in
      res_bind (disk_sizes (case getv r ''disks'' of JList ds \<Rightarrow> ds | _ \<Rightarrow> []) []) (\<lambda>seen.
      let disk_bytes = sum_list (map snd seen) in
      res_bind (all_res [text_cell r ''hostname'', text_cell r ''os'', text_cell r ''os_version'', text_cell r ''arch'',
         text_cell cpu ''model'', as_int (getv cpu ''logical_cores''), as_int (getv cpu ''physical_cores''),
         res_bind (as_float mhz) (\<lambda>f. Inr (float_cell f)), bytes_to_gb (getv mem ''total''),
         (if disk_bytes \<noteq> 0 then bytes_to_gb (JInt disk_bytes) else Inr JNull),
         text_cell fw ''vendor'', text_cell fw ''product'', text_cell fw ''serial'', text_cell fw ''uuid'']) (\<lambda>vs.
      Inr (filter (\<lambda>(k, v). v \<noteq> JNull) (zip [''hostname'', ''os_name'', ''os_version'', ''arch'', ''cpu_model'',
         ''cpu_logical_cores'', ''cpu_physical_cores'', ''cpu_freq_mhz'', ''ram_total_gb'', ''disk_total_gb'',
         ''firmware_vendor'', ''firmware_product'', ''firmware_serial'', ''firmware_uuid''] vs)))))"

definition snapshot_from_health :: "dict \<Rightarrow> dict" where
  "snapshot_from_health r = (let v = strip (str_or (getv r ''version'') []) in
     if v = [] then [] else [(''agent_version'', JStr v)])"

definition metrics_as_hardware :: "dict \<Rightarrow> dict" where
  "metrics_as_hardware r = map (\<lambda>k. (k, getv r k)) [''hostname'', ''os'', ''os_version'', ''arch'', ''cpu'', ''memory'']
     @ [(''disks'', py_or (getv r ''disks'') (getv r ''volumes'')), (''firmware'', getv r ''firmware'')]"

definition snapshot_fields :: "owner_env \<Rightarrow> string \<Rightarrow> string \<Rightarrow> dict \<Rightarrow> inventory \<Rightarrow> dict res" where
  \<comment> \<open>what a result of the tool changes in the row of the agent\<close>
  "snapshot_fields e a t r ivt =
     (if t = ''hardware_inventory'' then
        res_bind (snapshot_from_hardware r) (\<lambda>fs. Inr (if fs = [] then [] else dset ''inventory_captured_at'' (JStr (db_now e)) fs))
      else if t = ''health_check'' then Inr (snapshot_from_health r)
      else if t = ''system_metrics'' then
        res_bind (get_agent e a ivt) (\<lambda>row.
        if row_text (case row of None \<Rightarrow> [] | Some r \<Rightarrow> r) ''inventory_captured_at'' \<noteq> [] then Inr []
        else snapshot_from_hardware (metrics_as_hardware r))
      else Inr [])"

definition apply_tool_snapshot :: "owner_env \<Rightarrow> string \<Rightarrow> string \<Rightarrow> dict \<Rightarrow> inventory \<Rightarrow> unit res \<times> inventory" where
  "apply_tool_snapshot e a tn r ivt =
     (if \<not> db_on e then (Inr (), ivt)
      else
       (case (if map upper_char (str_or (getv r ''status'') []) = ''ERROR'' then Inr []
              else snapshot_fields e a (strip tn) r ivt) of
          Inl x \<Rightarrow> (Inl x, ivt)
        | Inr [] \<Rightarrow> (res_bind (get_agent e a ivt) (\<lambda>row. Inr ()), ivt)
        | Inr fs \<Rightarrow> (case upsert_agent e a fs ivt of (r, ivt) \<Rightarrow> (res_bind r (\<lambda>row. Inr ()), ivt))))"

section \<open>The state of a session\<close>

record socket_state =
  rest :: rest_state
  recv :: receiver
  texts_sent :: "(nat \<times> dict) list"

record socket_env =
  se_rest :: rest_env
  se_recv :: receive_env
  rsa_ok :: "json \<Rightarrow> string \<Rightarrow> json \<Rightarrow> bool"
    \<comment> \<open>\<open>verify_rsa_challenge\<close>: key, challenge, signature\<close>
  challenge :: string
  suffix :: string

record ws_query =
  q_agent :: string
  q_client :: string
  q_tenant :: json
  q_ip :: string

definition send_text :: "socket_env \<Rightarrow> nat \<Rightarrow> dict \<Rightarrow> socket_state \<Rightarrow> unit res \<times> socket_state" where
  "send_text e ws msg st =
     (if sock_sends (re_srv (se_rest e)) ws then (Inr (), st\<lparr>texts_sent := texts_sent st @ [(ws, msg)]\<rparr>)
      else (Inl RuntimeError, st))"

definition with_mgr :: "(conn_manager \<Rightarrow> conn_manager) \<Rightarrow> socket_state \<Rightarrow> socket_state" where
  "with_mgr f st = st\<lparr>rest := (rest st)\<lparr>rs_mgr := f (rs_mgr (rest st))\<rparr>\<rparr>"

definition log_to :: "socket_env \<Rightarrow> string \<Rightarrow> string \<Rightarrow> string \<Rightarrow> string \<Rightarrow> string \<Rightarrow> dict \<Rightarrow> json \<Rightarrow> socket_state \<Rightarrow> socket_state" where
  "log_to e a t cat sub level data tenant st = st\<lparr>recv := (recv st)\<lparr>entries := entries (recv st)
     @ log_agent_event (configured (se_recv e)) a t cat sub level data tenant\<rparr>\<rparr>"

definition file_result :: "socket_env \<Rightarrow> string \<Rightarrow> dict \<Rightarrow> socket_state \<Rightarrow> socket_state" where
  "file_result e a payload st = st\<lparr>recv := save_result (se_recv e) a payload (recv st)\<rparr>"

section \<open>Opening\<close>

definition is_auth :: "json \<Rightarrow> bool" where
  "is_auth v = (case v of JObj d \<Rightarrow> getv d ''type'' = JStr ''auth_response'' | _ \<Rightarrow> False)"

definition wait_for_auth_response :: "string list \<Rightarrow> dict option" where
  \<comment> \<open>of the texts that arrive before the deadline or the end of the connection\<close>
  "wait_for_auth_response ts = map_option obj_of (find is_auth (List.map_filter json_loads ts))"

definition authenticated :: "socket_env \<Rightarrow> string list \<Rightarrow> bool" where
  "authenticated e ts = (case wait_for_auth_response ts of
      None \<Rightarrow> False
    | Some d \<Rightarrow> truthy (getv d ''public_key'') \<and> truthy (getv d ''signature'')
         \<and> rsa_ok e (getv d ''public_key'') (challenge e) (getv d ''signature''))"

definition key_of_session :: "string list \<Rightarrow> json" where
  "key_of_session ts = (case wait_for_auth_response ts of None \<Rightarrow> JNull | Some d \<Rightarrow> getv d ''public_key'')"

definition resolve_ws_agent_id :: "owner_env \<Rightarrow> string \<Rightarrow> string \<Rightarrow> inventory \<Rightarrow> string res" where
  "resolve_ws_agent_id e param_id cname ivt =
     (let p = strip param_id; c = strip cname in
      if p = [] then Inr p
      else res_bind (get_agent e p ivt) (\<lambda>row.
        if row \<noteq> None \<or> c = [] \<or> \<not> db_on e then Inr p
        else res_bind (list_stored_agents e [] [] ivt) (\<lambda>rows.
          (case filter (\<lambda>r. row_text r ''client_name'' = c \<and> startswith (str_or (getv r ''agent_id'') []) ''agt_''
                            \<and> row_text r ''user_id'' \<noteq> []) rows of
             [r] \<Rightarrow> Inr (if row_text r ''agent_id'' = [] then p else row_text r ''agent_id'')
           | _ \<Rightarrow> Inr p))))"

definition client_of :: "ws_query \<Rightarrow> string" where
  "client_of q = (if q_client q = [] then ''Client_'' @ q_ip q else q_client q)"

definition session_agent_id :: "socket_env \<Rightarrow> ws_query \<Rightarrow> inventory \<Rightarrow> string res" where
  "session_agent_id e q ivt =
     (if q_agent q \<noteq> [] then resolve_ws_agent_id (re_own (se_rest e)) (strip (q_agent q)) (client_of q) ivt
      else Inr (map (\<lambda>c. if c = CHR '' '' then CHR ''-'' else c) (strip (client_of q)) @ ''-'' @ suffix e))"

definition bind_fields :: "socket_env \<Rightarrow> ws_query \<Rightarrow> dict" where
  "bind_fields e q = [(''client_name'', JStr (client_of q)),
     (''tenant_id'', py_or (q_tenant q) (JStr (default_tenant (re_srv (se_rest e))))),
     (''remote_ip'', JStr (q_ip q)), (''hostname'', JStr (client_of q))]"

datatype opened = Refused | Failed py_exc | Session string

definition ws_register :: "socket_env \<Rightarrow> ws_query \<Rightarrow> nat \<Rightarrow> json \<Rightarrow> string \<Rightarrow> socket_state \<Rightarrow> unit res \<times> socket_state" where
  \<comment> \<open>the registration, its log entry and the owner of the agent\<close>
  "ws_register e q ws key a st =
     (case register_connection (re_srv (se_rest e)) ws a (client_of q) key
             (py_str (py_or (q_tenant q) (JStr (default_tenant (re_srv (se_rest e)))))) (q_ip q) (rs_mgr (rest st)) of
        (Inl x, m) \<Rightarrow> (Inl x, st)
      | (Inr i, m) \<Rightarrow>
         (let st = log_to e a ''activity'' ''system'' ''agent_connected'' ''info'' [(''status'', JStr ''online'')] (q_tenant q)
                     (with_mgr (\<lambda>_. m) st) in
          (Inr (), st\<lparr>rest := bind_ruvic_owner (se_rest e) a None (bind_fields e q) (rest st)\<rparr>)))"

definition ws_confirm :: "socket_env \<Rightarrow> ws_query \<Rightarrow> nat \<Rightarrow> string \<Rightarrow> socket_state \<Rightarrow> opened \<times> socket_state" where
  \<comment> \<open>the acknowledgement and the pending commands; an exception here leaves the endpoint\<close>
  "ws_confirm e q ws a st =
     (case send_text e ws (make_auth_ack a (q_tenant q) JNull) st of
        (Inl x, st) \<Rightarrow> (Failed x, st)
      | (Inr u, st) \<Rightarrow>
         (case dispatch_pending (re_srv (se_rest e)) a (rs_mgr (rest st)) of
            (r, m) \<Rightarrow> (case r of Inl x \<Rightarrow> Failed x | Inr u \<Rightarrow> Session a, with_mgr (\<lambda>_. m) st)))"

definition ws_accept :: "socket_env \<Rightarrow> ws_query \<Rightarrow> nat \<Rightarrow> string list \<Rightarrow> socket_state \<Rightarrow> opened \<times> socket_state" where
  "ws_accept e q ws ts st =
     (case send_text e ws [(''type'', JStr ''auth_challenge''), (''challenge'', JStr (challenge e))] st of
        (Inl x, st) \<Rightarrow> (Failed x, st)
      | (Inr u, st) \<Rightarrow>
         if \<not> authenticated e ts then
           (Refused, snd (send_text e ws [(''type'', JStr TYPE_AUTH_ERROR),
              (''message'', JStr (''Firma RSA del desaf'' @ [CHR 0xED] @ ''o inv'' @ [CHR 0xE1]
                 @ ''lida (autenticaci'' @ [CHR 0xF3] @ ''n rechazada).''))] st))
         else
          (case session_agent_id e q (rs_inv (rest st)) of
             Inl x \<Rightarrow> (Failed x, st)
           | Inr a \<Rightarrow>
              (case ws_register e q ws (key_of_session ts) a st of
                 (Inl x, st) \<Rightarrow> (Failed x, st)
               | (Inr u, st) \<Rightarrow> ws_confirm e q ws a st)))"

definition deferred_bind :: "socket_env \<Rightarrow> ws_query \<Rightarrow> string \<Rightarrow> socket_state \<Rightarrow> bool \<times> socket_state" where
  \<comment> \<open>one attempt of \<open>_deferred_bind_ruvic_owner\<close> after its delay; True: it returns\<close>
  "deferred_bind e q a st =
     (let own = re_own (se_rest e);
          row = (\<lambda>ivt. case get_agent own a ivt of Inr (Some r) \<Rightarrow> r | _ \<Rightarrow> []) in
      if \<not> is_agent_online (re_srv (se_rest e)) (rs_mgr (rest st)) a \<or> row_text (row (rs_inv (rest st))) ''user_id'' \<noteq> []
      then (True, st)
      else
       (let r = (rest st)\<lparr>rs_cache := clear_owner_logs_cache a (rs_cache (rest st))\<rparr>;
            r = bind_ruvic_owner (se_rest e) a None (bind_fields e q) r;
            now = row (rs_inv r) in
        (row_text now ''user_id'' \<noteq> [] \<or> row_text now ''client_id'' \<noteq> [], st\<lparr>rest := r\<rparr>)))"

definition needs_static_inventory :: "owner_env \<Rightarrow> string \<Rightarrow> bool" where
  "needs_static_inventory e a \<longleftrightarrow> db_on e \<and> strip a \<noteq> []"

definition static_inventory_sends :: "owner_env \<Rightarrow> string \<Rightarrow> cm_event list" where
  \<comment> \<open>the commands of \<open>_capture_static_inventory\<close>; the second follows the end of the first\<close>
  "static_inventory_sends e a =
     (if needs_static_inventory e a
      then [Send a ''hardware_inventory'' [] (JFloat (Fin 45)) ''api:inventory'',
            Send a ''health_check'' [] (JFloat (Fin 20)) ''api:inventory''] else [])"

definition server_heartbeat :: "socket_env \<Rightarrow> nat \<Rightarrow> string \<Rightarrow> socket_state \<Rightarrow> unit res \<times> socket_state" where
  "server_heartbeat e ws a st = send_text e ws (make_heartbeat (server_env.now_us (re_srv (se_rest e))) (JStr a) JNull JNull) st"

section \<open>Messages\<close>

definition snapshot_tools :: "string list" where
  "snapshot_tools = [''hardware_inventory'', ''health_check'', ''system_metrics'']"

definition package_tools :: "string list" where
  "package_tools = [''cve_inventory'', ''installed_software'', ''linux_packages'']"

definition store_snapshot :: "socket_env \<Rightarrow> string \<Rightarrow> string \<Rightarrow> json \<Rightarrow> socket_state \<Rightarrow> socket_state" where
  \<comment> \<open>of a successful result; an exception is only logged\<close>
  "store_snapshot e a tn r st =
     (if is_obj r \<and> resolve_command tn \<in> set snapshot_tools then
        (case apply_tool_snapshot (re_own (se_rest e)) a (resolve_command tn) (obj_of r) (rs_inv (rest st)) of
           (Inl x, inv1) \<Rightarrow> st\<lparr>rest := (rest st)\<lparr>rs_inv := inv1\<rparr>\<rparr>
         | (Inr u, inv1) \<Rightarrow>
            (let rst = (rest st)\<lparr>rs_inv := inv1\<rparr> in
             if resolve_command tn \<noteq> ''system_metrics''
             then st\<lparr>rest := bind_ruvic_owner (se_rest e) a None [] (rst\<lparr>rs_cache := clear_owner_logs_cache a (rs_cache rst)\<rparr>)\<rparr>
             else st\<lparr>rest := rst\<rparr>))
      else st)"

definition high_score :: "json \<Rightarrow> bool" where
  "high_score v = (case v of JInt n \<Rightarrow> n \<ge> 50 | JFloat f \<Rightarrow> fle (Fin 50) f | _ \<Rightarrow> False)"

definition correlate_result :: "socket_env \<Rightarrow> string \<Rightarrow> string \<Rightarrow> json \<Rightarrow> json \<Rightarrow> socket_state \<Rightarrow> unit res \<times> socket_state" where
  \<comment> \<open>of a successful result, with the tenant of the message or of the session\<close>
  "correlate_result e a tn r tenant st =
     (if resolve_command tn \<in> set package_tools \<and> packages_from_result r \<noteq> [] then
        (case ingest_inventory (time_text (se_recv e)) (cve_can_write (se_recv e)) (cve_catalog (se_recv e)) a
                (map JObj (packages_from_result r)) tenant (cves (recv st)) of
           (Inl x, c) \<Rightarrow> (Inl x, st\<lparr>recv := (recv st)\<lparr>cves := c\<rparr>\<rparr>)
         | (Inr found, c) \<Rightarrow>
            (let st = st\<lparr>recv := (recv st)\<lparr>cves := c\<rparr>\<rparr> in
             (Inr (), if truthy (getv found ''count'')
                then log_to e a ''audit'' ''security'' ''cve_match'' (if high_score (getv found ''score'') then ''error'' else ''warn'')
                       [(''count'', getv found ''count''), (''score'', getv found ''score''),
                        (''matches'', JList (case getv found ''matches'' of JList ms \<Rightarrow> take 20 ms | _ \<Rightarrow> []))] tenant st
                else st)))
      else (Inr (), st))"

definition duration_between :: "json \<Rightarrow> json \<Rightarrow> json" where
  \<comment> \<open>milliseconds; texts that are no time stamps, or with and without a zone, give none\<close>
  "duration_between from_time to_time =
     (case (from_time, to_time) of
        (JStr s, JStr t) \<Rightarrow>
          (case (if s = [] then None else fromisoformat s, if t = [] then None else fromisoformat t) of
             (Some (DT a za), Some (DT b zb)) \<Rightarrow> if za = zb then JInt (round_half_even (of_int (b - a) / 1000)) else JNull
           | _ \<Rightarrow> JNull)
      | _ \<Rightarrow> JNull)"

definition compacted_result :: "string \<Rightarrow> json \<Rightarrow> json" where
  "compacted_result tn r =
     (if is_obj r \<and> truthy r
      then getv (compact_event [(''event_type'', JStr ''telemetry.tool_result''), (''tool'', JStr tn), (''result'', r)]) ''result''
      else JNull)"

definition queued_record :: "conn_manager \<Rightarrow> dict \<Rightarrow> cmd_record option" where
  "queued_record m payload = q_get (str_or (getv payload ''message_id'') []) (queue m)"

definition queued_tool :: "cmd_record option \<Rightarrow> string" where
  "queued_tool r = (case r of Some r \<Rightarrow> if cmd_record.tool r = [] then ''unknown'' else cmd_record.tool r | None \<Rightarrow> ''unknown'')"

definition queued_params :: "cmd_record option \<Rightarrow> dict" where
  "queued_params r = (case r of Some r \<Rightarrow> cmd_record.params r | None \<Rightarrow> [])"

definition response_log :: "string \<Rightarrow> dict \<Rightarrow> cmd_record option \<Rightarrow> json \<Rightarrow> tool_log" where
  \<comment> \<open>the summary of the target, the message, the queued record, the tenant of the session\<close>
  "response_log target payload qr tenant =
     (let tn = queued_tool qr; r = py_or (getv payload ''result'') (JObj []) in
      \<lparr>tl_message_id = getv payload ''message_id'', tl_status = getd payload ''status'' (JStr ''unknown''),
       tl_success = (getd payload ''status'' (JStr ''unknown'') = JStr STATUS_SUCCESS), tl_target = JStr target,
       tl_summary = (case r of JObj d \<Rightarrow> getd d ''status'' (JStr ''COMPLETED'') | _ \<Rightarrow> JStr ''COMPLETED''),
       tl_result = compacted_result tn r, tl_error = getv payload ''error'', tl_params = JObj (queued_params qr),
       tl_duration = duration_between (getv payload ''started_at'') (getv payload ''completed_at''),
       tl_tenant = tenant, tl_issuer = (case qr of Some r \<Rightarrow> JStr (cmd_record.issued_by r) | None \<Rightarrow> JNull)\<rparr>)"

definition response_file :: "dict \<Rightarrow> string \<Rightarrow> dict" where
  "response_file payload tn =
     [(''type'', JStr TYPE_COMMAND_RESPONSE), (''message_id'', getv payload ''message_id''), (''tool'', JStr tn),
      (''ok'', JBool (getd payload ''status'' (JStr ''unknown'') = JStr STATUS_SUCCESS)),
      (''status'', getd payload ''status'' (JStr ''unknown'')),
      (''result'', py_or (getv payload ''result'') (JObj [])), (''error'', getv payload ''error''), (''payload'', JObj payload)]"

definition audit_response :: "socket_env \<Rightarrow> string \<Rightarrow> json \<Rightarrow> dict \<Rightarrow> cmd_record option \<Rightarrow> socket_state \<Rightarrow> unit res \<times> socket_state" where
  \<comment> \<open>the entry of the execution and the result file\<close>
  "audit_response e a tenant payload qr st =
     (case res_bind (tool_target_summary (queued_tool qr) (queued_params qr)) (\<lambda>target.
             log_tool_execution (configured (se_recv e)) a (queued_tool qr) (response_log target payload qr tenant)) of
        Inl x \<Rightarrow> (Inl x, st)
      | Inr new \<Rightarrow> (Inr (), file_result e a (response_file payload (queued_tool qr))
                              (st\<lparr>recv := (recv st)\<lparr>entries := entries (recv st) @ new\<rparr>\<rparr>)))"

definition on_response :: "socket_env \<Rightarrow> string \<Rightarrow> json \<Rightarrow> dict \<Rightarrow> socket_state \<Rightarrow> unit res \<times> socket_state" where
  "on_response e a tenant payload st =
     (case handle_agent_message (re_srv (se_rest e)) a (Some (JObj payload)) (rs_mgr (rest st)) of
        (Inl x, m) \<Rightarrow> (Inl x, with_mgr (\<lambda>_. m) st)
      | (Inr v, m) \<Rightarrow>
         (let st = with_mgr (\<lambda>_. m) st; stat = getd payload ''status'' (JStr ''unknown'');
              qr = queued_record m payload; tn = queued_tool qr; r = py_or (getv payload ''result'') (JObj []);
              success = (stat = JStr STATUS_SUCCESS) in
          if stat = JStr STATUS_RUNNING then (Inr (), st)
          else
           (case (if success then correlate_result e a tn r (py_or (getv payload ''tenant_id'') tenant) (store_snapshot e a tn r st)
                  else (Inr (), st)) of
              (Inl x, st) \<Rightarrow> (Inl x, st)
            | (Inr u, st) \<Rightarrow> audit_response e a tenant payload qr st)))"

definition on_event_push :: "socket_env \<Rightarrow> string \<Rightarrow> json \<Rightarrow> dict \<Rightarrow> socket_state \<Rightarrow> unit res \<times> socket_state" where
  \<comment> \<open>an event that is no dictionary raises\<close>
  "on_event_push e a tenant payload st =
     (case py_or (getv payload ''event'') (JObj []) of
        JObj event \<Rightarrow>
          (Inr (), file_result e a
             [(''type'', JStr TYPE_EVENT_PUSH), (''message_id'', getv payload ''message_id''),
              (''request_id'', getv event ''request_id''), (''tool'', getv event ''tool''),
              (''event_type'', getv event ''event_type''), (''event'', JObj event)]
             (st\<lparr>recv := (recv st)\<lparr>entries := entries (recv st)
                @ log_event_push (configured (se_recv e)) a payload (py_or (getv payload ''tenant_id'') tenant)\<rparr>\<rparr>))
      | _ \<Rightarrow> (Inl AttributeError, st))"

definition on_message :: "socket_env \<Rightarrow> string \<Rightarrow> json \<Rightarrow> string \<Rightarrow> socket_state \<Rightarrow> unit res \<times> socket_state" where
  "on_message e a tenant txt st =
     (case json_loads txt of
        None \<Rightarrow> (Inr (), st)
      | Some (JObj payload) \<Rightarrow>
         (let t = getv payload ''type'' in
          if t = JStr TYPE_COMMAND_RESPONSE then on_response e a tenant payload st
          else if t = JStr TYPE_EVENT_PUSH then on_event_push e a tenant payload st
          else if t = JStr TYPE_COMMAND_ACK \<or> t = JStr TYPE_HEARTBEAT then
            (case handle_agent_message (re_srv (se_rest e)) a (Some (JObj payload)) (rs_mgr (rest st)) of
               (Inl x, m) \<Rightarrow> (Inl x, with_mgr (\<lambda>_. m) st)
             | (Inr v, m) \<Rightarrow> (Inr (), with_mgr (\<lambda>_. m) st))
          else (Inr (), st))
      | Some v \<Rightarrow> (Inl AttributeError, st))"

fun ws_loop :: "socket_env \<Rightarrow> string \<Rightarrow> json \<Rightarrow> (socket_env \<times> string) list \<Rightarrow> socket_state \<Rightarrow> socket_state" where
  \<comment> \<open>the loop until the agent disconnects, after the last text, or an exception ends the session\<close>
  "ws_loop e a tenant [] st =
     with_mgr (disconnect a) (log_to e a ''activity'' ''system'' ''agent_disconnected'' ''warn''
       [(''status'', JStr ''offline'')] tenant st)"
| "ws_loop e a tenant ((e', txt) # ts) st =
     (case on_message e' a tenant txt st of
        (Inl x, st) \<Rightarrow> with_mgr (disconnect a) st
      | (Inr u, st) \<Rightarrow> ws_loop e a tenant ts st)"

section \<open>What an unverified client can do\<close>

lemma send_text_frame [simp]:
  "rest (snd (send_text e ws msg st)) = rest st" "recv (snd (send_text e ws msg st)) = recv st"
  by (simp_all add: send_text_def)

text \<open>
  C7: Without an answer to the challenge whose signature verifies nothing happens: no session
  is opened, no agent is registered, nothing is stored, logged or filed.
\<close>

theorem unverified_clients_change_nothing:
  assumes "\<not> authenticated e ts"
  shows "rest (snd (ws_accept e q ws ts st)) = rest st \<and> recv (snd (ws_accept e q ws ts st)) = recv st
    \<and> (\<forall>a. fst (ws_accept e q ws ts st) \<noteq> Session a)"
  using assms by (cases "sock_sends (re_srv (se_rest e)) ws") (simp_all add: ws_accept_def send_text_def)

section \<open>Any key opens any session\<close>

definition only_to :: "string \<Rightarrow> conn_manager \<Rightarrow> conn_manager \<Rightarrow> bool" where
  \<comment> \<open>the sessions are as before, and what was sent went to the socket of the agent\<close>
  "only_to a m m' \<longleftrightarrow> active m' = active m \<and> metadata m' = metadata m
     \<and> (\<exists>new. wire m' = wire m @ new \<and> (\<forall>p \<in> set new. Some (fst p) = map_of (active m) a))"

lemma only_to_refl [simp]: "only_to a m m" "only_to a m (m\<lparr>queue := q\<rparr>)"
  by (simp_all add: only_to_def)

lemma only_to_trans: "only_to a m m1 \<Longrightarrow> only_to a m1 m2 \<Longrightarrow> only_to a m m2"
  unfolding only_to_def by (elim conjE exE) (intro conjI, simp, simp, rule exI, rule conjI, simp, auto)

lemma only_to_queue [simp]: "only_to a m (m'\<lparr>queue := q\<rparr>) = only_to a m m'"
  by (simp add: only_to_def)

lemma dispatch_begin_only: "only_to a m (snd (dispatch_begin env a r False m))"
proof -
  obtain k m1 where k: "load_signing_key env m = (k, m1)" by fastforce
  note f = load_signing_key_fields [OF k]
  show ?thesis unfolding dispatch_begin_def k
    by (simp add: only_to_def f split: option.split sum.split)
qed

lemma dispatch_one_only: "only_to a m (snd (dispatch_one env a r m))"
proof -
  obtain x m1 where d: "dispatch_begin env a r False m = (x, m1)" by fastforce
  have "only_to a m m1" using dispatch_begin_only [of a m env r] by (simp add: d)
  then show ?thesis
    by (simp add: dispatch_one_def dispatch_record_def d dispatch_end_def split: sum.split bool.split)
qed

lemma dispatch_all_only: "only_to a m (snd (dispatch_all env a rs m))"
proof (induction rs arbitrary: m)
  case (Cons r rs)
  obtain x m1 where d: "dispatch_one env a r m = (x, m1)" by fastforce
  have "only_to a m m1" using dispatch_one_only [of a m env r] by (simp add: d)
  with Cons.IH [of m1] show ?case by (cases x) (auto simp: d intro: only_to_trans)
qed simp

lemma dispatch_pending_only: "only_to a m (snd (dispatch_pending env a m))"
  by (simp add: dispatch_pending_def dispatch_all_only split: sum.split)

lemma ws_register_new:
  assumes "ws_register e q ws key a st = (Inr u, st')" "strip a = a"
  shows "map_of (active (rs_mgr (rest st'))) a = Some ws" "wire (rs_mgr (rest st')) = wire (rs_mgr (rest st))"
    "map_option public_key (map_of (metadata (rs_mgr (rest st'))) a) = Some key"
  using assms by (auto simp: ws_register_def register_connection_def log_to_def with_mgr_def Let_def split: if_splits)

text \<open>
  C37: The client chooses the public key against which its signature is verified, and nothing
  compares it with the key of the agent: whoever holds any key pair opens a session as any
  stored agent, takes its place on the server, and receives all its pending commands.
\<close>

theorem any_key_opens_any_session:
  assumes "json_loads t = Some (JObj [(''type'', JStr ''auth_response''), (''public_key'', key), (''signature'', sig)])"
    and "truthy key" "truthy sig" "rsa_ok e key (challenge e) sig"
    and "q_agent q = a" "strip a = a" "a \<noteq> []" "get_agent (re_own (se_rest e)) a (rs_inv (rest st)) = Inr (Some row)"
    and "sock_sends (re_srv (se_rest e)) ws" "ws_accept e q ws [t] st = (r, st')"
  shows "map_of (active (rs_mgr (rest st'))) a = Some ws
    \<and> map_option public_key (map_of (metadata (rs_mgr (rest st'))) a) = Some key
    \<and> (\<exists>new. wire (rs_mgr (rest st')) = wire (rs_mgr (rest st)) @ new \<and> (\<forall>p \<in> set new. fst p = ws))"
proof -
  have w: "wait_for_auth_response [t] = Some [(''type'', JStr ''auth_response''), (''public_key'', key), (''signature'', sig)]"
    by (simp add: wait_for_auth_response_def assms(1) is_auth_def)
  have au: "authenticated e [t]" "key_of_session [t] = key" using assms(2-4) by (simp_all add: authenticated_def key_of_session_def w)
  define st1 where "st1 = snd (send_text e ws [(''type'', JStr ''auth_challenge''), (''challenge'', JStr (challenge e))] st)"
  have s1: "send_text e ws [(''type'', JStr ''auth_challenge''), (''challenge'', JStr (challenge e))] st = (Inr (), st1)"
    using assms(9) by (simp add: st1_def send_text_def)
  have id: "session_agent_id e q (rs_inv (rest st1)) = Inr a"
    using assms(5-8) by (simp add: session_agent_id_def resolve_ws_agent_id_def st1_def)
  obtain st2 where r: "ws_register e q ws key a st1 = (Inr (), st2)"
    using assms(6,7) by (simp add: ws_register_def register_connection_def Let_def)
  have n: "map_of (active (rs_mgr (rest st2))) a = Some ws" "wire (rs_mgr (rest st2)) = wire (rs_mgr (rest st))"
     "map_option public_key (map_of (metadata (rs_mgr (rest st2))) a) = Some key"
    using ws_register_new [OF r assms(6)] by (simp_all add: st1_def)
  have c: "ws_confirm e q ws a st2 = (r, st')" using assms(10) by (simp add: ws_accept_def s1 au id r)
  obtain x m where d: "dispatch_pending (re_srv (se_rest e)) a (rs_mgr (rest st2)) = (x, m)" by fastforce
  have "rs_mgr (rest st') = m" using c assms(9) by (auto simp: ws_confirm_def send_text_def d with_mgr_def)
  moreover have "only_to a (rs_mgr (rest st2)) m" using dispatch_pending_only [of a "rs_mgr (rest st2)" "re_srv (se_rest e)"] by (simp add: d)
  ultimately show ?thesis using n by (auto simp: only_to_def)
qed

section \<open>Sessions end alone\<close>

lemma handle_agent_message_active [simp]:
  "active (snd (handle_agent_message env a v m)) = active m"
  by (simp add: handle_agent_message_def handle_response_def handle_ack_def handle_heartbeat_def Let_def case_prod_unfold
      split: option.split json.split sum.split)

lemma store_snapshot_frame [simp]:
  "recv (store_snapshot e a tn r st) = recv st" "rs_mgr (rest (store_snapshot e a tn r st)) = rs_mgr (rest st)"
  by (simp_all add: store_snapshot_def Let_def split: prod.split sum.split)

lemma log_to_frame [simp]:
  "rest (log_to e a t c s l d tenant st) = rest st" "result_files (recv (log_to e a t c s l d tenant st)) = result_files (recv st)"
  by (simp_all add: log_to_def)

lemma correlate_frame:
  assumes "correlate_result e a tn r tenant st = (x, st')"
  shows "rest st' = rest st \<and> result_files (recv st') = result_files (recv st)
    \<and> (\<exists>found. entries (recv st') = entries (recv st) @ found \<and> length found \<le> 1)"
  using assms by (auto simp: correlate_result_def Let_def log_to_def log_agent_event_def split: if_splits prod.splits sum.splits)

lemma audit_frame: "rest (snd (audit_response e a tenant payload qr st)) = rest st"
  by (simp add: audit_response_def file_result_def split: sum.split)

definition sessions :: "socket_state \<Rightarrow> (string \<times> nat) list" where
  "sessions st = active (rs_mgr (rest st))"

lemma sessions_mgr: "sessions (with_mgr (\<lambda>_. m) st) = active m"
  by (simp add: sessions_def with_mgr_def)

lemma sessions_then:
  assumes "\<And>s. sessions (snd (f s)) = sessions s"
  shows "sessions (snd (case p of (Inl x, s) \<Rightarrow> (Inl x, s) | (Inr u, s) \<Rightarrow> f s)) = sessions (snd p)"
  using assms by (simp split: prod.split sum.split)

lemma correlate_sessions: "sessions (snd (correlate_result e a tn r tenant st)) = sessions st"
  using correlate_frame [of e a tn r tenant st] by (cases "correlate_result e a tn r tenant st") (simp add: sessions_def)

lemma audit_sessions: "sessions (snd (audit_response e a tenant payload qr st)) = sessions st"
  using audit_frame [of e a tenant payload qr st] by (simp add: sessions_def)

lemma snapshot_sessions: "sessions (store_snapshot e a tn r st) = sessions st"
  by (simp add: sessions_def)

lemma handled_active: "handle_agent_message env a v m = (r, m') \<Longrightarrow> active m' = active m"
  using handle_agent_message_active [of env a v m] by simp

lemma on_response_sessions: "sessions (snd (on_response e a tenant payload st)) = sessions st"
proof -
  obtain v m where h: "handle_agent_message (re_srv (se_rest e)) a (Some (JObj payload)) (rs_mgr (rest st)) = (v, m)" by fastforce
  have m: "sessions (with_mgr (\<lambda>_. m) st) = sessions st" using handled_active [OF h] by (simp add: sessions_mgr) (simp add: sessions_def)
  show ?thesis
  proof (cases v)
    case (Inl x)
    then show ?thesis by (simp add: on_response_def h m)
  next
    case (Inr w)
    then show ?thesis
      by (simp add: on_response_def h Let_def m)
         (subst sessions_then, rule audit_sessions, simp add: correlate_sessions snapshot_sessions audit_sessions m)
  qed
qed

lemma on_event_push_sessions: "sessions (snd (on_event_push e a tenant payload st)) = sessions st"
  by (simp add: on_event_push_def file_result_def sessions_def split: json.split)

lemma on_message_sessions: "sessions (snd (on_message e a tenant txt st)) = sessions st"
proof (cases "json_loads txt")
  case (Some v)
  show ?thesis
  proof (cases v)
    case (JObj payload)
    obtain r m where h: "handle_agent_message (re_srv (se_rest e)) a (Some v) (rs_mgr (rest st)) = (r, m)" by fastforce
    have "sessions (with_mgr (\<lambda>_. m) st) = sessions st" using handled_active [OF h] by (simp add: sessions_mgr) (simp add: sessions_def)
    with h Some JObj show ?thesis
      by (simp add: on_message_def on_response_sessions on_event_push_sessions Let_def split: sum.split)
  qed (simp_all add: on_message_def Some)
qed (simp add: on_message_def)

text \<open>
  C9: Whatever an agent sends, its session changes no other session of the server, and when it
  ends, by a disconnection or by an exception, exactly the registration under its own id is gone.
\<close>

theorem sessions_end_alone:
  "map_of (sessions (ws_loop e a tenant ts st)) b = (if b = a then None else map_of (sessions st) b)"
proof (induction ts arbitrary: st)
  case Nil
  show ?case by (simp add: sessions_def with_mgr_def disconnect_def)
next
  case (Cons step ts)
  obtain e1 tx where p: "step = (e1, tx)" by (cases step)
  obtain r st1 where m: "on_message e1 a tenant tx st = (r, st1)" by fastforce
  have s: "sessions st1 = sessions st" using on_message_sessions [of e1 a tenant tx st] by (simp add: m)
  show ?case
  proof (cases r)
    case (Inl x)
    then show ?thesis using s by (simp add: p m sessions_def with_mgr_def disconnect_def)
  next
    case (Inr u)
    then show ?thesis using Cons.IH [of st1] s by (simp add: p m)
  qed
qed

section \<open>Responses are audited and filed\<close>


text \<open>
  The target of a command is summarised only when its answer arrives, and the summary of a
  host that is no text raises: the caller gets the answer of such a command, but the execution
  is neither audited nor filed and the session of the agent ends.
\<close>

theorem non_text_host_ends_session:
  assumes "json_loads txt = Some (JObj p)" "getv p ''type'' = JStr TYPE_COMMAND_RESPONSE" "getv p ''status'' = JStr STATUS_SUCCESS"
    and "handle_agent_message (re_srv (se_rest e)) a (Some (JObj p)) (rs_mgr (rest st)) = (Inr v, m)"
    and "queued_record m p = Some r" "truthy (getv (cmd_record.params r) ''host'')" "\<not> is_str (getv (cmd_record.params r) ''host'')"
    and "resolve_command (queued_tool (Some r)) \<notin> set (snapshot_tools @ package_tools)"
  shows "ws_loop e a tenant ((e, txt) # ts) st = with_mgr (\<lambda>_. disconnect a m) st"
proof -
  have s: "getd p ''status'' (JStr ''unknown'') = JStr STATUS_SUCCESS"
    using assms(3) by (auto simp: getd_def getv_def split: option.splits)
  have t: "tool_target_summary (queued_tool (Some r)) (queued_params (Some r)) = Inl AttributeError"
    using tool_target_summary_host_not_str [OF assms(6,7)] by (simp add: queued_params_def)
  have "on_response e a tenant p st = (Inl AttributeError, with_mgr (\<lambda>_. m) st)"
    using assms(8) by (simp add: on_response_def assms(4,5) s t Let_def store_snapshot_def correlate_result_def audit_response_def)
  then show ?thesis using assms(1,2) by (simp add: on_message_def with_mgr_def)
qed

section \<open>Examples\<close>

definition sample_socket_env :: socket_env where
  "sample_socket_env = \<lparr>se_rest = sample_rest_env, se_recv = sample_receive_env,
     rsa_ok = (\<lambda>key c sig. sig = JStr (py_str key @ c)), challenge = ''c1'', suffix = ''f00''\<rparr>"

definition sample_socket :: socket_state where
  "sample_socket = \<lparr>rest = sample_rest, recv = \<lparr>entries = [], result_files = [], cves = sample_cve_store\<rparr>, texts_sent = []\<rparr>"

definition sample_query :: ws_query where
  "sample_query = \<lparr>q_agent = ''a1'', q_client = ''host'', q_tenant = JNull, q_ip = []\<rparr>"

definition sample_answer :: json where
  \<comment> \<open>made with another key than the one of the agent\<close>
  "sample_answer = JObj [(''type'', JStr ''auth_response''), (''public_key'', JStr ''new key''), (''signature'', JStr ''new keyc1'')]"

lemma sample_answer_text: "json_loads (dumps_default sample_answer) = Some sample_answer"
proof -
  have "plain sample_answer" by (simp add: sample_answer_def)
  then show ?thesis by (rule loads_dumps)
qed

theorem unverified_clients_change_nothing_witness:
  "rest (snd (ws_accept sample_socket_env sample_query 9 [] sample_socket)) = sample_rest
   \<and> fst (ws_accept sample_socket_env sample_query 9 [] sample_socket) \<noteq> Session ''a1''"
proof -
  have "\<not> authenticated sample_socket_env []" by (simp add: authenticated_def wait_for_auth_response_def map_filter_def)
  from unverified_clients_change_nothing [OF this, of sample_query 9 sample_socket] show ?thesis
    by (simp add: sample_socket_def)
qed

theorem any_key_opens_any_session_witness:
  "map_of (active (rs_mgr (rest sample_socket))) ''a1'' = Some 7
   \<and> map_of (active (rs_mgr (rest (snd (ws_accept sample_socket_env sample_query 9 [dumps_default sample_answer] sample_socket))))) ''a1'' = Some 9"
proof -
  have s: "strip ''a1'' = ''a1''" by code_simp
  have g: "\<exists>row. get_agent (re_own (se_rest sample_socket_env)) ''a1'' (rs_inv (rest sample_socket)) = Inr (Some row)"
    by (simp add: get_agent_def s sample_socket_env_def sample_rest_env_def sample_owner_env_def sample_socket_def sample_rest_def
        Owner_Store.sample_inventory_def)
  then obtain row where "get_agent (re_own (se_rest sample_socket_env)) ''a1'' (rs_inv (rest sample_socket)) = Inr (Some row)" by blast
  from any_key_opens_any_session [OF sample_answer_text [unfolded sample_answer_def] _ _ _ _ s _ this _ prod.collapse [symmetric],
      of sample_query 9]
  show ?thesis
    by (simp add: sample_answer_def sample_socket_env_def sample_query_def sample_rest_env_def sample_env_def)
       (simp add: sample_socket_def sample_active)
qed

definition queued_command :: "dict \<Rightarrow> cmd_record" where
  "queued_command ps = new_record ''m1'' ''a1'' ''ping'' ps ''user:u1'' (isoformat 0) (isoformat 30000000)"

definition socket_with :: "dict \<Rightarrow> socket_state" where
  \<comment> \<open>one queued ping with these parameters\<close>
  "socket_with ps = with_mgr (\<lambda>m. m\<lparr>queue := q_empty\<lparr>records := [(''m1'', queued_command ps)]\<rparr>\<rparr>) sample_socket"

definition ping_response :: "string \<Rightarrow> dict" where
  "ping_response s = [(''type'', JStr TYPE_COMMAND_RESPONSE), (''message_id'', JStr ''m1''), (''status'', JStr s)]"

lemma ping_response_text: "json_loads (dumps_default (JObj (ping_response s))) = Some (JObj (ping_response s))"
proof -
  have "plain (JObj (ping_response s))" by (simp add: ping_response_def)
  then show ?thesis by (rule loads_dumps)
qed

lemma ping_handled:
  "\<exists>m r. handle_agent_message sample_env ''a1'' (Some (JObj (ping_response s))) (rs_mgr (rest (socket_with ps))) = (Inr (JObj (ping_response s)), m)
    \<and> queued_record m (ping_response s) = Some r \<and> cmd_record.tool r = ''ping'' \<and> cmd_record.params r = ps \<and> issued_by r = ''user:u1''"
  by (auto simp: handle_agent_message_def handle_response_def ping_response_def resp_state_def msg_id_def mark_def q_get_def
      queued_record_def socket_with_def with_mgr_def queued_command_def new_record_def resp_updates_def Let_def
      split: option.split)

theorem non_text_host_ends_session_witness:
  "\<exists>m. handle_agent_message sample_env ''a1'' (Some (JObj (ping_response STATUS_SUCCESS))) (rs_mgr (rest (socket_with [(''host'', JInt 5)])))
        = (Inr (JObj (ping_response STATUS_SUCCESS)), m)
     \<and> ws_loop sample_socket_env ''a1'' JNull [(sample_socket_env, dumps_default (JObj (ping_response STATUS_SUCCESS)))]
         (socket_with [(''host'', JInt 5)]) = with_mgr (\<lambda>_. disconnect ''a1'' m) (socket_with [(''host'', JInt 5)])"
proof -
  let ?p = "ping_response STATUS_SUCCESS" and ?st = "socket_with [(''host'', JInt 5)]"
  obtain m r where h: "handle_agent_message sample_env ''a1'' (Some (JObj ?p)) (rs_mgr (rest ?st)) = (Inr (JObj ?p), m)"
     "queued_record m ?p = Some r" "cmd_record.tool r = ''ping''" "cmd_record.params r = [(''host'', JInt 5)]"
    using ping_handled by blast
  have "resolve_command ''ping'' \<notin> set (snapshot_tools @ package_tools)" by code_simp
  then have n: "resolve_command (queued_tool (Some r)) \<notin> set (snapshot_tools @ package_tools)" by (simp add: queued_tool_def h(3))
  have "ws_loop sample_socket_env ''a1'' JNull [(sample_socket_env, dumps_default (JObj ?p))] ?st = with_mgr (\<lambda>_. disconnect ''a1'' m) ?st"
    using non_text_host_ends_session [OF ping_response_text, of STATUS_SUCCESS sample_socket_env "''a1''" ?st "JObj ?p" m r JNull "[]"]
      h n by (simp add: ping_response_def sample_socket_env_def sample_rest_env_def)
  with h(1) show ?thesis by blast
qed

lemma ping_audit:
  "on_message sample_socket_env ''a1'' JNull (dumps_default (JObj (ping_response STATUS_ERROR))) (socket_with [])
   = (Inr (), snd (on_message sample_socket_env ''a1'' JNull (dumps_default (JObj (ping_response STATUS_ERROR))) (socket_with [])))"
proof -
  let ?p = "ping_response STATUS_ERROR"
  obtain m r where h: "handle_agent_message sample_env ''a1'' (Some (JObj ?p)) (rs_mgr (rest (socket_with []))) = (Inr (JObj ?p), m)"
     "queued_record m ?p = Some r" "cmd_record.tool r = ''ping''" "cmd_record.params r = []"
    using ping_handled by blast
  have q: "queued_tool (Some r) = ''ping''" "queued_params (Some r) = []" by (simp_all add: queued_tool_def queued_params_def h)
  have "\<exists>t. tool_target_summary ''ping'' [] = Inr t" by (simp add: tool_target_summary_def Let_def p3_def str_strip_def)
  then obtain t where t: "tool_target_summary ''ping'' [] = Inr t" by blast
  have "lower (strip STATUS_ERROR) = STATUS_ERROR" by code_simp
  then have "normalize_command_status (JStr STATUS_ERROR) False = Inr STATUS_ERROR"
    by (simp add: normalize_command_status_def str_strip_def)
  then have "\<exists>new. log_tool_execution c ''a1'' ''ping'' (response_log t ?p (Some r) JNull) = Inr new" for c
    by (simp add: log_tool_execution_def response_log_def ping_response_def getd_def Let_def)
  then obtain new where "log_tool_execution True ''a1'' ''ping'' (response_log t ?p (Some r) JNull) = Inr new" by blast
  with h q t show ?thesis
    by (simp add: on_message_def ping_response_text on_response_def audit_response_def sample_socket_env_def sample_rest_env_def
        sample_receive_env_def Let_def) (simp add: ping_response_def getd_def)
qed


end
