(* ===== verification/Query_Api.thy ===== *)
theory Query_Api
  imports Agent_Socket
begin

text \<open>
  The endpoints of \<^verbatim>\<open>server/controllers.py\<close> that read the log service, the result files and
  the vulnerability findings, with the state of the log client from
  \<^verbatim>\<open>server/lib/metrics_logger.py\<close>. The log service and the files are inputs.
\<close>

definition guarded :: "rest_env \<Rightarrow> string option \<Rightarrow> (socket_state \<Rightarrow> 'a res \<times> socket_state) \<Rightarrow> socket_state \<Rightarrow> 'a res \<times> socket_state" where
  \<comment> \<open>the dependency \<open>require_robin_jwt\<close>, then the handler\<close>
  "guarded e authorization handler st =
     (case require_robin_jwt (re_jwt e) authorization (rs_keys (rest st)) of
        (Inl x, k) \<Rightarrow> (Inl x, st\<lparr>rest := (rest st)\<lparr>rs_keys := k\<rparr>\<rparr>)
      | (Inr user, k) \<Rightarrow> handler (st\<lparr>rest := (rest st)\<lparr>rs_keys := k\<rparr>\<rparr>))"

section \<open>Logs\<close>

definition robin_logs_params :: "dict \<Rightarrow> dict" where
  \<comment> \<open>the query with its defaults: first page, fifty entries\<close>
  "robin_logs_params q = map (\<lambda>k. (k,
     if k = ''page'' then getd q k (JInt 1) else if k = ''limit'' then getd q k (JInt 50) else getv q k)) logs_query_params"

definition get_robin_logs ::
  "rest_env \<Rightarrow> int \<Rightarrow> os_env \<Rightarrow> (string \<Rightarrow> (string \<times> string) list \<Rightarrow> dict \<Rightarrow> log_reply) \<Rightarrow> string option \<Rightarrow> dict \<Rightarrow>
    socket_state \<Rightarrow> dict res \<times> socket_state" where
  "get_robin_logs e now env server authorization q =
     guarded e authorization (\<lambda>st. (fetch_logs now env server (robin_logs_params q), st))"

definition get_all_execution_logs :: "rest_env \<Rightarrow> (string \<times> json option) list \<Rightarrow> string option \<Rightarrow> socket_state \<Rightarrow> json list res \<times> socket_state" where
  \<comment> \<open>of the files below the directory of the results; a file that is no JSON is skipped\<close>
  "get_all_execution_logs e docs authorization =
     guarded e authorization (\<lambda>st. (Inr (List.map_filter snd (filter (\<lambda>(name, v). endswith name ''.json'') docs)), st))"

definition logger_status :: "os_env \<Rightarrow> dict \<Rightarrow> dict" where
  \<comment> \<open>the second argument: the statistics of the client's cache\<close>
  "logger_status env stats =
     (let url = ingest_url (env_text env ''ROBIN_LOGGER_URL''); api_key = env_text env ''ROBIN_LOGGER_API_KEY'';
          jwt = or_text (env_text env ''ROBIN_LOGGER_JWT'') (env_text env ''ROBIN_LOGGER_JWT_TOKEN'') in
      if url = [] \<or> (api_key = [] \<and> jwt = []) then
        [(''enabled'', JBool False), (''reason'', JStr ''faltan ROBIN_LOGGER_URL y credenciales (API key o JWT)'')]
      else [(''enabled'', JBool True), (''base_url'', JStr url),
            (''query_url'', (case query_url env of None \<Rightarrow> JNull | Some u \<Rightarrow> JStr u)),
            (''auth'', JStr (if jwt \<noteq> [] then ''jwt'' else ''api_key'')), (''cache_stats'', JObj stats)])"

definition system_logger_status :: "rest_env \<Rightarrow> os_env \<Rightarrow> dict \<Rightarrow> string option \<Rightarrow> socket_state \<Rightarrow> dict res \<times> socket_state" where
  "system_logger_status e env stats authorization =
     guarded e authorization (\<lambda>st. (Inr [(''logger'', JObj (logger_status env stats)),
        (''jwt_required'', JBool (jwt_required_enabled (re_jwt e))),
        (''robin_api_url'', JStr (or_text (env_text env ''ROBIN_API_URL'') ''https://back.ruvic.xyz/api''))], st))"

section \<open>Vulnerabilities\<close>

definition catalog_row :: "dict \<Rightarrow> json" where
  "catalog_row entry = JObj (map (\<lambda>k. (k, getv entry k)) [''cve'', ''product'', ''severity'', ''cvss'', ''summary''])"

definition get_cve_catalog :: "rest_env \<Rightarrow> receive_env \<Rightarrow> string option \<Rightarrow> socket_state \<Rightarrow> dict res \<times> socket_state" where
  "get_cve_catalog e r authorization =
     guarded e authorization (\<lambda>st. let catalog = load_catalog (cve_catalog r) in
       (Inr [(''count'', JInt (int (length catalog))), (''engine'', JStr ''local-catalog''),
             (''cves'', JList (map catalog_row catalog))], st))"

definition correlate_for :: "receive_env \<Rightarrow> dict \<Rightarrow> socket_state \<Rightarrow> dict res \<times> socket_state" where
  "correlate_for r payload st =
     (case py_or (getv payload ''packages'') (JList []) of
        JList packages \<Rightarrow>
         (let a = strip (str_or (getv payload ''agent_id'') []) in
          if a = [] then (correlate_packages (time_text r) (load_catalog (cve_catalog r)) packages, st)
          else (case ingest_inventory (time_text r) (cve_can_write r) (cve_catalog r) a packages (getv payload ''tenant_id'') (cves (recv st)) of
                  (found, c) \<Rightarrow> (found, st\<lparr>recv := (recv st)\<lparr>cves := c\<rparr>\<rparr>)))
      | _ \<Rightarrow> (Inl (HTTPException 400), st))"

definition cve_correlate :: "rest_env \<Rightarrow> receive_env \<Rightarrow> string option \<Rightarrow> dict \<Rightarrow> socket_state \<Rightarrow> dict res \<times> socket_state" where
  "cve_correlate e r authorization payload = guarded e authorization (correlate_for r payload)"

definition agent_vulnerabilities :: "rest_env \<Rightarrow> string option \<Rightarrow> string \<Rightarrow> socket_state \<Rightarrow> dict res \<times> socket_state" where
  "agent_vulnerabilities e authorization a =
     guarded e authorization (\<lambda>st. case get_agent_findings a (cves (recv st)) of
       (f, c) \<Rightarrow> (case f of None \<Rightarrow> Inl (HTTPException 404) | Some d \<Rightarrow> Inr d, st\<lparr>recv := (recv st)\<lparr>cves := c\<rparr>\<rparr>))"

section \<open>Whose findings\<close>

text \<open>
  Neither endpoint asks who owns the agent: what the holder of any accepted token posts for an
  agent is what every user is then told about that agent.
\<close>

theorem any_token_replaces_findings:
  assumes "require_robin_jwt (re_jwt e) poster (rs_keys (rest st)) = (Inr user, k)"
    and "cve_correlate e r poster [(''agent_id'', JStr a), (''packages'', JList packages)] st = (Inr d, st')"
    and "strip a = a" "a \<noteq> []"
    and "require_robin_jwt (re_jwt e) reader (rs_keys (rest st')) = (Inr user', k')"
  shows "fst (agent_vulnerabilities e reader a st') = Inr d \<and> getv d ''agent_id'' = JStr a"
proof -
  have p: "py_or (JList packages) (JList []) = JList packages" by (cases packages) simp_all
  show ?thesis
    using assms by (auto simp: cve_correlate_def guarded_def correlate_for_def p ingest_inventory_def agent_vulnerabilities_def
        get_agent_findings_def Let_def split: prod.splits sum.splits)
qed

lemma robin_logs_params_keys: "map fst (robin_logs_params q) = logs_query_params"
  by (simp add: robin_logs_params_def comp_def)

end
