(* ===== verification/Obs_Monitors.thy ===== *)
theory Obs_Monitors
  imports Sec_Monitors Otlp_Metrics Watcher
begin

text \<open>
  The observability monitors of the agent, \<^verbatim>\<open>colsoft_tools/obs_monitors.py\<close>, with what they read
  through \<^verbatim>\<open>colsoft_tools/observability.py\<close>: the watchers of processes and services, the health
  probes, the local alerts and the choice of the monitors that are started. Snapshots, probes,
  clocks and the order of iteration of a set are inputs.
\<close>

section \<open>Processes\<close>

definition arrow :: string where
  \<comment> \<open>U+2192 in UTF-8\<close>
  "arrow = [CHR 0xE2, CHR 0x86, CHR 0x92]"

definition timestamp_iso :: "json \<Rightarrow> json" where
  \<comment> \<open>a positive or negative number of seconds as text, \<open>None\<close> outside the years of a datetime\<close>
  "timestamp_iso ct =
     (if (is_num ct \<or> is_bool ct) \<and> truthy ct then
        (case py_float ct of
           Inr (Fin q) \<Rightarrow> (let us = round_half_even (q * 1000000) in
             if year_start_us \<le> us \<and> us < year_end_us then JStr (isoformat us) else JNull)
         | _ \<Rightarrow> JNull)
      else JNull)"

definition process_event :: "string \<Rightarrow> string \<Rightarrow> dict \<Rightarrow> dict" where
  "process_event ts et proc =
     [(''event_type'', JStr et), (''category'', JStr ''observability''), (''severity'', JStr ''info''),
      (''tool'', JStr ''process_watch''), (''pid'', getv proc ''pid''), (''ppid'', getv proc ''ppid''),
      (''name'', getv proc ''name''), (''username'', getv proc ''username''), (''cmdline'', getv proc ''cmdline''),
      (''create_time'', timestamp_iso (getv proc ''create_time'')), (''ts'', JStr ts)]"

definition proc_at :: "('k \<times> dict) list \<Rightarrow> 'k \<Rightarrow> dict" where
  "proc_at procs k = (case map_of procs k of Some p \<Rightarrow> p | None \<Rightarrow> [])"

definition process_changes :: "('k \<Rightarrow> nat) \<Rightarrow> string \<Rightarrow> ('k \<times> dict) list \<Rightarrow> ('k \<times> dict) list \<Rightarrow> dict list" where
  \<comment> \<open>without the cap: the created processes, then the exited ones\<close>
  "process_changes rank ts cur seen =
     map (\<lambda>k. process_event ts ''process.created'' (proc_at cur k)) (iter_by rank (filter (\<lambda>k. \<not> has k seen) (keys cur)))
   @ map (\<lambda>k. process_event ts ''process.exited'' (proc_at seen k)) (iter_by rank (filter (\<lambda>k. \<not> has k cur) (keys seen)))"

definition process_tick :: "('k \<Rightarrow> nat) \<Rightarrow> string \<Rightarrow> nat \<Rightarrow> ('k \<times> dict) list \<Rightarrow> ('k \<times> dict) list option \<Rightarrow>
    dict list \<times> ('k \<times> dict) list option" where
  "process_tick rank ts n cur seen =
     (case seen of
        None \<Rightarrow> ([], Some cur)
      | Some old \<Rightarrow> (capped n (process_changes rank ts cur old) [], Some cur))"

section \<open>Services\<close>

definition service_row :: "json \<Rightarrow> baseline \<Rightarrow> baseline" where
  "service_row v out = (case v of
       JObj item \<Rightarrow>
         (let key = str_or (py_or (py_or (getv item ''unit'') (getv item ''service_name'')) (getv item ''label'')) [] in
          if key = [] then out
          else dset key [(''unit'', JStr key), (''active'', py_or (getv item ''active'') (getv item ''active_state'')),
                         (''sub'', py_or (getv item ''sub'') (getv item ''sub_state''))] out)
     | _ \<Rightarrow> out)"

definition snapshot_services :: "dict \<Rightarrow> baseline" where
  \<comment> \<open>of the status report of the services\<close>
  "snapshot_services rec = fold service_row (case getv rec ''services'' of JList xs \<Rightarrow> xs | _ \<Rightarrow> []) []"

definition service_event :: "string \<Rightarrow> string \<Rightarrow> string \<Rightarrow> dict \<Rightarrow> dict \<Rightarrow> dict" where
  \<comment> \<open>time, change, key, item and, for a change of state, the old item\<close>
  "service_event ts change k item old =
     (let unit = py_or (getv item ''unit'') (JStr k);
          states = (\<lambda>d. py_str (getv d ''active'') @ ''/'' @ py_str (getv d ''sub'')) in
      [(''event_type'', JStr ''service.changed''), (''category'', JStr ''observability''), (''severity'', JStr ''info''),
       (''tool'', JStr ''service_watch''),
       (''summary'', JStr (if change = ''state'' \<and> old \<noteq> []
          then ''state '' @ py_str unit @ '' '' @ states old @ '' '' @ arrow @ '' '' @ states item
          else change @ '' '' @ py_str unit)),
       (''change'', JStr change), (''unit'', unit), (''active'', getv item ''active''), (''sub'', getv item ''sub''),
       (''ts'', JStr ts)])"

definition state_differs :: "dict \<Rightarrow> dict \<Rightarrow> bool" where
  "state_differs old new \<longleftrightarrow> (getv old ''active'', getv old ''sub'') \<noteq> (getv new ''active'', getv new ''sub'')"

definition service_changes :: "string \<Rightarrow> baseline \<Rightarrow> baseline \<Rightarrow> dict list" where
  "service_changes ts cur seen =
     map (\<lambda>(k, item). service_event ts ''added'' k item []) (pick_keys cur (\<lambda>k. \<not> has k seen))
   @ map (\<lambda>(k, item). service_event ts ''removed'' k item []) (pick_keys seen (\<lambda>k. \<not> has k cur))
   @ map (\<lambda>(k, item). service_event ts ''state'' k item (entry seen k))
       (pick_keys cur (\<lambda>k. has k seen \<and> state_differs (entry seen k) (entry cur k)))"

definition service_tick :: "string \<Rightarrow> nat \<Rightarrow> baseline \<Rightarrow> baseline option \<Rightarrow> dict list \<times> baseline option" where
  "service_tick ts n cur seen =
     (case seen of
        None \<Rightarrow> ([], Some cur)
      | Some old \<Rightarrow> (capped n (service_changes ts cur old) [], Some cur))"

section \<open>Health probes\<close>

record prober =
  tcp_check :: "string \<Rightarrow> int \<Rightarrow> int \<Rightarrow> dict"
    \<comment> \<open>host, port, timeout\<close>
  http_check :: "string \<Rightarrow> int \<Rightarrow> bool \<Rightarrow> dict"
    \<comment> \<open>URL, timeout, whether certificates are verified\<close>
  process_check :: "string \<Rightarrow> dict"

definition down :: "string \<Rightarrow> dict" where
  "down why = [(''status'', JStr ''DOWN''), (''error'', JStr why)]"

definition tcp_probe :: "prober \<Rightarrow> int \<Rightarrow> dict \<Rightarrow> dict res" where
  "tcp_probe p timeout raw =
     res_bind (str_strip (py_or (py_or (getv raw ''host'') (getv raw ''target'')) (JStr ''127.0.0.1''))) (\<lambda>host.
     (case py_int (getv raw ''port'') of
        Inl x \<Rightarrow> if caught x then Inr (down ''Missing/invalid port'') else Inl x
      | Inr port \<Rightarrow> (let t = tcp_check p host port timeout in
          Inr [(''host'', JStr host), (''port'', JInt port), (''status'', getv t ''status''),
               (''response_time'', getv t ''response_time''), (''error'', getv t ''error'')])))"

definition probe_url :: "dict \<Rightarrow> string res" where
  \<comment> \<open>empty: there is none\<close>
  "probe_url raw =
     res_bind (str_strip (py_or (py_or (getv raw ''url'') (getv raw ''target'')) (JStr []))) (\<lambda>url.
     if url \<noteq> [] then Inr url
     else
       res_bind (str_strip (py_or (getv raw ''host'') (JStr []))) (\<lambda>host.
       res_bind (str_strip (py_or (getv raw ''path'') (JStr ''/''))) (\<lambda>path.
       (let path = (if path = [] then ''/'' else path);
            path = (if startswith path ''/'' then path else CHR ''/'' # path);
            port = getv raw ''port'' in
        if host = [] \<or> port = JNull \<or> port = JStr [] then Inr []
        else res_bind (str_strip (py_or (getv raw ''scheme'') (JStr ''http''))) (\<lambda>scheme.
          (case py_int port of
             Inl x \<Rightarrow> if caught x then Inr [] else Inl x
           | Inr n \<Rightarrow> Inr ((if scheme = [] then ''http'' else scheme) @ ''://'' @ host @ '':'' @ int_str n @ path)))))))"

definition http_probe :: "prober \<Rightarrow> int \<Rightarrow> dict \<Rightarrow> dict res" where
  "http_probe p timeout raw =
     res_bind (probe_url raw) (\<lambda>url.
     if url = [] then Inr (down ''Missing url'')
     else
      (let verify = (if has ''verify'' raw then truthy (getv raw ''verify'')
                     else \<not> (truthy (getv raw ''insecure'') \<or> truthy (getv raw ''tls_insecure'')));
           h = http_check p url timeout verify in
       Inr [(''url'', JStr url), (''status'', getv h ''status''), (''status_code'', getv h ''status_code''),
            (''response_time'', getv h ''response_time''), (''error'', getv h ''error'')]))"

definition process_probe :: "prober \<Rightarrow> dict \<Rightarrow> dict res" where
  "process_probe p raw =
     res_bind (str_strip (py_or (py_or (getv raw ''name'') (getv raw ''process'')) (JStr []))) (\<lambda>name.
     Inr (dupdate [(''name'', JStr name)] (process_check p name)))"

definition probe_record :: "prober \<Rightarrow> nat \<Rightarrow> json \<Rightarrow> dict res" where
  "probe_record p i v =
     (case v of
        JObj raw \<Rightarrow>
          (let cid = str_or (getv raw ''id'') (''check-'' @ int_str (int i));
               kind = lower (strip (str_or (py_or (getv raw ''type'') (getv raw ''kind'')) [])) in
           res_bind (py_int (py_or (getv raw ''timeout'') (JInt 5))) (\<lambda>timeout.
           res_bind (if kind = ''tcp'' \<or> kind = ''port'' then tcp_probe p timeout raw
                     else if kind = ''http'' then http_probe p timeout raw
                     else if kind = ''process'' then process_probe p raw
                     else Inr (down (''tipo no soportado: '' @ (if kind = [] then ''(vac'' @ [CHR 0xED] @ ''o)'' else kind)
                                     @ '' (tcp|http|process)''))) (\<lambda>found.
           Inr (dupdate [(''id'', JStr cid), (''type'', JStr kind)] found))))
      | _ \<Rightarrow> Inr ([(''id'', JStr (''check-'' @ int_str (int i))), (''type'', JStr ''unknown'')]
                  @ down ''check debe ser un objeto''))"

primrec probe_all :: "prober \<Rightarrow> nat \<Rightarrow> json list \<Rightarrow> dict list \<times> py_exc option" where
  \<comment> \<open>the records up to the first check that raises\<close>
  "probe_all p i [] = ([], None)"
| "probe_all p i (v # vs) =
     (case probe_record p i v of
        Inl x \<Rightarrow> ([], Some x)
      | Inr r \<Rightarrow> (case probe_all p (Suc i) vs of (rs, x) \<Rightarrow> (r # rs, x)))"

definition max_health_checks :: nat where "max_health_checks = 32"

fun round6 :: "pyfloat \<Rightarrow> pyfloat" where
  "round6 (Fin q) = Fin (rat_of_int (round_half_even (q * 1000000)) / 1000000)"
| "round6 f = f"

definition up_latencies :: "dict list \<Rightarrow> json list" where
  "up_latencies rs = filter is_num (map (\<lambda>r. getv r ''response_time'') (filter (\<lambda>r. getv r ''status'' = JStr ''UP'') rs))"

definition probe_report :: "dict list \<Rightarrow> dict res" where
  "probe_report rs =
     res_bind (all_res (map py_float (up_latencies rs))) (\<lambda>fs.
     (let bad = length (filter (\<lambda>r. getv r ''status'' \<noteq> JStr ''UP'') rs) in
      Inr [(''tool'', JStr ''health_probes''), (''status'', JStr (if bad = 0 then ''OK'' else ''DOWN'')),
           (''count'', JInt (int (length rs))), (''down'', JInt (int bad)),
           (''response_time'', if fs = [] then JNull
              else JFloat (round6 (fscale (1 / rat_of_nat (length fs)) (fold (\<lambda>f t. fadd t f) fs (Fin 0))))),
           (''response_time_max'', (case fs of [] \<Rightarrow> JNull | f # rest \<Rightarrow> JFloat (round6 (fold (\<lambda>x best. fmax best x) rest f)))),
           (''checks'', JList (map JObj rs)), (''error'', JNull)]))"

definition run_health_probes :: "(py_exc \<Rightarrow> string) \<Rightarrow> prober \<Rightarrow> json \<Rightarrow> dict" where
  "run_health_probes exc_text p checks =
     (let xs = (case checks of JList xs \<Rightarrow> take max_health_checks xs | _ \<Rightarrow> []);
          failed = (\<lambda>rs x. [(''tool'', JStr ''health_probes''), (''status'', JStr ''ERROR''),
                          (''checks'', JList (map JObj rs)), (''error'', JStr (exc_text x))]) in
      (case probe_all p 0 xs of
         (rs, Some x) \<Rightarrow> failed rs x
       | (rs, None) \<Rightarrow> (case probe_report rs of Inl x \<Rightarrow> failed rs x | Inr d \<Rightarrow> d)))"

type_synonym probe_states = "(string \<times> string) list"

definition probe_event :: "string \<Rightarrow> string \<Rightarrow> string \<Rightarrow> bool \<Rightarrow> dict \<Rightarrow> dict" where
  "probe_event ts cid s changed rec =
     [(''event_type'', JStr ''health.probe''), (''category'', JStr ''observability''),
      (''severity'', JStr (if s = ''UP'' then ''info'' else ''warning'')), (''tool'', JStr ''health_probes''),
      (''check_id'', JStr cid), (''check_type'', getv rec ''type''), (''status'', JStr s), (''changed'', JBool changed),
      (''result'', JObj rec), (''ts'', JStr ts)]"

definition probe_step :: "bool \<Rightarrow> string \<Rightarrow> dict \<Rightarrow> dict list \<times> probe_states \<Rightarrow> dict list \<times> probe_states" where
  "probe_step always ts rec st =
     (let cid = str_or (getv rec ''id'') []; s = str_or (getv rec ''status'') ''DOWN'';
          changed = (map_of (snd st) cid \<noteq> Some s) in
      (if changed \<or> always then fst st @ [probe_event ts cid s changed rec] else fst st, dset cid s (snd st)))"

definition probe_tick :: "bool \<Rightarrow> string \<Rightarrow> dict \<Rightarrow> probe_states \<Rightarrow> dict list \<times> probe_states" where
  "probe_tick always ts report states = fold (probe_step always ts) (recs report ''checks'') ([], states)"

section \<open>Alerts\<close>

definition metric_aliases :: "(string \<times> string) list" where
  "metric_aliases =
     [(''cpu.load1'', ''cpu.load_avg_1''), (''cpu.load5'', ''cpu.load_avg_5''), (''cpu.load15'', ''cpu.load_avg_15''),
      (''network.bytes_sent'', ''network_io.bytes_sent''), (''network.bytes_recv'', ''network_io.bytes_recv''),
      (''tcp.listen'', ''tcp_connections.listen''), (''tcp.established'', ''tcp_connections.established''),
      (''tcp.time_wait'', ''tcp_connections.time_wait''), (''tcp.syn_recv'', ''tcp_connections.syn_recv''),
      (''tcp.syn_sent'', ''tcp_connections.syn_sent''), (''tcp.close_wait'', ''tcp_connections.close_wait''),
      (''tcp.udp'', ''tcp_connections.udp'')]"

definition number_like :: "json \<Rightarrow> bool" where
  \<comment> \<open>\<open>isinstance(v, (int, float))\<close>\<close>
  "number_like v \<longleftrightarrow> is_num v \<or> is_bool v"

definition some_float :: "json \<Rightarrow> pyfloat option res" where
  "some_float v = res_bind (py_float v) (\<lambda>f. Inr (Some f))"

definition disk_percent_max :: "dict \<Rightarrow> pyfloat option res" where
  "disk_percent_max metrics =
     res_bind (all_res (map py_float (filter number_like (map (\<lambda>v. getv (obj_of v) ''percent'')
        (filter is_obj (case getv metrics ''disks'' of JList ds \<Rightarrow> ds | _ \<Rightarrow> [])))))) (\<lambda>fs.
     Inr (case fs of [] \<Rightarrow> None | f # rest \<Rightarrow> Some (fold (\<lambda>x best. fmax best x) rest f)))"

definition network_rows :: "dict \<Rightarrow> json list" where
  "network_rows metrics =
     (case (case getv metrics ''network_io'' of JList rows \<Rightarrow> JList rows | JObj d \<Rightarrow> getv d ''interfaces'' | _ \<Rightarrow> JNull) of
        JList rows \<Rightarrow> rows
      | _ \<Rightarrow> (case getv metrics ''net'' of JList rows \<Rightarrow> rows | _ \<Rightarrow> []))"

definition network_bytes :: "dict \<Rightarrow> bool \<Rightarrow> pyfloat option res" where
  \<comment> \<open>sent or received\<close>
  "network_bytes metrics sent =
     (let alt = (if sent then ''bytes_sent'' else ''bytes_recv''); field = (if sent then ''tx_bytes'' else ''rx_bytes'');
          direct = getv (obj_of (getv metrics ''network_io'')) alt;
          rows = map obj_of (filter is_obj (network_rows metrics)) in
      if number_like direct then some_float direct
      else res_bind (all_res (map (\<lambda>r. py_int (py_or (py_or (getv r field) (getv r alt)) (JInt 0))) rows)) (\<lambda>ns.
           if rows = [] then Inr None else some_float (JInt (sum_list ns))))"

definition load_average :: "dict \<Rightarrow> string \<Rightarrow> nat \<Rightarrow> pyfloat option res" where
  "load_average metrics key i =
     (let cpu = obj_of (getv metrics ''cpu'') in
      if is_num (getv cpu key) then some_float (getv cpu key)
      else (case getv cpu ''load_avg_1_5_15'' of
          JList xs \<Rightarrow> if i < length xs \<and> is_num (xs ! i) then some_float (xs ! i) else Inr None
        | _ \<Rightarrow> Inr None))"

definition memory_in_use :: "dict \<Rightarrow> pyfloat option res" where
  "memory_in_use metrics =
     (let mem = obj_of (getv metrics ''memory'') in
      if number_like (getv mem ''used'') then some_float (getv mem ''used'')
      else if getv mem ''total'' \<noteq> JNull \<and> getv mem ''available'' \<noteq> JNull then
        (case res_bind (py_int (getv mem ''total'')) (\<lambda>t. res_bind (py_int (getv mem ''available'')) (\<lambda>a. Inr (t - a))) of
           Inl x \<Rightarrow> if caught x then Inr None else Inl x
         | Inr n \<Rightarrow> some_float (JInt n))
      else Inr None)"

fun walk_path :: "string list \<Rightarrow> json \<Rightarrow> json option" where
  "walk_path [] cur = Some cur"
| "walk_path (p # ps) (JObj d) = walk_path ps (getv d p)"
| "walk_path (p # ps) cur = None"

definition metric_from_snapshot :: "dict \<Rightarrow> string \<Rightarrow> pyfloat option res" where
  "metric_from_snapshot metrics given =
     (let p0 = strip given; path = (case map_of metric_aliases p0 of Some q \<Rightarrow> q | None \<Rightarrow> p0) in
      if p0 = [] then Inr None
      else if path = ''disks.percent.max'' then disk_percent_max metrics
      else if path = ''network_io.bytes_sent'' then network_bytes metrics True
      else if path = ''network_io.bytes_recv'' then network_bytes metrics False
      else if path = ''cpu.load_avg_1'' then load_average metrics ''load_avg_1'' 0
      else if path = ''cpu.load_avg_5'' then load_average metrics ''load_avg_5'' 1
      else if path = ''cpu.load_avg_15'' then load_average metrics ''load_avg_15'' 2
      else if path = ''memory.used'' then memory_in_use metrics
      else (case walk_path (split_char (CHR ''.'') path) (JObj metrics) of
              Some v \<Rightarrow> if is_num v then some_float v else Inr None
            | None \<Rightarrow> Inr None))"

definition alert_ops :: "(string \<times> (pyfloat \<Rightarrow> pyfloat \<Rightarrow> bool)) list" where
  "alert_ops = [(''gt'', \<lambda>v t. flt t v), (''gte'', \<lambda>v t. fle t v), (''lt'', flt), (''lte'', fle), (''eq'', feq)]"

record alert_state =
  fire_times :: fires
  firing :: "(string \<times> bool) list"

definition is_firing :: "alert_state \<Rightarrow> string \<Rightarrow> bool" where
  "is_firing st rid \<longleftrightarrow> map_of (firing st) rid = Some True"

definition alert_step :: "pyfloat \<Rightarrow> rat \<Rightarrow> string \<Rightarrow> bool \<Rightarrow> alert_state \<Rightarrow> bool option \<times> alert_state" where
  \<comment> \<open>cool-down, time, rule, whether the condition holds; True reports a threshold, False that it is cleared\<close>
  "alert_step cd now rid hot st =
     (if hot then
        (if cooling cd now (fire_times st) rid \<and> is_firing st rid then (None, st)
         else (Some True, \<lparr>fire_times = dset rid now (fire_times st), firing = dset rid True (firing st)\<rparr>))
      else if is_firing st rid then (Some False, st\<lparr>firing := dset rid False (firing st)\<rparr>)
      else (None, st))"

definition alert_event :: "string \<Rightarrow> string \<Rightarrow> dict \<Rightarrow> pyfloat \<Rightarrow> pyfloat \<Rightarrow> bool \<Rightarrow> dict" where
  "alert_event ts rid rule threshold v hot =
     [(''event_type'', JStr (if hot then ''alert.threshold'' else ''alert.cleared'')), (''category'', JStr ''observability''),
      (''severity'', JStr (if hot then str_or (getv rule ''severity'') ''warning'' else ''info'')), (''tool'', JStr ''alerts''),
      (''rule_id'', JStr rid), (''metric'', JStr (str_or (getv rule ''metric'') [])),
      (''op'', JStr (lower (str_or (getv rule ''op'') ''gt''))), (''threshold'', JFloat threshold), (''value'', JFloat v),
      (''ts'', JStr ts)]"

definition rule_id_of :: "nat \<Rightarrow> dict \<Rightarrow> string" where
  "rule_id_of i rule = str_or (getv rule ''id'') (''rule-'' @ int_str (int i))"

definition rule_value :: "dict \<Rightarrow> dict \<Rightarrow> (pyfloat \<times> pyfloat \<times> bool) option res" where
  \<comment> \<open>threshold, value and whether the condition holds; \<open>None\<close>: the rule is skipped\<close>
  "rule_value metrics rule =
     (case py_float (getv rule ''threshold'') of
        Inl x \<Rightarrow> if caught x then Inr None else Inl x
      | Inr t \<Rightarrow>
         (case map_of alert_ops (lower (str_or (getv rule ''op'') ''gt'')) of
            None \<Rightarrow> Inr None
          | Some cmp \<Rightarrow>
             if str_or (getv rule ''metric'') [] = [] then Inr None
             else res_bind (metric_from_snapshot metrics (str_or (getv rule ''metric'') [])) (\<lambda>v.
                  Inr (case v of None \<Rightarrow> None | Some f \<Rightarrow> Some (t, f, cmp f t)))))"

fun alert_rules :: "pyfloat \<Rightarrow> string \<Rightarrow> rat \<Rightarrow> dict \<Rightarrow> nat \<Rightarrow> dict list \<Rightarrow> alert_state \<Rightarrow> dict list res \<times> alert_state" where
  "alert_rules cd ts now metrics i [] st = (Inr [], st)"
| "alert_rules cd ts now metrics i (rule # rules) st =
     (case rule_value metrics rule of
        Inl x \<Rightarrow> (Inl x, st)
      | Inr None \<Rightarrow> alert_rules cd ts now metrics (Suc i) rules st
      | Inr (Some (t, v, hot)) \<Rightarrow>
         (case alert_step cd now (rule_id_of i rule) hot st of
            (None, st) \<Rightarrow> alert_rules cd ts now metrics (Suc i) rules st
          | (Some b, st) \<Rightarrow>
             (case alert_rules cd ts now metrics (Suc i) rules st of
                (r, st) \<Rightarrow> (res_bind r (\<lambda>evs. Inr (alert_event ts (rule_id_of i rule) rule t v b # evs)), st))))"

definition evaluate :: "pyfloat \<Rightarrow> dict list \<Rightarrow> string \<Rightarrow> rat \<Rightarrow> dict \<Rightarrow> alert_state \<Rightarrow> dict list res \<times> alert_state" where
  "evaluate cd rules ts now metrics st = alert_rules cd ts now metrics 0 rules st"

section \<open>Start\<close>

datatype obs_monitor =
    Process_Watch pyfloat int
  | Service_Watch pyfloat int
  | Health_Probes "json list" pyfloat bool
  | Alerts "dict list" pyfloat pyfloat
    \<comment> \<open>rules, interval and cool-down\<close>

definition tick_cap :: "dict \<Rightarrow> int res" where
  "tick_cap c = res_bind (py_int (num_or c ''max_events_per_tick'' 40)) (\<lambda>n. Inr (max 1 (if n = 0 then 40 else n)))"

definition probes_enabled :: "dict \<Rightarrow> json list \<Rightarrow> bool" where
  \<comment> \<open>a missing switch is on when there are checks\<close>
  "probes_enabled c items \<longleftrightarrow> (if getv c ''enabled'' = JNull then items \<noteq> [] else truthy (getv c ''enabled'')) \<and> items \<noteq> []"

definition list_at :: "dict \<Rightarrow> string \<Rightarrow> json list" where
  "list_at c k = (case getv c k of JList xs \<Rightarrow> xs | _ \<Rightarrow> [])"

definition spawn_obs_tasks :: "dict \<Rightarrow> obs_monitor list res" where
  "spawn_obs_tasks conf =
     (let pw = obj_of (getv conf ''process_watch''); sw = obj_of (getv conf ''service_watch'');
          hp = obj_of (getv conf ''health_probes''); al = obj_of (getv conf ''alerts'') in
      res_bind (if truthy (getv pw ''enabled'')
        then res_bind (tick_cap pw) (\<lambda>n. res_bind (interval_of (num_or pw ''interval_seconds'' 5) 5 1) (\<lambda>i. Inr [Process_Watch i n]))
        else Inr []) (\<lambda>m1.
      res_bind (if truthy (getv sw ''enabled'')
        then res_bind (tick_cap sw) (\<lambda>n. res_bind (interval_of (num_or sw ''interval_seconds'' 30) 30 5) (\<lambda>i. Inr [Service_Watch i n]))
        else Inr []) (\<lambda>m2.
      res_bind (if probes_enabled hp (list_at hp ''checks'')
        then res_bind (interval_of (num_or hp ''interval_seconds'' 60) 60 1) (\<lambda>i.
             Inr [Health_Probes (list_at hp ''checks'') i (truthy (getv hp ''emit_always''))])
        else Inr []) (\<lambda>m3.
      res_bind (if probes_enabled al (list_at al ''rules'')
        then res_bind (interval_of (num_or al ''interval_seconds'' 30) 30 1) (\<lambda>i.
             res_bind (cooldown_of (num_or al ''cooldown_seconds'' 300)) (\<lambda>cd.
             Inr [Alerts (map obj_of (filter is_obj (list_at al ''rules''))) i cd]))
        else Inr []) (\<lambda>m4. Inr (m1 @ m2 @ m3 @ m4))))))"

section \<open>The watchers report what changed\<close>

lemma process_changes_same: "process_changes rank ts c c = []"
  by (simp add: process_changes_def has_keys filter_empty_conv iter_by_def)

lemma service_changes_same: "service_changes ts b b = []"
  by (simp add: service_changes_def has_keys state_differs_def)

interpretation process_watch: capped_watcher "process_tick rank ts n" "\<lambda>c. c" "\<lambda>c s. take n (process_changes rank ts c s)"
    n "process_changes rank ts" for rank ts n
  by unfold_locales (simp_all add: process_tick_def process_changes_same)

interpretation service_watch: capped_watcher "service_tick ts n" "\<lambda>c. c" "\<lambda>c s. take n (service_changes ts c s)"
    n "service_changes ts" for ts n
  by unfold_locales (simp_all add: service_tick_def service_changes_same)

definition named :: "baseline \<Rightarrow> bool" where
  \<comment> \<open>every entry carries its own key as its unit\<close>
  "named b \<longleftrightarrow> (\<forall>k. has k b \<longrightarrow> k \<noteq> [] \<and> getv (entry b k) ''unit'' = JStr k)"

lemma entry_dset: "entry (dset k d b) k' = (if k' = k then d else entry b k')"
  by (simp add: entry_def)

lemma service_row_named: "named b \<Longrightarrow> named (service_row v b)"
  by (auto simp: service_row_def named_def has_dset entry_dset Let_def split: json.split)

lemma snapshot_named: "named (snapshot_services rec)"
proof -
  have "named b \<Longrightarrow> named (fold service_row vs b)" for vs b
    by (induction vs arbitrary: b) (simp_all add: service_row_named)
  moreover have "named []" by (simp add: named_def has_map_of)
  ultimately show ?thesis by (simp add: snapshot_services_def)
qed

definition mark_of :: "dict \<Rightarrow> json \<times> json" where
  "mark_of ev = (getv ev ''change'', getv ev ''unit'')"

lemma service_mark: "mark_of (service_event ts ch k item old) = (JStr ch, py_or (getv item ''unit'') (JStr k))"
  by (simp add: mark_of_def service_event_def Let_def)

lemma named_marks:
  assumes "named b"
  shows "(\<lambda>(k, item). mark_of (service_event ts ch k item (old k))) ` set (pick_keys b P) = (\<lambda>k. (JStr ch, JStr k)) ` {k. has k b \<and> P k}"
proof -
  have "(\<lambda>(k, item). mark_of (service_event ts ch k item (old k))) ` set (pick_keys b P)
      = (\<lambda>k. (JStr ch, py_or (getv (entry b k) ''unit'') (JStr k))) ` {k. has k b \<and> P k}"
    by (auto simp: pick_keys_def service_mark has_keys)
  also have "\<dots> = (\<lambda>k. (JStr ch, JStr k)) ` {k. has k b \<and> P k}"
    using assms by (intro image_cong) (auto simp: named_def)
  finally show ?thesis .
qed

definition service_delta :: "baseline \<Rightarrow> baseline \<Rightarrow> (json \<times> json) set" where
  \<comment> \<open>the units that came, went, or changed their state\<close>
  "service_delta old cur =
     (\<lambda>k. (JStr ''added'', JStr k)) ` {k. has k cur \<and> \<not> has k old}
   \<union> (\<lambda>k. (JStr ''removed'', JStr k)) ` {k. has k old \<and> \<not> has k cur}
   \<union> (\<lambda>k. (JStr ''state'', JStr k)) ` {k. has k cur \<and> has k old \<and> state_differs (entry old k) (entry cur k)}"

lemma service_changes_delta:
  assumes "named old" "named cur"
  shows "mark_of ` set (service_changes ts cur old) = service_delta old cur"
  unfolding service_changes_def service_delta_def set_append image_Un set_map image_image
  using named_marks [OF assms(2), of ts "''added''" "\<lambda>k. []"] named_marks [OF assms(1), of ts "''removed''" "\<lambda>k. []"]
    named_marks [OF assms(2), of ts "''state''" "entry old"]
  by (simp add: case_prod_unfold Un_assoc)

text \<open>
  Between two snapshots of the services whose differences fit into one tick the watcher reports
  exactly the units that came, went or changed their state.
\<close>

theorem service_watch_reports_exactly:
  assumes "old = snapshot_services rec" "cur = snapshot_services rec'" "length (service_changes ts cur old) \<le> n"
  shows "mark_of ` set (fst (service_tick ts n cur (Some old))) = service_delta old cur"
  using service_watch.complete_below_cap [OF assms(3)] service_changes_delta [OF snapshot_named snapshot_named, of ts rec' rec]
  by (simp add: assms(1,2))

text \<open>
  What does not fit is lost: the watcher remembers the new snapshot whatever it has reported, so
  the next tick is silent about the rest.
\<close>

theorem services_over_cap_are_lost:
  assumes "length (service_changes ts cur old) > n"
  shows "\<exists>evs. service_tick ts n cur (Some old) = (evs, Some cur) \<and> evs = take n (service_changes ts cur old)
    \<and> length evs = n \<and> fst (service_tick ts' n cur (Some cur)) = []"
  using assms service_watch.rest_is_lost [of ts n cur cur] by (simp add: service_tick_def service_changes_same)

text \<open>
  A status report without services, as the one of a command that failed, counts as a host without
  services: every known unit is reported as removed, up to the cap, and as added by the next
  report that works.
\<close>

theorem failed_scan_reports_removals:
  assumes "getv rec ''services'' = JNull" "old = snapshot_services ok" "length (keys old) \<le> n"
  shows "mark_of ` set (fst (service_tick ts n (snapshot_services rec) (Some old))) = (\<lambda>k. (JStr ''removed'', JStr k)) ` set (keys old)
    \<and> mark_of ` set (fst (service_tick ts n old (Some (snapshot_services rec)))) = (\<lambda>k. (JStr ''added'', JStr k)) ` set (keys old)"
proof -
  have e: "snapshot_services rec = []" using assms(1) by (simp add: snapshot_services_def)
  have len: "length (service_changes ts [] old) \<le> n" "length (service_changes ts old []) \<le> n"
    using assms(3) by (simp_all add: service_changes_def pick_keys_def has_map_of keys_def)
  have d: "service_delta old [] = (\<lambda>k. (JStr ''removed'', JStr k)) ` set (keys old)"
      "service_delta [] old = (\<lambda>k. (JStr ''added'', JStr k)) ` set (keys old)"
    by (auto simp: service_delta_def has_keys keys_def)
  have nil: "named []" by (simp add: named_def has_map_of)
  have nm: "named old" using snapshot_named by (simp add: assms(2))
  show ?thesis
    using service_watch.complete_below_cap [OF len(1)] service_watch.complete_below_cap [OF len(2)]
      service_changes_delta [OF nm nil, of ts] service_changes_delta [OF nil nm, of ts] by (simp add: e d)
qed

section \<open>Alerts alternate\<close>

definition alert_mark :: "rat \<Rightarrow> dict \<Rightarrow> rat \<times> json \<times> bool" where
  "alert_mark now ev = (now, getv ev ''rule_id'', getv ev ''event_type'' = JStr ''alert.threshold'')"

fun alert_run :: "pyfloat \<Rightarrow> dict list \<Rightarrow> (rat \<times> string \<times> dict) list \<Rightarrow> alert_state \<Rightarrow> (rat \<times> json \<times> bool) list" where
  \<comment> \<open>time, rule and kind of the events of a sequence of evaluations; one that raises has none\<close>
  "alert_run cd rules [] st = []"
| "alert_run cd rules ((now, ts, metrics) # ticks) st =
     (case evaluate cd rules ts now metrics st of
        (Inl x, st) \<Rightarrow> alert_run cd rules ticks st
      | (Inr evs, st) \<Rightarrow> map (alert_mark now) evs @ alert_run cd rules ticks st)"

definition of_rule :: "string \<Rightarrow> (rat \<times> json \<times> bool) list \<Rightarrow> (rat \<times> bool) list" where
  "of_rule rid tr = map (\<lambda>(t, k, b). (t, b)) (filter (\<lambda>(t, k, b). k = JStr rid) tr)"

definition next_ok :: "rat \<Rightarrow> rat \<times> bool \<Rightarrow> rat \<times> bool \<Rightarrow> bool" where
  "next_ok c = (\<lambda>(t, b) (t', b'). (b \<or> b') \<and> (b \<and> b' \<longrightarrow> c \<le> t' - t))"

definition alternating :: "rat \<Rightarrow> (rat \<times> bool) list \<Rightarrow> bool" where
  "alternating c tr \<longleftrightarrow> successively (next_ok c) tr \<and> (tr \<noteq> [] \<longrightarrow> snd (hd tr))"

definition tracked :: "rat \<Rightarrow> string \<Rightarrow> (rat \<times> bool) list \<Rightarrow> alert_state \<Rightarrow> bool" where
  \<comment> \<open>invariant between the past events of a rule and the state\<close>
  "tracked c rid tr st \<longleftrightarrow> alternating c tr \<and> (is_firing st rid \<longleftrightarrow> tr \<noteq> [] \<and> snd (last tr))
     \<and> (is_firing st rid \<longrightarrow> last_fire (fire_times st) rid = fst (last tr))"

lemma alternating_snoc:
  "alternating c (tr @ [e]) \<longleftrightarrow> alternating c tr \<and> (if tr = [] then snd e else next_ok c (last tr) e)"
  by (auto simp: alternating_def successively_append_iff)

lemma alternating_simps [simp]: "alternating c []" "alternating c [e] \<longleftrightarrow> snd e"
  by (simp_all add: alternating_def)

lemma alert_event_mark [simp]: "alert_mark now (alert_event ts rid rule t v b) = (now, JStr rid, b)"
  by (simp add: alert_mark_def alert_event_def)

lemma of_rule_simps [simp]:
  "of_rule rid [] = []" "of_rule rid (xs @ ys) = of_rule rid xs @ of_rule rid ys"
  "of_rule rid ((t, k, b) # xs) = (if k = JStr rid then [(t, b)] else []) @ of_rule rid xs"
  by (simp_all add: of_rule_def)

lemma tracked_step:
  assumes "tracked c rid tr st" "alert_step (Fin c) now k hot st = (r, st')"
  shows "tracked c rid (tr @ (case r of Some b \<Rightarrow> if k = rid then [(now, b)] else [] | None \<Rightarrow> [])) st'"
  using assms by (cases "last tr") (auto simp: alert_step_def tracked_def is_firing_def alternating_snoc next_ok_def cooling_def
      last_fire_dset split: if_splits)

lemma tracked_rules:
  assumes "tracked c rid tr st" "alert_rules (Fin c) ts now metrics i rules st = (Inr evs, st')"
  shows "tracked c rid (tr @ of_rule rid (map (alert_mark now) evs)) st'"
  using assms
proof (induction rules arbitrary: i tr st evs)
  case (Cons rule rules)
  show ?case
  proof (cases "rule_value metrics rule")
    case (Inr o1)
    show ?thesis
    proof (cases o1)
      case None
      then show ?thesis using Cons.IH [OF Cons.prems(1)] Cons.prems(2) Inr by simp
    next
      case (Some p)
      obtain t v hot where p: "p = (t, v, hot)" by (cases p)
      obtain r st1 where s: "alert_step (Fin c) now (rule_id_of i rule) hot st = (r, st1)" by fastforce
      note tr1 = tracked_step [OF Cons.prems(1) s]
      show ?thesis
      proof (cases r)
        case None
        then show ?thesis using Cons.IH [of tr st1] tr1 Cons.prems(2) Inr Some by (simp add: p s)
      next
        case b: (Some b)
        obtain evs1 where e: "alert_rules (Fin c) ts now metrics (Suc i) rules st1 = (Inr evs1, st')"
            "evs = alert_event ts (rule_id_of i rule) rule t v b # evs1"
          using Cons.prems(2) Inr Some b
          by (cases "alert_rules (Fin c) ts now metrics (Suc i) rules st1") (auto simp: p s res_bind_eq_Inr)
        show ?thesis using Cons.IH [OF tr1 e(1)] b by (simp add: e(2))
      qed
    qed
  qed (use Cons.prems in simp)
qed simp

lemma rules_return:
  assumes "\<forall>rule \<in> set rules. \<exists>r. rule_value metrics rule = Inr r"
  shows "\<exists>evs st'. alert_rules cd ts now metrics i rules st = (Inr evs, st')"
  using assms
proof (induction rules arbitrary: i st)
  case (Cons rule rules)
  obtain r where r: "rule_value metrics rule = Inr r" using Cons.prems by auto
  have "\<exists>evs st'. alert_rules cd ts now metrics (Suc i) rules st1 = (Inr evs, st')" for st1
    using Cons.IH Cons.prems by simp
  then show ?case using r by (auto split: option.split prod.split) (metis res_bind_simps(2) sum.inject(2) Pair_inject)+
qed simp


section \<open>Examples\<close>

definition unit_row :: "string \<Rightarrow> string \<Rightarrow> json" where
  "unit_row u a = JObj [(''unit'', JStr u), (''active'', JStr a), (''sub'', JStr ''running'')]"

definition report_of :: "json list \<Rightarrow> dict" where
  "report_of rows = [(''status'', JStr ''OK''), (''services'', JList rows)]"

lemma sample_reports:
  "snapshot_services (report_of [unit_row ''ssh'' ''active'', unit_row ''cron'' ''active'']) =
     [(''ssh'', [(''unit'', JStr ''ssh''), (''active'', JStr ''active''), (''sub'', JStr ''running'')]),
      (''cron'', [(''unit'', JStr ''cron''), (''active'', JStr ''active''), (''sub'', JStr ''running'')])]"
  "snapshot_services (report_of [unit_row ''ssh'' ''failed'']) =
     [(''ssh'', [(''unit'', JStr ''ssh''), (''active'', JStr ''failed''), (''sub'', JStr ''running'')])]"
  by (simp_all add: snapshot_services_def report_of_def service_row_def unit_row_def getv_def dset_def Let_def)

lemma sample_service_changes:
  "length (service_changes ts (snapshot_services (report_of [unit_row ''ssh'' ''failed'']))
     (snapshot_services (report_of [unit_row ''ssh'' ''active'', unit_row ''cron'' ''active'']))) = 2"
  by (simp add: sample_reports service_changes_def pick_keys_def keys_def has_map_of state_differs_def entry_def getv_def)

theorem service_watch_reports_exactly_witness:
  "mark_of ` set (fst (service_tick ''t'' 40 (snapshot_services (report_of [unit_row ''ssh'' ''failed'']))
     (Some (snapshot_services (report_of [unit_row ''ssh'' ''active'', unit_row ''cron'' ''active''])))))
   = {(JStr ''removed'', JStr ''cron''), (JStr ''state'', JStr ''ssh'')}"
proof -
  have "service_delta (snapshot_services (report_of [unit_row ''ssh'' ''active'', unit_row ''cron'' ''active'']))
      (snapshot_services (report_of [unit_row ''ssh'' ''failed''])) = {(JStr ''removed'', JStr ''cron''), (JStr ''state'', JStr ''ssh'')}"
    by (auto simp: service_delta_def sample_reports has_map_of state_differs_def entry_def getv_def split: if_splits)
  then show ?thesis
    using service_watch_reports_exactly [OF refl refl, of "''t''" "report_of [unit_row ''ssh'' ''failed'']"
        "report_of [unit_row ''ssh'' ''active'', unit_row ''cron'' ''active'']" 40] by (simp add: sample_service_changes)
qed

theorem services_over_cap_are_lost_witness:
  "\<exists>ev. service_tick ''t'' 1 (snapshot_services (report_of [unit_row ''ssh'' ''failed'']))
     (Some (snapshot_services (report_of [unit_row ''ssh'' ''active'', unit_row ''cron'' ''active''])))
     = ([ev], Some (snapshot_services (report_of [unit_row ''ssh'' ''failed''])))"
proof -
  obtain evs where "service_tick ''t'' 1 (snapshot_services (report_of [unit_row ''ssh'' ''failed'']))
     (Some (snapshot_services (report_of [unit_row ''ssh'' ''active'', unit_row ''cron'' ''active''])))
     = (evs, Some (snapshot_services (report_of [unit_row ''ssh'' ''failed''])))" "length evs = 1"
    using services_over_cap_are_lost [of 1 "''t''" "snapshot_services (report_of [unit_row ''ssh'' ''failed''])"
        "snapshot_services (report_of [unit_row ''ssh'' ''active'', unit_row ''cron'' ''active''])" "''t''"] sample_service_changes
    by auto
  then show ?thesis by (cases evs) simp_all
qed

theorem failed_scan_reports_removals_witness:
  "mark_of ` set (fst (service_tick ''t'' 40 (snapshot_services [(''status'', JStr ''ERROR'')])
     (Some (snapshot_services (report_of [unit_row ''ssh'' ''failed'']))))) = {(JStr ''removed'', JStr ''ssh'')}"
  using failed_scan_reports_removals [of "[(''status'', JStr ''ERROR'')]" _ "report_of [unit_row ''ssh'' ''failed'']" 40 "''t''", OF _ refl]
  by (simp add: sample_reports keys_def)

definition cpu_rule :: dict where
  "cpu_rule = [(''id'', JStr ''cpu''), (''metric'', JStr ''cpu.percent''), (''threshold'', JInt 90)]"

definition cpu_at :: "int \<Rightarrow> dict" where
  "cpu_at n = [(''cpu'', JObj [(''percent'', JInt n)])]"

lemma cpu_metric: "\<bar>n\<bar> \<le> 1000000000 \<Longrightarrow> metric_from_snapshot (cpu_at n) ''cpu.percent'' = Inr (Some (Fin (of_int n)))"
proof -
  assume n: "\<bar>n\<bar> \<le> 1000000000"
  have "strip ''cpu.percent'' = ''cpu.percent''" "split_char (CHR ''.'') ''cpu.percent'' = [''cpu'', ''percent'']"
    by code_simp+
  moreover have "map_of metric_aliases ''cpu.percent'' = None" by (simp add: metric_aliases_def)
  ultimately show ?thesis using n
    by (simp add: metric_from_snapshot_def Let_def cpu_at_def getv_def some_float_def del: py_float.simps)
qed

lemma cpu_rule_value:
  "rule_value (cpu_at 97) cpu_rule = Inr (Some (Fin 90, Fin 97, True))"
  "rule_value (cpu_at 50) cpu_rule = Inr (Some (Fin 90, Fin 50, False))"
proof -
  have "lower ''gt'' = ''gt''" by code_simp
  then show "rule_value (cpu_at 97) cpu_rule = Inr (Some (Fin 90, Fin 97, True))"
    "rule_value (cpu_at 50) cpu_rule = Inr (Some (Fin 90, Fin 50, False))"
    by (simp_all add: rule_value_def cpu_rule_def getv_def alert_ops_def cpu_metric del: py_float.simps)
qed

lemma cpu_rule_id: "rule_id_of i cpu_rule = ''cpu''"
  by (simp add: rule_id_of_def cpu_rule_def getv_def)

definition cpu_ticks :: "(rat \<times> string \<times> dict) list" where
  "cpu_ticks = [(10, ''t'', cpu_at 97), (40, ''t'', cpu_at 97), (70, ''t'', cpu_at 50)]"


lemma sample_alert_run:
  "of_rule ''cpu'' (alert_run (Fin 300) [cpu_rule] cpu_ticks \<lparr>fire_times = [], firing = []\<rparr>) = [(10, True), (70, False)]"
  by (simp add: cpu_ticks_def evaluate_def cpu_rule_value alert_step_def is_firing_def cooling_def last_fire_def cpu_rule_id)

end
