(* ===== verification/Linux_Collect.thy ===== *)
theory Linux_Collect
  imports Endpoint_Scan Json_Parse Iso_Time "HOL-Library.Word"
begin

text \<open>
  The Linux collectors of the agent, \<^verbatim>\<open>colsoft_tools/linux_collectors.py\<close>: what they compute from
  the texts of \<^verbatim>\<open>/proc\<close> and \<^verbatim>\<open>/sys\<close>, from the output of commands and from the bytes of a netlink
  socket. Files, commands, file systems and the clock are inputs. The windows of the audit and
  system logs need the local time zone and are not modelled.
\<close>

section \<open>The host\<close>

record linux_host =
  lh_sys :: system
  lh_os :: string
  lh_raises :: "string list \<Rightarrow> py_exc option"
    \<comment> \<open>a command that times out or cannot be started\<close>
  lh_exists :: "string \<Rightarrow> bool"
  lh_is_dir :: "string \<Rightarrow> bool"
  lh_is_file :: "string \<Rightarrow> bool"
  lh_can_exec :: "string \<Rightarrow> bool"
  lh_mtime :: "string \<Rightarrow> rat"
  lh_statvfs :: "string \<Rightarrow> (int \<times> int \<times> int) option"
    \<comment> \<open>fragment size, blocks, available blocks\<close>
  lh_digest :: "string \<Rightarrow> string option"
    \<comment> \<open>\<open>_sha256_file\<close>\<close>
  lh_fds :: "string \<Rightarrow> string option list option"
    \<comment> \<open>the targets of the links in a directory\<close>
  lh_user :: "int \<Rightarrow> string option"
  lh_cores :: int
    \<comment> \<open>\<open>os.cpu_count() or 1\<close>\<close>
  lh_ticks :: rat
    \<comment> \<open>clock ticks in a second\<close>
  lh_exc_text :: "py_exc \<Rightarrow> string"

definition file_text :: "linux_host \<Rightarrow> string \<Rightarrow> string" where
  "file_text h p = text_at (lh_sys h) p"

definition run_on :: "linux_host \<Rightarrow> string list \<Rightarrow> (int \<times> string \<times> string) res" where
  "run_on h cmd = (case lh_raises h cmd of Some x \<Rightarrow> Inl x | None \<Rightarrow> Inr (run_cmd (lh_sys h) cmd))"

definition has_tool :: "linux_host \<Rightarrow> string \<Rightarrow> bool" where
  "has_tool h t \<longleftrightarrow> which (lh_sys h) t \<noteq> None"

definition stamp :: "linux_host \<Rightarrow> json" where
  "stamp h = JStr (clock_text (lh_sys h))"

definition unsupported :: "linux_host \<Rightarrow> string \<Rightarrow> dict" where
  "unsupported h t = [(''tool'', JStr t), (''status'', JStr ''UNSUPPORTED''), (''os'', JStr (lh_os h)),
     (''error'', JStr ''Requiere Linux''), (''ts'', stamp h)]"

definition tool_failed :: "linux_host \<Rightarrow> string \<Rightarrow> dict res \<Rightarrow> dict" where
  \<comment> \<open>the handler around the body of a collector\<close>
  "tool_failed h t r = (case r of Inr d \<Rightarrow> d
     | Inl x \<Rightarrow> [(''tool'', JStr t), (''status'', JStr ''ERROR''), (''error'', JStr (lh_exc_text h x))])"

definition on_linux :: "linux_host \<Rightarrow> string \<Rightarrow> dict res \<Rightarrow> dict" where
  "on_linux h t r = (if lh_os h \<noteq> ''Linux'' then unsupported h t else tool_failed h t r)"

definition tail_lines :: "linux_host \<Rightarrow> string \<Rightarrow> nat \<Rightarrow> string list" where
  "tail_lines h p n = (let ls = splitlines (file_text h p) in drop (length ls - max 1 n) ls)"

definition text_or_null :: "string \<Rightarrow> json" where
  "text_or_null s = (if s = [] then JNull else JStr s)"

definition int_of :: "string \<Rightarrow> int res" where
  "int_of s = (case parse_int s of None \<Rightarrow> Inl ValueError | Some n \<Rightarrow> Inr n)"

definition split_once :: "char \<Rightarrow> string \<Rightarrow> string \<times> string" where
  \<comment> \<open>\<open>partition\<close>: the text before the first occurrence and after it\<close>
  "split_once c s = (takeWhile (\<lambda>x. x \<noteq> c) s, tl (dropWhile (\<lambda>x. x \<noteq> c) s))"

definition round1 :: "rat \<Rightarrow> pyfloat" where
  "round1 q = Fin (rat_of_int (round_half_even (q * 10)) / 10)"

primrec collect :: "nat \<Rightarrow> 'a option list \<Rightarrow> 'a list \<Rightarrow> 'a list" where
  \<comment> \<open>the loop that appends what a line gives and breaks when the limit is reached\<close>
  "collect n [] acc = acc"
| "collect n (x # xs) acc = (case x of None \<Rightarrow> collect n xs acc
     | Some y \<Rightarrow> if length (acc @ [y]) \<ge> n then acc @ [y] else collect n xs (acc @ [y]))"

section \<open>Sources of logs\<close>

definition SYSLOG_ALIASES :: "(string \<times> string) list" where
  "SYSLOG_ALIASES = [(''system'', ''system''), (''journal'', ''system''), (''journald'', ''system''),
     (''application'', ''application''), (''app'', ''application''), (''security'', ''security''), (''auth'', ''auth''),
     (''auth.log'', ''auth''), (''secure'', ''auth''), (''setup'', ''setup''), (''forwarded'', ''forwarded''),
     (''forwardedevents'', ''forwarded''), (''forwarded_events'', ''forwarded'')]"

definition resolve_syslog_source :: "string \<Rightarrow> string" where
  "resolve_syslog_source name =
     (let t = strip (if name = [] then ''syslog'' else name); raw = (if t = [] then ''syslog'' else t) in
      case map_of SYSLOG_ALIASES (lower raw) of Some s \<Rightarrow> s | None \<Rightarrow> raw)"

definition journal_remote :: string where "journal_remote = ''/var/log/journal/remote''"

definition forwarded_files :: "linux_host \<Rightarrow> string list" where
  "forwarded_files h = filter (lh_is_file h) [''/var/log/remote.log'', ''/var/log/syslog-remote'']
     @ concat (map (\<lambda>d. case (if lh_is_dir h d then list_dir (lh_sys h) d else None) of
           None \<Rightarrow> []
         | Some names \<Rightarrow> filter (lh_is_file h) (map (\<lambda>n. d @ ''/'' @ n) names)) [''/var/log/remote'', ''/var/log/rsyslog/remote''])"

primrec newest :: "(string \<Rightarrow> rat) \<Rightarrow> string list \<Rightarrow> string \<Rightarrow> string" where
  \<comment> \<open>\<open>max\<close> with a key: the first of the largest\<close>
  "newest key [] best = best"
| "newest key (p # ps) best = newest key ps (if key best < key p then p else best)"

definition forwarded_log_spec :: "linux_host \<Rightarrow> dict" where
  "forwarded_log_spec h =
     (let entries = (if lh_is_dir h journal_remote then list_dir (lh_sys h) journal_remote else None) in
      if entries \<noteq> None \<and> entries \<noteq> Some [] then [(''kind'', JStr ''journal''), (''directory'', JStr journal_remote)]
      else (case forwarded_files h of
          [] \<Rightarrow> [(''kind'', JStr ''missing'')]
        | p # ps \<Rightarrow> [(''kind'', JStr ''files''), (''paths'', JList (map JStr (p # ps))),
             (''chosen'', JStr (newest (\<lambda>q. if lh_is_file h q then lh_mtime h q else 0) ps p))]))"

definition syslog_level :: "string \<Rightarrow> string \<Rightarrow> string" where
  "syslog_level line dflt =
     (let low = lower line in
      if contains low ''emerg'' \<or> contains low ''panic'' then ''critical''
      else if contains low ''alert'' \<or> contains low ''crit'' then ''critical''
      else if contains low ''error'' \<or> contains low ''err:'' \<or> contains low ''failed'' then ''error''
      else if contains low ''warn'' then ''warning''
      else if contains low ''debug'' then ''debug'' else dflt)"

section \<open>BPF programs\<close>

definition numbered_line :: "string \<Rightarrow> bool" where
  \<comment> \<open>digits and a colon at the start\<close>
  "numbered_line s \<longleftrightarrow> (let d = takeWhile is_digit s in d \<noteq> [] \<and> startswith (drop (length d) s) '':'')"

definition word_after :: "string \<Rightarrow> string \<Rightarrow> dict \<Rightarrow> dict" where
  \<comment> \<open>sets the key to the word that follows it in the text\<close>
  "word_after k s d = (case rx_search False (lit k @ [some_of Space, Grp 1 [some_of NonSpace]]) s of
     None \<Rightarrow> d | Some cs \<Rightarrow> dset k (JStr (group_of cs 1)) d)"

definition second_part :: "string \<Rightarrow> string" where
  \<comment> \<open>\<open>s.split(None, 1)[-1]\<close> of a stripped text\<close>
  "second_part s = (let r = lstrip (dropWhile (\<lambda>c. \<not> is_space c) s) in if r = [] then s else r)"

fun bpf_line :: "string \<Rightarrow> dict list \<times> dict \<Rightarrow> dict list \<times> dict" where
  "bpf_line line (rows, cur) =
     (let s = strip line in
      if numbered_line s then
        (case split_once (CHR '':'') s of (ident, rest) \<Rightarrow>
          (if cur = [] then rows else rows @ [cur],
           word_after ''type'' rest (word_after ''name'' rest [(''id'', JStr (strip ident)), (''raw'', JStr (take 200 s))])))
      else if startswith s ''name'' \<and> cur \<noteq> [] then (rows, dset ''name'' (JStr (second_part s)) cur)
      else (rows, cur))"

definition parse_bpftool_prog :: "string \<Rightarrow> dict list" where
  "parse_bpftool_prog out = (case fold bpf_line (splitlines out) ([], []) of
     (rows, cur) \<Rightarrow> if cur = [] then rows else rows @ [cur])"

definition BPF_TRACEPOINTS :: "string list" where
  "BPF_TRACEPOINTS = [''syscalls/sys_enter_execve'', ''syscalls/sys_enter_execveat'', ''syscalls/sys_enter_connect'',
     ''syscalls/sys_enter_accept'', ''syscalls/sys_enter_accept4'', ''sched/sched_process_exec'', ''sched/sched_process_fork'',
     ''sock/inet_sock_set_state'']"

definition tracing_root :: "linux_host \<Rightarrow> string option" where
  "tracing_root h = find (\<lambda>p. lh_exists h (p @ ''/events'')) [''/sys/kernel/tracing'', ''/sys/kernel/debug/tracing'']"

definition tracepoint_exists :: "linux_host \<Rightarrow> string \<Rightarrow> bool" where
  "tracepoint_exists h rel = (case tracing_root h of None \<Rightarrow> False | Some r \<Rightarrow> lh_exists h (r @ ''/events/'' @ rel))"

definition linux_ebpf :: "linux_host \<Rightarrow> int \<Rightarrow> dict" where
  \<comment> \<open>the argument as an integer, 0 for none\<close>
  "linux_ebpf h m =
     (let limit = nat (max 1 (min (if m = 0 then 40 else m) 200)) in
      on_linux h ''linux_ebpf''
       (res_bind (if has_tool h ''bpftool'' then res_bind (run_on h [''bpftool'', ''prog'', ''show'']) (\<lambda>(rc, out, err).
            Inr (take limit (parse_bpftool_prog out), if rc \<noteq> 0 then text_or_null (take 400 (strip err)) else JNull))
          else Inr ([], JNull)) (\<lambda>(programs, err).
        Inr [(''tool'', JStr ''linux_ebpf''), (''status'', JStr ''OK''),
          (''btf'', JBool (lh_exists h ''/sys/kernel/btf/vmlinux'')), (''bpffs'', JBool (lh_exists h ''/sys/fs/bpf'')),
          (''tracing'', (case tracing_root h of None \<Rightarrow> JNull | Some p \<Rightarrow> JStr p)),
          (''unprivileged_bpf_disabled'', text_or_null (strip (file_text h ''/proc/sys/kernel/unprivileged_bpf_disabled''))),
          (''program_count'', JInt (int (length programs))), (''count'', JInt (int (length programs))),
          (''programs'', JList (map JObj programs)),
          (''of_interest'', JList (map (\<lambda>t. JObj [(''id'', JStr t), (''present'', JBool (tracepoint_exists h t))]) BPF_TRACEPOINTS)),
          (''error'', err),
          (''note'', JStr ''Snapshot de programas/tracepoints (como logman ETW), no attach live.''), (''ts'', stamp h)])))"

section \<open>Audit lines\<close>

definition audit_kv :: "rx list" where
  "audit_kv = [Grp 1 [some_of Word]] @ lit ''='' @ [Alt [[one (OneOf [CHR 0x22]), Grp 2 [many (NoneOf [CHR 0x22])], one (OneOf [CHR 0x22])],
     [Grp 3 [some_of NonSpace]]]]"

function find_all :: "rx list \<Rightarrow> char option \<Rightarrow> string \<Rightarrow> caps list" where
  \<comment> \<open>\<open>finditer\<close> of a pattern that never matches nothing; a match leaves a shorter text\<close>
  "find_all pat p s =
     (case search_from False pat p s of
        None \<Rightarrow> []
      | Some (cs, rest) \<Rightarrow>
         if length rest < length s then cs # find_all pat (Some (s ! (length s - length rest - 1))) rest else [cs])"
  by pat_completeness auto

termination by (relation "measure (\<lambda>(pat, p, s). length s)") auto

declare find_all.simps [simp del]

definition audit_fields :: "string \<Rightarrow> (string \<times> string) list" where
  "audit_fields line = fold (\<lambda>cs d. dset (group_of cs 1)
     (case map_of cs 2 of Some g \<Rightarrow> g | None \<Rightarrow> group_of cs 3) d) (find_all audit_kv None line) []"

definition audit_stamp :: "rx list" where
  "audit_stamp = lit ''audit('' @ [Grp 1 [some_of (Ranges [(CHR ''0'', CHR ''9'')] ''.'')]] @ lit '':''"

fun from_timestamp :: "pyfloat \<Rightarrow> string res" where
  \<comment> \<open>\<open>datetime.fromtimestamp(t, tz=utc).isoformat()\<close>\<close>
  "from_timestamp (Fin q) =
     (if \<bar>q\<bar> \<ge> 9223372036854775808 then Inl OverflowError
      else (let us = round_half_even (q * 1000000) in
        if year_start_us \<le> us \<and> us < year_end_us then Inr (isoformat us) else Inl ValueError))"
| "from_timestamp NaN = Inl ValueError"
| "from_timestamp f = Inl OverflowError"

definition audit_time :: "string \<Rightarrow> string \<Rightarrow> json res" where
  \<comment> \<open>of the field \<open>msg\<close> or of the line; what is no time stays as it is\<close>
  "audit_time msg line =
     (case (case rx_search False audit_stamp msg of Some cs \<Rightarrow> Some cs | None \<Rightarrow> rx_search False audit_stamp line) of
        None \<Rightarrow> Inr JNull
      | Some cs \<Rightarrow>
         (case (case parse_float (group_of cs 1) of None \<Rightarrow> Inl ValueError | Some f \<Rightarrow> from_timestamp f) of
            Inr t \<Rightarrow> Inr (JStr t)
          | Inl x \<Rightarrow> if x = ValueError \<or> x = OSError then Inr (JStr (group_of cs 1)) else Inl x))"

definition field_text :: "(string \<times> string) list \<Rightarrow> string \<Rightarrow> string" where
  "field_text fs k = (case map_of fs k of Some v \<Rightarrow> v | None \<Rightarrow> [])"

definition field_json :: "(string \<times> string) list \<Rightarrow> string \<Rightarrow> json" where
  "field_json fs k = (case map_of fs k of Some v \<Rightarrow> JStr v | None \<Rightarrow> JNull)"

definition parse_audit_line :: "string \<Rightarrow> dict option res" where
  "parse_audit_line given =
     (let line = strip given; fs = audit_fields line; msg = field_text fs ''msg'' in
      if line = [] \<or> startswith line ''#'' then Inr None
      else if field_text fs ''type'' = [] \<and> startswith line ''type='' then Inr None
      else res_bind (audit_time msg line) (\<lambda>t.
        Inr (Some [(''type'', field_json fs ''type''), (''pid'', field_json fs ''pid''),
          (''uid'', if field_text fs ''uid'' \<noteq> [] then field_json fs ''uid'' else field_json fs ''auid''),
          (''exe'', field_json fs ''exe''), (''comm'', field_json fs ''comm''), (''syscall'', field_json fs ''syscall''),
          (''success'', field_json fs ''success''), (''msg'', JStr (take 240 (if msg = [] then line else msg))),
          (''raw'', JStr (take 400 line)), (''ts'', t)])))"

definition audit_severity :: "dict \<Rightarrow> string" where
  "audit_severity rec =
     (let typ = str_or (getv rec ''type'') []; up = map upper_char typ;
          outcome = lower (str_or (getv rec ''success'') []) in
      if up \<in> {''AVC'', ''USER_AUTH'', ''USER_LOGIN'', ''ANOM_ABEND''} then
        (if outcome \<in> {''no'', ''0'', ''failed''} then ''high'' else if up = ''AVC'' then ''high'' else ''medium'')
      else if outcome \<in> {''no'', ''0''} then ''medium'' else ''info'')"

section \<open>Processors, memory and disks\<close>

primrec cpu_parts :: "string list \<Rightarrow> int \<Rightarrow> int res" where
  \<comment> \<open>the ranges \<open>0-7\<close> and the single numbers of \<open>online\<close>\<close>
  "cpu_parts [] n = Inr n"
| "cpu_parts (p # ps) n =
     (let t = strip p in
      if t = [] then cpu_parts ps n
      else if CHR ''-'' \<in> set t then
        (case split_once (CHR ''-'') t of (a, b) \<Rightarrow>
          res_bind (int_of b) (\<lambda>y. res_bind (int_of a) (\<lambda>x. cpu_parts ps (n + y - x + 1))))
      else cpu_parts ps (n + 1))"

definition cpu_count :: "linux_host \<Rightarrow> int" where
  "cpu_count h = (case cpu_parts (split_char (CHR '','') (strip (file_text h ''/sys/devices/system/cpu/online''))) 0 of
     Inr n \<Rightarrow> if n \<noteq> 0 then n else lh_cores h
   | Inl x \<Rightarrow> lh_cores h)"

record core_scan =
  phys :: "string option"
  core :: "string option"
  found_cores :: "(string \<times> string) list"
  sockets :: "string list"
  per_socket :: "int option"

definition flush_core :: "core_scan \<Rightarrow> core_scan" where
  "flush_core s = s\<lparr>phys := None, core := None, found_cores :=
     (case (phys s, core s) of (Some p, Some c) \<Rightarrow> List.insert (p, c) (found_cores s) | _ \<Rightarrow> found_cores s)\<rparr>"

definition core_line :: "string \<Rightarrow> core_scan \<Rightarrow> core_scan" where
  "core_line line s =
     (if strip line = [] then flush_core s
      else if CHR '':'' \<notin> set line then s
      else (case split_once (CHR '':'') line of (k, v) \<Rightarrow>
        (let key = lower (strip k); val = strip v in
         if key = ''physical id'' then s\<lparr>phys := Some val, sockets := List.insert val (sockets s)\<rparr>
         else if key = ''core id'' then s\<lparr>core := Some val\<rparr>
         else if key = ''cpu cores'' then (case parse_int val of Some n \<Rightarrow> s\<lparr>per_socket := Some n\<rparr> | None \<Rightarrow> s)
         else s)))"

definition cpu_physical_cores :: "linux_host \<Rightarrow> int option" where
  "cpu_physical_cores h =
     (let s = flush_core (fold core_line (splitlines (file_text h ''/proc/cpuinfo''))
                \<lparr>phys = None, core = None, found_cores = [], sockets = [], per_socket = None\<rparr>) in
      if found_cores s \<noteq> [] then Some (int (length (found_cores s)))
      else (case per_socket s of
          Some n \<Rightarrow> if n \<noteq> 0 \<and> sockets s \<noteq> [] then Some (n * int (length (sockets s))) else Some n
        | None \<Rightarrow> None))"

definition khz_to_mhz :: "string \<Rightarrow> json" where
  "khz_to_mhz raw = (case parse_int (strip raw) of None \<Rightarrow> JNull | Some n \<Rightarrow> JFloat (round1 (rat_of_int n / 1000)))"

fun round1_float :: "pyfloat \<Rightarrow> pyfloat" where
  "round1_float (Fin q) = round1 q"
| "round1_float f = f"

definition cpuinfo_mhz :: "linux_host \<Rightarrow> json" where
  "cpuinfo_mhz h = (case find (\<lambda>l. startswith (lower l) ''cpu mhz'') (splitlines (file_text h ''/proc/cpuinfo'')) of
     None \<Rightarrow> JNull
   | Some l \<Rightarrow> (case parse_float (if CHR '':'' \<in> set l then snd (split_once (CHR '':'') l) else l) of
        None \<Rightarrow> JNull | Some f \<Rightarrow> JFloat (round1_float f)))"

definition cpu_freq :: "linux_host \<Rightarrow> json" where
  "cpu_freq h =
     (let mhz = (\<lambda>f. khz_to_mhz (file_text h (''/sys/devices/system/cpu/cpu0/cpufreq/'' @ f)));
          most = (if mhz ''cpuinfo_max_freq'' = JNull then mhz ''scaling_max_freq'' else mhz ''cpuinfo_max_freq'');
          now = (if mhz ''scaling_cur_freq'' = JNull then cpuinfo_mhz h else mhz ''scaling_cur_freq'') in
      if most = JNull \<and> now = JNull then JNull
      else JObj [(''current_mhz'', now), (''min_mhz'', mhz ''cpuinfo_min_freq''), (''max_mhz'', py_or most now)])"

definition stat_cpu :: "linux_host \<Rightarrow> (int \<times> int) res" where
  \<comment> \<open>idle and total ticks\<close>
  "stat_cpu h =
     (let line = (case splitlines (file_text h ''/proc/stat'') of [] \<Rightarrow> [] | l # ls \<Rightarrow> l);
          nums = map (int \<circ> digits_val) (filter (list_all is_digit) (tl (split_words line))) in
      if nums = [] then Inr (0, 1)
      else if length nums < 4 then Inl IndexError
      else Inr (nums ! 3 + (if length nums > 4 then nums ! 4 else 0), sum_list nums))"

primrec mem_lines :: "string list \<Rightarrow> (string \<times> int) list \<Rightarrow> (string \<times> int) list res" where
  "mem_lines [] out = Inr out"
| "mem_lines (l # ls) out =
     (if CHR '':'' \<notin> set l then mem_lines ls out
      else (case split_once (CHR '':'') l of (k, rest) \<Rightarrow>
        (case split_words rest of
           [] \<Rightarrow> Inl IndexError
         | w # ws \<Rightarrow> (case parse_int w of
              None \<Rightarrow> mem_lines ls out
            | Some n \<Rightarrow> mem_lines ls (dset k (n * (if contains rest ''kB'' then 1024 else 1)) out)))))"

definition meminfo :: "linux_host \<Rightarrow> (string \<times> int) list res" where
  "meminfo h = mem_lines (splitlines (file_text h ''/proc/meminfo'')) []"

definition rx_match :: "rx list \<Rightarrow> string \<Rightarrow> bool" where
  "rx_match pat s \<longleftrightarrow> mt False pat None s [] \<noteq> None"

definition partition_patterns :: "rx list list" where
  "partition_patterns =
     [lit ''nvme'' @ [some_of Digit] @ lit ''n'' @ [some_of Digit] @ lit ''p'' @ [some_of Digit, LineEnd],
      lit ''mmcblk'' @ [some_of Digit] @ lit ''p'' @ [some_of Digit, LineEnd],
      [Alt [lit ''sd'', lit ''vd'', lit ''hd'', lit ''xvd''], one (Ranges [(CHR ''a'', CHR ''z'')] []), some_of Digit, LineEnd]]"

definition skip_diskstats_name :: "string \<Rightarrow> bool" where
  "skip_diskstats_name name \<longleftrightarrow> name = [] \<or> startswith name ''loop'' \<or> startswith name ''ram'' \<or> startswith name ''sr''
     \<or> list_ex (\<lambda>p. rx_match p name) partition_patterns"

definition skip_fs :: "string list" where
  "skip_fs = [''proc'', ''sysfs'', ''devtmpfs'', ''tmpfs'', ''cgroup'', ''cgroup2'', ''overlay'', ''squashfs'', ''autofs'',
     ''debugfs'', ''tracefs'', ''securityfs'', ''pstore'', ''bpf'', ''devpts'', ''mqueue'', ''hugetlbfs'', ''fusectl'',
     ''configfs'', ''rpc_pipefs'']"

definition volume_of :: "string \<Rightarrow> string \<Rightarrow> string \<Rightarrow> int \<times> int \<times> int \<Rightarrow> dict" where
  "volume_of dev mp fs = (\<lambda>(frsize, blocks, avail).
     (let total = frsize * blocks; free = frsize * avail; used = max 0 (total - free) in
      [(''device'', JStr dev), (''mountpoint'', JStr mp), (''fstype'', JStr fs), (''total'', JInt total), (''used'', JInt used),
       (''free'', JInt free),
       (''percent'', if total = 0 then JNull else JFloat (round1 (100 * rat_of_int used / rat_of_int total)))]))"

primrec volumes_of :: "linux_host \<Rightarrow> nat \<Rightarrow> string list \<Rightarrow> string list \<Rightarrow> dict list \<Rightarrow> dict list" where
  \<comment> \<open>limit, lines, mount points seen, volumes\<close>
  "volumes_of h n [] seen out = out"
| "volumes_of h n (l # ls) seen out =
     (case split_words l of
        dev # mp # fs # others \<Rightarrow>
          if fs \<in> set skip_fs \<or> mp \<in> set seen \<or> \<not> startswith mp ''/'' then volumes_of h n ls seen out
          else (case lh_statvfs h mp of
              None \<Rightarrow> volumes_of h n ls (mp # seen) out
            | Some st \<Rightarrow> (let out' = out @ [volume_of dev mp fs st] in
                if length out' \<ge> n then out' else volumes_of h n ls (mp # seen) out'))
      | _ \<Rightarrow> volumes_of h n ls seen out)"

definition mount_volumes :: "linux_host \<Rightarrow> nat \<Rightarrow> dict list" where
  "mount_volumes h n = volumes_of h n (split_char (CHR 0x0A) (file_text h ''/proc/mounts'')) [] []"

definition net_fields :: "string list" where
  "net_fields = [''rx_bytes'', ''tx_bytes'', ''rx_packets'', ''tx_packets'', ''rx_errors'', ''tx_errors'', ''rx_dropped'', ''tx_dropped'']"

definition net_counter :: "string \<Rightarrow> int" where
  "net_counter raw = (let t = strip raw in if t = [] then 0 else (case parse_int t of Some n \<Rightarrow> n | None \<Rightarrow> 0))"

definition net_row :: "linux_host \<Rightarrow> string \<Rightarrow> dict option" where
  "net_row h name =
     (let base = ''/sys/class/net/'' @ name; st = base @ ''/statistics''; oper = file_text h (base @ ''/operstate'') in
      if name = ''lo'' \<or> startswith name ''lo:'' \<or> \<not> lh_is_dir h st then None
      else Some ([(''iface'', JStr name)] @ map (\<lambda>f. (f, JInt (net_counter (file_text h (st @ ''/'' @ f))))) net_fields
                 @ (if oper = [] then [] else [(''operstate'', JStr (strip oper))])))"

definition net_sys_stats :: "linux_host \<Rightarrow> int option \<Rightarrow> dict list" where
  "net_sys_stats h cap =
     (case list_dir (lh_sys h) ''/sys/class/net'' of
        None \<Rightarrow> []
      | Some names \<Rightarrow> (let rows = map (net_row h) (sort names) in
          case cap of None \<Rightarrow> List.map_filter id rows | Some n \<Rightarrow> collect (nat (max 1 n)) rows []))"

section \<open>Sockets\<close>

definition TCP_STATES :: "(string \<times> string) list" where
  "TCP_STATES = [(''01'', ''ESTABLISHED''), (''02'', ''SYN_SENT''), (''03'', ''SYN_RECV''), (''04'', ''FIN_WAIT1''),
     (''05'', ''FIN_WAIT2''), (''06'', ''TIME_WAIT''), (''07'', ''CLOSE''), (''08'', ''CLOSE_WAIT''), (''09'', ''LAST_ACK''),
     (''0A'', ''LISTEN''), (''0B'', ''CLOSING'')]"

definition TCP_COUNT_STATE :: "(string \<times> string) list" where
  "TCP_COUNT_STATE = [(''01'', ''established''), (''02'', ''syn_sent''), (''03'', ''syn_recv''), (''06'', ''time_wait''),
     (''08'', ''close_wait''), (''0A'', ''listen'')]"

definition rows_below :: "linux_host \<Rightarrow> string \<Rightarrow> string list list" where
  \<comment> \<open>the words of the lines below the header\<close>
  "rows_below h p = map split_words (tl (splitlines (file_text h p)))"

definition proc_tcp_sample :: "linux_host \<Rightarrow> nat \<Rightarrow> dict list" where
  "proc_tcp_sample h n = collect n (map (\<lambda>ws. if length ws < 10 then None
     else Some [(''local'', JStr (ws ! 1)), (''remote'', JStr (ws ! 2)), (''state'', JStr (ws ! 3)), (''inode'', JStr (ws ! 9))])
     (rows_below h ''/proc/net/tcp'')) []"

type_synonym counts = "(string \<times> int) list"

definition empty_tcp_connections :: counts where
  "empty_tcp_connections = map (\<lambda>k. (k, 0)) [''tcp'', ''listen'', ''established'', ''time_wait'', ''syn_recv'', ''syn_sent'',
     ''close_wait'', ''udp'']"

definition bump :: "string \<Rightarrow> counts \<Rightarrow> counts" where
  "bump k c = dset k ((case map_of c k of Some n \<Rightarrow> n | None \<Rightarrow> 0) + 1) c"

definition count_tcp :: "string list \<Rightarrow> counts \<Rightarrow> counts" where
  "count_tcp ws c =
     (if length ws < 4 then c
      else (let c1 = bump ''tcp'' c in
        case map_of TCP_COUNT_STATE (map upper_char (ws ! 3)) of None \<Rightarrow> c1 | Some k \<Rightarrow> bump k c1))"

definition count_udp :: "string list \<Rightarrow> counts \<Rightarrow> counts" where
  "count_udp ws c = (if ws = [] then c else bump ''udp'' c)"

definition tcp_connection_counts :: "linux_host \<Rightarrow> counts" where
  "tcp_connection_counts h =
     fold count_udp (rows_below h ''/proc/net/udp'' @ rows_below h ''/proc/net/udp6'')
      (fold count_tcp (rows_below h ''/proc/net/tcp'' @ rows_below h ''/proc/net/tcp6'') empty_tcp_connections)"

primrec hex_number :: "string \<Rightarrow> bool \<Rightarrow> nat \<Rightarrow> nat option" where
  \<comment> \<open>single underscores may stand between digits; the flag: the character before was a digit\<close>
  "hex_number [] d acc = (if d then Some acc else None)"
| "hex_number (c # cs) d acc =
     (if c = CHR ''_'' then (if d then hex_number cs False acc else None)
      else (case hex_val c of None \<Rightarrow> None | Some n \<Rightarrow> hex_number cs True (16 * acc + n)))"

definition parse_hex :: "string \<Rightarrow> int option" where
  \<comment> \<open>\<open>int(s, 16)\<close>\<close>
  "parse_hex s =
     (let (sg, r) = take_sign (strip s);
          body = (if startswith r ''0x'' \<or> startswith r ''0X''
            then (if startswith (drop 2 r) ''_'' then drop 3 r else drop 2 r) else r) in
      map_option (\<lambda>n. sg * int n) (hex_number body False 0))"

fun from_hex :: "string \<Rightarrow> nat list option" where
  \<comment> \<open>\<open>bytes.fromhex\<close>\<close>
  "from_hex [] = Some []"
| "from_hex [c] = None"
| "from_hex (a # b # s) = (case (hex_val a, hex_val b, from_hex s) of
     (Some x, Some y, Some bs) \<Rightarrow> Some ((16 * x + y) # bs) | _ \<Rightarrow> None)"

definition dotted :: "nat list \<Rightarrow> string" where
  "dotted bs = join ''.'' (map nat_digits bs)"

fun hex_digits :: "nat \<Rightarrow> string" where
  "hex_digits n = (if n < 16 then [hex_digit n] else hex_digits (n div 16) @ [hex_digit (n mod 16)])"

declare hex_digits.simps [simp del]

definition zero_runs :: "nat list \<Rightarrow> (nat \<times> nat) list" where
  \<comment> \<open>start and length of the runs of zero groups from each place\<close>
  "zero_runs ws = map (\<lambda>i. (i, length (takeWhile (\<lambda>w. w = 0) (drop i ws)))) [0..<length ws]"

definition best_run :: "nat list \<Rightarrow> nat \<times> nat" where
  \<comment> \<open>the first of the longest runs\<close>
  "best_run ws = fold (\<lambda>r b. if snd r > snd b then r else b) (zero_runs ws) (0, 0)"

definition groups_text :: "nat list \<Rightarrow> string" where
  "groups_text ws = join '':'' (map hex_digits ws)"

definition inet_ntop6 :: "nat list \<Rightarrow> string" where
  \<comment> \<open>of sixteen bytes: the longest run of at least two zero groups as \<open>::\<close>, embedded addresses dotted\<close>
  "inet_ntop6 bs =
     (let ws = map (\<lambda>i. 256 * bs ! (2 * i) + bs ! (2 * i + 1)) [0..<8]; (pos, n) = best_run ws in
      if n < 2 then groups_text ws
      else if pos = 0 \<and> (n = 6 \<or> (n = 5 \<and> ws ! 5 = 65535)) then
        ''::'' @ (if n = 5 then ''ffff:'' else []) @ dotted (drop 12 bs)
      else groups_text (take pos ws) @ ''::'' @ groups_text (drop (pos + n) ws))"

definition hex_endpoint :: "string \<Rightarrow> string option" where
  "hex_endpoint token =
     (if CHR '':'' \<notin> set token then None
      else (case split_once (CHR '':'') token of (ip, port) \<Rightarrow>
        (case (parse_hex port, from_hex ip) of
           (Some p, Some raw) \<Rightarrow>
             if length raw = 4 then Some (dotted (rev raw) @ '':'' @ int_str p)
             else if length raw = 16 then
               Some (''['' @ inet_ntop6 (concat (map (\<lambda>i. rev (take 4 (drop (4 * i) raw))) [0..<4])) @ '']:'' @ int_str p)
             else None
         | _ \<Rightarrow> None)))"

definition inode_of :: "string \<Rightarrow> string option" where
  "inode_of target = (if startswith target ''socket:['' \<and> endswith target '']'' then Some (take (length target - 9) (drop 8 target)) else None)"

definition inode_to_pid :: "linux_host \<Rightarrow> (string \<times> int) list" where
  "inode_to_pid h =
     (case list_dir (lh_sys h) ''/proc'' of
        None \<Rightarrow> []
      | Some names \<Rightarrow> fold (\<lambda>name m.
          (case lh_fds h (''/proc/'' @ name @ ''/fd'') of
             None \<Rightarrow> m
           | Some links \<Rightarrow> fold (\<lambda>l m. case l of None \<Rightarrow> m | Some t \<Rightarrow>
               (case inode_of t of None \<Rightarrow> m | Some i \<Rightarrow> dset i (int (digits_val name)) m)) links m))
          (take 400 (filter (\<lambda>n. n \<noteq> [] \<and> list_all is_digit n) names)) [])"

definition connection_row :: "linux_host \<Rightarrow> (string \<times> int) list \<Rightarrow> string \<Rightarrow> string \<Rightarrow> string list \<Rightarrow> dict option" where
  "connection_row h pids family typ ws =
     (if length ws < 10 then None
      else (let pid = (case map_of pids (ws ! 9) of Some n \<Rightarrow> JInt n | None \<Rightarrow> JNull) in
        Some [(''fd'', JNull), (''family'', JStr family), (''type'', JStr typ),
          (''laddr'', (case hex_endpoint (ws ! 1) of Some a \<Rightarrow> JStr a | None \<Rightarrow> JNull)),
          (''raddr'', (case hex_endpoint (ws ! 2) of Some a \<Rightarrow> JStr a | None \<Rightarrow> JNull)),
          (''status'', JStr (if typ = ''SOCK_STREAM''
             then (case map_of TCP_STATES (map upper_char (ws ! 3)) of Some st \<Rightarrow> st | None \<Rightarrow> ws ! 3) else ''UDP'')),
          (''pid'', pid),
          (''process_name'', if truthy pid then text_or_null (strip (file_text h (''/proc/'' @ py_str pid @ ''/comm''))) else JNull)]))"

definition socket_files :: "bool \<Rightarrow> (string \<times> string \<times> string) list" where
  "socket_files udp = [(''/proc/net/tcp'', ''AF_INET'', ''SOCK_STREAM''), (''/proc/net/tcp6'', ''AF_INET6'', ''SOCK_STREAM'')]
     @ (if udp then [(''/proc/net/udp'', ''AF_INET'', ''SOCK_DGRAM''), (''/proc/net/udp6'', ''AF_INET6'', ''SOCK_DGRAM'')] else [])"

definition linux_connection_rows :: "linux_host \<Rightarrow> nat \<Rightarrow> bool \<Rightarrow> dict list" where
  "linux_connection_rows h n udp = collect n
     (concat (map (\<lambda>(p, family, typ). map (connection_row h (inode_to_pid h) family typ) (rows_below h p)) (socket_files udp))) []"

section \<open>Netlink messages\<close>

type_synonym bytes = "8 word list"

definition u16 :: "bytes \<Rightarrow> nat \<Rightarrow> nat" where
  \<comment> \<open>little endian, as the supported hosts\<close>
  "u16 b i = unat (b ! i) + 256 * unat (b ! (i + 1))"

definition u32 :: "bytes \<Rightarrow> nat \<Rightarrow> nat" where
  "u32 b i = u16 b i + 65536 * u16 b (i + 2)"

definition align4 :: "nat \<Rightarrow> nat" where
  \<comment> \<open>\<open>(n + 3) & ~3\<close>\<close>
  "align4 n = (n + 3) div 4 * 4"

definition slice :: "nat \<Rightarrow> nat \<Rightarrow> 'a list \<Rightarrow> 'a list" where
  "slice i j xs = take (j - i) (drop i xs)"

lemma align4_ge: "n \<le> align4 n"
  by (simp add: align4_def)

function nl_attrs :: "bytes \<Rightarrow> nat \<Rightarrow> nat \<Rightarrow> bytes list" where
  \<comment> \<open>the names among the attributes from an offset to the end of the message\<close>
  "nl_attrs b i stop =
     (if i + 4 > stop \<or> u16 b i < 4 then []
      else (if u16 b (i + 2) = 3 then [takeWhile (\<lambda>w. w \<noteq> 0) (slice (i + 4) (i + u16 b i) b)] else [])
           @ nl_attrs b (i + align4 (u16 b i)) stop)"
  by pat_completeness auto

termination
proof (relation "measure (\<lambda>(b, i, stop). stop - i)", goal_cases)
  case (2 b i stop)
  then show ?case using align4_ge [of "u16 b i"] by auto
qed simp

function nl_messages :: "bytes \<Rightarrow> nat \<Rightarrow> bytes list" where
  "nl_messages b i =
     (if i + 16 > length b \<or> u32 b i < 16 \<or> i + u32 b i > length b \<or> u16 b (i + 4) = 3 then []
      else (if u16 b (i + 4) = 16 then nl_attrs b (i + 32) (i + u32 b i) else [])
           @ nl_messages b (i + align4 (u32 b i)))"
  by pat_completeness auto

termination
proof (relation "measure (\<lambda>(b, i). length b - i)", goal_cases)
  case (2 b i)
  then show ?case using align4_ge [of "u32 b i"] by auto
qed simp

declare nl_attrs.simps [simp del] nl_messages.simps [simp del]

definition parse_nl_ifnames :: "(bytes \<Rightarrow> string) \<Rightarrow> bytes \<Rightarrow> string list" where
  \<comment> \<open>the first argument decodes UTF-8\<close>
  "parse_nl_ifnames decode b = map decode (nl_messages b 0)"

definition linux_netlink :: "linux_host \<Rightarrow> (bytes \<Rightarrow> string) \<Rightarrow> bytes res \<Rightarrow> int \<Rightarrow> dict" where
  \<comment> \<open>the bytes are what \<open>_nl_dump\<close> receives\<close>
  "linux_netlink h decode dump m =
     (let limit = nat (max 1 (min (if m = 0 then 32 else m) 128)) in
      on_linux h ''linux_netlink''
       (res_bind dump (\<lambda>b.
        (let names = take limit (parse_nl_ifnames decode b);
             ifaces = (if names \<noteq> [] then names
                else (case list_dir (lh_sys h) ''/sys/class/net'' of None \<Rightarrow> []
                      | Some ns \<Rightarrow> take limit (filter (\<lambda>n. n \<noteq> []) (sort ns)))) in
         Inr [(''tool'', JStr ''linux_netlink''), (''status'', JStr ''OK''),
           (''via'', JStr (if b \<noteq> [] then ''AF_NETLINK'' else ''/sys/class/net'')), (''count'', JInt (int (length ifaces))),
           (''interfaces'', JList (map (\<lambda>n. JObj [(''name'', JStr n)]) ifaces)),
           (''stats'', JList (map JObj (net_sys_stats h (Some (int limit))))),
           (''sockets'', JList (map JObj (proc_tcp_sample h 30))), (''error'', JNull), (''ts'', stamp h)]))))"

section \<open>The metrics of the host\<close>

definition block_row :: "string list \<Rightarrow> dict option res" where
  "block_row ws =
     (if length ws < 14 \<or> skip_diskstats_name (ws ! 2) then Inr None
      else res_bind (all_res (map (\<lambda>i. int_of (ws ! i)) [3, 7, 5, 9, 11])) (\<lambda>ns.
        Inr (Some ((''name'', JStr (ws ! 2)) # zip [''reads'', ''writes'', ''read_sectors'', ''write_sectors'', ''in_progress''] (map JInt ns)))))"

primrec block_rows :: "string list list \<Rightarrow> dict list \<Rightarrow> dict list res" where
  \<comment> \<open>at most 32 devices\<close>
  "block_rows [] out = Inr out"
| "block_rows (ws # wss) out = res_bind (block_row ws) (\<lambda>r.
     case r of None \<Rightarrow> block_rows wss out
     | Some d \<Rightarrow> if length (out @ [d]) \<ge> 32 then Inr (out @ [d]) else block_rows wss (out @ [d]))"

definition load_cell :: "string list \<Rightarrow> nat \<Rightarrow> json res" where
  "load_cell ws i = (if i < length ws
     then (case parse_float (ws ! i) of Some f \<Rightarrow> Inr (JFloat f) | None \<Rightarrow> Inl ValueError) else Inr JNull)"

definition mem_at :: "(string \<times> int) list \<Rightarrow> string \<Rightarrow> int" where
  "mem_at m k = (case map_of m k of Some n \<Rightarrow> n | None \<Rightarrow> 0)"

definition memory_block :: "(string \<times> int) list \<Rightarrow> dict" where
  "memory_block m =
     (let total = mem_at m ''MemTotal'';
          avail = (if mem_at m ''MemAvailable'' \<noteq> 0 then mem_at m ''MemAvailable'' else mem_at m ''MemFree'');
          st = mem_at m ''SwapTotal''; sf = mem_at m ''SwapFree'' in
      [(''total'', JInt total), (''used'', if total \<noteq> 0 then JInt (max 0 (total - avail)) else JNull), (''available'', JInt avail),
       (''percent'', if total \<noteq> 0 then JFloat (round1 (100 * (1 - rat_of_int avail / rat_of_int total))) else JNull),
       (''swap_total'', JInt st), (''swap_free'', JInt sf), (''swap_used'', JInt (if st \<noteq> 0 then max 0 (st - sf) else 0)),
       (''swap_percent'', JFloat (if st \<noteq> 0 then round1 (100 * rat_of_int (st - sf) / rat_of_int st) else Fin 0))])"

definition cpu_percent :: "int \<times> int \<Rightarrow> int \<times> int \<Rightarrow> pyfloat" where
  "cpu_percent = (\<lambda>(i1, t1) (i2, t2). round1 (100 * (1 - rat_of_int (i2 - i1) / rat_of_int (max 1 (t2 - t1)))))"

definition uptime :: "linux_host \<Rightarrow> pyfloat res" where
  "uptime h = (case split_words (let t = file_text h ''/proc/uptime'' in if t = [] then ''0'' else t) of
     [] \<Rightarrow> Inl IndexError
   | w # ws \<Rightarrow> Inr (case parse_float w of Some f \<Rightarrow> f | None \<Rightarrow> Fin 0))"

definition linux_proc_metrics :: "linux_host \<Rightarrow> linux_host \<Rightarrow> dict" where
  \<comment> \<open>the host before and after the pause between the two readings of the processor times\<close>
  "linux_proc_metrics h1 h =
     on_linux h ''linux_proc_metrics''
      (res_bind (stat_cpu h1) (\<lambda>c1. res_bind (stat_cpu h) (\<lambda>c2.
       res_bind (meminfo h) (\<lambda>mem. res_bind (uptime h) (\<lambda>up.
       res_bind (block_rows (map split_words (splitlines (file_text h ''/proc/diskstats''))) []) (\<lambda>disks.
       res_bind (all_res (map (load_cell (split_words (file_text h ''/proc/loadavg''))) [0, 1, 2])) (\<lambda>load.
       Inr [(''tool'', JStr ''linux_proc_metrics''), (''status'', JStr ''OK''),
         (''cpu'', JObj ([(''percent'', JFloat (cpu_percent c1 c2)), (''logical_cores'', JInt (cpu_count h))]
            @ zip [''load_avg_1'', ''load_avg_5'', ''load_avg_15''] load)),
         (''memory'', JObj (memory_block mem)), (''uptime_s'', JFloat up), (''disks'', JList (map JObj disks)),
         (''volumes'', JList (map JObj (mount_volumes h 64))), (''net'', JList (map JObj (net_sys_stats h None))),
         (''tcp_connections'', JObj (map (\<lambda>(k, n). (k, JInt n)) (tcp_connection_counts h))),
         (''source'', JStr ''/proc+/sys''), (''error'', JNull), (''ts'', stamp h)])))))))"

section \<open>Processes\<close>

definition PROC_STATUS :: "(string \<times> string) list" where
  "PROC_STATUS = [(''R'', ''running''), (''S'', ''sleeping''), (''D'', ''disk-sleep''), (''Z'', ''zombie''), (''T'', ''stopped''),
     (''t'', ''tracing-stop''), (''X'', ''dead''), (''x'', ''dead''), (''K'', ''wakekill''), (''W'', ''waking''),
     (''P'', ''parked''), (''I'', ''idle'')]"

definition proc_btime :: "linux_host \<Rightarrow> pyfloat" where
  "proc_btime h = (case find (\<lambda>l. startswith l ''btime '') (splitlines (file_text h ''/proc/stat'')) of
     None \<Rightarrow> Fin 0
   | Some l \<Rightarrow> (case split_words l of _ # w # ws \<Rightarrow> (case parse_float w of Some f \<Rightarrow> f | None \<Rightarrow> Fin 0) | _ \<Rightarrow> Fin 0))"

definition comm_of :: "string \<Rightarrow> (string \<times> string) option" where
  \<comment> \<open>the name between the first \<open>(\<close> and the last \<open>)\<close>, and the text after it and a blank\<close>
  "comm_of stat =
     (let start = length (takeWhile (\<lambda>c. c \<noteq> CHR ''('') stat); stop = length stat - 1 - length (takeWhile (\<lambda>c. c \<noteq> CHR '')'') (rev stat)) in
      if CHR ''('' \<notin> set stat \<or> CHR '')'' \<notin> set stat \<or> stop < start then None
      else Some (slice (start + 1) stop stat, drop (stop + 2) stat))"

fun float_plus :: "pyfloat \<Rightarrow> pyfloat \<Rightarrow> pyfloat" where
  \<comment> \<open>addition, infinities of one sign only\<close>
  "float_plus (Fin a) (Fin b) = Fin (a + b)"
| "float_plus (Fin a) f = f"
| "float_plus f (Fin b) = f"
| "float_plus f g = (if f = g then f else NaN)"

definition uid_of :: "linux_host \<Rightarrow> int \<Rightarrow> int option" where
  "uid_of h pid = (case find (\<lambda>l. startswith l ''Uid:'') (splitlines (file_text h (''/proc/'' @ int_str pid @ ''/status''))) of
     None \<Rightarrow> None
   | Some l \<Rightarrow> (case split_words l of _ # w # ws \<Rightarrow> parse_int w | _ \<Rightarrow> None))"

definition process_name :: "linux_host \<Rightarrow> int \<Rightarrow> json" where
  "process_name h pid = (case uid_of h pid of None \<Rightarrow> JNull
     | Some u \<Rightarrow> JStr (case lh_user h u of Some n \<Rightarrow> n | None \<Rightarrow> int_str u))"

definition start_time :: "linux_host \<Rightarrow> pyfloat \<Rightarrow> pyfloat \<Rightarrow> (json \<times> json) res" where
  \<comment> \<open>boot time and start in ticks; as text and as number\<close>
  "start_time h btime ticks =
     (if lh_ticks h = 0 then Inr (JNull, JNull)
      else (let t = float_plus btime (fscale (1 / lh_ticks h) ticks) in
        if t = Fin 0 then Inr (JNull, JFloat t)
        else res_bind (from_timestamp t) (\<lambda>iso. Inr (JStr iso, JFloat t))))"

definition linux_one_proc :: "linux_host \<Rightarrow> int \<Rightarrow> string \<Rightarrow> pyfloat \<Rightarrow> dict option res" where
  "linux_one_proc h pid needle btime =
     (case comm_of (file_text h (''/proc/'' @ int_str pid @ ''/stat'')) of
        None \<Rightarrow> Inr None
      | Some (name, after) \<Rightarrow>
         (let rest = split_words after in
          if (needle \<noteq> [] \<and> \<not> contains (lower name) needle) \<or> length rest < 20 then Inr None
          else (case (parse_int (rest ! 1), parse_float (rest ! 19)) of
             (Some ppid, Some ticks) \<Rightarrow>
               res_bind (start_time h btime ticks) (\<lambda>(iso, unix).
               Inr (Some [(''pid'', JInt pid), (''ppid'', JInt ppid), (''name'', JStr name), (''username'', process_name h pid),
                 (''status'', JStr (case map_of PROC_STATUS (rest ! 0) of Some st \<Rightarrow> st | None \<Rightarrow> rest ! 0)),
                 (''status_code'', JStr (rest ! 0)), (''create_time'', iso), (''create_time_unix'', unix),
                 (''cpu_percent'', JNull), (''memory_percent'', JNull),
                 (''cmdline'', JStr (take 500 (strip (map (\<lambda>c. if c = CHR 0x00 then CHR '' '' else c)
                    (file_text h (''/proc/'' @ int_str pid @ ''/cmdline''))))))]))
           | _ \<Rightarrow> Inr None)))"

primrec proc_rows :: "linux_host \<Rightarrow> string \<Rightarrow> pyfloat \<Rightarrow> nat \<Rightarrow> int list \<Rightarrow> dict list \<Rightarrow> (dict list \<times> bool) res" where
  "proc_rows h needle btime n [] out = Inr (out, False)"
| "proc_rows h needle btime n (pid # pids) out =
     (if length out \<ge> n then Inr (out, True)
      else res_bind (linux_one_proc h pid needle btime) (\<lambda>r.
        proc_rows h needle btime n pids (case r of None \<Rightarrow> out | Some d \<Rightarrow> out @ [d])))"

definition linux_process_rows :: "linux_host \<Rightarrow> string \<Rightarrow> int \<Rightarrow> (dict list \<times> bool) res" where
  "linux_process_rows h name_filter limit =
     (case list_dir (lh_sys h) ''/proc'' of
        None \<Rightarrow> Inr ([], False)
      | Some names \<Rightarrow> proc_rows h (strip (lower name_filter)) (proc_btime h) (nat (max 1 limit))
          (sort (map (int \<circ> digits_val) (filter (\<lambda>n. n \<noteq> [] \<and> list_all is_digit n) names))) [])"

section \<open>Units\<close>

definition parse_systemctl_line :: "string \<Rightarrow> dict option" where
  \<comment> \<open>a line of \<open>list-units\<close>\<close>
  "parse_systemctl_line line =
     (case split_words line of
        [] \<Rightarrow> None
      | u # ws \<Rightarrow> Some ([(''unit'', JStr u), (''raw'', JStr (take 240 (strip line)))]
          @ zip [''load'', ''active'', ''sub''] (map JStr ws)
          @ (if length ws > 3 then [(''description'', JStr (take 200 (join '' '' (drop 3 ws))))] else [])))"

definition parse_timer_line :: "string \<Rightarrow> string \<Rightarrow> dict option" where
  \<comment> \<open>a line in which the unit is the word with a given suffix\<close>
  "parse_timer_line suf line = (case find (\<lambda>w. endswith w suf) (split_words line) of
     None \<Rightarrow> None | Some u \<Rightarrow> Some [(''unit'', JStr u), (''raw'', JStr (take 240 (strip line)))])"

definition parse_unit_file_line :: "string \<Rightarrow> dict option" where
  "parse_unit_file_line line = (case split_words line of
     [] \<Rightarrow> None
   | u # ws \<Rightarrow> Some ([(''unit'', JStr u), (''raw'', JStr (take 240 (strip line)))] @ zip [''state'', ''preset''] (map JStr ws)))"

definition unit_rows :: "linux_host \<Rightarrow> (string \<Rightarrow> dict option) \<Rightarrow> string list \<Rightarrow> nat \<Rightarrow> dict list res" where
  \<comment> \<open>the rows of a call of \<open>systemctl\<close>, by unit\<close>
  "unit_rows h parse args n =
     (if \<not> has_tool h ''systemctl'' then Inr []
      else res_bind (run_on h (''systemctl'' # args)) (\<lambda>(rc, out, err).
        Inr (take n (sort_key (\<lambda>r. str_or (getv r ''unit'') []) (List.map_filter parse (splitlines out))))))"

definition plain_flags :: "string list" where
  "plain_flags = [''--no-pager'', ''--no-legend'', ''--plain'']"

definition systemctl_rows :: "linux_host \<Rightarrow> string list \<Rightarrow> nat \<Rightarrow> dict list res" where
  "systemctl_rows h args n = unit_rows h parse_systemctl_line (args @ plain_flags) (max 1 n)"

definition unit_file_rows :: "linux_host \<Rightarrow> nat \<Rightarrow> dict list res" where
  "unit_file_rows h n = unit_rows h parse_unit_file_line
     ([''list-unit-files'', ''--type=service'', ''--state=enabled''] @ plain_flags) (max 1 n)"

definition enrich_row :: "dict list \<Rightarrow> dict \<Rightarrow> dict" where
  "enrich_row units row =
     (let live = (case find (\<lambda>u. str_or (getv u ''unit'') [] = str_or (getv row ''unit'') [] \<and> truthy (getv u ''unit'')) (rev units) of
            Some u \<Rightarrow> u | None \<Rightarrow> []) in
      fold (\<lambda>k r. if truthy (getv live k) then dset k (JStr (py_str (getv live k))) r else r) [''load'', ''active'', ''sub''] row)"

definition enrich_enabled :: "dict list \<Rightarrow> dict list \<Rightarrow> dict list" where
  "enrich_enabled enabled units = map (enrich_row units) enabled"

definition linux_systemd_units :: "linux_host \<Rightarrow> int \<Rightarrow> int \<Rightarrow> dict" where
  "linux_systemd_units h mu mtimers =
     (let nu = nat (max 1 (min (if mu = 0 then 400 else mu) 400)); nt = nat (max 1 (min (if mtimers = 0 then 200 else mtimers) 200)) in
      on_linux h ''linux_systemd_units''
       (if \<not> has_tool h ''systemctl'' then
          Inr [(''tool'', JStr ''linux_systemd_units''), (''status'', JStr ''ERROR''),
               (''error'', JStr (''systemctl no est'' @ [CHR 0xE1] @ '' en PATH''))]
        else res_bind (systemctl_rows h [''list-units'', ''--type=service'', ''--all''] nu) (\<lambda>units.
          res_bind (systemctl_rows h [''list-units'', ''--type=timer'', ''--all''] nt) (\<lambda>timers.
          res_bind (unit_file_rows h nu) (\<lambda>files.
          Inr [(''tool'', JStr ''linux_systemd_units''), (''status'', JStr ''OK''), (''count'', JInt (int (length units))),
            (''failed'', JInt (int (length (filter (\<lambda>u. lower (str_or (getv u ''active'') []) = ''failed'') units)))),
            (''units'', JList (map JObj units)), (''timers'', JList (map JObj timers)),
            (''enabled'', JList (map JObj (enrich_enabled files units))), (''error'', JNull), (''ts'', stamp h)])))))"

definition fingerprint_rows :: "string \<Rightarrow> dict \<Rightarrow> (string \<times> dict) list \<Rightarrow> (string \<times> dict) list" where
  "fingerprint_rows k rec out = fold (\<lambda>item out.
     (let name = str_or (getv item ''unit'') [] in if name = [] then out else dset (k @ '':'' @ name) item out)) (recs rec k) out"

definition systemd_fingerprint :: "dict \<Rightarrow> (string \<times> dict) list" where
  "systemd_fingerprint rec = fingerprint_rows ''enabled'' rec (fingerprint_rows ''timers'' rec (fingerprint_rows ''units'' rec []))"

section \<open>Security modules and packages\<close>

definition audit_log_path :: "linux_host \<Rightarrow> string option" where
  "audit_log_path h = find (lh_is_file h) [''/var/log/audit/audit.log'', ''/var/log/audit.log'']"

definition or_state :: "bool \<Rightarrow> string \<Rightarrow> json" where
  "or_state present mode = JStr (if mode \<noteq> [] then mode else if present then ''unknown'' else ''disabled'')"

definition selinux_mode :: "linux_host \<Rightarrow> string res" where
  "selinux_mode h =
     (if has_tool h ''getenforce'' then res_bind (run_on h [''getenforce'']) (\<lambda>(rc, out, err). Inr (strip out))
      else if lh_exists h ''/sys/fs/selinux/enforce'' then
        (let raw = strip (file_text h ''/sys/fs/selinux/enforce'') in
         Inr (if raw = ''1'' then ''Enforcing'' else if raw = ''0'' then ''Permissive'' else raw))
      else Inr [])"

definition selinux_status :: "linux_host \<Rightarrow> dict res" where
  "selinux_status h =
     (let present = (lh_exists h ''/sys/fs/selinux'' \<or> lh_exists h ''/etc/selinux/config'');
          lines = (case audit_log_path h of None \<Rightarrow> [] | Some p \<Rightarrow> tail_lines h p 200) in
      res_bind (selinux_mode h) (\<lambda>mode.
      Inr [(''present'', JBool present), (''mode'', or_state present mode),
        (''denials'', JList (map (\<lambda>l. JStr (take 240 l)) (take 12 (filter (\<lambda>l. contains l ''AVC'' \<or> contains l ''avc:'') lines))))]))"

definition apparmor_mode :: "linux_host \<Rightarrow> (string \<times> string list) res" where
  \<comment> \<open>the mode and the profiles\<close>
  "apparmor_mode h =
     (if has_tool h ''aa-status'' then
        res_bind (run_on h [''aa-status'']) (\<lambda>(rc, out, err).
        Inr (if rc = 0 then ''enabled'' else ''unknown'',
             map (\<lambda>l. take 180 (strip l)) (filter (\<lambda>l. strip l \<noteq> []) (take 40 (splitlines out)))))
      else if lh_exists h ''/sys/module/apparmor/parameters/enabled'' then
        Inr (if lower (strip (file_text h ''/sys/module/apparmor/parameters/enabled'')) \<in> {''y'', ''1'', ''yes''}
             then ''enabled'' else ''disabled'', [])
      else Inr ([], []))"

definition apparmor_status :: "linux_host \<Rightarrow> dict res" where
  "apparmor_status h =
     (let present = (lh_exists h ''/sys/kernel/security/apparmor'' \<or> lh_exists h ''/sys/module/apparmor/parameters/enabled'') in
      res_bind (apparmor_mode h) (\<lambda>(mode, profiles).
      res_bind (if has_tool h ''journalctl''
          then res_bind (run_on h [''journalctl'', ''-k'', ''-n'', ''80'', ''--no-pager'', ''-g'', ''apparmor'']) (\<lambda>(rc, out, err). Inr (splitlines out))
          else Inr []) (\<lambda>lines.
      Inr [(''present'', JBool present), (''mode'', or_state present mode), (''profiles'', JList (map JStr (take 20 profiles))),
        (''denials'', JList (map (\<lambda>l. JStr (take 240 l))
           (take 12 (filter (\<lambda>l. contains l ''DENIED'' \<or> contains (lower l) ''apparmor'') lines))))])))"

definition linux_lsm :: "linux_host \<Rightarrow> dict" where
  "linux_lsm h = on_linux h ''linux_lsm''
     (res_bind (selinux_status h) (\<lambda>se. res_bind (apparmor_status h) (\<lambda>aa.
      Inr [(''tool'', JStr ''linux_lsm''), (''status'', JStr ''OK''), (''selinux'', JObj se), (''apparmor'', JObj aa),
        (''active'', JBool (lower (str_or (getv se ''mode'') []) \<in> {''enforcing'', ''permissive''}
                            \<or> lower (str_or (getv aa ''mode'') []) = ''enabled'')),
        (''error'', JNull), (''ts'', stamp h)])))"

definition digest_at :: "linux_host \<Rightarrow> string \<Rightarrow> dict option" where
  "digest_at h p = (case lh_digest h p of Some d \<Rightarrow> if d = [] then None else Some [(''path'', JStr p), (''sha256'', JStr d)] | None \<Rightarrow> None)"

definition package_program :: "linux_host \<Rightarrow> string \<Rightarrow> bool" where
  "package_program h p \<longleftrightarrow> startswith p ''/'' \<and> (contains p ''/bin/'' \<or> contains p ''/sbin/'') \<and> lh_is_file h p \<and> lh_can_exec h p"

definition hash_linux_package :: "linux_host \<Rightarrow> string \<Rightarrow> string \<Rightarrow> dict option res" where
  "hash_linux_package h given manager =
     (let name = strip given; cmd = (if manager = ''dpkg'' then [''dpkg'', ''-L'', name] else [''rpm'', ''-ql'', name]) in
      if name = [] then Inr None
      else (case (case which (lh_sys h) name of Some p \<Rightarrow> digest_at h p | None \<Rightarrow> None) of
         Some d \<Rightarrow> Inr (Some d)
       | None \<Rightarrow>
          if \<not> has_tool h (hd cmd) then Inr None
          else res_bind (run_on h cmd) (\<lambda>(rc, out, err).
            Inr (first_some (digest_at h) (filter (package_program h) (map strip (splitlines out)))))))"

definition package_line :: "string \<Rightarrow> dict option" where
  "package_line l = (if CHR 0x09 \<notin> set l then None
     else (case split_once (CHR 0x09) l of (n, v) \<Rightarrow> Some [(''name'', JStr n), (''version'', JStr v)]))"

primrec hash_packages :: "linux_host \<Rightarrow> string \<Rightarrow> nat \<Rightarrow> dict list \<Rightarrow> nat \<Rightarrow> (dict list \<times> nat) res" where
  \<comment> \<open>manager, limit, packages, hashed so far\<close>
  "hash_packages h mgr n [] k = Inr ([], k)"
| "hash_packages h mgr n (p # ps) k =
     (if k \<ge> n then Inr (p # ps, k)
      else res_bind (hash_linux_package h (str_or (getv p ''name'') []) mgr) (\<lambda>info.
        res_bind (hash_packages h mgr n ps (if info = None then k else Suc k)) (\<lambda>(qs, m).
        Inr ((case info of Some d \<Rightarrow> dupdate p d | None \<Rightarrow> p) # qs, m))))"

definition package_query :: "linux_host \<Rightarrow> (string \<times> string list) option" where
  \<comment> \<open>the manager and its command\<close>
  "package_query h =
     (if has_tool h ''dpkg-query'' then Some (''dpkg'', [''dpkg-query'', ''-W'',
        ''-f=${Package}'' @ [CHR 0x5C] @ ''t${Version}'' @ [CHR 0x5C] @ ''n''])
      else if has_tool h ''rpm'' then Some (''rpm'', [''rpm'', ''-qa'', ''--qf'',
        ''%{NAME}'' @ [CHR 0x5C] @ ''t%{VERSION}-%{RELEASE}'' @ [CHR 0x5C] @ ''n''])
      else None)"

definition linux_packages :: "linux_host \<Rightarrow> bool \<Rightarrow> int \<Rightarrow> int \<Rightarrow> dict" where
  "linux_packages h with_hash mh mp =
     (let nh = nat (max 0 (min (if mh = 0 then 20 else mh) 80)); np = nat (max 1 (min (if mp = 0 then 400 else mp) 4000)) in
      on_linux h ''linux_packages''
       (case package_query h of
          None \<Rightarrow> Inr [(''tool'', JStr ''linux_packages''), (''status'', JStr ''ERROR''),
             (''error'', JStr (''No se encontr'' @ [CHR 0xF3] @ '' dpkg ni rpm''))]
        | Some (mgr, cmd) \<Rightarrow>
           res_bind (run_on h cmd) (\<lambda>(rc, out, err).
           res_bind (if with_hash then hash_packages h mgr nh (collect np (map package_line (splitlines out)) []) 0
                     else Inr (collect np (map package_line (splitlines out)) [], 0)) (\<lambda>(pkgs, hashed).
           Inr [(''tool'', JStr ''linux_packages''), (''status'', JStr ''OK''), (''package_manager'', JStr mgr),
             (''count'', JInt (int (length pkgs))), (''hashed'', JInt (int hashed)), (''cross_tool'', JStr ''installed_software''),
             (''packages'', JList (map JObj pkgs)), (''error'', JNull), (''ts'', stamp h)]))))"

end
