(* ===== verification/Linux_Facts.thy ===== *)
theory Linux_Facts
  imports Linux_Collect
begin

text \<open>
  What the Linux collectors find: the names of network interfaces in the bytes of a netlink
  socket, addresses in the kernel's hexadecimal form, the fields of a process whatever its name,
  the counters of the connections and the mounted volumes. The formats of the kernel are
  written as encoders, and the parsers of the agent are shown to invert them.
\<close>

section \<open>Process names\<close>

lemma takeWhile_until: "c \<notin> set p \<Longrightarrow> takeWhile (\<lambda>x. x \<noteq> c) (p @ c # q) = p"
  by (induction p) auto

lemma dropWhile_until: "c \<notin> set p \<Longrightarrow> dropWhile (\<lambda>x. x \<noteq> c) (p @ c # q) = c # q"
  by (induction p) auto

lemma split_once_until: "c \<notin> set p \<Longrightarrow> split_once c (p @ c # q) = (p, q)"
  by (simp add: split_once_def takeWhile_until dropWhile_until)

lemma comm_of_exact:
  assumes "CHR ''('' \<notin> set p" "CHR '')'' \<notin> set rest"
  shows "comm_of (p @ CHR ''('' # name @ CHR '')'' # CHR '' '' # rest) = Some (name, rest)"
proof -
  have a: "takeWhile (\<lambda>c. c \<noteq> CHR ''('') (p @ CHR ''('' # name @ CHR '')'' # CHR '' '' # rest) = p"
    using assms(1) by (rule takeWhile_until)
  have b: "takeWhile (\<lambda>c. c \<noteq> CHR '')'') (rev (p @ CHR ''('' # name @ CHR '')'' # CHR '' '' # rest)) = rev rest @ [CHR '' '']"
    using takeWhile_until [of "CHR '')''" "rev rest @ [CHR '' '']" "rev name @ CHR ''('' # rev p"] assms(2) by simp
  show ?thesis unfolding comm_of_def Let_def a b by (simp add: slice_def numeral_3_eq_3)
qed

text \<open>
  C34: A process name cannot shift the fields of \<open>/proc/<pid>/stat\<close>: whatever the name contains, blanks and
  parentheses too, the row of the process has that name and the status, the parent and the start
  of the text behind it.
\<close>

theorem process_names_keep_fields:
  assumes "file_text h (''/proc/'' @ int_str pid @ ''/stat'') = p @ CHR ''('' # name @ CHR '')'' # CHR '' '' # rest"
    "CHR ''('' \<notin> set p" "CHR '')'' \<notin> set rest"
    "length (split_words rest) \<ge> 20" "parse_int (split_words rest ! 1) = Some ppid" "parse_float (split_words rest ! 19) = Some ticks"
    "needle = [] \<or> contains (lower name) needle" "start_time h btime ticks = Inr (born, unix)"
  shows "\<exists>d. linux_one_proc h pid needle btime = Inr (Some d) \<and> getv d ''name'' = JStr name \<and> getv d ''ppid'' = JInt ppid
    \<and> getv d ''status_code'' = JStr (split_words rest ! 0) \<and> getv d ''create_time'' = born"
  using assms(1) comm_of_exact [OF assms(2,3), of name] assms(4-8) by (auto simp: linux_one_proc_def Let_def getv_def)

section \<open>Addresses of sockets\<close>

definition kernel_digit :: "nat \<Rightarrow> char" where
  "kernel_digit n = (if n < 10 then digit_char n else char_of (55 + n))"

definition kernel_byte :: "nat \<Rightarrow> string" where
  "kernel_byte n = [kernel_digit (n div 16), kernel_digit (n mod 16)]"

definition kernel_endpoint :: "nat \<times> nat \<times> nat \<times> nat \<Rightarrow> nat \<Rightarrow> string" where
  \<comment> \<open>the format of \<open>/proc/net/tcp\<close>: the address as a little endian number, both in hexadecimal\<close>
  "kernel_endpoint = (\<lambda>(a, b, c, d) port. kernel_byte d @ kernel_byte c @ kernel_byte b @ kernel_byte a @ CHR '':''
     # kernel_byte (port div 256) @ kernel_byte (port mod 256))"

lemma hex_val_kernel: "n < 16 \<Longrightarrow> hex_val (kernel_digit n) = Some n"
  by (auto simp: hex_val_def kernel_digit_def is_digit_def digit_char_def code_point_def Let_def)

lemma kernel_digit_plain:
  assumes "n < 16"
  shows "kernel_digit n \<noteq> CHR '':''" "kernel_digit n \<noteq> CHR ''_''" "kernel_digit n \<noteq> CHR ''-''"
    "kernel_digit n \<noteq> CHR ''+''" "kernel_digit n \<noteq> CHR ''x''" "kernel_digit n \<noteq> CHR ''X''" "\<not> is_space (kernel_digit n)"
proof -
  have v: "hex_val c = None" if "c \<in> {CHR '':'', CHR ''_'', CHR ''-'', CHR ''+'', CHR ''x'', CHR ''X''}" for c
    using that by (auto simp: hex_val_def is_digit_def code_point_def)
  show "kernel_digit n \<noteq> CHR '':''" "kernel_digit n \<noteq> CHR ''_''" "kernel_digit n \<noteq> CHR ''-''"
    "kernel_digit n \<noteq> CHR ''+''" "kernel_digit n \<noteq> CHR ''x''" "kernel_digit n \<noteq> CHR ''X''"
    using hex_val_kernel [OF assms] v [of "kernel_digit n"] by auto
  show "\<not> is_space (kernel_digit n)"
    using assms by (auto simp: is_space_def kernel_digit_def digit_char_def code_point_def Let_def)
qed

lemma nibbles: "(n :: nat) < 256 \<Longrightarrow> n div 16 < 16" "n mod 16 < 16" by auto

lemma from_hex_kernel:
  "n < 256 \<Longrightarrow> from_hex (kernel_byte n @ s) = map_option ((#) n) (from_hex s)"
  by (cases "from_hex s") (simp_all add: kernel_byte_def hex_val_kernel nibbles)

lemma hex_number_kernel:
  "n < 256 \<Longrightarrow> hex_number (kernel_byte n @ s) d acc = hex_number s True (256 * acc + n)"
  by (simp add: kernel_byte_def hex_val_kernel nibbles kernel_digit_plain add.commute)

lemma kernel_byte_plain:
  assumes "n < 256"
  shows "CHR '':'' \<notin> set (kernel_byte n)" "\<forall>c \<in> set (kernel_byte n). \<not> is_space c"
  using assms by (auto simp: kernel_byte_def nibbles kernel_digit_plain kernel_digit_plain(1) [THEN not_sym])

lemma parse_hex_kernel:
  assumes "port < 65536"
  shows "parse_hex (kernel_byte (port div 256) @ kernel_byte (port mod 256)) = Some (int port)"
proof -
  have b: "port div 256 < 256" "port mod 256 < 256" using assms by auto
  have s: "strip (kernel_byte (port div 256) @ kernel_byte (port mod 256)) = kernel_byte (port div 256) @ kernel_byte (port mod 256)"
    using kernel_byte_plain(2) [OF b(1)] kernel_byte_plain(2) [OF b(2)] by (intro strip_no_space) auto
  have t: "take_sign (kernel_byte n @ r) = (1, kernel_byte n @ r)" "\<not> startswith (kernel_byte n @ r) ''0x''"
      "\<not> startswith (kernel_byte n @ r) ''0X''" if "n < 256" for n r
    using that by (simp_all add: take_sign_def startswith_def kernel_byte_def kernel_digit_plain nibbles)
  show ?thesis using hex_number_kernel [OF b(2), of "[]"]
    by (simp add: parse_hex_def s t [OF b(1)] hex_number_kernel [OF b(1)])
qed

text \<open>
  The text that the kernel writes for an IPv4 endpoint, the address as a little endian number and the
  port, both in hexadecimal, is read as the dotted address and the decimal port.
\<close>

theorem kernel_endpoints_are_read:
  assumes "a < 256" "b < 256" "c < 256" "d < 256" "port < 65536"
  shows "hex_endpoint (kernel_endpoint (a, b, c, d) port) = Some (join ''.'' (map nat_digits [a, b, c, d]) @ '':'' @ int_str (int port))"
proof -
  let ?ip = "kernel_byte d @ kernel_byte c @ kernel_byte b @ kernel_byte a"
  let ?port = "kernel_byte (port div 256) @ kernel_byte (port mod 256)"
  have tok: "kernel_endpoint (a, b, c, d) port = ?ip @ CHR '':'' # ?port" by (simp add: kernel_endpoint_def)
  have "CHR '':'' \<notin> set ?ip" using kernel_byte_plain(1) assms by simp
  then have "split_once (CHR '':'') (?ip @ CHR '':'' # ?port) = (?ip, ?port)"
    by (rule split_once_until)
  moreover have "from_hex ?ip = Some [d, c, b, a]"
    using from_hex_kernel [OF assms(1), of "[]"] by (simp add: from_hex_kernel assms)
  ultimately show ?thesis by (simp add: tok hex_endpoint_def parse_hex_kernel [OF assms(5)] dotted_def)
qed

section \<open>Netlink messages\<close>

datatype nl_attr = Attr nat bytes
  \<comment> \<open>type and payload\<close>

datatype nl_message =
    Link bytes bytes "nl_attr list"
      \<comment> \<open>the rest of the header, the fixed part and the attributes of a \<open>RTM_NEWLINK\<close>\<close>
  | Other nat bytes bytes

definition le16 :: "nat \<Rightarrow> bytes" where
  "le16 n = [of_nat (n mod 256), of_nat (n div 256)]"

definition le32 :: "nat \<Rightarrow> bytes" where
  "le32 n = le16 (n mod 65536) @ le16 (n div 65536)"

definition padded :: "bytes \<Rightarrow> bytes" where
  "padded b = b @ replicate (align4 (length b) - length b) 0"

fun attr_bytes :: "nl_attr \<Rightarrow> bytes" where
  "attr_bytes (Attr t b) = padded (le16 (4 + length b) @ le16 t @ b)"

definition attrs_bytes :: "nl_attr list \<Rightarrow> bytes" where
  "attrs_bytes as = concat (map attr_bytes as)"

fun message_bytes :: "nl_message \<Rightarrow> bytes" where
  "message_bytes (Link hdr fixed as) = le32 (32 + length (attrs_bytes as)) @ le16 16 @ hdr @ fixed @ attrs_bytes as"
| "message_bytes (Other t hdr b) = padded (le32 (16 + length b) @ le16 t @ hdr @ b)"

fun attr_ok :: "nl_attr \<Rightarrow> bool" where
  "attr_ok (Attr t b) \<longleftrightarrow> t < 65536 \<and> 4 + length b < 65536"

fun message_ok :: "nl_message \<Rightarrow> bool" where
  "message_ok (Link hdr fixed as) \<longleftrightarrow> length hdr = 10 \<and> length fixed = 16 \<and> list_all attr_ok as
     \<and> 32 + length (attrs_bytes as) < 4294967296"
| "message_ok (Other t hdr b) \<longleftrightarrow> t < 65536 \<and> t \<noteq> 3 \<and> t \<noteq> 16 \<and> length hdr = 10 \<and> 16 + length b < 4294967296"

fun attr_name :: "nl_attr \<Rightarrow> bytes list" where
  \<comment> \<open>the text of an \<open>IFLA_IFNAME\<close>, up to its final zero\<close>
  "attr_name (Attr t b) = (if t = 3 then [takeWhile (\<lambda>w. w \<noteq> 0) b] else [])"

fun link_names :: "nl_message \<Rightarrow> bytes list" where
  "link_names (Link hdr fixed as) = concat (map attr_name as)"
| "link_names (Other t hdr b) = []"

lemma unat_byte: "n < 256 \<Longrightarrow> unat (of_nat n :: 8 word) = n"
  by (simp add: unat_of_nat)

lemma le_lengths [simp]: "length (le16 n) = 2" "length (le32 n) = 4"
  by (simp_all add: le16_def le32_def)

lemma u16_shift [simp]: "u16 (p @ b) (length p + i) = u16 b i"
  by (simp add: u16_def nth_append add.assoc)

lemma u32_shift [simp]: "u32 (p @ b) (length p + i) = u32 b i"
  by (simp add: u32_def add.assoc del: add_2_eq_Suc add_2_eq_Suc')

lemma u16_le16: "n < 65536 \<Longrightarrow> u16 (le16 n @ b) 0 = n"
  by (simp add: u16_def le16_def unat_byte)

lemma u32_le32: "n < 4294967296 \<Longrightarrow> u32 (le32 n @ b) 0 = n"
proof -
  assume n: "n < 4294967296"
  have "u16 (le32 n @ b) 0 = n mod 65536" by (simp add: le32_def u16_le16)
  moreover have "u16 (le32 n @ b) 2 = n div 65536"
    using n u16_shift [of "le16 (n mod 65536)" "le16 (n div 65536) @ b" 0] by (simp add: le32_def u16_le16)
  ultimately show ?thesis by (simp add: u32_def numeral_2_eq_2)
qed

lemma slice_shift [simp]: "slice (length p + i) (length p + j) (p @ b) = slice i j b"
  by (simp add: slice_def)

lemma nl_attrs_shift: "nl_attrs (p @ b) (length p + i) (length p + stop) = nl_attrs b i stop"
proof (induction b i stop rule: nl_attrs.induct)
  case (1 b i stop)
  then show ?case
    by (subst (1 2) nl_attrs.simps) (simp add: add.assoc del: add_2_eq_Suc add_2_eq_Suc')
qed

lemma nl_messages_shift: "nl_messages (p @ b) (length p + i) = nl_messages b i"
proof (induction b i rule: nl_messages.induct)
  case (1 b i)
  then show ?case
    by (subst (1 2) nl_messages.simps) (simp add: add.assoc nl_attrs_shift del: add_2_eq_Suc add_2_eq_Suc')
qed

lemma length_padded [simp]: "length (padded b) = align4 (length b)"
  using align4_ge [of "length b"] by (simp add: padded_def)

lemma align4_props: "align4 n mod 4 = 0" "align4 (align4 n) = align4 n"
  by (simp_all add: align4_def)

lemma length_attr_bytes: "length (attr_bytes (Attr t b)) = align4 (4 + length b)"
  by (simp del: add_2_eq_Suc add_2_eq_Suc')

lemma nl_attr_step:
  assumes "attr_ok (Attr t b)" "length (attr_bytes (Attr t b)) \<le> stop"
  shows "nl_attrs (attr_bytes (Attr t b) @ q) 0 stop = attr_name (Attr t b) @ nl_attrs q 0 (stop - length (attr_bytes (Attr t b)))"
proof -
  define len where "len = 4 + length b"
  define pad :: bytes where "pad = replicate (align4 len - len) 0"
  define M where "M = attr_bytes (Attr t b) @ q"
  have m: "M = le16 len @ le16 t @ b @ pad @ q" by (simp add: M_def padded_def len_def pad_def del: add_2_eq_Suc add_2_eq_Suc')
  have l: "length (attr_bytes (Attr t b)) = align4 len" by (simp only: length_attr_bytes len_def)
  have a: "u16 M 0 = len" using assms(1) by (simp only: m) (simp add: u16_le16 len_def)
  have t: "u16 M 2 = t" using assms(1) u16_shift [of "le16 len" "le16 t @ b @ pad @ q" 0] by (simp only: m) (simp add: u16_le16)
  have s: "slice 4 len M = b"
    using slice_shift [of "le16 len @ le16 t" 0 "length b" "b @ pad @ q"] by (simp only: m) (simp add: slice_def len_def)
  have g: "len \<le> align4 len" "4 \<le> len" by (simp_all add: align4_ge len_def)
  have r: "nl_attrs M (align4 len) stop = nl_attrs q 0 (stop - align4 len)"
    using nl_attrs_shift [of "attr_bytes (Attr t b)" q 0 "stop - align4 len"] assms(2) by (simp only: l M_def) simp
  show ?thesis
    unfolding M_def [symmetric]
    by (subst nl_attrs.simps) (use g assms(2) in \<open>simp add: a t s r l del: attr_bytes.simps add_2_eq_Suc add_2_eq_Suc'\<close>)
qed

lemma nl_attrs_end: "nl_attrs q 0 0 = []"
  by (subst nl_attrs.simps) simp

lemma nl_attrs_bytes:
  "list_all attr_ok as \<Longrightarrow> nl_attrs (attrs_bytes as @ q) 0 (length (attrs_bytes as)) = concat (map attr_name as)"
proof (induction as)
  case (Cons a as)
  obtain t b where a: "a = Attr t b" by (cases a)
  have "nl_attrs (attr_bytes a @ attrs_bytes as @ q) 0 (length (attr_bytes a) + length (attrs_bytes as))
      = attr_name a @ nl_attrs (attrs_bytes as @ q) 0 (length (attrs_bytes as))"
    using Cons.prems nl_attr_step [of t b "length (attr_bytes a) + length (attrs_bytes as)" "attrs_bytes as @ q"]
    by (simp add: a del: attr_bytes.simps)
  then show ?case using Cons by (simp add: attrs_bytes_def)
qed (simp add: attrs_bytes_def nl_attrs_end)

lemma other_message_step:
  assumes "message_ok (Other t hdr b)"
  shows "nl_messages (message_bytes (Other t hdr b) @ q) 0 = nl_messages q 0"
proof -
  define len where "len = 16 + length b"
  define pad :: bytes where "pad = replicate (align4 len - len) 0"
  let ?m = "message_bytes (Other t hdr b) @ q"
  have h: "length hdr = 10" using assms by simp
  have m: "?m = le32 len @ le16 t @ hdr @ b @ pad @ q" by (simp add: padded_def len_def pad_def h)
  have l: "length (message_bytes (Other t hdr b)) = align4 len" by (simp add: len_def h)
  have a: "u32 ?m 0 = len" using assms by (simp only: m) (simp add: u32_le32 len_def)
  have t: "u16 ?m 4 = t" using assms u16_shift [of "le32 len" "le16 t @ hdr @ b @ pad @ q" 0] by (simp only: m) (simp add: u16_le16)
  have g: "len \<le> align4 len" "16 \<le> len" by (simp_all add: align4_ge len_def)
  have r: "nl_messages ?m (align4 len) = nl_messages q 0"
    using nl_messages_shift [of "message_bytes (Other t hdr b)" q 0] by (simp only: l) simp
  show ?thesis
    by (subst nl_messages.simps) (use g assms in \<open>simp add: a t r l del: message_bytes.simps\<close>)
qed

lemma link_message_step:
  assumes "message_ok (Link hdr fixed as)"
  shows "nl_messages (message_bytes (Link hdr fixed as) @ q) 0 = link_names (Link hdr fixed as) @ nl_messages q 0"
proof -
  define len where "len = 32 + length (attrs_bytes as)"
  let ?m = "message_bytes (Link hdr fixed as) @ q"
  let ?pre = "le32 len @ le16 16 @ hdr @ fixed"
  have h: "length hdr = 10" "length fixed = 16" using assms by simp_all
  have m: "?m = ?pre @ attrs_bytes as @ q" by (simp add: len_def)
  have l: "length (message_bytes (Link hdr fixed as)) = len" by (simp add: len_def h)
  have a: "u32 ?m 0 = len" using assms by (simp only: m append_assoc) (simp add: u32_le32 len_def)
  have t: "u16 ?m 4 = 16" using u16_shift [of "le32 len" "le16 16 @ hdr @ fixed @ attrs_bytes as @ q" 0]
    by (simp only: m append_assoc) (simp add: u16_le16)
  have al: "align4 len = len"
  proof -
    have "length (attrs_bytes as) mod 4 = 0"
    proof (induction as)
      case (Cons a as)
      obtain t b where "a = Attr t b" by (cases a)
      then show ?case using Cons align4_props(1) [of "4 + length b"] length_attr_bytes [of t b]
        by (simp add: attrs_bytes_def mod_add_eq [symmetric] del: attr_bytes.simps)
    qed (simp add: attrs_bytes_def)
    then have "len mod 4 = 0" by (simp add: len_def mod_add_eq [symmetric])
    then show ?thesis by (auto simp: align4_def mod_eq_0_iff_dvd)
  qed
  have n: "nl_attrs ?m 32 len = concat (map attr_name as)"
    using nl_attrs_shift [of ?pre "attrs_bytes as @ q" 0 "length (attrs_bytes as)"] nl_attrs_bytes [of as q] assms
    by (simp only: m) (simp add: h len_def)
  have r: "nl_messages ?m len = nl_messages q 0"
    using nl_messages_shift [of "message_bytes (Link hdr fixed as)" q 0] by (simp only: l) simp
  have g: "32 \<le> len" by (simp add: len_def)
  show ?thesis
    by (subst nl_messages.simps) (use g in \<open>simp add: a t r l al n del: message_bytes.simps\<close>)
qed

lemma nl_messages_end: "nl_messages [] 0 = []"
  by (subst nl_messages.simps) simp

lemma nl_messages_done: "nl_messages (le32 len @ le16 3 @ q) 0 = []"
  using u16_shift [of "le32 len" "le16 3 @ q" 0] by (subst nl_messages.simps) (simp add: u16_le16)

text \<open>
  C33: The names of the network interfaces are read from any sequence of netlink messages: exactly the
  \<open>IFLA_IFNAME\<close> attributes of the \<open>RTM_NEWLINK\<close> messages, in order, each up to its final zero,
  whatever other attributes, messages and padding lie between them, up to the end of the bytes or
  the first \<open>NLMSG_DONE\<close>.
\<close>

theorem link_names_are_read:
  assumes "\<forall>m \<in> set ms. message_ok m" "tail = [] \<or> (\<exists>len q. tail = le32 len @ le16 3 @ q)"
  shows "parse_nl_ifnames decode (concat (map message_bytes ms) @ tail) = map decode (concat (map link_names ms))"
proof -
  have "nl_messages (concat (map message_bytes ms) @ tail) 0 = concat (map link_names ms)"
    using assms(1)
  proof (induction ms)
    case Nil
    then show ?case using assms(2) nl_messages_end nl_messages_done by auto
  next
    case (Cons m ms)
    then show ?case using link_message_step other_message_step
      by (cases m) (simp_all del: message_bytes.simps message_ok.simps)
  qed
  then show ?thesis by (simp add: parse_nl_ifnames_def)
qed

section \<open>Counters of connections\<close>

definition hits :: "string \<Rightarrow> string list \<Rightarrow> bool" where
  "hits k ws \<longleftrightarrow> length ws \<ge> 4 \<and> (k = ''tcp'' \<or> map_of TCP_COUNT_STATE (map upper_char (ws ! 3)) = Some k)"

definition rows_where :: "('a \<Rightarrow> bool) \<Rightarrow> 'a list \<Rightarrow> int" where
  "rows_where P rows = int (length (filter P rows))"

lemma rows_where_simps [simp]:
  "rows_where P [] = 0" "rows_where P (r # rs) = (if P r then 1 else 0) + rows_where P rs"
  by (simp_all add: rows_where_def)

definition count_spec :: "linux_host \<Rightarrow> string \<Rightarrow> int option" where
  "count_spec h k =
     (let tcp = rows_below h ''/proc/net/tcp'' @ rows_below h ''/proc/net/tcp6'';
          udp = rows_below h ''/proc/net/udp'' @ rows_below h ''/proc/net/udp6'' in
      if k = ''udp'' then Some (rows_where (\<lambda>ws. ws \<noteq> []) udp)
      else if k = ''tcp'' \<or> k \<in> snd ` set TCP_COUNT_STATE then Some (rows_where (hits k) tcp)
      else None)"

lemma map_of_bump: "map_of (bump k c) j = (if j = k then Some ((case map_of c k of Some n \<Rightarrow> n | None \<Rightarrow> 0) + 1) else map_of c j)"
  by (simp add: bump_def)

lemma count_state_range: "map_of TCP_COUNT_STATE x = Some k \<Longrightarrow> k \<in> snd ` set TCP_COUNT_STATE"
  by (auto dest!: map_of_SomeD intro: rev_image_eqI)

lemma count_state_not_total: "''tcp'' \<notin> snd ` set TCP_COUNT_STATE" "''udp'' \<notin> snd ` set TCP_COUNT_STATE"
  by (simp_all add: TCP_COUNT_STATE_def)

lemma count_tcp_step:
  assumes "map_of c k = Some n"
  shows "map_of (count_tcp ws c) k = Some (n + (if hits k ws then 1 else 0))"
  using assms count_state_not_total(1) count_state_range
  by (auto simp: count_tcp_def hits_def map_of_bump Let_def split: option.split)

lemma fold_count_tcp:
  "map_of c k = Some n \<Longrightarrow> map_of (fold count_tcp rows c) k = Some (n + rows_where (hits k) rows)"
proof (induction rows arbitrary: c n)
  case (Cons ws rows)
  then show ?case using Cons.IH [OF count_tcp_step [OF Cons.prems]] by simp
qed simp

lemma count_tcp_none:
  "map_of c k = None \<Longrightarrow> k \<noteq> ''tcp'' \<Longrightarrow> k \<notin> snd ` set TCP_COUNT_STATE \<Longrightarrow> map_of (count_tcp ws c) k = None"
  using count_state_range by (auto simp: count_tcp_def map_of_bump Let_def split: option.split)

lemma fold_count_tcp_none:
  "map_of c k = None \<Longrightarrow> k \<noteq> ''tcp'' \<Longrightarrow> k \<notin> snd ` set TCP_COUNT_STATE \<Longrightarrow> map_of (fold count_tcp rows c) k = None"
  by (induction rows arbitrary: c) (simp_all add: count_tcp_none)

lemma fold_count_udp:
  "map_of (fold count_udp rows c) k =
     (if k = ''udp'' \<and> rows_where (\<lambda>ws. ws \<noteq> []) rows \<noteq> 0
      then Some ((case map_of c k of Some n \<Rightarrow> n | None \<Rightarrow> 0) + rows_where (\<lambda>ws. ws \<noteq> []) rows) else map_of c k)"
proof (induction rows arbitrary: c)
  case (Cons ws rows)
  have "rows_where (\<lambda>ws. ws \<noteq> []) rows \<ge> 0" by (simp add: rows_where_def)
  then show ?case by (simp add: Cons.IH) (auto simp: count_udp_def map_of_bump)
qed simp

lemma empty_counts: "map_of empty_tcp_connections k =
    (if k = ''tcp'' \<or> k = ''udp'' \<or> k \<in> snd ` set TCP_COUNT_STATE then Some 0 else None)"
  by (simp add: empty_tcp_connections_def TCP_COUNT_STATE_def)

lemma hits_udp: "rows_where (hits ''udp'') rows = 0"
  using count_state_not_total(2) count_state_range by (induction rows) (auto simp: hits_def)

text \<open>
  C35: The counters of the connections: all TCP rows, the UDP rows, and for each listed state exactly
  the TCP rows in that state; nothing else is counted.
\<close>

theorem connection_counts_are_exact: "map_of (tcp_connection_counts h) k = count_spec h k"
proof -
  let ?tcp = "rows_below h ''/proc/net/tcp'' @ rows_below h ''/proc/net/tcp6''"
  let ?c = "fold count_tcp ?tcp empty_tcp_connections"
  have c: "map_of ?c k = (if k = ''tcp'' \<or> k = ''udp'' \<or> k \<in> snd ` set TCP_COUNT_STATE then Some (rows_where (hits k) ?tcp) else None)"
    using fold_count_tcp [of empty_tcp_connections k 0 ?tcp] fold_count_tcp_none [of empty_tcp_connections k ?tcp]
    by (auto simp: empty_counts)
  show ?thesis
    using c hits_udp [of ?tcp] count_state_not_total(2) unfolding tcp_connection_counts_def fold_count_udp count_spec_def Let_def
    by auto
qed

section \<open>Volumes\<close>

lemma volumes_of_inv:
  assumes "distinct (map (\<lambda>d. getv d ''mountpoint'') out)" "(\<lambda>d. getv d ''mountpoint'') ` set out \<subseteq> JStr ` set seen"
  shows "distinct (map (\<lambda>d. getv d ''mountpoint'') (volumes_of h n ls seen out))"
  using assms
proof (induction ls arbitrary: seen out)
  case (Cons l ls)
  have mp: "getv (volume_of dev mp fs st) ''mountpoint'' = JStr mp" for dev mp fs st
    by (cases st) (simp add: volume_of_def getv_def Let_def)
  show ?case
    using Cons.prems by (auto simp: mp Let_def image_subset_iff intro!: Cons.IH split: list.split option.split) fastforce+
qed simp

text \<open>
  No mount point is reported twice.
\<close>

theorem volumes_are_distinct: "distinct (map (\<lambda>d. getv d ''mountpoint'') (mount_volumes h n))"
  unfolding mount_volumes_def by (rule volumes_of_inv) simp_all

section \<open>Examples\<close>

definition quiet_system :: system where
  "quiet_system = \<lparr>read_text = \<lambda>p. None, which = \<lambda>t. None, run_cmd = \<lambda>c. (0, [], []), list_dir = \<lambda>d. None,
     file_mode = \<lambda>p. Inr [], clock_text = ''t''\<rparr>"

definition linux_with :: "(string \<times> string) list \<Rightarrow> linux_host" where
  \<comment> \<open>a host with some files\<close>
  "linux_with files = \<lparr>lh_sys = quiet_system\<lparr>read_text := map_of files\<rparr>, lh_os = ''Linux'', lh_raises = \<lambda>c. None,
     lh_exists = \<lambda>p. False, lh_is_dir = \<lambda>p. False, lh_is_file = \<lambda>p. False, lh_can_exec = \<lambda>p. False, lh_mtime = \<lambda>p. 0,
     lh_statvfs = \<lambda>p. None, lh_digest = \<lambda>p. None, lh_fds = \<lambda>p. None, lh_user = \<lambda>u. None, lh_cores = 1, lh_ticks = 100,
     lh_exc_text = \<lambda>x. ''error''\<rparr>"

lemma file_text_with: "file_text (linux_with files) p = (case map_of files p of None \<Rightarrow> [] | Some s \<Rightarrow> s)"
  by (simp add: file_text_def text_at_def linux_with_def quiet_system_def)

definition sample_rest :: string where
  "sample_rest = ''R 1 7 7 0 -1 0 0 0 0 0 0 0 0 0 20 0 1 0 0 0''"

lemma sample_rest_words:
  "split_words sample_rest = [''R'', ''1'', ''7'', ''7'', ''0'', ''-1'', ''0'', ''0'', ''0'', ''0'', ''0'', ''0'', ''0'', ''0'', ''0'', ''20'', ''0'', ''1'', ''0'', ''0'', ''0'']"
  by code_simp

lemma sample_rest_plain: "CHR ''('' \<notin> set sample_rest" "CHR '')'' \<notin> set sample_rest"
  by (simp_all add: sample_rest_def)

lemma sample_numbers: "parse_int ''1'' = Some 1" "int_str 7 = ''7''" "parse_float ''0'' = Some (Fin 0)"
proof -
  show "parse_int ''1'' = Some 1" "int_str 7 = ''7''" by code_simp+
  have "strip ''0'' = ''0''" "lower ''0'' = ''0''" "take_digits False ''0'' = (''0'', [])"
    "digits_val ''0'' = 0" "digits_val [] = 0" by code_simp+
  then show "parse_float ''0'' = Some (Fin 0)"
    by (simp add: parse_float_def take_sign_def frac_val_def parse_exp_def fin_def max_double_def del: take_digits.simps)
qed

definition sample_messages :: "nl_message list" where
  "sample_messages = [Link (replicate 10 0) (replicate 16 0) [Attr 6 [1, 2], Attr 3 [101, 116, 104, 48, 0]],
     Other 20 (replicate 10 0) [7], Link (replicate 10 0) (replicate 16 0) [Attr 3 [108, 111, 0]]]"

definition ascii :: "bytes \<Rightarrow> string" where
  "ascii b = map (\<lambda>w. char_of (unat w)) b"

theorem link_names_are_read_witness:
  "parse_nl_ifnames ascii (concat (map message_bytes sample_messages) @ le32 20 @ le16 3) = [''eth0'', ''lo'']"
proof -
  have ok: "\<forall>m \<in> set sample_messages. message_ok m"
    by (simp add: sample_messages_def attrs_bytes_def align4_def)
  have "parse_nl_ifnames ascii (concat (map message_bytes sample_messages) @ le32 20 @ le16 3)
      = map ascii (concat (map link_names sample_messages))"
    using ok by (rule link_names_are_read) (metis append_Nil2)
  moreover have "map ascii (concat (map link_names sample_messages)) = [''eth0'', ''lo'']"
    by (simp add: sample_messages_def ascii_def char_of_eq_iff)
  ultimately show ?thesis by simp
qed

theorem kernel_endpoints_are_read_witness:
  "hex_endpoint (kernel_endpoint (127, 0, 0, 1) 8080) = Some ''127.0.0.1:8080''"
proof -
  have "nat_digits 127 = ''127''" "nat_digits 0 = ''0''" "nat_digits 1 = ''1''" "int_str 8080 = ''8080''"
    by (simp_all add: int_str_def nat_digits.simps digit_char_def char_of_eq_iff)
  then show ?thesis using kernel_endpoints_are_read [of 127 0 0 1 8080] by simp
qed

theorem process_names_keep_fields_witness:
  "\<exists>d. linux_one_proc (linux_with [(''/proc/7/stat'', ''7 (x) R 9 (y) '' @ sample_rest)]) 7 [] (Fin 0) = Inr (Some d)
    \<and> getv d ''name'' = JStr ''x) R 9 (y'' \<and> getv d ''ppid'' = JInt 1"
proof -
  have t: "file_text (linux_with [(''/proc/7/stat'', ''7 (x) R 9 (y) '' @ sample_rest)]) (''/proc/'' @ int_str 7 @ ''/stat'')
      = ''7 '' @ CHR ''('' # ''x) R 9 (y'' @ CHR '')'' # CHR '' '' # sample_rest"
    by (simp add: file_text_with sample_numbers)
  have s: "start_time (linux_with [(''/proc/7/stat'', ''7 (x) R 9 (y) '' @ sample_rest)]) (Fin 0) (Fin 0) = Inr (JNull, JFloat (Fin 0))"
    by (simp add: start_time_def linux_with_def)
  show ?thesis
    using process_names_keep_fields [OF t, of 1 "Fin 0" "[]" "Fin 0" JNull "JFloat (Fin 0)"] s
    by (auto simp: sample_rest_words sample_rest_plain sample_numbers)
qed

end
