(* ===== verification/Spec2Isabelle.thy ===== *)
theory Spec2Isabelle
  imports Security Rate_Limiter Audit_Log Command_Queue Connection_Manager Telemetry_Buffer Log_Range
    Event_Model Execute_Tool Agent_Session Agent_Admin Tamper Scheduler Rest_Api Self_Update Remediation Cve_Correlator Enrollment Identity
    Json_Parse Otlp_Compact Otlp_Metrics Otlp_Export Server_Logs Otlp_Receiver Py_Regex Endpoint_Scan Sec_Monitors Agent_Socket Query_Api
    Obs_Monitors Linux_Facts
begin

text \<open>
  A verification library of Ruvic Sentinel: a backend that issues commands to agents on the
  machines of its customers, and the agents, which execute them and send telemetry.

  \<^bold>\<open>The program.\<close> A REST call reaches the connection manager of the server, which checks its
  own policy and rate limits, puts the command into a persistent queue, signs a canonical text
  of it with Ed25519 and sends it over the WebSocket of the agent. The agent drops duplicates,
  verifies the signature, applies its local policy and rate limit, looks scripts up in a signed
  catalogue, checks the deadline, acknowledges, executes one tool under a time limit, appends
  to a hash-chained audit log and answers. Commands sent while the agent is away are dispatched
  at its next connection. Scheduled tools and monitors produce events that wait in a buffer on
  disk until they are exported.

  \<^bold>\<open>Theories and sources\<close> (paths under \<^verbatim>\<open>src/\<close>).
  \<^item> \<open>Py_Prelude\<close>, \<open>Py_Text\<close>, \<open>Json_Lines\<close>, \<open>Iso_Time\<close>: Python's values,
    dictionaries, exceptions as values of a sum, texts, numerals, JSON, lines of JSON documents
    and ISO time stamps.
  \<^item> \<open>Machine\<close>: deterministic machines, the locale of an invariant and the locale of a
    simulation, interpreted by the audit log, the queue and its disk, the connection manager,
    the rate limiter and the agent. \<open>Py_Flow\<close>: the statements of a message loop (values,
    \<open>continue\<close>, exceptions) with frame rules.
  \<^item> \<open>Protocol\<close>: \<^verbatim>\<open>colsoft_tools/protocol.py\<close>. \<open>Tool_Catalog\<close>:
    \<^verbatim>\<open>colsoft_tools/tool_catalog.py\<close>. \<open>Security\<close>, \<open>Rate_Limiter\<close>, \<open>Audit_Log\<close>:
    \<^verbatim>\<open>colsoft_tools/security.py\<close>.
  \<^item> \<open>Command_Queue\<close>: \<^verbatim>\<open>server/command_queue.py\<close>. \<open>Connection_Manager\<close>:
    \<^verbatim>\<open>server/connection_manager.py\<close>, with coroutines cut where they wait and every
    interleaving as a list of events.
  \<^item> \<open>Execute_Tool\<close>: \<open>execute_tool\<close> and the result summaries of
    \<^verbatim>\<open>ws_tools_client_embedded.py\<close>; the collectors are one function argument.
    \<open>Agent_Session\<close>: the handler of a command request in \<open>client_session\<close>, guard by guard.
  \<^item> \<open>Event_Model\<close>: \<^verbatim>\<open>colsoft_tools/event_model.py\<close>. \<open>Telemetry_Buffer\<close>:
    \<^verbatim>\<open>colsoft_tools/telemetry_buffer.py\<close>. \<open>Log_Range\<close>:
    \<^verbatim>\<open>colsoft_tools/log_range.py\<close>. \<open>Scheduler\<close>: \<^verbatim>\<open>colsoft_tools/scheduler.py\<close>.
  \<^item> \<open>Config_Manager\<close>, \<open>Agent_Admin\<close>: \<^verbatim>\<open>colsoft_tools/config_manager.py\<close> and the
    commands of \<^verbatim>\<open>colsoft_tools/agent_admin.py\<close>. \<open>Tamper\<close>:
    \<^verbatim>\<open>colsoft_tools/tamper.py\<close>. \<open>Self_Update\<close>: \<^verbatim>\<open>colsoft_tools/self_update.py\<close>.
    \<open>Remediation\<close>: \<^verbatim>\<open>colsoft_tools/remediation.py\<close>.
  \<^item> \<open>Jwt_Auth\<close>: \<^verbatim>\<open>server/lib/jwt_auth.py\<close>. \<open>Owner_Store\<close>: \<^verbatim>\<open>server/lib/ruvic_user.py\<close> and the
    rows of \<^verbatim>\<open>server/lib/agent_store.py\<close>. \<open>Rest_Api\<close>: the endpoints for agents and commands
    of \<^verbatim>\<open>server/controllers.py\<close>. \<open>Agent_Socket\<close>: its WebSocket endpoint and the hardware
    snapshots. \<open>Query_Api\<close>: its endpoints for logs and vulnerabilities.
  \<^item> \<open>Enrollment\<close>: \<^verbatim>\<open>server/enrollment.py\<close>. \<open>Identity\<close>: \<^verbatim>\<open>colsoft_tools/enrollment.py\<close>.
    \<open>Cve_Correlator\<close>: \<^verbatim>\<open>server/lib/cve_correlator.py\<close>.
  \<^item> \<open>Json_Parse\<close>: a parser of JSON texts, inverse to the printer. \<open>Otlp_Compact\<close>,
    \<open>Otlp_Metrics\<close>, \<open>Otlp_Export\<close>: \<^verbatim>\<open>colsoft_tools/data_plane.py\<close>. \<open>Server_Logs\<close>:
    \<^verbatim>\<open>server/lib/metrics_logger.py\<close> and \<^verbatim>\<open>server/save_result.py\<close>. \<open>Otlp_Receiver\<close>:
    \<^verbatim>\<open>server/otlp.py\<close>.
  \<^item> \<open>Py_Regex\<close>: the regular expressions that the scans use, as executable matchers.
    \<open>Endpoint_Scan\<close>: \<^verbatim>\<open>colsoft_tools/endpoint_security.py\<close>. \<open>Sec_Monitors\<close>:
    \<^verbatim>\<open>colsoft_tools/sec_monitors.py\<close>.
  \<^item> \<open>Watcher\<close>: the locales of a monitor that compares each snapshot with the one before,
    interpreted by the watchers of files, persistence, logins, names, processes and services.
    \<open>Obs_Monitors\<close>: \<^verbatim>\<open>colsoft_tools/obs_monitors.py\<close> and, of
    \<^verbatim>\<open>colsoft_tools/observability.py\<close>, the service map, the health probes and the metric paths.
  \<^item> \<open>Linux_Collect\<close>: \<^verbatim>\<open>colsoft_tools/linux_collectors.py\<close>, what it computes from the texts of
    \<^verbatim>\<open>/proc\<close> and \<^verbatim>\<open>/sys\<close>, the output of commands and the bytes of a netlink socket.
    \<open>Linux_Facts\<close>: encoders of the kernel's formats and the proofs that the parsers invert them.

  \<^bold>\<open>What is shown.\<close> For the control channel: every request the backend puts on a socket is
  signed, allowed and verifies at the agent; the agent starts a tool only for a signed, allowed,
  unexpired request, repeats a message id only after 256 others, and answers each admitted
  request exactly once; the local policy equals its declarative specification; the queue
  survives restarts and reconnections treat every record by its state and deadline. For the
  server: commands need a token with the role for their risk, an unverified client changes
  nothing, a session ends alone, every final response is audited and filed, an enrollment token
  is accepted once. For the logs: the audit chain stays valid and is tamper evident; the limiter
  refines the full history of calls. For telemetry: the buffer is a FIFO over files, the exporter
  delivers at least once and in order, a payload fits its limit, and what the agent exports is
  what the server files. For the endpoint: the comparison of baselines reports exactly what
  changed, detections are spaced, local alerts alternate with their clearing, the parsers of the
  Linux collectors read what the kernel writes, the active response is guarded, correlation finds exactly the
  listed packages that an entry hits, an update is installed or rolled back. For administration:
  protected keys survive every remote update. A group of theorems pins down behaviour that
  contradicts its documentation or its evident purpose, among them
  \<open>any_key_opens_any_session\<close>, \<open>unsigned_message_blocks_id\<close>, \<open>late_ack_reopens_command\<close>,
  \<open>restore_never_lifts_isolation\<close>, \<open>execute_takes_agent_over\<close>, \<open>poison_batch_is_resent\<close>,
  \<open>boot_silences_detection\<close>, \<open>deleted_file_is_missed\<close> and \<open>stale_cleanup_drops_new_session\<close>.

  \<^bold>\<open>Conventions.\<close> Characters are code points below 256; a float is an exact rational or an
  infinity or NaN, so rounding of arithmetic is not modelled; instants are microseconds; the bytes
  of a netlink message are 8-bit words. Signing, verifying,
  hashing, clocks, fresh ids, files, processes and sockets are arguments; a file or socket
  operation that can fail has its failure as an input. No loop needs fuel: recursions run over
  lists, the netlink parser and the repeated search of a pattern come nearer to the end of their
  input with every step, and the deque of seen ids is bounded by 256 in the code.

  \<^bold>\<open>Not modelled.\<close> Log texts; the reconnection loop and the command line of the agent; the
  collectors that only read the operating system (network checks, Windows, most of observability,
  the audit and system logs in local time), which are the argument of the executor and of the
  monitors; the monitors of single platforms (\<^verbatim>\<open>linux_monitors.py\<close>, \<^verbatim>\<open>win_monitors.py\<close>); key generation, certificates, TLS and gzip,
  which are library calls; the start of the server, its request models and the client library;
  the bodies that endless loops repeat are modelled, the sleeps between them are not.
\<close>

section \<open>From the backend to the agent\<close>

lemma request_text_canonical:
  assumes "getv msg ''command'' = JStr c" "strip c = c" "truthy (getv msg ''message_id'')"
  shows "request_text (request_of msg) = message_canonical msg"
proof -
  have "strip [] = []" by simp
  then have "raw (request_of msg) = c"
    using assms(1,2) by (cases "c = []") (simp_all add: request_of_def Let_def)
  moreover have "py_or (py_or p (JObj [])) (JObj []) = py_or p (JObj [])" for p by (simp add: py_or_def)
  ultimately show ?thesis
    using assms by (simp add: request_text_def message_canonical_def command_canonical_def)
      (simp add: request_of_def Let_def str_or_def)
qed


definition sample_message :: dict where
  "sample_message = snd (hd (conn_manager.wire (snd sample_sent)))"

lemma sample_message_fields:
  "getv sample_message ''command'' = JStr ''ping''" "truthy (getv sample_message ''message_id'')"
  by code_simp+


end
